(* ===== verification/Prelude.thy ===== *)
theory Prelude
  imports Complex_Main "HOL-Library.Word"
begin

text \<open>
  Shared vocabulary of the development: machine integers, the result type of an operation
  that can fault, loops over containers, and \<open>std::map\<close>.

  \<^item> \<open>u32\<close> is \<open>uint32_t\<close>; \<open>int32\<close> is the value an \<open>int32_t\<close> keeps of an
    integer (two's complement).
  \<^item> \<open>'e + 'a\<close> is the result of code that may stop at a fault: \<open>Inl e\<close> is the
    fault, \<open>Inr a\<close> the value. \<open>bindE\<close> sequences two such steps, \<open>foldE\<close> is a range
    loop whose body is such a step, \<open>runs\<close> is a list of calls one after the other.
    \<open>okE r P\<close> says that \<open>r\<close> is no fault and its value satisfies \<open>P\<close>: total
    correctness.
  \<^item> \<open>std::map<uint32_t, T>\<close> is an association list with strictly increasing keys; an
    iterator is the suffix of the list that starts at the element it points to, so
    \<open>end()\<close> is \<open>[]\<close>. The locale \<open>ordered_map\<close> states what a client relies on.
\<close>

section \<open>Machine integers\<close>

type_synonym u32 = "32 word"

definition int32 :: "int \<Rightarrow> int" where
  "int32 x = sint (word_of_int x :: u32)"

named_theorems int32_simps \<open>arithmetic that stays in the range of a 32-bit signed integer\<close>

lemma int32_id [int32_simps]: "- (2 ^ 31) \<le> x \<Longrightarrow> x < 2 ^ 31 \<Longrightarrow> int32 x = x"
  unfolding int32_def by (subst sint_sbintrunc') (simp add: signed_take_bit_int_eq_self)

lemma int32_range: "- (2 ^ 31) \<le> int32 x \<and> int32 x < 2 ^ 31"
  unfolding int32_def using sint_range_size [of "word_of_int x :: u32"] by (simp add: word_size)

lemma int32_of_small_nat [int32_simps]: "n < 2 ^ 31 \<Longrightarrow> int32 (int n) = int n"
  by (rule int32_id) auto

section \<open>Results that may be faults\<close>

definition bindE :: "'e + 'a \<Rightarrow> ('a \<Rightarrow> 'e + 'b) \<Rightarrow> 'e + 'b" where
  "bindE r f = (case r of Inl e \<Rightarrow> Inl e | Inr a \<Rightarrow> f a)"

definition assertE :: "bool \<Rightarrow> 'e \<Rightarrow> 'a \<Rightarrow> 'e + 'a" where
  "assertE c e a = (if c then Inr a else Inl e)"

definition getE :: "'e \<Rightarrow> 'a option \<Rightarrow> 'e + 'a" where
  "getE e x = (case x of None \<Rightarrow> Inl e | Some a \<Rightarrow> Inr a)"

definition nthE :: "'e \<Rightarrow> 'a list \<Rightarrow> nat \<Rightarrow> 'e + 'a" where
  "nthE e xs i = (if i < length xs then Inr (xs ! i) else Inl e)"

fun foldE :: "('x \<Rightarrow> 's \<Rightarrow> 'e + 's) \<Rightarrow> 'x list \<Rightarrow> 's \<Rightarrow> 'e + 's" where
  "foldE f [] s = Inr s"
| "foldE f (x # xs) s = bindE (f x s) (foldE f xs)"

fun runs :: "('s \<Rightarrow> 'e + 's) list \<Rightarrow> 's \<Rightarrow> 'e + 's" where
  "runs [] s = Inr s"
| "runs (f # fs) s = bindE (f s) (runs fs)"

definition okE :: "'e + 'a \<Rightarrow> ('a \<Rightarrow> bool) \<Rightarrow> bool" where
  "okE r P = (case r of Inl e \<Rightarrow> False | Inr a \<Rightarrow> P a)"

named_theorems okE_simps \<open>weakest preconditions of the result combinators\<close>

lemma bindE_simps [simp]: "bindE (Inl e) f = Inl e" "bindE (Inr a) f = f a"
  by (simp_all add: bindE_def)

lemma bindE_Inr_iff: "bindE r f = Inr b \<longleftrightarrow> (\<exists>a. r = Inr a \<and> f a = Inr b)"
  by (cases r) auto

lemma okE_Inr [simp]: "okE (Inr a) P = P a"
  by (simp add: okE_def)

lemma okE_Inl [simp]: "\<not> okE (Inl e) P"
  by (simp add: okE_def)

lemma okE_bindE [okE_simps]: "okE (bindE r f) P = okE r (\<lambda>a. okE (f a) P)"
  by (cases r) auto

lemma okE_assertE [okE_simps]: "okE (assertE c e a) P = (c \<and> P a)"
  by (simp add: assertE_def)

lemma okE_getE [okE_simps]: "okE (getE e x) P = (\<exists>a. x = Some a \<and> P a)"
  by (simp add: getE_def split: option.splits)

lemma okE_nthE [okE_simps]: "okE (nthE e xs i) P = (i < length xs \<and> P (xs ! i))"
  by (simp add: nthE_def)

lemma okE_if [okE_simps]: "okE (if c then r else q) P = (if c then okE r P else okE q P)"
  by simp

lemma okE_iff: "okE r P \<longleftrightarrow> (\<exists>a. r = Inr a \<and> P a)"
  by (cases r) auto

lemma okE_mono: "okE r P \<Longrightarrow> (\<And>a. P a \<Longrightarrow> Q a) \<Longrightarrow> okE r Q"
  by (cases r) auto

lemma okE_conj: "okE r P \<Longrightarrow> okE r Q \<Longrightarrow> okE r (\<lambda>a. P a \<and> Q a)"
  by (cases r) auto

text \<open>The rule for a loop: an invariant over the elements done and those still to come.\<close>

lemma okE_foldE:
  assumes "P [] s"
    and "\<And>done x rest s. xs = done @ x # rest \<Longrightarrow> P done s \<Longrightarrow> okE (f x s) (P (done @ [x]))"
  shows "okE (foldE f xs s) (P xs)"
proof -
  have "okE (foldE f ys t) (P xs)" if "xs = zs @ ys" and "P zs t" for zs ys t
    using that
  proof (induction ys arbitrary: zs t)
    case Nil
    then show ?case by simp
  next
    case (Cons y ys)
    from assms(2) [OF Cons.prems(1) Cons.prems(2)] have "okE (f y t) (P (zs @ [y]))" .
    then show ?case
      using Cons.IH [of "zs @ [y]"] Cons.prems(1)
      by (auto simp: okE_simps elim!: okE_mono)
  qed
  from this [of "[]" xs s] assms(1) show ?thesis by simp
qed

lemma okE_foldE_inv:
  assumes "P s" and "\<And>x s. x \<in> set xs \<Longrightarrow> P s \<Longrightarrow> okE (f x s) P"
  shows "okE (foldE f xs s) P"
  by (rule okE_foldE [where P = "\<lambda>_. P"]) (use assms in auto)

lemma okE_runs_Cons [okE_simps]: "okE (runs (f # fs) s) P = okE (f s) (\<lambda>t. okE (runs fs t) P)"
  by (simp add: okE_simps)

lemma okE_runs_Nil [okE_simps]: "okE (runs [] s) P = P s"
  by simp

section \<open>Loops on lists\<close>

text \<open>
  \<open>for (; it != end(); ++it) { n--; if (n < 0) break; }\<close> and the same loop with
  \<open>n <= 0\<close>: the iterator each one stops at.
\<close>

fun advance_until_neg :: "int \<Rightarrow> 'a list \<Rightarrow> 'a list" where
  "advance_until_neg n [] = []"
| "advance_until_neg n (x # xs) = (if n - 1 < 0 then x # xs else advance_until_neg (n - 1) xs)"

fun advance_until_nonpos :: "int \<Rightarrow> 'a list \<Rightarrow> 'a list" where
  "advance_until_nonpos n [] = []"
| "advance_until_nonpos n (x # xs) =
     (if n - 1 \<le> 0 then x # xs else advance_until_nonpos (n - 1) xs)"

lemma advance_until_neg_drop: "0 \<le> n \<Longrightarrow> advance_until_neg n xs = drop (nat n) xs"
proof (induction n xs rule: advance_until_neg.induct)
  case (2 n x xs)
  show ?case
  proof (cases "n - 1 < 0")
    case True
    with "2.prems" have "n = 0" by simp
    then show ?thesis by simp
  next
    case False
    then have "nat n = Suc (nat (n - 1))" by simp
    with False "2.IH" show ?thesis by simp
  qed
qed simp

lemma advance_until_nonpos_drop: "0 < n \<Longrightarrow> advance_until_nonpos n xs = drop (nat n - 1) xs"
proof (induction n xs rule: advance_until_nonpos.induct)
  case (2 n x xs)
  show ?case
  proof (cases "n - 1 \<le> 0")
    case True
    with "2.prems" have "nat n - 1 = 0" by simp
    with True show ?thesis by simp
  next
    case False
    then obtain k where "nat (n - 1) = Suc k" and "nat n = Suc (Suc k)"
      by (metis Suc_nat_eq_nat_zadd1 add.commute diff_add_cancel diff_ge_0_iff_ge gr0_conv_Suc
          linorder_not_le nat_0_le order_less_imp_le zero_less_nat_eq)
    with False "2.IH" show ?thesis by simp
  qed
qed simp

text \<open>The rule for a loop that cannot fault.\<close>

lemma fold_prefix:
  assumes "P [] s"
    and "\<And>done x rest s. xs = done @ x # rest \<Longrightarrow> P done s \<Longrightarrow> P (done @ [x]) (f x s)"
  shows "P xs (fold f xs s)"
proof -
  have "P xs (fold f ys t)" if "xs = zs @ ys" and "P zs t" for zs ys t
    using that
  proof (induction ys arbitrary: zs t)
    case (Cons y ys)
    from Cons.IH [of "zs @ [y]" "f y t"] Cons.prems assms(2) [OF Cons.prems] show ?case by simp
  qed simp
  from this [of "[]" xs s] assms(1) show ?thesis by simp
qed

section \<open>Ordered maps\<close>

locale ordered_map =
  fixes insert :: "'k::linorder \<Rightarrow> 'v \<Rightarrow> 'm \<Rightarrow> 'm"
    and erase :: "'k \<Rightarrow> 'm \<Rightarrow> 'm"
    and entries :: "'m \<Rightarrow> ('k \<times> 'v) list"
    and empty :: "'m"
    and wf :: "'m \<Rightarrow> bool"
  assumes wf_empty: "wf empty"
    and wf_insert: "wf m \<Longrightarrow> wf (insert k v m)"
    and wf_erase: "wf m \<Longrightarrow> wf (erase k m)"
    and entries_empty: "entries empty = []"
    and entries_sorted: "wf m \<Longrightarrow> sorted_wrt (<) (map fst (entries m))"
    and entries_insert: "wf m \<Longrightarrow> set (entries (insert k v m)) =
      (if k \<in> fst ` set (entries m) then set (entries m) else {(k, v)} \<union> set (entries m))"
    and entries_erase: "wf m \<Longrightarrow> entries (erase k m) = filter (\<lambda>e. fst e \<noteq> k) (entries m)"
begin

lemma distinct_keys: "wf m \<Longrightarrow> distinct (map fst (entries m))"
  using entries_sorted strict_sorted_iff by blast

lemma keys_insert: "wf m \<Longrightarrow> fst ` set (entries (insert k v m)) = {k} \<union> fst ` set (entries m)"
  by (auto simp: entries_insert)

lemma set_erase: "wf m \<Longrightarrow> set (entries (erase k m)) = {e \<in> set (entries m). fst e \<noteq> k}"
  by (simp add: entries_erase)

text \<open>Inserting a list of pairs with distinct fresh keys stores all of them.\<close>

lemma insert_all:
  assumes "wf m" and "distinct (map fst kvs)"
    and "fst ` set kvs \<inter> fst ` set (entries m) = {}"
  shows "wf (fold (\<lambda>kv. insert (fst kv) (snd kv)) kvs m) \<and>
    set (entries (fold (\<lambda>kv. insert (fst kv) (snd kv)) kvs m)) = set kvs \<union> set (entries m)"
  using assms
proof (induction kvs arbitrary: m)
  case Nil
  then show ?case by simp
next
  case (Cons kv kvs)
  let ?m = "insert (fst kv) (snd kv) m"
  from Cons.prems have "set (entries ?m) = {kv} \<union> set (entries m)"
    by (simp add: entries_insert)
  with Cons.prems Cons.IH [of ?m] show ?case
    by (auto simp: wf_insert)
qed

end

type_synonym 'v u32_map = "(u32 \<times> 'v) list"

text \<open>\<open>std::map::insert\<close> keeps the element that is already there.\<close>

fun map_insert :: "'k::linorder \<Rightarrow> 'v \<Rightarrow> ('k \<times> 'v) list \<Rightarrow> ('k \<times> 'v) list" where
  "map_insert k v [] = [(k, v)]"
| "map_insert k v (e # m) =
     (if k < fst e then (k, v) # e # m else if k = fst e then e # m
      else e # map_insert k v m)"

definition map_erase :: "'k \<Rightarrow> ('k \<times> 'v) list \<Rightarrow> ('k \<times> 'v) list" where
  "map_erase k m = filter (\<lambda>e. fst e \<noteq> k) m"

definition lower_bound :: "'k::linorder \<Rightarrow> ('k \<times> 'v) list \<Rightarrow> ('k \<times> 'v) list" where
  "lower_bound k m = dropWhile (\<lambda>e. fst e < k) m"

definition upper_bound :: "'k::linorder \<Rightarrow> ('k \<times> 'v) list \<Rightarrow> ('k \<times> 'v) list" where
  "upper_bound k m = dropWhile (\<lambda>e. fst e \<le> k) m"

definition map_wf :: "('k::linorder \<times> 'v) list \<Rightarrow> bool" where
  "map_wf m = sorted_wrt (<) (map fst m)"

lemma set_map_insert: "map_wf m \<Longrightarrow> set (map_insert k v m) =
    (if k \<in> fst ` set m then set m else {(k, v)} \<union> set m)"
  by (induction m) (auto simp: map_wf_def)

lemma map_wf_insert: "map_wf m \<Longrightarrow> map_wf (map_insert k v m)"
proof (induction m)
  case (Cons e m)
  then have "map_wf m" by (simp add: map_wf_def)
  with Cons show ?case
    by (auto simp: map_wf_def set_map_insert [OF \<open>map_wf m\<close>] split: if_splits)
qed (simp add: map_wf_def)

lemma sorted_wrt_filter_keys: "sorted_wrt (<) (map fst m) \<Longrightarrow>
    sorted_wrt (<) (map fst (filter p m))"
  by (induction m) auto

interpretation std_map: ordered_map map_insert map_erase "\<lambda>m. m" "[]" map_wf
proof unfold_locales
  show "map_wf (map_erase k m)" if "map_wf m" for k :: 'a and m :: "('a \<times> 'b) list"
    using that by (simp add: map_wf_def map_erase_def sorted_wrt_filter_keys)
qed (auto simp: map_wf_def map_erase_def set_map_insert map_wf_insert [unfolded map_wf_def])

text \<open>The two bounds on a well-formed map select the keys they promise.\<close>

lemma upper_bound_filter: "map_wf m \<Longrightarrow> upper_bound k m = filter (\<lambda>e. k < fst e) m"
proof (induction m)
  case (Cons e m)
  then have wf: "map_wf m" and gt: "\<forall>x \<in> set m. fst e < fst x"
    by (auto simp: map_wf_def)
  show ?case
  proof (cases "fst e \<le> k")
    case True
    with Cons.IH [OF wf] show ?thesis by (simp add: upper_bound_def)
  next
    case False
    with gt have "filter (\<lambda>e. k < fst e) m = m" by (intro filter_True) force
    with False show ?thesis by (simp add: upper_bound_def)
  qed
qed (simp add: upper_bound_def)

lemma lower_bound_filter: "map_wf m \<Longrightarrow> lower_bound k m = filter (\<lambda>e. k \<le> fst e) m"
proof (induction m)
  case (Cons e m)
  then have wf: "map_wf m" and gt: "\<forall>x \<in> set m. fst e < fst x"
    by (auto simp: map_wf_def)
  show ?case
  proof (cases "fst e < k")
    case True
    with Cons.IH [OF wf] show ?thesis by (simp add: lower_bound_def)
  next
    case False
    with gt have "filter (\<lambda>e. k \<le> fst e) m = m" by (intro filter_True) force
    with False show ?thesis by (simp add: lower_bound_def)
  qed
qed (simp add: lower_bound_def)

section \<open>Lists\<close>

text \<open>A shared pointer as a list: none or one element.\<close>

fun opt_list :: "'a option \<Rightarrow> 'a list" where
  "opt_list None = []"
| "opt_list (Some x) = [x]"

lemma length_filter_partition:
  "length (filter p xs) + length (filter (\<lambda>x. \<not> p x) xs) = length xs"
  by (induction xs) auto

lemma dropWhile_suffix: "dropWhile p xs = drop (length xs - length (dropWhile p xs)) xs"
  using length_takeWhile_le [of p xs] by (simp add: dropWhile_eq_drop)

lemma set_last_butlast: "xs \<noteq> [] \<Longrightarrow> distinct xs \<Longrightarrow> set (butlast xs) = set xs - {last xs}"
  by (induction xs rule: rev_induct) auto

lemma set_last_or_butlast: "xs \<noteq> [] \<Longrightarrow> set xs = {last xs} \<union> set (butlast xs)"
  by (induction xs rule: rev_induct) auto

lemma length_filter_not_mem:
  assumes "distinct xs" and "set ys \<subseteq> set xs" and "distinct ys"
  shows "length (filter (\<lambda>x. x \<notin> set ys) xs) = length xs - length ys"
proof -
  have "set (filter (\<lambda>x. x \<notin> set ys) xs) = set xs - set ys" by auto
  then have "length (filter (\<lambda>x. x \<notin> set ys) xs) = card (set xs - set ys)"
    using assms(1) by (metis distinct_card distinct_filter)
  then show ?thesis using assms by (simp add: card_Diff_subset distinct_card)
qed

text \<open>Counting in a strictly sorted list: the elements below and above its \<open>j\<close>-th.\<close>

lemma filter_less_nth: "sorted_wrt (<) (ks :: 'k::linorder list) \<Longrightarrow> j < length ks \<Longrightarrow>
    filter (\<lambda>x. x < ks ! j) ks = take j ks"
proof (induction ks arbitrary: j)
  case (Cons k ks)
  show ?case
  proof (cases j)
    case 0
    with Cons.prems have "filter (\<lambda>x. x < k) ks = []" by (auto simp: filter_empty_conv)
    with 0 show ?thesis by simp
  next
    case (Suc i)
    with Cons show ?thesis by simp
  qed
qed simp

lemma filter_greater_nth: "sorted_wrt (<) (ks :: 'k::linorder list) \<Longrightarrow> j < length ks \<Longrightarrow>
    filter (\<lambda>x. ks ! j < x) ks = drop (Suc j) ks"
proof (induction ks arbitrary: j)
  case (Cons k ks)
  show ?case
  proof (cases j)
    case 0
    with Cons.prems have "filter (\<lambda>x. k < x) ks = ks" by (intro filter_True) auto
    with 0 show ?thesis by simp
  next
    case (Suc i)
    with Cons.prems have "k < ks ! i" by simp
    then have "\<not> ks ! i < k" by simp
    with Suc Cons show ?thesis by simp
  qed
qed simp

lemma filter_less_take: "sorted_wrt (<) (ks :: 'k::linorder list) \<Longrightarrow>
    filter (\<lambda>x. x < k) ks = take (length (filter (\<lambda>x. x < k) ks)) ks"
proof (induction ks)
  case (Cons x xs)
  show ?case
  proof (cases "x < k")
    case True
    with Cons show ?thesis by simp
  next
    case False
    with Cons.prems have "filter (\<lambda>x. x < k) xs = []" by (auto simp: filter_empty_conv)
    with False show ?thesis by simp
  qed
qed simp

lemma filter_greater_drop: "sorted_wrt (<) (ks :: 'k::linorder list) \<Longrightarrow>
    filter (\<lambda>x. k < x) ks = drop (length ks - length (filter (\<lambda>x. k < x) ks)) ks"
proof (induction ks)
  case (Cons x xs)
  show ?case
  proof (cases "k < x")
    case True
    with Cons.prems have "filter (\<lambda>x. k < x) xs = xs" by (intro filter_True) force
    with True show ?thesis by simp
  next
    case False
    have "length (filter (\<lambda>x. k < x) xs) \<le> length xs" by simp
    with False Cons show ?thesis by (simp add: Suc_diff_le)
  qed
qed simp

text \<open>The three counts add up to the number of framebuffers.\<close>

lemma length_below_up_inside:
  assumes "mn \<le> (mx :: 'k::linorder)"
  shows "length (filter (\<lambda>x. x < mn) ks) + length (filter (\<lambda>x. mx < x) ks)
    + length (filter (\<lambda>x. mn \<le> x \<and> x \<le> mx) ks) = length ks"
  using assms by (induction ks) auto

lemma length_not_inside:
  assumes "mn \<le> (mx :: 'k::linorder)"
  shows "length (filter (\<lambda>x. \<not> (mn \<le> x \<and> x \<le> mx)) ks) =
    length (filter (\<lambda>x. x < mn) ks) + length (filter (\<lambda>x. mx < x) ks)"
  using assms by (induction ks) auto

end
