(* ===== verification/DrmModel.thy ===== *)
theory DrmModel
  imports Prelude
begin

text \<open>
  The objects the composition strategies share: framebuffers, planes and the log of what is
  sent to the hardware.

  A \<open>std::shared_ptr<DrmFramebuffer>\<close> is an identifier \<open>fbid\<close> into the store
  \<open>fbs\<close> of the \<open>world\<close>: the strategies write \<open>fb->mCompositionType\<close> through one
  container and read it through another, so the aliasing matters. A
  \<open>std::shared_ptr<HwDisplayPlane>\<close> is only called, never written, by a strategy; it is a
  record of what its getters return. Every call that leaves the strategy (planes, composers,
  crtc) is appended to \<open>events\<close> in the order the code makes it.

  What comes from outside src/ is a field of \<open>platform\<close>: \<open>INVALID_ZORDER\<close> and the
  \<open>AM_VIDEO_*\<close> masks are constants of headers that are not in the repository, \<open>dup\<close> is the
  system call. What a call that leaves the strategy returns is a function of the calls made so
  far, \<open>call_result\<close>, so a device may answer differently each time it is asked.
  A \<open>float\<close> is the rational number it denotes; the one comparison of products of floats is
  the parameter \<open>scale_exceeds\<close>, so that no rounding is assumed.
\<close>

section \<open>Enumerations and small structures\<close>

datatype drm_fb_type =
    DRM_FB_UNDEFINED
  | DRM_FB_RENDER
  | DRM_FB_SCANOUT
  | DRM_FB_COLOR
  | DRM_FB_CURSOR
  | DRM_FB_VIDEO_OVERLAY
  | DRM_FB_VIDEO_OMX_PTS
  | DRM_FB_VIDEO_OMX_PTS_SECOND
  | DRM_FB_VIDEO_SIDEBAND
  | DRM_FB_VIDEO_SIDEBAND_SECOND
  | DRM_FB_VIDEO_SIDEBAND_TV
  | DRM_FB_VIDEO_DMABUF
  | DRM_FB_VIDEO_UVM_DMA
  | DRM_FB_VIDEO_TUNNEL_SIDEBAND
  | DRM_FB_DI_COMPOSE_OUTPUT
  | DRM_FB_DECORATION

datatype meson_composition =
    MESON_COMPOSITION_UNDETERMINED
  | MESON_COMPOSITION_DUMMY
  | MESON_COMPOSITION_CLIENT
  | MESON_COMPOSITION_GE2D
  | MESON_COMPOSITION_DI
  | MESON_COMPOSITION_PLANE_CURSOR
  | MESON_COMPOSITION_PLANE_OSD
  | MESON_COMPOSITION_PLANE_AMVIDEO
  | MESON_COMPOSITION_PLANE_AMVIDEO_SIDEBAND
  | MESON_COMPOSITION_PLANE_HWCVIDEO

datatype meson_plane_type =
    OSD_PLANE
  | CURSOR_PLANE
  | LEGACY_VIDEO_PLANE
  | LEGACY_EXT_VIDEO_PLANE
  | HWC_VIDEO_PLANE
  | INVALID_PLANE

datatype drm_plane_blank = UNBLANK | BLANK_FOR_NO_CONTENT | BLANK_FOR_SECURE_CONTENT

definition isVideoPlaneComposition :: "meson_composition \<Rightarrow> bool" where
  "isVideoPlaneComposition t \<longleftrightarrow>
     t = MESON_COMPOSITION_PLANE_AMVIDEO
     \<or> t = MESON_COMPOSITION_PLANE_AMVIDEO_SIDEBAND
     \<or> t = MESON_COMPOSITION_PLANE_HWCVIDEO"

definition isComposerComposition :: "meson_composition \<Rightarrow> bool" where
  "isComposerComposition t \<longleftrightarrow>
     t = MESON_COMPOSITION_CLIENT
     \<or> t = MESON_COMPOSITION_GE2D
     \<or> t = MESON_COMPOSITION_DUMMY
     \<or> t = MESON_COMPOSITION_DI"

fun compositionTypeToString :: "meson_composition \<Rightarrow> string" where
  "compositionTypeToString MESON_COMPOSITION_UNDETERMINED = ''NONE''"
| "compositionTypeToString MESON_COMPOSITION_DUMMY = ''DUMMY''"
| "compositionTypeToString MESON_COMPOSITION_CLIENT = ''CLIENT''"
| "compositionTypeToString MESON_COMPOSITION_GE2D = ''GE2D''"
| "compositionTypeToString MESON_COMPOSITION_DI = ''DI''"
| "compositionTypeToString MESON_COMPOSITION_PLANE_AMVIDEO = ''AMVIDEO''"
| "compositionTypeToString MESON_COMPOSITION_PLANE_AMVIDEO_SIDEBAND = ''SIDEBAND''"
| "compositionTypeToString MESON_COMPOSITION_PLANE_OSD = ''OSD''"
| "compositionTypeToString MESON_COMPOSITION_PLANE_CURSOR = ''CURSOR''"
| "compositionTypeToString MESON_COMPOSITION_PLANE_HWCVIDEO = ''HWCVIDEO''"

record drm_rect =
  rect_left :: int
  rect_top :: int
  rect_right :: int
  rect_bottom :: int

record display_zoom_info =
  framebuffer_w :: int
  framebuffer_h :: int
  crtc_display_x :: int
  crtc_display_y :: int
  crtc_display_w :: int
  crtc_display_h :: int

definition zero_zoom :: display_zoom_info where
  "zero_zoom = \<lparr>framebuffer_w = 0, framebuffer_h = 0, crtc_display_x = 0, crtc_display_y = 0,
     crtc_display_w = 0, crtc_display_h = 0\<rparr>"

definition mk_rect :: "int \<Rightarrow> int \<Rightarrow> int \<Rightarrow> int \<Rightarrow> drm_rect" where
  "mk_rect l t r b = \<lparr>rect_left = l, rect_top = t, rect_right = r, rect_bottom = b\<rparr>"

definition rect_w :: "drm_rect \<Rightarrow> int" where
  "rect_w r = int32 (rect_right r - rect_left r)"

definition rect_h :: "drm_rect \<Rightarrow> int" where
  "rect_h r = int32 (rect_bottom r - rect_top r)"

lemma rect_simps [simp]:
  "rect_left (mk_rect l t r b) = l" "rect_top (mk_rect l t r b) = t"
  "rect_right (mk_rect l t r b) = r" "rect_bottom (mk_rect l t r b) = b"
  by (simp_all add: mk_rect_def)

record drm_mode_info =
  pixelW :: u32
  pixelH :: u32
  refreshRate :: rat

section \<open>Framebuffers and planes\<close>

type_synonym fbid = nat
type_synonym cid = nat

text \<open>
  The members the strategies read or write, and, last, what the virtual getters of a
  framebuffer return (a \<open>Hwc2Layer\<close> overrides them).
\<close>

datatype buffer_state = MODE_BACK | MODE_FRONT

record drm_framebuffer =
  mBufferHandle :: "nat option"
  mFbType :: drm_fb_type
  mSourceCrop :: drm_rect
  mDisplayFrame :: drm_rect
  mTransform :: int
  mZorder :: u32
  mSecure :: bool
  mFbHandleUpdated :: bool
  mCompositionType :: meson_composition
  mId :: nat
  mCurReleaseFence :: int
  mPrevReleaseFence :: int
  mBufferState :: buffer_state
  videoType :: int
  isVtBuffer :: bool
  haveValidBuffer :: bool

record hw_display_plane =
  plane_id :: nat
  plane_type :: meson_plane_type
  plane_primary :: bool
  plane_available :: bool
  plane_fixed_zorder :: int
  plane_isFbSupport :: "drm_framebuffer \<Rightarrow> bool"

datatype hw_event =
    SetPlane nat "fbid option" u32 drm_plane_blank
  | SetDisplayFrame display_zoom_info
  | ComposerPrepare cid
  | ComposerAddInputs cid "fbid list" "fbid list" int
  | ComposerSetOutput cid "fbid option" int
  | ComposerSetManager cid bool int
  | ComposerStart cid int
  | VideoComposerEnable bool
  | VideoComposerSetFrames "fbid list" u32
  | UvmCommitDisplay fbid
  | EnableFrc bool
  | FreeSolidColorBuffer fbid
  | VpmSetup "fbid list"
  | VpmTearDownAll
  | VpmReset fbid
  | VpmRun fbid nat u32 drm_plane_blank
  | SetPlaneProcessed nat fbid u32 drm_plane_blank
  | InterruptVtProcess fbid drm_plane_blank
  | WbSetup
  | WbSyncProtection bool
  | WbWaitRelease int
  | WbWaitAcquire fbid
  | WbUpdate drm_rect
  | WbComposite fbid fbid fbid
  | CloseFd int

datatype fault =
    NullDeref
  | OutOfRange
  | AssertFailed string

record platform =
  INVALID_ZORDER :: u32
  sys_dup :: "int \<Rightarrow> int"
  vpm_runProcessors :: "fbid list \<Rightarrow> u32 \<Rightarrow> bool"
  videocomposer_fence :: "fbid list \<Rightarrow> u32 \<Rightarrow> int"
  call_result :: "hw_event list \<Rightarrow> int"
  interruptVtProcess :: "hw_event list \<Rightarrow> drm_plane_blank option"
  HWC2_ERROR_NO_RESOURCES :: int
  AM_VIDEO_DI_POST :: int
  AM_VIDEO_SECURE :: int
  AM_VIDEO_DV :: int
  AM_VIDEO_4K :: int
  AM_VIDEO_8K :: int
  AM_VIDEO_AFBC :: int
  AM_VIDEO_HDR :: int
  AM_VIDEO_HDR10_PLUS :: int
  AM_VIDEO_HLG :: int
  vpu_afbc_mask :: "nat option \<Rightarrow> int"
  crtc_wrflag :: "nat \<Rightarrow> int"
  scale_exceeds :: "int \<Rightarrow> int \<Rightarrow> rat \<Rightarrow> bool"
  enable_aiprocess_120 :: bool
  wb_buffer :: "nat \<Rightarrow> nat option \<times> drm_rect"

text \<open>
  \<open>call_result es\<close> is what the last call of \<open>es\<close> returns, the calls before it having been
  made. \<open>interruptVtProcess es\<close>, for a list that ends in that call, is \<open>None\<close> where the
  virtual call returns false, and \<open>Some flag\<close> with the value it leaves in its reference argument
  where it returns true. \<open>wb_buffer i\<close> is the handle and the size of the \<open>i\<close>-th buffer the
  whiteboard allocates.
\<close>

section \<open>Updating the store\<close>

definition set_comp :: "fbid \<Rightarrow> meson_composition \<Rightarrow> (fbid \<Rightarrow> drm_framebuffer)
    \<Rightarrow> (fbid \<Rightarrow> drm_framebuffer)" where
  "set_comp i c h = h(i := (h i)\<lparr>mCompositionType := c\<rparr>)"

named_theorems store_simps \<open>what writing a composition type leaves in the store\<close>

lemma set_comp_fields [store_simps, simp]:
  "mZorder (set_comp i c h j) = mZorder (h j)"
  "mFbType (set_comp i c h j) = mFbType (h j)"
  "mSecure (set_comp i c h j) = mSecure (h j)"
  "mDisplayFrame (set_comp i c h j) = mDisplayFrame (h j)"
  "mSourceCrop (set_comp i c h j) = mSourceCrop (h j)"
  "mBufferHandle (set_comp i c h j) = mBufferHandle (h j)"
  "videoType (set_comp i c h j) = videoType (h j)"
  "isVtBuffer (set_comp i c h j) = isVtBuffer (h j)"
  "haveValidBuffer (set_comp i c h j) = haveValidBuffer (h j)"
  "mTransform (set_comp i c h j) = mTransform (h j)"
  by (simp_all add: set_comp_def)

lemma set_comp_type [store_simps, simp]:
  "mCompositionType (set_comp i c h j) = (if j = i then c else mCompositionType (h j))"
  by (simp add: set_comp_def)

lemma set_comp_other [store_simps]: "j \<noteq> i \<Longrightarrow> set_comp i c h j = h j"
  by (simp add: set_comp_def)

definition set_comps :: "fbid list \<Rightarrow> meson_composition \<Rightarrow> (fbid \<Rightarrow> drm_framebuffer)
    \<Rightarrow> (fbid \<Rightarrow> drm_framebuffer)" where
  "set_comps is c h = fold (\<lambda>i. set_comp i c) is h"

lemma set_comps_type [store_simps, simp]:
  "mCompositionType (set_comps is c h j) =
    (if j \<in> set is then c else mCompositionType (h j))"
  unfolding set_comps_def by (induction "is" arbitrary: h) auto

lemma set_comps_fields [store_simps, simp]:
  "mZorder (set_comps is c h j) = mZorder (h j)"
  "mFbType (set_comps is c h j) = mFbType (h j)"
  "mSecure (set_comps is c h j) = mSecure (h j)"
  "mDisplayFrame (set_comps is c h j) = mDisplayFrame (h j)"
  "mSourceCrop (set_comps is c h j) = mSourceCrop (h j)"
  "isVtBuffer (set_comps is c h j) = isVtBuffer (h j)"
  unfolding set_comps_def by (induction "is" arbitrary: h) auto

lemma composition_kinds_disjoint: "isVideoPlaneComposition t \<Longrightarrow> \<not> isComposerComposition t"
  by (auto simp: isVideoPlaneComposition_def isComposerComposition_def)

end
