(* ===== verification/Composers.thy ===== *)
theory Composers
  imports DrmModel
begin

text \<open>
  \<open>composition/composer/\<close>: the implementations of \<open>IComposer\<close>. A composer object is a
  value of \<open>composer\<close>, one constructor per class, and a virtual call is the case
  distinction on the class. \<open>Ge2dComposer\<close> is an empty class.

  The locale \<open>composer_slot\<close> is what the strategies rely on: the output handed over with
  \<open>setOutput\<close> is the one \<open>getOutput\<close> returns, whatever inputs are added in between.
\<close>

record composer_impl =
  inputFbs :: "fbid list"
  overlayFbs :: "fbid list"
  outputFb :: "fbid option"
  processorsMgr :: bool

datatype composer =
    ClientComposer "fbid list" "fbid option"
  | DummyComposer
  | DiComposer "composer_impl list"

section \<open>The calls\<close>

fun composer_getType :: "composer \<Rightarrow> meson_composition" where
  "composer_getType (ClientComposer ov t) = MESON_COMPOSITION_CLIENT"
| "composer_getType DummyComposer = MESON_COMPOSITION_DUMMY"
| "composer_getType (DiComposer impls) = MESON_COMPOSITION_DI"

definition composer_isFbsSupport :: "composer \<Rightarrow> fbid list \<Rightarrow> fbid list \<Rightarrow> bool" where
  "composer_isFbsSupport c fs overlays = True"

definition di_prepare :: "composer_impl list \<Rightarrow> composer_impl list" where
  "di_prepare impls = map (\<lambda>impl. impl\<lparr>inputFbs := [], overlayFbs := [], outputFb := None,
     processorsMgr := False\<rparr>) impls"

fun composer_prepare :: "composer \<Rightarrow> composer" where
  "composer_prepare (ClientComposer ov t) = ClientComposer [] t"
| "composer_prepare DummyComposer = DummyComposer"
| "composer_prepare (DiComposer impls) = DiComposer (di_prepare impls)"

text \<open>
  \<open>mComposerImpl[composeIdx]\<close> is only reached with \<open>composeIdx < mImplNum\<close>, and a negative
  index is out of range.
\<close>

definition di_impl :: "composer_impl list \<Rightarrow> int \<Rightarrow> fault + composer_impl" where
  "di_impl impls i =
     (if 0 \<le> i \<and> nat i < length impls then Inr (impls ! nat i)
      else if 0 \<le> i then Inl (AssertFailed ''DiComposer composeidx'')
      else Inl OutOfRange)"

definition di_addInputs :: "composer_impl list \<Rightarrow> fbid list \<Rightarrow> fbid list \<Rightarrow> int
    \<Rightarrow> fault + composer_impl list" where
  "di_addInputs impls fs overlays i =
     bindE (di_impl impls i) (\<lambda>impl.
       Inr (impls[nat i := impl\<lparr>inputFbs := fs, overlayFbs := overlays\<rparr>]))"

fun composer_addInputs :: "composer \<Rightarrow> fbid list \<Rightarrow> fbid list \<Rightarrow> int \<Rightarrow> fault + composer" where
  "composer_addInputs (ClientComposer ov t) fs overlays i = Inr (ClientComposer overlays t)"
| "composer_addInputs DummyComposer fs overlays i = Inr DummyComposer"
| "composer_addInputs (DiComposer impls) fs overlays i =
     bindE (di_addInputs impls fs overlays i) (\<lambda>impls'. Inr (DiComposer impls'))"

text \<open>The overlays a caller gets; \<open>None\<close> where the reference argument is not written.\<close>

fun composer_getOverlyFbs :: "composer \<Rightarrow> fbid list option" where
  "composer_getOverlyFbs (ClientComposer ov t) = Some ov"
| "composer_getOverlyFbs DummyComposer = None"
| "composer_getOverlyFbs (DiComposer impls) = None"

definition di_setOutput :: "(fbid \<Rightarrow> drm_framebuffer) \<Rightarrow> composer_impl list \<Rightarrow> fbid option \<Rightarrow> int
    \<Rightarrow> fault + composer_impl list" where
  "di_setOutput h impls fb i =
     bindE (di_impl impls i) (\<lambda>impl.
     bindE (getE NullDeref fb) (\<lambda>f.
     assertE (mFbType (h f) = DRM_FB_DI_COMPOSE_OUTPUT)
       (AssertFailed ''Di Composer only use fake output.'')
       (impls[nat i := impl\<lparr>outputFb := Some f\<rparr>])))"

fun composer_setOutput :: "(fbid \<Rightarrow> drm_framebuffer) \<Rightarrow> composer \<Rightarrow> fbid option \<Rightarrow> int
    \<Rightarrow> fault + composer" where
  "composer_setOutput h (ClientComposer ov t) fb i = Inr (ClientComposer ov fb)"
| "composer_setOutput h DummyComposer fb i = Inr DummyComposer"
| "composer_setOutput h (DiComposer impls) fb i =
     bindE (di_setOutput h impls fb i) (\<lambda>impls'. Inr (DiComposer impls'))"

definition di_setProcessorsManager :: "composer_impl list \<Rightarrow> bool \<Rightarrow> int
    \<Rightarrow> fault + composer_impl list" where
  "di_setProcessorsManager impls m i =
     bindE (di_impl impls i) (\<lambda>impl. Inr (impls[nat i := impl\<lparr>processorsMgr := m\<rparr>]))"

definition di_getOutput :: "composer_impl list \<Rightarrow> int \<Rightarrow> fault + fbid option" where
  "di_getOutput impls i = bindE (di_impl impls i) (\<lambda>impl. Inr (outputFb impl))"

fun composer_getOutput :: "composer \<Rightarrow> int \<Rightarrow> fault + fbid option" where
  "composer_getOutput (ClientComposer ov t) i = Inr t"
| "composer_getOutput DummyComposer i = Inr None"
| "composer_getOutput (DiComposer impls) i = di_getOutput impls i"

text \<open>
  \<open>DiComposer::noProcessors\<close> hands the inputs to the device, whose fence is duplicated for
  every input, and \<open>DiComposer::start\<close> does so when no processor takes the inputs. In
  \<open>start\<close> the element is read before the index is asserted.
\<close>

definition di_noProcessors :: "platform \<Rightarrow> (fbid \<Rightarrow> drm_framebuffer) \<Rightarrow> composer_impl
    \<Rightarrow> fbid \<Rightarrow> (fbid \<Rightarrow> drm_framebuffer) \<times> hw_event list" where
  "di_noProcessors p h impl out =
     (let z = mZorder (h out); fenceFd = videocomposer_fence p (inputFbs impl) z;
          f = (if 0 \<le> fenceFd then sys_dup p fenceFd else -1)
      in (fold (\<lambda>i h. h(i := (h i)\<lparr>mCurReleaseFence := f\<rparr>)) (inputFbs impl) h,
          [VideoComposerEnable True, VideoComposerSetFrames (inputFbs impl) z]))"

definition di_start :: "platform \<Rightarrow> (fbid \<Rightarrow> drm_framebuffer) \<Rightarrow> composer_impl list \<Rightarrow> int
    \<Rightarrow> fault + ((fbid \<Rightarrow> drm_framebuffer) \<times> hw_event list)" where
  "di_start p h impls i =
     (if \<not> (0 \<le> i \<and> nat i < length impls) then Inl OutOfRange
      else let impl = impls ! nat i in
       (case outputFb impl of
          None \<Rightarrow> Inl (AssertFailed ''DiComposer no output set!'')
        | Some out \<Rightarrow>
            (if \<not> processorsMgr impl
                \<or> \<not> vpm_runProcessors p (inputFbs impl) (mZorder (h out))
             then Inr (di_noProcessors p h impl out) else Inr (h, []))))"

text \<open>The base class does nothing with the manager.\<close>

fun composer_setProcessorsManager :: "composer \<Rightarrow> bool \<Rightarrow> int \<Rightarrow> fault + composer" where
  "composer_setProcessorsManager (ClientComposer ov t) m i = Inr (ClientComposer ov t)"
| "composer_setProcessorsManager DummyComposer m i = Inr DummyComposer"
| "composer_setProcessorsManager (DiComposer impls) m i =
     bindE (di_setProcessorsManager impls m i) (\<lambda>impls'. Inr (DiComposer impls'))"

fun composer_start :: "platform \<Rightarrow> (fbid \<Rightarrow> drm_framebuffer) \<Rightarrow> composer \<Rightarrow> int
    \<Rightarrow> fault + ((fbid \<Rightarrow> drm_framebuffer) \<times> hw_event list)" where
  "composer_start p h (ClientComposer ov t) i = Inr (h, [])"
| "composer_start p h DummyComposer i = Inr (h, [])"
| "composer_start p h (DiComposer impls) i = di_start p h impls i"

section \<open>The contract of a composer that produces an output\<close>

locale composer_slot =
  fixes valid :: "'c \<Rightarrow> int \<Rightarrow> bool"
    and addInputs :: "'c \<Rightarrow> fbid list \<Rightarrow> fbid list \<Rightarrow> int \<Rightarrow> fault + 'c"
    and setOutput :: "(fbid \<Rightarrow> drm_framebuffer) \<Rightarrow> 'c \<Rightarrow> fbid option \<Rightarrow> int \<Rightarrow> fault + 'c"
    and getOutput :: "'c \<Rightarrow> int \<Rightarrow> fault + fbid option"
    and accepts :: "(fbid \<Rightarrow> drm_framebuffer) \<Rightarrow> fbid \<Rightarrow> bool"
  assumes addInputs_law: "valid c i \<Longrightarrow>
      \<exists>c'. addInputs c fs os i = Inr c' \<and> valid c' i \<and> getOutput c' i = getOutput c i"
    and setOutput_law: "valid c i \<Longrightarrow> accepts h f \<Longrightarrow>
      \<exists>c'. setOutput h c (Some f) i = Inr c' \<and> valid c' i \<and> getOutput c' i = Inr (Some f)"
begin

lemma output_after_inputs:
  assumes "valid c i" and "accepts h f"
  shows "\<exists>c1 c2. addInputs c fs os i = Inr c1 \<and> setOutput h c1 (Some f) i = Inr c2
    \<and> getOutput c2 i = Inr (Some f)"
  using addInputs_law [OF assms(1)] setOutput_law [OF _ assms(2)] by blast

lemma inputs_after_output:
  assumes "valid c i" and "accepts h f"
  shows "\<exists>c1 c2. setOutput h c (Some f) i = Inr c1 \<and> addInputs c1 fs os i = Inr c2
    \<and> getOutput c2 i = Inr (Some f)"
  using setOutput_law [OF assms] addInputs_law by metis

end

fun composer_valid :: "composer \<Rightarrow> int \<Rightarrow> bool" where
  "composer_valid (ClientComposer ov t) i = True"
| "composer_valid DummyComposer i = False"
| "composer_valid (DiComposer impls) i = (0 \<le> i \<and> nat i < length impls)"

lemma di_impl_valid: "0 \<le> i \<Longrightarrow> nat i < length impls \<Longrightarrow> di_impl impls i = Inr (impls ! nat i)"
  by (simp add: di_impl_def)

lemmas di_defs = di_addInputs_def di_setOutput_def di_getOutput_def di_setProcessorsManager_def
  di_impl_def assertE_def getE_def

interpretation composer_objects: composer_slot composer_valid composer_addInputs
  composer_setOutput composer_getOutput "\<lambda>h f. mFbType (h f) = DRM_FB_DI_COMPOSE_OUTPUT"
proof unfold_locales
  fix c i fs os
  assume "composer_valid c i"
  then show "\<exists>c'. composer_addInputs c fs os i = Inr c' \<and> composer_valid c' i
      \<and> composer_getOutput c' i = composer_getOutput c i"
    by (cases c) (auto simp: di_defs)
next
  fix c i and h :: "fbid \<Rightarrow> drm_framebuffer" and f
  assume "composer_valid c i" and "mFbType (h f) = DRM_FB_DI_COMPOSE_OUTPUT"
  then show "\<exists>c'. composer_setOutput h c (Some f) i = Inr c' \<and> composer_valid c' i
      \<and> composer_getOutput c' i = Inr (Some f)"
    by (cases c) (auto simp: di_defs)
qed

lemma composer_type_const:
  "composer_getType (composer_prepare c) = composer_getType c"
  "composer_addInputs c fs os i = Inr c' \<Longrightarrow> composer_getType c' = composer_getType c"
  "composer_setOutput h c fb i = Inr c' \<Longrightarrow> composer_getType c' = composer_getType c"
  by (cases c; auto simp: bindE_Inr_iff)+

section \<open>The world a strategy runs in\<close>

record world =
  plat :: platform
  fbs :: "fbid \<Rightarrow> drm_framebuffer"
  composers :: "cid \<Rightarrow> composer"
  events :: "hw_event list"

definition upd_comp :: "fbid \<Rightarrow> meson_composition \<Rightarrow> 'a world_scheme \<Rightarrow> 'a world_scheme" where
  "upd_comp i c s = s\<lparr>fbs := set_comp i c (fbs s)\<rparr>"

definition log_event :: "hw_event \<Rightarrow> 'a world_scheme \<Rightarrow> 'a world_scheme" where
  "log_event e s = s\<lparr>events := events s @ [e]\<rparr>"

definition call_prepare :: "cid \<Rightarrow> 'a world_scheme \<Rightarrow> 'a world_scheme" where
  "call_prepare c s = log_event (ComposerPrepare c)
     (s\<lparr>composers := (composers s)(c := composer_prepare (composers s c))\<rparr>)"

definition call_addInputs :: "cid \<Rightarrow> fbid list \<Rightarrow> fbid list \<Rightarrow> int \<Rightarrow> 'a world_scheme
    \<Rightarrow> fault + 'a world_scheme" where
  "call_addInputs c fs overlays i s =
     bindE (composer_addInputs (composers s c) fs overlays i) (\<lambda>c'.
       Inr (log_event (ComposerAddInputs c fs overlays i)
         (s\<lparr>composers := (composers s)(c := c')\<rparr>)))"

definition call_setOutput :: "cid \<Rightarrow> fbid option \<Rightarrow> int \<Rightarrow> 'a world_scheme
    \<Rightarrow> fault + 'a world_scheme" where
  "call_setOutput c fb i s =
     bindE (composer_setOutput (fbs s) (composers s c) fb i) (\<lambda>c'.
       Inr (log_event (ComposerSetOutput c fb i)
         (s\<lparr>composers := (composers s)(c := c')\<rparr>)))"

definition call_setProcessorsManager :: "cid \<Rightarrow> bool \<Rightarrow> int \<Rightarrow> 'a world_scheme
    \<Rightarrow> fault + 'a world_scheme" where
  "call_setProcessorsManager c m i s =
     bindE (composer_setProcessorsManager (composers s c) m i) (\<lambda>c'.
       Inr (log_event (ComposerSetManager c m i)
         (s\<lparr>composers := (composers s)(c := c')\<rparr>)))"

definition call_start :: "cid \<Rightarrow> int \<Rightarrow> 'a world_scheme \<Rightarrow> fault + 'a world_scheme" where
  "call_start c i s =
     bindE (composer_start (plat s) (fbs s) (composers s c) i) (\<lambda>(h, es).
       Inr (s\<lparr>fbs := h, events := events s @ [ComposerStart c i] @ es\<rparr>))"

definition call_setPlane :: "hw_display_plane \<Rightarrow> fbid option \<Rightarrow> u32 \<Rightarrow> drm_plane_blank
    \<Rightarrow> 'a world_scheme \<Rightarrow> 'a world_scheme" where
  "call_setPlane p fb z b s = log_event (SetPlane (plane_id p) fb z b) s"

text \<open>
  A call with a result: it is logged and answered. \<open>setPlane\<close> of a plane and
  \<open>runProcessors\<close> of the video processors manager, which programs the plane itself, with
  the buffer its processors made of the framebuffer, when it returns true.
\<close>

definition ask :: "hw_event \<Rightarrow> 'a world_scheme \<Rightarrow> int \<times> 'a world_scheme" where
  "ask e s = (let s' = log_event e s in (call_result (plat s') (events s'), s'))"

definition try_setPlane :: "hw_display_plane \<Rightarrow> fbid \<Rightarrow> u32 \<Rightarrow> drm_plane_blank
    \<Rightarrow> 'a world_scheme \<Rightarrow> int \<times> 'a world_scheme" where
  "try_setPlane p f z b s = ask (SetPlane (plane_id p) (Some f) z b) s"

definition try_runProcessors :: "hw_display_plane \<Rightarrow> fbid \<Rightarrow> u32 \<Rightarrow> drm_plane_blank
    \<Rightarrow> 'a world_scheme \<Rightarrow> bool \<times> 'a world_scheme" where
  "try_runProcessors p f z b s =
     (case ask (VpmRun f (plane_id p) z b) s of (r, s') \<Rightarrow>
        if r \<noteq> 0 then (True, log_event (SetPlaneProcessed (plane_id p) f z b) s')
        else (False, s'))"

definition try_interruptVtProcess :: "fbid \<Rightarrow> drm_plane_blank \<Rightarrow> 'a world_scheme
    \<Rightarrow> drm_plane_blank option \<times> 'a world_scheme" where
  "try_interruptVtProcess f b s =
     (let s' = log_event (InterruptVtProcess f b) s
      in (interruptVtProcess (plat s') (events s'), s'))"

section \<open>Reading the log\<close>

text \<open>
  The planes programmed by a piece of the log, in order; \<open>quiet s t\<close> says that \<open>t\<close> only adds
  calls to the log of \<open>s\<close> that program none.
\<close>

fun set_plane :: "hw_event \<Rightarrow> nat list" where
  "set_plane (SetPlane i fb z b) = [i]"
| "set_plane (SetPlaneProcessed i fb z b) = [i]"
| "set_plane _ = []"

definition planes_set :: "hw_event list \<Rightarrow> nat list" where
  "planes_set es = concat (map set_plane es)"

lemma planes_set_simps [simp]:
  "planes_set [] = []" "planes_set (xs @ ys) = planes_set xs @ planes_set ys"
  "planes_set (e # es) = set_plane e @ planes_set es"
  by (simp_all add: planes_set_def)

definition quiet :: "'a world_scheme \<Rightarrow> 'b world_scheme \<Rightarrow> bool" where
  "quiet s t \<longleftrightarrow> (\<exists>es. events t = events s @ es \<and> planes_set es = [])"

lemma quietI: "events t = events s @ es \<Longrightarrow> planes_set es = [] \<Longrightarrow> quiet s t"
  by (auto simp: quiet_def)

lemma quiet_same [simp]: "events t = events s \<Longrightarrow> quiet s t"
  by (rule quietI [of _ _ "[]"]) simp_all

lemma quiet_trans: "quiet s t \<Longrightarrow> quiet t u \<Longrightarrow> quiet s u"
  by (auto simp: quiet_def)

end
