(* ===== verification/OsdState.thy ===== *)
theory OsdState
  imports Composers
begin

text \<open>
  The members the multi-plane strategies have in common, and the member functions whose
  bodies are the same in each of them: \<open>applyCompositionFlags\<close>, \<open>countComposerFbs\<close>,
  \<open>confirmComposerRange\<close>, \<open>compareFbScale\<close>, \<open>fillComposerFbs\<close> and
  \<open>handleOverlayVideoZorder\<close>. They are stated on the record scheme, so that a strategy that
  extends the record uses them as they are.

  The main fact is about the compose range: once \<open>confirmComposerRange\<close> has run, either
  every framebuffer can have an osd plane of its own, or the framebuffers between the two
  bounds, counted as one, leave at most as many outputs as there are osd planes.
\<close>

section \<open>State\<close>

record display_pair =
  din :: nat
  presentZorder :: u32
  pair_fb :: fbid
  pair_plane :: hw_display_plane

record osd_state = world +
  mHDRMode :: bool
  mHideSecureLayer :: bool
  mForceClientComposer :: bool
  mFramebuffers :: "fbid u32_map"
  mDisplayRefFb :: "fbid option"
  mOsdDisplayFrame :: display_zoom_info
  mCrtc :: "nat option"
  mDummyComposer :: "cid option"
  mClientComposer :: "cid option"
  mOtherComposers :: "cid list"
  mOsdPlanes :: "hw_display_plane list"
  mOtherPlanes :: "hw_display_plane list"
  mComposer :: "cid option"
  mOverlayFbs :: "fbid list"
  mComposerFbs :: "fbid list"
  mDisplayPairs :: "display_pair list"
  mHaveClient :: bool
  mInsideVideoFbsFlag :: bool
  mMinComposerZorder :: u32
  mMaxComposerZorder :: u32
  mMinVideoZorder :: u32
  mMaxVideoZorder :: u32

abbreviation INVALID :: "'a world_scheme \<Rightarrow> u32" where
  "INVALID s \<equiv> INVALID_ZORDER (plat s)"

abbreviation zorder_of :: "'a world_scheme \<Rightarrow> fbid \<Rightarrow> u32" where
  "zorder_of s f \<equiv> mZorder (fbs s f)"

abbreviation ctype_of :: "'a world_scheme \<Rightarrow> fbid \<Rightarrow> meson_composition" where
  "ctype_of s f \<equiv> mCompositionType (fbs s f)"

text \<open>The framebuffers of \<open>mFramebuffers\<close> in iteration order.\<close>

definition fb_ids :: "'a osd_state_scheme \<Rightarrow> fbid list" where
  "fb_ids s = map snd (mFramebuffers s)"

definition OSD_FB_BEGIN_ZORDER :: u32 where "OSD_FB_BEGIN_ZORDER = 65"
definition TOP_VIDEO_FB_BEGIN_ZORDER :: u32 where "TOP_VIDEO_FB_BEGIN_ZORDER = 129"
definition BOTTOM_VIDEO_FB_BEGIN_ZORDER :: u32 where "BOTTOM_VIDEO_FB_BEGIN_ZORDER = 1"
definition HWC_PLANE_FAKE_ZORDER :: u32 where "HWC_PLANE_FAKE_ZORDER = 1"

lemmas zorder_bases = OSD_FB_BEGIN_ZORDER_def TOP_VIDEO_FB_BEGIN_ZORDER_def
  BOTTOM_VIDEO_FB_BEGIN_ZORDER_def

definition is_fb_composed :: "'a osd_state_scheme \<Rightarrow> fbid \<Rightarrow> bool" where
  "is_fb_composed s f \<longleftrightarrow>
     mMinComposerZorder s \<le> zorder_of s f \<and> zorder_of s f \<le> mMaxComposerZorder s"

section \<open>Operations\<close>

definition applyCompositionFlag :: "fbid \<Rightarrow> 'a osd_state_scheme \<Rightarrow> 'a osd_state_scheme" where
  "applyCompositionFlag i s =
     (if ctype_of s i = MESON_COMPOSITION_UNDETERMINED then
        (if mHideSecureLayer s \<and> mSecure (fbs s i) then upd_comp i MESON_COMPOSITION_DUMMY s
         else if mForceClientComposer s then upd_comp i MESON_COMPOSITION_CLIENT s
         else s)
      else s)"

definition applyCompositionFlags :: "'a osd_state_scheme \<Rightarrow> 'a osd_state_scheme" where
  "applyCompositionFlags s =
     (if \<not> mHideSecureLayer s \<and> \<not> mForceClientComposer s then s
      else fold applyCompositionFlag (fb_ids s) s)"

text \<open>\<open>countComposerFbs\<close> returns (below, up, inside); its references start at 0.\<close>

fun countStep :: "'a osd_state_scheme \<Rightarrow> fbid \<Rightarrow> int \<times> int \<times> int \<Rightarrow> int \<times> int \<times> int" where
  "countStep s f (below, up, inside) =
     (if zorder_of s f < mMinComposerZorder s then (below + 1, up, inside)
      else if mMaxComposerZorder s < zorder_of s f then (below, up + 1, inside)
      else (below, up, inside + 1))"

definition countComposerFbs :: "'a osd_state_scheme \<Rightarrow> int \<times> int \<times> int" where
  "countComposerFbs s =
     (if mMinComposerZorder s = INVALID s then (0, 0, 0)
      else fold (countStep s) (fb_ids s) (0, 0, 0))"

fun count_to :: "int \<Rightarrow> int \<Rightarrow> 'b list \<Rightarrow> 'b option" where
  "count_to need c [] = None"
| "count_to need c (x # xs) = (if c + 1 = need then Some x else count_to need (c + 1) xs)"

text \<open>The case with a range already set: more framebuffers below it first, then above it.\<close>

definition extendRange :: "int \<Rightarrow> int \<Rightarrow> int \<Rightarrow> 'a osd_state_scheme
    \<Rightarrow> fault + 'a osd_state_scheme" where
  "extendRange need below up s =
     (let m = mFramebuffers s;
          (it, need') =
            (if 0 < below \<and> need \<le> below
             then (let no = int32 (below - need)
                   in (if 0 < no then advance_until_neg no m else m), 0)
             else (m, int32 (need - below)));
          s1 = (case it of [] \<Rightarrow> s
                | e # _ \<Rightarrow> s\<lparr>mMinComposerZorder := zorder_of s (snd e)\<rparr>)
      in if 0 < need' then
           (if 0 < up then
              (case advance_until_nonpos need' (upper_bound (mMaxComposerZorder s1) m) of
                 [] \<Rightarrow> Inr s1
               | e # _ \<Rightarrow> Inr (s1\<lparr>mMaxComposerZorder := zorder_of s1 (snd e)\<rparr>))
            else Inl (AssertFailed ''upClientNum should > 0.''))
         else Inr s1)"

definition confirmComposerRange :: "'a osd_state_scheme \<Rightarrow> fault + 'a osd_state_scheme" where
  "confirmComposerRange s =
     (let osdFbsNum = length (mFramebuffers s); osdPlanesNum = length (mOsdPlanes s) in
      if osdFbsNum = 0 \<or> osdPlanesNum = 0 then Inr s
      else
        (case countComposerFbs s of (below, up, inside) \<Rightarrow>
          if osdPlanesNum < osdFbsNum then
            (let need = int32 (int osdFbsNum - inside - int osdPlanesNum + 1) in
             if mMinComposerZorder s \<noteq> INVALID s then
               (if 0 < need then extendRange need below up s else Inr s)
             else
               (case count_to need 0 (mFramebuffers s) of
                  None \<Rightarrow> Inr s
                | Some e \<Rightarrow>
                    Inr (s\<lparr>mMaxComposerZorder := zorder_of s (snd e),
                           mMinComposerZorder := zorder_of s (snd (hd (mFramebuffers s)))\<rparr>)))
          else Inr s))"

definition compareFbScale :: "drm_rect \<Rightarrow> drm_rect \<Rightarrow> drm_rect \<Rightarrow> drm_rect \<Rightarrow> int" where
  "compareFbScale aSrc aDst bSrc bDst =
     (let widthCompare =
            int32 (int32 (rect_w aDst * rect_w bSrc) - int32 (rect_w bDst * rect_w aSrc));
          heightCompare =
            int32 (int32 (rect_h aDst * rect_h bSrc) - int32 (rect_h bDst * rect_h aSrc))
      in if widthCompare = 0 \<and> heightCompare = 0 then 0
         else if 0 < widthCompare \<and> 0 < heightCompare then 1
         else -1)"

text \<open>
  The loop of \<open>fillComposerFbs\<close> keeps the iterator of the last composed framebuffer and
  erases the one before it, so that one entry stands for the whole range.
\<close>

fun fillStep :: "u32 \<times> fbid \<Rightarrow> (u32 \<times> fbid) option \<times> 'a osd_state_scheme
    \<Rightarrow> (u32 \<times> fbid) option \<times> 'a osd_state_scheme" where
  "fillStep e (lst, s) =
     (if is_fb_composed s (snd e) then
        (Some e,
         (case lst of
            None \<Rightarrow> s\<lparr>mComposerFbs := mComposerFbs s @ [snd e]\<rparr>
          | Some l \<Rightarrow> s\<lparr>mComposerFbs := mComposerFbs s @ [snd e],
                        mFramebuffers := map_erase (fst l) (mFramebuffers s)\<rparr>))
      else (lst, s))"

definition fillComposerFbs :: "'a osd_state_scheme \<Rightarrow> fault + 'a osd_state_scheme" where
  "fillComposerFbs s =
     bindE
       (if mMaxComposerZorder s \<noteq> INVALID s \<and> mMinComposerZorder s \<noteq> INVALID s then
          (case fold fillStep (mFramebuffers s) (None, s) of
             (None, s') \<Rightarrow> Inl (AssertFailed ''no last composer fb !'')
           | (Some l, s') \<Rightarrow>
               assertE (mDisplayRefFb s' = None) (AssertFailed ''reffb should be NULL.'')
                 (s'\<lparr>mDisplayRefFb := Some (snd l)\<rparr>))
        else Inr s)
       (\<lambda>s. Inr (s\<lparr>mOverlayFbs := filter (is_fb_composed s) (mOverlayFbs s)\<rparr>))"

definition handleOverlayVideoZorder :: "'a osd_state_scheme \<Rightarrow> 'a osd_state_scheme" where
  "handleOverlayVideoZorder s =
     s\<lparr>mDisplayPairs := map (\<lambda>p. if is_fb_composed s (pair_fb p)
          then p\<lparr>presentZorder := presentZorder p - 1\<rparr> else p) (mDisplayPairs s)\<rparr>"

end
