(* ===== verification/ComposeRange.thy ===== *)
theory ComposeRange
  imports OsdState
begin

text \<open>
  Facts about the compose range of the multi-plane strategies. \<open>fbs_wf\<close> is the
  well-formedness of \<open>mFramebuffers\<close>: keyed by z-order, strictly increasing, no key equal
  to \<open>INVALID_ZORDER\<close>. \<open>confirmComposerRange_hits\<close> and \<open>confirmComposerRange_unset\<close>
  say what \<open>confirmComposerRange\<close> does on every branch; \<open>fillComposerFbs_hits\<close> and
  \<open>filled_ids\<close> give the state after \<open>fillComposerFbs\<close> in closed form.
\<close>

section \<open>Well-formed framebuffer maps\<close>

definition fbs_wf :: "'a osd_state_scheme \<Rightarrow> bool" where
  "fbs_wf s \<longleftrightarrow> map_wf (mFramebuffers s)
     \<and> (\<forall>e \<in> set (mFramebuffers s). fst e = zorder_of s (snd e) \<and> fst e \<noteq> INVALID s)"

definition range_unset :: "'a osd_state_scheme \<Rightarrow> bool" where
  "range_unset s \<longleftrightarrow> mMinComposerZorder s = INVALID s \<and> mMaxComposerZorder s = INVALID s"

text \<open>A range in use: both bounds set, and some framebuffer between them.\<close>

definition range_hits :: "'a osd_state_scheme \<Rightarrow> bool" where
  "range_hits s \<longleftrightarrow> mMinComposerZorder s \<noteq> INVALID s \<and> mMaxComposerZorder s \<noteq> INVALID s
     \<and> (\<exists>f \<in> set (fb_ids s). is_fb_composed s f)"

text \<open>What is left for the osd planes when the range is composed into one output.\<close>

definition osd_outputs :: "'a osd_state_scheme \<Rightarrow> nat" where
  "osd_outputs s = length (filter (\<lambda>f. \<not> is_fb_composed s f) (fb_ids s)) + 1"

lemma fbs_wf_valid: "fbs_wf s \<Longrightarrow> f \<in> set (fb_ids s) \<Longrightarrow> zorder_of s f \<noteq> INVALID s"
  unfolding fbs_wf_def fb_ids_def by fastforce

lemma fbs_wf_keys: "fbs_wf s \<Longrightarrow> map fst (mFramebuffers s) = map (zorder_of s) (fb_ids s)"
  by (auto simp: fbs_wf_def fb_ids_def)

lemma fbs_wf_sorted: "fbs_wf s \<Longrightarrow> sorted_wrt (<) (map (zorder_of s) (fb_ids s))"
  by (metis fbs_wf_def map_wf_def fbs_wf_keys)

lemma fold_countStep:
  "fold (countStep s) fs (b, u, i) =
     (b + int (length (filter (\<lambda>f. zorder_of s f < mMinComposerZorder s) fs)),
      u + int (length (filter (\<lambda>f. \<not> zorder_of s f < mMinComposerZorder s
                 \<and> mMaxComposerZorder s < zorder_of s f) fs)),
      i + int (length (filter (is_fb_composed s) fs)))"
  by (induction fs arbitrary: b u i) (auto simp: is_fb_composed_def not_less)

lemma osd_outputs_keys:
  assumes "mMinComposerZorder s \<le> mMaxComposerZorder s"
  shows "osd_outputs s =
    length (filter (\<lambda>z. z < mMinComposerZorder s) (map (zorder_of s) (fb_ids s)))
    + length (filter (\<lambda>z. mMaxComposerZorder s < z) (map (zorder_of s) (fb_ids s))) + 1"
  using length_not_inside [OF assms, of "map (zorder_of s) (fb_ids s)"]
  by (simp add: osd_outputs_def is_fb_composed_def o_def)

lemma is_fb_composed_frame [simp]:
  "is_fb_composed (s\<lparr>mComposerFbs := a\<rparr>) = is_fb_composed s"
  "is_fb_composed (s\<lparr>mFramebuffers := b\<rparr>) = is_fb_composed s"
  "is_fb_composed (s\<lparr>mDisplayRefFb := c\<rparr>) = is_fb_composed s"
  "is_fb_composed (s\<lparr>mOverlayFbs := d\<rparr>) = is_fb_composed s"
  "is_fb_composed (s\<lparr>mComposer := e\<rparr>) = is_fb_composed s"
  "is_fb_composed (s\<lparr>mDisplayPairs := f\<rparr>) = is_fb_composed s"
  "is_fb_composed (s\<lparr>mOsdPlanes := g\<rparr>) = is_fb_composed s"
  by (simp_all add: is_fb_composed_def [abs_def])

lemma fb_ids_frame [simp]:
  "fb_ids (s\<lparr>mComposerFbs := a\<rparr>) = fb_ids s" "fb_ids (s\<lparr>mDisplayRefFb := b\<rparr>) = fb_ids s"
  "fb_ids (s\<lparr>mOverlayFbs := c\<rparr>) = fb_ids s" "fb_ids (s\<lparr>mComposer := d\<rparr>) = fb_ids s"
  "fb_ids (s\<lparr>mDisplayPairs := e\<rparr>) = fb_ids s" "fb_ids (s\<lparr>mOsdPlanes := f\<rparr>) = fb_ids s"
  "fb_ids (s\<lparr>mHaveClient := g\<rparr>) = fb_ids s"
  "fb_ids (s\<lparr>mOsdDisplayFrame := h\<rparr>) = fb_ids s" "fb_ids (s\<lparr>fbs := i\<rparr>) = fb_ids s"
  "fb_ids (s\<lparr>events := j\<rparr>) = fb_ids s" "fb_ids (s\<lparr>composers := k\<rparr>) = fb_ids s"
  by (simp_all add: fb_ids_def)

lemma range_unset_frame [simp]:
  "range_unset (s\<lparr>mComposerFbs := a\<rparr>) = range_unset s"
  "range_unset (s\<lparr>mDisplayRefFb := b\<rparr>) = range_unset s"
  "range_unset (s\<lparr>mOverlayFbs := c\<rparr>) = range_unset s"
  "range_unset (s\<lparr>mOsdDisplayFrame := h\<rparr>) = range_unset s"
  by (simp_all add: range_unset_def)

lemma range_hits_frame [simp]:
  "range_hits (s\<lparr>mComposerFbs := a\<rparr>) = range_hits s"
  "range_hits (s\<lparr>mDisplayRefFb := b\<rparr>) = range_hits s"
  "range_hits (s\<lparr>mOverlayFbs := c\<rparr>) = range_hits s"
  by (simp_all add: range_hits_def)

lemma range_hits_le: "range_hits s \<Longrightarrow> mMinComposerZorder s \<le> mMaxComposerZorder s"
  by (auto simp: range_hits_def is_fb_composed_def)

lemma countComposerFbs_keys:
  assumes "range_hits s" and "ks = map (zorder_of s) (fb_ids s)"
  shows "countComposerFbs s =
    (int (length (filter (\<lambda>z. z < mMinComposerZorder s) ks)),
     int (length (filter (\<lambda>z. mMaxComposerZorder s < z) ks)),
     int (length (filter (\<lambda>z. mMinComposerZorder s \<le> z \<and> z \<le> mMaxComposerZorder s) ks)))"
proof -
  from assms(1) have le: "mMinComposerZorder s \<le> mMaxComposerZorder s"
    by (rule range_hits_le)
  then have "(\<not> z < mMinComposerZorder s \<and> mMaxComposerZorder s < z) = (mMaxComposerZorder s < z)"
    for z by auto
  then show ?thesis
    using assms by (simp add: countComposerFbs_def range_hits_def fold_countStep
        is_fb_composed_def [abs_def] o_def)
qed

text \<open>\<open>set_range mn mx s\<close>: the two bounds are all that \<open>confirmComposerRange\<close> may change.\<close>

definition set_range :: "u32 \<Rightarrow> u32 \<Rightarrow> 'a osd_state_scheme \<Rightarrow> 'a osd_state_scheme" where
  "set_range mn mx s = s\<lparr>mMinComposerZorder := mn, mMaxComposerZorder := mx\<rparr>"

lemma set_range_simps [simp]:
  "mMinComposerZorder (set_range mn mx s) = mn" "mMaxComposerZorder (set_range mn mx s) = mx"
  "mFramebuffers (set_range mn mx s) = mFramebuffers s" "fbs (set_range mn mx s) = fbs s"
  "plat (set_range mn mx s) = plat s" "mOsdPlanes (set_range mn mx s) = mOsdPlanes s"
  "mDisplayRefFb (set_range mn mx s) = mDisplayRefFb s" "fb_ids (set_range mn mx s) = fb_ids s"
  by (simp_all add: set_range_def fb_ids_def)

definition range_grown :: "nat \<Rightarrow> 'a osd_state_scheme \<Rightarrow> 'a osd_state_scheme \<Rightarrow> bool" where
  "range_grown p s s' \<longleftrightarrow> range_hits s' \<and> osd_outputs s' = p
     \<and> (\<forall>f \<in> set (fb_ids s). is_fb_composed s f \<longrightarrow> is_fb_composed s' f)"

text \<open>Any two elements of the map as bounds: what is composed and what is left.\<close>

lemma range_at:
  assumes wf: "fbs_wf s" and ks: "ks = map (zorder_of s) (fb_ids s)"
    and i: "i < length ks" and mx: "ks ! i \<le> mx" and inv: "mx \<noteq> INVALID s"
  shows "range_hits (set_range (ks ! i) mx s)"
    and "osd_outputs (set_range (ks ! i) mx s) = i + length (filter (\<lambda>z. mx < z) ks) + 1"
proof -
  let ?t = "set_range (ks ! i) mx s"
  from i ks have f: "fb_ids s ! i \<in> set (fb_ids s)" "zorder_of s (fb_ids s ! i) = ks ! i"
    by auto
  then have "ks ! i \<noteq> INVALID s" using wf unfolding fbs_wf_def fb_ids_def by fastforce
  with f mx inv show hits: "range_hits ?t"
    by (auto simp: range_hits_def is_fb_composed_def intro!: bexI [of _ "fb_ids s ! i"])
  have "sorted_wrt (<) ks" using fbs_wf_sorted [OF wf] ks by simp
  from filter_less_nth [OF this i] i have "length (filter (\<lambda>z. z < ks ! i) ks) = i" by simp
  with osd_outputs_keys [OF range_hits_le [OF hits]] ks
  show "osd_outputs ?t = i + length (filter (\<lambda>z. mx < z) ks) + 1" by simp
qed


text \<open>Where the iterator of \<open>extendRange\<close> points to, as an index into the key list.\<close>

lemma nth_fb_ids: "i < length (mFramebuffers s) \<Longrightarrow>
    snd (mFramebuffers s ! i) = fb_ids s ! i"
  by (simp add: fb_ids_def)

lemma length_fb_ids [simp]: "length (fb_ids s) = length (mFramebuffers s)"
  by (simp add: fb_ids_def)

lemma upper_bound_index:
  assumes wf: "fbs_wf s" and ks: "ks = map (zorder_of s) (fb_ids s)"
  shows "upper_bound mx (mFramebuffers s) =
    drop (length ks - length (filter (\<lambda>z. mx < z) ks)) (mFramebuffers s)"
proof -
  let ?m = "mFramebuffers s"
  have keys: "map fst ?m = ks" using fbs_wf_keys [OF wf] ks by simp
  have wf_m: "map_wf ?m" using wf by (simp add: fbs_wf_def)
  have "map fst (upper_bound mx ?m) = filter (\<lambda>z. mx < z) ks"
    by (simp add: upper_bound_filter [OF wf_m] flip: keys) (simp add: filter_map o_def)
  moreover have "upper_bound mx ?m = drop (length ?m - length (upper_bound mx ?m)) ?m"
    unfolding upper_bound_def by (rule dropWhile_suffix)
  ultimately show ?thesis using keys by (metis length_map)
qed


lemma extendRange_below:
  assumes wf: "fbs_wf s" and hits: "range_hits s" and ks: "ks = map (zorder_of s) (fb_ids s)"
    and b: "below = int (length (filter (\<lambda>z. z < mMinComposerZorder s) ks))"
    and u: "up = int (length (filter (\<lambda>z. mMaxComposerZorder s < z) ks))"
    and len: "int (length ks) < 2 ^ 31" and need: "0 < need" "need \<le> below"
  shows "\<exists>mn. extendRange need below up s = Inr (set_range mn (mMaxComposerZorder s) s)
    \<and> range_hits (set_range mn (mMaxComposerZorder s) s)
    \<and> int (osd_outputs (set_range mn (mMaxComposerZorder s) s)) = below - need + up + 1
    \<and> mn < mMinComposerZorder s"
proof -
  let ?m = "mFramebuffers s" and ?j = "nat (below - need)"
  have sorted: "sorted_wrt (<) ks" using fbs_wf_sorted [OF wf] ks by simp
  have "below \<le> int (length ks)" unfolding b by simp
  with need len have no: "int32 (below - need) = below - need" and j: "?j < length ks"
    by (auto intro!: int32_id)
  have take: "filter (\<lambda>z. z < mMinComposerZorder s) ks = take (nat below) ks"
    using filter_less_take [OF sorted] unfolding b by simp
  have "ks ! ?j \<in> set (filter (\<lambda>z. z < mMinComposerZorder s) ks)"
    unfolding take using j need by (auto simp: in_set_conv_nth intro!: exI [of _ ?j])
  then have lt: "ks ! ?j < mMinComposerZorder s" by simp
  have it: "(if 0 < int32 (below - need) then advance_until_neg (int32 (below - need)) ?m else ?m)
      = drop ?j ?m"
    using need by (simp add: no advance_until_neg_drop)
  have at: "drop ?j ?m = ?m ! ?j # drop (Suc ?j) ?m"
    using j ks by (simp add: Cons_nth_drop_Suc)
  have z: "zorder_of s (snd (?m ! ?j)) = ks ! ?j"
    using j ks by (simp add: nth_fb_ids)
  have "extendRange need below up s = Inr (set_range (ks ! ?j) (mMaxComposerZorder s) s)"
    using need by (simp add: extendRange_def it at z set_range_def)
  moreover have "ks ! ?j \<le> mMaxComposerZorder s"
    using lt range_hits_le [OF hits] by simp
  ultimately show ?thesis
    using range_at [OF wf ks j, of "mMaxComposerZorder s"] hits lt need u
    by (auto simp: range_hits_def)
qed

lemma extendRange_above:
  assumes wf: "fbs_wf s" and hits: "range_hits s" and ks: "ks = map (zorder_of s) (fb_ids s)"
    and u: "up = int (length (filter (\<lambda>z. mMaxComposerZorder s < z) ks))"
    and len: "int (length ks) < 2 ^ 31" and need: "0 < need" "\<not> (0 < below \<and> need \<le> below)"
    and below: "0 \<le> below" "below \<le> int (length ks)"
    and more: "0 < need - below" "need - below \<le> up"
  shows "\<exists>mx. extendRange need below up s = Inr (set_range (hd ks) mx s)
    \<and> range_hits (set_range (hd ks) mx s)
    \<and> int (osd_outputs (set_range (hd ks) mx s)) = up - (need - below) + 1
    \<and> mMaxComposerZorder s < mx \<and> ks \<noteq> []"
proof -
  let ?m = "mFramebuffers s" and ?k = "need - below"
  let ?a = "length ks - nat up" and ?mx = "mMaxComposerZorder s"
  let ?j = "?a + (nat ?k - 1)"
  have sorted: "sorted_wrt (<) ks" using fbs_wf_sorted [OF wf] ks by simp
  have up_le: "up \<le> int (length ks)" unfolding u by simp
  with more len have no: "int32 ?k = ?k" by (intro int32_id) auto
  have j: "?j < length ks" using more up_le by linarith
  have lens: "length ks = length ?m" using ks by simp
  then have ne: "ks \<noteq> []" and ne_m: "?m \<noteq> []" using j by auto
  have hd: "zorder_of s (snd (hd ?m)) = hd ks"
    using ne_m ks by (simp add: fb_ids_def hd_map)
  have ub: "upper_bound ?mx ?m = drop ?a ?m"
    using upper_bound_index [OF wf ks] u by simp
  have adv: "advance_until_nonpos ?k (drop ?a ?m) = ?m ! ?j # drop (Suc ?j) ?m"
  proof -
    have "advance_until_nonpos ?k (drop ?a ?m) = drop ?j ?m"
      using more by (simp add: advance_until_nonpos_drop add.commute)
    then show ?thesis using Cons_nth_drop_Suc [of ?j ?m] j lens by metis
  qed
  have z: "zorder_of s (snd (?m ! ?j)) = ks ! ?j"
    using j ks by (simp add: nth_fb_ids)
  obtain e m where Cons: "?m = e # m" using ne_m by (cases ?m) auto
  obtain e' r where it: "advance_until_nonpos ?k (upper_bound ?mx (e # m)) = e' # r"
    and e': "zorder_of s (snd e') = ks ! ?j"
    using adv z by (simp add: ub flip: Cons)
  have "zorder_of s (snd e) = hd ks" and "0 < up" using hd Cons more by auto
  with need more it e' Cons
  have ext: "extendRange need below up s = Inr (set_range (hd ks) (ks ! ?j) s)"
    by (simp add: extendRange_def no set_range_def Let_def)
  have "filter (\<lambda>z. ?mx < z) ks = drop ?a ks"
    using filter_greater_drop [OF sorted, of ?mx] u by simp
  moreover have "ks ! ?j \<in> set (drop ?a ks)"
    using j by (auto simp: in_set_conv_nth intro!: exI [of _ "nat ?k - 1"])
  ultimately have "ks ! ?j \<in> set (filter (\<lambda>z. ?mx < z) ks)" by simp
  then have gt: "?mx < ks ! ?j" by simp
  have "ks ! 0 \<le> ks ! ?j"
    using sorted j by (metis gr_zeroI less_imp_le order_refl sorted_wrt_nth_less)
  moreover have "ks ! ?j \<noteq> INVALID s"
    using wf j ks unfolding fbs_wf_def fb_ids_def by (auto simp: all_set_conv_all_nth)
  moreover have "length (filter (\<lambda>z. ks ! ?j < z) ks) = length ks - Suc ?j"
    using filter_greater_nth [OF sorted j] by simp
  moreover have "0 < length ks" using ne by simp
  ultimately have r: "range_hits (set_range (hd ks) (ks ! ?j) s)"
    and "osd_outputs (set_range (hd ks) (ks ! ?j) s) = 0 + (length ks - Suc ?j) + 1"
    using range_at [OF wf ks, of 0 "ks ! ?j"] ne by (simp_all add: hd_conv_nth)
  moreover have "int (0 + (length ks - Suc ?j) + 1) = up - ?k + 1"
    using j more up_le by linarith
  ultimately show ?thesis using ext gt ne by metis
qed


lemma count_to_nth: "c < need \<Longrightarrow> nat (need - c) \<le> length xs \<Longrightarrow>
    count_to need c xs = Some (xs ! (nat (need - c) - 1))"
proof (induction need c xs rule: count_to.induct)
  case (2 need c x xs)
  show ?case
  proof (cases "c + 1 = need")
    case True
    then have "nat (need - c) = 1" by simp
    with True show ?thesis by simp
  next
    case False
    with "2.prems" have "nat (need - c) - 1 = Suc (nat (need - (c + 1)) - 1)" by linarith
    with False 2 show ?thesis by simp
  qed
qed simp

lemma osd_outputs_le:
  assumes "range_hits s"
  shows "osd_outputs s \<le> length (mFramebuffers s)"
proof -
  from assms obtain f where "f \<in> set (fb_ids s)" "is_fb_composed s f"
    by (auto simp: range_hits_def)
  then have "length (filter (\<lambda>f. \<not> is_fb_composed s f) (fb_ids s)) < length (fb_ids s)"
    by (intro length_filter_less [of f]) auto
  then show ?thesis by (simp add: osd_outputs_def)
qed

text \<open>The two cases of \<open>confirmComposerRange\<close>: a range is already set, or it is free.\<close>

lemma confirmComposerRange_hits:
  assumes wf: "fbs_wf s" and hits: "range_hits s" and planes: "mOsdPlanes s \<noteq> []"
    and len: "int (length (mFramebuffers s)) < 2 ^ 31"
  shows "\<exists>mn mx. confirmComposerRange s = Inr (set_range mn mx s)
    \<and> range_hits (set_range mn mx s) \<and> osd_outputs (set_range mn mx s) \<le> length (mOsdPlanes s)
    \<and> (\<forall>f \<in> set (fb_ids s). is_fb_composed s f \<longrightarrow> is_fb_composed (set_range mn mx s) f)"
proof -
  define ks where ks: "ks = map (zorder_of s) (fb_ids s)"
  let ?mn = "mMinComposerZorder s" and ?mx = "mMaxComposerZorder s"
  let ?n = "int (length (mFramebuffers s))" and ?p = "int (length (mOsdPlanes s))"
  obtain below up inside where cnt: "countComposerFbs s = (below, up, inside)"
    and below: "below = int (length (filter (\<lambda>z. z < ?mn) ks))"
    and up: "up = int (length (filter (\<lambda>z. ?mx < z) ks))"
    and inside: "inside = int (length (filter (\<lambda>z. ?mn \<le> z \<and> z \<le> ?mx) ks))"
    using countComposerFbs_keys [OF hits ks] by simp
  have lenks: "length ks = length (mFramebuffers s)" by (simp add: ks)
  have sum: "below + up + inside = ?n"
    using length_below_up_inside [OF range_hits_le [OF hits], of ks] ks
    by (simp add: below up inside)
  have outs: "int (osd_outputs s) = below + up + 1"
    using osd_outputs_keys [OF range_hits_le [OF hits]] ks by (simp add: below up)
  have lens: "int (length ks) < 2 ^ 31" "below \<le> int (length ks)" "0 \<le> below" "0 \<le> up" "0 \<le> inside"
    using len length_filter_le [of _ ks] lenks by (simp_all add: below up inside)
  have p1: "1 \<le> ?p" using planes by (cases "mOsdPlanes s") auto
  have ne: "mFramebuffers s \<noteq> []" using hits by (auto simp: range_hits_def fb_ids_def)
  define need where need: "need = ?n - inside - ?p + 1"
  have need32: "int32 (?n - inside - ?p + 1) = need" if "?p < ?n"
    unfolding need using that lens sum len p1 by (intro int32_id) linarith+
  have same: "set_range ?mn ?mx s = s" by (simp add: set_range_def)
  consider (keep) "?n \<le> ?p \<or> need \<le> 0" | (low) "?p < ?n" "0 < need" "0 < below" "need \<le> below"
    | (high) "?p < ?n" "0 < need" "\<not> (0 < below \<and> need \<le> below)" by linarith
  then show ?thesis
  proof cases
    case keep
    then have "confirmComposerRange s = Inr s"
      using ne planes hits need32 by (auto simp: confirmComposerRange_def cnt range_hits_def Let_def)
    moreover have "int (osd_outputs s) \<le> ?p"
      using keep osd_outputs_le [OF hits] outs sum need by linarith
    ultimately show ?thesis using hits same by (intro exI [of _ ?mn] exI [of _ ?mx]) simp
  next
    case low
    then have c: "confirmComposerRange s = extendRange need below up s"
      using ne planes hits need32 by (auto simp: confirmComposerRange_def cnt range_hits_def Let_def)
    obtain mn where e: "extendRange need below up s = Inr (set_range mn ?mx s)"
      and r: "range_hits (set_range mn ?mx s)" and mn: "mn < ?mn"
      and o: "int (osd_outputs (set_range mn ?mx s)) = below - need + up + 1"
      using extendRange_below [OF wf hits ks below up lens(1) low(2,4)] by blast
    have "osd_outputs (set_range mn ?mx s) \<le> length (mOsdPlanes s)"
      using o need sum by linarith
    with c e r mn show ?thesis
      by (intro exI [of _ mn] exI [of _ ?mx]) (auto simp: is_fb_composed_def)
  next
    case high
    then have c: "confirmComposerRange s = extendRange need below up s"
      using ne planes hits need32 by (auto simp: confirmComposerRange_def cnt range_hits_def Let_def)
    have p: "0 < ?p" using planes by simp
    have more: "0 < need - below" "need - below \<le> up"
      using high lens sum need p by linarith+
    obtain mx where e: "extendRange need below up s = Inr (set_range (hd ks) mx s)"
      and r: "range_hits (set_range (hd ks) mx s)" and mx: "?mx < mx" and "ks \<noteq> []"
      and o: "int (osd_outputs (set_range (hd ks) mx s)) = up - (need - below) + 1"
      using extendRange_above [OF wf hits ks up lens(1) high(2,3) lens(3,2) more] by blast
    have "\<forall>f \<in> set (fb_ids s). hd ks \<le> zorder_of s f"
    proof -
      have "sorted_wrt (<) ks" using fbs_wf_sorted [OF wf] ks by simp
      then have "\<forall>z \<in> set ks. hd ks \<le> z" by (cases ks) auto
      then show ?thesis by (simp add: ks)
    qed
    moreover have "osd_outputs (set_range (hd ks) mx s) \<le> length (mOsdPlanes s)"
      using o need sum by linarith
    ultimately show ?thesis using c e r mx
      by (intro exI [of _ "hd ks"] exI [of _ mx]) (auto simp: is_fb_composed_def)
  qed
qed

lemma confirmComposerRange_unset:
  assumes wf: "fbs_wf s" and unset: "range_unset s" and planes: "mOsdPlanes s \<noteq> []"
    and len: "int (length (mFramebuffers s)) < 2 ^ 31"
  shows "length (mFramebuffers s) \<le> length (mOsdPlanes s) \<and> confirmComposerRange s = Inr s
    \<or> (\<exists>mn mx. confirmComposerRange s = Inr (set_range mn mx s)
        \<and> range_hits (set_range mn mx s)
        \<and> osd_outputs (set_range mn mx s) = length (mOsdPlanes s))"
proof (cases "length (mOsdPlanes s) < length (mFramebuffers s)")
  case False
  then show ?thesis using planes
    by (auto simp: confirmComposerRange_def Let_def split: prod.splits)
next
  case True
  define ks where ks: "ks = map (zorder_of s) (fb_ids s)"
  let ?m = "mFramebuffers s" and ?n = "length (mFramebuffers s)" and ?p = "length (mOsdPlanes s)"
  let ?need = "int ?n - int ?p + 1" and ?i = "?n - ?p"
  have p: "0 < ?p" using planes by simp
  have need32: "int32 ?need = ?need" using True len p by (intro int32_id) linarith+
  have lenks: "length ks = ?n" by (simp add: ks)
  have i: "?i < length ks" using p True lenks by linarith
  have sorted: "sorted_wrt (<) ks" using fbs_wf_sorted [OF wf] ks by simp
  have "nat (?need - 0) - 1 = ?i" and "nat (?need - 0) \<le> length ?m" using True p by linarith+
  then have cnt: "count_to ?need 0 ?m = Some (?m ! ?i)"
    using count_to_nth [of 0 ?need ?m] True by simp
  have z: "zorder_of s (snd (?m ! ?i)) = ks ! ?i" using i ks by (simp add: nth_fb_ids)
  have ne: "?m \<noteq> []" using True by auto
  then have hd: "zorder_of s (snd (hd ?m)) = ks ! 0"
    using ks by (simp add: fb_ids_def hd_conv_nth)
  have eq: "confirmComposerRange s = Inr (set_range (ks ! 0) (ks ! ?i) s)"
    using True ne planes unset
    by (simp add: confirmComposerRange_def countComposerFbs_def range_unset_def Let_def need32
        cnt z hd set_range_def)
  have "ks ! 0 \<le> ks ! ?i"
    using sorted i by (metis gr_zeroI less_imp_le order_refl sorted_wrt_nth_less)
  moreover have "ks ! ?i \<noteq> INVALID s"
    using wf i ks unfolding fbs_wf_def fb_ids_def by (auto simp: all_set_conv_all_nth)
  moreover have "length (filter (\<lambda>z. ks ! ?i < z) ks) = length ks - Suc ?i"
    using filter_greater_nth [OF sorted i] by simp
  moreover have "0 < length ks" using i by linarith
  ultimately have "range_hits (set_range (ks ! 0) (ks ! ?i) s)"
    and "osd_outputs (set_range (ks ! 0) (ks ! ?i) s) = 0 + (length ks - Suc ?i) + 1"
    using range_at [OF wf ks, of 0 "ks ! ?i"] by simp_all
  moreover have "0 + (length ks - Suc ?i) + 1 = ?p" using True p ks by simp
  ultimately show ?thesis using eq by metis
qed

section \<open>Collecting the composed framebuffers\<close>

lemma fbs_wf_distinct: "fbs_wf s \<Longrightarrow> distinct (fb_ids s)"
  using fbs_wf_sorted [of s] by (simp add: strict_sorted_iff distinct_map)

text \<open>
  The loop of \<open>fillComposerFbs\<close> after a prefix \<open>xs\<close> of the map: every composed entry but
  the last one is gone.
\<close>

definition composed_entries :: "'a osd_state_scheme \<Rightarrow> (u32 \<times> fbid) list \<Rightarrow> (u32 \<times> fbid) list" where
  "composed_entries s xs = filter (\<lambda>e. is_fb_composed s (snd e)) xs"

abbreviation range_entries :: "'a osd_state_scheme \<Rightarrow> (u32 \<times> fbid) list" where
  "range_entries s \<equiv> composed_entries s (mFramebuffers s)"

definition filled :: "'a osd_state_scheme \<Rightarrow> (u32 \<times> fbid) list \<Rightarrow> 'a osd_state_scheme" where
  "filled s cs = s\<lparr>mComposerFbs := mComposerFbs s @ map snd cs,
     mFramebuffers := filter (\<lambda>e. e \<notin> set (butlast cs)) (mFramebuffers s)\<rparr>"

lemma set_composed_entries: "set (composed_entries s xs) = {e \<in> set xs. is_fb_composed s (snd e)}"
  by (simp add: composed_entries_def)

lemma filled_simps [simp]:
  "mMinComposerZorder (filled s cs) = mMinComposerZorder s"
  "mMaxComposerZorder (filled s cs) = mMaxComposerZorder s"
  "fbs (filled s cs) = fbs s" "plat (filled s cs) = plat s"
  "mDisplayRefFb (filled s cs) = mDisplayRefFb s" "mOverlayFbs (filled s cs) = mOverlayFbs s"
  "mOsdPlanes (filled s cs) = mOsdPlanes s"
  "mComposerFbs (filled s cs) = mComposerFbs s @ map snd cs"
  by (simp_all add: filled_def)

lemma is_fb_composed_filled [simp]: "is_fb_composed (filled s cs) = is_fb_composed s"
  by (simp add: is_fb_composed_def [abs_def])

lemma fold_fillStep:
  assumes "map_wf (mFramebuffers s)" and "mFramebuffers s = xs @ ys"
  shows "fold fillStep xs (None, s) =
    (if composed_entries s xs = [] then None else Some (last (composed_entries s xs)),
     filled s (composed_entries s xs))"
  using assms(2)
proof (induction xs arbitrary: ys rule: rev_induct)
  case Nil
  then show ?case by (simp add: filled_def composed_entries_def)
next
  case (snoc x xs)
  let ?m = "mFramebuffers s" and ?cs = "composed_entries s xs"
  from snoc have IH: "fold fillStep xs (None, s) =
      (if ?cs = [] then None else Some (last ?cs), filled s ?cs)" by simp
  have snoc_eq: "composed_entries s (xs @ [x]) = (if is_fb_composed s (snd x) then ?cs @ [x] else ?cs)"
    by (simp add: composed_entries_def)
  show ?case
  proof (cases "is_fb_composed s (snd x) \<and> ?cs \<noteq> []")
    case False
    then show ?thesis using IH snoc_eq by (auto simp: filled_def)
  next
    case True
    then have ne: "?cs \<noteq> []" by simp
    have last: "last ?cs \<in> set ?m"
      using last_in_set [OF ne] snoc.prems by (auto simp: set_composed_entries)
    have "distinct (map fst ?m)" using assms(1) by (rule std_map.distinct_keys)
    then have "(fst e \<noteq> fst (last ?cs)) = (e \<noteq> last ?cs)" if "e \<in> set ?m" for e
      using that last by (auto simp: distinct_map inj_on_def)
    then have "map_erase (fst (last ?cs)) (filter (\<lambda>e. e \<notin> set (butlast ?cs)) ?m) =
        filter (\<lambda>e. e \<notin> set ?cs) ?m"
      using set_last_or_butlast [OF ne] by (auto simp: map_erase_def intro!: filter_cong)
    with True IH snoc_eq show ?thesis by (simp add: filled_def)
  qed
qed

lemma range_entries_ids: "map snd (range_entries s) = filter (is_fb_composed s) (fb_ids s)"
  by (simp add: fb_ids_def filter_map o_def composed_entries_def)

lemma range_entries_ne: "range_hits s \<Longrightarrow> range_entries s \<noteq> []"
  by (auto simp: range_hits_def fb_ids_def filter_empty_conv composed_entries_def)

lemma range_entries_last:
  assumes "range_hits s"
  shows "last (range_entries s) \<in> set (mFramebuffers s)"
    and "is_fb_composed s (snd (last (range_entries s)))"
  using last_in_set [OF range_entries_ne [OF assms]] by (simp_all add: set_composed_entries)

definition range_ref :: "'a osd_state_scheme \<Rightarrow> fbid" where
  "range_ref s = snd (last (range_entries s))"

lemma range_ref: "range_hits s \<Longrightarrow> range_ref s \<in> set (fb_ids s) \<and> is_fb_composed s (range_ref s)"
  using range_entries_last [of s] by (auto simp: range_ref_def fb_ids_def)

lemma fillComposerFbs_hits:
  assumes wf: "fbs_wf s" and hits: "range_hits s" and ref: "mDisplayRefFb s = None"
  shows "fillComposerFbs s = Inr ((filled s (range_entries s))
      \<lparr>mDisplayRefFb := Some (range_ref s),
       mOverlayFbs := filter (is_fb_composed s) (mOverlayFbs s)\<rparr>)"
proof -
  have "map_wf (mFramebuffers s)" using wf by (simp add: fbs_wf_def)
  then show ?thesis
    using hits ref fold_fillStep [of s "mFramebuffers s" "[]"] range_entries_ne [OF hits]
    by (simp add: fillComposerFbs_def range_hits_def assertE_def range_ref_def)
qed

lemma fillComposerFbs_unset:
  assumes "range_unset s"
  shows "fillComposerFbs s = Inr (s\<lparr>mOverlayFbs := filter (is_fb_composed s) (mOverlayFbs s)\<rparr>)"
  using assms by (simp add: fillComposerFbs_def range_unset_def)

lemma fbs_wf_distinct_entries:
  assumes "fbs_wf s"
  shows "distinct (mFramebuffers s)" and "inj_on snd (set (mFramebuffers s))"
    and "distinct (range_entries s)"
  using fbs_wf_distinct [OF assms]
  by (simp_all add: fb_ids_def distinct_map composed_entries_def)

lemma filled_length:
  assumes wf: "fbs_wf s" and hits: "range_hits s"
  shows "length (mFramebuffers (filled s (range_entries s))) = osd_outputs s"
proof -
  let ?m = "mFramebuffers s" and ?cs = "range_entries s"
  note d = fbs_wf_distinct_entries [OF wf]
  have sub: "set (butlast ?cs) \<subseteq> set ?m"
    by (auto dest!: in_set_butlastD simp: set_composed_entries)
  have "length (filter (\<lambda>e. e \<notin> set (butlast ?cs)) ?m) = length ?m - (length ?cs - 1)"
    using length_filter_not_mem [OF d(1) sub] d(3) by (simp add: distinct_butlast)
  moreover have "length (filter (\<lambda>e. \<not> is_fb_composed s (snd e)) ?m) + length ?cs = length ?m"
    using length_filter_partition [of "\<lambda>e. is_fb_composed s (snd e)" ?m]
    by (simp add: composed_entries_def)
  moreover have "0 < length ?cs" using range_entries_ne [OF hits] by simp
  ultimately show ?thesis
    by (simp add: filled_def osd_outputs_def fb_ids_def filter_map o_def)
qed

lemma filled_fbs_wf: "fbs_wf s \<Longrightarrow> fbs_wf (filled s cs)"
  by (auto simp: fbs_wf_def filled_def map_wf_def sorted_wrt_filter_keys)

text \<open>What stays in the map: the framebuffers outside the range, and the one that stands for it.\<close>

lemma filled_ids:
  assumes wf: "fbs_wf s" and hits: "range_hits s"
  shows "f \<in> set (fb_ids (filled s (range_entries s))) \<longleftrightarrow>
    f \<in> set (fb_ids s) \<and> (\<not> is_fb_composed s f \<or> f = range_ref s)"
proof -
  let ?m = "mFramebuffers s" and ?cs = "range_entries s"
  note d = fbs_wf_distinct_entries [OF wf]
  have bl: "e \<in> set (butlast ?cs) \<longleftrightarrow> e \<in> set ?cs \<and> e \<noteq> last ?cs" for e
    using set_last_butlast [OF range_entries_ne [OF hits] d(3)] by simp
  have mem: "e \<in> set ?m \<and> e \<notin> set (butlast ?cs) \<longleftrightarrow>
      e \<in> set ?m \<and> (\<not> is_fb_composed s (snd e) \<or> e = last ?cs)" for e
    by (auto simp: bl set_composed_entries)
  have inj: "e = last ?cs \<longleftrightarrow> snd e = range_ref s" if "e \<in> set ?m" for e
    using d(2) that range_entries_last(1) [OF hits] by (auto simp: inj_on_def range_ref_def)
  have "f \<in> set (fb_ids (filled s ?cs)) \<longleftrightarrow> (\<exists>e \<in> set ?m. f = snd e \<and> e \<notin> set (butlast ?cs))"
    by (auto simp: fb_ids_def filled_def)
  also have "\<dots> \<longleftrightarrow> (\<exists>e \<in> set ?m. f = snd e \<and> (\<not> is_fb_composed s f \<or> f = range_ref s))"
    using mem inj by blast
  finally show ?thesis by (auto simp: fb_ids_def)
qed

end
