(* ===== verification/Multiplanes.thy ===== *)
theory Multiplanes
  imports ComposeRange
begin

text \<open>
  \<open>composition/simplestrategy/MultiplanesComposition\<close>: the strategy for several osd planes
  with one legacy video plane, one legacy extended video plane and one hwc video plane. A frame
  is \<open>setup\<close>, \<open>decideComposition\<close> and \<open>commit\<close>; \<open>updateComposition\<close> replaces the
  first two when the previous decision is reused.

  \<open>OSD_OUTPUT_ONE_CHANNEL\<close> is 1 in this file, so \<open>setup\<close> always sets \<open>mHDRMode\<close>.
  \<open>MESON_ASSERT\<close> is the debug build's (it aborts). The dump strings are left out.
\<close>

section \<open>State\<close>

record mp_state = osd_state +
  mHwcVideoPlane :: "hw_display_plane option"
  mLegacyVideoPlane :: "hw_display_plane option"
  mLegacyExtVideoPlane :: "hw_display_plane option"
  mSkipValidate :: bool

definition OSD_PLANE_NUM_MAX :: nat where "OSD_PLANE_NUM_MAX = 3"
definition OSD_PLANE_DIN_ZERO :: nat where "OSD_PLANE_DIN_ZERO = 0"
definition OSD_PLANE_DIN_ONE :: nat where "OSD_PLANE_DIN_ONE = 1"
definition OSD_PLANE_DIN_TWO :: nat where "OSD_PLANE_DIN_TWO = 2"
definition VIDEO_PLANE_DIN_ONE :: nat where "VIDEO_PLANE_DIN_ONE = 3"
definition VIDEO_PLANE_DIN_TWO :: nat where "VIDEO_PLANE_DIN_TWO = 4"
definition PIP_VIDEO_DISPLAYFRAME_SIZE :: int where "PIP_VIDEO_DISPLAYFRAME_SIZE = 16"
definition OSD_SCALER_INPUT_MAX_WIDTH :: int where "OSD_SCALER_INPUT_MAX_WIDTH = 1920"
definition OSD_SCALER_INPUT_MAX_HEIGHT :: int where "OSD_SCALER_INPUT_MAX_HEIGHT = 1080"

lemmas din_defs = OSD_PLANE_DIN_ZERO_def OSD_PLANE_DIN_ONE_def OSD_PLANE_DIN_TWO_def
  VIDEO_PLANE_DIN_ONE_def VIDEO_PLANE_DIN_TWO_def

section \<open>Setup\<close>

definition init :: "mp_state \<Rightarrow> mp_state" where
  "init s = s\<lparr>
     mHDRMode := False, mHideSecureLayer := False, mForceClientComposer := False,
     mHaveClient := False, mInsideVideoFbsFlag := False, mSkipValidate := False,
     mDisplayRefFb := None, mOsdDisplayFrame := zero_zoom, mCrtc := None,
     mFramebuffers := [],
     mDummyComposer := None, mClientComposer := None, mOtherComposers := [],
     mOsdPlanes := [], mHwcVideoPlane := None, mLegacyVideoPlane := None,
     mLegacyExtVideoPlane := None, mOtherPlanes := [],
     mComposer := None, mOverlayFbs := [], mComposerFbs := [], mDisplayPairs := [],
     mMinComposerZorder := INVALID s, mMaxComposerZorder := INVALID s,
     mMinVideoZorder := INVALID s, mMaxVideoZorder := INVALID s\<rparr>"

definition COMPOSE_FORCE_CLIENT :: u32 where "COMPOSE_FORCE_CLIENT = 1"
definition COMPOSE_HIDE_SECURE_FB :: u32 where "COMPOSE_HIDE_SECURE_FB = 2"

definition collectComposer :: "cid \<Rightarrow> mp_state \<Rightarrow> mp_state" where
  "collectComposer c s =
     (case composer_getType (composers s c) of
        MESON_COMPOSITION_DUMMY \<Rightarrow>
          (if mDummyComposer s = None then s\<lparr>mDummyComposer := Some c\<rparr> else s)
      | MESON_COMPOSITION_CLIENT \<Rightarrow>
          (if mClientComposer s = None then s\<lparr>mClientComposer := Some c\<rparr> else s)
      | _ \<Rightarrow> s\<lparr>mOtherComposers := mOtherComposers s @ [c]\<rparr>)"

definition collectPlane :: "hw_display_plane \<Rightarrow> mp_state \<Rightarrow> fault + mp_state" where
  "collectPlane p s =
     (if \<not> plane_available p then Inr s else
      case plane_type p of
        OSD_PLANE \<Rightarrow>
          assertE (length (mOsdPlanes s @ [p]) \<le> OSD_PLANE_NUM_MAX)
            (AssertFailed ''More than three osd planes !!'')
            (s\<lparr>mOsdPlanes := mOsdPlanes s @ [p]\<rparr>)
      | HWC_VIDEO_PLANE \<Rightarrow>
          (if mHwcVideoPlane s = None then Inr (s\<lparr>mHwcVideoPlane := Some p\<rparr>)
           else Inl (AssertFailed ''More than one hwc_video osd plane''))
      | LEGACY_VIDEO_PLANE \<Rightarrow>
          (if mLegacyVideoPlane s = None then Inr (s\<lparr>mLegacyVideoPlane := Some p\<rparr>)
           else Inl (AssertFailed ''More than one legacy_video osd plane''))
      | LEGACY_EXT_VIDEO_PLANE \<Rightarrow>
          (if mLegacyExtVideoPlane s = None then Inr (s\<lparr>mLegacyExtVideoPlane := Some p\<rparr>)
           else Inl (AssertFailed ''More than one legacy_ext_video osd plane''))
      | _ \<Rightarrow> Inr (s\<lparr>mOtherPlanes := mOtherPlanes s @ [p]\<rparr>))"

definition addLayer :: "fbid \<Rightarrow> 'a osd_state_scheme \<Rightarrow> 'a osd_state_scheme" where
  "addLayer f s = s\<lparr>mFramebuffers := map_insert (zorder_of s f) f (mFramebuffers s)\<rparr>"

definition mp_setup :: "fbid list \<Rightarrow> cid list \<Rightarrow> hw_display_plane list \<Rightarrow> nat option \<Rightarrow> u32
    \<Rightarrow> mp_state \<Rightarrow> fault + mp_state" where
  "mp_setup layers cs planes crtc reqFlag s =
     (let s = init s;
          s = s\<lparr>mHDRMode := True\<rparr>;
          s = (if and reqFlag COMPOSE_HIDE_SECURE_FB \<noteq> 0 then s\<lparr>mHideSecureLayer := True\<rparr> else s);
          s = (if and reqFlag COMPOSE_FORCE_CLIENT \<noteq> 0
               then s\<lparr>mForceClientComposer := True\<rparr> else s);
          s = s\<lparr>mCrtc := crtc\<rparr>;
          s = fold addLayer layers s;
          s = fold collectComposer cs s
      in foldE collectPlane planes s)"

definition updateComposition :: "mp_state \<Rightarrow> mp_state" where
  "updateComposition s = s\<lparr>mOtherPlanes := [], mSkipValidate := True\<rparr>"

section \<open>Video framebuffers\<close>

definition planeCompPairs ::
    "(drm_fb_type \<times> (meson_plane_type \<times> meson_composition)) list" where
  "planeCompPairs = [
     (DRM_FB_VIDEO_OVERLAY, LEGACY_VIDEO_PLANE, MESON_COMPOSITION_PLANE_AMVIDEO),
     (DRM_FB_VIDEO_OMX_PTS, LEGACY_VIDEO_PLANE, MESON_COMPOSITION_PLANE_AMVIDEO),
     (DRM_FB_VIDEO_SIDEBAND, LEGACY_VIDEO_PLANE, MESON_COMPOSITION_PLANE_AMVIDEO_SIDEBAND),
     (DRM_FB_VIDEO_SIDEBAND_TV, LEGACY_VIDEO_PLANE, MESON_COMPOSITION_PLANE_AMVIDEO_SIDEBAND),
     (DRM_FB_VIDEO_SIDEBAND_SECOND, LEGACY_EXT_VIDEO_PLANE,
        MESON_COMPOSITION_PLANE_AMVIDEO_SIDEBAND),
     (DRM_FB_VIDEO_OMX_PTS_SECOND, LEGACY_EXT_VIDEO_PLANE, MESON_COMPOSITION_PLANE_AMVIDEO),
     (DRM_FB_VIDEO_UVM_DMA, HWC_VIDEO_PLANE, MESON_COMPOSITION_PLANE_HWCVIDEO)]"

text \<open>The frame is 16x16 or smaller: a picture-in-picture window that is not shown.\<close>

definition is_pip_window :: "drm_rect \<Rightarrow> bool" where
  "is_pip_window r \<longleftrightarrow>
     \<bar>rect_w r\<bar> \<le> PIP_VIDEO_DISPLAYFRAME_SIZE \<and> \<bar>rect_h r\<bar> \<le> PIP_VIDEO_DISPLAYFRAME_SIZE"

definition pushPair :: "nat \<Rightarrow> u32 \<Rightarrow> fbid \<Rightarrow> hw_display_plane \<Rightarrow> 'a osd_state_scheme
    \<Rightarrow> 'a osd_state_scheme" where
  "pushPair d z f p s = s\<lparr>mDisplayPairs := mDisplayPairs s @
     [\<lparr>din = d, presentZorder = z, pair_fb = f, pair_plane = p\<rparr>]\<rparr>"

definition handleVideoFb :: "fbid \<Rightarrow> mp_state \<Rightarrow> mp_state" where
  "handleVideoFb f s =
     (let z = zorder_of s f in
      case map_of planeCompPairs (mFbType (fbs s f)) of
        None \<Rightarrow> s
      | Some (LEGACY_VIDEO_PLANE, destComp) \<Rightarrow>
          (case mLegacyVideoPlane s of
             Some p \<Rightarrow> upd_comp f destComp
               ((pushPair VIDEO_PLANE_DIN_ONE z f p s)\<lparr>mLegacyVideoPlane := None\<rparr>)
           | None \<Rightarrow> upd_comp f MESON_COMPOSITION_DUMMY s)
      | Some (LEGACY_EXT_VIDEO_PLANE, destComp) \<Rightarrow>
          (if is_pip_window (mDisplayFrame (fbs s f)) then upd_comp f MESON_COMPOSITION_DUMMY s
           else
             (case mLegacyExtVideoPlane s of
                Some p \<Rightarrow> upd_comp f destComp
                  ((pushPair VIDEO_PLANE_DIN_TWO z f p s)\<lparr>mLegacyExtVideoPlane := None\<rparr>)
              | None \<Rightarrow> upd_comp f MESON_COMPOSITION_DUMMY s))
      | Some (HWC_VIDEO_PLANE, destComp) \<Rightarrow>
          (case mHwcVideoPlane s of
             Some p \<Rightarrow> upd_comp f destComp
               ((pushPair VIDEO_PLANE_DIN_TWO z f p s)\<lparr>mHwcVideoPlane := None\<rparr>)
           | None \<Rightarrow> upd_comp f MESON_COMPOSITION_DUMMY s)
      | Some _ \<Rightarrow> s)"

definition handleVideoComposition :: "mp_state \<Rightarrow> mp_state" where
  "handleVideoComposition s = fold handleVideoFb (fb_ids s) s"

section \<open>Picking the osd framebuffers\<close>

definition growRange :: "fbid \<Rightarrow> 'a osd_state_scheme \<Rightarrow> 'a osd_state_scheme" where
  "growRange f s =
     (if mMinComposerZorder s = INVALID s \<or> mMaxComposerZorder s = INVALID s then
        s\<lparr>mMinComposerZorder := zorder_of s f, mMaxComposerZorder := zorder_of s f\<rparr>
      else
        s\<lparr>mMinComposerZorder := min (zorder_of s f) (mMinComposerZorder s),
          mMaxComposerZorder := max (zorder_of s f) (mMaxComposerZorder s)\<rparr>)"

text \<open>
  The \<open>UNDETERMINED\<close> case, reached by fall through for a client layer: \<open>isFbSupport\<close> is
  asked of the first osd plane, which does not exist when there is none.
\<close>

definition pickoutUiFb :: "bool \<Rightarrow> fbid \<Rightarrow> 'a osd_state_scheme
    \<Rightarrow> fault + 'a osd_state_scheme" where
  "pickoutUiFb bClientLayer f s =
     (if bClientLayer then Inr (growRange f s)
      else
        (case mOsdPlanes s of
           [] \<Rightarrow> Inl NullDeref
         | p # _ \<Rightarrow> Inr (if \<not> plane_isFbSupport p (fbs s f) then growRange f s else s)))"

definition pickoutOsdFb :: "u32 \<times> fbid \<Rightarrow> fbid list \<times> mp_state
    \<Rightarrow> fault + fbid list \<times> mp_state" where
  "pickoutOsdFb e ds =
     (let (dummyFbs, s) = ds; f = snd e; remove = mFramebuffers_update (map_erase (fst e)) in
      case ctype_of s f of
        MESON_COMPOSITION_DUMMY \<Rightarrow> Inr (dummyFbs @ [f], remove s)
      | MESON_COMPOSITION_PLANE_AMVIDEO \<Rightarrow>
          Inr (dummyFbs, remove (s\<lparr>mOverlayFbs := mOverlayFbs s @ [f]\<rparr>))
      | MESON_COMPOSITION_PLANE_AMVIDEO_SIDEBAND \<Rightarrow>
          Inr (dummyFbs, remove (s\<lparr>mOverlayFbs := mOverlayFbs s @ [f]\<rparr>))
      | MESON_COMPOSITION_PLANE_HWCVIDEO \<Rightarrow>
          Inr (dummyFbs, remove (s\<lparr>mOverlayFbs := mOverlayFbs s @ [f]\<rparr>))
      | MESON_COMPOSITION_CLIENT \<Rightarrow>
          bindE (pickoutUiFb True f (s\<lparr>mHaveClient := True\<rparr>)) (\<lambda>s. Inr (dummyFbs, s))
      | MESON_COMPOSITION_UNDETERMINED \<Rightarrow>
          bindE (pickoutUiFb False f s) (\<lambda>s. Inr (dummyFbs, s))
      | _ \<Rightarrow> Inr (dummyFbs, remove s))"

text \<open>
  The loop over the video framebuffers: one inside the ui range stays and moves the compose
  range (or sets \<open>mInsideVideoFbsFlag\<close>), one outside is erased.
\<close>

definition adjustForVideo :: "u32 \<Rightarrow> u32 \<Rightarrow> fbid \<Rightarrow> 'a osd_state_scheme
    \<Rightarrow> 'a osd_state_scheme" where
  "adjustForVideo uiMin uiMax f s =
     (if uiMin \<le> zorder_of s f \<and> zorder_of s f \<le> uiMax then
        (if mHDRMode s then
           s\<lparr>mMinComposerZorder := uiMin,
             mMaxComposerZorder :=
               (if mMaxComposerZorder s = INVALID s \<or> mMaxComposerZorder s < zorder_of s f
                then zorder_of s f else mMaxComposerZorder s)\<rparr>
         else s\<lparr>mInsideVideoFbsFlag := True\<rparr>)
      else s)"

definition checkVideoFbs :: "'a osd_state_scheme \<Rightarrow> 'a osd_state_scheme" where
  "checkVideoFbs s =
     (if mOverlayFbs s \<noteq> [] \<and> mFramebuffers s \<noteq> [] then
        (let uiMin = zorder_of s (snd (hd (mFramebuffers s)));
             uiMax = zorder_of s (snd (last (mFramebuffers s)));
             s' = fold (adjustForVideo uiMin uiMax) (mOverlayFbs s) s
         in s'\<lparr>mOverlayFbs :=
              filter (\<lambda>f. uiMin \<le> zorder_of s f \<and> zorder_of s f \<le> uiMax) (mOverlayFbs s)\<rparr>)
      else s)"

definition pickoutOsdFbs :: "mp_state \<Rightarrow> fault + mp_state" where
  "pickoutOsdFbs s =
     bindE (foldE pickoutOsdFb (mFramebuffers s) ([], s)) (\<lambda>(dummyFbs, s).
     bindE (if dummyFbs \<noteq> [] then
              bindE (getE NullDeref (mDummyComposer s)) (\<lambda>c. call_addInputs c dummyFbs [] 0 s)
            else Inr s) (\<lambda>s.
     Inr (checkVideoFbs s)))"

section \<open>Limits of the scaler\<close>

fun offsetStep :: "'a world_scheme \<Rightarrow> fbid \<Rightarrow> int \<times> int \<times> int \<times> int
    \<Rightarrow> int \<times> int \<times> int \<times> int" where
  "offsetStep s f (minX, minY, w, h) =
     (let r = mDisplayFrame (fbs s f) in
      (if minX = -1 \<or> rect_left r < minX then rect_left r else minX,
       if minY = -1 \<or> rect_top r < minY then rect_top r else minY,
       if w < rect_right r then rect_right r else w,
       if h < rect_bottom r then rect_bottom r else h))"

text \<open>The loop that chooses the base framebuffer; it stops at an exact scale.\<close>

fun chooseRefFb :: "'a world_scheme \<Rightarrow> drm_rect \<Rightarrow> drm_rect \<Rightarrow> fbid list \<Rightarrow> fbid option
    \<Rightarrow> fbid option" where
  "chooseRefFb s scaleInput scaleOutput [] ref = ref"
| "chooseRefFb s scaleInput scaleOutput (f # fs) ref =
     (let ret = compareFbScale (mSourceCrop (fbs s f)) (mDisplayFrame (fbs s f))
            scaleInput scaleOutput
      in if ret = 0 then Some f
         else if ret = 1 then
           (case ref of
              None \<Rightarrow> chooseRefFb s scaleInput scaleOutput fs (Some f)
            | Some r \<Rightarrow>
                (if compareFbScale (mSourceCrop (fbs s f)) (mDisplayFrame (fbs s f))
                      (mSourceCrop (fbs s r)) (mDisplayFrame (fbs s r)) = -1
                 then chooseRefFb s scaleInput scaleOutput fs (Some f)
                 else chooseRefFb s scaleInput scaleOutput fs ref))
         else chooseRefFb s scaleInput scaleOutput fs ref)"

definition handleVPULimit :: "'a osd_state_scheme \<Rightarrow> 'a osd_state_scheme" where
  "handleVPULimit s =
     (if mFramebuffers s = [] then s
      else if mMaxComposerZorder s \<noteq> INVALID s \<and> mMinComposerZorder s \<noteq> INVALID s then s
      else
        (case fold (offsetStep s) (fb_ids s) (-1, -1, 0, 0) of (minX, minY, w, h) \<Rightarrow>
          let targetW = int32 (w - minX); targetH = int32 (h - minY);
              ref = chooseRefFb s
                (mk_rect 0 0 OSD_SCALER_INPUT_MAX_WIDTH OSD_SCALER_INPUT_MAX_HEIGHT)
                (mk_rect 0 0 targetW targetH) (fb_ids s) (mDisplayRefFb s)
          in (case ref of
                None \<Rightarrow>
                  (let z = zorder_of s (snd (hd (mFramebuffers s)))
                   in s\<lparr>mMinComposerZorder := z, mMaxComposerZorder := z\<rparr>)
              | Some r \<Rightarrow>
                  s\<lparr>mDisplayRefFb := Some r,
                    mOsdDisplayFrame := (mOsdDisplayFrame s)
                      \<lparr>crtc_display_x := minX, crtc_display_y := minY\<rparr>\<rparr>)))"

section \<open>Composer and planes\<close>

definition selectComposer :: "'a osd_state_scheme \<Rightarrow> fault + 'a osd_state_scheme" where
  "selectComposer s =
     (if mComposerFbs s = [] then Inr s
      else
        (let other = (if \<not> mHaveClient s then
               find (\<lambda>c. composer_isFbsSupport (composers s c) (mComposerFbs s) (mOverlayFbs s))
                 (mOtherComposers s) else None);
             sel = (case other of Some c \<Rightarrow> Some c | None \<Rightarrow> mComposer s);
             sel = (case sel of None \<Rightarrow> mClientComposer s | Some c \<Rightarrow> Some c)
         in bindE (getE NullDeref sel) (\<lambda>c.
            Inr (s\<lparr>mComposer := Some c,
                   fbs := set_comps (mComposerFbs s) (composer_getType (composers s c)) (fbs s)\<rparr>))))"

text \<open>The first primary plane, if it is not at the front already, changes places with the front.\<close>

definition primaryFirst :: "hw_display_plane list \<Rightarrow> hw_display_plane list" where
  "primaryFirst ps =
     (case find (\<lambda>i. plane_primary (ps ! i)) [1..<length ps] of
        None \<Rightarrow> ps
      | Some i \<Rightarrow> ps[0 := ps ! i, i := ps ! 0])"

definition markOsd :: "fbid \<Rightarrow> 'a osd_state_scheme \<Rightarrow> 'a osd_state_scheme" where
  "markOsd f s = (if ctype_of s f = MESON_COMPOSITION_UNDETERMINED
     then upd_comp f MESON_COMPOSITION_PLANE_OSD s else s)"

fun setOsdPair :: "fbid \<Rightarrow> bool \<times> bool \<times> mp_state \<Rightarrow> fault + bool \<times> bool \<times> mp_state" where
  "setOsdPair f (bDin1, bDin2, s) =
     (if Some f = mDisplayRefFb s then Inr (bDin1, bDin2, s)
      else if \<not> bDin1 then
        bindE (nthE OutOfRange (mOsdPlanes s) OSD_PLANE_DIN_ONE) (\<lambda>p.
          Inr (True, bDin2, markOsd f (pushPair OSD_PLANE_DIN_ONE (zorder_of s f) f p s)))
      else
        bindE (nthE OutOfRange (mOsdPlanes s) OSD_PLANE_DIN_TWO) (\<lambda>p.
          Inr (bDin1, True, markOsd f (pushPair OSD_PLANE_DIN_TWO (zorder_of s f) f p s))))"

definition setOsdFbs2PlanePairs :: "mp_state \<Rightarrow> fault + mp_state" where
  "setOsdFbs2PlanePairs s =
     (if mFramebuffers s = [] then Inr s
      else
        (let s = s\<lparr>mOsdPlanes := primaryFirst (mOsdPlanes s)\<rparr> in
         bindE (getE NullDeref (mDisplayRefFb s)) (\<lambda>ref.
         bindE (nthE OutOfRange (mOsdPlanes s) OSD_PLANE_DIN_ZERO) (\<lambda>p.
         bindE (foldE setOsdPair (fb_ids s)
             (False, False, markOsd ref (pushPair OSD_PLANE_DIN_ZERO (zorder_of s ref) ref p s)))
           (\<lambda>(bDin1, bDin2, s).
             let removePlanes = 1 + (if bDin1 then 1 else 0) + (if bDin2 then 1 else 0) in
             if removePlanes \<le> length (mOsdPlanes s)
             then Inr (s\<lparr>mOsdPlanes := drop removePlanes (mOsdPlanes s)\<rparr>)
             else Inl OutOfRange)))))"

section \<open>Deciding\<close>

definition handleOsdComposition :: "mp_state \<Rightarrow> fault + mp_state" where
  "handleOsdComposition =
     runs [confirmComposerRange, \<lambda>s. Inr (handleVPULimit s), fillComposerFbs, selectComposer,
           setOsdFbs2PlanePairs]"

fun videoBound :: "'a osd_state_scheme \<Rightarrow> fbid \<Rightarrow> u32 \<times> u32 \<Rightarrow> u32 \<times> u32" where
  "videoBound s f (mn, mx) =
     (if mn = INVALID s then (zorder_of s f, zorder_of s f)
      else (min (zorder_of s f) mn, max (zorder_of s f) mx))"

definition coverVideos :: "'a osd_state_scheme \<Rightarrow> 'a osd_state_scheme" where
  "coverVideos s =
     (let (mn, mx) = fold (videoBound s) (mOverlayFbs s) (INVALID s, INVALID s);
          s = s\<lparr>mMinVideoZorder := mn, mMaxVideoZorder := mx\<rparr>;
          bNeighbourVideo = (\<not> list_ex (\<lambda>e. mn < zorder_of s (snd e) \<and> zorder_of s (snd e) < mx)
                               (lower_bound mn (mFramebuffers s)))
      in if \<not> bNeighbourVideo then
           (if mMinComposerZorder s \<noteq> INVALID s then
              s\<lparr>mMinComposerZorder :=
                  (if mn < mMinComposerZorder s then mn + 1 else mMinComposerZorder s),
                mMaxComposerZorder :=
                  (if mMaxComposerZorder s < mx then mx else mMaxComposerZorder s)\<rparr>
            else s\<lparr>mMaxComposerZorder := mn, mMinComposerZorder := fst (hd (mFramebuffers s))\<rparr>)
         else s)"

definition handleOsdCompositionWithVideo :: "mp_state \<Rightarrow> fault + mp_state" where
  "handleOsdCompositionWithVideo s =
     bindE (if 1 < length (mOverlayFbs s) then
              assertE (length (mOverlayFbs s) \<le> 2)
                (AssertFailed ''Only support 2 video layers now.'') (coverVideos s)
            else Inr s)
       handleOsdComposition"

definition startComposer :: "'a osd_state_scheme \<Rightarrow> fault + 'a osd_state_scheme" where
  "startComposer s =
     (case mComposer s of
        None \<Rightarrow> Inr s
      | Some c \<Rightarrow> (let s = call_prepare c s in
          call_addInputs c (mComposerFbs s) (mOverlayFbs s) 0 s))"

definition decideComposition :: "mp_state \<Rightarrow> fault + mp_state" where
  "decideComposition s =
     (if mFramebuffers s = [] then
        Inr (case mClientComposer s of None \<Rightarrow> s | Some c \<Rightarrow> call_prepare c s)
      else
        bindE (pickoutOsdFbs (applyCompositionFlags (handleVideoComposition s))) (\<lambda>s.
        bindE (if \<not> mInsideVideoFbsFlag s then handleOsdComposition s
               else handleOsdCompositionWithVideo s)
          startComposer))"

section \<open>Commit\<close>

text \<open>First loop of \<open>handleDisplayLayerZorder\<close>: the osd pairs, with the maximum so far.\<close>

fun osdLayerZorders :: "u32 \<Rightarrow> u32 \<Rightarrow> display_pair list \<Rightarrow> u32 \<times> display_pair list" where
  "osdLayerZorders iv mx [] = (mx, [])"
| "osdLayerZorders iv mx (p # ps) =
     (if plane_type (pair_plane p) = OSD_PLANE then
        (let mx' = (if mx = iv then presentZorder p
                    else if mx < presentZorder p then presentZorder p else mx);
             (r, ps') = osdLayerZorders iv mx' ps
         in (r, p\<lparr>presentZorder := presentZorder p + OSD_FB_BEGIN_ZORDER\<rparr> # ps'))
      else (let (r, ps') = osdLayerZorders iv mx ps in (r, p # ps')))"

fun videoLayerZorders :: "(fbid \<Rightarrow> drm_framebuffer) \<Rightarrow> u32 \<Rightarrow> int \<Rightarrow> display_pair list
    \<Rightarrow> display_pair list" where
  "videoLayerZorders h maxOsd topVideoNum [] = []"
| "videoLayerZorders h maxOsd topVideoNum (p # ps) =
     (if plane_type (pair_plane p) = LEGACY_VIDEO_PLANE
         \<or> plane_type (pair_plane p) = LEGACY_EXT_VIDEO_PLANE then
        (if maxOsd < mZorder (h (pair_fb p)) \<and> topVideoNum \<noteq> 1 then
           p\<lparr>presentZorder := presentZorder p + TOP_VIDEO_FB_BEGIN_ZORDER\<rparr>
             # videoLayerZorders h maxOsd (topVideoNum + 1) ps
         else
           p\<lparr>presentZorder := presentZorder p + BOTTOM_VIDEO_FB_BEGIN_ZORDER\<rparr>
             # videoLayerZorders h maxOsd topVideoNum ps)
      else p # videoLayerZorders h maxOsd topVideoNum ps)"

definition handleDisplayLayerZorder :: "'a osd_state_scheme \<Rightarrow> 'a osd_state_scheme" where
  "handleDisplayLayerZorder s =
     (case osdLayerZorders (INVALID s) (INVALID s) (mDisplayPairs s) of (maxOsd, ps) \<Rightarrow>
        s\<lparr>mDisplayPairs := videoLayerZorders (fbs s) maxOsd 0 ps\<rparr>)"

definition blankFlag :: "'a osd_state_scheme \<Rightarrow> fbid \<Rightarrow> drm_plane_blank" where
  "blankFlag s f = (if mHideSecureLayer s \<and> mSecure (fbs s f)
     then BLANK_FOR_SECURE_CONTENT else UNBLANK)"

text \<open>The pair of a composed framebuffer shows the output of the composer instead.\<close>

definition commitPair :: "fbid option \<Rightarrow> display_pair \<Rightarrow> 'a osd_state_scheme
    \<Rightarrow> 'a osd_state_scheme" where
  "commitPair out p s =
     (let f = pair_fb p; blank = blankFlag s f in
      case (out, mComposer s) of
        (Some outFb, Some c) \<Rightarrow>
          (if ctype_of s f = composer_getType (composers s c)
           then call_setPlane (pair_plane p) (Some outFb)
                  (mMaxComposerZorder s + OSD_FB_BEGIN_ZORDER) blank s
           else call_setPlane (pair_plane p) (Some f) (presentZorder p) blank s)
      | _ \<Rightarrow> call_setPlane (pair_plane p) (Some f) (presentZorder p) blank s)"

definition blankPlane :: "hw_display_plane \<Rightarrow> 'a world_scheme \<Rightarrow> 'a world_scheme" where
  "blankPlane p s = call_setPlane p None HWC_PLANE_FAKE_ZORDER BLANK_FOR_NO_CONTENT s"

definition blankUnused :: "mp_state \<Rightarrow> mp_state" where
  "blankUnused s =
     (let s = s\<lparr>mOtherPlanes := mOtherPlanes s
            @ (case mLegacyVideoPlane s of None \<Rightarrow> [] | Some p \<Rightarrow> [p])
            @ (case mLegacyExtVideoPlane s of None \<Rightarrow> [] | Some p \<Rightarrow> [p])
            @ (case mHwcVideoPlane s of None \<Rightarrow> [] | Some p \<Rightarrow> [p])
            @ mOsdPlanes s\<rparr>
      in fold blankPlane (mOtherPlanes s) s)"

definition updateOsdDisplayFrame :: "fbid option \<Rightarrow> 'a osd_state_scheme
    \<Rightarrow> 'a osd_state_scheme" where
  "updateOsdDisplayFrame out s =
     (case mDisplayRefFb s of
        None \<Rightarrow> s
      | Some r \<Rightarrow>
          (let composed = is_fb_composed s r;
               r' = (if composed then (case out of None \<Rightarrow> r | Some outFb \<Rightarrow> outFb) else r);
               frame = mDisplayFrame (fbs s r');
               z = (if composed then (mOsdDisplayFrame s)
                      \<lparr>crtc_display_x := rect_left frame, crtc_display_y := rect_top frame\<rparr>
                    else mOsdDisplayFrame s)
           in s\<lparr>mDisplayRefFb := Some r',
                mOsdDisplayFrame := z
                  \<lparr>framebuffer_w := rect_w (mSourceCrop (fbs s r')),
                   framebuffer_h := rect_h (mSourceCrop (fbs s r')),
                   crtc_display_w := rect_w frame,
                   crtc_display_h := rect_h frame\<rparr>\<rparr>))"

definition composerOutput :: "'a osd_state_scheme \<Rightarrow> fault + fbid option \<times> 'a osd_state_scheme" where
  "composerOutput s =
     (case mComposer s of
        None \<Rightarrow> Inr (None, s)
      | Some c \<Rightarrow>
          bindE (call_start c 0 s) (\<lambda>s.
          bindE (composer_getOutput (composers s c) 0) (\<lambda>out. Inr (out, s))))"

definition commit :: "mp_state \<Rightarrow> fault + mp_state" where
  "commit s =
     bindE (composerOutput s) (\<lambda>(out, s).
     let s = (if \<not> mSkipValidate s
              then handleDisplayLayerZorder (handleOverlayVideoZorder s) else s);
         s = fold (commitPair out) (mDisplayPairs s) s;
         s = blankUnused s;
         s = updateOsdDisplayFrame out s
     in bindE (getE NullDeref (mCrtc s)) (\<lambda>_.
        Inr ((log_event (SetDisplayFrame (mOsdDisplayFrame s)) s)\<lparr>mSkipValidate := False\<rparr>)))"

end
