(* ===== verification/MultiplanesPick.thy ===== *)
theory MultiplanesPick
  imports Multiplanes "HOL-Library.Multiset"
begin

text \<open>
  Facts about the first half of \<open>MultiplanesComposition::decideComposition\<close>: the loop over
  the video framebuffers (\<open>handleVideoComposition\<close>) and the loop that sorts the
  framebuffers into ui, overlay and dummy ones (\<open>pickoutOsdFbs\<close>). \<open>video_frame\<close> bounds
  what the first may change and keeps the multiset of planes; \<open>picked\<close> is the state the
  second reaches in closed form, and \<open>pickout_loop\<close> its loop invariant.
\<close>

section \<open>What a step may change in the store\<close>

definition only_types :: "(fbid \<Rightarrow> drm_framebuffer) \<Rightarrow> (fbid \<Rightarrow> drm_framebuffer) \<Rightarrow> bool" where
  "only_types h h' \<longleftrightarrow> (\<exists>ty. h' = (\<lambda>i. (h i)\<lparr>mCompositionType := ty i\<rparr>))"

lemma only_types_refl [simp]: "only_types h h"
  unfolding only_types_def by (rule exI [of _ "\<lambda>i. mCompositionType (h i)"]) simp

lemma only_types_trans: "only_types h h' \<Longrightarrow> only_types h' h'' \<Longrightarrow> only_types h h''"
  by (auto simp: only_types_def)

lemma only_types_set_comp: "only_types h h' \<Longrightarrow> only_types h (set_comp i c h')"
proof -
  have "only_types h' (set_comp i c h')"
    unfolding only_types_def set_comp_def
    by (rule exI [of _ "(\<lambda>j. mCompositionType (h' j))(i := c)"]) auto
  then show "only_types h h' \<Longrightarrow> only_types h (set_comp i c h')"
    using only_types_trans by blast
qed

lemma only_types_set_comps: "only_types h h' \<Longrightarrow> only_types h (set_comps is c h')"
  unfolding set_comps_def by (induction "is" arbitrary: h') (auto simp: only_types_set_comp)

lemma only_types_fields:
  assumes "only_types h h'"
  shows "mZorder (h' i) = mZorder (h i)" "mFbType (h' i) = mFbType (h i)"
    "mSecure (h' i) = mSecure (h i)" "mDisplayFrame (h' i) = mDisplayFrame (h i)"
    "mSourceCrop (h' i) = mSourceCrop (h i)"
  using assms by (auto simp: only_types_def)

section \<open>Planes are neither lost nor duplicated\<close>

definition all_planes :: "mp_state \<Rightarrow> hw_display_plane multiset" where
  "all_planes s = mset (mOtherPlanes s) + mset (opt_list (mLegacyVideoPlane s))
     + mset (opt_list (mLegacyExtVideoPlane s)) + mset (opt_list (mHwcVideoPlane s))
     + mset (mOsdPlanes s) + mset (map pair_plane (mDisplayPairs s))"

text \<open>
  \<open>video_frame s t\<close>: \<open>t\<close> differs from \<open>s\<close> in composition types, display pairs and the
  video planes only, and every video plane that is gone is in a pair.
\<close>

definition video_frame :: "mp_state \<Rightarrow> mp_state \<Rightarrow> bool" where
  "video_frame s t \<longleftrightarrow> (\<exists>h ps a b c.
     t = s\<lparr>fbs := h, mDisplayPairs := ps, mHwcVideoPlane := a, mLegacyVideoPlane := b,
           mLegacyExtVideoPlane := c\<rparr>
     \<and> only_types (fbs s) h) \<and> all_planes t = all_planes s"

lemma video_frame_refl: "video_frame s s"
  unfolding video_frame_def
  by (intro conjI exI [of _ "fbs s"] exI [of _ "mDisplayPairs s"] exI [of _ "mHwcVideoPlane s"]
      exI [of _ "mLegacyVideoPlane s"] exI [of _ "mLegacyExtVideoPlane s"]) simp_all

lemma video_frameI:
  "t = s\<lparr>fbs := h, mDisplayPairs := ps, mHwcVideoPlane := a, mLegacyVideoPlane := b,
     mLegacyExtVideoPlane := c\<rparr> \<Longrightarrow> only_types (fbs s) h \<Longrightarrow> all_planes t = all_planes s
   \<Longrightarrow> video_frame s t"
  unfolding video_frame_def by blast

lemma video_frame_trans:
  assumes st: "video_frame s t" and tu: "video_frame t u"
  shows "video_frame s u"
proof -
  from st obtain h ps a b c where t: "t = s\<lparr>fbs := h, mDisplayPairs := ps,
      mHwcVideoPlane := a, mLegacyVideoPlane := b, mLegacyExtVideoPlane := c\<rparr>"
    and ot: "only_types (fbs s) h" unfolding video_frame_def by blast
  from tu obtain h' ps' a' b' c' where u: "u = t\<lparr>fbs := h', mDisplayPairs := ps',
      mHwcVideoPlane := a', mLegacyVideoPlane := b', mLegacyExtVideoPlane := c'\<rparr>"
    and ou: "only_types (fbs t) h'" unfolding video_frame_def by blast
  show ?thesis
  proof (rule video_frameI)
    show "u = s\<lparr>fbs := h', mDisplayPairs := ps', mHwcVideoPlane := a', mLegacyVideoPlane := b',
        mLegacyExtVideoPlane := c'\<rparr>" by (simp add: u t)
    show "only_types (fbs s) h'" using only_types_trans [OF ot] ou by (simp add: t)
    show "all_planes u = all_planes s" using st tu by (simp add: video_frame_def)
  qed
qed

lemma upd_comp_video_frame: "video_frame s (upd_comp f c s)"
  by (rule video_frameI [where h = "set_comp f c (fbs s)" and ps = "mDisplayPairs s"
        and a = "mHwcVideoPlane s" and b = "mLegacyVideoPlane s" and c = "mLegacyExtVideoPlane s"])
    (simp_all add: upd_comp_def only_types_set_comp all_planes_def)

text \<open>What one framebuffer of the loop does, on each of its branches.\<close>

inductive video_case :: "fbid \<Rightarrow> mp_state \<Rightarrow> mp_state \<Rightarrow> bool" for f s where
  ui_layer: "map_of planeCompPairs (mFbType (fbs s f)) = None \<Longrightarrow> video_case f s s"
| legacy_plane: "map_of planeCompPairs (mFbType (fbs s f)) = Some (LEGACY_VIDEO_PLANE, c) \<Longrightarrow>
    mLegacyVideoPlane s = Some p \<Longrightarrow> video_case f s (upd_comp f c
      ((pushPair VIDEO_PLANE_DIN_ONE (zorder_of s f) f p s)\<lparr>mLegacyVideoPlane := None\<rparr>))"
| ext_plane: "map_of planeCompPairs (mFbType (fbs s f)) = Some (LEGACY_EXT_VIDEO_PLANE, c) \<Longrightarrow>
    \<not> is_pip_window (mDisplayFrame (fbs s f)) \<Longrightarrow>
    mLegacyExtVideoPlane s = Some p \<Longrightarrow> video_case f s (upd_comp f c
      ((pushPair VIDEO_PLANE_DIN_TWO (zorder_of s f) f p s)\<lparr>mLegacyExtVideoPlane := None\<rparr>))"
| hwc_plane: "map_of planeCompPairs (mFbType (fbs s f)) = Some (HWC_VIDEO_PLANE, c) \<Longrightarrow>
    mHwcVideoPlane s = Some p \<Longrightarrow> video_case f s (upd_comp f c
      ((pushPair VIDEO_PLANE_DIN_TWO (zorder_of s f) f p s)\<lparr>mHwcVideoPlane := None\<rparr>))"
| dummy_layer: "map_of planeCompPairs (mFbType (fbs s f)) = Some e \<Longrightarrow>
    video_case f s (upd_comp f MESON_COMPOSITION_DUMMY s)"

lemma planeCompPairs_SomeD:
  "map_of planeCompPairs t = Some (pl, c) \<Longrightarrow>
    isVideoPlaneComposition c \<and> pl \<in> {LEGACY_VIDEO_PLANE, LEGACY_EXT_VIDEO_PLANE, HWC_VIDEO_PLANE}"
  by (auto simp: planeCompPairs_def isVideoPlaneComposition_def split: if_splits)

lemma handleVideoFb_case: "video_case f s (handleVideoFb f s)"
proof (cases "map_of planeCompPairs (mFbType (fbs s f))")
  case None
  then show ?thesis by (simp add: handleVideoFb_def video_case.ui_layer)
next
  case (Some e)
  obtain pl c where e: "e = (pl, c)" by (cases e)
  with Some planeCompPairs_SomeD
  have "pl = LEGACY_VIDEO_PLANE \<or> pl = LEGACY_EXT_VIDEO_PLANE \<or> pl = HWC_VIDEO_PLANE" by blast
  with Some e show ?thesis
    by (auto simp: handleVideoFb_def Let_def split: option.splits
        intro: video_case.intros)
qed

lemma video_case_frame: "video_case f s t \<Longrightarrow> video_frame s t"
proof (induction rule: video_case.induct)
  case ui_layer
  show ?case by (rule video_frame_refl)
next
  case dummy_layer
  show ?case by (rule upd_comp_video_frame)
next
  case (legacy_plane c p)
  show ?case
    by (rule video_frameI [where h = "set_comp f c (fbs s)" and ps = "mDisplayPairs (pushPair VIDEO_PLANE_DIN_ONE (zorder_of s f) f p s)"
          and a = "mHwcVideoPlane s"
          and b = None and c = "mLegacyExtVideoPlane s"])
      (use legacy_plane in \<open>simp_all add: upd_comp_def pushPair_def only_types_set_comp all_planes_def\<close>)
next
  case (ext_plane c p)
  show ?case
    by (rule video_frameI [where h = "set_comp f c (fbs s)" and ps = "mDisplayPairs (pushPair VIDEO_PLANE_DIN_TWO (zorder_of s f) f p s)"
          and a = "mHwcVideoPlane s"
          and c = None and b = "mLegacyVideoPlane s"])
      (use ext_plane in \<open>simp_all add: upd_comp_def pushPair_def only_types_set_comp all_planes_def\<close>)
next
  case (hwc_plane c p)
  show ?case
    by (rule video_frameI [where h = "set_comp f c (fbs s)" and ps = "mDisplayPairs (pushPair VIDEO_PLANE_DIN_TWO (zorder_of s f) f p s)"
          and b = "mLegacyVideoPlane s"
          and a = None and c = "mLegacyExtVideoPlane s"])
      (use hwc_plane in \<open>simp_all add: upd_comp_def pushPair_def only_types_set_comp all_planes_def\<close>)
qed

lemma handleVideoFb_frame: "video_frame s (handleVideoFb f s)"
  by (rule video_case_frame [OF handleVideoFb_case])

lemma fold_video_frame:
  "(\<And>f s. video_frame s (g f s)) \<Longrightarrow> video_frame s (fold g fs s)"
proof (induction fs arbitrary: s)
  case Nil
  show ?case by (simp add: video_frame_refl)
next
  case (Cons f fs)
  then show ?case by (auto intro: video_frame_trans)
qed

lemma handleVideoComposition_frame: "video_frame s (handleVideoComposition s)"
  unfolding handleVideoComposition_def by (rule fold_video_frame) (rule handleVideoFb_frame)

lemma applyCompositionFlags_frame: "video_frame s (applyCompositionFlags s)"
proof -
  have "video_frame s (applyCompositionFlag f s)" for f and s :: mp_state
    by (simp add: applyCompositionFlag_def upd_comp_video_frame video_frame_refl)
  then show ?thesis
    by (simp add: applyCompositionFlags_def video_frame_refl fold_video_frame)
qed


section \<open>Picking the osd framebuffers\<close>

definition is_ui :: "meson_composition \<Rightarrow> bool" where
  "is_ui t \<longleftrightarrow> t = MESON_COMPOSITION_CLIENT \<or> t = MESON_COMPOSITION_UNDETERMINED"

text \<open>A framebuffer the composer must take: a client layer, or one no osd plane scans out.\<close>

definition needs_composer :: "'a osd_state_scheme \<Rightarrow> fbid \<Rightarrow> bool" where
  "needs_composer s f \<longleftrightarrow> ctype_of s f = MESON_COMPOSITION_CLIENT
     \<or> ctype_of s f = MESON_COMPOSITION_UNDETERMINED
       \<and> \<not> plane_isFbSupport (hd (mOsdPlanes s)) (fbs s f)"

definition range_covers :: "'a osd_state_scheme \<Rightarrow> fbid list \<Rightarrow> u32 \<Rightarrow> u32 \<Rightarrow> bool" where
  "range_covers s fs mn mx \<longleftrightarrow>
     (if fs = [] then mn = INVALID s \<and> mx = INVALID s
      else mn \<in> zorder_of s ` set fs \<and> mx \<in> zorder_of s ` set fs
        \<and> (\<forall>f \<in> set fs. mn \<le> zorder_of s f \<and> zorder_of s f \<le> mx))"

text \<open>The loop over the framebuffers \<open>xs\<close>; \<open>ov\<close> says which types are kept as overlays.\<close>

definition picked :: "(meson_composition \<Rightarrow> bool) \<Rightarrow> 'a osd_state_scheme \<Rightarrow> (u32 \<times> fbid) list
    \<Rightarrow> u32 \<Rightarrow> u32 \<Rightarrow> 'a osd_state_scheme" where
  "picked ov s xs mn mx = s\<lparr>
     mOverlayFbs := mOverlayFbs s @ filter (\<lambda>f. ov (ctype_of s f)) (map snd xs),
     mHaveClient := (mHaveClient s
       \<or> (\<exists>e \<in> set xs. ctype_of s (snd e) = MESON_COMPOSITION_CLIENT)),
     mMinComposerZorder := mn, mMaxComposerZorder := mx,
     mFramebuffers :=
       filter (\<lambda>e. e \<in> set xs \<longrightarrow> is_ui (ctype_of s (snd e))) (mFramebuffers s)\<rparr>"

lemma picked_remove:
  assumes "map_wf m" and "m = xs @ e # ys"
  shows "map_erase (fst e) (filter (\<lambda>e'. e' \<in> set xs \<longrightarrow> q e') m) =
    filter (\<lambda>e'. e' \<in> set (xs @ [e]) \<longrightarrow> e' \<noteq> e \<and> q e') m"
proof -
  have "distinct (map fst m)" using assms(1) by (rule std_map.distinct_keys)
  then have "inj_on fst (set m)" and "distinct m" by (simp_all add: distinct_map)
  then have e: "e \<notin> set xs" and "e \<in> set m" using assms(2) by simp_all
  with \<open>inj_on fst (set m)\<close>
  have key: "fst e' = fst e \<longleftrightarrow> e' = e" if "e' \<in> set m" for e'
    using that by (metis inj_onD)
  show ?thesis unfolding map_erase_def filter_filter
  proof (rule filter_cong [OF refl])
    fix x assume "x \<in> set m"
    from key [OF this] e
    show "((x \<in> set xs \<longrightarrow> q x) \<and> fst x \<noteq> fst e) =
        (x \<in> set (xs @ [e]) \<longrightarrow> x \<noteq> e \<and> q x)" by (cases "x = e") simp_all
  qed
qed

lemma picked_Nil: "range_unset s \<Longrightarrow> picked ov s [] (INVALID s) (INVALID s) = s"
  by (simp add: picked_def range_unset_def)

lemma range_covers_snoc:
  assumes "range_covers s fs mn mx" and "\<forall>g \<in> set fs. zorder_of s g \<noteq> INVALID s"
  shows "if mn = INVALID s \<or> mx = INVALID s then range_covers s (fs @ [f]) (zorder_of s f) (zorder_of s f)
    else range_covers s (fs @ [f]) (min (zorder_of s f) mn) (max (zorder_of s f) mx)"
proof (cases "fs = []")
  case True
  with assms show ?thesis by (simp add: range_covers_def)
next
  case False
  with assms(1) have "mn \<in> zorder_of s ` set fs" "mx \<in> zorder_of s ` set fs"
    by (simp_all add: range_covers_def)
  with assms(2) have "mn \<noteq> INVALID s" "mx \<noteq> INVALID s" by (metis imageE)+
  moreover have "min z a \<in> insert z A" "max z a \<in> insert z A" if "a \<in> A" for z a :: u32 and A
    using that by (simp_all add: min_def max_def)
  ultimately show ?thesis using False assms(1)
    by (simp add: range_covers_def min_le_iff_disj le_max_iff_disj image_Un)
qed

lemma pickoutUiFb_picked:
  assumes planes: "mOsdPlanes s = p # ps"
    and cov: "range_covers s fs mn mx" "\<forall>g \<in> set fs. zorder_of s g \<noteq> INVALID s"
    and b: "b \<longleftrightarrow> ctype_of s f = MESON_COMPOSITION_CLIENT" and ui: "is_ui (ctype_of s f)"
  shows "\<exists>mn' mx'. pickoutUiFb b f ((picked ov s xs mn mx)\<lparr>mHaveClient := hc\<rparr>) =
      Inr ((picked ov s xs mn' mx')\<lparr>mHaveClient := hc\<rparr>)
    \<and> range_covers s (if needs_composer s f then fs @ [f] else fs) mn' mx'"
proof (cases "needs_composer s f")
  case True
  then have "pickoutUiFb b f ((picked ov s xs mn mx)\<lparr>mHaveClient := hc\<rparr>) =
      Inr (growRange f ((picked ov s xs mn mx)\<lparr>mHaveClient := hc\<rparr>))"
    using planes b by (auto simp: pickoutUiFb_def needs_composer_def picked_def)
  moreover have "growRange f ((picked ov s xs mn mx)\<lparr>mHaveClient := hc\<rparr>) =
      (if mn = INVALID s \<or> mx = INVALID s
       then (picked ov s xs (zorder_of s f) (zorder_of s f))\<lparr>mHaveClient := hc\<rparr>
       else (picked ov s xs (min (zorder_of s f) mn) (max (zorder_of s f) mx))\<lparr>mHaveClient := hc\<rparr>)"
    by (simp add: growRange_def picked_def)
  ultimately show ?thesis
    using True range_covers_snoc [OF cov, of f] by (auto split: if_splits)
next
  case False
  then have "pickoutUiFb b f ((picked ov s xs mn mx)\<lparr>mHaveClient := hc\<rparr>) =
      Inr ((picked ov s xs mn mx)\<lparr>mHaveClient := hc\<rparr>)"
    using planes b ui by (auto simp: pickoutUiFb_def needs_composer_def picked_def is_ui_def)
  with False cov show ?thesis by auto
qed


text \<open>One element more: it stays when it is for the ui, and is erased otherwise.\<close>

lemma picked_ui_step:
  assumes "is_ui (ctype_of s (snd e))" and sep: "\<forall>t. is_ui t \<longrightarrow> \<not> ov t"
  shows "(picked ov s xs mn mx)\<lparr>mHaveClient := (mHaveClient s
      \<or> (\<exists>e \<in> set (xs @ [e]). ctype_of s (snd e) = MESON_COMPOSITION_CLIENT))\<rparr> =
    picked ov s (xs @ [e]) mn mx"
proof -
  have "\<not> ov (ctype_of s (snd e))" using assms by blast
  moreover have "filter (\<lambda>e'. e' \<in> set xs \<longrightarrow> is_ui (ctype_of s (snd e'))) (mFramebuffers s) =
      filter (\<lambda>e'. e' \<in> set (xs @ [e]) \<longrightarrow> is_ui (ctype_of s (snd e'))) (mFramebuffers s)"
    using assms by (intro filter_cong) auto
  ultimately show ?thesis by (simp add: picked_def)
qed

lemma picked_remove_step:
  assumes wf: "map_wf (mFramebuffers s)" and m: "mFramebuffers s = xs @ e # ys"
    and nui: "\<not> is_ui (ctype_of s (snd e))"
    and os: "os = mOverlayFbs s @ filter (\<lambda>f. ov (ctype_of s f)) (map snd (xs @ [e]))"
  shows "mFramebuffers_update (map_erase (fst e)) ((picked ov s xs mn mx)\<lparr>mOverlayFbs := os\<rparr>) =
    picked ov s (xs @ [e]) mn mx"
proof -
  have "(\<exists>e \<in> set (xs @ [e]). ctype_of s (snd e) = MESON_COMPOSITION_CLIENT) =
      (\<exists>e \<in> set xs. ctype_of s (snd e) = MESON_COMPOSITION_CLIENT)"
    using nui by (auto simp: is_ui_def)
  moreover have "filter (\<lambda>e'. e' \<in> set (xs @ [e]) \<longrightarrow> e' \<noteq> e \<and> is_ui (ctype_of s (snd e'))) (mFramebuffers s) =
      filter (\<lambda>e'. e' \<in> set (xs @ [e]) \<longrightarrow> is_ui (ctype_of s (snd e'))) (mFramebuffers s)"
    using nui by (intro filter_cong) auto
  ultimately show ?thesis
    using picked_remove [OF wf m, of "\<lambda>e'. is_ui (ctype_of s (snd e'))"]
    by (simp add: picked_def os)
qed

lemma overlay_no_ui: "\<forall>t. is_ui t \<longrightarrow> \<not> isVideoPlaneComposition t"
  by (auto simp: is_ui_def isVideoPlaneComposition_def)

definition picked_inv :: "mp_state \<Rightarrow> (u32 \<times> fbid) list \<Rightarrow> fbid list \<times> mp_state \<Rightarrow> bool" where
  "picked_inv s xs ds \<longleftrightarrow> (\<exists>mn mx. snd ds = picked isVideoPlaneComposition s xs mn mx
     \<and> fst ds = filter (\<lambda>f. ctype_of s f = MESON_COMPOSITION_DUMMY) (map snd xs)
     \<and> range_covers s (filter (needs_composer s) (map snd xs)) mn mx)"

lemma picked_invI:
  "range_covers s (filter (needs_composer s) (map snd xs)) mn mx \<Longrightarrow>
    picked_inv s xs (filter (\<lambda>f. ctype_of s f = MESON_COMPOSITION_DUMMY) (map snd xs), picked isVideoPlaneComposition s xs mn mx)"
  unfolding picked_inv_def by auto

lemma picked_fields [simp]:
  "fbs (picked ov s xs mn mx) = fbs s" "mOsdPlanes (picked ov s xs mn mx) = mOsdPlanes s"
  "plat (picked ov s xs mn mx) = plat s"
  by (simp_all add: picked_def)

lemma pickoutOsdFb_step:
  assumes wf: "fbs_wf s" and planes: "mOsdPlanes s \<noteq> []"
    and m: "mFramebuffers s = xs @ e # ys" and inv: "picked_inv s xs ds"
  shows "okE (pickoutOsdFb e ds) (picked_inv s (xs @ [e]))"
proof -
  let ?ty = "ctype_of s (snd e)"
  from inv obtain mn mx where t: "ds = (filter (\<lambda>f. ctype_of s f = MESON_COMPOSITION_DUMMY) (map snd xs),
      picked isVideoPlaneComposition s xs mn mx)" and cov: "range_covers s (filter (needs_composer s) (map snd xs)) mn mx"
    unfolding picked_inv_def by (metis prod.collapse)
  have wf_m: "map_wf (mFramebuffers s)" using wf by (simp add: fbs_wf_def)
  have inv: "\<forall>g \<in> set (filter (needs_composer s) (map snd xs)). zorder_of s g \<noteq> INVALID s"
    using fbs_wf_valid [OF wf] m by (auto simp: fb_ids_def)
  show ?thesis
  proof (cases "is_ui ?ty")
    case True
    obtain p ps where p: "mOsdPlanes s = p # ps" using planes by (cases "mOsdPlanes s") auto
    define b where "b = (?ty = MESON_COMPOSITION_CLIENT)"
    define hc where "hc = (mHaveClient s
      \<or> (\<exists>e \<in> set (xs @ [e]). ctype_of s (snd e) = MESON_COMPOSITION_CLIENT))"
    have same: "(picked isVideoPlaneComposition s xs mn mx)\<lparr>mHaveClient := hc\<rparr> = picked isVideoPlaneComposition s xs mn mx"
      if "?ty \<noteq> MESON_COMPOSITION_CLIENT"
    proof -
      have "hc = mHaveClient (picked isVideoPlaneComposition s xs mn mx)"
        using that by (auto simp: hc_def picked_def)
      then show ?thesis by simp
    qed
    have client: hc if "?ty = MESON_COMPOSITION_CLIENT" using that by (auto simp: hc_def)
    have "pickoutOsdFb e ds =
        bindE (pickoutUiFb b (snd e) ((picked isVideoPlaneComposition s xs mn mx)\<lparr>mHaveClient := hc\<rparr>))
          (\<lambda>s'. Inr (filter (\<lambda>f. ctype_of s f = MESON_COMPOSITION_DUMMY) (map snd xs), s'))"
    proof (cases "?ty = MESON_COMPOSITION_CLIENT")
      case c: True
      with client have hc by simp
      with c show ?thesis by (simp add: pickoutOsdFb_def t b_def)
    next
      case nc: False
      with True have "?ty = MESON_COMPOSITION_UNDETERMINED" by (simp add: is_ui_def)
      with same [OF nc] show ?thesis by (simp add: pickoutOsdFb_def t b_def)
    qed
    moreover obtain mn' mx' where
      r: "pickoutUiFb b (snd e) ((picked isVideoPlaneComposition s xs mn mx)\<lparr>mHaveClient := hc\<rparr>) =
        Inr ((picked isVideoPlaneComposition s xs mn' mx')\<lparr>mHaveClient := hc\<rparr>)"
      and c: "range_covers s (if needs_composer s (snd e)
        then filter (needs_composer s) (map snd xs) @ [snd e]
        else filter (needs_composer s) (map snd xs)) mn' mx'"
      using pickoutUiFb_picked [OF p cov inv b_def True, where xs = xs and hc = hc] by blast
    moreover have "(picked isVideoPlaneComposition s xs mn' mx')\<lparr>mHaveClient := hc\<rparr> = picked isVideoPlaneComposition s (xs @ [e]) mn' mx'"
      unfolding hc_def by (rule picked_ui_step [OF True overlay_no_ui])
    moreover have "range_covers s (filter (needs_composer s) (map snd (xs @ [e]))) mn' mx'"
      using c by (simp split: if_splits)
    moreover have "?ty \<noteq> MESON_COMPOSITION_DUMMY" using True by (auto simp: is_ui_def)
    ultimately show ?thesis using picked_invI [of s "xs @ [e]" mn' mx'] by simp
  next
    case False
    then have n: "\<not> needs_composer s (snd e)" by (auto simp: is_ui_def needs_composer_def)
    have r: "mFramebuffers_update (map_erase (fst e)) ((picked isVideoPlaneComposition s xs mn mx)
        \<lparr>mOverlayFbs := mOverlayFbs s @ filter (\<lambda>f. isVideoPlaneComposition (ctype_of s f))
           (map snd (xs @ [e]))\<rparr>) = picked isVideoPlaneComposition s (xs @ [e]) mn mx"
      by (rule picked_remove_step [OF wf_m m False refl])
    have "pickoutOsdFb e ds =
        Inr (filter (\<lambda>f. ctype_of s f = MESON_COMPOSITION_DUMMY) (map snd (xs @ [e])),
             picked isVideoPlaneComposition s (xs @ [e]) mn mx)"
      unfolding r [symmetric] using False
      by (cases ?ty) (simp_all add: pickoutOsdFb_def t picked_def is_ui_def isVideoPlaneComposition_def)
    then show ?thesis using cov n picked_invI [of s "xs @ [e]" mn mx] by simp
  qed
qed

lemma pickout_loop:
  assumes wf: "fbs_wf s" and planes: "mOsdPlanes s \<noteq> []" and unset: "range_unset s"
  shows "okE (foldE pickoutOsdFb (mFramebuffers s) ([], s)) (picked_inv s (mFramebuffers s))"
proof (rule okE_foldE)
  show "picked_inv s [] ([], s)"
    using picked_Nil [OF unset] unfolding picked_inv_def
    by (intro exI [of _ "INVALID s"]) (simp add: range_covers_def)
qed (rule pickoutOsdFb_step [OF wf planes])

section \<open>The result of the pick\<close>

text \<open>What \<open>pickoutOsdFbs\<close> may write.\<close>

definition pick_frame :: "'a osd_state_scheme \<Rightarrow> 'a osd_state_scheme \<Rightarrow> bool" where
  "pick_frame s t \<longleftrightarrow> (\<exists>ov hc mn mx m ev. t = s\<lparr>mOverlayFbs := ov, mHaveClient := hc,
     mMinComposerZorder := mn, mMaxComposerZorder := mx, mFramebuffers := m, events := ev\<rparr>)"

lemma pick_frameI:
  "t = s\<lparr>mOverlayFbs := ov, mHaveClient := hc, mMinComposerZorder := mn,
     mMaxComposerZorder := mx, mFramebuffers := m, events := ev\<rparr> \<Longrightarrow> pick_frame s t"
  unfolding pick_frame_def by blast

lemma pick_frame_trans:
  assumes "pick_frame s t" and "pick_frame t u"
  shows "pick_frame s u"
proof -
  from assms obtain ov hc mn mx m ev ov' hc' mn' mx' m' ev' where
    "t = s\<lparr>mOverlayFbs := ov, mHaveClient := hc, mMinComposerZorder := mn,
       mMaxComposerZorder := mx, mFramebuffers := m, events := ev\<rparr>"
    "u = t\<lparr>mOverlayFbs := ov', mHaveClient := hc', mMinComposerZorder := mn',
       mMaxComposerZorder := mx', mFramebuffers := m', events := ev'\<rparr>"
    unfolding pick_frame_def by blast
  then show ?thesis by (intro pick_frameI [where ov = ov' and hc = hc' and mn = mn' and mx = mx' and m = m' and ev = ev']) simp
qed

lemma picked_frame: "pick_frame s (picked ov s xs mn mx)"
  unfolding picked_def
  by (rule pick_frameI [where ev = "events s"]) simp

lemma pick_frame_fields:
  assumes "pick_frame s t"
  shows "fbs t = fbs s" "plat t = plat s" "composers t = composers s" "mOsdPlanes t = mOsdPlanes s"
    "mHDRMode t = mHDRMode s" "mDisplayRefFb t = mDisplayRefFb s" "mComposer t = mComposer s"
    "mComposerFbs t = mComposerFbs s" "mDisplayPairs t = mDisplayPairs s"
    "mClientComposer t = mClientComposer s" "mOtherComposers t = mOtherComposers s"
    "mInsideVideoFbsFlag t = mInsideVideoFbsFlag s"
    "mDummyComposer t = mDummyComposer s" "mCrtc t = mCrtc s"
  using assms unfolding pick_frame_def by (elim exE; simp)+

lemma pick_frame_planes: "pick_frame s t \<Longrightarrow> all_planes t = all_planes s"
  unfolding pick_frame_def all_planes_def by (elim exE; simp)

lemma needs_composer_frame:
  "pick_frame s t \<Longrightarrow> needs_composer t f = needs_composer s f"
  by (simp add: needs_composer_def pick_frame_fields)

subsection \<open>The video framebuffers inside the ui range\<close>

definition bump_max :: "'a osd_state_scheme \<Rightarrow> fbid \<Rightarrow> u32 \<Rightarrow> u32" where
  "bump_max s f mx = (if mx = INVALID s \<or> mx < zorder_of s f then zorder_of s f else mx)"

definition video_inside :: "'a osd_state_scheme \<Rightarrow> u32 \<Rightarrow> u32 \<Rightarrow> fbid \<Rightarrow> bool" where
  "video_inside s a b f \<longleftrightarrow> a \<le> zorder_of s f \<and> zorder_of s f \<le> b"

lemma fold_adjustForVideo:
  "mHDRMode s \<Longrightarrow> fold (adjustForVideo a b) fs s =
    (case filter (video_inside s a b) fs of [] \<Rightarrow> s
     | vs \<Rightarrow> set_range a (fold (bump_max s) vs (mMaxComposerZorder s)) s)"
proof (induction fs arbitrary: s)
  case Nil
  then show ?case by simp
next
  case (Cons f fs)
  show ?case
  proof (cases "video_inside s a b f")
    case False
    then have "adjustForVideo a b f s = s" by (auto simp: adjustForVideo_def video_inside_def)
    with False Cons show ?thesis by simp
  next
    case True
    let ?t = "set_range a (bump_max s f (mMaxComposerZorder s)) s"
    have t: "adjustForVideo a b f s = ?t"
      using True Cons.prems by (simp add: adjustForVideo_def video_inside_def set_range_def bump_max_def)
    have "video_inside ?t = video_inside s"
      by (intro ext) (simp add: video_inside_def)
    moreover have "bump_max ?t = bump_max s"
      by (intro ext) (simp add: bump_max_def)
    moreover have "mHDRMode ?t" using Cons.prems by (simp add: set_range_def)
    moreover have "set_range a mx ?t = set_range a mx s" for mx by (simp add: set_range_def)
    ultimately show ?thesis
      using Cons.IH [of ?t] True by (simp add: t split: list.split)
  qed
qed

lemma fold_bump_max:
  assumes "\<forall>f \<in> set vs. zorder_of s f \<noteq> INVALID s" and "mx \<noteq> INVALID s"
  shows "fold (bump_max s) vs mx \<noteq> INVALID s \<and> mx \<le> fold (bump_max s) vs mx
    \<and> (\<forall>f \<in> set vs. zorder_of s f \<le> fold (bump_max s) vs mx)"
  using assms
proof (induction vs arbitrary: mx)
  case Nil
  then show ?case by simp
next
  case (Cons f vs)
  let ?m = "bump_max s f mx"
  have "?m \<noteq> INVALID s" and le: "mx \<le> ?m" "zorder_of s f \<le> ?m"
    using Cons.prems by (auto simp: bump_max_def)
  with Cons.IH [of ?m] Cons.prems
  have "fold (bump_max s) vs ?m \<noteq> INVALID s" "?m \<le> fold (bump_max s) vs ?m"
    "\<forall>f \<in> set vs. zorder_of s f \<le> fold (bump_max s) vs ?m" by simp_all
  with le show ?case by auto
qed

lemma fold_bump_max_any:
  assumes "\<forall>f \<in> set (v # vs). zorder_of s f \<noteq> INVALID s"
  shows "fold (bump_max s) (v # vs) mx \<noteq> INVALID s
    \<and> (mx = INVALID s \<or> mx \<le> fold (bump_max s) (v # vs) mx)
    \<and> zorder_of s v \<le> fold (bump_max s) (v # vs) mx"
proof -
  let ?m = "bump_max s v mx"
  have "?m \<noteq> INVALID s" and "mx = INVALID s \<or> mx \<le> ?m" "zorder_of s v \<le> ?m"
    using assms by (auto simp: bump_max_def)
  with fold_bump_max [of vs s ?m] assms show ?thesis by auto
qed


text \<open>
  The state after \<open>pickoutOsdFbs\<close>: the ui framebuffers are left, the compose range is free or
  in use, and every framebuffer no plane can show is inside it.
\<close>

definition pick_post :: "'a osd_state_scheme \<Rightarrow> 'a osd_state_scheme \<Rightarrow> bool" where
  "pick_post s t \<longleftrightarrow> pick_frame s t
     \<and> mFramebuffers t = filter (\<lambda>e. is_ui (ctype_of s (snd e))) (mFramebuffers s)
     \<and> (range_unset t \<or> range_hits t)
     \<and> (\<forall>f \<in> set (fb_ids t). needs_composer s f \<longrightarrow> is_fb_composed t f)
     \<and> mHaveClient t = (mHaveClient s
          \<or> (\<exists>f \<in> set (fb_ids s). ctype_of s f = MESON_COMPOSITION_CLIENT))
     \<and> quiet s t"

lemma fbs_wf_filter: "fbs_wf s \<Longrightarrow> fbs t = fbs s \<Longrightarrow> plat t = plat s \<Longrightarrow>
    mFramebuffers t = filter p (mFramebuffers s) \<Longrightarrow> fbs_wf t"
  by (auto simp: fbs_wf_def map_wf_def sorted_wrt_filter_keys)

lemma pick_post_wf: "pick_post s t \<Longrightarrow> fbs_wf s \<Longrightarrow> fbs_wf t"
  by (auto simp: pick_post_def pick_frame_fields intro: fbs_wf_filter)

lemma needs_composer_ui: "needs_composer s f \<Longrightarrow> is_ui (ctype_of s f)"
  by (auto simp: needs_composer_def is_ui_def)

lemma picked_all_ids: "fb_ids (picked ov s (mFramebuffers s) mn mx) = filter (\<lambda>f. is_ui (ctype_of s f)) (fb_ids s)"
proof -
  have "filter (\<lambda>e. e \<in> set (mFramebuffers s) \<longrightarrow> is_ui (ctype_of s (snd e))) (mFramebuffers s)
      = filter (\<lambda>e. is_ui (ctype_of s (snd e))) (mFramebuffers s)" by (rule filter_cong) auto
  then show ?thesis by (simp add: fb_ids_def picked_def filter_map o_def)
qed

lemma picked_post:
  assumes wf: "fbs_wf s" and cov: "range_covers s (filter (needs_composer s) (fb_ids s)) mn mx"
  shows "pick_post s (picked ov s (mFramebuffers s) mn mx)"
proof -
  let ?t = "picked ov s (mFramebuffers s) mn mx" and ?fs = "filter (needs_composer s) (fb_ids s)"
  have m: "mFramebuffers ?t = filter (\<lambda>e. is_ui (ctype_of s (snd e))) (mFramebuffers s)"
    unfolding picked_def by (simp cong: filter_cong)
  have r: "mMinComposerZorder ?t = mn" "mMaxComposerZorder ?t = mx" by (simp_all add: picked_def)
  have need: "is_fb_composed ?t f" if "f \<in> set (fb_ids ?t)" "needs_composer s f" for f
  proof -
    from that have "f \<in> set ?fs" by (auto simp: picked_all_ids)
    moreover from this have "?fs \<noteq> []" by (metis empty_iff list.set(1))
    ultimately have "mn \<le> zorder_of s f \<and> zorder_of s f \<le> mx"
      using cov by (simp add: range_covers_def)
    then show ?thesis by (simp add: is_fb_composed_def r)
  qed
  have "range_unset ?t \<or> range_hits ?t"
  proof (cases "?fs = []")
    case True
    with cov have "mn = INVALID s" "mx = INVALID s" by (simp_all add: range_covers_def)
    with r show ?thesis by (simp add: range_unset_def)
  next
    case False
    then obtain f where f: "f \<in> set ?fs" by (cases ?fs) auto
    then have "f \<in> set (fb_ids ?t)" and "needs_composer s f"
      by (auto simp: picked_all_ids needs_composer_ui)
    moreover have "mn \<in> zorder_of s ` set ?fs" "mx \<in> zorder_of s ` set ?fs"
      using cov False by (simp_all add: range_covers_def)
    then have "mn \<noteq> INVALID s" "mx \<noteq> INVALID s"
      using fbs_wf_valid [OF wf] by auto
    ultimately show ?thesis using need by (auto simp: range_hits_def r)
  qed
  moreover have "mHaveClient ?t = (mHaveClient s
      \<or> (\<exists>f \<in> set (fb_ids s). ctype_of s f = MESON_COMPOSITION_CLIENT))"
    by (simp add: picked_def fb_ids_def)
  moreover have "quiet s ?t" by (simp add: picked_def)
  ultimately show ?thesis using need m picked_frame by (simp add: pick_post_def)
qed


text \<open>Moving the range down to the first framebuffer and up to \<open>mx\<close> keeps what was picked.\<close>

lemma pick_post_extend:
  assumes wf: "fbs_wf s" and post: "pick_post s t" and ne: "mFramebuffers t \<noteq> []"
  defines "a \<equiv> zorder_of t (snd (hd (mFramebuffers t)))"
  assumes mx: "mx \<noteq> INVALID t" "mMaxComposerZorder t = INVALID t \<or> mMaxComposerZorder t \<le> mx" "a \<le> mx"
  shows "pick_post s ((set_range a mx t)\<lparr>mOverlayFbs := os\<rparr>)"
proof -
  define u where "u = (set_range a mx t)\<lparr>mOverlayFbs := os\<rparr>"
  from post have pf: "pick_frame s t" by (simp add: pick_post_def)
  have ids: "fb_ids u = fb_ids t" by (simp add: u_def set_range_def fb_ids_def)
  have wft: "fbs_wf t" using pick_post_wf [OF post wf] .
  have first: "snd (hd (mFramebuffers t)) \<in> set (fb_ids t)" using ne by (simp add: fb_ids_def)
  then have a: "a \<noteq> INVALID t" using fbs_wf_valid [OF wft] by (simp add: a_def)
  have low: "a \<le> zorder_of t f" if "f \<in> set (fb_ids t)" for f
  proof -
    have "sorted (map (zorder_of t) (fb_ids t))"
      using fbs_wf_sorted [OF wft] by (simp add: strict_sorted_iff)
    then show ?thesis using that ne
      by (cases "mFramebuffers t") (auto simp: fb_ids_def a_def)
  qed
  have hits: "range_hits u"
    using first a mx by (auto simp: range_hits_def ids is_fb_composed_def u_def a_def)
  have grow: "is_fb_composed u f" if "f \<in> set (fb_ids t)" "is_fb_composed t f" for f
  proof -
    have "range_hits t" using post that fbs_wf_valid [OF wft that(1)]
      by (auto simp: pick_post_def range_unset_def is_fb_composed_def)
    then have "mMaxComposerZorder t \<le> mx" using mx(2) by (auto simp: range_hits_def)
    with that low [OF that(1)] show ?thesis
      by (auto simp: is_fb_composed_def u_def)
  qed
  have "pick_frame t u" unfolding u_def set_range_def
    by (rule pick_frameI [where ov = os and hc = "mHaveClient t" and mn = a
          and mx = mx and m = "mFramebuffers t" and ev = "events t"]) simp
  with pf have "pick_frame s u" by (rule pick_frame_trans)
  moreover have "mFramebuffers u = mFramebuffers t" "mHaveClient u = mHaveClient t"
    by (simp_all add: u_def set_range_def)
  moreover have "quiet s u"
    using post by (simp add: pick_post_def u_def set_range_def quiet_def)
  ultimately show ?thesis using post hits grow ids unfolding u_def [symmetric] by (simp add: pick_post_def)
qed

lemma pick_post_overlays:
  assumes "pick_post s t"
  shows "pick_post s (t\<lparr>mOverlayFbs := os\<rparr>)"
proof -
  have "pick_frame t (t\<lparr>mOverlayFbs := os\<rparr>)"
    by (rule pick_frameI [where hc = "mHaveClient t" and mn = "mMinComposerZorder t"
          and mx = "mMaxComposerZorder t" and m = "mFramebuffers t" and ev = "events t"]) simp
  moreover have "quiet s (t\<lparr>mOverlayFbs := os\<rparr>)"
    using assms by (simp add: pick_post_def quiet_def)
  ultimately show ?thesis using assms pick_frame_trans by (auto simp: pick_post_def)
qed

lemma checkVideoFbs_post:
  assumes hdr: "mHDRMode t" and wf: "fbs_wf s" and post: "pick_post s t"
    and ov: "\<forall>f \<in> set (mOverlayFbs t). zorder_of s f \<noteq> INVALID s"
  shows "pick_post s (checkVideoFbs t) \<and> set (mOverlayFbs (checkVideoFbs t)) \<subseteq> set (mOverlayFbs t)"
proof (cases "mOverlayFbs t \<noteq> [] \<and> mFramebuffers t \<noteq> []")
  case False
  with post show ?thesis by (auto simp: checkVideoFbs_def)
next
  case True
  define a where "a = zorder_of t (snd (hd (mFramebuffers t)))"
  define b where "b = zorder_of t (snd (last (mFramebuffers t)))"
  define ov' where "ov' = filter (\<lambda>f. a \<le> zorder_of t f \<and> zorder_of t f \<le> b) (mOverlayFbs t)"
  have eq: "checkVideoFbs t = (case filter (video_inside t a b) (mOverlayFbs t) of
      [] \<Rightarrow> t\<lparr>mOverlayFbs := ov'\<rparr>
    | vs \<Rightarrow> (set_range a (fold (bump_max t) vs (mMaxComposerZorder t)) t)\<lparr>mOverlayFbs := ov'\<rparr>)"
    using True fold_adjustForVideo [OF hdr]
    by (simp add: checkVideoFbs_def Let_def a_def b_def ov'_def split: list.split)
  have sub: "set ov' \<subseteq> set (mOverlayFbs t)" by (auto simp: ov'_def)
  note fr = pick_frame_fields [of s t]
  from post have pf: "pick_frame s t" by (simp add: pick_post_def)
  show ?thesis
  proof (cases "filter (video_inside t a b) (mOverlayFbs t)")
    case Nil
    then show ?thesis using pick_post_overlays [OF post] sub by (simp add: eq)
  next
    case (Cons v vs)
    define mx where "mx = fold (bump_max t) (v # vs) (mMaxComposerZorder t)"
    have u: "checkVideoFbs t = (set_range a mx t)\<lparr>mOverlayFbs := ov'\<rparr>" using Cons by (simp add: eq mx_def)
    have "set (v # vs) \<subseteq> set (mOverlayFbs t)" using Cons by (metis filter_is_subset)
    then have valid: "\<forall>f \<in> set (v # vs). zorder_of t f \<noteq> INVALID t"
      using ov fr(1,2) [OF pf] by auto
    have vin: "a \<le> zorder_of t v" using Cons by (auto simp: filter_eq_Cons_iff video_inside_def)
    have mx: "mx \<noteq> INVALID t" "mMaxComposerZorder t = INVALID t \<or> mMaxComposerZorder t \<le> mx"
      "zorder_of t v \<le> mx"
      using fold_bump_max_any [OF valid, of "mMaxComposerZorder t", folded mx_def] by auto
    from vin mx(3) have "a \<le> mx" by (rule order_trans)
    from pick_post_extend [OF wf post _ mx(1,2) this [unfolded a_def]] True sub show ?thesis
      by (simp add: u a_def)
  qed
qed


lemma mem_picked_overlay:
  assumes "\<forall>f \<in> set (mOverlayFbs s). zorder_of s f \<noteq> INVALID s" and "fbs_wf s"
    and "f \<in> set (mOverlayFbs (picked ov s (mFramebuffers s) mn mx))"
  shows "zorder_of s f \<noteq> INVALID s"
  using assms(1,3) fbs_wf_valid [OF assms(2)] by (auto simp: picked_def fb_ids_def)

text \<open>Some dummy layer needs a \<open>DummyComposer\<close>, which is what \<open>mDummyComposer\<close> is.\<close>

definition dummy_ready :: "'a osd_state_scheme \<Rightarrow> bool" where
  "dummy_ready s \<longleftrightarrow> (\<exists>c. mDummyComposer s = Some c \<and> composers s c = DummyComposer)"

lemma call_addInputs_dummy:
  "composers s c = DummyComposer \<Longrightarrow> call_addInputs c fs os i s =
    Inr (s\<lparr>events := events s @ [ComposerAddInputs c fs os i]\<rparr>)"
  by (simp add: call_addInputs_def log_event_def fun_upd_idem)

text \<open>Handing the dummy layers to the dummy composer changes nothing but the log.\<close>

definition dummy_inputs :: "fbid list \<Rightarrow> 'a osd_state_scheme \<Rightarrow> 'a osd_state_scheme" where
  "dummy_inputs d s = (if d = [] then s
     else s\<lparr>events := events s @ [ComposerAddInputs (the (mDummyComposer s)) d [] 0]\<rparr>)"

lemma dummy_inputs_run:
  assumes "dummy_ready s"
  shows "(if d \<noteq> [] then bindE (getE NullDeref (mDummyComposer s)) (\<lambda>c. call_addInputs c d [] 0 s)
    else Inr s) = Inr (dummy_inputs d s)"
  using assms by (auto simp: dummy_ready_def dummy_inputs_def getE_def call_addInputs_dummy)

lemma dummy_inputs_fields [simp]:
  "mOverlayFbs (dummy_inputs d s) = mOverlayFbs s" "mHDRMode (dummy_inputs d s) = mHDRMode s"
  by (simp_all add: dummy_inputs_def)

lemma pick_post_dummy:
  assumes "pick_post s t"
  shows "pick_post s (dummy_inputs d t)"
proof -
  let ?u = "dummy_inputs d t"
  have "pick_frame t ?u"
    by (rule pick_frameI [where ov = "mOverlayFbs t" and hc = "mHaveClient t"
          and mn = "mMinComposerZorder t" and mx = "mMaxComposerZorder t"
          and m = "mFramebuffers t" and ev = "events ?u"]) (simp add: dummy_inputs_def)
  then have "pick_frame s ?u" using assms pick_frame_trans [of s t ?u] by (simp add: pick_post_def)
  moreover have "quiet t ?u"
    by (rule quietI [of _ _ "if d \<noteq> [] then [ComposerAddInputs (the (mDummyComposer t)) d [] 0] else []"])
      (simp_all add: dummy_inputs_def)
  then have "quiet s ?u" using assms quiet_trans [of s t ?u] by (simp add: pick_post_def)
  moreover have "range_unset ?u = range_unset t" "range_hits ?u = range_hits t"
    "is_fb_composed ?u = is_fb_composed t" "fb_ids ?u = fb_ids t"
    "mFramebuffers ?u = mFramebuffers t" "mHaveClient ?u = mHaveClient t"
    by (simp_all add: dummy_inputs_def range_unset_def range_hits_def is_fb_composed_def [abs_def])
  ultimately show ?thesis using assms by (simp add: pick_post_def)
qed

lemma pickoutOsdFbs_post:
  assumes wf: "fbs_wf s" and planes: "mOsdPlanes s \<noteq> []" and unset: "range_unset s"
    and hdr: "mHDRMode s" and ov: "mOverlayFbs s = []" and dummy: "dummy_ready s"
  shows "okE (pickoutOsdFbs s) (pick_post s)"
proof -
  have step: "okE (bindE (if d \<noteq> [] then
        bindE (getE NullDeref (mDummyComposer t)) (\<lambda>c. call_addInputs c d [] 0 t) else Inr t)
      (\<lambda>t. Inr (checkVideoFbs t))) (pick_post s)"
    if t: "t = picked isVideoPlaneComposition s (mFramebuffers s) mn mx"
      and cov: "range_covers s (filter (needs_composer s) (fb_ids s)) mn mx" for d t mn mx
  proof -
    have post: "pick_post s t" unfolding t by (rule picked_post [OF wf cov])
    have "dummy_ready t" using dummy by (simp add: dummy_ready_def t picked_def)
    note run = dummy_inputs_run [OF this, of d]
    have "mHDRMode (dummy_inputs d t)" using hdr by (simp add: t picked_def)
    moreover have "\<forall>f \<in> set (mOverlayFbs (dummy_inputs d t)). zorder_of s f \<noteq> INVALID s"
      using mem_picked_overlay [where s = s and mn = mn and mx = mx] wf ov t by simp
    ultimately have "pick_post s (checkVideoFbs (dummy_inputs d t))"
      using checkVideoFbs_post [OF _ wf pick_post_dummy [OF post]] by blast
    then show ?thesis by (simp add: run)
  qed
  show ?thesis unfolding pickoutOsdFbs_def okE_bindE [of "foldE _ _ _"]
  proof (rule okE_mono [OF pickout_loop [OF wf planes unset]])
    fix ds assume "picked_inv s (mFramebuffers s) ds"
    moreover obtain d t where ds: "ds = (d, t)" by (cases ds)
    ultimately obtain mn mx where "t = picked isVideoPlaneComposition s (mFramebuffers s) mn mx"
      and "range_covers s (filter (needs_composer s) (fb_ids s)) mn mx"
      by (auto simp: picked_inv_def fb_ids_def)
    from step [OF this, of d]
    show "okE (case ds of (dummyFbs, s) \<Rightarrow> bindE (if dummyFbs \<noteq> []
        then bindE (getE NullDeref (mDummyComposer s)) (\<lambda>c. call_addInputs c dummyFbs [] 0 s)
        else Inr s) (\<lambda>s. Inr (checkVideoFbs s))) (pick_post s)"
      unfolding ds prod.case .
  qed
qed

end
