(* ===== verification/MultiplanesOsd.thy ===== *)
theory MultiplanesOsd
  imports MultiplanesPick
begin

text \<open>
  Facts about \<open>MultiplanesComposition::handleOsdComposition\<close>. \<open>range_settled\<close> is the state
  once \<open>confirmComposerRange\<close> and \<open>handleVPULimit\<close> have fixed the compose range, \<open>osd_split\<close>
  the one after \<open>fillComposerFbs\<close>: which framebuffers the composer takes, which go to the osd
  planes, and that there are planes enough. \<open>setOsdFbs2PlanePairs_done\<close> gives the pairs in
  closed form: \<open>osd_pairs\<close> of the reference framebuffer first, then the others in order.
\<close>

lemma fbs_wf_frame [simp]:
  "fbs_wf (s\<lparr>mDisplayRefFb := a\<rparr>) = fbs_wf s" "fbs_wf (s\<lparr>mOverlayFbs := b\<rparr>) = fbs_wf s"
  by (simp_all add: fbs_wf_def)

section \<open>From the compose range to the osd outputs\<close>

lemma chooseRefFb_mem:
  "chooseRefFb s a b fs ref = Some r \<Longrightarrow> r \<in> set fs \<or> ref = Some r"
  by (induction s a b fs ref rule: chooseRefFb.induct)
    (auto simp: Let_def split: if_splits option.splits)

definition osd_frame :: "'a osd_state_scheme \<Rightarrow> 'a osd_state_scheme \<Rightarrow> bool" where
  "osd_frame t w \<longleftrightarrow> (\<exists>mn mx ref z cs m ov. w = t\<lparr>mMinComposerZorder := mn,
     mMaxComposerZorder := mx, mDisplayRefFb := ref, mOsdDisplayFrame := z, mComposerFbs := cs,
     mFramebuffers := m, mOverlayFbs := ov\<rparr>)"

lemma osd_frameI:
  "w = t\<lparr>mMinComposerZorder := mn,
     mMaxComposerZorder := mx, mDisplayRefFb := ref, mOsdDisplayFrame := z, mComposerFbs := cs,
     mFramebuffers := m, mOverlayFbs := ov\<rparr> \<Longrightarrow> osd_frame t w"
  unfolding osd_frame_def by blast

lemma osd_frame_fields:
  assumes "osd_frame t w"
  shows "fbs w = fbs t" "plat w = plat t" "composers w = composers t" "mOsdPlanes w = mOsdPlanes t"
    "mDisplayPairs w = mDisplayPairs t" "mComposer w = mComposer t" "events w = events t"
    "mHaveClient w = mHaveClient t" "mClientComposer w = mClientComposer t"
    "mOtherComposers w = mOtherComposers t" "mCrtc w = mCrtc t"
  using assms unfolding osd_frame_def by (elim exE; simp)+

lemma osd_frame_planes: "osd_frame t w \<Longrightarrow> all_planes w = all_planes t"
  unfolding osd_frame_def all_planes_def by (elim exE; simp)

text \<open>Between \<open>confirmComposerRange\<close> and \<open>fillComposerFbs\<close>.\<close>

definition range_settled :: "'a osd_state_scheme \<Rightarrow> 'a osd_state_scheme \<Rightarrow> bool" where
  "range_settled t u \<longleftrightarrow> (\<exists>mn mx ref z. u = t\<lparr>mMinComposerZorder := mn,
     mMaxComposerZorder := mx, mDisplayRefFb := ref, mOsdDisplayFrame := z\<rparr>)
   \<and> (range_hits u \<and> mDisplayRefFb u = None \<and> osd_outputs u \<le> length (mOsdPlanes t)
      \<or> range_unset u \<and> (\<exists>r \<in> set (fb_ids t). mDisplayRefFb u = Some r)
        \<and> length (mFramebuffers t) \<le> length (mOsdPlanes t))
   \<and> (\<forall>f \<in> set (fb_ids t). is_fb_composed t f \<longrightarrow> is_fb_composed u f)"

lemma range_unset_composed:
  "fbs_wf s \<Longrightarrow> range_unset s \<Longrightarrow> f \<in> set (fb_ids s) \<Longrightarrow> \<not> is_fb_composed s f"
  using fbs_wf_valid [of s f] by (auto simp: range_unset_def is_fb_composed_def)

lemma single_range:
  assumes wf: "fbs_wf t" and ne: "mFramebuffers t \<noteq> []" and unset: "range_unset t"
  defines "z \<equiv> zorder_of t (snd (hd (mFramebuffers t)))"
  shows "range_hits (set_range z z t) \<and> osd_outputs (set_range z z t) = length (mFramebuffers t)"
proof -
  define ks where "ks = map (zorder_of t) (fb_ids t)"
  have ks: "0 < length ks" "ks ! 0 = z" using ne
    by (simp_all add: ks_def z_def fb_ids_def hd_conv_nth)
  have "snd (hd (mFramebuffers t)) \<in> set (fb_ids t)" using ne by (simp add: fb_ids_def)
  then have "z \<noteq> INVALID t" unfolding z_def by (rule fbs_wf_valid [OF wf])
  moreover have "sorted_wrt (<) ks" using fbs_wf_sorted [OF wf] by (simp add: ks_def)
  then have "length (filter (\<lambda>x. z < x) ks) = length ks - 1"
    using filter_greater_nth [of ks 0] ks by simp
  ultimately show ?thesis
    using range_at [OF wf ks_def ks(1), of z] ks by (simp add: ks_def)
qed

lemma handleVPULimit_unset:
  assumes wf: "fbs_wf t" and ne: "mFramebuffers t \<noteq> []" and unset: "range_unset t"
    and ref: "mDisplayRefFb t = None" and n: "length (mFramebuffers t) \<le> length (mOsdPlanes t)"
  shows "range_settled t (handleVPULimit t)"
proof -
  obtain minX minY w h where o4: "fold (offsetStep t) (fb_ids t) (-1, -1, 0, 0) = (minX, minY, w, h)"
    by (metis prod_cases4)
  define r where "r = chooseRefFb t
      (mk_rect 0 0 OSD_SCALER_INPUT_MAX_WIDTH OSD_SCALER_INPUT_MAX_HEIGHT)
      (mk_rect 0 0 (int32 (w - minX)) (int32 (h - minY))) (fb_ids t) (mDisplayRefFb t)"
  define z where "z = zorder_of t (snd (hd (mFramebuffers t)))"
  have none: "\<forall>f \<in> set (fb_ids t). \<not> is_fb_composed t f"
    using range_unset_composed [OF wf unset] by blast
  show ?thesis
  proof (cases r)
    case None
    then have "handleVPULimit t = set_range z z t"
      using ne unset o4 by (simp add: handleVPULimit_def range_unset_def Let_def r_def z_def set_range_def)
    moreover have "\<exists>mn mx ref zf. set_range z z t = t\<lparr>mMinComposerZorder := mn,
        mMaxComposerZorder := mx, mDisplayRefFb := ref, mOsdDisplayFrame := zf\<rparr>"
      by (intro exI [of _ z] exI [of _ "mDisplayRefFb t"] exI [of _ "mOsdDisplayFrame t"])
        (simp add: set_range_def)
    ultimately show ?thesis
      using single_range [OF wf ne unset, folded z_def] n ref none by (auto simp: range_settled_def)
  next
    case (Some f)
    then have f: "f \<in> set (fb_ids t)" using chooseRefFb_mem ref by (fastforce simp: r_def)
    define zf where "zf = (mOsdDisplayFrame t)\<lparr>crtc_display_x := minX, crtc_display_y := minY\<rparr>"
    have eq: "handleVPULimit t = t\<lparr>mDisplayRefFb := Some f, mOsdDisplayFrame := zf\<rparr>"
      using Some ne unset o4 by (simp add: handleVPULimit_def range_unset_def Let_def r_def zf_def)
    moreover have "\<exists>mn mx ref z. handleVPULimit t = t\<lparr>mMinComposerZorder := mn,
        mMaxComposerZorder := mx, mDisplayRefFb := ref, mOsdDisplayFrame := z\<rparr>"
      unfolding eq by (intro exI [of _ "mMinComposerZorder t"] exI [of _ "mMaxComposerZorder t"]
          exI [of _ "Some f"] exI [of _ zf]) simp
    ultimately show ?thesis using f n unset none by (auto simp: range_settled_def)
  qed
qed


lemma handleVPULimit_hits: "range_hits s \<Longrightarrow> handleVPULimit s = s"
  by (simp add: handleVPULimit_def range_hits_def)

lemma set_range_idem [simp]: "set_range a b (set_range c d s) = set_range a b s"
  by (simp add: set_range_def)

lemma range_settledI_hits:
  assumes "range_hits (set_range mn mx t)" and "mDisplayRefFb t = None"
    and "osd_outputs (set_range mn mx t) \<le> length (mOsdPlanes t)"
    and "\<forall>f \<in> set (fb_ids t). is_fb_composed t f \<longrightarrow> is_fb_composed (set_range mn mx t) f"
  shows "range_settled t (set_range mn mx t)"
proof -
  have "\<exists>mn' mx' ref zf. set_range mn mx t = t\<lparr>mMinComposerZorder := mn',
      mMaxComposerZorder := mx', mDisplayRefFb := ref, mOsdDisplayFrame := zf\<rparr>"
    by (intro exI [of _ mn] exI [of _ mx] exI [of _ "mDisplayRefFb t"]
        exI [of _ "mOsdDisplayFrame t"]) (simp add: set_range_def)
  with assms show ?thesis by (auto simp: range_settled_def)
qed

lemma settle_range:
  assumes wf: "fbs_wf t" and ne: "mFramebuffers t \<noteq> []" and range: "range_unset t \<or> range_hits t"
    and ref: "mDisplayRefFb t = None" and planes: "mOsdPlanes t \<noteq> []"
    and len: "int (length (mFramebuffers t)) < 2 ^ 31"
  shows "okE (confirmComposerRange t) (\<lambda>u. range_settled t (handleVPULimit u))"
proof (cases "range_hits t")
  case True
  then obtain mn mx where "confirmComposerRange t = Inr (set_range mn mx t)"
    and hits: "range_hits (set_range mn mx t)"
    and "osd_outputs (set_range mn mx t) \<le> length (mOsdPlanes t)"
    and "\<forall>f \<in> set (fb_ids t). is_fb_composed t f \<longrightarrow> is_fb_composed (set_range mn mx t) f"
    using confirmComposerRange_hits [OF wf True planes len] by blast
  with ref show ?thesis by (simp add: handleVPULimit_hits range_settledI_hits)
next
  case False
  with range have unset: "range_unset t" by simp
  from confirmComposerRange_unset [OF wf unset planes len] show ?thesis
  proof (elim disjE conjE exE)
    assume "length (mFramebuffers t) \<le> length (mOsdPlanes t)" "confirmComposerRange t = Inr t"
    then show ?thesis using handleVPULimit_unset [OF wf ne unset ref] by simp
  next
    fix mn mx
    assume "confirmComposerRange t = Inr (set_range mn mx t)"
      and hits: "range_hits (set_range mn mx t)"
      and "osd_outputs (set_range mn mx t) = length (mOsdPlanes t)"
    with ref range_unset_composed [OF wf unset] show ?thesis
      by (simp add: handleVPULimit_hits range_settledI_hits)
  qed
qed

text \<open>After \<open>fillComposerFbs\<close>: what goes to the composer and what to the osd planes.\<close>

definition osd_split :: "'a osd_state_scheme \<Rightarrow> 'a osd_state_scheme \<Rightarrow> fbid \<Rightarrow> bool" where
  "osd_split t w r \<longleftrightarrow> osd_frame t w \<and> fbs_wf w \<and> mDisplayRefFb w = Some r \<and> r \<in> set (fb_ids w)
     \<and> length (mFramebuffers w) \<le> length (mOsdPlanes t)
     \<and> mComposerFbs w = filter (is_fb_composed w) (fb_ids t)
     \<and> mOverlayFbs w = filter (is_fb_composed w) (mOverlayFbs t)
     \<and> set (fb_ids w) = {f \<in> set (fb_ids t). \<not> is_fb_composed w f \<or> f = r}
     \<and> (mComposerFbs w \<noteq> [] \<longrightarrow> is_fb_composed w r)
     \<and> (\<forall>f \<in> set (fb_ids t). is_fb_composed t f \<longrightarrow> is_fb_composed w f)"

lemma settled_fields:
  assumes "range_settled t u"
  shows "fbs u = fbs t" "plat u = plat t" "mFramebuffers u = mFramebuffers t"
    "fb_ids u = fb_ids t" "mOverlayFbs u = mOverlayFbs t" "mComposerFbs u = mComposerFbs t"
    "mOsdPlanes u = mOsdPlanes t" "fbs_wf u = fbs_wf t"
  using assms unfolding range_settled_def fb_ids_def fbs_wf_def by (elim conjE exE; simp)+

lemma fill_settled:
  assumes wf: "fbs_wf t" and s: "range_settled t u" and cs: "mComposerFbs t = []"
  shows "okE (fillComposerFbs u) (\<lambda>w. \<exists>r. osd_split t w r)"
proof -
  note [simp] = settled_fields [OF s]
  from s obtain mn mx ref z where u: "u = t\<lparr>mMinComposerZorder := mn,
      mMaxComposerZorder := mx, mDisplayRefFb := ref, mOsdDisplayFrame := z\<rparr>"
    and grow: "\<forall>f \<in> set (fb_ids t). is_fb_composed t f \<longrightarrow> is_fb_composed u f"
    unfolding range_settled_def by blast
  have wfu: "fbs_wf u" using wf by simp
  from s have "range_hits u \<and> mDisplayRefFb u = None \<and> osd_outputs u \<le> length (mOsdPlanes t)
      \<or> range_unset u \<and> (\<exists>r \<in> set (fb_ids t). mDisplayRefFb u = Some r)
        \<and> length (mFramebuffers t) \<le> length (mOsdPlanes t)"
    unfolding range_settled_def by (elim conjE)
  then consider (hits) "range_hits u" "mDisplayRefFb u = None" "osd_outputs u \<le> length (mOsdPlanes t)"
    | (free) r where "range_unset u" "r \<in> set (fb_ids t)" "mDisplayRefFb u = Some r"
      "length (mFramebuffers t) \<le> length (mOsdPlanes t)"
    by (elim disjE conjE bexE) assumption+
  then show ?thesis
  proof cases
    case hits
    let ?w = "(filled u (range_entries u))\<lparr>mDisplayRefFb := Some (range_ref u),
       mOverlayFbs := filter (is_fb_composed u) (mOverlayFbs u)\<rparr>"
    have w: "fillComposerFbs u = Inr ?w" using fillComposerFbs_hits [OF wfu hits(1,2)] .
    have comp: "is_fb_composed ?w = is_fb_composed u" by simp
    have "osd_frame t ?w"
      by (rule osd_frameI [where mn = mn and mx = mx and ref = "mDisplayRefFb ?w" and z = z
            and cs = "mComposerFbs ?w" and m = "mFramebuffers ?w" and ov = "mOverlayFbs ?w"])
        (simp add: filled_def u)
    moreover have "fbs_wf ?w" using filled_fbs_wf [OF wfu] by simp
    moreover have "length (mFramebuffers ?w) \<le> length (mOsdPlanes t)"
      using filled_length [OF wfu hits(1)] hits(3) by simp
    moreover have ids: "set (fb_ids ?w) = {f \<in> set (fb_ids t). \<not> is_fb_composed u f \<or> f = range_ref u}"
      using filled_ids [OF wfu hits(1)] by auto
    moreover have "range_ref u \<in> set (fb_ids t)" "is_fb_composed u (range_ref u)"
      using range_ref [OF hits(1)] by simp_all
    moreover have "mComposerFbs ?w = filter (is_fb_composed u) (fb_ids t)"
      using cs range_entries_ids [of u] by simp
    ultimately have "osd_split t ?w (range_ref u)"
      using grow unfolding osd_split_def comp by simp
    with w show ?thesis by auto
  next
    case free
    let ?w = "u\<lparr>mOverlayFbs := filter (is_fb_composed u) (mOverlayFbs u)\<rparr>"
    have w: "fillComposerFbs u = Inr ?w" using fillComposerFbs_unset [OF free(1)] .
    have none: "\<not> is_fb_composed u f" if "f \<in> set (fb_ids t)" for f
      using range_unset_composed [OF wfu free(1)] that by simp
    have comp: "is_fb_composed ?w = is_fb_composed u" by simp
    have "osd_frame t ?w"
      by (rule osd_frameI [where mn = mn and mx = mx and ref = "mDisplayRefFb ?w" and z = z
            and cs = "mComposerFbs ?w" and m = "mFramebuffers ?w" and ov = "mOverlayFbs ?w"])
        (simp add: u)
    moreover have "fbs_wf ?w" using wfu by simp
    moreover have "filter (is_fb_composed u) (fb_ids t) = []" using none by (simp add: filter_empty_conv)
    ultimately have "osd_split t ?w r"
      using free cs none grow unfolding osd_split_def comp by auto
    with w show ?thesis by auto
  qed
qed


section \<open>One plane for every output\<close>

definition osd_order :: "fbid \<Rightarrow> fbid list \<Rightarrow> fbid list" where
  "osd_order r fs = r # filter (\<lambda>f. f \<noteq> r) fs"

definition osd_pairs :: "'a world_scheme \<Rightarrow> hw_display_plane list \<Rightarrow> fbid list \<Rightarrow> display_pair list" where
  "osd_pairs s ps fs = map (\<lambda>(i, f). \<lparr>din = i, presentZorder = zorder_of s f, pair_fb = f,
     pair_plane = ps ! i\<rparr>) (enumerate 0 fs)"

lemma osd_order_props:
  assumes "distinct fs" and "r \<in> set fs"
  shows "set (osd_order r fs) = set fs" "distinct (osd_order r fs)" "length (osd_order r fs) = length fs"
proof -
  show s: "set (osd_order r fs) = set fs" using assms by (auto simp: osd_order_def)
  show d: "distinct (osd_order r fs)" using assms by (simp add: osd_order_def)
  show "length (osd_order r fs) = length fs" using s d assms(1) by (metis distinct_card)
qed

lemma markOsd_frame: "\<exists>ty. markOsd f s = s\<lparr>fbs := ty\<rparr>"
proof (cases "ctype_of s f = MESON_COMPOSITION_UNDETERMINED")
  case True
  then show ?thesis by (auto simp: markOsd_def upd_comp_def)
next
  case False
  then have "markOsd f s = s\<lparr>fbs := fbs s\<rparr>" by (simp add: markOsd_def)
  then show ?thesis by blast
qed

definition mark_types :: "fbid list \<Rightarrow> (fbid \<Rightarrow> drm_framebuffer) \<Rightarrow> (fbid \<Rightarrow> drm_framebuffer)" where
  "mark_types fs h = fold (\<lambda>f h. if mCompositionType (h f) = MESON_COMPOSITION_UNDETERMINED
     then set_comp f MESON_COMPOSITION_PLANE_OSD h else h) fs h"

lemma mark_types_type:
  "mCompositionType (mark_types fs h i) =
    (if i \<in> set fs \<and> mCompositionType (h i) = MESON_COMPOSITION_UNDETERMINED
     then MESON_COMPOSITION_PLANE_OSD else mCompositionType (h i))"
  unfolding mark_types_def by (induction fs arbitrary: h) auto

lemma mark_types_only: "only_types h (mark_types fs h)"
proof -
  have "only_types h0 (mark_types fs h)" if "only_types h0 h" for h0
    using that unfolding mark_types_def by (induction fs arbitrary: h) (auto simp: only_types_set_comp)
  then show ?thesis by simp
qed

lemma markOsd_fbs: "markOsd f s = s\<lparr>fbs := mark_types [f] (fbs s)\<rparr>"
  by (simp add: markOsd_def mark_types_def upd_comp_def)

lemma mark_types_append: "mark_types (xs @ ys) h = mark_types ys (mark_types xs h)"
  by (simp add: mark_types_def)

lemma mark_types_zorder [simp]: "mZorder (mark_types fs h i) = mZorder (h i)"
  using only_types_fields(1) [OF mark_types_only] .

lemma setOsdPair_skip:
  "mDisplayRefFb s = Some r \<Longrightarrow> foldE setOsdPair fs (b1, b2, s) =
    foldE setOsdPair (filter (\<lambda>f. f \<noteq> r) fs) (b1, b2, s)"
proof (induction fs arbitrary: b1 b2 s)
  case Nil
  then show ?case by simp
next
  case (Cons f fs)
  show ?case
  proof (cases "f = r")
    case True
    with Cons show ?thesis by simp
  next
    case False
    have "mDisplayRefFb (snd (snd x)) = Some r" if "setOsdPair f (b1, b2, s) = Inr x" for x
      using that Cons.prems False
      by (cases x) (auto simp: bindE_Inr_iff markOsd_fbs pushPair_def split: if_splits)
    then have "bindE (setOsdPair f (b1, b2, s)) (foldE setOsdPair fs) =
        bindE (setOsdPair f (b1, b2, s)) (foldE setOsdPair (filter (\<lambda>f. f \<noteq> r) fs))"
      using Cons.IH by (cases "setOsdPair f (b1, b2, s)") auto
    with False show ?thesis by simp
  qed
qed

definition osd_done :: "'a osd_state_scheme \<Rightarrow> fbid list \<Rightarrow> hw_display_plane list
    \<Rightarrow> 'a osd_state_scheme" where
  "osd_done s fs ps = s\<lparr>fbs := mark_types fs (fbs s),
     mDisplayPairs := mDisplayPairs s @ osd_pairs s ps fs, mOsdPlanes := ps\<rparr>"

lemma osd_done_snoc:
  "markOsd f (pushPair (length fs) (zorder_of (osd_done s fs ps) f) f (ps ! length fs) (osd_done s fs ps)) =
    osd_done s (fs @ [f]) ps"
  by (simp add: osd_done_def markOsd_fbs pushPair_def osd_pairs_def enumerate_append_eq
      mark_types_append)

lemma osd_done_fields [simp]:
  "mDisplayRefFb (osd_done s fs ps) = mDisplayRefFb s" "mOsdPlanes (osd_done s fs ps) = ps"
  by (simp_all add: osd_done_def)

lemma setOsdPair_done:
  assumes "mDisplayRefFb s = Some r" and "f \<noteq> r"
  shows "length fs = 1 \<Longrightarrow> 1 < length ps \<Longrightarrow>
      setOsdPair f (False, b2, osd_done s fs ps) = Inr (True, b2, osd_done s (fs @ [f]) ps)"
    and "length fs = 2 \<Longrightarrow> 2 < length ps \<Longrightarrow>
      setOsdPair f (True, b2, osd_done s fs ps) = Inr (True, True, osd_done s (fs @ [f]) ps)"
  using assms osd_done_snoc [of f fs s ps] by (auto simp: nthE_def din_defs)

lemma setOsdFbs2PlanePairs_done:
  assumes d: "distinct (fb_ids s)" and r: "mDisplayRefFb s = Some r" "r \<in> set (fb_ids s)"
    and len: "length (mFramebuffers s) \<le> length (mOsdPlanes s)" "length (mFramebuffers s) \<le> 3"
  shows "setOsdFbs2PlanePairs s =
    Inr ((osd_done s (osd_order r (fb_ids s)) (primaryFirst (mOsdPlanes s)))
      \<lparr>mOsdPlanes := drop (length (mFramebuffers s)) (primaryFirst (mOsdPlanes s))\<rparr>)"
proof -
  let ?P = "primaryFirst (mOsdPlanes s)"
  have P: "length ?P = length (mOsdPlanes s)" by (simp add: primaryFirst_def split: option.split)
  have ne: "mFramebuffers s \<noteq> []" using r(2) by (auto simp: fb_ids_def)
  obtain others where o: "filter (\<lambda>f. f \<noteq> r) (fb_ids s) = others" by blast
  have n: "length (mFramebuffers s) = Suc (length others)"
    using osd_order_props(3) [OF d r(2)] o by (simp add: osd_order_def)
  let ?s = "s\<lparr>mOsdPlanes := ?P\<rparr>"
  let ?s0 = "markOsd r (pushPair OSD_PLANE_DIN_ZERO (zorder_of s r) r (?P ! 0) ?s)"
  have "mDisplayRefFb ?s0 = Some r" using r(1) by (simp add: markOsd_fbs pushPair_def)
  note skip = setOsdPair_skip [OF this, of "fb_ids s" False False, unfolded o]
  have ro: "r \<notin> set others" using o by auto
  have "0 < length ?P" using n len P by linarith
  then have nth0: "nthE OutOfRange ?P OSD_PLANE_DIN_ZERO = Inr (?P ! 0)"
    by (simp add: nthE_def din_defs)
  have unf: "setOsdFbs2PlanePairs s =
      bindE (foldE setOsdPair others (False, False, ?s0)) (\<lambda>(bDin1, bDin2, s).
        let removePlanes = 1 + (if bDin1 then 1 else 0) + (if bDin2 then 1 else 0) in
        if removePlanes \<le> length (mOsdPlanes s)
        then Inr (s\<lparr>mOsdPlanes := drop removePlanes (mOsdPlanes s)\<rparr>) else Inl OutOfRange)"
    using ne r nth0 skip by (simp add: setOsdFbs2PlanePairs_def getE_def fb_ids_def)
  have s0: "?s0 = osd_done s [r] ?P"
    using osd_done_snoc [of r "[]" s ?P]
    by (simp add: osd_done_def osd_pairs_def mark_types_def din_defs)
  have P1: "length others < length ?P" "length others \<le> 2" using n len P by simp_all
  have "foldE setOsdPair others (False, False, ?s0) =
      Inr (0 < length others, 1 < length others, osd_done s (r # others) ?P)"
  proof (cases others)
    case Nil
    then show ?thesis by (simp add: s0)
  next
    case (Cons a os)
    with ro P1 setOsdPair_done(1) [OF r(1), of a "[r]" ?P]
    have a: "setOsdPair a (False, False, osd_done s [r] ?P) = Inr (True, False, osd_done s [r, a] ?P)"
      by auto
    show ?thesis
    proof (cases os)
      case Nil
      with Cons a show ?thesis by (simp add: s0)
    next
      case (Cons b os')
      with \<open>others = a # os\<close> P1 ro have o3: "others = [a, b]" "b \<noteq> r" "2 < length ?P" by auto
      with setOsdPair_done(2) [OF r(1), of b "[r, a]" ?P]
      have "setOsdPair b (True, False, osd_done s [r, a] ?P) = Inr (True, True, osd_done s [r, a, b] ?P)"
        by simp
      with a o3 show ?thesis by (simp add: s0)
    qed
  qed
  moreover have "1 + (if 0 < length others then 1 else 0) + (if 1 < length others then 1 else 0)
      = Suc (length others)" using P1(2) by (cases "length others") auto
  moreover have "Suc (length others) \<le> length ?P" using P1(1) by simp
  ultimately have "setOsdFbs2PlanePairs s =
      Inr ((osd_done s (r # others) ?P)\<lparr>mOsdPlanes := drop (Suc (length others)) ?P\<rparr>)"
    unfolding unf by (simp only: bindE_simps prod.case Let_def osd_done_fields if_True)
  then show ?thesis by (simp only: osd_order_def o n)
qed

end
