(* ===== verification/OsdDecide.thy ===== *)
theory OsdDecide
  imports MultiplanesOsd
begin

text \<open>
  The end of the decision, for the two strategies alike: choosing and starting the composer, and
  what is then true of the frame. \<open>osd_decided b t\<close> is the outcome \<open>t\<close> for the state \<open>b\<close> in which the
  osd framebuffers are picked: every framebuffer has a type, the composer gets what no plane shows,
  every plane is in exactly one place. \<open>osd_finished_decided\<close> proves it from \<open>osd_split\<close>, once
  the strategy has chosen its composer (\<open>placed_finished\<close>, \<open>started_finished\<close>).
\<close>

section \<open>Choosing and starting the composer\<close>

definition composers_ready :: "'a osd_state_scheme \<Rightarrow> bool" where
  "composers_ready s \<longleftrightarrow> (\<exists>c. mClientComposer s = Some c
       \<and> composer_getType (composers s c) = MESON_COMPOSITION_CLIENT)
     \<and> (\<forall>c \<in> set (mOtherComposers s). composer_valid (composers s c) 0)"

lemma client_valid: "composer_getType c = MESON_COMPOSITION_CLIENT \<Longrightarrow> composer_valid c i"
  by (cases c) simp_all

lemma composer_valid_type:
  "composer_valid c i \<Longrightarrow> isComposerComposition (composer_getType c)
     \<and> composer_getType c \<noteq> MESON_COMPOSITION_DUMMY"
  by (cases c) (simp_all add: isComposerComposition_def)

text \<open>
  The composer that \<open>selectComposer\<close> takes, when there is something to compose: as every composer
  supports every framebuffer, one of the others, if there is one and nothing is forced to the client.
\<close>

definition chosen :: "'a osd_state_scheme \<Rightarrow> cid \<Rightarrow> bool" where
  "chosen s c \<longleftrightarrow> composer_valid (composers s c) 0
     \<and> (mHaveClient s \<longrightarrow> composer_getType (composers s c) = MESON_COMPOSITION_CLIENT)
     \<and> (Some c = mClientComposer s \<or> c \<in> set (mOtherComposers s))"

definition composer_rule :: "'a osd_state_scheme \<Rightarrow> cid option \<Rightarrow> bool" where
  "composer_rule s r \<longleftrightarrow> (if mHaveClient s \<or> mOtherComposers s = [] then r = mClientComposer s
     else \<exists>c \<in> set (mOtherComposers s). r = Some c)"

lemma selectComposer_chosen:
  assumes ready: "composers_ready s" and none: "mComposer s = None" and ne: "mComposerFbs s \<noteq> []"
  shows "\<exists>c. chosen s c \<and> composer_rule s (Some c) \<and> selectComposer s = Inr (s\<lparr>mComposer := Some c,
    fbs := set_comps (mComposerFbs s) (composer_getType (composers s c)) (fbs s)\<rparr>)"
proof -
  from ready obtain cl where cl: "mClientComposer s = Some cl"
    "composer_getType (composers s cl) = MESON_COMPOSITION_CLIENT" by (auto simp: composers_ready_def)
  then have ccl: "chosen s cl" by (simp add: chosen_def client_valid)
  define other where "other = (if \<not> mHaveClient s then
     find (\<lambda>c. composer_isFbsSupport (composers s c) (mComposerFbs s) (mOverlayFbs s))
       (mOtherComposers s) else None)"
  show ?thesis
  proof (cases other)
    case None
    have "composer_rule s (Some cl)"
      using None cl by (cases "mOtherComposers s")
        (auto simp: other_def composer_rule_def composer_isFbsSupport_def split: if_splits)
    with None show ?thesis using ne none cl ccl
      by (intro exI [of _ cl]) (simp add: selectComposer_def getE_def Let_def flip: other_def)
  next
    case (Some c)
    then have "c \<in> set (mOtherComposers s)" and "\<not> mHaveClient s"
      by (auto simp: other_def find_Some_iff split: if_splits)
    then have "chosen s c" using ready by (auto simp: chosen_def composers_ready_def)
    moreover have "composer_rule s (Some c)"
      using \<open>c \<in> set (mOtherComposers s)\<close> \<open>\<not> mHaveClient s\<close> by (auto simp: composer_rule_def)
    ultimately show ?thesis using Some ne
      by (intro exI [of _ c]) (simp add: selectComposer_def getE_def Let_def flip: other_def)
  qed
qed

lemma valid_addInputs:
  "composer_valid c i \<Longrightarrow> \<exists>c'. composer_addInputs c fs os i = Inr c' \<and> composer_valid c' i
     \<and> composer_getType c' = composer_getType c"
  using composer_objects.addInputs_law [of c i fs os] composer_type_const(2) by blast

lemma valid_prepare: "composer_valid c i \<Longrightarrow> composer_valid (composer_prepare c) i"
  by (cases c) (simp_all add: di_prepare_def)

text \<open>A \<open>DiComposer\<close> forgets its output in \<open>prepare\<close>.\<close>

lemma prepared_no_output:
  assumes "composer_valid c i" and "composer_addInputs (composer_prepare c) fs os i = Inr c'"
    and "composer_getType c = MESON_COMPOSITION_DI"
  shows "composer_getOutput c' i = Inr None"
proof -
  from assms(3) obtain impls where c: "c = DiComposer impls" by (cases c) simp_all
  from valid_prepare [OF assms(1)] have "composer_getOutput (composer_prepare c) i = Inr None"
    using assms(1) by (simp add: c di_getOutput_def di_impl_def di_prepare_def)
  then show ?thesis
    using composer_objects.addInputs_law [OF valid_prepare [OF assms(1)], of fs os] assms(2) by auto
qed

lemma startComposer_started:
  assumes "mComposer s = Some c" and "composer_valid (composers s c) 0"
  shows "\<exists>c'. composer_valid c' 0 \<and> composer_getType c' = composer_getType (composers s c)
    \<and> (composer_getType c' = MESON_COMPOSITION_CLIENT
         \<longrightarrow> composer_getOutput c' 0 = composer_getOutput (composers s c) 0)
    \<and> (composer_getType c' = MESON_COMPOSITION_DI \<longrightarrow> composer_getOutput c' 0 = Inr None)
    \<and> startComposer s = Inr (s\<lparr>composers := (composers s)(c := c'),
      events := events s @ [ComposerPrepare c, ComposerAddInputs c (mComposerFbs s) (mOverlayFbs s) 0]\<rparr>)"
proof -
  from valid_addInputs [OF valid_prepare [OF assms(2)], of "mComposerFbs s" "mOverlayFbs s"]
  obtain c' where "composer_addInputs (composer_prepare (composers s c)) (mComposerFbs s)
      (mOverlayFbs s) 0 = Inr c'" "composer_valid c' 0"
    "composer_getType c' = composer_getType (composers s c)"
    by (auto simp: composer_type_const(1))
  moreover from this have "composer_getType c' = MESON_COMPOSITION_CLIENT
      \<Longrightarrow> composer_getOutput c' 0 = composer_getOutput (composers s c) 0"
    by (cases "composers s c") auto
  moreover have "composer_getOutput c' 0 = Inr None" if "composer_getType c' = MESON_COMPOSITION_DI"
    by (rule prepared_no_output [OF assms(2) calculation(1)]) (use that calculation(3) in simp)
  ultimately show ?thesis using assms(1)
    by (intro exI [of _ c']) (simp add: startComposer_def call_prepare_def call_addInputs_def log_event_def)
qed

lemma osd_splitD:
  assumes "osd_split t w r"
  shows "osd_frame t w" "fbs_wf w" "mDisplayRefFb w = Some r" "r \<in> set (fb_ids w)"
    "length (mFramebuffers w) \<le> length (mOsdPlanes t)"
    "mComposerFbs w = filter (is_fb_composed w) (fb_ids t)"
    "set (fb_ids w) = {f \<in> set (fb_ids t). \<not> is_fb_composed w f \<or> f = r}"
    "mComposerFbs w \<noteq> [] \<Longrightarrow> is_fb_composed w r"
    "f \<in> set (fb_ids t) \<Longrightarrow> is_fb_composed t f \<Longrightarrow> is_fb_composed w f"
  using assms unfolding osd_split_def by blast+

lemma mset_primaryFirst [simp]: "mset (primaryFirst ps) = mset ps"
proof (cases "find (\<lambda>i. plane_primary (ps ! i)) [1..<length ps]")
  case None
  then show ?thesis by (simp add: primaryFirst_def)
next
  case (Some i)
  then have "i < length ps" "0 < length ps" by (auto simp: find_Some_iff)
  then show ?thesis using Some mset_swap [of i ps 0] by (simp add: primaryFirst_def)
qed

lemma length_primaryFirst [simp]: "length (primaryFirst ps) = length ps"
  by (simp add: primaryFirst_def split: option.split)

lemma osd_pairs_map [simp]:
  "length (osd_pairs s ps fs) = length fs" "map pair_fb (osd_pairs s ps fs) = fs"
  by (simp_all add: osd_pairs_def o_def split_def)

lemma osd_pairs_nth: "i < length fs \<Longrightarrow> osd_pairs s ps fs ! i =
    \<lparr>din = i, presentZorder = zorder_of s (fs ! i), pair_fb = fs ! i, pair_plane = ps ! i\<rparr>"
  by (simp add: osd_pairs_def nth_enumerate_eq)

lemma osd_pairs_planes:
  "length fs \<le> length ps \<Longrightarrow> map pair_plane (osd_pairs s ps fs) = take (length fs) ps"
  by (rule nth_equalityI) (simp_all add: osd_pairs_nth)

section \<open>What is left of the decision once the compose range is filled\<close>

definition osd_finished :: "'a osd_state_scheme \<Rightarrow> 'a osd_state_scheme \<Rightarrow> fbid
    \<Rightarrow> 'a osd_state_scheme \<Rightarrow> bool" where
  "osd_finished t w r y \<longleftrightarrow>
     mComposerFbs y = mComposerFbs w
     \<and> is_fb_composed y = is_fb_composed w \<and> mOverlayFbs y = mOverlayFbs w
     \<and> mDisplayPairs y = mDisplayPairs t
         @ osd_pairs w (primaryFirst (mOsdPlanes t)) (osd_order r (fb_ids w))
     \<and> mOsdPlanes y = drop (length (mFramebuffers w)) (primaryFirst (mOsdPlanes t))
     \<and> mOtherPlanes y = mOtherPlanes t \<and> osd_state.more y = osd_state.more t
     \<and> plat y = plat t \<and> only_types (fbs t) (fbs y)
     \<and> (\<forall>d. Some d \<noteq> mComposer y \<and> Some d \<noteq> mClientComposer t \<longrightarrow> composers y d = composers t d)
     \<and> (\<forall>c. mComposer y = Some c \<and> composer_getType (composers y c) = MESON_COMPOSITION_CLIENT
          \<longrightarrow> composer_getOutput (composers y c) 0 = composer_getOutput (composers t c) 0)
     \<and> (\<forall>c. mComposer y = Some c \<and> composer_getType (composers y c) = MESON_COMPOSITION_DI
          \<longrightarrow> composer_getOutput (composers y c) 0 = Inr None)
     \<and> (\<forall>f. zorder_of y f = zorder_of t f) \<and> mCrtc y = mCrtc t \<and> quiet t y
     \<and> (\<forall>f. ctype_of y f = (if f \<in> set (mComposerFbs w) then composer_getType (composers y (the (mComposer y)))
          else if f \<in> set (fb_ids w) \<and> ctype_of t f = MESON_COMPOSITION_UNDETERMINED
          then MESON_COMPOSITION_PLANE_OSD else ctype_of t f))
     \<and> (if mComposerFbs w = [] then mComposer y = None
        else (\<exists>c. mComposer y = Some c \<and> composer_valid (composers y c) 0
          \<and> (Some c = mClientComposer t \<or> c \<in> set (mOtherComposers t))
          \<and> composer_getType (composers y c) = composer_getType (composers t c)
          \<and> (mHaveClient t \<longrightarrow> composer_getType (composers y c) = MESON_COMPOSITION_CLIENT)
          \<and> last (events y) = ComposerAddInputs c (mComposerFbs w) (mOverlayFbs w) 0))"

lemma osd_frame_rest: "osd_frame t w \<Longrightarrow> mOtherPlanes w = mOtherPlanes t \<and> osd_state.more w = osd_state.more t"
  unfolding osd_frame_def by (elim exE) simp

text \<open>The closed form of the pairs, with the planes they take gone.\<close>

definition osd_placed :: "'a osd_state_scheme \<Rightarrow> fbid \<Rightarrow> 'a osd_state_scheme" where
  "osd_placed v r = (osd_done v (osd_order r (fb_ids v)) (primaryFirst (mOsdPlanes v)))
     \<lparr>mOsdPlanes := drop (length (mFramebuffers v)) (primaryFirst (mOsdPlanes v))\<rparr>"

text \<open>Nothing to compose: \<open>v\<close> may differ from \<open>w\<close> in the state of the composers.\<close>

lemma osd_done_planes_mset:
  assumes "length fs \<le> length ps" and "mset ps = mset (mOsdPlanes s)"
  shows "mset (map pair_plane (mDisplayPairs (osd_done s fs ps))) + mset (drop (length fs) ps)
    = mset (map pair_plane (mDisplayPairs s)) + mset (mOsdPlanes s)"
proof -
  have "mset (mOsdPlanes s) = mset (take (length fs) ps) + mset (drop (length fs) ps)"
    by (metis append_take_drop_id assms(2) mset_append)
  then show ?thesis by (simp add: osd_done_def osd_pairs_planes [OF assms(1)])
qed

lemma placed_finished:
  assumes split: "osd_split t w r" and none: "mComposer t = None" and empty: "mComposerFbs w = []"
    and v: "v = w\<lparr>composers := cs, events := events w @ es\<rparr>" and es: "planes_set es = []"
    and client: "\<forall>d. Some d \<noteq> mClientComposer t \<longrightarrow> cs d = composers t d"
  shows "osd_finished t w r (osd_placed v r)"
proof -
  note w = osd_splitD [OF split]
  note [simp] = osd_frame_fields [OF w(1)] osd_frame_rest [OF w(1)]
  have d: "distinct (fb_ids w)" using fbs_wf_distinct [OF w(2)] .
  have fs: "set (osd_order r (fb_ids w)) = set (fb_ids w)" using osd_order_props [OF d w(4)] by simp
  have ids: "fb_ids v = fb_ids w" by (simp add: v fb_ids_def)
  have "quiet t (osd_placed v r)"
    by (rule quietI [OF _ es]) (simp add: osd_placed_def osd_done_def v)
  then show ?thesis
    using none empty fs client mark_types_only
    by (simp add: osd_finished_def osd_placed_def osd_done_def is_fb_composed_def [abs_def] ids
        mark_types_type osd_pairs_def) (simp add: v)
qed

lemma started_finished:
  assumes split: "osd_split t w r" and chosen: "chosen w c" and ne: "mComposerFbs w \<noteq> []"
    and v: "v = w\<lparr>mComposer := Some c,
      fbs := set_comps (mComposerFbs w) (composer_getType (composers w c)) (fbs w)\<rparr>"
  shows "okE (startComposer (osd_placed v r)) (osd_finished t w r)"
proof -
  note w = osd_splitD [OF split]
  note [simp] = osd_frame_fields [OF w(1)] osd_frame_rest [OF w(1)]
  let ?P = "primaryFirst (mOsdPlanes t)" and ?fs = "osd_order r (fb_ids w)"
  define y where "y = osd_placed v r"
  have d: "distinct (fb_ids w)" using fbs_wf_distinct [OF w(2)] .
  have fs: "set ?fs = set (fb_ids w)" using osd_order_props [OF d w(4)] by simp
  have ids: "fb_ids v = fb_ids w" by (simp add: v fb_ids_def)
  have yc: "mComposer y = Some c" "composers y c = composers w c"
    by (simp_all add: y_def osd_placed_def osd_done_def v)
  obtain c' where c': "composer_valid c' 0" "composer_getType c' = composer_getType (composers w c)"
      "composer_getType c' = MESON_COMPOSITION_CLIENT
        \<longrightarrow> composer_getOutput c' 0 = composer_getOutput (composers w c) 0"
      "composer_getType c' = MESON_COMPOSITION_DI \<longrightarrow> composer_getOutput c' 0 = Inr None"
    and start: "startComposer y = Inr (y\<lparr>composers := (composers y)(c := c'), events := events y
      @ [ComposerPrepare c, ComposerAddInputs c (mComposerFbs y) (mOverlayFbs y) 0]\<rparr>)"
    using startComposer_started [OF yc(1)] chosen yc(2) by (auto simp: chosen_def)
  define z where "z = y\<lparr>composers := (composers y)(c := c'), events := events y
      @ [ComposerPrepare c, ComposerAddInputs c (mComposerFbs y) (mOverlayFbs y) 0]\<rparr>"
  have fields: "mComposerFbs z = mComposerFbs w" "mOverlayFbs z = mOverlayFbs w"
    "mDisplayPairs z = mDisplayPairs t @ osd_pairs w ?P ?fs"
    "mOsdPlanes z = drop (length (mFramebuffers w)) ?P" "mComposer z = Some c" "mCrtc z = mCrtc t"
    "mOtherPlanes z = mOtherPlanes t" "osd_state.more z = osd_state.more t"
    "quiet t z" "composers z c = c'"
    "last (events z) = ComposerAddInputs c (mComposerFbs w) (mOverlayFbs w) 0"
    by (simp_all add: z_def y_def osd_placed_def osd_done_def v osd_pairs_def quiet_def ids [unfolded v])
  have zo: "zorder_of z f = zorder_of t f" for f
    by (simp add: z_def y_def osd_placed_def osd_done_def v)
  have comp: "is_fb_composed z = is_fb_composed w"
    by (rule ext) (simp add: is_fb_composed_def zo, simp add: z_def y_def osd_placed_def osd_done_def v)
  have type: "ctype_of z f = (if f \<in> set (mComposerFbs w) then composer_getType c'
      else if f \<in> set (fb_ids w) \<and> ctype_of t f = MESON_COMPOSITION_UNDETERMINED
      then MESON_COMPOSITION_PLANE_OSD else ctype_of t f)" for f
    using composer_valid_type [OF c'(1)] fs c'(2)
    by (auto simp: z_def y_def osd_placed_def osd_done_def ids v mark_types_type isComposerComposition_def)
  have only: "only_types (fbs t) (fbs z)"
  proof -
    have "fbs z = mark_types ?fs (set_comps (mComposerFbs w) (composer_getType (composers w c)) (fbs t))"
      by (simp add: z_def y_def osd_placed_def osd_done_def v ids [unfolded v])
    then show ?thesis using only_types_trans [OF only_types_set_comps [OF only_types_refl] mark_types_only] by simp
  qed
  have kept: "\<forall>d. Some d \<noteq> mComposer z \<and> Some d \<noteq> mClientComposer t \<longrightarrow> composers z d = composers t d"
    and pl: "plat z = plat t"
    by (simp_all add: z_def y_def osd_placed_def osd_done_def v)
  have client: "mHaveClient t \<longrightarrow> composer_getType c' = MESON_COMPOSITION_CLIENT"
    "Some c = mClientComposer t \<or> c \<in> set (mOtherComposers t)"
    using chosen c'(2) by (simp_all add: chosen_def)
  have "osd_finished t w r z"
    unfolding osd_finished_def comp option.sel type zo
    using ne c' client fields type only kept pl by simp
  then show ?thesis unfolding y_def [symmetric] start okE_Inr z_def .
qed

section \<open>The outcome\<close>

text \<open>\<open>b\<close> is the state in which the osd framebuffers are picked: all their types are known.\<close>

definition ui_of :: "'a osd_state_scheme \<Rightarrow> fbid list" where
  "ui_of b = filter (\<lambda>f. is_ui (ctype_of b f)) (fb_ids b)"

definition osd_added :: "'a osd_state_scheme \<Rightarrow> 'a osd_state_scheme \<Rightarrow> display_pair list" where
  "osd_added b t = drop (length (mDisplayPairs b)) (mDisplayPairs t)"

definition osd_types :: "'a osd_state_scheme \<Rightarrow> 'a osd_state_scheme \<Rightarrow> bool" where
  "osd_types b t \<longleftrightarrow> (\<forall>f. ctype_of t f =
     (if f \<in> set (mComposerFbs t) then composer_getType (composers t (the (mComposer t)))
      else if f \<in> set (ui_of b) then MESON_COMPOSITION_PLANE_OSD
      else ctype_of b f))"

definition osd_composer :: "'a osd_state_scheme \<Rightarrow> 'a osd_state_scheme \<Rightarrow> bool" where
  "osd_composer b t \<longleftrightarrow>
     mComposerFbs t = filter (is_fb_composed t) (ui_of b)
     \<and> (\<forall>f \<in> set (ui_of b). needs_composer b f \<longrightarrow> f \<in> set (mComposerFbs t))
     \<and> (if mComposerFbs t = [] then mComposer t = None
        else (\<exists>c. mComposer t = Some c \<and> composer_valid (composers t c) 0
          \<and> (Some c = mClientComposer b \<or> c \<in> set (mOtherComposers b))
          \<and> composer_getType (composers t c) = composer_getType (composers b c)
          \<and> ((\<exists>f \<in> set (fb_ids b). ctype_of b f = MESON_COMPOSITION_CLIENT)
               \<longrightarrow> composer_getType (composers t c) = MESON_COMPOSITION_CLIENT)
          \<and> last (events t) = ComposerAddInputs c (mComposerFbs t) (mOverlayFbs t) 0))"

definition osd_planes :: "'a osd_state_scheme \<Rightarrow> 'a osd_state_scheme \<Rightarrow> bool" where
  "osd_planes b t \<longleftrightarrow> mDisplayPairs t = mDisplayPairs b @ osd_added b t
     \<and> distinct (map pair_fb (osd_added b t))
     \<and> set (map pair_fb (osd_added b t)) \<subseteq> set (ui_of b)
     \<and> (\<forall>f \<in> set (ui_of b). f \<notin> set (mComposerFbs t) \<longrightarrow> f \<in> set (map pair_fb (osd_added b t)))
     \<and> (mComposerFbs t \<noteq> [] \<longrightarrow>
         (\<exists>!p. p \<in> set (osd_added b t) \<and> pair_fb p \<in> set (mComposerFbs t)))
     \<and> length (osd_added b t) \<le> length (mOsdPlanes b)
     \<and> (\<forall>i < length (osd_added b t). din (osd_added b t ! i) = i
           \<and> pair_plane (osd_added b t ! i) = primaryFirst (mOsdPlanes b) ! i
           \<and> presentZorder (osd_added b t ! i) = zorder_of b (pair_fb (osd_added b t ! i)))
     \<and> mOsdPlanes t = (if osd_added b t = [] then mOsdPlanes b
         else drop (length (osd_added b t)) (primaryFirst (mOsdPlanes b)))
     \<and> mOtherPlanes t = mOtherPlanes b \<and> osd_state.more t = osd_state.more b"

definition osd_decided :: "'a osd_state_scheme \<Rightarrow> 'a osd_state_scheme \<Rightarrow> bool" where
  "osd_decided b t \<longleftrightarrow> osd_types b t \<and> osd_composer b t \<and> osd_planes b t
     \<and> plat t = plat b \<and> only_types (fbs b) (fbs t)
     \<and> (\<forall>d. Some d \<noteq> mComposer t \<and> Some d \<noteq> mClientComposer b \<longrightarrow> composers t d = composers b d)
     \<and> (\<forall>c. mComposer t = Some c \<and> composer_getType (composers t c) = MESON_COMPOSITION_CLIENT
          \<longrightarrow> composer_getOutput (composers t c) 0 = composer_getOutput (composers b c) 0)
     \<and> (\<forall>c. mComposer t = Some c \<and> composer_getType (composers t c) = MESON_COMPOSITION_DI
          \<longrightarrow> composer_getOutput (composers t c) 0 = Inr None)
     \<and> mCrtc t = mCrtc b \<and> quiet b t"

lemma ui_of_pick: "pick_post b t \<Longrightarrow> fb_ids t = ui_of b"
  by (simp add: pick_post_def ui_of_def fb_ids_def filter_map o_def)

lemma osd_finished_types:
  assumes pick: "pick_post b t" and split: "osd_split t w r" and fin: "osd_finished t w r y"
  shows "osd_types b y"
proof -
  note w = osd_splitD [OF split] and ui = ui_of_pick [OF pick]
  have tt: "ctype_of t f = ctype_of b f" for f
    using pick_frame_fields(1) [of b t] pick by (simp add: pick_post_def)
  have cs: "mComposerFbs y = mComposerFbs w" using fin by (simp add: osd_finished_def)
  have ty: "ctype_of y f = (if f \<in> set (mComposerFbs w) then composer_getType (composers y (the (mComposer y)))
      else if f \<in> set (fb_ids w) \<and> ctype_of t f = MESON_COMPOSITION_UNDETERMINED
      then MESON_COMPOSITION_PLANE_OSD else ctype_of t f)" for f
    using fin by (simp add: osd_finished_def)
  have und: "f \<in> set (fb_ids w) \<and> ctype_of t f = MESON_COMPOSITION_UNDETERMINED \<longleftrightarrow> f \<in> set (ui_of b)"
    if "f \<notin> set (mComposerFbs w)" for f
  proof
    assume "f \<in> set (fb_ids w) \<and> ctype_of t f = MESON_COMPOSITION_UNDETERMINED"
    then show "f \<in> set (ui_of b)" using w(7) ui by auto
  next
    assume f: "f \<in> set (ui_of b)"
    then have nc: "\<not> is_fb_composed w f" using that w(6) ui by auto
    with f w(9) ui have "\<not> is_fb_composed t f" by auto
    with pick f ui have "\<not> needs_composer b f" by (auto simp: pick_post_def)
    moreover have "is_ui (ctype_of b f)" using f by (simp add: ui_of_def)
    ultimately have "ctype_of t f = MESON_COMPOSITION_UNDETERMINED"
      by (auto simp: is_ui_def needs_composer_def tt)
    with f nc ui w(7) show "f \<in> set (fb_ids w) \<and> ctype_of t f = MESON_COMPOSITION_UNDETERMINED" by auto
  qed
  show ?thesis unfolding osd_types_def cs ty using und tt by auto
qed

lemma osd_finished_composer:
  assumes pick: "pick_post b t" and split: "osd_split t w r" and fin: "osd_finished t w r y"
  shows "osd_composer b y"
proof -
  note w = osd_splitD [OF split] and ui = ui_of_pick [OF pick]
  have cs: "mComposerFbs y = mComposerFbs w" "is_fb_composed y = is_fb_composed w"
    "mOverlayFbs y = mOverlayFbs w" using fin by (simp_all add: osd_finished_def)
  have need: "f \<in> set (mComposerFbs w)" if "f \<in> set (ui_of b)" "needs_composer b f" for f
  proof -
    have "is_fb_composed t f" using pick that ui by (simp add: pick_post_def)
    then show ?thesis using w(6,9) that ui by simp
  qed
  have client: "mHaveClient t" if "\<exists>f \<in> set (fb_ids b). ctype_of b f = MESON_COMPOSITION_CLIENT"
    using pick that by (simp add: pick_post_def)
  have "if mComposerFbs w = [] then mComposer y = None
        else (\<exists>c. mComposer y = Some c \<and> composer_valid (composers y c) 0
          \<and> (Some c = mClientComposer t \<or> c \<in> set (mOtherComposers t))
          \<and> composer_getType (composers y c) = composer_getType (composers t c)
          \<and> (mHaveClient t \<longrightarrow> composer_getType (composers y c) = MESON_COMPOSITION_CLIENT)
          \<and> last (events y) = ComposerAddInputs c (mComposerFbs w) (mOverlayFbs w) 0)"
    using fin unfolding osd_finished_def by (elim conjE)
  moreover have "mClientComposer t = mClientComposer b" "mOtherComposers t = mOtherComposers b"
    "composers t = composers b"
    using pick_frame_fields [of b t] pick by (simp_all add: pick_post_def)
  ultimately show ?thesis
    using need client w(6) unfolding osd_composer_def cs ui by (auto split: if_splits)
qed

lemma osd_finished_planes:
  assumes pick: "pick_post b t" and split: "osd_split t w r" and fin: "osd_finished t w r y"
  shows "osd_planes b y"
proof -
  note w = osd_splitD [OF split] and ui = ui_of_pick [OF pick]
  have pf: "pick_frame b t" using pick by (simp add: pick_post_def)
  note [simp] = pick_frame_fields [OF pf] osd_frame_fields [OF w(1)]
  let ?P = "primaryFirst (mOsdPlanes b)" and ?fs = "osd_order r (fb_ids w)"
  have more: "mOtherPlanes t = mOtherPlanes b" "osd_state.more t = osd_state.more b"
    using pf unfolding pick_frame_def by (elim exE conjE; simp)+
  have y: "mComposerFbs y = mComposerFbs w" "mOtherPlanes y = mOtherPlanes b" "osd_state.more y = osd_state.more b"
    "mDisplayPairs y = mDisplayPairs b @ osd_pairs w ?P ?fs"
    "mOsdPlanes y = drop (length (mFramebuffers w)) ?P"
    using fin more by (simp_all add: osd_finished_def)
  have part: "osd_added b y = osd_pairs w ?P ?fs" by (simp add: osd_added_def y)
  have d: "distinct (fb_ids w)" using fbs_wf_distinct [OF w(2)] .
  note fs = osd_order_props [OF d w(4)]
  have cs: "mComposerFbs w = filter (is_fb_composed w) (ui_of b)" using w(6) ui by simp
  have one: "\<exists>!p. p \<in> set (osd_pairs w ?P ?fs) \<and> pair_fb p \<in> set (mComposerFbs w)"
    if ne: "mComposerFbs w \<noteq> []"
  proof -
    have only: "f = r" if "f \<in> set ?fs" "f \<in> set (mComposerFbs w)" for f
      using that w(7) fs(1) cs by auto
    have r: "r \<in> set ?fs" "r \<in> set (mComposerFbs w)"
      using w(4,7) w(8) [OF ne] fs(1) cs ui by auto
    have dm: "distinct (map pair_fb (osd_pairs w ?P ?fs))" using fs(2) by simp
    then have inj: "inj_on pair_fb (set (osd_pairs w ?P ?fs))"
      unfolding distinct_map by (rule conjunct2)
    have im: "pair_fb ` set (osd_pairs w ?P ?fs) = set ?fs" by (metis list.set_map osd_pairs_map(2))
    then obtain p where p: "p \<in> set (osd_pairs w ?P ?fs)" "pair_fb p = r" using r(1) by (metis imageE)
    show ?thesis
    proof (rule ex1I [of _ p])
      fix q assume "q \<in> set (osd_pairs w ?P ?fs) \<and> pair_fb q \<in> set (mComposerFbs w)"
      then show "q = p" using only im p inj by (metis imageI inj_onD)
    qed (use p r in simp)
  qed
  have rest: "f \<in> set ?fs" if "f \<in> set (ui_of b)" "f \<notin> set (mComposerFbs w)" for f
    using that w(7) fs(1) cs ui by auto
  have sub: "set ?fs \<subseteq> set (ui_of b)" using w(7) fs(1) ui by auto
  have ne: "osd_pairs w ?P ?fs \<noteq> []" by (simp add: osd_pairs_def osd_order_def)
  show ?thesis
    unfolding osd_planes_def part y
    using one rest sub fs w(5) ne by (simp add: osd_pairs_nth)
qed

lemma osd_finished_decided:
  assumes "pick_post b t" and "osd_split t w r" and fin: "osd_finished t w r y"
  shows "osd_decided b y"
proof -
  have "pick_frame b t" using assms(1) by (simp add: pick_post_def)
  then have "only_types (fbs b) (fbs y)" "mCrtc y = mCrtc b" "plat y = plat b"
    "\<forall>d. Some d \<noteq> mComposer y \<and> Some d \<noteq> mClientComposer b \<longrightarrow> composers y d = composers b d"
    "\<forall>c. mComposer y = Some c \<and> composer_getType (composers y c) = MESON_COMPOSITION_CLIENT
       \<longrightarrow> composer_getOutput (composers y c) 0 = composer_getOutput (composers b c) 0"
    "\<forall>c. mComposer y = Some c \<and> composer_getType (composers y c) = MESON_COMPOSITION_DI
       \<longrightarrow> composer_getOutput (composers y c) 0 = Inr None"
    using fin by (simp_all add: osd_finished_def pick_frame_fields)
  moreover have "quiet b y"
    using assms(1) fin quiet_trans [of b t y] by (simp add: pick_post_def osd_finished_def)
  ultimately show ?thesis
    using osd_finished_types [OF assms] osd_finished_composer [OF assms] osd_finished_planes [OF assms]
    by (simp add: osd_decided_def)
qed

text \<open>Nothing left to show on the osd planes.\<close>

lemma nothing_decided:
  assumes pick: "pick_post b t" and empty: "mFramebuffers t = []"
    and none: "mComposer b = None" and cs: "mComposerFbs b = []"
    and y: "y = t\<lparr>mOverlayFbs := ov, composers := c, events := events t @ es\<rparr>" and es: "planes_set es = []"
    and client: "\<forall>d. Some d \<noteq> mClientComposer b \<longrightarrow> c d = composers b d"
  shows "osd_decided b y"
proof -
  have pf: "pick_frame b t" using pick by (simp add: pick_post_def)
  note [simp] = pick_frame_fields [OF pf]
  have more: "mOtherPlanes t = mOtherPlanes b" "osd_state.more t = osd_state.more b"
    using pf unfolding pick_frame_def by (elim exE conjE; simp)+
  have ui: "ui_of b = []" using ui_of_pick [OF pick] empty by (simp add: fb_ids_def)
  have "quiet t y" by (rule quietI [OF _ es]) (simp add: y)
  then have "quiet b y" using pick quiet_trans by (auto simp: pick_post_def)
  then show ?thesis
    using more ui none cs client by (simp add: osd_decided_def osd_types_def osd_composer_def osd_planes_def
        osd_added_def y)
qed

text \<open>No plane is lost: those of the pairs and those that are left are the planes of before.\<close>

lemma osd_planes_mset:
  assumes "osd_planes b t"
  shows "mset (map pair_plane (mDisplayPairs t)) + mset (mOsdPlanes t)
    = mset (map pair_plane (mDisplayPairs b)) + mset (mOsdPlanes b)"
proof (cases "osd_added b t = []")
  case True
  then show ?thesis using assms by (simp add: osd_planes_def)
next
  case False
  let ?P = "primaryFirst (mOsdPlanes b)" and ?n = "length (osd_added b t)"
  have "map pair_plane (osd_added b t) = take ?n ?P"
    using assms by (intro nth_equalityI) (simp_all add: osd_planes_def)
  then have "mset (map pair_plane (osd_added b t)) + mset (drop ?n ?P) = mset (mOsdPlanes b)"
    by (metis append_take_drop_id mset_append mset_primaryFirst)
  moreover have "mDisplayPairs t = mDisplayPairs b @ osd_added b t" "mOsdPlanes t = drop ?n ?P"
    using assms False by (simp_all add: osd_planes_def)
  ultimately show ?thesis by (metis (no_types, lifting) map_append mset_append union_assoc)
qed

end
