(* ===== verification/MultiplanesDecide.thy ===== *)
theory MultiplanesDecide
  imports OsdDecide
begin

text \<open>
  \<open>MultiplanesComposition::decideComposition\<close> as a whole. \<open>mp_ready\<close> is the state \<open>setup\<close>
  leaves, \<open>decided\<close> what a frame has to come to, \<open>osd_decided\<close> spelt out for this strategy.
  \<open>decide_decided\<close> proves that the decision never faults and reaches such a state.
\<close>

section \<open>The states a frame starts from\<close>

definition mp_ready :: "mp_state \<Rightarrow> bool" where
  "mp_ready s \<longleftrightarrow> fbs_wf s \<and> range_unset s \<and> mDisplayRefFb s = None \<and> mOverlayFbs s = []
     \<and> mComposerFbs s = [] \<and> mComposer s = None \<and> mHDRMode s \<and> \<not> mInsideVideoFbsFlag s
     \<and> dummy_ready s \<and> composers_ready s \<and> mDisplayPairs s = []
     \<and> mOsdPlanes s \<noteq> [] \<and> length (mOsdPlanes s) \<le> OSD_PLANE_NUM_MAX
     \<and> int (length (mFramebuffers s)) < 2 ^ 31"

text \<open>The state in which the osd framebuffers are picked.\<close>

definition typed :: "mp_state \<Rightarrow> mp_state" where
  "typed s = applyCompositionFlags (handleVideoComposition s)"

lemma typed_frame: "video_frame s (typed s)"
  unfolding typed_def
  by (rule video_frame_trans [OF handleVideoComposition_frame applyCompositionFlags_frame])

lemma video_frame_fields:
  assumes "video_frame s t"
  shows "plat t = plat s" "composers t = composers s" "mFramebuffers t = mFramebuffers s"
    "fb_ids t = fb_ids s" "mOsdPlanes t = mOsdPlanes s" "mHDRMode t = mHDRMode s"
    "mDisplayRefFb t = mDisplayRefFb s" "mComposer t = mComposer s" "events t = events s"
    "mComposerFbs t = mComposerFbs s" "mOverlayFbs t = mOverlayFbs s"
    "mClientComposer t = mClientComposer s" "mOtherComposers t = mOtherComposers s"
    "mInsideVideoFbsFlag t = mInsideVideoFbsFlag s" "mDummyComposer t = mDummyComposer s"
    "range_unset t = range_unset s" "zorder_of t f = zorder_of s f" "all_planes t = all_planes s"
    "mHaveClient t = mHaveClient s" "mCrtc t = mCrtc s" "mSkipValidate t = mSkipValidate s"
  using assms unfolding video_frame_def fb_ids_def range_unset_def
  by (elim exE conjE; simp add: only_types_fields)+

lemma video_frame_wf: "video_frame s t \<Longrightarrow> fbs_wf t = fbs_wf s"
  by (simp add: fbs_wf_def video_frame_fields)

lemma typed_ready:
  assumes "mp_ready s"
  shows "fbs_wf (typed s)" "range_unset (typed s)" "mDisplayRefFb (typed s) = None"
    "mOverlayFbs (typed s) = []" "mComposerFbs (typed s) = []" "mComposer (typed s) = None"
    "mHDRMode (typed s)" "\<not> mInsideVideoFbsFlag (typed s)" "dummy_ready (typed s)"
    "composers_ready (typed s)" "mOsdPlanes (typed s) \<noteq> []"
    "length (mOsdPlanes (typed s)) \<le> 3" "int (length (mFramebuffers (typed s))) < 2 ^ 31"
  using assms
  by (simp_all add: mp_ready_def video_frame_wf [OF typed_frame] dummy_ready_def composers_ready_def
      OSD_PLANE_NUM_MAX_def video_frame_fields [OF typed_frame])


section \<open>The decision\<close>

text \<open>
  \<open>decided s t\<close>: \<open>t\<close> is the outcome for the frame \<open>s\<close>. The ui framebuffers are those that
  are undetermined or client after the video planes and the flags were dealt with.
\<close>

definition ui_fbs :: "mp_state \<Rightarrow> fbid list" where
  "ui_fbs s = filter (\<lambda>f. is_ui (ctype_of (typed s) f)) (fb_ids s)"

definition osd_part :: "mp_state \<Rightarrow> mp_state \<Rightarrow> display_pair list" where
  "osd_part s t = drop (length (mDisplayPairs (typed s))) (mDisplayPairs t)"

definition decided_types :: "mp_state \<Rightarrow> mp_state \<Rightarrow> bool" where
  "decided_types s t \<longleftrightarrow> (\<forall>f \<in> set (fb_ids s). ctype_of t f =
     (if f \<in> set (mComposerFbs t) then composer_getType (composers t (the (mComposer t)))
      else if f \<in> set (ui_fbs s) then MESON_COMPOSITION_PLANE_OSD
      else ctype_of (typed s) f))"

definition decided_composer :: "mp_state \<Rightarrow> mp_state \<Rightarrow> bool" where
  "decided_composer s t \<longleftrightarrow>
     mComposerFbs t = filter (is_fb_composed t) (ui_fbs s)
     \<and> (\<forall>f \<in> set (ui_fbs s). needs_composer (typed s) f \<longrightarrow> f \<in> set (mComposerFbs t))
     \<and> (if mComposerFbs t = [] then mComposer t = None
        else (\<exists>c. mComposer t = Some c \<and> composer_valid (composers t c) 0
          \<and> (Some c = mClientComposer s \<or> c \<in> set (mOtherComposers s))
          \<and> composer_getType (composers t c) = composer_getType (composers s c)
          \<and> ((\<exists>f \<in> set (fb_ids s). ctype_of (typed s) f = MESON_COMPOSITION_CLIENT)
               \<longrightarrow> composer_getType (composers t c) = MESON_COMPOSITION_CLIENT)
          \<and> last (events t) = ComposerAddInputs c (mComposerFbs t) (mOverlayFbs t) 0))"

definition decided_planes :: "mp_state \<Rightarrow> mp_state \<Rightarrow> bool" where
  "decided_planes s t \<longleftrightarrow> all_planes t = all_planes s
     \<and> mDisplayPairs t = mDisplayPairs (typed s) @ osd_part s t
     \<and> distinct (map pair_fb (osd_part s t))
     \<and> set (map pair_fb (osd_part s t)) \<subseteq> set (ui_fbs s)
     \<and> (\<forall>f \<in> set (ui_fbs s). f \<notin> set (mComposerFbs t) \<longrightarrow> f \<in> set (map pair_fb (osd_part s t)))
     \<and> (mComposerFbs t \<noteq> [] \<longrightarrow>
         (\<exists>!p. p \<in> set (osd_part s t) \<and> pair_fb p \<in> set (mComposerFbs t)))
     \<and> length (osd_part s t) \<le> length (mOsdPlanes s)
     \<and> (\<forall>i < length (osd_part s t). din (osd_part s t ! i) = i
           \<and> pair_plane (osd_part s t ! i) = primaryFirst (mOsdPlanes s) ! i
           \<and> presentZorder (osd_part s t ! i) = zorder_of s (pair_fb (osd_part s t ! i)))
     \<and> mOsdPlanes t = (if osd_part s t = [] then mOsdPlanes s
         else drop (length (osd_part s t)) (primaryFirst (mOsdPlanes s)))"

definition composer_picked :: "mp_state \<Rightarrow> bool" where
  "composer_picked t \<longleftrightarrow> (if mComposerFbs t = [] then mComposer t = None else composer_rule t (mComposer t))"

text \<open>The client is forced in this frame: a layer asks for it.\<close>

definition client_forced :: "mp_state \<Rightarrow> bool" where
  "client_forced s \<longleftrightarrow> (\<exists>f \<in> set (fb_ids s). ctype_of (typed s) f = MESON_COMPOSITION_CLIENT)"

definition decided :: "mp_state \<Rightarrow> mp_state \<Rightarrow> bool" where
  "decided s t \<longleftrightarrow> decided_types s t \<and> decided_composer s t \<and> decided_planes s t
     \<and> (\<forall>f. zorder_of t f = zorder_of s f) \<and> mCrtc t = mCrtc s
     \<and> quiet s t \<and> composer_picked t
     \<and> mClientComposer t = mClientComposer s \<and> mOtherComposers t = mOtherComposers s
     \<and> mHaveClient t = (mHaveClient s \<or> client_forced s)
     \<and> (\<forall>c. mComposer t = Some c \<and> composer_getType (composers t c) = MESON_COMPOSITION_DI
          \<longrightarrow> composer_getOutput (composers t c) 0 = Inr None)"


lemma ui_fbs_of: "ui_fbs s = ui_of (typed s)"
  by (simp add: ui_fbs_def ui_of_def video_frame_fields [OF typed_frame])

lemma osd_part_of: "osd_part s t = osd_added (typed s) t"
  by (simp add: osd_part_def osd_added_def)

lemma all_planes_more:
  assumes "mOtherPlanes y = mOtherPlanes s" and more: "osd_state.more y = osd_state.more s"
    and "mset (map pair_plane (mDisplayPairs y)) + mset (mOsdPlanes y)
      = mset (map pair_plane (mDisplayPairs s)) + mset (mOsdPlanes s)"
  shows "all_planes y = all_planes s"
proof -
  have "mLegacyVideoPlane y = mLegacyVideoPlane s" "mLegacyExtVideoPlane y = mLegacyExtVideoPlane s"
    "mHwcVideoPlane y = mHwcVideoPlane s"
    using more by (cases y; cases s; simp)+
  then show ?thesis using assms by (simp add: all_planes_def ac_simps)
qed

text \<open>The composer and the composers it was chosen from.\<close>

definition picked_from :: "mp_state \<Rightarrow> mp_state \<Rightarrow> bool" where
  "picked_from t y \<longleftrightarrow> composer_picked y \<and> mClientComposer y = mClientComposer t
     \<and> mOtherComposers y = mOtherComposers t"

definition picked_same :: "mp_state \<Rightarrow> mp_state \<Rightarrow> bool" where
  "picked_same t y \<longleftrightarrow> picked_from t y \<and> mHaveClient y = mHaveClient t"

lemma startComposer_keeps:
  assumes "startComposer x = Inr y"
  shows "mComposer y = mComposer x" "mHaveClient y = mHaveClient x" "mClientComposer y = mClientComposer x"
    "mOtherComposers y = mOtherComposers x" "mComposerFbs y = mComposerFbs x"
  using assms by (auto simp: startComposer_def call_prepare_def call_addInputs_def log_event_def bindE_Inr_iff
      split: option.splits)

lemma osd_decided_decided:
  assumes od: "osd_decided (typed s) y" and pk: "picked_from (typed s) y"
    and hc: "mHaveClient y = (mHaveClient s \<or> client_forced s)"
  shows "decided s y"
proof -
  note d = od [unfolded osd_decided_def]
  note [simp] = video_frame_fields [OF typed_frame]
  have "decided_types s y" using d by (simp add: decided_types_def osd_types_def ui_fbs_of)
  moreover have "decided_composer s y"
  proof -
    have "decided_composer s y = osd_composer (typed s) y"
      by (simp only: decided_composer_def osd_composer_def ui_fbs_of video_frame_fields [OF typed_frame])
    then show ?thesis using d by blast
  qed
  moreover have "decided_planes s y"
  proof -
    have p: "osd_planes (typed s) y" using d by simp
    have "all_planes y = all_planes (typed s)"
      by (rule all_planes_more [OF _ _ osd_planes_mset [OF p]]) (use p in \<open>simp_all add: osd_planes_def\<close>)
    then show ?thesis using p unfolding decided_planes_def osd_planes_def ui_fbs_of osd_part_of by simp
  qed
  moreover have "zorder_of y f = zorder_of s f" for f
  proof -
    have "zorder_of y f = zorder_of (typed s) f" using d only_types_fields(1) by blast
    then show ?thesis by simp
  qed
  moreover have "mCrtc y = mCrtc s" "quiet s y" using d by (simp_all add: quiet_def)
  moreover have "composer_picked y" "mClientComposer y = mClientComposer s" "mOtherComposers y = mOtherComposers s"
    using pk by (simp_all add: picked_from_def)
  moreover have "\<forall>c. mComposer y = Some c \<and> composer_getType (composers y c) = MESON_COMPOSITION_DI
      \<longrightarrow> composer_getOutput (composers y c) 0 = Inr None" using d by blast
  ultimately show ?thesis using hc by (simp add: decided_def)
qed

lemma finish_none:
  assumes split: "osd_split t w r" and none: "mComposer t = None" and three: "length (mOsdPlanes t) \<le> 3"
    and empty: "mComposerFbs w = []"
  shows "okE (runs [selectComposer, setOsdFbs2PlanePairs, startComposer] w)
    (\<lambda>y. osd_finished t w r y \<and> picked_same t y)"
proof -
  note w = osd_splitD [OF split]
  note [simp] = osd_frame_fields [OF w(1)]
  have d: "distinct (fb_ids w)" using fbs_wf_distinct [OF w(2)] .
  have "selectComposer w = Inr w" using empty by (simp add: selectComposer_def)
  moreover have "setOsdFbs2PlanePairs w = Inr (osd_placed w r)"
    using setOsdFbs2PlanePairs_done [OF d w(3,4)] w(5) three by (simp add: osd_placed_def)
  moreover have "startComposer (osd_placed w r) = Inr (osd_placed w r)"
    using none by (simp add: startComposer_def osd_placed_def osd_done_def)
  moreover have "osd_finished t w r (osd_placed w r)"
    by (rule placed_finished [OF split none empty, where es = "[]" and cs = "composers w"]) simp_all
  moreover have "picked_same t (osd_placed w r)"
    using none empty by (simp add: picked_same_def picked_from_def composer_picked_def osd_placed_def osd_done_def)
  ultimately show ?thesis by simp
qed

lemma finish_some:
  assumes split: "osd_split t w r" and none: "mComposer t = None" and three: "length (mOsdPlanes t) \<le> 3"
    and ready: "composers_ready t" and ne: "mComposerFbs w \<noteq> []"
  shows "okE (runs [selectComposer, setOsdFbs2PlanePairs, startComposer] w)
    (\<lambda>y. osd_finished t w r y \<and> picked_same t y)"
proof -
  note w = osd_splitD [OF split]
  note [simp] = osd_frame_fields [OF w(1)]
  have "composers_ready w" and "mComposer w = None"
    using ready none by (simp_all add: composers_ready_def)
  from selectComposer_chosen [OF this ne] obtain c where chosen: "chosen w c"
    and cr: "composer_rule w (Some c)" and sel: "selectComposer w = Inr (w\<lparr>mComposer := Some c,
      fbs := set_comps (mComposerFbs w) (composer_getType (composers w c)) (fbs w)\<rparr>)" by blast
  define v where "v = w\<lparr>mComposer := Some c,
      fbs := set_comps (mComposerFbs w) (composer_getType (composers w c)) (fbs w)\<rparr>"
  have ids: "fb_ids v = fb_ids w" "mFramebuffers v = mFramebuffers w" "mOsdPlanes v = mOsdPlanes t"
    "mDisplayRefFb v = Some r" using w(3) by (simp_all add: v_def fb_ids_def)
  have "distinct (fb_ids v)" "r \<in> set (fb_ids v)" using fbs_wf_distinct [OF w(2)] w(4) ids by simp_all
  then have "setOsdFbs2PlanePairs v = Inr (osd_placed v r)"
    using setOsdFbs2PlanePairs_done [of v r] w(5) three ids by (simp add: osd_placed_def)
  moreover have "selectComposer w = Inr v" using sel by (simp only: v_def)
  moreover have pk: "picked_same t y" if "startComposer (osd_placed v r) = Inr y" for y
    using startComposer_keeps [OF that] cr ne
    by (simp add: picked_same_def picked_from_def composer_picked_def composer_rule_def osd_placed_def osd_done_def v_def
        split: if_splits) auto
  ultimately show ?thesis
    using started_finished [OF split chosen ne v_def] pk by (auto simp: okE_iff)
qed

lemma pick_length:
  assumes "pick_post (typed s) t" and "mp_ready s"
  shows "int (length (mFramebuffers t)) < 2 ^ 31"
proof -
  have "length (mFramebuffers t) \<le> length (mFramebuffers (typed s))"
    using assms(1) by (simp add: pick_post_def)
  then show ?thesis using typed_ready(13) [OF assms(2)] by linarith
qed

lemma runs_append: "runs (xs @ ys) s = bindE (runs xs s) (runs ys)"
  by (induction xs arbitrary: s) (auto simp: bindE_def split: sum.splits)

lemma osd_stage_some:
  assumes ready: "mp_ready s" and pick: "pick_post (typed s) t" and ne: "mFramebuffers t \<noteq> []"
  shows "okE (bindE (handleOsdComposition t) startComposer) (decided s)"
proof -
  note p = typed_ready [OF ready]
  have pf: "pick_frame (typed s) t" using pick by (simp add: pick_post_def)
  note tf = pick_frame_fields [OF pf]
  have wf: "fbs_wf t" using pick_post_wf [OF pick p(1)] .
  have range: "range_unset t \<or> range_hits t" using pick by (simp add: pick_post_def)
  have ref: "mDisplayRefFb t = None" and planes: "mOsdPlanes t \<noteq> []" and cs: "mComposerFbs t = []"
    and none: "mComposer t = None" and three: "length (mOsdPlanes t) \<le> 3"
    and cready: "composers_ready t"
    using p tf by (simp_all add: composers_ready_def)
  have pf_typed: "picked_from (typed s) y" "mHaveClient y = (mHaveClient s \<or> client_forced s)"
    if "picked_same t y" for y
    using that tf pick
    by (simp_all add: picked_same_def picked_from_def pick_post_def client_forced_def
        video_frame_fields [OF typed_frame])
  have fin: "okE (runs [selectComposer, setOsdFbs2PlanePairs, startComposer] w) (decided s)"
    if split: "osd_split t w r" for w r
  proof (cases "mComposerFbs w = []")
    case True
    from finish_none [OF split none three True] show ?thesis
      by (rule okE_mono) (use osd_decided_decided [OF osd_finished_decided [OF pick split] pf_typed] in blast)
  next
    case False
    from finish_some [OF split none three cready False] show ?thesis
      by (rule okE_mono) (use osd_decided_decided [OF osd_finished_decided [OF pick split] pf_typed] in blast)
  qed
  have "bindE (handleOsdComposition t) startComposer =
      bindE (confirmComposerRange t) (\<lambda>u. bindE (fillComposerFbs (handleVPULimit u))
        (runs [selectComposer, setOsdFbs2PlanePairs, startComposer]))"
    by (auto simp: handleOsdComposition_def bindE_def split: sum.splits)
  also have "okE \<dots> (decided s)"
    unfolding okE_bindE
  proof (rule okE_mono [OF settle_range [OF wf ne range ref planes pick_length [OF pick ready]]])
    fix u assume "range_settled t (handleVPULimit u)"
    from fill_settled [OF wf this cs]
    show "okE (fillComposerFbs (handleVPULimit u))
        (\<lambda>a. okE (runs [selectComposer, setOsdFbs2PlanePairs, startComposer] a) (decided s))"
      by (rule okE_mono) (use fin in blast)
  qed
  finally show ?thesis .
qed

lemma osd_stage_none:
  assumes ready: "mp_ready s" and pick: "pick_post (typed s) t" and empty: "mFramebuffers t = []"
  shows "okE (bindE (handleOsdComposition t) startComposer) (decided s)"
proof -
  note p = typed_ready [OF ready]
  have pf: "pick_frame (typed s) t" using pick by (simp add: pick_post_def)
  note [simp] = pick_frame_fields [OF pf]
  let ?t = "t\<lparr>mOverlayFbs := filter (is_fb_composed t) (mOverlayFbs t)\<rparr>"
  have "range_unset t" using pick empty by (auto simp: pick_post_def range_hits_def fb_ids_def)
  from fillComposerFbs_unset [OF this]
  have eq: "bindE (handleOsdComposition t) startComposer = Inr ?t"
    using empty p
    by (simp add: handleOsdComposition_def confirmComposerRange_def handleVPULimit_def
        selectComposer_def setOsdFbs2PlanePairs_def startComposer_def)
  have "osd_decided (typed s) ?t"
    by (rule nothing_decided [OF pick empty, where ov = "mOverlayFbs ?t" and es = "[]"
          and c = "composers t"]) (use p in simp_all)
  moreover have "picked_from (typed s) ?t" using p by (simp add: picked_from_def composer_picked_def)
  moreover have "mHaveClient ?t = (mHaveClient s \<or> client_forced s)"
    using pick by (simp add: pick_post_def client_forced_def video_frame_fields [OF typed_frame])
  ultimately show ?thesis using eq by (simp add: osd_decided_decided)
qed

lemma decide_empty:
  assumes ready: "mp_ready s" and empty: "mFramebuffers s = []"
  shows "okE (decideComposition s) (decided s)"
proof -
  from ready obtain c where c: "mClientComposer s = Some c" by (auto simp: mp_ready_def composers_ready_def)
  have t: "typed s = s"
    using empty by (simp add: typed_def handleVideoComposition_def applyCompositionFlags_def fb_ids_def)
  have "all_planes (call_prepare c s) = all_planes s"
    by (simp add: all_planes_def call_prepare_def log_event_def)
  moreover have "quiet s (call_prepare c s)"
    by (rule quietI [of _ _ "[ComposerPrepare c]"]) (simp_all add: call_prepare_def log_event_def)
  ultimately have "decided s (call_prepare c s)"
    using ready empty
    by (simp add: decided_def decided_types_def decided_composer_def decided_planes_def ui_fbs_def
        osd_part_def t call_prepare_def log_event_def mp_ready_def fb_ids_def composer_picked_def
        client_forced_def)
  then show ?thesis using c empty by (simp add: decideComposition_def)
qed

lemma decide_decided:
  assumes ready: "mp_ready s"
  shows "okE (decideComposition s) (decided s)"
proof (cases "mFramebuffers s = []")
  case True
  with ready show ?thesis by (rule decide_empty)
next
  case False
  note p = typed_ready [OF ready]
  have step: "okE (bindE (if \<not> mInsideVideoFbsFlag t then handleOsdComposition t
      else handleOsdCompositionWithVideo t) startComposer) (decided s)"
    if pick: "pick_post (typed s) t" for t
  proof -
    have "pick_frame (typed s) t" using pick by (simp add: pick_post_def)
    from pick_frame_fields(12) [OF this] p(8) have "\<not> mInsideVideoFbsFlag t" by simp
    then show ?thesis
      using osd_stage_some [OF ready pick] osd_stage_none [OF ready pick]
      by (cases "mFramebuffers t = []") simp_all
  qed
  from False have "decideComposition s = bindE (pickoutOsdFbs (typed s)) (\<lambda>t.
      bindE (if \<not> mInsideVideoFbsFlag t then handleOsdComposition t
        else handleOsdCompositionWithVideo t) startComposer)"
    by (simp add: decideComposition_def typed_def)
  also have "okE \<dots> (decided s)"
    unfolding okE_bindE [of "pickoutOsdFbs _"]
    by (rule okE_mono [OF pickoutOsdFbs_post [OF p(1,11,2,7,4,9)] step])
  finally show ?thesis .
qed

end
