(* ===== verification/MultiplanesCommit.thy ===== *)
theory MultiplanesCommit
  imports MultiplanesDecide
begin

text \<open>
  \<open>MultiplanesComposition::commit\<close>: \<open>commit_log\<close> is the list of device calls it makes, in
  order, and \<open>commit_log_planes\<close> says that they program every plane of the frame exactly once.
\<close>

section \<open>The planes a commit programs\<close>

text \<open>A composer whose \<open>start\<close> does not stop: a \<open>DiComposer\<close> needs its output.\<close>

definition startable :: "composer \<Rightarrow> bool" where
  "startable c \<longleftrightarrow> composer_valid c 0 \<and>
     (\<forall>impls. c = DiComposer impls \<longrightarrow> outputFb (impls ! 0) \<noteq> None)"

definition commit_ready :: "mp_state \<Rightarrow> bool" where
  "commit_ready s \<longleftrightarrow> mCrtc s \<noteq> None
     \<and> (\<forall>c. mComposer s = Some c \<longrightarrow> startable (composers s c))"

definition fence_only :: "(fbid \<Rightarrow> drm_framebuffer) \<Rightarrow> (fbid \<Rightarrow> drm_framebuffer) \<Rightarrow> bool" where
  "fence_only h h' \<longleftrightarrow> (\<forall>f. \<exists>e. h' f = (h f)\<lparr>mCurReleaseFence := e\<rparr>)"

lemma fence_only_refl: "fence_only h h"
  unfolding fence_only_def
proof
  fix f show "\<exists>e. h f = (h f)\<lparr>mCurReleaseFence := e\<rparr>"
    by (rule exI [of _ "mCurReleaseFence (h f)"]) simp
qed

lemma fence_only_fields:
  assumes "fence_only h h'"
  shows "mZorder (h' f) = mZorder (h f)" "mCompositionType (h' f) = mCompositionType (h f)"
    "mSecure (h' f) = mSecure (h f)" "mDisplayFrame (h' f) = mDisplayFrame (h f)"
    "mSourceCrop (h' f) = mSourceCrop (h f)"
proof -
  from assms obtain e where "h' f = (h f)\<lparr>mCurReleaseFence := e\<rparr>"
    unfolding fence_only_def by blast
  then show "mZorder (h' f) = mZorder (h f)" "mCompositionType (h' f) = mCompositionType (h f)"
    "mSecure (h' f) = mSecure (h f)" "mDisplayFrame (h' f) = mDisplayFrame (h f)"
    "mSourceCrop (h' f) = mSourceCrop (h f)" by simp_all
qed

text \<open>\<open>start\<close> touches release fences and the video composer device only.\<close>

definition started :: "'a osd_state_scheme \<Rightarrow> 'a osd_state_scheme \<Rightarrow> bool" where
  "started s t \<longleftrightarrow> (\<exists>h es. t = s\<lparr>fbs := h, events := events s @ es\<rparr> \<and> planes_set es = []
     \<and> fence_only (fbs s) h)"

lemma fold_fence: "\<exists>e. fold (\<lambda>i h. h(i := (h i)\<lparr>mCurReleaseFence := x\<rparr>)) is h f =
    (h f)\<lparr>mCurReleaseFence := e\<rparr>"
proof (induction "is" arbitrary: h)
  case Nil
  have "h f = (h f)\<lparr>mCurReleaseFence := mCurReleaseFence (h f)\<rparr>" by simp
  then show ?case by (metis fold_Nil id_apply)
next
  case (Cons i "is")
  from Cons [of "h(i := (h i)\<lparr>mCurReleaseFence := x\<rparr>)"] show ?case
    by (cases "f = i") auto
qed

lemma composer_start_ok:
  assumes "startable c"
  shows "\<exists>h' es. composer_start p h c 0 = Inr (h', es) \<and> planes_set es = [] \<and> fence_only h h'"
proof (cases c)
  case (DiComposer impls)
  with assms obtain out where out: "outputFb (impls ! 0) = Some out" and len: "0 < length impls"
    by (auto simp: startable_def)
  define r where "r = di_noProcessors p h (impls ! 0) out"
  have r: "planes_set (snd r) = []" "fence_only h (fst r)"
    by (simp_all add: r_def di_noProcessors_def Let_def fold_fence fence_only_def)
  have "composer_start p h c 0 = Inr (if \<not> processorsMgr (impls ! 0)
       \<or> \<not> vpm_runProcessors p (inputFbs (impls ! 0)) (mZorder (h out)) then r else (h, []))"
    using out len by (simp add: DiComposer di_start_def Let_def r_def)
  moreover obtain h' es where "r = (h', es)" by (cases r)
  ultimately show ?thesis using r fence_only_refl by (auto split: if_splits)
qed (use assms in \<open>auto simp: startable_def fence_only_refl\<close>)

lemma composerOutput_started:
  assumes "\<forall>c. mComposer s = Some c \<longrightarrow> startable (composers s c)"
  shows "okE (composerOutput s) (\<lambda>(out, t). started s t)"
proof (cases "mComposer s")
  case None
  have "started s s" unfolding started_def
    by (intro exI [of _ "fbs s"] exI [of _ "[]"]) (simp add: fence_only_refl)
  with None show ?thesis by (simp add: composerOutput_def)
next
  case (Some c)
  with assms have st: "startable (composers s c)" by simp
  from composer_start_ok [OF this, of "plat s" "fbs s"] obtain h es where
    h: "composer_start (plat s) (fbs s) (composers s c) 0 = Inr (h, es)" "planes_set es = []"
    "fence_only (fbs s) h" by blast
  let ?t = "s\<lparr>fbs := h, events := events s @ [ComposerStart c 0] @ es\<rparr>"
  have "\<exists>out. composer_getOutput (composers s c) 0 = Inr out"
    using st by (cases "composers s c") (auto simp: startable_def di_getOutput_def di_impl_def)
  moreover have "started s ?t" unfolding started_def
    by (intro exI [of _ h] exI [of _ "[ComposerStart c 0] @ es"]) (use h in simp)
  ultimately show ?thesis
    using Some h by (auto simp: composerOutput_def call_start_def)
qed

text \<open>The z-orders of the pairs change, the pairs themselves do not.\<close>

definition pair_keys :: "display_pair list \<Rightarrow> (nat \<times> fbid \<times> hw_display_plane) list" where
  "pair_keys ps = map (\<lambda>p. (din p, pair_fb p, pair_plane p)) ps"

lemma osdLayerZorders_keys:
  "osdLayerZorders iv mx ps = (r, qs) \<Longrightarrow> pair_keys qs = pair_keys ps"
proof (induction iv mx ps arbitrary: r qs rule: osdLayerZorders.induct)
  case (2 iv mx p ps)
  then show ?case
    by (auto simp: pair_keys_def Let_def split: if_splits prod.splits)
qed (simp add: pair_keys_def)

lemma videoLayerZorders_keys: "pair_keys (videoLayerZorders h m n ps) = pair_keys ps"
  by (induction h m n ps rule: videoLayerZorders.induct) (auto simp: pair_keys_def)

lemma handleDisplayLayerZorder_keys:
  "pair_keys (mDisplayPairs (handleDisplayLayerZorder s)) = pair_keys (mDisplayPairs s)"
  using osdLayerZorders_keys
  by (auto simp: handleDisplayLayerZorder_def videoLayerZorders_keys split: prod.splits)

lemma handleOverlayVideoZorder_keys:
  "pair_keys (mDisplayPairs (handleOverlayVideoZorder s)) = pair_keys (mDisplayPairs s)"
  by (simp add: handleOverlayVideoZorder_def pair_keys_def)

lemma pair_keys_planes: "pair_keys ps = pair_keys qs \<Longrightarrow> map pair_plane ps = map pair_plane qs"
  unfolding pair_keys_def by (drule arg_cong [of _ _ "map (snd \<circ> snd)"]) (simp add: o_def)


section \<open>The log of a commit\<close>

definition pair_event :: "fbid option \<Rightarrow> 'a osd_state_scheme \<Rightarrow> display_pair \<Rightarrow> hw_event" where
  "pair_event out s p =
     (let f = pair_fb p; blank = blankFlag s f;
          own = SetPlane (plane_id (pair_plane p)) (Some f) (presentZorder p) blank
      in case (out, mComposer s) of
           (Some outFb, Some c) \<Rightarrow>
             (if ctype_of s f = composer_getType (composers s c)
              then SetPlane (plane_id (pair_plane p)) (Some outFb)
                     (mMaxComposerZorder s + OSD_FB_BEGIN_ZORDER) blank
              else own)
         | _ \<Rightarrow> own)"

definition blank_event :: "hw_display_plane \<Rightarrow> hw_event" where
  "blank_event p = SetPlane (plane_id p) None HWC_PLANE_FAKE_ZORDER BLANK_FOR_NO_CONTENT"

lemma pair_event_plane [simp]: "set_plane (pair_event out s p) = [plane_id (pair_plane p)]"
  by (simp add: pair_event_def Let_def split: option.split)

lemma planes_set_map:
  "planes_set (map (pair_event out s) ps) = map (\<lambda>p. plane_id (pair_plane p)) ps"
  "planes_set (map blank_event qs) = map plane_id qs"
  by (induction ps) (simp_all, induction qs, simp_all add: blank_event_def)

lemma commitPair_event:
  "commitPair out p s = s\<lparr>events := events s @ [pair_event out s p]\<rparr>"
  by (simp add: commitPair_def pair_event_def call_setPlane_def log_event_def Let_def
      split: option.split)

lemma fold_commitPair:
  "fold (commitPair out) ps s = s\<lparr>events := events s @ map (pair_event out s) ps\<rparr>"
proof (induction ps arbitrary: s)
  case (Cons p ps)
  have "pair_event out (s\<lparr>events := es\<rparr>) = pair_event out s" for es
    by (rule ext) (simp add: pair_event_def blankFlag_def Let_def split: option.split)
  with Cons show ?case by (simp add: commitPair_event)
qed simp

lemma fold_blankPlane:
  "fold blankPlane ps s = s\<lparr>events := events s @ map blank_event ps\<rparr>"
  by (induction ps arbitrary: s)
    (simp_all add: blankPlane_def call_setPlane_def log_event_def blank_event_def)

definition unused_planes :: "mp_state \<Rightarrow> hw_display_plane list" where
  "unused_planes s = mOtherPlanes s @ opt_list (mLegacyVideoPlane s)
     @ opt_list (mLegacyExtVideoPlane s) @ opt_list (mHwcVideoPlane s) @ mOsdPlanes s"

lemma blankUnused_log: "blankUnused s =
    s\<lparr>mOtherPlanes := unused_planes s, events := events s @ map blank_event (unused_planes s)\<rparr>"
proof -
  have o: "(case x of None \<Rightarrow> [] | Some p \<Rightarrow> [p]) = opt_list x" for x :: "hw_display_plane option"
    by (cases x) simp_all
  show ?thesis by (simp add: blankUnused_def unused_planes_def fold_blankPlane o)
qed

lemma all_planes_pairs:
  "all_planes s = mset (unused_planes s) + mset (map pair_plane (mDisplayPairs s))"
  by (simp add: all_planes_def unused_planes_def)

lemma updateOsdDisplayFrame_log:
  "\<exists>r z. updateOsdDisplayFrame out s = s\<lparr>mDisplayRefFb := r, mOsdDisplayFrame := z\<rparr>"
proof (cases "mDisplayRefFb s")
  case None
  then have "updateOsdDisplayFrame out s = s\<lparr>mDisplayRefFb := None, mOsdDisplayFrame := mOsdDisplayFrame s\<rparr>"
    by (simp add: updateOsdDisplayFrame_def)
  then show ?thesis by blast
next
  case (Some r)
  then show ?thesis by (auto simp: updateOsdDisplayFrame_def Let_def)
qed

definition zordered :: "mp_state \<Rightarrow> mp_state" where
  "zordered s = (if \<not> mSkipValidate s
     then handleDisplayLayerZorder (handleOverlayVideoZorder s) else s)"

lemma handleDisplayLayerZorder_frame:
  "\<exists>ps. handleDisplayLayerZorder s = s\<lparr>mDisplayPairs := ps\<rparr>"
  by (auto simp: handleDisplayLayerZorder_def split: prod.splits)

lemma zordered_frame:
  "\<exists>ps. zordered s = s\<lparr>mDisplayPairs := ps\<rparr> \<and> map pair_plane ps = map pair_plane (mDisplayPairs s)"
proof (cases "mSkipValidate s")
  case True
  then show ?thesis
    by (intro exI [of _ "mDisplayPairs s"]) (simp add: zordered_def)
next
  case False
  let ?t = "handleOverlayVideoZorder s"
  obtain ps where ps: "handleDisplayLayerZorder ?t = ?t\<lparr>mDisplayPairs := ps\<rparr>"
    using handleDisplayLayerZorder_frame [of ?t] by blast
  then have "mDisplayPairs (handleDisplayLayerZorder ?t) = ps" by simp
  with handleDisplayLayerZorder_keys [of ?t] handleOverlayVideoZorder_keys [of s]
  have "pair_keys ps = pair_keys (mDisplayPairs s)" by simp
  moreover have "zordered s = s\<lparr>mDisplayPairs := ps\<rparr>"
    using False ps by (simp add: zordered_def handleOverlayVideoZorder_def)
  ultimately show ?thesis using pair_keys_planes by blast
qed

text \<open>What \<open>commit\<close> sends, in order.\<close>

definition commit_log :: "mp_state \<Rightarrow> hw_event list \<Rightarrow> bool" where
  "commit_log s es \<longleftrightarrow> (\<exists>es0 out u z. started s u \<and> events u = events s @ es0
     \<and> es = es0 @ map (pair_event out (zordered u)) (mDisplayPairs (zordered u))
          @ map blank_event (unused_planes s) @ [SetDisplayFrame z])"

definition committed :: "mp_state \<Rightarrow> hw_event list \<Rightarrow> mp_state \<Rightarrow> bool" where
  "committed s es t \<longleftrightarrow> commit_log s es \<and> (\<exists>u r z. started s u
     \<and> t = (zordered u)\<lparr>mOtherPlanes := unused_planes s, events := events s @ es,
          mDisplayRefFb := r, mOsdDisplayFrame := z, mSkipValidate := False\<rparr>)"

lemma commit_committed:
  assumes ready: "commit_ready s"
  shows "okE (commit s) (\<lambda>t. \<exists>es. committed s es t)"
proof -
  have step: "okE (let s = (if \<not> mSkipValidate u
              then handleDisplayLayerZorder (handleOverlayVideoZorder u) else u);
         s = fold (commitPair out) (mDisplayPairs s) s;
         s = blankUnused s;
         s = updateOsdDisplayFrame out s
     in bindE (getE NullDeref (mCrtc s)) (\<lambda>_.
        Inr ((log_event (SetDisplayFrame (mOsdDisplayFrame s)) s)\<lparr>mSkipValidate := False\<rparr>)))
     (\<lambda>t. \<exists>es. committed s es t)"
    if st: "started s u" for out u
  proof -
    from st obtain h es0 where u: "u = s\<lparr>fbs := h, events := events s @ es0\<rparr>"
      unfolding started_def by blast
    obtain ps where ps: "zordered u = u\<lparr>mDisplayPairs := ps\<rparr>" using zordered_frame by blast
    let ?es = "es0 @ map (pair_event out (zordered u)) (mDisplayPairs (zordered u))
          @ map blank_event (unused_planes s)"
    define v where "v = blankUnused (fold (commitPair out) (mDisplayPairs (zordered u)) (zordered u))"
    have z: "events (zordered u) = events s @ es0" "mCrtc (zordered u) = mCrtc s"
      "unused_planes (zordered u) = unused_planes s"
      unfolding ps by (simp_all add: u unused_planes_def)
    have "unused_planes (x\<lparr>events := e\<rparr>) = unused_planes x" for x :: mp_state and e
      by (simp add: unused_planes_def)
    with z have v: "v = (zordered u)\<lparr>mOtherPlanes := unused_planes s, events := events s @ ?es\<rparr>"
      by (simp add: v_def fold_commitPair blankUnused_log)
    obtain r zf where w: "updateOsdDisplayFrame out v = v\<lparr>mDisplayRefFb := r, mOsdDisplayFrame := zf\<rparr>"
      using updateOsdDisplayFrame_log by blast
    define t where "t = (zordered u)\<lparr>mOtherPlanes := unused_planes s,
      events := events s @ ?es @ [SetDisplayFrame zf], mDisplayRefFb := r, mOsdDisplayFrame := zf,
      mSkipValidate := False\<rparr>"
    have "commit_log s (?es @ [SetDisplayFrame zf])"
      unfolding commit_log_def using st by (intro exI [of _ es0] exI [of _ out] exI [of _ u] exI [of _ zf])
        (simp add: u)
    then have "committed s (?es @ [SetDisplayFrame zf]) t"
      unfolding committed_def using st
      by (intro conjI exI [of _ u] exI [of _ r] exI [of _ zf]) (simp_all add: t_def)
    moreover have "(log_event (SetDisplayFrame zf) (v\<lparr>mDisplayRefFb := r, mOsdDisplayFrame := zf\<rparr>))
        \<lparr>mSkipValidate := False\<rparr> = t" by (simp add: log_event_def v t_def)
    moreover obtain c where c: "mCrtc s = Some c" using ready by (auto simp: commit_ready_def)
    moreover have "mCrtc v = mCrtc s" using z by (simp add: v)
    ultimately show ?thesis
      by (auto simp: Let_def getE_def w simp flip: zordered_def v_def)
  qed
  have "okE (composerOutput s) (\<lambda>(out, t). started s t)"
    by (rule composerOutput_started) (use ready in \<open>auto simp: commit_ready_def\<close>)
  then show ?thesis
    unfolding commit_def okE_bindE [of "composerOutput s"]
    by (rule okE_mono) (auto simp only: prod.case split: prod.splits intro!: step)
qed

lemma committed_events: "committed s es t \<Longrightarrow> events t = events s @ es"
  by (auto simp: committed_def)

text \<open>What the next commit of the same decision finds.\<close>

lemma committed_fields:
  assumes "committed s es t"
  shows "mCrtc t = mCrtc s" "mComposer t = mComposer s" "composers t = composers s"
    "\<not> mSkipValidate t" "mLegacyVideoPlane t = mLegacyVideoPlane s"
    "mLegacyExtVideoPlane t = mLegacyExtVideoPlane s" "mHwcVideoPlane t = mHwcVideoPlane s"
    "mOsdPlanes t = mOsdPlanes s"
    "map pair_plane (mDisplayPairs t) = map pair_plane (mDisplayPairs s)"
proof -
  from assms obtain u r z where st: "started s u" and t: "t = (zordered u)
      \<lparr>mOtherPlanes := unused_planes s, events := events s @ es, mDisplayRefFb := r,
       mOsdDisplayFrame := z, mSkipValidate := False\<rparr>"
    unfolding committed_def by blast
  obtain ps where ps: "zordered u = u\<lparr>mDisplayPairs := ps\<rparr>"
    "map pair_plane ps = map pair_plane (mDisplayPairs u)" using zordered_frame by blast
  from st obtain h es0 where u: "u = s\<lparr>fbs := h, events := events s @ es0\<rparr>"
    unfolding started_def by blast
  show "mCrtc t = mCrtc s" "mComposer t = mComposer s" "composers t = composers s"
    "\<not> mSkipValidate t" "mLegacyVideoPlane t = mLegacyVideoPlane s"
    "mLegacyExtVideoPlane t = mLegacyExtVideoPlane s" "mHwcVideoPlane t = mHwcVideoPlane s"
    "mOsdPlanes t = mOsdPlanes s"
    "map pair_plane (mDisplayPairs t) = map pair_plane (mDisplayPairs s)"
    unfolding t ps(1) using ps(2) by (simp_all add: u)
qed

lemma commit_log_planes:
  assumes "commit_log s es"
  shows "mset (planes_set es) = image_mset plane_id (all_planes s)"
proof -
  from assms obtain es0 out u z where st: "started s u" and es0: "events u = events s @ es0"
    and es: "es = es0 @ map (pair_event out (zordered u)) (mDisplayPairs (zordered u))
          @ map blank_event (unused_planes s) @ [SetDisplayFrame z]"
    unfolding commit_log_def by blast
  have "planes_set es0 = []" "mDisplayPairs u = mDisplayPairs s"
    using st es0 by (auto simp: started_def)
  moreover obtain ps where "zordered u = u\<lparr>mDisplayPairs := ps\<rparr>"
    "map pair_plane ps = map pair_plane (mDisplayPairs u)" using zordered_frame by blast
  ultimately have "map pair_plane (mDisplayPairs (zordered u)) = map pair_plane (mDisplayPairs s)"
    and e0: "planes_set es0 = []" by simp_all
  then have "map (\<lambda>p. plane_id (pair_plane p)) (mDisplayPairs (zordered u)) =
      map (\<lambda>p. plane_id (pair_plane p)) (mDisplayPairs s)"
    by (metis (no_types, lifting) list.map_comp comp_apply map_eq_conv)
  with e0 have "planes_set es =
      map (\<lambda>p. plane_id (pair_plane p)) (mDisplayPairs s) @ map plane_id (unused_planes s)"
    by (simp add: es planes_set_map)
  moreover have "mset (map (\<lambda>p. plane_id (pair_plane p)) (mDisplayPairs s)) =
      image_mset plane_id (mset (map pair_plane (mDisplayPairs s)))"
    by (simp add: image_mset.compositionality o_def)
  ultimately show ?thesis unfolding all_planes_pairs by simp
qed

end
