(* ===== verification/MultiplanesSetup.thy ===== *)
theory MultiplanesSetup
  imports MultiplanesCommit
begin

text \<open>
  \<open>MultiplanesComposition::setup\<close>: what the loops over layers, composers and planes collect,
  in closed form, and \<open>mp_setup_post\<close>: from layers with distinct valid z-orders, a dummy and a
  client composer and planes within the limits the code asserts, \<open>setup\<close> reaches a state
  that is \<open>mp_ready\<close>.
\<close>

section \<open>Collecting layers, composers and planes\<close>

lemma fold_addLayer:
  "fold addLayer fs s = s\<lparr>mFramebuffers := fold (\<lambda>f. map_insert (zorder_of s f) f) fs (mFramebuffers s)\<rparr>"
  by (induction fs arbitrary: s) (simp_all add: addLayer_def)

lemma addLayers_set:
  assumes "distinct (map (zorder_of s) fs)" and "mFramebuffers s = []"
  shows "map_wf (mFramebuffers (fold addLayer fs s))
    \<and> set (mFramebuffers (fold addLayer fs s)) = (\<lambda>f. (zorder_of s f, f)) ` set fs"
proof -
  let ?kvs = "map (\<lambda>f. (zorder_of s f, f)) fs"
  have "fold (\<lambda>kv. map_insert (fst kv) (snd kv)) ?kvs [] = mFramebuffers (fold addLayer fs s)"
    by (simp add: fold_addLayer fold_map o_def assms(2))
  moreover have "distinct (map fst ?kvs)" using assms(1) by (simp add: o_def)
  ultimately show ?thesis
    using std_map.insert_all [of "[]" ?kvs] std_map.wf_empty by simp
qed

definition first_of :: "(cid \<Rightarrow> composer) \<Rightarrow> meson_composition \<Rightarrow> cid list \<Rightarrow> cid option \<Rightarrow> cid option" where
  "first_of h ty cs old = (case old of Some c \<Rightarrow> Some c
     | None \<Rightarrow> find (\<lambda>c. composer_getType (h c) = ty) cs)"

lemma fold_collectComposer:
  "fold collectComposer cs s = s\<lparr>
     mDummyComposer := first_of (composers s) MESON_COMPOSITION_DUMMY cs (mDummyComposer s),
     mClientComposer := first_of (composers s) MESON_COMPOSITION_CLIENT cs (mClientComposer s),
     mOtherComposers := mOtherComposers s
       @ filter (\<lambda>c. composer_getType (composers s c) = MESON_COMPOSITION_DI) cs\<rparr>"
proof (induction cs arbitrary: s)
  case Nil
  show ?case by (simp add: first_of_def split: option.split)
next
  case (Cons c cs)
  show ?case
    using Cons
    by (cases "composers s c") (auto simp: collectComposer_def first_of_def split: option.split)
qed

definition plane_sel :: "meson_plane_type \<Rightarrow> hw_display_plane list \<Rightarrow> hw_display_plane list" where
  "plane_sel ty ps = filter (\<lambda>p. plane_available p \<and> plane_type p = ty) ps"

definition plane_rest :: "hw_display_plane list \<Rightarrow> hw_display_plane list" where
  "plane_rest ps = filter (\<lambda>p. plane_available p
     \<and> (plane_type p = CURSOR_PLANE \<or> plane_type p = INVALID_PLANE)) ps"

definition only_elem :: "'a list \<Rightarrow> 'a option" where
  "only_elem xs = (case xs of [] \<Rightarrow> None | x # _ \<Rightarrow> Some x)"

text \<open>What \<open>setup\<close> asserts of the hardware.\<close>

definition planes_ok :: "hw_display_plane list \<Rightarrow> bool" where
  "planes_ok ps \<longleftrightarrow> length (plane_sel OSD_PLANE ps) \<le> OSD_PLANE_NUM_MAX
     \<and> length (plane_sel HWC_VIDEO_PLANE ps) \<le> 1 \<and> length (plane_sel LEGACY_VIDEO_PLANE ps) \<le> 1
     \<and> length (plane_sel LEGACY_EXT_VIDEO_PLANE ps) \<le> 1"

definition collected :: "mp_state \<Rightarrow> hw_display_plane list \<Rightarrow> mp_state" where
  "collected s ps = s\<lparr>mOsdPlanes := plane_sel OSD_PLANE ps,
     mHwcVideoPlane := only_elem (plane_sel HWC_VIDEO_PLANE ps),
     mLegacyVideoPlane := only_elem (plane_sel LEGACY_VIDEO_PLANE ps),
     mLegacyExtVideoPlane := only_elem (plane_sel LEGACY_EXT_VIDEO_PLANE ps),
     mOtherPlanes := plane_rest ps\<rparr>"

lemma plane_sel_append [simp]:
  "plane_sel ty (ps @ qs) = plane_sel ty ps @ plane_sel ty qs" "plane_sel ty [] = []"
  "plane_sel ty [p] = (if plane_available p \<and> plane_type p = ty then [p] else [])"
  "plane_rest (ps @ qs) = plane_rest ps @ plane_rest qs" "plane_rest [] = []"
  "plane_rest [p] = (if plane_available p \<and> (plane_type p = CURSOR_PLANE
     \<or> plane_type p = INVALID_PLANE) then [p] else [])"
  by (simp_all add: plane_sel_def plane_rest_def)

lemma plane_sel_Cons: "plane_sel ty (p # ps) =
    (if plane_available p \<and> plane_type p = ty then p # plane_sel ty ps else plane_sel ty ps)"
  by (simp add: plane_sel_def)

lemma plane_rest_Cons: "plane_rest (p # ps) =
    (if plane_available p \<and> (plane_type p = CURSOR_PLANE \<or> plane_type p = INVALID_PLANE)
     then p # plane_rest ps else plane_rest ps)"
  by (simp add: plane_rest_def)

lemma sel_empty:
  "length (plane_sel ty (done @ p # rest)) \<le> 1 \<Longrightarrow> plane_available p \<Longrightarrow> plane_type p = ty \<Longrightarrow>
    plane_sel ty done = []"
  by (simp add: plane_sel_def)

lemma only_elem_simps [simp]: "only_elem [] = None" "only_elem [x] = Some x"
  by (simp_all add: only_elem_def)

lemma collectPlane_step:
  assumes ok: "planes_ok (done @ p # rest)"
  shows "collectPlane p (collected s done) = Inr (collected s (done @ [p]))"
proof (cases "plane_available p")
  case False
  then show ?thesis by (simp add: collectPlane_def collected_def)
next
  case True
  from True show ?thesis
  proof (cases "plane_type p")
    case OSD_PLANE
    with True ok show ?thesis
      by (simp add: collectPlane_def collected_def planes_ok_def assertE_def plane_sel_Cons)
  next
    case HWC_VIDEO_PLANE
    with True ok have "plane_sel HWC_VIDEO_PLANE done = []"
      by (intro sel_empty [of _ _ p rest]) (auto simp: planes_ok_def)
    with True HWC_VIDEO_PLANE show ?thesis by (simp add: collectPlane_def collected_def)
  next
    case LEGACY_VIDEO_PLANE
    with True ok have "plane_sel LEGACY_VIDEO_PLANE done = []"
      by (intro sel_empty [of _ _ p rest]) (auto simp: planes_ok_def)
    with True LEGACY_VIDEO_PLANE show ?thesis by (simp add: collectPlane_def collected_def)
  next
    case LEGACY_EXT_VIDEO_PLANE
    with True ok have "plane_sel LEGACY_EXT_VIDEO_PLANE done = []"
      by (intro sel_empty [of _ _ p rest]) (auto simp: planes_ok_def)
    with True LEGACY_EXT_VIDEO_PLANE show ?thesis by (simp add: collectPlane_def collected_def)
  qed (simp_all add: collectPlane_def collected_def)
qed

lemma foldE_collectPlane:
  assumes "planes_ok ps" and "collected s [] = s"
  shows "foldE collectPlane ps s = Inr (collected s ps)"
proof -
  have "foldE collectPlane qs (collected s rs) = Inr (collected s (rs @ qs))" if "rs @ qs = ps" for rs qs
    using that
  proof (induction qs arbitrary: rs)
    case (Cons q qs)
    then have "collectPlane q (collected s rs) = Inr (collected s (rs @ [q]))"
      using collectPlane_step assms(1) by metis
    with Cons.IH [of "rs @ [q]"] Cons.prems show ?case by simp
  qed simp
  from this [of "[]" ps] assms(2) show ?thesis by simp
qed

lemma plane_partition:
  "mset (filter plane_available ps) = mset (plane_rest ps) + mset (plane_sel LEGACY_VIDEO_PLANE ps)
     + mset (plane_sel LEGACY_EXT_VIDEO_PLANE ps) + mset (plane_sel HWC_VIDEO_PLANE ps)
     + mset (plane_sel OSD_PLANE ps)"
proof (induction ps)
  case (Cons p ps)
  then show ?case
    by (cases "plane_type p") (auto simp: plane_sel_Cons plane_rest_Cons)
qed simp

lemma only_elem_list: "length xs \<le> 1 \<Longrightarrow> opt_list (only_elem xs) = xs"
  by (cases xs) (auto simp: only_elem_def)

lemma collected_planes:
  "planes_ok ps \<Longrightarrow> mDisplayPairs s = [] \<Longrightarrow> all_planes (collected s ps) = mset (filter plane_available ps)"
  unfolding plane_partition
  by (simp add: all_planes_def collected_def only_elem_list planes_ok_def)


section \<open>What setup leaves\<close>

definition layers_ok :: "'a world_scheme \<Rightarrow> fbid list \<Rightarrow> bool" where
  "layers_ok s fs \<longleftrightarrow> distinct (map (zorder_of s) fs)
     \<and> (\<forall>f \<in> set fs. zorder_of s f \<noteq> INVALID s) \<and> int (length fs) < 2 ^ 31"

definition composers_ok :: "'a world_scheme \<Rightarrow> cid list \<Rightarrow> bool" where
  "composers_ok s cs \<longleftrightarrow> (\<exists>c \<in> set cs. composers s c = DummyComposer)
     \<and> (\<exists>c \<in> set cs. composer_getType (composers s c) = MESON_COMPOSITION_CLIENT)
     \<and> (\<forall>c \<in> set cs. composer_getType (composers s c) = MESON_COMPOSITION_DI
          \<longrightarrow> composer_valid (composers s c) 0)"

lemma dummy_type: "composer_getType c = MESON_COMPOSITION_DUMMY \<longleftrightarrow> c = DummyComposer"
  by (cases c) simp_all

lemma find_exists: "\<exists>x \<in> set xs. P x \<Longrightarrow> \<exists>x. find P xs = Some x \<and> P x \<and> x \<in> set xs"
  by (induction xs) auto

definition before_planes :: "fbid list \<Rightarrow> cid list \<Rightarrow> nat option \<Rightarrow> u32 \<Rightarrow> mp_state \<Rightarrow> mp_state" where
  "before_planes layers cs crtc flag s =
     (let t = (init s)\<lparr>mHDRMode := True, mHideSecureLayer := (and flag COMPOSE_HIDE_SECURE_FB \<noteq> 0),
          mForceClientComposer := (and flag COMPOSE_FORCE_CLIENT \<noteq> 0), mCrtc := crtc\<rparr>
      in fold collectComposer cs (fold addLayer layers t))"

lemma mp_setup_before:
  "mp_setup layers cs planes crtc flag s = foldE collectPlane planes (before_planes layers cs crtc flag s)"
proof -
  have hide: "(if b then r\<lparr>mHideSecureLayer := True\<rparr> else r) = r\<lparr>mHideSecureLayer := b\<rparr>"
    if "\<not> mHideSecureLayer r" for b and r :: mp_state
    using that by (cases r) simp
  have force: "(if b then r\<lparr>mForceClientComposer := True\<rparr> else r) = r\<lparr>mForceClientComposer := b\<rparr>"
    if "\<not> mForceClientComposer r" for b and r :: mp_state
    using that by (cases r) simp
  have h: "\<not> mHideSecureLayer ((init s)\<lparr>mHDRMode := True\<rparr>)"
    "\<not> mForceClientComposer ((init s)\<lparr>mHDRMode := True, mHideSecureLayer := x\<rparr>)" for x
    by (simp_all add: init_def)
  show ?thesis
    unfolding mp_setup_def before_planes_def Let_def hide [OF h(1)] force [OF h(2)] by (rule refl)
qed

lemma collected_fresh:
  "mOsdPlanes t = [] \<Longrightarrow> mHwcVideoPlane t = None \<Longrightarrow> mLegacyVideoPlane t = None \<Longrightarrow>
    mLegacyExtVideoPlane t = None \<Longrightarrow> mOtherPlanes t = [] \<Longrightarrow> collected t [] = t"
  by (cases t) (simp add: collected_def)

lemma before_planes_fields:
  assumes t: "t = before_planes layers cs crtc flag s"
  shows "collected t [] = t" "mDisplayPairs t = []" "fbs t = fbs s" "composers t = composers s"
    "range_unset t" "mDisplayRefFb t = None" "mOverlayFbs t = []" "mComposerFbs t = []"
    "mComposer t = None" "mHDRMode t" "\<not> mInsideVideoFbsFlag t" "mCrtc t = crtc" "events t = events s"
    "mDummyComposer t = find (\<lambda>c. composer_getType (composers s c) = MESON_COMPOSITION_DUMMY) cs"
    "mClientComposer t = find (\<lambda>c. composer_getType (composers s c) = MESON_COMPOSITION_CLIENT) cs"
    "mOtherComposers t = filter (\<lambda>c. composer_getType (composers s c) = MESON_COMPOSITION_DI) cs"
    "mFramebuffers t = mFramebuffers (fold addLayer layers (s\<lparr>mFramebuffers := []\<rparr>))"
    "plat t = plat s" "\<not> mSkipValidate t" "\<not> mHaveClient t"
proof -
  define u where "u = (init s)\<lparr>mHDRMode := True, mHideSecureLayer := (and flag COMPOSE_HIDE_SECURE_FB \<noteq> 0),
      mForceClientComposer := (and flag COMPOSE_FORCE_CLIENT \<noteq> 0), mCrtc := crtc\<rparr>"
  have u: "mOsdPlanes u = []" "mHwcVideoPlane u = None" "mLegacyVideoPlane u = None"
    "mLegacyExtVideoPlane u = None" "mOtherPlanes u = []" "mDisplayPairs u = []" "fbs u = fbs s"
    "composers u = composers s" "mMinComposerZorder u = INVALID s" "mMaxComposerZorder u = INVALID s"
    "plat u = plat s" "mDisplayRefFb u = None" "mOverlayFbs u = []" "mComposerFbs u = []"
    "mComposer u = None" "mHDRMode u" "\<not> mInsideVideoFbsFlag u" "mCrtc u = crtc" "events u = events s"
    "mDummyComposer u = None" "mClientComposer u = None" "mOtherComposers u = []"
    "mFramebuffers u = []" "\<not> mSkipValidate u" "\<not> mHaveClient u"
    by (simp_all add: u_def init_def)
  have t': "t = fold collectComposer cs (fold addLayer layers u)"
    by (simp only: t before_planes_def u_def Let_def)
  show "collected t [] = t"
    by (rule collected_fresh) (simp_all add: t' fold_collectComposer fold_addLayer u)
qed (simp_all add: t before_planes_def fold_collectComposer fold_addLayer init_def first_of_def
    range_unset_def)

lemma collected_fields:
  "fbs (collected t ps) = fbs t" "composers (collected t ps) = composers t"
  "range_unset (collected t ps) = range_unset t" "mDisplayRefFb (collected t ps) = mDisplayRefFb t"
  "mOverlayFbs (collected t ps) = mOverlayFbs t" "mComposerFbs (collected t ps) = mComposerFbs t"
  "mComposer (collected t ps) = mComposer t" "mHDRMode (collected t ps) = mHDRMode t"
  "mInsideVideoFbsFlag (collected t ps) = mInsideVideoFbsFlag t" "mCrtc (collected t ps) = mCrtc t"
  "mDummyComposer (collected t ps) = mDummyComposer t" "events (collected t ps) = events t"
  "mClientComposer (collected t ps) = mClientComposer t"
  "mOtherComposers (collected t ps) = mOtherComposers t" "plat (collected t ps) = plat t"
  "mFramebuffers (collected t ps) = mFramebuffers t" "mDisplayPairs (collected t ps) = mDisplayPairs t"
  "mHaveClient (collected t ps) = mHaveClient t"
  "mOsdPlanes (collected t ps) = plane_sel OSD_PLANE ps"
  by (simp_all add: collected_def range_unset_def)

definition setup_post :: "fbid list \<Rightarrow> cid list \<Rightarrow> hw_display_plane list \<Rightarrow> nat option
    \<Rightarrow> mp_state \<Rightarrow> mp_state \<Rightarrow> bool" where
  "setup_post layers cs planes crtc s t \<longleftrightarrow> mp_ready t
     \<and> set (mFramebuffers t) = (\<lambda>f. (zorder_of s f, f)) ` set layers
     \<and> all_planes t = mset (filter plane_available planes)
     \<and> fbs t = fbs s \<and> composers t = composers s \<and> events t = events s \<and> mCrtc t = crtc
     \<and> \<not> mHaveClient t
     \<and> (\<forall>c. mClientComposer t = Some c \<longrightarrow> composer_getType (composers s c) = MESON_COMPOSITION_CLIENT)
     \<and> mOtherComposers t = filter (\<lambda>c. composer_getType (composers s c) = MESON_COMPOSITION_DI) cs"

lemma mp_setup_post:
  assumes layers: "layers_ok s layers" and cs: "composers_ok s cs" and planes: "planes_ok planes"
    and osd: "plane_sel OSD_PLANE planes \<noteq> []"
  shows "okE (mp_setup layers cs planes crtc flag s) (setup_post layers cs planes crtc s)"
proof -
  define t where "t = before_planes layers cs crtc flag s"
  note b = before_planes_fields [OF t_def]
  let ?u = "collected t planes"
  have eq: "mp_setup layers cs planes crtc flag s = Inr ?u"
    using foldE_collectPlane [OF planes b(1)] by (simp add: mp_setup_before t_def)
  have m: "map_wf (mFramebuffers t)"
    "set (mFramebuffers t) = (\<lambda>f. (zorder_of s f, f)) ` set layers"
    using addLayers_set [of "s\<lparr>mFramebuffers := []\<rparr>" layers] layers b(17)
    by (simp_all add: layers_ok_def)
  have "distinct (mFramebuffers t)" using std_map.distinct_keys [OF m(1)] by (simp add: distinct_map)
  then have "length (mFramebuffers t) = card (set (mFramebuffers t))" by (simp add: distinct_card)
  also have "\<dots> \<le> length layers" unfolding m(2) by (meson card_image_le card_length finite_set order_trans)
  finally have len: "int (length (mFramebuffers t)) < 2 ^ 31" using layers by (simp add: layers_ok_def)
  have wf: "fbs_wf ?u" using m layers b(3,18)
    by (auto simp: fbs_wf_def collected_fields layers_ok_def)
  obtain d where d: "mDummyComposer t = Some d" "composers s d = DummyComposer"
    using find_exists [of cs "\<lambda>c. composer_getType (composers s c) = MESON_COMPOSITION_DUMMY"] cs b(14)
    by (auto simp: composers_ok_def dummy_type)
  obtain c where c: "mClientComposer t = Some c"
    "composer_getType (composers s c) = MESON_COMPOSITION_CLIENT"
    using find_exists [of cs "\<lambda>c. composer_getType (composers s c) = MESON_COMPOSITION_CLIENT"] cs b(15)
    by (auto simp: composers_ok_def)
  have "mp_ready ?u"
    using b(5-11,16) wf len osd planes d c cs b(2,4)
    by (simp add: mp_ready_def collected_fields dummy_ready_def composers_ready_def composers_ok_def
        planes_ok_def)
  moreover have "all_planes ?u = mset (filter plane_available planes)"
    using collected_planes [OF planes b(2)] .
  ultimately show ?thesis using eq b(3,4,12,13,16,20) m c
    by (simp add: setup_post_def collected_fields)
qed

end
