(* ===== verification/MultiplanesZorder.thy ===== *)
theory MultiplanesZorder
  imports MultiplanesSetup
begin

text \<open>
  \<open>MultiplanesComposition::handleDisplayLayerZorder\<close>: \<open>handleDisplayLayerZorder_nth\<close> gives
  the z-order of every pair after the two loops, \<open>new_pair_cases\<close> and \<open>band_arith\<close> place it
  in one of the three bands the comments of the code reserve.
\<close>

section \<open>Z-order bands\<close>

definition is_osd_pair :: "display_pair \<Rightarrow> bool" where
  "is_osd_pair p \<longleftrightarrow> plane_type (pair_plane p) = OSD_PLANE"

definition is_video_pair :: "display_pair \<Rightarrow> bool" where
  "is_video_pair p \<longleftrightarrow> plane_type (pair_plane p) = LEGACY_VIDEO_PLANE
     \<or> plane_type (pair_plane p) = LEGACY_EXT_VIDEO_PLANE"

definition osd_raised :: "display_pair \<Rightarrow> display_pair" where
  "osd_raised p = (if is_osd_pair p then p\<lparr>presentZorder := presentZorder p + OSD_FB_BEGIN_ZORDER\<rparr> else p)"

fun osd_max :: "u32 \<Rightarrow> u32 \<Rightarrow> display_pair list \<Rightarrow> u32" where
  "osd_max iv mx [] = mx"
| "osd_max iv mx (p # ps) = osd_max iv
     (if is_osd_pair p then (if mx = iv \<or> mx < presentZorder p then presentZorder p else mx) else mx) ps"

lemma osdLayerZorders_eq:
  "osdLayerZorders iv mx ps = (osd_max iv mx ps, map osd_raised ps)"
  by (induction iv mx ps rule: osdLayerZorders.induct)
    (auto simp: osd_raised_def is_osd_pair_def Let_def split: prod.split)

lemma osd_max_bound:
  "(\<forall>p \<in> set ps. is_osd_pair p \<longrightarrow> presentZorder p \<noteq> iv) \<Longrightarrow>
    (\<forall>p \<in> set ps. is_osd_pair p \<longrightarrow> presentZorder p \<le> osd_max iv mx ps)
    \<and> (mx = iv \<or> mx \<le> osd_max iv mx ps)
    \<and> (osd_max iv mx ps = mx \<or> (\<exists>p \<in> set ps. is_osd_pair p \<and> osd_max iv mx ps = presentZorder p))"
proof (induction ps arbitrary: mx)
  case (Cons p ps)
  let ?m = "if is_osd_pair p then (if mx = iv \<or> mx < presentZorder p then presentZorder p else mx) else mx"
  from Cons.IH [of ?m] Cons.prems show ?case
    by (auto split: if_splits)
qed simp

text \<open>The first video pair above the osd pairs goes to the top band, the others to the bottom one.\<close>

fun is_top :: "(fbid \<Rightarrow> drm_framebuffer) \<Rightarrow> u32 \<Rightarrow> display_pair \<Rightarrow> bool" where
  "is_top h mx p \<longleftrightarrow> is_video_pair p \<and> mx < mZorder (h (pair_fb p))"

definition bottomed :: "display_pair \<Rightarrow> display_pair" where
  "bottomed p = (if is_video_pair p
     then p\<lparr>presentZorder := presentZorder p + BOTTOM_VIDEO_FB_BEGIN_ZORDER\<rparr> else p)"

lemma videoLayerZorders_one: "videoLayerZorders h mx 1 ps = map bottomed ps"
  by (induction ps) (auto simp: bottomed_def is_video_pair_def)

definition topped :: "display_pair \<Rightarrow> display_pair" where
  "topped p = p\<lparr>presentZorder := presentZorder p + TOP_VIDEO_FB_BEGIN_ZORDER\<rparr>"

lemma videoLayerZorders_Cons:
  "videoLayerZorders h mx 0 (p # ps) =
    (if is_top h mx p then topped p # map bottomed ps else bottomed p # videoLayerZorders h mx 0 ps)"
  using videoLayerZorders_one [of h mx ps]
  by (auto simp: is_video_pair_def bottomed_def topped_def)

lemma videoLayerZorders_nth:
  "i < length ps \<Longrightarrow> videoLayerZorders h mx 0 ps ! i =
    (if is_top h mx (ps ! i) \<and> (\<forall>j < i. \<not> is_top h mx (ps ! j)) then topped (ps ! i)
     else bottomed (ps ! i))"
proof (induction ps arbitrary: i)
  case (Cons p ps)
  show ?case
  proof (cases "is_top h mx p")
    case True
    with Cons.prems show ?thesis
      by (cases i) (auto simp: videoLayerZorders_Cons simp del: is_top.simps videoLayerZorders.simps)
  next
    case False
    with Cons show ?thesis
      by (cases i) (auto simp: videoLayerZorders_Cons less_Suc_eq_0_disj
          simp del: is_top.simps videoLayerZorders.simps)
  qed
qed simp


lemma osd_raised_other [simp]:
  "is_top h mx (osd_raised p) = is_top h mx p" "is_osd_pair (osd_raised p) = is_osd_pair p"
  "is_video_pair (osd_raised p) = is_video_pair p"
  by (simp_all add: osd_raised_def is_video_pair_def is_osd_pair_def)

lemma osd_not_video: "is_osd_pair p \<Longrightarrow> \<not> is_video_pair p"
  by (auto simp: is_osd_pair_def is_video_pair_def)

definition max_osd :: "'a osd_state_scheme \<Rightarrow> u32" where
  "max_osd s = osd_max (INVALID s) (INVALID s) (mDisplayPairs s)"

definition goes_on_top :: "'a osd_state_scheme \<Rightarrow> nat \<Rightarrow> bool" where
  "goes_on_top s i \<longleftrightarrow> is_top (fbs s) (max_osd s) (mDisplayPairs s ! i)
     \<and> (\<forall>j < i. \<not> is_top (fbs s) (max_osd s) (mDisplayPairs s ! j))"

lemma handleDisplayLayerZorder_nth:
  assumes "i < length (mDisplayPairs s)"
  shows "mDisplayPairs (handleDisplayLayerZorder s) ! i =
    (let p = mDisplayPairs s ! i in
     if is_osd_pair p then p\<lparr>presentZorder := presentZorder p + OSD_FB_BEGIN_ZORDER\<rparr>
     else if goes_on_top s i then topped p else bottomed p)"
proof -
  let ?ps = "mDisplayPairs s"
  have "mDisplayPairs (handleDisplayLayerZorder s) =
      videoLayerZorders (fbs s) (max_osd s) 0 (map osd_raised ?ps)"
    by (simp add: handleDisplayLayerZorder_def osdLayerZorders_eq max_osd_def)
  moreover have "(\<forall>j < i. \<not> is_top (fbs s) (max_osd s) (map osd_raised ?ps ! j)) \<longleftrightarrow>
      (\<forall>j < i. \<not> is_top (fbs s) (max_osd s) (?ps ! j))"
    using assms by (metis length_map less_trans nth_map osd_raised_other(1))
  ultimately have eq: "mDisplayPairs (handleDisplayLayerZorder s) ! i =
      (if goes_on_top s i then topped (osd_raised (?ps ! i)) else bottomed (osd_raised (?ps ! i)))"
    using assms videoLayerZorders_nth [of i "map osd_raised ?ps" "fbs s" "max_osd s"]
    by (auto simp: goes_on_top_def simp del: is_top.simps videoLayerZorders.simps)
  show ?thesis
  proof (cases "is_osd_pair (?ps ! i)")
    case True
    then have "\<not> goes_on_top s i" using osd_not_video by (simp add: goes_on_top_def)
    then show ?thesis using True eq osd_not_video [of "?ps ! i"]
      by (simp add: osd_raised_def bottomed_def Let_def is_osd_pair_def is_video_pair_def)
  next
    case False
    then show ?thesis using eq by (simp add: osd_raised_def Let_def)
  qed
qed

lemma videoLayerZorders_length [simp]: "length (videoLayerZorders h m n ps) = length ps"
  by (induction h m n ps rule: videoLayerZorders.induct) auto

lemma handleDisplayLayerZorder_length [simp]:
  "length (mDisplayPairs (handleDisplayLayerZorder s)) = length (mDisplayPairs s)"
  by (simp add: handleDisplayLayerZorder_def osdLayerZorders_eq)

lemma band_arith:
  fixes z :: u32
  assumes "z < 64"
  shows "65 \<le> z + 65 \<and> z + 65 \<le> 128" "129 \<le> z + 129 \<and> z + 129 \<le> 192" "1 \<le> z + 1 \<and> z + 1 \<le> 64"
  using assms by (simp_all add: word_less_nat_alt word_le_nat_alt unat_word_ariths)


text \<open>Z-orders that fit the bands: the comments of the code reserve 64 values for each.\<close>

definition zorders_fit :: "'a osd_state_scheme \<Rightarrow> bool" where
  "zorders_fit s \<longleftrightarrow> 64 \<le> INVALID s \<and> (\<forall>p \<in> set (mDisplayPairs s). presentZorder p < 64)"

lemma max_osd_fit:
  assumes "zorders_fit s"
  shows "p \<in> set (mDisplayPairs s) \<Longrightarrow> is_osd_pair p \<Longrightarrow> presentZorder p \<le> max_osd s"
    and "max_osd s = INVALID s \<or> (\<exists>p \<in> set (mDisplayPairs s). is_osd_pair p \<and> max_osd s = presentZorder p)"
proof -
  have "\<forall>p \<in> set (mDisplayPairs s). is_osd_pair p \<longrightarrow> presentZorder p \<noteq> INVALID s"
    using assms by (auto simp: zorders_fit_def)
  note b = osd_max_bound [OF this, of "INVALID s"]
  show "p \<in> set (mDisplayPairs s) \<Longrightarrow> is_osd_pair p \<Longrightarrow> presentZorder p \<le> max_osd s"
    using b by (simp add: max_osd_def)
  show "max_osd s = INVALID s \<or> (\<exists>p \<in> set (mDisplayPairs s). is_osd_pair p \<and> max_osd s = presentZorder p)"
    using b by (auto simp: max_osd_def)
qed

lemma band_less:
  fixes x y :: u32
  assumes "x < 64" and "y < 64"
  shows "x + 65 < y + 65 \<longleftrightarrow> x < y" "x + 65 < y + 129" "x + 1 < y + 65"
  using assms by (simp_all add: word_less_nat_alt unat_word_ariths)

abbreviation new_pair :: "'a osd_state_scheme \<Rightarrow> nat \<Rightarrow> display_pair" where
  "new_pair s i \<equiv> mDisplayPairs (handleDisplayLayerZorder s) ! i"

lemma new_pair_cases:
  assumes "i < length (mDisplayPairs s)"
  shows "is_osd_pair (mDisplayPairs s ! i) \<Longrightarrow>
      presentZorder (new_pair s i) = presentZorder (mDisplayPairs s ! i) + 65"
    "is_video_pair (mDisplayPairs s ! i) \<Longrightarrow> presentZorder (new_pair s i) =
      presentZorder (mDisplayPairs s ! i) + (if goes_on_top s i then 129 else 1)"
    "\<not> is_osd_pair (mDisplayPairs s ! i) \<Longrightarrow> \<not> is_video_pair (mDisplayPairs s ! i) \<Longrightarrow>
      new_pair s i = mDisplayPairs s ! i"
    "pair_plane (new_pair s i) = pair_plane (mDisplayPairs s ! i)"
  using handleDisplayLayerZorder_nth [OF assms] osd_not_video [of "mDisplayPairs s ! i"]
  by (auto simp: Let_def topped_def bottomed_def zorder_bases goes_on_top_def)

end
