(* ===== verification/MultiplanesVideo.thy ===== *)
theory MultiplanesVideo
  imports MultiplanesZorder
begin

text \<open>
  \<open>handleVideoComposition\<close> as an allocation: \<open>video_winner\<close> is the framebuffer a video plane goes to,
  \<open>video_allotted\<close> says which types, pairs and free planes that leaves. And what the second commit of
  one decision does (\<open>updateComposition\<close>).
\<close>

section \<open>Which video framebuffer gets which plane\<close>

fun plane_slot :: "mp_state \<Rightarrow> meson_plane_type \<Rightarrow> hw_display_plane option" where
  "plane_slot s LEGACY_VIDEO_PLANE = mLegacyVideoPlane s"
| "plane_slot s LEGACY_EXT_VIDEO_PLANE = mLegacyExtVideoPlane s"
| "plane_slot s HWC_VIDEO_PLANE = mHwcVideoPlane s"
| "plane_slot s _ = None"

text \<open>The plane type and the composition type a video framebuffer asks for.\<close>

definition video_demand :: "'a world_scheme \<Rightarrow> fbid \<Rightarrow> (meson_plane_type \<times> meson_composition) option" where
  "video_demand s f = map_of planeCompPairs (mFbType (fbs s f))"

definition video_pip :: "'a world_scheme \<Rightarrow> fbid \<Rightarrow> meson_plane_type \<Rightarrow> bool" where
  "video_pip s f pl \<longleftrightarrow> pl = LEGACY_EXT_VIDEO_PLANE \<and> is_pip_window (mDisplayFrame (fbs s f))"

lemma video_frame_store: "video_frame s t \<Longrightarrow> only_types (fbs s) (fbs t)"
  by (auto simp: video_frame_def)

lemma video_same_store:
  assumes "video_frame s t"
  shows "video_demand t f = video_demand s f" "video_pip t f pl = video_pip s f pl"
    "zorder_of t f = zorder_of s f"
  using video_frame_store [OF assms]
  by (simp_all add: video_demand_def video_pip_def only_types_fields)

text \<open>\<open>wants_plane\<close>: the framebuffer asks for a plane of that type and is not a picture-in-picture window.\<close>

definition wants_plane :: "'a world_scheme \<Rightarrow> meson_plane_type \<Rightarrow> fbid \<Rightarrow> bool" where
  "wants_plane s pl f \<longleftrightarrow> (case video_demand s f of None \<Rightarrow> False
     | Some (q, c) \<Rightarrow> q = pl \<and> \<not> video_pip s f pl)"

text \<open>The framebuffer among \<open>fs\<close> a video plane goes to: the first that wants it, if the plane is there.\<close>

definition video_winner :: "mp_state \<Rightarrow> fbid list \<Rightarrow> meson_plane_type \<Rightarrow> fbid option" where
  "video_winner s fs pl = (if plane_slot s pl = None then None else find (wants_plane s pl) fs)"

definition video_wins :: "mp_state \<Rightarrow> fbid list \<Rightarrow> fbid \<Rightarrow> bool" where
  "video_wins s fs f \<longleftrightarrow> (case video_demand s f of None \<Rightarrow> False | Some (pl, c) \<Rightarrow> video_winner s fs pl = Some f)"

definition video_pair :: "mp_state \<Rightarrow> fbid \<Rightarrow> display_pair" where
  "video_pair s f = (let pl = fst (the (video_demand s f)) in
     \<lparr>din = (if pl = LEGACY_VIDEO_PLANE then VIDEO_PLANE_DIN_ONE else VIDEO_PLANE_DIN_TWO),
      presentZorder = zorder_of s f, pair_fb = f, pair_plane = the (plane_slot s pl)\<rparr>)"

definition video_type :: "mp_state \<Rightarrow> fbid list \<Rightarrow> fbid \<Rightarrow> meson_composition" where
  "video_type s fs f = (case video_demand s f of None \<Rightarrow> ctype_of s f
     | Some (pl, c) \<Rightarrow> if video_winner s fs pl = Some f then c else MESON_COMPOSITION_DUMMY)"

lemma handleVideoFb_effect:
  assumes d: "video_demand s f = Some (pl, c)"
  defines "won \<equiv> plane_slot s pl \<noteq> None \<and> \<not> video_pip s f pl"
  shows "ctype_of (handleVideoFb f s) g = (if g = f then if won then c else MESON_COMPOSITION_DUMMY else ctype_of s g)"
    and "mDisplayPairs (handleVideoFb f s) = mDisplayPairs s @ (if won then [video_pair s f] else [])"
    and "plane_slot (handleVideoFb f s) q = (if won \<and> q = pl then None else plane_slot s q)"
proof -
  have "pl = LEGACY_VIDEO_PLANE \<or> pl = LEGACY_EXT_VIDEO_PLANE \<or> pl = HWC_VIDEO_PLANE"
    using d planeCompPairs_SomeD by (auto simp: video_demand_def)
  then have "ctype_of (handleVideoFb f s) g = (if g = f then if won then c else MESON_COMPOSITION_DUMMY else ctype_of s g)
    \<and> mDisplayPairs (handleVideoFb f s) = mDisplayPairs s @ (if won then [video_pair s f] else [])
    \<and> plane_slot (handleVideoFb f s) q = (if won \<and> q = pl then None else plane_slot s q)"
    using d by (elim disjE; cases q) (auto simp: handleVideoFb_def won_def video_demand_def video_pip_def
      video_pair_def Let_def upd_comp_def pushPair_def split: option.splits)
  then show "ctype_of (handleVideoFb f s) g = (if g = f then if won then c else MESON_COMPOSITION_DUMMY else ctype_of s g)"
    "mDisplayPairs (handleVideoFb f s) = mDisplayPairs s @ (if won then [video_pair s f] else [])"
    "plane_slot (handleVideoFb f s) q = (if won \<and> q = pl then None else plane_slot s q)" by simp_all
qed

lemma find_app: "find P (xs @ ys) = (case find P xs of None \<Rightarrow> find P ys | Some x \<Rightarrow> Some x)"
  by (induction xs) auto

lemma winner_snoc:
  "video_winner s (fs @ [f]) pl = (case video_winner s fs pl of Some g \<Rightarrow> Some g
     | None \<Rightarrow> if plane_slot s pl \<noteq> None \<and> wants_plane s pl f then Some f else None)"
  by (simp add: video_winner_def find_app split: option.split)

lemma winner_in: "video_winner s fs pl = Some g \<Longrightarrow> g \<in> set fs"
  by (auto simp: video_winner_def find_Some_iff split: if_splits)

lemma winner_old:
  assumes "g \<in> set fs" and "f \<notin> set fs"
  shows "video_winner s (fs @ [f]) pl = Some g \<longleftrightarrow> video_winner s fs pl = Some g"
  using assms by (auto simp: winner_snoc split: option.split)

text \<open>What \<open>handleVideoComposition\<close> has done once it has visited \<open>fs\<close>.\<close>

definition video_allotted :: "mp_state \<Rightarrow> fbid list \<Rightarrow> mp_state \<Rightarrow> bool" where
  "video_allotted s fs t \<longleftrightarrow> video_frame s t
     \<and> (\<forall>f. ctype_of t f = (if f \<in> set fs then video_type s fs f else ctype_of s f))
     \<and> mDisplayPairs t = mDisplayPairs s @ map (video_pair s) (filter (video_wins s fs) fs)
     \<and> (\<forall>pl. plane_slot t pl = (if video_winner s fs pl = None then plane_slot s pl else None))"

lemma video_allotted_next:
  assumes a: "video_allotted s fs t" and f: "f \<notin> set fs"
  shows "video_allotted s (fs @ [f]) (handleVideoFb f t)"
proof -
  note a' = a [unfolded video_allotted_def]
  then have fr: "video_frame s t" by blast
  let ?u = "handleVideoFb f t"
  have fr': "video_frame s ?u" using fr video_case_frame [OF handleVideoFb_case] by (rule video_frame_trans)
  have old: "video_type s (fs @ [f]) g = video_type s fs g" "video_wins s (fs @ [f]) g = video_wins s fs g"
    if "g \<in> set fs" for g
    using winner_old [OF that f] by (auto simp: video_type_def video_wins_def split: option.split)
  have flt: "filter (video_wins s (fs @ [f])) fs = filter (video_wins s fs) fs"
    by (rule filter_cong) (simp_all add: old)
  show ?thesis
  proof (cases "video_demand s f")
    case None
    then have "?u = t" using video_same_store(1) [OF fr, of f] by (simp add: handleVideoFb_def video_demand_def)
    moreover have "video_type s (fs @ [f]) f = ctype_of s f" "\<not> video_wins s (fs @ [f]) f"
      "\<not> wants_plane s pl f" for pl using None by (simp_all add: video_type_def video_wins_def wants_plane_def)
    ultimately show ?thesis using a' old f flt
      by (simp add: video_allotted_def winner_snoc split: option.split)
  next
    case (Some e)
    obtain pl c where e: "e = (pl, c)" by (cases e)
    have d: "video_demand t f = Some (pl, c)" using Some e video_same_store(1) [OF fr] by simp
    define won where "won = (plane_slot t pl \<noteq> None \<and> \<not> video_pip t f pl)"
    note u = handleVideoFb_effect [OF d, folded won_def]
    have slot: "plane_slot t pl = (if video_winner s fs pl = None then plane_slot s pl else None)" using a' by blast
    have wants: "wants_plane s q f \<longleftrightarrow> q = pl \<and> \<not> video_pip s f pl" for q
      using Some e by (auto simp: wants_plane_def)
    have won: "won \<longleftrightarrow> video_winner s (fs @ [f]) pl = Some f"
      using slot winner_in [of s fs pl] f wants video_same_store(2) [OF fr]
      by (auto simp: won_def winner_snoc split: option.split)
    have pair: "won \<Longrightarrow> video_pair t f = video_pair s f"
      using slot Some e d video_same_store(3) [OF fr] by (auto simp: won_def video_pair_def split: if_splits)
    have "video_type s (fs @ [f]) f = (if won then c else MESON_COMPOSITION_DUMMY)"
      "video_wins s (fs @ [f]) f = won"
      using Some e won by (simp_all add: video_type_def video_wins_def)
    moreover have "plane_slot ?u q = (if video_winner s (fs @ [f]) q = None then plane_slot s q else None)" for q
      using u(3) [of q] a' won wants f winner_in by (auto simp: winner_snoc split: option.split if_splits)
    ultimately show ?thesis using a' fr' u(1,2) old flt pair f by (auto simp: video_allotted_def)
  qed
qed

lemma handleVideoComposition_allotted:
  assumes "distinct (fb_ids s)"
  shows "video_allotted s (fb_ids s) (handleVideoComposition s)"
  unfolding handleVideoComposition_def
proof (rule fold_prefix)
  show "video_allotted s [] s" by (simp add: video_allotted_def video_frame_refl video_winner_def)
next
  fix fs f rest t
  assume "fb_ids s = fs @ f # rest" and "video_allotted s fs t"
  with assms show "video_allotted s (fs @ [f]) (handleVideoFb f t)" by (intro video_allotted_next) simp_all
qed

section \<open>Committing the same decision again\<close>

lemma recommit:
  assumes "committed s es t" and ready: "commit_ready s"
  shows "commit_ready (updateComposition t)"
    and "okE (commit (updateComposition t)) (\<lambda>u. mDisplayPairs u = mDisplayPairs t
      \<and> (\<exists>es'. events u = events t @ es'
        \<and> mset (planes_set es') + image_mset plane_id (mset (mOtherPlanes s)) =
          image_mset plane_id (all_planes s)))"
proof -
  note f = committed_fields [OF assms(1)]
  let ?v = "updateComposition t"
  show ready': "commit_ready ?v" using ready f by (simp add: commit_ready_def updateComposition_def)
  show "okE (commit ?v) (\<lambda>u. mDisplayPairs u = mDisplayPairs t
      \<and> (\<exists>es'. events u = events t @ es'
        \<and> mset (planes_set es') + image_mset plane_id (mset (mOtherPlanes s)) =
          image_mset plane_id (all_planes s)))"
  proof (rule okE_mono [OF commit_committed [OF ready']])
    fix u assume "\<exists>es. committed ?v es u"
    then obtain es' where c: "committed ?v es' u" by blast
    then obtain x r z where st: "started ?v x" and u: "u = (zordered x)
      \<lparr>mOtherPlanes := unused_planes ?v, events := events ?v @ es', mDisplayRefFb := r,
       mOsdDisplayFrame := z, mSkipValidate := False\<rparr>" and log: "commit_log ?v es'"
      unfolding committed_def by blast
    have "zordered x = x" and p: "mDisplayPairs x = mDisplayPairs t"
      using st by (auto simp: started_def zordered_def updateComposition_def)
    then have "mDisplayPairs u = mDisplayPairs t" by (simp add: u)
    moreover have "events u = events t @ es'"
      using committed_events [OF c] by (simp add: updateComposition_def)
    moreover have "mset (map pair_plane (mDisplayPairs t)) = mset (map pair_plane (mDisplayPairs s))"
      using f(9) by (rule arg_cong)
    then have "all_planes ?v + mset (mOtherPlanes s) = all_planes s"
      using f by (simp add: all_planes_def updateComposition_def ac_simps)
    then have "image_mset plane_id (all_planes ?v) + image_mset plane_id (mset (mOtherPlanes s)) =
        image_mset plane_id (all_planes s)" by (metis image_mset_union)
    moreover have "mset (planes_set es') = image_mset plane_id (all_planes ?v)"
      by (rule commit_log_planes [OF log])
    ultimately show "mDisplayPairs u = mDisplayPairs t
      \<and> (\<exists>es'. events u = events t @ es'
        \<and> mset (planes_set es') + image_mset plane_id (mset (mOtherPlanes s)) =
          image_mset plane_id (all_planes s))" by auto
  qed
qed

end
