(* ===== verification/MultiplanesProps.thy ===== *)
theory MultiplanesProps
  imports MultiplanesVideo
begin

text \<open>
  The properties of \<open>MultiplanesComposition\<close>, each with a witness on a concrete frame:
  \<open>demo_blank\<close> is a strategy before \<open>setup\<close> with a store of five layers.
\<close>

section \<open>A concrete frame\<close>

definition demo_rect :: drm_rect where "demo_rect = mk_rect 0 0 1920 1080"

definition demo_fb :: "u32 \<Rightarrow> drm_fb_type \<Rightarrow> drm_framebuffer" where
  "demo_fb z ty = \<lparr>mBufferHandle = Some 1, mFbType = ty, mSourceCrop = demo_rect,
     mDisplayFrame = demo_rect, mTransform = 0, mZorder = z, mSecure = False,
     mFbHandleUpdated = True, mCompositionType = MESON_COMPOSITION_UNDETERMINED, mId = 0,
     mCurReleaseFence = -1, mPrevReleaseFence = -1,
     mBufferState = MODE_BACK, videoType = 0, isVtBuffer = False, haveValidBuffer = True\<rparr>"

definition demo_plane :: "nat \<Rightarrow> meson_plane_type \<Rightarrow> hw_display_plane" where
  "demo_plane i ty = \<lparr>plane_id = i, plane_type = ty, plane_primary = (i = 1), plane_available = True,
     plane_fixed_zorder = -1, plane_isFbSupport = (\<lambda>fb. mFbType fb = DRM_FB_SCANOUT)\<rparr>"

definition demo_platform :: platform where
  "demo_platform = \<lparr>INVALID_ZORDER = -1, sys_dup = (\<lambda>x. x), vpm_runProcessors = (\<lambda>_ _. False),
     videocomposer_fence = (\<lambda>_ _. -1), call_result = (\<lambda>_. 0), interruptVtProcess = (\<lambda>_. None),
     HWC2_ERROR_NO_RESOURCES = 6, AM_VIDEO_DI_POST = 1, AM_VIDEO_SECURE = 2, AM_VIDEO_DV = 4,
     AM_VIDEO_4K = 8, AM_VIDEO_8K = 16, AM_VIDEO_AFBC = 32, AM_VIDEO_HDR = 64,
     AM_VIDEO_HDR10_PLUS = 128, AM_VIDEO_HLG = 256, vpu_afbc_mask = (\<lambda>_. 0),
     crtc_wrflag = (\<lambda>_. 0), scale_exceeds = (\<lambda>_ _ _. False), enable_aiprocess_120 = False,
     wb_buffer = (\<lambda>i. (Some i, demo_rect))\<rparr>"

text \<open>Five layers: a video below four ui layers, the second of them rendered by the client.\<close>

definition demo_store :: "fbid \<Rightarrow> drm_framebuffer" where
  "demo_store f =
     (if f = 10 then demo_fb 0 DRM_FB_VIDEO_SIDEBAND
      else if f = 12 then (demo_fb 2 DRM_FB_RENDER)
      else demo_fb (of_nat (f - 10)) DRM_FB_SCANOUT)"

definition demo_composers :: "cid \<Rightarrow> composer" where
  "demo_composers c = (if c = 0 then DummyComposer else ClientComposer [] (Some 99))"

definition demo_layers :: "fbid list" where "demo_layers = [10, 11, 12, 13, 14]"

definition demo_planes :: "hw_display_plane list" where
  "demo_planes = [demo_plane 0 OSD_PLANE, demo_plane 1 OSD_PLANE, demo_plane 2 LEGACY_VIDEO_PLANE,
     demo_plane 3 CURSOR_PLANE]"

definition demo_blank :: mp_state where
  "demo_blank = \<lparr>plat = demo_platform, fbs = demo_store, composers = demo_composers, events = [],
     mHDRMode = False, mHideSecureLayer = False, mForceClientComposer = False, mFramebuffers = [],
     mDisplayRefFb = None, mOsdDisplayFrame = zero_zoom, mCrtc = None, mDummyComposer = None,
     mClientComposer = None, mOtherComposers = [], mOsdPlanes = [], mOtherPlanes = [],
     mComposer = None, mOverlayFbs = [], mComposerFbs = [], mDisplayPairs = [],
     mHaveClient = False, mInsideVideoFbsFlag = False, mMinComposerZorder = -1,
     mMaxComposerZorder = -1, mMinVideoZorder = -1, mMaxVideoZorder = -1,
     mHwcVideoPlane = None, mLegacyVideoPlane = None, mLegacyExtVideoPlane = None,
     mSkipValidate = False\<rparr>"

lemmas demo_defs = demo_rect_def demo_fb_def demo_plane_def demo_platform_def demo_store_def
  demo_composers_def demo_layers_def demo_planes_def demo_blank_def

lemma demo_inputs:
  "layers_ok demo_blank demo_layers" "composers_ok demo_blank [0, 1]" "planes_ok demo_planes"
  "plane_sel OSD_PLANE demo_planes \<noteq> []"
  by (simp_all add: layers_ok_def composers_ok_def planes_ok_def plane_sel_def demo_defs OSD_PLANE_NUM_MAX_def)

definition demo_ready :: mp_state where
  "demo_ready = (case mp_setup demo_layers [0, 1] demo_planes (Some 0) 0 demo_blank of
     Inr s \<Rightarrow> s | Inl e \<Rightarrow> demo_blank)"

lemma demo_setup:
  "mp_setup demo_layers [0, 1] demo_planes (Some 0) 0 demo_blank = Inr demo_ready
   \<and> setup_post demo_layers [0, 1] demo_planes (Some 0) demo_blank demo_ready"
  using mp_setup_post [OF demo_inputs, of "Some 0" 0]
  by (auto simp: demo_ready_def okE_iff)



lemma decided_composerD:
  assumes "decided s t"
  shows "mComposerFbs t \<noteq> [] \<Longrightarrow> \<exists>c. mComposer t = Some c"
    and "mComposer t = Some c \<Longrightarrow> composer_valid (composers t c) 0
      \<and> (Some c = mClientComposer s \<or> c \<in> set (mOtherComposers s))
      \<and> composer_getType (composers t c) = composer_getType (composers s c)"
  using assms unfolding decided_def decided_composer_def by (simp_all split: if_splits) blast+

text \<open>
  The composer that is chosen is the client when a layer asks for it or there is no other, and
  a \<open>DiComposer\<close> otherwise. The former can be started; the latter was emptied by
  \<open>prepare\<close> and nobody has set its output.
\<close>

definition di_chosen :: "cid list \<Rightarrow> mp_state \<Rightarrow> mp_state \<Rightarrow> mp_state \<Rightarrow> bool" where
  "di_chosen cs s q r \<longleftrightarrow> mComposerFbs r \<noteq> [] \<and> \<not> client_forced q
     \<and> (\<exists>c \<in> set cs. composer_getType (composers s c) = MESON_COMPOSITION_DI)"

lemma frame_composer:
  assumes p: "setup_post layers cs planes crtc s q" and d: "decided q r"
  shows "mComposer r = (if mComposerFbs r = [] then None else mComposer r)"
    and "mComposerFbs r \<noteq> [] \<Longrightarrow> if di_chosen cs s q r
      then \<exists>c \<in> set (mOtherComposers q). mComposer r = Some c else mComposer r = mClientComposer q"
proof -
  have oc: "mOtherComposers r = filter (\<lambda>c. composer_getType (composers s c) = MESON_COMPOSITION_DI) cs"
    and cl: "mClientComposer r = mClientComposer q" and oq: "mOtherComposers r = mOtherComposers q"
    and hc: "mHaveClient r = client_forced q" and pick: "composer_picked r"
    using p d by (simp_all add: setup_post_def decided_def)
  show "mComposer r = (if mComposerFbs r = [] then None else mComposer r)"
    using pick by (simp add: composer_picked_def)
  have none: "mOtherComposers r = [] \<longleftrightarrow> \<not> (\<exists>c \<in> set cs. composer_getType (composers s c) = MESON_COMPOSITION_DI)"
    by (simp add: oc filter_empty_conv)
  assume "mComposerFbs r \<noteq> []"
  then show "if di_chosen cs s q r then \<exists>c \<in> set (mOtherComposers q). mComposer r = Some c
      else mComposer r = mClientComposer q"
    using pick none hc cl oq by (auto simp: composer_picked_def composer_rule_def di_chosen_def split: if_splits)
qed

lemma frame_startable:
  assumes p: "setup_post layers cs planes crtc s q" and d: "decided q r"
    and nodi: "\<not> di_chosen cs s q r" and c: "mComposer r = Some c"
  shows "startable (composers r c)"
proof -
  have "mComposerFbs r \<noteq> []" using frame_composer(1) [OF p d] c by auto
  then have "Some c = mClientComposer q" using frame_composer(2) [OF p d] nodi c by simp
  then have "composer_getType (composers q c) = MESON_COMPOSITION_CLIENT"
    using p by (auto simp: setup_post_def)
  then show ?thesis using decided_composerD(2) [OF d c]
    by (cases "composers r c") (auto simp: startable_def)
qed

lemma frame_asserts:
  assumes p: "setup_post layers cs planes crtc s q" and d: "decided q r" and di: "di_chosen cs s q r"
  shows "commit r = Inl (AssertFailed ''DiComposer no output set!'')"
proof -
  have "mComposerFbs r \<noteq> []" using di by (simp add: di_chosen_def)
  then obtain c where c: "c \<in> set (mOtherComposers q)" "mComposer r = Some c"
    using frame_composer(2) [OF p d] di by auto
  have ty: "composer_getType (composers r c) = MESON_COMPOSITION_DI"
    using c(1) p decided_composerD(2) [OF d c(2)] by (auto simp: setup_post_def)
  then have "composer_getOutput (composers r c) 0 = Inr None"
    using d c(2) by (simp add: decided_def)
  with ty c(2) decided_composerD(2) [OF d c(2)] show ?thesis
    by (cases "composers r c")
      (simp_all add: commit_def composerOutput_def call_start_def di_start_def di_getOutput_def di_impl_def)
qed

lemma commit_programs:
  assumes "commit_ready s"
  shows "okE (commit s) (\<lambda>t. \<exists>es. events t = events s @ es
    \<and> mset (planes_set es) = image_mset plane_id (all_planes s))"
proof (rule okE_mono [OF commit_committed [OF assms]])
  fix t assume "\<exists>es. committed s es t"
  then obtain es where c: "committed s es t" by blast
  then have "commit_log s es" by (simp add: committed_def)
  then show "\<exists>es. events t = events s @ es
      \<and> mset (planes_set es) = image_mset plane_id (all_planes s)"
    using committed_events [OF c] commit_log_planes by blast
qed

section \<open>The decision\<close>

lemma typed_decided:
  assumes "decided s t" and "f \<in> set (fb_ids s)"
  shows "ctype_of t f \<noteq> MESON_COMPOSITION_UNDETERMINED"
proof (cases "f \<in> set (mComposerFbs t)")
  case True
  then have "mComposerFbs t \<noteq> []" by auto
  with decided_composerD [OF assms(1)] obtain c where "mComposer t = Some c"
    "composer_valid (composers t c) 0" by blast
  with True assms composer_valid_type [of "composers t c" 0] show ?thesis
    by (auto simp: decided_def decided_types_def isComposerComposition_def)
next
  case False
  with assms have "ctype_of t f = (if f \<in> set (ui_fbs s) then MESON_COMPOSITION_PLANE_OSD
      else ctype_of (typed s) f)" by (simp add: decided_def decided_types_def)
  with assms(2) show ?thesis by (auto simp: ui_fbs_def is_ui_def split: if_splits)
qed

text \<open>C1
  \<open>decideComposition\<close> is total: from the state \<open>setup\<close> leaves it never dereferences a null
  pointer, never indexes a plane that is not there and never fails one of its assertions, and it
  leaves no layer undetermined.
\<close>

theorem decide_total:
  assumes "mp_ready s"
  shows "okE (decideComposition s) (\<lambda>t. \<forall>f \<in> set (fb_ids s).
    ctype_of t f \<noteq> MESON_COMPOSITION_UNDETERMINED)"
  by (rule okE_mono [OF decide_decided [OF assms]]) (use typed_decided in blast)

lemma demo_is_ready: "mp_ready demo_ready"
  using demo_setup by (simp add: setup_post_def)

theorem decide_total_witness:
  "mp_ready demo_ready \<and> okE (decideComposition demo_ready) (\<lambda>t. \<forall>f \<in> set (fb_ids demo_ready).
    ctype_of t f \<noteq> MESON_COMPOSITION_UNDETERMINED)"
  using decide_total [OF demo_is_ready] demo_is_ready by blast

text \<open>C2
  One frame, \<open>setup\<close>, \<open>decideComposition\<close> and \<open>commit\<close>: \<open>commit\<close> programs every
  available plane of the display exactly once, with a framebuffer or blank, whatever the layers
  are, except in one case. When framebuffers are composed, none of them is left to the client, and
  the display has a \<open>DiComposer\<close> (\<open>Hwc2Display::initialize\<close> always adds one),
  \<open>selectComposer\<close> takes the \<open>DiComposer\<close>, which \<open>prepare\<close> has just emptied and whose
  \<open>setOutput\<close> this strategy never calls, and \<open>commit\<close> stops at the assertion of
  \<open>DiComposer::start\<close>.
\<close>

theorem frame_programs_planes:
  assumes layers: "layers_ok s layers" and cs: "composers_ok s cs" and planes: "planes_ok planes"
    and osd: "plane_sel OSD_PLANE planes \<noteq> []"
  shows "okE (mp_setup layers cs planes (Some crtc) flag s) (\<lambda>q. okE (decideComposition q) (\<lambda>r.
    if mComposerFbs r \<noteq> [] \<and> \<not> client_forced q
       \<and> (\<exists>c \<in> set cs. composer_getType (composers s c) = MESON_COMPOSITION_DI)
    then commit r = Inl (AssertFailed ''DiComposer no output set!'')
    else okE (commit r) (\<lambda>t. \<exists>es. events t = events s @ es
      \<and> mset (planes_set es) = mset (map plane_id (filter plane_available planes)))))"
proof -
  have step: "okE (commit r) (\<lambda>t. \<exists>es. events t = events s @ es
      \<and> mset (planes_set es) = mset (map plane_id (filter plane_available planes)))"
    if p: "setup_post layers cs planes (Some crtc) s q" and d: "decided q r"
      and nodi: "\<not> di_chosen cs s q r" for q r
  proof -
    have "startable (composers r c)" if "mComposer r = Some c" for c
      by (rule frame_startable [OF p d nodi that])
    then have ready: "commit_ready r"
      using p d by (simp add: commit_ready_def decided_def setup_post_def)
    obtain es where es: "events r = events s @ es" "planes_set es = []"
      using p d by (auto simp: decided_def quiet_def setup_post_def)
    have all: "all_planes r = mset (filter plane_available planes)"
      using p d by (simp add: setup_post_def decided_def decided_planes_def)
    show ?thesis
    proof (rule okE_mono [OF commit_programs [OF ready]])
      fix t assume "\<exists>es. events t = events r @ es
        \<and> mset (planes_set es) = image_mset plane_id (all_planes r)"
      then obtain es' where "events t = events r @ es'"
        "mset (planes_set es') = image_mset plane_id (all_planes r)" by blast
      then show "\<exists>es. events t = events s @ es
          \<and> mset (planes_set es) = mset (map plane_id (filter plane_available planes))"
        using es all by (intro exI [of _ "es @ es'"]) simp
    qed
  qed
  show ?thesis
  proof (rule okE_mono [OF mp_setup_post [OF layers cs planes osd]])
    fix q assume p: "setup_post layers cs planes (Some crtc) s q"
    show "okE (decideComposition q) (\<lambda>r. if mComposerFbs r \<noteq> [] \<and> \<not> client_forced q
         \<and> (\<exists>c \<in> set cs. composer_getType (composers s c) = MESON_COMPOSITION_DI)
      then commit r = Inl (AssertFailed ''DiComposer no output set!'')
      else okE (commit r) (\<lambda>t. \<exists>es. events t = events s @ es
        \<and> mset (planes_set es) = mset (map plane_id (filter plane_available planes))))"
    proof (rule okE_mono [OF decide_decided])
      show "mp_ready q" using p by (simp add: setup_post_def)
    qed (use step [OF p] frame_asserts [OF p] in \<open>auto simp: di_chosen_def\<close>)
  qed
qed

text \<open>
  The composers of \<open>Hwc2Display::initialize\<close>, the \<open>DiComposer\<close> among them: with a layer
  that is left to the client the frame is committed, without it \<open>commit\<close> asserts.
\<close>

definition demo_di_blank :: mp_state where
  "demo_di_blank = demo_blank\<lparr>composers := demo_composers(2 := DiComposer
     [\<lparr>inputFbs = [], overlayFbs = [], outputFb = None, processorsMgr = False\<rparr>]),
     fbs := demo_store(12 := (demo_store 12)\<lparr>mCompositionType := MESON_COMPOSITION_CLIENT\<rparr>)\<rparr>"

definition frame_of :: "fbid list \<Rightarrow> mp_state \<Rightarrow> fault + mp_state \<times> mp_state" where
  "frame_of layers s = bindE (mp_setup layers [1, 0, 2] demo_planes (Some 0) 0 s) (\<lambda>q.
     bindE (decideComposition q) (\<lambda>r. Inr (q, r)))"

lemma demo_di_inputs:
  "layers_ok demo_di_blank demo_layers" "layers_ok demo_di_blank [10, 11, 13, 14]"
  "composers_ok demo_di_blank [1, 0, 2]"
  by (simp_all add: layers_ok_def composers_ok_def demo_defs demo_di_blank_def)

lemma demo_di_frames:
  "okE (frame_of demo_layers demo_di_blank) (\<lambda>(q, r). client_forced q \<and> mComposerFbs r \<noteq> [])"
  "okE (frame_of [10, 11, 13, 14] demo_di_blank) (\<lambda>(q, r). \<not> client_forced q \<and> mComposerFbs r \<noteq> [])"
  by code_simp+

theorem frame_programs_planes_witness:
  "okE (frame_of demo_layers demo_di_blank) (\<lambda>(q, r). mComposerFbs r \<noteq> [] \<and>
     okE (commit r) (\<lambda>t. \<exists>es. events t = events demo_di_blank @ es
      \<and> mset (planes_set es) = mset (map plane_id (filter plane_available demo_planes))))
   \<and> okE (frame_of [10, 11, 13, 14] demo_di_blank) (\<lambda>(q, r).
       commit r = Inl (AssertFailed ''DiComposer no output set!''))"
proof -
  have di: "\<exists>c \<in> set [1, 0, 2]. composer_getType (composers demo_di_blank c) = MESON_COMPOSITION_DI"
    by (simp add: demo_di_blank_def)
  show ?thesis
    using demo_di_frames di
      frame_programs_planes [OF demo_di_inputs(1,3) demo_inputs(3,4), of 0 0]
      frame_programs_planes [OF demo_di_inputs(2,3) demo_inputs(3,4), of 0 0]
    by (auto simp: frame_of_def okE_iff bindE_Inr_iff)
qed

text \<open>C3
  The composer gets exactly the ui framebuffers inside the compose range, in z-order; every
  framebuffer forced to the client or not scanned out by the first osd plane is among them; and
  when one is forced to the client, it is the client composer that is chosen.
\<close>

theorem decide_composer:
  assumes "mp_ready s"
  shows "okE (decideComposition s) (\<lambda>t.
     mComposerFbs t = filter (is_fb_composed t) (ui_fbs s)
     \<and> (\<forall>f \<in> set (ui_fbs s). needs_composer (typed s) f \<longrightarrow> f \<in> set (mComposerFbs t))
     \<and> (if mComposerFbs t = [] then mComposer t = None
        else (\<exists>c. mComposer t = Some c
          \<and> last (events t) = ComposerAddInputs c (mComposerFbs t) (mOverlayFbs t) 0
          \<and> ((\<exists>f \<in> set (fb_ids s). ctype_of (typed s) f = MESON_COMPOSITION_CLIENT)
               \<longrightarrow> composer_getType (composers t c) = MESON_COMPOSITION_CLIENT))))"
  by (rule okE_mono [OF decide_decided [OF assms]])
    (simp add: decided_def decided_composer_def, auto)

theorem decide_composer_witness:
  "okE (decideComposition demo_ready) (\<lambda>t.
     mComposerFbs t = filter (is_fb_composed t) (ui_fbs demo_ready))"
  by (rule okE_mono [OF decide_composer [OF demo_is_ready]]) simp

text \<open>C4
  Every ui framebuffer the composer does not take is on an osd plane of its own, the composed
  ones share exactly one more, there are never more outputs than osd planes, each output has the
  osd plane of its own \<open>din\<close>, and no plane is lost or used twice.
\<close>

theorem decide_planes:
  assumes "mp_ready s"
  shows "okE (decideComposition s) (\<lambda>t. all_planes t = all_planes s
     \<and> length (osd_part s t) \<le> length (mOsdPlanes s)
     \<and> distinct (map pair_fb (osd_part s t))
     \<and> (\<forall>f \<in> set (ui_fbs s). f \<notin> set (mComposerFbs t) \<longrightarrow> f \<in> set (map pair_fb (osd_part s t)))
     \<and> (mComposerFbs t \<noteq> [] \<longrightarrow>
         (\<exists>!p. p \<in> set (osd_part s t) \<and> pair_fb p \<in> set (mComposerFbs t)))
     \<and> (\<forall>i < length (osd_part s t). din (osd_part s t ! i) = i
           \<and> pair_plane (osd_part s t ! i) = primaryFirst (mOsdPlanes s) ! i))"
  by (rule okE_mono [OF decide_decided [OF assms]]) (simp add: decided_def decided_planes_def)

theorem decide_planes_witness:
  "okE (decideComposition demo_ready) (\<lambda>t. all_planes t = all_planes demo_ready
     \<and> length (osd_part demo_ready t) \<le> length (mOsdPlanes demo_ready))"
  by (rule okE_mono [OF decide_planes [OF demo_is_ready]]) simp

text \<open>
  \<open>setup\<close> establishes what the decision relies on: from layers with distinct valid z-orders, a
  dummy and a client composer and planes within the asserted limits it does not fault, keys the
  layers by z-order and collects every available plane exactly once.
\<close>

theorem setup_ready:
  assumes "layers_ok s layers" and "composers_ok s cs" and "planes_ok planes"
    and "plane_sel OSD_PLANE planes \<noteq> []"
  shows "okE (mp_setup layers cs planes crtc flag s) (\<lambda>t. mp_ready t
     \<and> set (mFramebuffers t) = (\<lambda>f. (zorder_of s f, f)) ` set layers
     \<and> all_planes t = mset (filter plane_available planes))"
  by (rule okE_mono [OF mp_setup_post [OF assms]]) (simp add: setup_post_def)

theorem setup_ready_witness:
  "okE (mp_setup demo_layers [0, 1] demo_planes None 3 demo_blank) (\<lambda>t. mp_ready t
     \<and> set (mFramebuffers t) = (\<lambda>f. (zorder_of demo_blank f, f)) ` set demo_layers
     \<and> all_planes t = mset (filter plane_available demo_planes))"
  by (rule setup_ready [OF demo_inputs])

section \<open>The compose range\<close>

text \<open>C5
  \<open>confirmComposerRange\<close> leaves room for every output: a free range only if each framebuffer
  can have a plane of its own, a range in use with at most as many outputs as planes; and it only
  ever extends the range.
\<close>

theorem confirm_capacity:
  assumes wf: "fbs_wf s" and range: "range_unset s \<or> range_hits s" and planes: "mOsdPlanes s \<noteq> []"
    and len: "int (length (mFramebuffers s)) < 2 ^ 31"
  shows "okE (confirmComposerRange s) (\<lambda>t. fb_ids t = fb_ids s
     \<and> (range_unset t \<and> length (mFramebuffers s) \<le> length (mOsdPlanes s)
        \<or> range_hits t \<and> osd_outputs t \<le> length (mOsdPlanes s))
     \<and> (\<forall>f \<in> set (fb_ids s). is_fb_composed s f \<longrightarrow> is_fb_composed t f))"
proof (cases "range_hits s")
  case True
  from confirmComposerRange_hits [OF wf True planes len] show ?thesis by auto
next
  case False
  with range have unset: "range_unset s" by simp
  from confirmComposerRange_unset [OF wf unset planes len] range_unset_composed [OF wf unset] unset
  show ?thesis by auto
qed

text \<open>
  \<open>fillComposerFbs\<close> turns the range into one output: the composer gets all framebuffers of the
  range, the last of them stays as the reference for the output, the others leave the map.
\<close>

theorem fill_one_output:
  assumes wf: "fbs_wf s" and hits: "range_hits s" and ref: "mDisplayRefFb s = None"
    and empty: "mComposerFbs s = []"
  shows "okE (fillComposerFbs s) (\<lambda>t.
     mComposerFbs t = filter (is_fb_composed s) (fb_ids s)
     \<and> mDisplayRefFb t = Some (last (mComposerFbs t))
     \<and> length (mFramebuffers t) = osd_outputs s
     \<and> set (fb_ids t) = {f \<in> set (fb_ids s). \<not> is_fb_composed s f \<or> f = last (mComposerFbs t)}
     \<and> mOverlayFbs t = filter (is_fb_composed s) (mOverlayFbs s))"
proof -
  have "range_entries s \<noteq> []" using range_entries_ne [OF hits] .
  then have "range_ref s = last (map snd (range_entries s))" by (simp add: range_ref_def last_map)
  then show ?thesis
    using fillComposerFbs_hits [OF wf hits ref] filled_length [OF wf hits] filled_ids [OF wf hits] empty
    by (auto simp: range_entries_ids)
qed

definition demo_range :: mp_state where
  "demo_range = demo_blank\<lparr>mFramebuffers := [(0, 10), (1, 11), (2, 12), (3, 13), (4, 14)],
     mOsdPlanes := [demo_plane 0 OSD_PLANE, demo_plane 1 OSD_PLANE],
     mMinComposerZorder := 2, mMaxComposerZorder := 2\<rparr>"

lemma demo_range_ok:
  "fbs_wf demo_range" "range_hits demo_range" "mOsdPlanes demo_range \<noteq> []"
  "int (length (mFramebuffers demo_range)) < 2 ^ 31" "mDisplayRefFb demo_range = None"
  "mComposerFbs demo_range = []"
  by (simp_all add: demo_range_def fbs_wf_def map_wf_def range_hits_def is_fb_composed_def
      fb_ids_def demo_defs)

theorem confirm_capacity_witness:
  "okE (confirmComposerRange demo_range) (\<lambda>t. fb_ids t = fb_ids demo_range
     \<and> (range_unset t \<and> length (mFramebuffers demo_range) \<le> length (mOsdPlanes demo_range)
        \<or> range_hits t \<and> osd_outputs t \<le> length (mOsdPlanes demo_range)))"
  by (rule okE_mono [OF confirm_capacity]) (use demo_range_ok in auto)

theorem fill_one_output_witness:
  "okE (fillComposerFbs demo_range) (\<lambda>t. mComposerFbs t = [12] \<and> mDisplayRefFb t = Some 12)"
proof (rule okE_mono [OF fill_one_output [OF demo_range_ok(1,2,5,6)]])
  have "filter (is_fb_composed demo_range) (fb_ids demo_range) = [12]"
    by (simp add: demo_range_def is_fb_composed_def fb_ids_def demo_defs word_le_nat_alt)
  then show "mComposerFbs t = [12] \<and> mDisplayRefFb t = Some 12"
    if "mComposerFbs t = filter (is_fb_composed demo_range) (fb_ids demo_range)
     \<and> mDisplayRefFb t = Some (last (mComposerFbs t))
     \<and> length (mFramebuffers t) = osd_outputs demo_range
     \<and> set (fb_ids t) = {f \<in> set (fb_ids demo_range). \<not> is_fb_composed demo_range f
          \<or> f = last (mComposerFbs t)}
     \<and> mOverlayFbs t = filter (is_fb_composed demo_range) (mOverlayFbs demo_range)" for t
    using that by simp
qed

section \<open>Video planes\<close>

text \<open>Two sidebands that want the legacy plane, a video without a plane, a ui layer.\<close>

definition demo_videos :: mp_state where
  "demo_videos = demo_blank\<lparr>mFramebuffers := [(0, 10), (1, 11), (2, 12), (3, 13)],
     mLegacyVideoPlane := Some (demo_plane 2 LEGACY_VIDEO_PLANE),
     fbs := (\<lambda>f. demo_fb (of_nat (f - 10)) (if f = 10 \<or> f = 12 then DRM_FB_VIDEO_SIDEBAND
       else if f = 11 then DRM_FB_VIDEO_UVM_DMA else DRM_FB_SCANOUT))\<rparr>"

text \<open>C6
  \<open>handleVideoComposition\<close> gives each of the three video planes, if it is there, to the first
  framebuffer in z-order that asks for it (for the second legacy plane: one larger than a
  picture-in-picture window). These framebuffers have the composition type of their plane and one
  new pair each, in z-order; every other video framebuffer is a dummy, ui framebuffers are untouched,
  and exactly the planes given away are taken.
\<close>

theorem video_allocation:
  assumes "distinct (fb_ids s)"
  shows "(\<forall>f \<in> set (fb_ids s). ctype_of (handleVideoComposition s) f = (case video_demand s f of
       None \<Rightarrow> ctype_of s f
     | Some (pl, c) \<Rightarrow> if video_winner s (fb_ids s) pl = Some f then c else MESON_COMPOSITION_DUMMY))
   \<and> mDisplayPairs (handleVideoComposition s) =
       mDisplayPairs s @ map (video_pair s) (filter (video_wins s (fb_ids s)) (fb_ids s))
   \<and> (\<forall>pl. plane_slot (handleVideoComposition s) pl =
       (if video_winner s (fb_ids s) pl = None then plane_slot s pl else None))"
  using handleVideoComposition_allotted [OF assms] by (simp add: video_allotted_def video_type_def)

theorem video_allocation_witness:
  "ctype_of (handleVideoComposition demo_videos) 10 = MESON_COMPOSITION_PLANE_AMVIDEO_SIDEBAND
   \<and> ctype_of (handleVideoComposition demo_videos) 12 = MESON_COMPOSITION_DUMMY
   \<and> map pair_fb (mDisplayPairs (handleVideoComposition demo_videos)) = [10]
   \<and> mLegacyVideoPlane (handleVideoComposition demo_videos) = None"
proof -
  have d: "fb_ids demo_videos = [10, 11, 12, 13]" by (simp add: demo_videos_def fb_ids_def)
  have e: "video_demand demo_videos 10 = Some (LEGACY_VIDEO_PLANE, MESON_COMPOSITION_PLANE_AMVIDEO_SIDEBAND)"
    "video_demand demo_videos 12 = Some (LEGACY_VIDEO_PLANE, MESON_COMPOSITION_PLANE_AMVIDEO_SIDEBAND)"
    "video_winner demo_videos [10, 11, 12, 13] LEGACY_VIDEO_PLANE = Some 10"
    "filter (video_wins demo_videos [10, 11, 12, 13]) [10, 11, 12, 13] = [10]" "mDisplayPairs demo_videos = []"
    by code_simp+
  have p: "pair_fb (video_pair demo_videos f) = f" for f by (simp add: video_pair_def Let_def)
  have "distinct (fb_ids demo_videos)" by (simp add: d)
  from video_allocation [OF this, unfolded d] show ?thesis
    using e p by (auto dest: spec [of _ LEGACY_VIDEO_PLANE])
qed
text \<open>
  Giving planes to video framebuffers neither loses nor duplicates a plane.
\<close>

lemma video_keeps_planes:
  "all_planes (handleVideoComposition s) = all_planes s"
  using handleVideoComposition_frame by (simp add: video_frame_def)

section \<open>Z-orders and commit\<close>

text \<open>C7
  When the z-orders of the pairs are below 64, as the code's comments reserve, the osd pairs
  end in the band 65 to 128 and the pairs of the legacy video planes in 1 to 64 or 129 to 192.
\<close>

theorem zorder_bands:
  assumes fit: "zorders_fit s" and i: "i < length (mDisplayPairs s)"
  shows "(is_osd_pair (mDisplayPairs s ! i) \<longrightarrow>
      65 \<le> presentZorder (new_pair s i) \<and> presentZorder (new_pair s i) \<le> 128)
    \<and> (is_video_pair (mDisplayPairs s ! i) \<longrightarrow>
      1 \<le> presentZorder (new_pair s i) \<and> presentZorder (new_pair s i) \<le> 64
      \<or> 129 \<le> presentZorder (new_pair s i) \<and> presentZorder (new_pair s i) \<le> 192)"
proof -
  have "presentZorder (mDisplayPairs s ! i) < 64" using fit i by (simp add: zorders_fit_def)
  from band_arith [OF this] show ?thesis
    using new_pair_cases(1,2) [OF i] by simp
qed

text \<open>C8
  The order on the screen is kept: osd pairs keep their relative order, a video pair put in the
  top band was above every osd pair and ends above all of them, every other video pair ends below
  all of them, and the first video pair above all osd pairs is put on top.
\<close>

theorem zorder_order:
  assumes fit: "zorders_fit s" and i: "i < length (mDisplayPairs s)" and j: "j < length (mDisplayPairs s)"
    and osd: "is_osd_pair (mDisplayPairs s ! i)"
  shows "(is_osd_pair (mDisplayPairs s ! j) \<longrightarrow>
      (presentZorder (new_pair s i) < presentZorder (new_pair s j) \<longleftrightarrow>
       presentZorder (mDisplayPairs s ! i) < presentZorder (mDisplayPairs s ! j)))
    \<and> (is_video_pair (mDisplayPairs s ! j) \<longrightarrow>
      (if goes_on_top s j
       then presentZorder (mDisplayPairs s ! i) < zorder_of s (pair_fb (mDisplayPairs s ! j))
         \<and> presentZorder (new_pair s i) < presentZorder (new_pair s j)
       else presentZorder (new_pair s j) < presentZorder (new_pair s i)))"
proof -
  have z: "presentZorder (mDisplayPairs s ! i) < 64" "presentZorder (mDisplayPairs s ! j) < 64"
    using fit i j by (simp_all add: zorders_fit_def)
  have "presentZorder (mDisplayPairs s ! i) \<le> max_osd s"
    using max_osd_fit(1) [OF fit _ osd] i by simp
  then have "goes_on_top s j \<Longrightarrow>
      presentZorder (mDisplayPairs s ! i) < zorder_of s (pair_fb (mDisplayPairs s ! j))"
    by (auto simp: goes_on_top_def)
  then show ?thesis
    using band_less [OF z] band_less(3) [OF z(2,1)] new_pair_cases(1) [OF i osd]
      new_pair_cases(1,2) [OF j] by simp
qed

definition demo_pairs :: mp_state where
  "demo_pairs = demo_range\<lparr>mDisplayPairs :=
     [\<lparr>din = 3, presentZorder = 4, pair_fb = 14, pair_plane = demo_plane 2 LEGACY_VIDEO_PLANE\<rparr>,
      \<lparr>din = 0, presentZorder = 3, pair_fb = 13, pair_plane = demo_plane 1 OSD_PLANE\<rparr>,
      \<lparr>din = 1, presentZorder = 2, pair_fb = 12, pair_plane = demo_plane 0 OSD_PLANE\<rparr>]\<rparr>"

lemma demo_pairs_fit: "zorders_fit demo_pairs" "length (mDisplayPairs demo_pairs) = 3"
  "is_osd_pair (mDisplayPairs demo_pairs ! 1)" "is_video_pair (mDisplayPairs demo_pairs ! 0)"
  by (simp_all add: zorders_fit_def demo_pairs_def demo_range_def demo_defs is_osd_pair_def is_video_pair_def)

theorem zorder_bands_witness:
  "65 \<le> presentZorder (new_pair demo_pairs 1) \<and> presentZorder (new_pair demo_pairs 1) \<le> 128"
  using zorder_bands [OF demo_pairs_fit(1), of 1] demo_pairs_fit by simp

theorem zorder_order_witness:
  "presentZorder (new_pair demo_pairs 1) < presentZorder (new_pair demo_pairs 0)"
proof -
  have "goes_on_top demo_pairs 0"
    by (simp add: goes_on_top_def max_osd_def demo_pairs_def demo_range_def demo_defs is_osd_pair_def
        is_video_pair_def)
  then show ?thesis
    using zorder_order [OF demo_pairs_fit(1) _ _ demo_pairs_fit(3), of 0] demo_pairs_fit by simp
qed

definition under_blank :: mp_state where
  "under_blank = demo_blank\<lparr>fbs := (\<lambda>f. if f = 10 then demo_fb 0 DRM_FB_RENDER
     else demo_fb 1 DRM_FB_VIDEO_SIDEBAND)\<rparr>"

text \<open>A layer forced to the client composer at the bottom of the stack makes
  \<open>handleOverlayVideoZorder\<close> decrement the z-order 0 of its pair, which wraps around; the
  largest osd z-order is then 4294967295 and a video layer above it is put in the bottom band: it
  is sent to the hardware with z-order 2, under the composed output with z-order 65.
\<close>

theorem video_above_client_is_hidden:
  "zorder_of under_blank 10 < zorder_of under_blank 11
   \<and> okE (bindE (bindE (mp_setup [10, 11] [0, 1] demo_planes (Some 0) 0 under_blank)
       decideComposition) commit)
     (\<lambda>t. mComposerFbs t = [10]
       \<and> SetPlane 1 (Some 99) 65 UNBLANK \<in> set (events t)
       \<and> SetPlane 2 (Some 11) 2 UNBLANK \<in> set (events t))"
  by code_simp

text \<open>C9
  \<open>commit\<close> reaches the end and programs every plane of the frame exactly once: those of the
  pairs with a framebuffer, all others blank.
\<close>

theorem commit_every_plane:
  assumes "commit_ready s"
  shows "okE (commit s) (\<lambda>t. \<exists>es. events t = events s @ es
    \<and> mset (planes_set es) = image_mset plane_id (all_planes s))"
  by (rule commit_programs [OF assms])

lemma demo_pairs_ready: "commit_ready (demo_pairs\<lparr>mCrtc := Some 0\<rparr>)"
  by (simp add: commit_ready_def demo_pairs_def demo_range_def demo_defs)

theorem commit_every_plane_witness:
  "okE (commit (demo_pairs\<lparr>mCrtc := Some 0\<rparr>)) (\<lambda>t. \<exists>es. events t = es
    \<and> mset (planes_set es) = image_mset plane_id (all_planes (demo_pairs\<lparr>mCrtc := Some 0\<rparr>)))"
  using commit_every_plane [OF demo_pairs_ready]
  by (simp add: demo_pairs_def demo_range_def demo_blank_def)

text \<open>After \<open>updateComposition\<close> the next commit repeats the decision: the pairs and their z-orders
  are the ones the first commit left, not shifted a second time, and the planes programmed are all
  those of the frame but the ones \<open>setup\<close> put aside as unused.
\<close>

theorem recommit_same_pairs:
  assumes ready: "commit_ready s"
  shows "okE (commit s) (\<lambda>t. okE (commit (updateComposition t)) (\<lambda>u.
    mDisplayPairs u = mDisplayPairs t
    \<and> (\<exists>es. events u = events t @ es
      \<and> mset (planes_set es) + image_mset plane_id (mset (mOtherPlanes s)) =
        image_mset plane_id (all_planes s))))"
  by (rule okE_mono [OF commit_committed [OF ready]]) (use recommit(2) [OF _ ready] in blast)

theorem recommit_same_pairs_witness:
  "okE (commit (demo_pairs\<lparr>mCrtc := Some 0\<rparr>)) (\<lambda>t. okE (commit (updateComposition t)) (\<lambda>u.
    mDisplayPairs u = mDisplayPairs t))"
  by (rule okE_mono [OF recommit_same_pairs [OF demo_pairs_ready]]) (simp add: okE_iff, blast)

end
