(* ===== verification/VideoState.thy ===== *)
theory VideoState
  imports Multiplanes
begin

text \<open>
  The members and member functions that \<open>MultiplanesWithDiComposition\<close> and
  \<open>MultiplanesWithHRComposition\<close> have in common for their hwc video planes: the state, the
  framebuffer the video composer writes to, and the choice of the video framebuffer that gets
  a plane of its own.

  \<open>next_fb\<close> is the identifier the next \<open>std::make_shared<DrmFramebuffer>\<close> returns.
\<close>

section \<open>State\<close>

record video_state = osd_state +
  mDiComposer :: "cid option"
  mHwcVideoPlanes :: "hw_display_plane list"
  mDIComposerFbs :: "fbid list"
  mHwcVideoInputFbs :: "fbid list"
  mOsdPlaneNum :: int
  mVideoPlaneNum :: int
  mScaleValue :: rat
  mIsSideBandDisable :: bool
  mVideoProcessorsMgr :: bool
  mIsDisablePostProcessor :: bool
  next_fb :: fbid

text \<open>
  The constructor of \<open>DrmFramebuffer\<close> on the memory at an address; \<open>mId\<close> and
  \<open>mFbHandleUpdated\<close> keep what the memory holds. Its virtual getters are those of the class.
\<close>

definition new_framebuffer :: "drm_framebuffer \<Rightarrow> drm_framebuffer" where
  "new_framebuffer junk = junk\<lparr>
     mBufferHandle := None, mFbType := DRM_FB_RENDER, mSourceCrop := mk_rect 0 0 0 0,
     mDisplayFrame := mk_rect 0 0 0 0, mTransform := 0, mZorder := 0xFFFFFFFF, mSecure := False,
     mCompositionType := MESON_COMPOSITION_UNDETERMINED, mCurReleaseFence := -1,
     mPrevReleaseFence := -1, mBufferState := MODE_BACK, videoType := 0, isVtBuffer := False,
     haveValidBuffer := True\<rparr>"

definition allocateDiOutputFb :: "u32 \<Rightarrow> 'a video_state_scheme
    \<Rightarrow> fbid \<times> 'a video_state_scheme" where
  "allocateDiOutputFb z s =
     (let f = next_fb s in
      (f, s\<lparr>next_fb := Suc f,
            fbs := (fbs s)(f := (new_framebuffer (fbs s f))
              \<lparr>mFbType := DRM_FB_DI_COMPOSE_OUTPUT, mCompositionType := MESON_COMPOSITION_DI,
               mZorder := z\<rparr>)\<rparr>))"

section \<open>Choosing a video framebuffer\<close>

text \<open>\<open>std::find\<close> and \<open>erase\<close>: the first occurrence goes; the result says whether there was none.\<close>

definition deleteFbFromeVectorFbs :: "fbid list \<Rightarrow> fbid option \<Rightarrow> int \<times> fbid list" where
  "deleteFbFromeVectorFbs vs fb =
     (case fb of
        None \<Rightarrow> (0, vs)
      | Some f \<Rightarrow> if f \<in> set vs then (0, remove1 f vs) else (1, vs))"

definition frames_overlap :: "drm_rect \<Rightarrow> drm_rect \<Rightarrow> bool" where
  "frames_overlap a b \<longleftrightarrow>
     int32 (max 0 (int32 (min (rect_right a) (rect_right b) - max (rect_left a) (rect_left b)))
       * max 0 (int32 (min (rect_bottom a) (rect_bottom b) - max (rect_top a) (rect_top b)))) \<noteq> 0"

text \<open>The inner loop starts at the framebuffer itself and skips its own pointer.\<close>

fun chooseVideoFbsBaseNoOverlap :: "(fbid \<Rightarrow> drm_framebuffer) \<Rightarrow> fbid list \<Rightarrow> fbid list" where
  "chooseVideoFbsBaseNoOverlap h [] = []"
| "chooseVideoFbsBaseNoOverlap h (f # fs) =
     (if list_ex (\<lambda>g. g \<noteq> f \<and> frames_overlap (mDisplayFrame (h f)) (mDisplayFrame (h g)))
           (f # fs)
      then chooseVideoFbsBaseNoOverlap h fs
      else f # chooseVideoFbsBaseNoOverlap h fs)"

definition window_region :: "drm_rect \<Rightarrow> int" where
  "window_region r = int32 (rect_w r * rect_h r)"

fun biggestStep :: "(fbid \<Rightarrow> drm_framebuffer) \<Rightarrow> fbid \<Rightarrow> (fbid \<times> int) option
    \<Rightarrow> (fbid \<times> int) option" where
  "biggestStep h f None = Some (f, window_region (mDisplayFrame (h f)))"
| "biggestStep h f (Some (large, mx)) =
     (let region = window_region (mDisplayFrame (h f)) in
      if mx < region then Some (f, region)
      else if region = mx \<and> mZorder (h large) < mZorder (h f) then Some (f, mx)
      else Some (large, mx))"

definition chooseOneVideoFbBaseBiggestWindow :: "(fbid \<Rightarrow> drm_framebuffer) \<Rightarrow> fbid list
    \<Rightarrow> fbid option" where
  "chooseOneVideoFbBaseBiggestWindow h fs = map_option fst (fold (biggestStep h) fs None)"

definition has_video_type :: "(fbid \<Rightarrow> drm_framebuffer) \<Rightarrow> int \<Rightarrow> fbid \<Rightarrow> bool" where
  "has_video_type h ty f \<longleftrightarrow> and (videoType (h f)) ty = ty"

text \<open>
  One round keeps the framebuffers of the type when there is one. The loop erases with
  \<open>fbs.erase(fbIt)\<close> and goes on with the same iterator, which then points to the next element;
  it ends when one framebuffer is left.
\<close>

fun filterVideoTypes :: "(fbid \<Rightarrow> drm_framebuffer) \<Rightarrow> int list \<Rightarrow> fbid list \<Rightarrow> fbid list" where
  "filterVideoTypes h [] fs = fs"
| "filterVideoTypes h (ty # tys) fs =
     (let fs' = (if list_ex (has_video_type h ty) fs then filter (has_video_type h ty) fs else fs)
      in if length fs' = 1 then fs' else filterVideoTypes h tys fs')"

fun topVideoFb :: "(fbid \<Rightarrow> drm_framebuffer) \<Rightarrow> fbid list \<Rightarrow> fbid option" where
  "topVideoFb h [] = None"
| "topVideoFb h (f # fs) =
     Some (fold (\<lambda>g out. if mZorder (h out) \<le> mZorder (h g) then g else out) (f # fs) f)"

definition video_types :: "platform \<Rightarrow> int list" where
  "video_types p = [AM_VIDEO_DI_POST p, AM_VIDEO_SECURE p, AM_VIDEO_DV p, AM_VIDEO_4K p,
     AM_VIDEO_AFBC p, AM_VIDEO_HDR p, AM_VIDEO_HDR10_PLUS p, AM_VIDEO_HLG p]"

definition chooseOneVideoFbBaseVideoType :: "platform \<Rightarrow> (fbid \<Rightarrow> drm_framebuffer) \<Rightarrow> fbid list
    \<Rightarrow> fbid option" where
  "chooseOneVideoFbBaseVideoType p h vs =
     (let fs = filter (\<lambda>f. 0 < videoType (h f)) vs;
          fs = (if fs \<noteq> [] then filterVideoTypes h (video_types p) fs else fs)
      in topVideoFb h fs)"

text \<open>The return value of \<open>chooseOneVideoFb\<close> is 0 unless there is no framebuffer to choose from.\<close>

definition chosenVideoFb :: "platform \<Rightarrow> (fbid \<Rightarrow> drm_framebuffer) \<Rightarrow> bool \<Rightarrow> fbid list
    \<Rightarrow> fbid option" where
  "chosenVideoFb p h bVideoCompose vs =
     (let byType = (\<lambda>fs. case chooseOneVideoFbBaseVideoType p h fs of
                          Some f \<Rightarrow> Some f
                        | None \<Rightarrow> chooseOneVideoFbBaseBiggestWindow h fs)
      in if \<not> bVideoCompose then byType vs
         else (let noOverlay = chooseVideoFbsBaseNoOverlap h vs
               in if length noOverlay = 1 then Some (hd noOverlay) else byType noOverlay))"

definition chooseOneVideoFb :: "bool \<Rightarrow> 'a video_state_scheme
    \<Rightarrow> bool \<times> fbid option \<times> 'a video_state_scheme" where
  "chooseOneVideoFb bVideoCompose s =
     (if mDIComposerFbs s = [] then (False, None, s)
      else
        (let out = chosenVideoFb (plat s) (fbs s) bVideoCompose (mDIComposerFbs s)
         in (True, out,
             s\<lparr>mDIComposerFbs := snd (deleteFbFromeVectorFbs (mDIComposerFbs s) out)\<rparr>)))"

end
