(* ===== verification/VideoChoice.thy ===== *)
theory VideoChoice
  imports VideoState "HOL-Library.Sublist"
begin

text \<open>
  Which video framebuffer gets a plane of its own. \<open>chooseNoOverlap_*\<close>: the framebuffers
  \<open>chooseVideoFbsBaseNoOverlap\<close> returns do not overlap each other. \<open>biggestWindow\<close> and
  \<open>chooseByType_Some\<close>: the two criteria return a greatest element, of the order by window
  and z-order and of the lexicographic order by video type and z-order. \<open>best_video\<close> puts
  them together for \<open>chooseOneVideoFb\<close>.
\<close>

section \<open>Disjoint frames\<close>

lemma frames_overlap_sym: "frames_overlap a b = frames_overlap b a"
  by (simp add: frames_overlap_def min.commute max.commute)

definition disjoint_frames :: "(fbid \<Rightarrow> drm_framebuffer) \<Rightarrow> fbid \<Rightarrow> fbid \<Rightarrow> bool" where
  "disjoint_frames h f g \<longleftrightarrow> \<not> frames_overlap (mDisplayFrame (h f)) (mDisplayFrame (h g))"

lemma chooseNoOverlap_subset: "set (chooseVideoFbsBaseNoOverlap h fs) \<subseteq> set fs"
  by (induction fs) auto

lemma chooseNoOverlap_subseq: "subseq (chooseVideoFbsBaseNoOverlap h fs) fs"
  by (induction fs) auto

lemma chooseNoOverlap_last:
  assumes "fs \<noteq> []" shows "last fs \<in> set (chooseVideoFbsBaseNoOverlap h fs)"
  using assms by (induction fs) (auto split: if_splits)

lemma chooseNoOverlap_pairwise:
  "sorted_wrt (\<lambda>f g. f \<noteq> g \<longrightarrow> disjoint_frames h f g) (chooseVideoFbsBaseNoOverlap h fs)"
proof (induction fs)
  case (Cons f fs)
  then show ?case
    using chooseNoOverlap_subset [of h fs]
    by (auto simp: disjoint_frames_def list_ex_iff)
qed simp

lemma chooseNoOverlap_dropped:
  assumes "f \<in> set fs" and "f \<notin> set (chooseVideoFbsBaseNoOverlap h fs)"
  shows "\<exists>g \<in> set fs. g \<noteq> f \<and> \<not> disjoint_frames h f g"
  using assms by (induction fs) (auto simp: disjoint_frames_def list_ex_iff split: if_splits)

section \<open>The biggest window\<close>

definition window_le :: "(fbid \<Rightarrow> drm_framebuffer) \<Rightarrow> fbid \<Rightarrow> fbid \<Rightarrow> bool" where
  "window_le h f g \<longleftrightarrow>
     window_region (mDisplayFrame (h f)) < window_region (mDisplayFrame (h g))
     \<or> (window_region (mDisplayFrame (h f)) = window_region (mDisplayFrame (h g))
        \<and> mZorder (h f) \<le> mZorder (h g))"

lemma window_le_trans: "window_le h f g \<Longrightarrow> window_le h g k \<Longrightarrow> window_le h f k"
  by (auto simp: window_le_def)

lemma window_le_refl [simp]: "window_le h f f"
  by (simp add: window_le_def)

lemma biggestWindow_fold:
  "fs \<noteq> [] \<Longrightarrow> \<exists>f \<in> set fs. fold (biggestStep h) fs None =
      Some (f, window_region (mDisplayFrame (h f))) \<and> (\<forall>g \<in> set fs. window_le h g f)"
proof (induction fs rule: rev_induct)
  case (snoc x xs)
  show ?case
  proof (cases "xs = []")
    case True
    then show ?thesis by simp
  next
    case False
    with snoc.IH obtain f where f: "f \<in> set xs"
      "fold (biggestStep h) xs None = Some (f, window_region (mDisplayFrame (h f)))"
      "\<forall>g \<in> set xs. window_le h g f" by blast
    consider "window_le h f x \<and> \<not> window_le h x f" | "window_le h x f"
      unfolding window_le_def by force
    then show ?thesis
    proof cases
      case 1
      then have step: "biggestStep h x (Some (f, window_region (mDisplayFrame (h f))))
          = Some (x, window_region (mDisplayFrame (h x)))"
        by (auto simp: window_le_def)
      have "window_le h g x" if "g \<in> set xs" for g
        using f(3) that 1 window_le_trans by blast
      with step f(2) show ?thesis by (intro bexI [of _ x]) simp_all
    next
      case 2
      then have step: "biggestStep h x (Some (f, window_region (mDisplayFrame (h f))))
          = Some (f, window_region (mDisplayFrame (h f)))"
        by (auto simp: window_le_def Let_def dest: leD)
      with 2 f show ?thesis by (intro bexI [of _ f]) simp_all
    qed
  qed
qed simp

lemma biggestWindow:
  assumes "fs \<noteq> []"
  shows "\<exists>f \<in> set fs. chooseOneVideoFbBaseBiggestWindow h fs = Some f
    \<and> (\<forall>g \<in> set fs. window_le h g f)"
  using biggestWindow_fold [OF assms, of h]
  by (auto simp: chooseOneVideoFbBaseBiggestWindow_def)

section \<open>The video type\<close>

text \<open>The types of a framebuffer in the order of preference, compared lexicographically.\<close>

fun type_le :: "(fbid \<Rightarrow> drm_framebuffer) \<Rightarrow> int list \<Rightarrow> fbid \<Rightarrow> fbid \<Rightarrow> bool" where
  "type_le h [] f g = True"
| "type_le h (ty # tys) f g =
     (if has_video_type h ty f = has_video_type h ty g then type_le h tys f g
      else has_video_type h ty g)"

lemma type_le_refl [simp]: "type_le h tys f f"
  by (induction tys) auto

lemma type_le_trans: "type_le h tys a b \<Longrightarrow> type_le h tys b c \<Longrightarrow> type_le h tys a c"
  by (induction tys) (auto split: if_splits)

lemma filterVideoTypes_set:
  "set (filterVideoTypes h tys fs) = {f \<in> set fs. \<forall>g \<in> set fs. type_le h tys g f}"
proof (induction tys arbitrary: fs)
  case (Cons ty tys)
  let ?has = "has_video_type h ty"
  let ?fs = "if list_ex ?has fs then filter ?has fs else fs"
  have eq: "{f \<in> set fs. \<forall>g \<in> set fs. type_le h (ty # tys) g f}
      = {f \<in> set ?fs. \<forall>g \<in> set ?fs. type_le h tys g f}"
    by (auto simp: list_ex_iff split: if_splits)
  show ?case
  proof (cases "length ?fs = 1")
    case True
    then obtain f where "?fs = [f]" by (auto simp: length_Suc_conv)
    then show ?thesis unfolding eq by (auto simp: Let_def)
  next
    case False
    then show ?thesis unfolding eq using Cons.IH [of ?fs] by simp
  qed
qed simp

lemma filterVideoTypes_ne: "fs \<noteq> [] \<Longrightarrow> filterVideoTypes h tys fs \<noteq> []"
proof (induction tys arbitrary: fs)
  case (Cons ty tys)
  have "(if list_ex (has_video_type h ty) fs then filter (has_video_type h ty) fs else fs) \<noteq> []"
    using Cons.prems by (auto simp: list_ex_iff filter_empty_conv)
  with Cons.IH show ?case by (auto simp: Let_def)
qed simp

lemma topVideoFb_fold:
  "fold (\<lambda>g out. if mZorder (h out) \<le> mZorder (h g) then g else out) gs a \<in> insert a (set gs)
    \<and> (\<forall>k \<in> insert a (set gs). mZorder (h k) \<le>
        mZorder (h (fold (\<lambda>g out. if mZorder (h out) \<le> mZorder (h g) then g else out) gs a)))"
proof (induction gs arbitrary: a)
  case (Cons g gs)
  from Cons.IH [of g] Cons.IH [of a] show ?case by (auto intro: order_trans)
qed simp

lemma topVideoFb:
  assumes "fs \<noteq> []"
  shows "\<exists>f \<in> set fs. topVideoFb h fs = Some f \<and> (\<forall>g \<in> set fs. mZorder (h g) \<le> mZorder (h f))"
proof (cases fs)
  case (Cons f gs)
  from topVideoFb_fold [of h "f # gs" f] Cons show ?thesis by simp
qed (use assms in simp)

definition typed_fbs :: "(fbid \<Rightarrow> drm_framebuffer) \<Rightarrow> fbid list \<Rightarrow> fbid list" where
  "typed_fbs h fs = filter (\<lambda>f. 0 < videoType (h f)) fs"

lemma chooseByType:
  "chooseOneVideoFbBaseVideoType p h fs =
     (if typed_fbs h fs = [] then None
      else topVideoFb h (filterVideoTypes h (video_types p) (typed_fbs h fs)))"
  by (simp add: chooseOneVideoFbBaseVideoType_def typed_fbs_def)

lemma chooseByType_Some:
  assumes "typed_fbs h fs \<noteq> []"
  shows "\<exists>f \<in> set (typed_fbs h fs). chooseOneVideoFbBaseVideoType p h fs = Some f
    \<and> (\<forall>g \<in> set (typed_fbs h fs). type_le h (video_types p) g f
        \<and> (type_le h (video_types p) f g \<longrightarrow> mZorder (h g) \<le> mZorder (h f)))"
proof -
  let ?c = "filterVideoTypes h (video_types p) (typed_fbs h fs)"
  note c = filterVideoTypes_set [of h "video_types p" "typed_fbs h fs"]
  have top: "\<exists>f \<in> set ?c. topVideoFb h ?c = Some f \<and> (\<forall>g \<in> set ?c. mZorder (h g) \<le> mZorder (h f))"
    by (rule topVideoFb [OF filterVideoTypes_ne [OF assms]])
  then obtain f where f: "f \<in> set ?c" "topVideoFb h ?c = Some f"
    "\<forall>g \<in> set ?c. mZorder (h g) \<le> mZorder (h f)" by blast
  have "mZorder (h g) \<le> mZorder (h f)"
    if g: "g \<in> set (typed_fbs h fs)" "type_le h (video_types p) f g" for g
  proof -
    have "\<forall>k \<in> set (typed_fbs h fs). type_le h (video_types p) k g"
      using f(1) g(2) type_le_trans unfolding c by blast
    with g(1) have "g \<in> set ?c" unfolding c by blast
    with f(3) show ?thesis by blast
  qed
  moreover have "f \<in> set (typed_fbs h fs)" "\<forall>g \<in> set (typed_fbs h fs). type_le h (video_types p) g f"
    using f(1) unfolding c by blast+
  moreover have "chooseOneVideoFbBaseVideoType p h fs = Some f"
    using f(2) assms by (simp add: chooseByType)
  ultimately show ?thesis by blast
qed

section \<open>The choice\<close>

definition video_candidates :: "(fbid \<Rightarrow> drm_framebuffer) \<Rightarrow> bool \<Rightarrow> fbid list \<Rightarrow> fbid list" where
  "video_candidates h bVideoCompose fs =
     (if bVideoCompose then chooseVideoFbsBaseNoOverlap h fs else fs)"

text \<open>
  \<open>f\<close> is the best of \<open>fs\<close>: if some have a video type, one of the greatest type and then the
  greatest z-order; otherwise one of the greatest window and then the greatest z-order.
\<close>

definition best_video :: "platform \<Rightarrow> (fbid \<Rightarrow> drm_framebuffer) \<Rightarrow> fbid list \<Rightarrow> fbid \<Rightarrow> bool" where
  "best_video p h fs f \<longleftrightarrow> f \<in> set fs \<and>
     (if typed_fbs h fs = [] then \<forall>g \<in> set fs. window_le h g f
      else f \<in> set (typed_fbs h fs)
        \<and> (\<forall>g \<in> set (typed_fbs h fs). type_le h (video_types p) g f
             \<and> (type_le h (video_types p) f g \<longrightarrow> mZorder (h g) \<le> mZorder (h f))))"

lemma candidates_ne: "fs \<noteq> [] \<Longrightarrow> video_candidates h c fs \<noteq> []"
  using chooseNoOverlap_last [of fs h] by (auto simp: video_candidates_def)

lemma candidates_subset: "set (video_candidates h c fs) \<subseteq> set fs"
  using chooseNoOverlap_subset by (auto simp: video_candidates_def)

lemma byType_best:
  assumes "fs \<noteq> []"
  shows "\<exists>f. (case chooseOneVideoFbBaseVideoType p h fs of Some f \<Rightarrow> Some f
      | None \<Rightarrow> chooseOneVideoFbBaseBiggestWindow h fs) = Some f \<and> best_video p h fs f"
proof (cases "typed_fbs h fs = []")
  case True
  with biggestWindow [OF assms, of h] show ?thesis
    by (auto simp: chooseByType best_video_def)
next
  case False
  from chooseByType_Some [OF this, of p] obtain f where
    "f \<in> set (typed_fbs h fs)" "chooseOneVideoFbBaseVideoType p h fs = Some f"
    "\<forall>g \<in> set (typed_fbs h fs). type_le h (video_types p) g f
        \<and> (type_le h (video_types p) f g \<longrightarrow> mZorder (h g) \<le> mZorder (h f))" by blast
  moreover from this(1) have "f \<in> set fs" by (simp add: typed_fbs_def)
  ultimately show ?thesis using False by (simp add: best_video_def)
qed

lemma best_single: "best_video p h [f] f"
  by (auto simp: best_video_def typed_fbs_def)

lemma chosenVideoFb_best:
  assumes "fs \<noteq> []"
  shows "\<exists>f. chosenVideoFb p h c fs = Some f \<and> best_video p h (video_candidates h c fs) f"
proof (cases "c \<and> length (chooseVideoFbsBaseNoOverlap h fs) = 1")
  case True
  then obtain f where "chooseVideoFbsBaseNoOverlap h fs = [f]" by (auto simp: length_Suc_conv)
  with True show ?thesis by (simp add: chosenVideoFb_def video_candidates_def best_single)
next
  case False
  have cand: "video_candidates h c fs = (if c then chooseVideoFbsBaseNoOverlap h fs else fs)"
    by (rule video_candidates_def)
  from False have "chosenVideoFb p h c fs =
      (case chooseOneVideoFbBaseVideoType p h (video_candidates h c fs) of Some f \<Rightarrow> Some f
        | None \<Rightarrow> chooseOneVideoFbBaseBiggestWindow h (video_candidates h c fs))"
    unfolding cand by (cases c) (simp_all add: chosenVideoFb_def Let_def)
  with byType_best [OF candidates_ne [OF assms, where h = h and c = c], where p = p and h = h]
  show ?thesis by simp
qed

lemma chooseOneVideoFb_best:
  assumes "mDIComposerFbs s \<noteq> []"
  shows "\<exists>f. chooseOneVideoFb c s = (True, Some f,
      s\<lparr>mDIComposerFbs := remove1 f (mDIComposerFbs s)\<rparr>)
    \<and> f \<in> set (mDIComposerFbs s)
    \<and> best_video (plat s) (fbs s) (video_candidates (fbs s) c (mDIComposerFbs s)) f"
proof -
  from chosenVideoFb_best [OF assms] obtain f where
    f: "chosenVideoFb (plat s) (fbs s) c (mDIComposerFbs s) = Some f"
    "best_video (plat s) (fbs s) (video_candidates (fbs s) c (mDIComposerFbs s)) f" by blast
  then have "f \<in> set (mDIComposerFbs s)"
    using candidates_subset unfolding best_video_def by blast
  with f assms show ?thesis
    by (simp add: chooseOneVideoFb_def deleteFbFromeVectorFbs_def)
qed

end
