(* ===== verification/MultiplanesDi.thy ===== *)
theory MultiplanesDi
  imports VideoState
begin

text \<open>
  \<open>composition/simplestrategy/MultiplanesWithDiComposition\<close>: several osd planes and
  several hwc video planes; when there are more video layers than planes, the video composer
  device composes the rest into the last one. Names that would clash with the other
  strategies have the prefix \<open>wdi_\<close>; the members whose code is the same, line by line, in
  \<open>MultiplanesComposition\<close> are the operations of \<open>OsdState\<close> at this strategy's state.

  \<open>OSD_OUTPUT_ONE_CHANNEL\<close> is 1 here too. The members for the whiteboard
  (\<open>mWhiteBoardMode\<close> and what follows) survive \<open>init\<close>.
\<close>

section \<open>State\<close>

record wdi_state = video_state +
  mVsyncRefreshRate :: u32
  mWhiteBoardMode :: bool
  mComProcessor :: bool
  mWBQueue :: "fbid list"
  mWhiteBoardData :: "fbid option"
  outfb :: "fbid option"
  showfb :: "fbid option"

definition WB_BUF_CNT :: nat where "WB_BUF_CNT = 2"
definition COMPOSE_DISABLE_SIDEBAND :: u32 where "COMPOSE_DISABLE_SIDEBAND = 8"
definition COMPOSE_DISABLE_POSTPROCESSOR :: u32 where "COMPOSE_DISABLE_POSTPROCESSOR = 16"
definition GFCD_ODD_SIZE :: nat where "GFCD_ODD_SIZE = 0"

section \<open>Setup\<close>

definition wdi_init :: "wdi_state \<Rightarrow> wdi_state" where
  "wdi_init s = s\<lparr>
     mHDRMode := False, mHideSecureLayer := False, mForceClientComposer := False,
     mHaveClient := False, mInsideVideoFbsFlag := False, mIsSideBandDisable := False,
     mIsDisablePostProcessor := False,
     mDisplayRefFb := None, mCrtc := None, mFramebuffers := [],
     mDummyComposer := None, mClientComposer := None, mDiComposer := None,
     mOtherComposers := [],
     mOsdPlanes := [], mHwcVideoPlanes := [], mOtherPlanes := [],
     mComposer := None, mOverlayFbs := [], mComposerFbs := [], mDIComposerFbs := [],
     mHwcVideoInputFbs := [], mDisplayPairs := [],
     mMinComposerZorder := INVALID s, mMaxComposerZorder := INVALID s,
     mMinVideoZorder := INVALID s, mMaxVideoZorder := INVALID s\<rparr>"

definition handleLLM :: "bool \<Rightarrow> 'a world_scheme \<Rightarrow> 'a world_scheme" where
  "handleLLM enable s = log_event (EnableFrc (\<not> enable)) s"

definition wdi_collectComposer :: "cid \<Rightarrow> 'a video_state_scheme \<Rightarrow> 'a video_state_scheme" where
  "wdi_collectComposer c s =
     (case composer_getType (composers s c) of
        MESON_COMPOSITION_DUMMY \<Rightarrow>
          (if mDummyComposer s = None then s\<lparr>mDummyComposer := Some c\<rparr> else s)
      | MESON_COMPOSITION_CLIENT \<Rightarrow>
          (if mClientComposer s = None then s\<lparr>mClientComposer := Some c\<rparr> else s)
      | MESON_COMPOSITION_DI \<Rightarrow>
          (if mDiComposer s = None then s\<lparr>mDiComposer := Some c\<rparr> else s)
      | _ \<Rightarrow> s\<lparr>mOtherComposers := mOtherComposers s @ [c]\<rparr>)"

definition wdi_collectPlane :: "hw_display_plane \<Rightarrow> 'a video_state_scheme
    \<Rightarrow> 'a video_state_scheme" where
  "wdi_collectPlane p s =
     (if \<not> plane_available p then s else
      case plane_type p of
        OSD_PLANE \<Rightarrow> s\<lparr>mOsdPlanes := mOsdPlanes s @ [p]\<rparr>
      | HWC_VIDEO_PLANE \<Rightarrow> s\<lparr>mHwcVideoPlanes := mHwcVideoPlanes s @ [p]\<rparr>
      | _ \<Rightarrow> s\<lparr>mOtherPlanes := mOtherPlanes s @ [p]\<rparr>)"

definition wdi_setup :: "fbid list \<Rightarrow> cid list \<Rightarrow> hw_display_plane list \<Rightarrow> nat option \<Rightarrow> u32
    \<Rightarrow> rat \<Rightarrow> drm_mode_info \<Rightarrow> wdi_state \<Rightarrow> wdi_state" where
  "wdi_setup layers cs planes crtc reqFlag scale mode s =
     (let s = wdi_init s;
          s = s\<lparr>mScaleValue := scale, mHDRMode := True\<rparr>;
          s = (if and reqFlag COMPOSE_HIDE_SECURE_FB \<noteq> 0 then s\<lparr>mHideSecureLayer := True\<rparr> else s);
          s = (if and reqFlag COMPOSE_FORCE_CLIENT \<noteq> 0
               then s\<lparr>mForceClientComposer := True\<rparr> else s);
          s = (if and reqFlag COMPOSE_DISABLE_SIDEBAND \<noteq> 0
               then s\<lparr>mIsSideBandDisable := True\<rparr> else s);
          s = (if and reqFlag COMPOSE_DISABLE_POSTPROCESSOR \<noteq> 0
               then s\<lparr>mIsDisablePostProcessor := True\<rparr> else s);
          s = handleLLM (mIsDisablePostProcessor s) s;
          s = s\<lparr>mCrtc := crtc\<rparr>;
          s = fold addLayer layers s;
          s = fold wdi_collectComposer cs s;
          s = fold wdi_collectPlane planes s
      in s\<lparr>mVideoPlaneNum := int (length (mHwcVideoPlanes s)),
           mOsdPlaneNum := int (length (mOsdPlanes s)),
           mVsyncRefreshRate :=
             (if refreshRate mode = 0 then 60 else word_of_int \<lfloor>refreshRate mode\<rfloor>)\<rparr>)"

definition wdi_updateComposition :: "wdi_state \<Rightarrow> wdi_state" where
  "wdi_updateComposition s = s\<lparr>mOtherPlanes := []\<rparr>"

section \<open>Video framebuffers\<close>

definition growMin :: "u32 \<Rightarrow> u32 \<Rightarrow> u32 \<Rightarrow> u32" where
  "growMin iv z m = (if m = iv \<or> z < m then z else m)"

definition growMax :: "u32 \<Rightarrow> u32 \<Rightarrow> u32 \<Rightarrow> u32" where
  "growMax iv z m = (if m = iv \<or> m < z then z else m)"

text \<open>
  The first loop of \<open>processVideoFbs\<close>, with (minVideoZ, maxVideoZ), sidebandFbs and
  videoFbNum; \<open>is_video_kind\<close> is \<open>None\<close> for the default case and says otherwise whether
  the type is a legacy sideband.
\<close>

fun is_video_kind :: "drm_fb_type \<Rightarrow> bool option" where
  "is_video_kind DRM_FB_VIDEO_OVERLAY = Some True"
| "is_video_kind DRM_FB_VIDEO_SIDEBAND = Some True"
| "is_video_kind DRM_FB_VIDEO_SIDEBAND_TV = Some True"
| "is_video_kind DRM_FB_VIDEO_DMABUF = Some False"
| "is_video_kind DRM_FB_VIDEO_UVM_DMA = Some False"
| "is_video_kind DRM_FB_VIDEO_TUNNEL_SIDEBAND = Some False"
| "is_video_kind _ = None"

record video_scan =
  minVideoZ :: u32
  maxVideoZ :: u32
  sidebandFbs :: "fbid list"
  videoFbNum :: int

fun scanVideoFb :: "fbid \<Rightarrow> video_scan \<times> wdi_state \<Rightarrow> video_scan \<times> wdi_state" where
  "scanVideoFb f (v, s) =
     (if ctype_of s f = MESON_COMPOSITION_DUMMY then (v, s)
      else
        (let z = zorder_of s f;
             v' = v\<lparr>videoFbNum := videoFbNum v + 1, minVideoZ := growMin (INVALID s) z (minVideoZ v),
                    maxVideoZ := growMax (INVALID s) z (maxVideoZ v)\<rparr>
         in case is_video_kind (mFbType (fbs s f)) of
              None \<Rightarrow> (v, s)
            | Some True \<Rightarrow> (v'\<lparr>sidebandFbs := sidebandFbs v' @ [f]\<rparr>, s)
            | Some False \<Rightarrow>
                (if haveValidBuffer (fbs s f)
                 then (v', s\<lparr>mDIComposerFbs := mDIComposerFbs s @ [f]\<rparr>)
                 else (v, upd_comp f MESON_COMPOSITION_DUMMY s))))"

definition isAiProcess120Enable :: "wdi_state \<Rightarrow> bool" where
  "isAiProcess120Enable s \<longleftrightarrow> enable_aiprocess_120 (plat s) \<or> \<not> 60 < mVsyncRefreshRate s"

definition setupProcessors :: "int \<Rightarrow> wdi_state \<Rightarrow> wdi_state" where
  "setupProcessors n s =
     (if n = 0 \<or> \<not> isAiProcess120Enable s \<or> mIsDisablePostProcessor s then
        (if mVideoProcessorsMgr s then (log_event VpmTearDownAll s)\<lparr>mVideoProcessorsMgr := False\<rparr>
         else s)
      else
        log_event (VpmSetup (mDIComposerFbs s)) (s\<lparr>mVideoProcessorsMgr := True\<rparr>))"

text \<open>All but the first sideband framebuffer are dropped.\<close>

definition dropSidebands :: "fbid list \<Rightarrow> 'a world_scheme \<Rightarrow> 'a world_scheme" where
  "dropSidebands fs s = fold (\<lambda>f. upd_comp f MESON_COMPOSITION_DUMMY) fs s"

text \<open>Giving the framebuffer to plane \<open>i\<close>: the pair is appended, the plane stays in the list.\<close>

definition pushVideoPair :: "nat \<Rightarrow> u32 \<Rightarrow> fbid \<Rightarrow> 'a video_state_scheme
    \<Rightarrow> fault + 'a video_state_scheme" where
  "pushVideoPair i z f s =
     bindE (nthE OutOfRange (mHwcVideoPlanes s) i) (\<lambda>p.
       Inr (pushPair (nat (mOsdPlaneNum s) + i) z f p s))"

definition erasePlanes :: "nat \<Rightarrow> 'a video_state_scheme \<Rightarrow> fault + 'a video_state_scheme" where
  "erasePlanes n s =
     (if n \<le> length (mHwcVideoPlanes s)
      then Inr (s\<lparr>mHwcVideoPlanes := drop n (mHwcVideoPlanes s)\<rparr>) else Inl OutOfRange)"

definition oneSidebandPlane :: "fbid \<Rightarrow> fbid list \<Rightarrow> 'a video_state_scheme
    \<Rightarrow> fault + 'a video_state_scheme" where
  "oneSidebandPlane f rest s =
     (let s = dropSidebands rest s in
      bindE
        (if mIsSideBandDisable s then
           (let s = upd_comp f MESON_COMPOSITION_DUMMY s in
            if mDIComposerFbs s \<noteq> [] then
              (case chooseOneVideoFb False s of (_, out, s) \<Rightarrow>
                 bindE (getE NullDeref out) (\<lambda>g.
                   Inr (g, upd_comp g MESON_COMPOSITION_PLANE_HWCVIDEO s)))
            else Inr (f, s))
         else Inr (f, upd_comp f MESON_COMPOSITION_PLANE_HWCVIDEO s))
        (\<lambda>(g, s).
         bindE (pushVideoPair 0 (zorder_of s g) g s) (\<lambda>s.
         bindE (erasePlanes 1 s) (\<lambda>s.
           let s = s\<lparr>mHwcVideoInputFbs := mDIComposerFbs s\<rparr>
           in Inr (s\<lparr>fbs := set_comps (mHwcVideoInputFbs s) MESON_COMPOSITION_DUMMY (fbs s)\<rparr>)))))"

text \<open>The last plane takes the only framebuffer left, or the video composer's output.\<close>

definition composeVideos :: "nat \<Rightarrow> 'a video_state_scheme
    \<Rightarrow> fault + fbid \<times> 'a video_state_scheme" where
  "composeVideos i s =
     (let s = s\<lparr>fbs := set_comps (mHwcVideoInputFbs s) MESON_COMPOSITION_DI (fbs s)\<rparr> in
      bindE (getE NullDeref (mDiComposer s)) (\<lambda>c.
      bindE (call_addInputs c (mDIComposerFbs s) [] (int i) (call_prepare c s)) (\<lambda>s.
      case allocateDiOutputFb (zorder_of s (hd (mHwcVideoInputFbs s))) s of (f, s) \<Rightarrow>
      bindE (call_setOutput c (Some f) (int i) s) (\<lambda>s.
      bindE (call_setProcessorsManager c (mVideoProcessorsMgr s) (int i) s) (\<lambda>s. Inr (f, s))))))"

definition lastVideoPlane :: "nat \<Rightarrow> bool \<Rightarrow> u32 \<Rightarrow> 'a video_state_scheme
    \<Rightarrow> fault + 'a video_state_scheme" where
  "lastVideoPlane i bVideoCompose minZ s =
     (let s = s\<lparr>mHwcVideoInputFbs := mDIComposerFbs s\<rparr> in
      if mHwcVideoInputFbs s = [] then Inr s
      else if bVideoCompose then
        bindE (composeVideos i s) (\<lambda>(f, s). pushVideoPair i minZ f s)
      else
        (let f = hd (mHwcVideoInputFbs s) in
         pushVideoPair i (zorder_of s f) f (upd_comp f MESON_COMPOSITION_PLANE_HWCVIDEO s)))"

text \<open>
  The loop over the video planes from plane \<open>i\<close> on, with the sideband framebuffers still
  waiting; \<open>n\<close> is the number of rounds left. It returns \<open>usedPlanes\<close>.
\<close>

fun allotVideoPlanes :: "nat \<Rightarrow> nat \<Rightarrow> bool \<Rightarrow> u32 \<Rightarrow> fbid list \<Rightarrow> 'a video_state_scheme
    \<Rightarrow> fault + nat \<times> 'a video_state_scheme" where
  "allotVideoPlanes 0 i bVideoCompose minZ sidebands s = Inr (i, s)"
| "allotVideoPlanes (Suc n) i bVideoCompose minZ sidebands s =
     (if mVideoPlaneNum s - 1 \<le> int i then
        bindE (lastVideoPlane i bVideoCompose minZ s) (\<lambda>s. Inr (Suc i, s))
      else
        bindE
          (case sidebands of
             f # rest \<Rightarrow> Inr (f, dropSidebands rest s)
           | [] \<Rightarrow> (case chooseOneVideoFb bVideoCompose s of (_, out, s) \<Rightarrow>
               bindE (getE NullDeref out) (\<lambda>f. Inr (f, s))))
          (\<lambda>(f, s).
            let s = upd_comp f MESON_COMPOSITION_PLANE_HWCVIDEO s;
                z = (if bVideoCompose then zorder_of s f + 1 else zorder_of s f)
            in bindE (pushVideoPair i z f s) (allotVideoPlanes n (Suc i) bVideoCompose minZ [])))"

definition processVideoFbs :: "wdi_state \<Rightarrow> fault + wdi_state" where
  "processVideoFbs s =
     (let v0 = \<lparr>minVideoZ = -1, maxVideoZ = -1, sidebandFbs = [], videoFbNum = 0\<rparr>;
          (v, s) = fold scanVideoFb (fb_ids s) (v0, s);
          s = (if videoFbNum v \<le> mVideoPlaneNum s
               then (case mDiComposer s of None \<Rightarrow> s | Some c \<Rightarrow> call_prepare c s) else s);
          s = setupProcessors (videoFbNum v) s;
          sb = sidebandFbs v;
          n = (if sb \<noteq> [] then 1 else 0) + (videoFbNum v - int (length sb));
          bVideoCompose = (mVideoPlaneNum s < n)
      in if videoFbNum v = 0 then Inr s
         else if mVideoPlaneNum s = 1 \<and> sb \<noteq> [] then oneSidebandPlane (hd sb) (tl sb) s
         else
           bindE (allotVideoPlanes (nat n) 0 bVideoCompose (minVideoZ v) sb s)
             (\<lambda>(usedPlanes, s). erasePlanes usedPlanes s))"

section \<open>Graphic framebuffers\<close>

definition wdi_applyCompositionFlags :: "wdi_state \<Rightarrow> wdi_state" where
  "wdi_applyCompositionFlags s = applyCompositionFlags s"

text \<open>The test of the frame reads the members, not \<open>getDisplayFrame\<close>.\<close>

definition checkLayerValidate :: "fbid \<Rightarrow> 'a world_scheme \<Rightarrow> 'a world_scheme" where
  "checkLayerValidate f s =
     (if mBufferHandle (fbs s f) = None \<and> mFbType (fbs s f) \<noteq> DRM_FB_COLOR
      then upd_comp f MESON_COMPOSITION_DUMMY s
      else if rect_w (mDisplayFrame (fbs s f)) < 0 \<or> rect_h (mDisplayFrame (fbs s f)) < 0
      then upd_comp f MESON_COMPOSITION_DUMMY s
      else s)"

definition wdi_sortOsdFb :: "u32 \<times> fbid \<Rightarrow> fbid list \<times> 'a video_state_scheme
    \<Rightarrow> fault + fbid list \<times> 'a video_state_scheme" where
  "wdi_sortOsdFb e ds =
     (let (dummyFbs, s) = ds; f = snd e; remove = mFramebuffers_update (map_erase (fst e)) in
      case ctype_of s f of
        MESON_COMPOSITION_DUMMY \<Rightarrow> Inr (dummyFbs @ [f], remove s)
      | MESON_COMPOSITION_PLANE_HWCVIDEO \<Rightarrow>
          Inr (dummyFbs, remove (s\<lparr>mOverlayFbs := mOverlayFbs s @ [f]\<rparr>))
      | MESON_COMPOSITION_DI \<Rightarrow>
          Inr (dummyFbs, remove (s\<lparr>mOverlayFbs := mOverlayFbs s @ [f]\<rparr>))
      | MESON_COMPOSITION_CLIENT \<Rightarrow>
          bindE (pickoutUiFb True f (s\<lparr>mHaveClient := True\<rparr>)) (\<lambda>s. Inr (dummyFbs, s))
      | MESON_COMPOSITION_UNDETERMINED \<Rightarrow>
          bindE (pickoutUiFb False f s) (\<lambda>s. Inr (dummyFbs, s))
      | _ \<Rightarrow> Inr (dummyFbs, remove s))"

definition wdi_pickoutOsdFb :: "u32 \<times> fbid \<Rightarrow> fbid list \<times> 'a video_state_scheme
    \<Rightarrow> fault + fbid list \<times> 'a video_state_scheme" where
  "wdi_pickoutOsdFb e ds = wdi_sortOsdFb e (fst ds, checkLayerValidate (snd e) (snd ds))"

text \<open>The loop over the video framebuffers, with \<open>videoOnTop\<close> and those that stay so far.\<close>

fun wdi_adjustForVideo :: "u32 \<Rightarrow> u32 \<Rightarrow> bool \<Rightarrow> fbid \<Rightarrow> int \<times> fbid list \<times> 'a osd_state_scheme
    \<Rightarrow> int \<times> fbid list \<times> 'a osd_state_scheme" where
  "wdi_adjustForVideo uiMin uiMax bVideoCompose f (videoOnTop, kept, s) =
     (let z = zorder_of s f in
      if uiMin \<le> z \<and> z \<le> uiMax then
        (videoOnTop, kept @ [f],
         if mHDRMode s \<or> bVideoCompose then
           s\<lparr>mMinComposerZorder := zorder_of s (snd (hd (mFramebuffers s))),
             mMaxComposerZorder := (if mMaxComposerZorder s = INVALID s \<or> mMaxComposerZorder s < z
                then z else mMaxComposerZorder s)\<rparr>
         else s\<lparr>mInsideVideoFbsFlag := True\<rparr>)
      else if uiMax < z then
        (if 1 \<le> videoOnTop \<or> bVideoCompose then (videoOnTop, kept @ [f], s) else (videoOnTop + 1, kept, s))
      else (videoOnTop, kept, s))"

definition wdi_checkVideoFbs :: "'a osd_state_scheme \<Rightarrow> 'a osd_state_scheme" where
  "wdi_checkVideoFbs s =
     (if mOverlayFbs s \<noteq> [] \<and> mFramebuffers s \<noteq> [] then
        (let bVideoCompose = (2 < length (mOverlayFbs s));
             uiMin = zorder_of s (snd (hd (mFramebuffers s)));
             uiMax = zorder_of s (snd (last (mFramebuffers s)));
             (videoOnTop, kept, s') =
               fold (wdi_adjustForVideo uiMin uiMax bVideoCompose) (mOverlayFbs s) (0, [], s)
         in s'\<lparr>mOverlayFbs := kept\<rparr>)
      else s)"

definition wdi_pickoutOsdFbs :: "wdi_state \<Rightarrow> fault + wdi_state" where
  "wdi_pickoutOsdFbs s =
     bindE (foldE wdi_pickoutOsdFb (mFramebuffers s) ([], s)) (\<lambda>(dummyFbs, s).
     bindE (if dummyFbs \<noteq> [] then
              bindE (getE NullDeref (mDummyComposer s)) (\<lambda>c. call_addInputs c dummyFbs [] 0 s)
            else Inr s) (\<lambda>s.
     Inr (wdi_checkVideoFbs s)))"

section \<open>Limits of the scaler\<close>

definition wdi_countComposerFbs :: "wdi_state \<Rightarrow> int \<times> int \<times> int" where
  "wdi_countComposerFbs s = countComposerFbs s"

definition wdi_confirmComposerRange :: "wdi_state \<Rightarrow> fault + wdi_state" where
  "wdi_confirmComposerRange s = confirmComposerRange s"

definition wdi_compareFbScale :: "drm_rect \<Rightarrow> drm_rect \<Rightarrow> drm_rect \<Rightarrow> drm_rect \<Rightarrow> int" where
  "wdi_compareFbScale aSrc aDst bSrc bDst = compareFbScale aSrc aDst bSrc bDst"

record scale_count =
  nonAfbcFbsNumb :: nat
  limitCount :: nat
  upClientNum :: int
  belowClientNum :: int

text \<open>The framebuffers outside the range; \<open>insideClientNum\<close> is counted but never read.\<close>

definition scaleLimitStep :: "'a video_state_scheme \<Rightarrow> fbid \<Rightarrow> scale_count \<Rightarrow> scale_count" where
  "scaleLimitStep s f c =
     (if zorder_of s f < mMinComposerZorder s \<or> mMaxComposerZorder s < zorder_of s f then
        (let c = (if vpu_afbc_mask (plat s) (mBufferHandle (fbs s f)) = 0
                  then c\<lparr>nonAfbcFbsNumb := nonAfbcFbsNumb c + 1\<rparr> else c)
         in if scale_exceeds (plat s) (rect_h (mSourceCrop (fbs s f)))
                 (rect_h (mDisplayFrame (fbs s f))) (mScaleValue s)
            then
              (if mMaxComposerZorder s < zorder_of s f
               then c\<lparr>limitCount := limitCount c + 1, upClientNum := upClientNum c + 1\<rparr>
               else c\<lparr>limitCount := limitCount c + 1, belowClientNum := belowClientNum c + 1\<rparr>)
            else c)
      else c)"

definition handleVPUScaleLimit :: "'a video_state_scheme \<Rightarrow> 'a video_state_scheme" where
  "handleVPUScaleLimit s =
     (let c = fold (scaleLimitStep s) (fb_ids s)
            \<lparr>nonAfbcFbsNumb = 0, limitCount = 0, upClientNum = 0, belowClientNum = 0\<rparr>
      in if 1 \<le> limitCount c \<or> 2 < nonAfbcFbsNumb c then
           (if 0 < upClientNum c then
              (case upper_bound (mMaxComposerZorder s) (mFramebuffers s) of
                 [] \<Rightarrow> s
               | e # _ \<Rightarrow> s\<lparr>mMaxComposerZorder := zorder_of s (snd e)\<rparr>)
            else if 0 < belowClientNum c then
              (if mMinComposerZorder s = INVALID s then
                 (let z = zorder_of s (snd (hd (mFramebuffers s)))
                  in s\<lparr>mMinComposerZorder := z, mMaxComposerZorder := z\<rparr>)
               else
                 (let m = mFramebuffers s; it = lower_bound (mMinComposerZorder s) m
                  in if length it \<noteq> length m \<and> it \<noteq> []
                     then s\<lparr>mMinComposerZorder :=
                              zorder_of s (snd (m ! (length m - length it - 1)))\<rparr>
                     else s))
            else s)
         else s)"

definition is_odd_width :: "'a world_scheme \<Rightarrow> fbid \<Rightarrow> bool" where
  "is_odd_width s f \<longleftrightarrow> rect_w (mSourceCrop (fbs s f)) mod 2 \<noteq> 0"

text \<open>The two rectangles and the framebuffer compared, where the limit has to be checked.\<close>

definition oddScaleCheck :: "'a osd_state_scheme \<Rightarrow> (fbid \<times> drm_rect \<times> drm_rect) option" where
  "oddScaleCheck s =
     (let ids = fb_ids s; device = filter (\<lambda>f. \<not> is_fb_composed s f) ids;
          client = filter (is_fb_composed s) ids; z = mOsdDisplayFrame s
      in if device = [] \<or> \<not> list_ex (is_odd_width s) ids then None
         else if client \<noteq> [] then
           (if \<not> is_odd_width s (last device) then None
            else Some (last device, mk_rect 0 0 (framebuffer_w z) (framebuffer_h z),
              mk_rect (crtc_display_x z) (crtc_display_y z) (crtc_display_w z) (crtc_display_h z)))
         else (case ids of
                 f # g # _ \<Rightarrow> Some (f, mSourceCrop (fbs s g), mDisplayFrame (fbs s g))
               | _ \<Rightarrow> None))"

definition coverStep :: "fbid \<Rightarrow> 'a osd_state_scheme \<Rightarrow> 'a osd_state_scheme" where
  "coverStep f s =
     s\<lparr>mMinComposerZorder := (if mMinComposerZorder s = INVALID s
            \<or> zorder_of s f < mMinComposerZorder s then zorder_of s f else mMinComposerZorder s),
       mMaxComposerZorder := (if mMaxComposerZorder s = INVALID s
            \<or> mMaxComposerZorder s < zorder_of s f then zorder_of s f else mMaxComposerZorder s)\<rparr>"

definition handleVPUOddScaleLimit :: "'a osd_state_scheme \<Rightarrow> fault + 'a osd_state_scheme" where
  "handleVPUOddScaleLimit s =
     bindE (getE NullDeref (mCrtc s)) (\<lambda>crtc.
       if and (crtc_wrflag (plat s) crtc) (2 ^ GFCD_ODD_SIZE) = 0
          \<or> length (mFramebuffers s) \<le> 1
       then Inr s
       else
         (case oddScaleCheck s of
            None \<Rightarrow> Inr s
          | Some (f, scaleInput, scaleOutput) \<Rightarrow>
              (if compareFbScale (mSourceCrop (fbs s f)) (mDisplayFrame (fbs s f))
                    scaleInput scaleOutput \<noteq> 0
               then Inr (fold coverStep (fb_ids s) s) else Inr s)))"

definition chooseBaseFb :: "'a osd_state_scheme \<Rightarrow> 'a osd_state_scheme" where
  "chooseBaseFb s =
     (case fold (offsetStep s) (fb_ids s) (-1, -1, 0, 0) of (minX, minY, w, h) \<Rightarrow>
        let targetW = int32 (w - minX); targetH = int32 (h - minY);
            ref = (if length (mFramebuffers s) = 1 then
                     (case mDisplayRefFb s of
                        None \<Rightarrow> Some (snd (hd (mFramebuffers s))) | Some r \<Rightarrow> Some r)
                   else chooseRefFb s
                     (mk_rect 0 0 OSD_SCALER_INPUT_MAX_WIDTH OSD_SCALER_INPUT_MAX_HEIGHT)
                     (mk_rect 0 0 targetW targetH) (fb_ids s) (mDisplayRefFb s))
        in (case ref of
              None \<Rightarrow>
                (let z = zorder_of s (snd (hd (mFramebuffers s)))
                 in s\<lparr>mMinComposerZorder := z, mMaxComposerZorder := z\<rparr>)
            | Some r \<Rightarrow>
                s\<lparr>mDisplayRefFb := Some r,
                  mOsdDisplayFrame := (mOsdDisplayFrame s)
                    \<lparr>crtc_display_x := minX, crtc_display_y := minY\<rparr>\<rparr>))"

definition wdi_handleVPULimit :: "wdi_state \<Rightarrow> fault + wdi_state" where
  "wdi_handleVPULimit s =
     (if mFramebuffers s = [] then Inr s
      else
        bindE (handleVPUOddScaleLimit (handleVPUScaleLimit s)) (\<lambda>s.
          if mMaxComposerZorder s \<noteq> INVALID s \<and> mMinComposerZorder s \<noteq> INVALID s then Inr s
          else Inr (chooseBaseFb s)))"

section \<open>Composer and planes\<close>

text \<open>Without anything to compose the client composer is reset.\<close>

definition wdi_selectComposer :: "'a osd_state_scheme \<Rightarrow> fault + 'a osd_state_scheme" where
  "wdi_selectComposer s =
     (if mComposerFbs s = [] then
        bindE (getE NullDeref (mClientComposer s)) (\<lambda>c. Inr (call_prepare c s))
      else
        (let other = (if \<not> mHaveClient s then
               find (\<lambda>c. composer_isFbsSupport (composers s c) (mComposerFbs s) (mOverlayFbs s))
                 (mOtherComposers s) else None);
             sel = (case other of Some c \<Rightarrow> Some c | None \<Rightarrow> mComposer s);
             sel = (case sel of None \<Rightarrow> mClientComposer s | Some c \<Rightarrow> Some c)
         in bindE (getE NullDeref sel) (\<lambda>c.
            Inr (s\<lparr>mComposer := Some c,
                   fbs := set_comps (mComposerFbs s) (composer_getType (composers s c)) (fbs s)\<rparr>))))"

definition wdi_fillComposerFbs :: "wdi_state \<Rightarrow> fault + wdi_state" where
  "wdi_fillComposerFbs s = fillComposerFbs s"

text \<open>
  The loop that pairs the other framebuffers: \<open>usedPlanes\<close> stops at the last plane. The
  bound \<open>size() - 1\<close> is of an unsigned type, so with no plane it is never reached.
\<close>

fun wdi_setOsdPair :: "fbid \<Rightarrow> nat \<times> 'a osd_state_scheme \<Rightarrow> fault + nat \<times> 'a osd_state_scheme" where
  "wdi_setOsdPair f (used, s) =
     (if Some f = mDisplayRefFb s then Inr (used, s)
      else
        (let used' = (if mOsdPlanes s = [] \<or> used \<noteq> length (mOsdPlanes s) - 1
                      then used + 1 else used)
         in bindE (nthE OutOfRange (mOsdPlanes s) used') (\<lambda>p.
              Inr (used', markOsd f (pushPair used' (zorder_of s f) f p s)))))"

definition wdi_setOsdFbs2PlanePairs :: "'a osd_state_scheme \<Rightarrow> fault + 'a osd_state_scheme" where
  "wdi_setOsdFbs2PlanePairs s =
     (if mFramebuffers s = [] then Inr s
      else
        (let s = s\<lparr>mOsdPlanes := primaryFirst (mOsdPlanes s)\<rparr> in
         bindE
           (case mDisplayRefFb s of
              None \<Rightarrow> Inr s
            | Some ref \<Rightarrow> bindE (nthE OutOfRange (mOsdPlanes s) 0) (\<lambda>p.
                Inr (markOsd ref (pushPair 0 (zorder_of s ref) ref p s))))
           (\<lambda>s. bindE (foldE wdi_setOsdPair (fb_ids s) (0, s)) (\<lambda>(used, s).
              if used < length (mOsdPlanes s)
              then Inr (s\<lparr>mOsdPlanes := drop (Suc used) (mOsdPlanes s)\<rparr>)
              else Inl OutOfRange))))"

definition wdi_handleOverlayVideoZorder :: "wdi_state \<Rightarrow> wdi_state" where
  "wdi_handleOverlayVideoZorder s = handleOverlayVideoZorder s"

fun wdi_videoLayerZorders :: "(fbid \<Rightarrow> drm_framebuffer) \<Rightarrow> bool \<Rightarrow> u32 \<Rightarrow> int
    \<Rightarrow> display_pair list \<Rightarrow> display_pair list" where
  "wdi_videoLayerZorders h single maxOsd topVideoNum [] = []"
| "wdi_videoLayerZorders h single maxOsd topVideoNum (p # ps) =
     (if plane_type (pair_plane p) = HWC_VIDEO_PLANE then
        (let extra = (if single then TOP_VIDEO_FB_BEGIN_ZORDER else 0) in
         if maxOsd < mZorder (h (pair_fb p)) \<and> topVideoNum \<noteq> 1 then
           p\<lparr>presentZorder := presentZorder p + TOP_VIDEO_FB_BEGIN_ZORDER + extra\<rparr>
             # wdi_videoLayerZorders h single maxOsd (topVideoNum + 1) ps
         else
           p\<lparr>presentZorder := presentZorder p + BOTTOM_VIDEO_FB_BEGIN_ZORDER + extra\<rparr>
             # wdi_videoLayerZorders h single maxOsd topVideoNum ps)
      else p # wdi_videoLayerZorders h single maxOsd topVideoNum ps)"

definition wdi_handleDisplayLayerZorder :: "'a osd_state_scheme \<Rightarrow> 'a osd_state_scheme" where
  "wdi_handleDisplayLayerZorder s =
     (case osdLayerZorders (INVALID s) (INVALID s) (mDisplayPairs s) of (maxOsd, ps) \<Rightarrow>
        s\<lparr>mDisplayPairs :=
            wdi_videoLayerZorders (fbs s) (length (mDisplayPairs s) = 1) maxOsd 0 ps\<rparr>)"

section \<open>Deciding\<close>

definition wdi_handleOsdComposition :: "wdi_state \<Rightarrow> fault + wdi_state" where
  "wdi_handleOsdComposition =
     runs [wdi_confirmComposerRange, wdi_handleVPULimit, wdi_fillComposerFbs, wdi_selectComposer,
           wdi_setOsdFbs2PlanePairs]"

definition wdi_handleOsdCompositionWithVideo :: "wdi_state \<Rightarrow> fault + wdi_state" where
  "wdi_handleOsdCompositionWithVideo s =
     bindE (if 1 < length (mOverlayFbs s) then
              assertE (length (mOverlayFbs s) \<le> 3)
                (AssertFailed ''Only support 3 video layers now.'') (coverVideos s)
            else Inr s)
       wdi_handleOsdComposition"

definition processGfxFbs :: "wdi_state \<Rightarrow> fault + wdi_state" where
  "processGfxFbs s =
     bindE (wdi_pickoutOsdFbs s) (\<lambda>s.
     bindE (if \<not> mInsideVideoFbsFlag s then wdi_handleOsdComposition s
            else wdi_handleOsdCompositionWithVideo s)
       startComposer)"

definition wdi_decideComposition :: "wdi_state \<Rightarrow> fault + wdi_state" where
  "wdi_decideComposition s =
     (if mFramebuffers s = [] then
        (case mClientComposer s of
           None \<Rightarrow> Inr s
         | Some c \<Rightarrow> call_setOutput c None 1 (call_prepare c s))
      else
        bindE (processVideoFbs s) (\<lambda>s.
        bindE (processGfxFbs (wdi_applyCompositionFlags s)) (\<lambda>s.
        Inr (wdi_handleDisplayLayerZorder (wdi_handleOverlayVideoZorder s)))))"

section \<open>The whiteboard\<close>

definition wdi_enableSyncProtection :: "bool \<Rightarrow> wdi_state \<Rightarrow> wdi_state" where
  "wdi_enableSyncProtection mode s =
     (if mWhiteBoardMode s \<and> mComProcessor s then log_event (WbSyncProtection mode) s else s)"

text \<open>A buffer of the whiteboard: \<open>DrmFramebuffer(hnd, -1)\<close>, with its unique id.\<close>

definition allocWbBuffer :: "nat \<Rightarrow> wdi_state \<Rightarrow> wdi_state" where
  "allocWbBuffer i s =
     (let f = next_fb s; fb = new_framebuffer (fbs s f);
          fb' = (case wb_buffer (plat s) i of
                   (None, _) \<Rightarrow> fb
                 | (Some hnd, r) \<Rightarrow> fb\<lparr>mBufferHandle := Some hnd, mFbHandleUpdated := True,
                     mSourceCrop := r, mDisplayFrame := r\<rparr>)
      in s\<lparr>next_fb := Suc f, fbs := (fbs s)(f := fb'\<lparr>mId := i, mBufferState := MODE_BACK\<rparr>),
           mWBQueue := mWBQueue s @ [f]\<rparr>)"

definition set_buffer_state :: "buffer_state \<Rightarrow> fbid \<Rightarrow> 'a world_scheme \<Rightarrow> 'a world_scheme" where
  "set_buffer_state st f s = s\<lparr>fbs := (fbs s)(f := (fbs s f)\<lparr>mBufferState := st\<rparr>)\<rparr>"

definition wdi_setCustomizedBuffer :: "fbid option \<Rightarrow> bool \<Rightarrow> wdi_state \<Rightarrow> wdi_state" where
  "wdi_setCustomizedBuffer customizedBuffer mode s =
     (let s = s\<lparr>mWhiteBoardMode := mode, mWhiteBoardData := customizedBuffer\<rparr> in
      if \<not> mode then fold (set_buffer_state MODE_BACK) (mWBQueue s) s
      else if mComProcessor s then s
      else fold allocWbBuffer [0..<WB_BUF_CNT] (log_event WbSetup (s\<lparr>mComProcessor := True\<rparr>)))"

definition wdi_setReleaseFence :: "int \<Rightarrow> wdi_state \<Rightarrow> wdi_state" where
  "wdi_setReleaseFence fence s =
     (if fence < 0 then s
      else log_event (CloseFd fence)
        (fold (\<lambda>f s. if mBufferState (fbs s f) = MODE_BACK
                 then s\<lparr>fbs := (fbs s)(f := (fbs s f)
                        \<lparr>mPrevReleaseFence := sys_dup (plat s) fence\<rparr>)\<rparr>
                 else s) (mWBQueue s) s))"

text \<open>The loop for a free buffer leaves the last one in \<open>outfb\<close> when none is free.\<close>

fun pickWbBuffer :: "(fbid \<Rightarrow> drm_framebuffer) \<Rightarrow> buffer_state \<Rightarrow> fbid list \<Rightarrow> fbid option
    \<Rightarrow> fbid option" where
  "pickWbBuffer h st [] cur = cur"
| "pickWbBuffer h st (f # fs) cur =
     (if mBufferState (h f) = st then Some f else pickWbBuffer h st fs (Some f))"

text \<open>
  \<open>getPrevReleaseFence\<close> duplicates the fence. \<open>clearBufferInfo\<close> and \<open>setBufferInfo\<close>
  on the scanout framebuffer: it gets the handle of the output buffer.
\<close>

definition takeWbBuffer :: "fbid \<Rightarrow> fbid \<Rightarrow> 'a world_scheme \<Rightarrow> 'a world_scheme" where
  "takeWbBuffer f out s = s\<lparr>fbs := (fbs s)(f :=
     (let fb = fbs s f; h = mBufferHandle (fbs s out);
          cleared = fb\<lparr>mBufferHandle := None, mPrevReleaseFence := mCurReleaseFence fb,
            mFbHandleUpdated := (mBufferHandle fb = None \<and> mFbHandleUpdated fb), mFbType := DRM_FB_RENDER, mSecure := False\<rparr>
      in if h = None then cleared else cleared\<lparr>mFbHandleUpdated := True, mBufferHandle := h\<rparr>))\<rparr>"

definition renderWhiteBoard :: "fbid \<Rightarrow> wdi_state \<Rightarrow> fault + wdi_state" where
  "renderWhiteBoard f s =
     (let s = s\<lparr>outfb := pickWbBuffer (fbs s) MODE_BACK (mWBQueue s) (outfb s)\<rparr> in
      bindE (getE NullDeref (outfb s)) (\<lambda>out.
      let fence = (if mPrevReleaseFence (fbs s out) = -1 then -1
                   else sys_dup (plat s) (mPrevReleaseFence (fbs s out)));
          s = (if 0 \<le> fence then log_event (CloseFd fence) (log_event (WbWaitRelease fence) s)
               else s);
          s = log_event (WbWaitAcquire f) s
      in bindE (assertE (mComProcessor s) NullDeref s) (\<lambda>s.
         bindE (getE NullDeref (mWhiteBoardData s)) (\<lambda>d.
         Inr (takeWbBuffer f out
           (log_event (WbComposite f d out)
             (log_event (WbUpdate (mDisplayFrame (fbs s d))) s)))))))"

definition swapWbBuffers :: "wdi_state \<Rightarrow> wdi_state" where
  "swapWbBuffers s =
     (let shown = pickWbBuffer (fbs s) MODE_FRONT (mWBQueue s) (showfb s);
          s1 = (if list_ex (\<lambda>f. mBufferState (fbs s f) = MODE_FRONT) (mWBQueue s)
                then (case shown of Some g \<Rightarrow> set_buffer_state MODE_BACK g s | None \<Rightarrow> s) else s);
          s2 = s1\<lparr>showfb := shown\<rparr>
      in (case outfb s2 of Some out \<Rightarrow> set_buffer_state MODE_FRONT out s2 | None \<Rightarrow> s2))"

section \<open>Commit\<close>

text \<open>\<open>handleUVM\<close> goes on after an error.\<close>

definition handleUVM :: "'a osd_state_scheme \<Rightarrow> 'a osd_state_scheme" where
  "handleUVM s = fold (\<lambda>p s. if mFbType (fbs s (pair_fb p)) = DRM_FB_VIDEO_UVM_DMA
       then log_event (UvmCommitDisplay (pair_fb p)) s else s) (mDisplayPairs s) s"

definition clearFbHandleFlag :: "fbid \<Rightarrow> 'a world_scheme \<Rightarrow> 'a world_scheme" where
  "clearFbHandleFlag f s =
     s\<lparr>fbs := (fbs s)(f := (fbs s f)\<lparr>mFbHandleUpdated := False\<rparr>)\<rparr>"

text \<open>The path of a video tunnel framebuffer whose playback is interrupted.\<close>

definition interruptedVideo :: "hw_display_plane \<Rightarrow> fbid \<Rightarrow> u32 \<Rightarrow> drm_plane_blank
    \<Rightarrow> 'a video_state_scheme \<Rightarrow> 'a video_state_scheme" where
  "interruptedVideo p f z b s =
     (let s = (if mVideoProcessorsMgr s then log_event (VpmReset f) s else s);
          s = snd (try_setPlane p f z b s)
      in if b \<noteq> BLANK_FOR_NO_CONTENT then log_event (FreeSolidColorBuffer f) s else s)"

record commit_flags =
  setPlaneSuccess :: bool
  bHaveVTBuffer :: bool

text \<open>The framebuffer shown by a pair, with what is started on the way.\<close>

definition wdi_pairFb :: "fbid option \<Rightarrow> display_pair \<Rightarrow> commit_flags \<times> wdi_state
    \<Rightarrow> fault + fbid \<times> u32 \<times> commit_flags \<times> wdi_state" where
  "wdi_pairFb out p cs =
     (let (cf, s) = cs; f = pair_fb p in
      bindE (case out of None \<Rightarrow> Inr None
             | Some g \<Rightarrow> bindE (getE NullDeref (mComposer s)) (\<lambda>c.
                 Inr (if ctype_of s f = composer_getType (composers s c) then Some g else None)))
        (\<lambda>composed. case composed of
           Some g \<Rightarrow> Inr (g, mMaxComposerZorder s + OSD_FB_BEGIN_ZORDER, cf, s)
         | None \<Rightarrow>
             (if ctype_of s f = MESON_COMPOSITION_DI then
                (if list_ex (\<lambda>g. isVtBuffer (fbs s g)) (mDIComposerFbs s)
                 then Inr (f, presentZorder p, cf\<lparr>bHaveVTBuffer := True\<rparr>, s)
                 else bindE (getE NullDeref (mDiComposer s)) (\<lambda>c.
                   bindE (call_start c (mVideoPlaneNum s - 1) s) (\<lambda>s.
                     Inr (f, presentZorder p, cf, s))))
              else Inr (f, presentZorder p, cf, s))))"

definition wdi_showFb :: "display_pair \<Rightarrow> drm_plane_blank \<Rightarrow> fbid \<Rightarrow> u32
    \<Rightarrow> commit_flags \<times> wdi_state \<Rightarrow> fault + commit_flags \<times> wdi_state" where
  "wdi_showFb p b f z cs =
     (let (cf, s) = cs; plane = pair_plane p;
          (pcr, s) = (if mVideoProcessorsMgr s \<and> ctype_of s f \<noteq> MESON_COMPOSITION_DI
                      then try_runProcessors plane f z b s else (False, s));
          scanout = (mFbType (fbs s f) = DRM_FB_SCANOUT);
          (ret, s) = (if \<not> pcr \<and> (\<not> mWhiteBoardMode s \<or> \<not> scanout)
                      then try_setPlane plane f z b s else (0, s))
      in bindE
           (if mWhiteBoardMode s \<and> scanout then
              bindE (renderWhiteBoard f s) (\<lambda>s.
                case try_setPlane plane f z b s of (ret, s) \<Rightarrow> Inr (ret, swapWbBuffers s))
            else Inr (ret, s))
           (\<lambda>(ret, s).
              Inr (if ret \<noteq> 0 then cf\<lparr>setPlaneSuccess := False\<rparr> else cf, clearFbHandleFlag f s)))"

definition wdi_commitPair :: "fbid option \<Rightarrow> display_pair \<Rightarrow> commit_flags \<times> wdi_state
    \<Rightarrow> fault + commit_flags \<times> wdi_state" where
  "wdi_commitPair out p cs =
     (let b = blankFlag (snd cs) (pair_fb p) in
      bindE (wdi_pairFb out p cs) (\<lambda>(f, z, cf, s).
        if isVtBuffer (fbs s f) then
          (case try_interruptVtProcess f b s of
             (Some b', s) \<Rightarrow>
               Inr (cf\<lparr>bHaveVTBuffer := True\<rparr>, interruptedVideo (pair_plane p) f z b' s)
           | (None, s) \<Rightarrow> Inr (cf\<lparr>bHaveVTBuffer := True\<rparr>, s))
        else wdi_showFb p b f z (cf, s)))"

definition wdi_blankPlane :: "bool \<Rightarrow> hw_display_plane \<Rightarrow> 'a world_scheme \<Rightarrow> 'a world_scheme" where
  "wdi_blankPlane bHaveVT p s =
     (if bHaveVT \<and> plane_type p = HWC_VIDEO_PLANE then s else blankPlane p s)"

definition wdi_blankUnused :: "bool \<Rightarrow> 'a video_state_scheme \<Rightarrow> 'a video_state_scheme" where
  "wdi_blankUnused bHaveVT s =
     (let s = s\<lparr>mOtherPlanes := mOtherPlanes s @ mHwcVideoPlanes s @ mOsdPlanes s\<rparr>
      in fold (wdi_blankPlane bHaveVT) (mOtherPlanes s) s)"

definition wdi_commit :: "wdi_state \<Rightarrow> fault + int \<times> wdi_state" where
  "wdi_commit s =
     (if mCrtc s = None then Inr (HWC2_ERROR_NO_RESOURCES (plat s), s)
      else
        bindE (composerOutput s) (\<lambda>(out, s).
        let s = handleUVM s in
        bindE (foldE (wdi_commitPair out) (mDisplayPairs s)
            (\<lparr>setPlaneSuccess = True, bHaveVTBuffer = False\<rparr>, s)) (\<lambda>(cf, s).
        let s = wdi_blankUnused (bHaveVTBuffer cf) s
        in if \<not> setPlaneSuccess cf then Inr (HWC2_ERROR_NO_RESOURCES (plat s), s)
           else (let s = updateOsdDisplayFrame out s
                 in Inr (0, log_event (SetDisplayFrame (mOsdDisplayFrame s)) s)))))"

text \<open>
  \<open>commitTunnelVideo\<close> runs in the video tunnel thread on the pairs the last decision left. It
  returns at the first plane that refuses a framebuffer: \<open>Some\<close> is that return value.
\<close>

definition tunnelPair :: "display_pair \<Rightarrow> 'a video_state_scheme
    \<Rightarrow> fault + int option \<times> 'a video_state_scheme" where
  "tunnelPair p s =
     (let f = pair_fb p; b = blankFlag s f; z = presentZorder p; plane = pair_plane p in
      if \<not> isVtBuffer (fbs s f) \<and> ctype_of s f \<noteq> MESON_COMPOSITION_DI then Inr (None, s)
      else if ctype_of s f = MESON_COMPOSITION_DI then
        (if list_ex (\<lambda>g. isVtBuffer (fbs s g)) (mDIComposerFbs s)
         then bindE (getE NullDeref (mDiComposer s)) (\<lambda>c.
           bindE (call_start c (mVideoPlaneNum s - 1) s) (\<lambda>s. Inr (None, s)))
         else Inr (None, s))
      else
        (case try_interruptVtProcess f b s of
           (Some b', s) \<Rightarrow> Inr (None, interruptedVideo plane f z b' s)
         | (None, s) \<Rightarrow>
             (case (if mVideoProcessorsMgr s then try_runProcessors plane f z b s else (False, s)) of
                (True, s) \<Rightarrow> Inr (None, s)
              | (False, s) \<Rightarrow>
                  (case try_setPlane plane f z b s of (ret, s) \<Rightarrow>
                     Inr (if ret \<noteq> 0 then Some ret else None, clearFbHandleFlag f s)))))"

fun tunnelPairs :: "display_pair list \<Rightarrow> 'a video_state_scheme
    \<Rightarrow> fault + int option \<times> 'a video_state_scheme" where
  "tunnelPairs [] s = Inr (None, s)"
| "tunnelPairs (p # ps) s =
     bindE (tunnelPair p s) (\<lambda>(r, s).
       case r of Some ret \<Rightarrow> Inr (Some ret, s) | None \<Rightarrow> tunnelPairs ps s)"

definition wdi_commitTunnelVideo :: "'a video_state_scheme \<Rightarrow> fault + int \<times> 'a video_state_scheme" where
  "wdi_commitTunnelVideo s =
     (if mCrtc s = None then Inr (HWC2_ERROR_NO_RESOURCES (plat s), s)
      else
        bindE (tunnelPairs (mDisplayPairs s) s) (\<lambda>(r, s).
          case r of
            Some ret \<Rightarrow> Inr (ret, s)
          | None \<Rightarrow> Inr (0, fold blankPlane (mHwcVideoPlanes s) s)))"

end
