(* ===== verification/VideoFrame.thy ===== *)
theory VideoFrame
  imports VideoChoice MultiplanesDi "HOL-Library.Multiset"
begin

text \<open>
  What giving out the video planes may change: \<open>video_step s t\<close> says that \<open>t\<close> differs from
  \<open>s\<close> in the members of the video part only, that of the framebuffers that existed before only
  composition types are written, that the composers keep their class and their slots, and that
  no plane is programmed. It is a preorder, and every call on the way is a step.
\<close>

section \<open>What giving out the video planes may change\<close>

definition types_below :: "nat \<Rightarrow> (fbid \<Rightarrow> drm_framebuffer) \<Rightarrow> (fbid \<Rightarrow> drm_framebuffer) \<Rightarrow> bool" where
  "types_below n h h' \<longleftrightarrow> (\<forall>f < n. h' f = (h f)\<lparr>mCompositionType := mCompositionType (h' f)\<rparr>)"

definition composers_kept :: "(cid \<Rightarrow> composer) \<Rightarrow> (cid \<Rightarrow> composer) \<Rightarrow> bool" where
  "composers_kept cs cs' \<longleftrightarrow> (\<forall>c. composer_getType (cs' c) = composer_getType (cs c)
     \<and> composer_valid (cs' c) = composer_valid (cs c)
     \<and> (composer_getType (cs c) = MESON_COMPOSITION_CLIENT
          \<longrightarrow> composer_getOutput (cs' c) = composer_getOutput (cs c)))"

definition video_step :: "'a video_state_scheme \<Rightarrow> 'a video_state_scheme \<Rightarrow> bool" where
  "video_step s t \<longleftrightarrow> (\<exists>h cs es ps d i m n v.
     t = s\<lparr>fbs := h, composers := cs, events := es, mDisplayPairs := ps, mDIComposerFbs := d,
           mHwcVideoInputFbs := i, mVideoProcessorsMgr := m, next_fb := n, mHwcVideoPlanes := v\<rparr>)
   \<and> types_below (next_fb s) (fbs s) (fbs t) \<and> next_fb s \<le> next_fb t
   \<and> composers_kept (composers s) (composers t) \<and> quiet s t"

lemma types_below_refl [simp]: "types_below n h h"
  by (simp add: types_below_def)

lemma types_below_trans:
  assumes "types_below n h h'" and "types_below m h' h''" and "n \<le> m"
  shows "types_below n h h''"
  unfolding types_below_def
proof (intro allI impI)
  fix f assume "f < n"
  with assms have 1: "h' f = (h f)\<lparr>mCompositionType := mCompositionType (h' f)\<rparr>"
    and 2: "h'' f = (h' f)\<lparr>mCompositionType := mCompositionType (h'' f)\<rparr>"
    by (auto simp: types_below_def)
  show "h'' f = (h f)\<lparr>mCompositionType := mCompositionType (h'' f)\<rparr>"
    by (subst 2, subst 1) simp
qed

lemma types_below_set_comp: "types_below n h (set_comp f c h)"
  by (simp add: types_below_def set_comp_def)

lemma types_below_set_comps: "types_below n h (set_comps fs c h)"
proof (induction fs arbitrary: h)
  case Nil
  then show ?case by (simp add: set_comps_def)
next
  case (Cons f fs)
  have "set_comps (f # fs) c h = set_comps fs c (set_comp f c h)" by (simp add: set_comps_def)
  then show ?case using types_below_trans [OF types_below_set_comp Cons.IH order_refl] by metis
qed

lemma types_below_fields:
  assumes "types_below n h h'" and "f < n"
  shows "mZorder (h' f) = mZorder (h f)" "mFbType (h' f) = mFbType (h f)"
    "mSecure (h' f) = mSecure (h f)" "mDisplayFrame (h' f) = mDisplayFrame (h f)"
    "mSourceCrop (h' f) = mSourceCrop (h f)" "mBufferHandle (h' f) = mBufferHandle (h f)"
    "isVtBuffer (h' f) = isVtBuffer (h f)" "videoType (h' f) = videoType (h f)"
    "haveValidBuffer (h' f) = haveValidBuffer (h f)"
proof -
  from assms have eq: "h' f = (h f)\<lparr>mCompositionType := mCompositionType (h' f)\<rparr>"
    by (simp add: types_below_def)
  show "mZorder (h' f) = mZorder (h f)" "mFbType (h' f) = mFbType (h f)"
    "mSecure (h' f) = mSecure (h f)" "mDisplayFrame (h' f) = mDisplayFrame (h f)"
    "mSourceCrop (h' f) = mSourceCrop (h f)" "mBufferHandle (h' f) = mBufferHandle (h f)"
    "isVtBuffer (h' f) = isVtBuffer (h f)" "videoType (h' f) = videoType (h f)"
    "haveValidBuffer (h' f) = haveValidBuffer (h f)"
    by (subst eq, simp)+
qed

lemma composers_kept_refl [simp]: "composers_kept cs cs"
  by (simp add: composers_kept_def)

lemma composers_kept_trans: "composers_kept a b \<Longrightarrow> composers_kept b c \<Longrightarrow> composers_kept a c"
  by (simp add: composers_kept_def)

lemma composers_keptI:
  "composer_getType c' = composer_getType (cs c) \<Longrightarrow> composer_valid c' = composer_valid (cs c)
   \<Longrightarrow> composer_getType (cs c) = MESON_COMPOSITION_CLIENT \<longrightarrow> composer_getOutput c' = composer_getOutput (cs c)
   \<Longrightarrow> composers_kept cs (cs(c := c'))"
  by (simp add: composers_kept_def)

lemma video_stepI:
  assumes "t = s\<lparr>fbs := h, composers := cs, events := es, mDisplayPairs := ps, mDIComposerFbs := d,
           mHwcVideoInputFbs := i, mVideoProcessorsMgr := m, next_fb := n, mHwcVideoPlanes := v\<rparr>"
    and "types_below (next_fb s) (fbs s) (fbs t)" and "next_fb s \<le> next_fb t"
    and "composers_kept (composers s) (composers t)" and "quiet s t"
  shows "video_step s t"
  unfolding video_step_def using assms by blast

lemma video_step_trans:
  assumes "video_step s t" and "video_step t u"
  shows "video_step s u"
proof -
  from assms(1) obtain h cs es ps d i m n v where t: "t = s\<lparr>fbs := h, composers := cs, events := es,
      mDisplayPairs := ps, mDIComposerFbs := d, mHwcVideoInputFbs := i, mVideoProcessorsMgr := m,
      next_fb := n, mHwcVideoPlanes := v\<rparr>" unfolding video_step_def by blast
  from assms(2) obtain h' cs' es' ps' d' i' m' n' v' where u: "u = t\<lparr>fbs := h', composers := cs',
      events := es', mDisplayPairs := ps', mDIComposerFbs := d', mHwcVideoInputFbs := i',
      mVideoProcessorsMgr := m', next_fb := n', mHwcVideoPlanes := v'\<rparr>"
    unfolding video_step_def by blast
  show ?thesis
  proof (rule video_stepI)
    show "u = s\<lparr>fbs := h', composers := cs', events := es', mDisplayPairs := ps',
        mDIComposerFbs := d', mHwcVideoInputFbs := i', mVideoProcessorsMgr := m', next_fb := n',
        mHwcVideoPlanes := v'\<rparr>" by (simp add: u t)
    show "types_below (next_fb s) (fbs s) (fbs u)" "next_fb s \<le> next_fb u"
      "composers_kept (composers s) (composers u)" "quiet s u"
      using assms types_below_trans composers_kept_trans quiet_trans
      unfolding video_step_def by (blast intro: order_trans)+
  qed
qed

lemma video_step_frame:
  assumes "t = s\<lparr>mDisplayPairs := ps, mDIComposerFbs := d, mHwcVideoInputFbs := i,
      mVideoProcessorsMgr := m, mHwcVideoPlanes := v\<rparr>"
  shows "video_step s t"
  by (rule video_stepI [where h = "fbs s" and cs = "composers s" and es = "events s" and ps = ps
        and d = d and i = i and m = m and n = "next_fb s" and v = v]) (simp_all add: assms)

lemma video_step_refl [simp]: "video_step s s"
  by (rule video_step_frame [where ps = "mDisplayPairs s" and d = "mDIComposerFbs s"
        and i = "mHwcVideoInputFbs s" and m = "mVideoProcessorsMgr s" and v = "mHwcVideoPlanes s"]) simp

lemma video_step_types:
  assumes "types_below (next_fb s) (fbs s) h"
  shows "video_step s (s\<lparr>fbs := h\<rparr>)"
  by (rule video_stepI [where h = h and cs = "composers s" and es = "events s" and ps = "mDisplayPairs s"
        and d = "mDIComposerFbs s" and i = "mHwcVideoInputFbs s" and m = "mVideoProcessorsMgr s"
        and n = "next_fb s" and v = "mHwcVideoPlanes s"]) (simp_all add: assms)

lemma video_step_upd_comp: "video_step s (upd_comp f c s)"
  unfolding upd_comp_def by (rule video_step_types [OF types_below_set_comp])

lemma video_step_call:
  assumes "composer_getType c' = composer_getType (composers s c)"
    and "composer_valid c' = composer_valid (composers s c)"
    and "composer_getType (composers s c) = MESON_COMPOSITION_CLIENT
      \<longrightarrow> composer_getOutput c' = composer_getOutput (composers s c)" and "set_plane e = []"
  shows "video_step s (log_event e (s\<lparr>composers := (composers s)(c := c')\<rparr>))"
  by (rule video_stepI [where h = "fbs s" and cs = "(composers s)(c := c')" and es = "events s @ [e]"
        and ps = "mDisplayPairs s" and d = "mDIComposerFbs s" and i = "mHwcVideoInputFbs s"
        and m = "mVideoProcessorsMgr s" and n = "next_fb s" and v = "mHwcVideoPlanes s"])
    (use assms in \<open>auto simp: log_event_def intro: composers_keptI quietI\<close>)

lemma video_step_log:
  assumes "set_plane e = []"
  shows "video_step s (log_event e s)"
  by (rule video_stepI [where h = "fbs s" and cs = "composers s" and es = "events s @ [e]"
        and ps = "mDisplayPairs s" and d = "mDIComposerFbs s" and i = "mHwcVideoInputFbs s"
        and m = "mVideoProcessorsMgr s" and n = "next_fb s" and v = "mHwcVideoPlanes s"])
    (use assms in \<open>auto simp: log_event_def intro: quietI\<close>)

lemma video_step_fields:
  assumes "video_step s t"
  shows "plat t = plat s" "mFramebuffers t = mFramebuffers s" "mDiComposer t = mDiComposer s"
    "mVideoPlaneNum t = mVideoPlaneNum s" "mOsdPlaneNum t = mOsdPlaneNum s"
    "mIsSideBandDisable t = mIsSideBandDisable s" "fb_ids t = fb_ids s" "mCrtc t = mCrtc s"
    "mOsdPlanes t = mOsdPlanes s" "mOtherPlanes t = mOtherPlanes s" "mHDRMode t = mHDRMode s"
    "mDummyComposer t = mDummyComposer s" "mClientComposer t = mClientComposer s"
    "mOtherComposers t = mOtherComposers s" "mComposer t = mComposer s"
    "mHideSecureLayer t = mHideSecureLayer s" "mForceClientComposer t = mForceClientComposer s"
    "mOverlayFbs t = mOverlayFbs s" "mComposerFbs t = mComposerFbs s" "mHaveClient t = mHaveClient s"
    "mInsideVideoFbsFlag t = mInsideVideoFbsFlag s" "mDisplayRefFb t = mDisplayRefFb s"
    "mMinComposerZorder t = mMinComposerZorder s" "mMaxComposerZorder t = mMaxComposerZorder s"
  using assms unfolding video_step_def fb_ids_def by (elim conjE exE; simp)+

lemma video_step_store:
  assumes "video_step s t"
  shows "types_below (next_fb s) (fbs s) (fbs t)" "next_fb s \<le> next_fb t"
    "composers_kept (composers s) (composers t)" "quiet s t"
  using assms unfolding video_step_def by blast+

end
