(* ===== verification/VideoScan.thy ===== *)
theory VideoScan
  imports VideoFrame
begin

text \<open>
  The first loop of \<open>processVideoFbs\<close> in closed form: \<open>scan_videos\<close> splits the layers into
  legacy sidebands, videos with a buffer and videos without one.
\<close>

section \<open>The first loop\<close>

definition is_sideband :: "'a world_scheme \<Rightarrow> fbid \<Rightarrow> bool" where
  "is_sideband s f \<longleftrightarrow> ctype_of s f \<noteq> MESON_COMPOSITION_DUMMY
     \<and> is_video_kind (mFbType (fbs s f)) = Some True"

definition is_di_video :: "'a world_scheme \<Rightarrow> fbid \<Rightarrow> bool" where
  "is_di_video s f \<longleftrightarrow> ctype_of s f \<noteq> MESON_COMPOSITION_DUMMY
     \<and> is_video_kind (mFbType (fbs s f)) = Some False \<and> haveValidBuffer (fbs s f)"

definition is_empty_video :: "'a world_scheme \<Rightarrow> fbid \<Rightarrow> bool" where
  "is_empty_video s f \<longleftrightarrow> ctype_of s f \<noteq> MESON_COMPOSITION_DUMMY
     \<and> is_video_kind (mFbType (fbs s f)) = Some False \<and> \<not> haveValidBuffer (fbs s f)"

lemmas video_kinds = is_sideband_def is_di_video_def is_empty_video_def

lemma video_kind_frame:
  assumes "f \<noteq> g"
  shows "is_sideband (upd_comp g c s) f = is_sideband s f"
    "is_di_video (upd_comp g c s) f = is_di_video s f"
    "is_empty_video (upd_comp g c s) f = is_empty_video s f"
  using assms by (simp_all add: video_kinds upd_comp_def)

lemma video_kind_push [simp]:
  "is_sideband (s\<lparr>mDIComposerFbs := d\<rparr>) = is_sideband s"
  "is_di_video (s\<lparr>mDIComposerFbs := d\<rparr>) = is_di_video s"
  "is_empty_video (s\<lparr>mDIComposerFbs := d\<rparr>) = is_empty_video s"
  by (auto simp: video_kinds)

definition scanned :: "wdi_state \<Rightarrow> fbid list \<Rightarrow> wdi_state" where
  "scanned s fs = s\<lparr>mDIComposerFbs := mDIComposerFbs s @ filter (is_di_video s) fs,
     fbs := set_comps (filter (is_empty_video s) fs) MESON_COMPOSITION_DUMMY (fbs s)\<rparr>"

definition scan_of :: "'a world_scheme \<Rightarrow> fbid list \<Rightarrow> video_scan \<Rightarrow> video_scan" where
  "scan_of s fs v = (let zs = map (zorder_of s) (filter (\<lambda>f. is_sideband s f \<or> is_di_video s f) fs) in
     v\<lparr>sidebandFbs := sidebandFbs v @ filter (is_sideband s) fs,
       videoFbNum := videoFbNum v + int (length (filter (is_sideband s) fs))
          + int (length (filter (is_di_video s) fs)),
       minVideoZ := fold (growMin (INVALID s)) zs (minVideoZ v),
       maxVideoZ := fold (growMax (INVALID s)) zs (maxVideoZ v)\<rparr>)"

lemma scan_videos:
  assumes "distinct fs"
  shows "fold scanVideoFb fs (v, s) = (scan_of s fs v, scanned s fs)"
  using assms
proof (induction fs arbitrary: v s)
  case Nil
  then show ?case
    by (simp add: scanned_def set_comps_def scan_of_def)
next
  case (Cons f fs)
  then have d: "distinct fs" and f: "f \<notin> set fs" by simp_all
  let ?z = "zorder_of s f"
  consider (side) "is_sideband s f" | (di) "is_di_video s f" | (empty) "is_empty_video s f"
    | (none) "\<not> is_sideband s f" "\<not> is_di_video s f" "\<not> is_empty_video s f" by blast
  then show ?case
  proof cases
    case side
    define w where "w = v\<lparr>videoFbNum := videoFbNum v + 1, minVideoZ := growMin (INVALID s) ?z (minVideoZ v),
        maxVideoZ := growMax (INVALID s) ?z (maxVideoZ v), sidebandFbs := sidebandFbs v @ [f]\<rparr>"
    have "scanVideoFb f (v, s) = (w, s)"
      using side by (simp add: is_sideband_def w_def Let_def)
    moreover have "\<not> is_di_video s f" "\<not> is_empty_video s f" using side by (auto simp: video_kinds)
    ultimately show ?thesis using Cons.IH [OF d, of w s] side
      by (auto simp: w_def scanned_def scan_of_def Let_def simp del: scanVideoFb.simps)
  next
    case di
    define w where "w = v\<lparr>videoFbNum := videoFbNum v + 1, minVideoZ := growMin (INVALID s) ?z (minVideoZ v),
        maxVideoZ := growMax (INVALID s) ?z (maxVideoZ v)\<rparr>"
    define u where "u = s\<lparr>mDIComposerFbs := mDIComposerFbs s @ [f]\<rparr>"
    have "scanVideoFb f (v, s) = (w, u)"
      using di by (simp add: is_di_video_def w_def u_def Let_def)
    moreover have "\<not> is_sideband s f" "\<not> is_empty_video s f" using di by (auto simp: video_kinds)
    ultimately show ?thesis using Cons.IH [OF d, of w u] di
      by (auto simp: w_def u_def scanned_def scan_of_def Let_def simp del: scanVideoFb.simps)
  next
    case empty
    define u where "u = upd_comp f MESON_COMPOSITION_DUMMY s"
    have "scanVideoFb f (v, s) = (v, u)"
      using empty by (simp add: is_empty_video_def u_def)
    moreover have "\<not> is_sideband s f" "\<not> is_di_video s f" using empty by (auto simp: video_kinds)
    moreover have kinds: "is_sideband u g = is_sideband s g" "is_di_video u g = is_di_video s g"
      "is_empty_video u g = is_empty_video s g" if "g \<in> set fs" for g
    proof -
      from that f have "g \<noteq> f" by auto
      then show "is_sideband u g = is_sideband s g" "is_di_video u g = is_di_video s g"
        "is_empty_video u g = is_empty_video s g" unfolding u_def by (rule video_kind_frame)+
    qed
    moreover have "filter (is_sideband u) fs = filter (is_sideband s) fs"
      "filter (is_di_video u) fs = filter (is_di_video s) fs"
      "filter (is_empty_video u) fs = filter (is_empty_video s) fs"
      "filter (\<lambda>f. is_sideband u f \<or> is_di_video u f) fs = filter (\<lambda>f. is_sideband s f \<or> is_di_video s f) fs"
      by (rule filter_cong [OF refl]; use kinds in simp)+
    ultimately show ?thesis using Cons.IH [OF d, of v u] empty
      by (auto simp: u_def upd_comp_def scanned_def set_comps_def scan_of_def Let_def simp del: scanVideoFb.simps)
  next
    case none
    then have "scanVideoFb f (v, s) = (v, s)"
      by (auto simp: video_kinds Let_def split: option.split bool.split)
    with none show ?thesis using Cons.IH [OF d, of v s]
      by (simp add: scanned_def scan_of_def Let_def del: scanVideoFb.simps)
  qed
qed

lemma growMin_fold:
  assumes "iv = -1" and "\<forall>z \<in> set zs. z \<noteq> iv"
  shows "fold (growMin iv) zs m = fold min zs m"
  using assms
proof (induction zs arbitrary: m)
  case (Cons z zs)
  have "growMin iv z m = min z m"
    using Cons.prems by (auto simp: growMin_def min_def)
  with Cons show ?case by simp
qed simp

section \<open>The composed plane\<close>

lemma composer_valid_kept:
  "composer_valid (composer_prepare c) = composer_valid c"
  "composer_addInputs c fs os i = Inr c' \<Longrightarrow> composer_valid c' = composer_valid c"
  "composer_setOutput h c fb i = Inr c' \<Longrightarrow> composer_valid c' = composer_valid c"
  "composer_setProcessorsManager c m i = Inr c' \<Longrightarrow> composer_valid c' = composer_valid c"
  by (cases c; auto simp: fun_eq_iff bindE_Inr_iff di_defs di_prepare_def split: if_splits option.splits)+

lemma composer_type_manager:
  "composer_setProcessorsManager c m i = Inr c' \<Longrightarrow> composer_getType c' = composer_getType c"
  by (cases c) (auto simp: bindE_Inr_iff)

lemma manager_keeps_output:
  assumes "composer_valid c i"
  shows "\<exists>c'. composer_setProcessorsManager c m i = Inr c'
    \<and> composer_getOutput c' i = composer_getOutput c i"
  using assms by (cases c) (auto simp: di_defs)

lemma prepare_output:
  "composer_getType c = MESON_COMPOSITION_CLIENT \<Longrightarrow> composer_getOutput (composer_prepare c) = composer_getOutput c"
  by (cases c) (simp_all add: fun_eq_iff)

lemma call_prepare_step: "video_step s (call_prepare c s)"
  unfolding call_prepare_def
  by (rule video_step_call) (simp_all add: composer_valid_kept composer_type_const prepare_output)

lemma call_prepare_simps [simp]:
  "mDIComposerFbs (call_prepare c s) = mDIComposerFbs s"
  "mHwcVideoPlanes (call_prepare c s) = mHwcVideoPlanes s"
  "mDisplayPairs (call_prepare c s) = mDisplayPairs s"
  "fbs (call_prepare c s) = fbs s" "next_fb (call_prepare c s) = next_fb s"
  by (simp_all add: call_prepare_def log_event_def)

end
