(* ===== verification/VideoPlanes.thy ===== *)
theory VideoPlanes
  imports VideoScan
begin

text \<open>
  The loop of \<open>processVideoFbs\<close> over the planes. \<open>allotted\<close> is its result: a pair for
  every plane used, in order, and every video either in a pair of its own or, when there are
  more videos than planes, among the inputs of the video composer, whose output is in the last
  pair. \<open>composeVideos_done\<close> rests on the contract \<open>composer_slot\<close>.
\<close>

section \<open>The plane of the video composer\<close>

definition di_ready :: "'a video_state_scheme \<Rightarrow> nat \<Rightarrow> bool" where
  "di_ready s i \<longleftrightarrow> (\<exists>c. mDiComposer s = Some c
     \<and> composer_getType (composers s c) = MESON_COMPOSITION_DI
     \<and> composer_valid (composers s c) (int i))"

text \<open>
  \<open>composed_on s t q i minZ\<close>: the last pair \<open>q\<close> shows the output of slot \<open>i\<close> of the video
  composer, whose inputs are the framebuffers left in \<open>mDIComposerFbs\<close>.
\<close>

definition composed_on :: "'a video_state_scheme \<Rightarrow> 'a video_state_scheme \<Rightarrow> display_pair \<Rightarrow> nat
    \<Rightarrow> u32 \<Rightarrow> bool" where
  "composed_on s t q i minZ \<longleftrightarrow> pair_fb q = next_fb s \<and> presentZorder q = minZ
     \<and> ctype_of t (pair_fb q) = MESON_COMPOSITION_DI
     \<and> mFbType (fbs t (pair_fb q)) = DRM_FB_DI_COMPOSE_OUTPUT \<and> \<not> isVtBuffer (fbs t (pair_fb q))
     \<and> mDIComposerFbs t \<noteq> [] \<and> mHwcVideoInputFbs t = mDIComposerFbs t
     \<and> (\<forall>f \<in> set (mDIComposerFbs t). ctype_of t f = MESON_COMPOSITION_DI)
     \<and> (\<exists>c. mDiComposer t = Some c
          \<and> composer_getOutput (composers t c) (int i) = Inr (Some (pair_fb q))
          \<and> ComposerAddInputs c (mDIComposerFbs t) [] (int i) \<in> set (events t))"

lemma composeVideos_done:
  assumes ready: "di_ready s i" and ne: "mHwcVideoInputFbs s \<noteq> []"
    and eq: "mHwcVideoInputFbs s = mDIComposerFbs s"
    and old: "\<forall>f \<in> set (mDIComposerFbs s). f < next_fb s"
  shows "okE (composeVideos i s) (\<lambda>(f, t). video_step s t \<and> f = next_fb s
    \<and> mDisplayPairs t = mDisplayPairs s \<and> mHwcVideoPlanes t = mHwcVideoPlanes s
    \<and> mDIComposerFbs t = mDIComposerFbs s
    \<and> (\<forall>g < next_fb s. ctype_of t g =
          (if g \<in> set (mDIComposerFbs s) then MESON_COMPOSITION_DI else ctype_of s g))
    \<and> composed_on s t \<lparr>din = d, presentZorder = z, pair_fb = f, pair_plane = p\<rparr> i z)"
proof -
  from ready obtain c where c: "mDiComposer s = Some c"
    "composer_getType (composers s c) = MESON_COMPOSITION_DI" "composer_valid (composers s c) (int i)"
    by (auto simp: di_ready_def)
  let ?i = "int i" and ?d = "mDIComposerFbs s" and ?f = "next_fb s"
  let ?h = "set_comps ?d MESON_COMPOSITION_DI (fbs s)"
  let ?c0 = "composer_prepare (composers s c)"
  have v0: "composer_valid ?c0 ?i" using c by (simp add: composer_valid_kept)
  define z0 where "z0 = mZorder (?h (hd ?d))"
  define fb where "fb = (new_framebuffer (?h ?f))
      \<lparr>mFbType := DRM_FB_DI_COMPOSE_OUTPUT, mCompositionType := MESON_COMPOSITION_DI, mZorder := z0\<rparr>"
  define h where "h = ?h(?f := fb)"
  have acc: "mFbType (h ?f) = DRM_FB_DI_COMPOSE_OUTPUT" by (simp add: h_def fb_def)
  from composer_objects.output_after_inputs [OF v0, of h ?f ?d "[]", OF acc]
  obtain c1 c2 where c1: "composer_addInputs ?c0 ?d [] ?i = Inr c1"
    and c2: "composer_setOutput h c1 (Some ?f) ?i = Inr c2"
    and out: "composer_getOutput c2 ?i = Inr (Some ?f)" by blast
  have v2: "composer_valid c2 ?i" using v0 c1 c2 by (simp add: composer_valid_kept)
  from manager_keeps_output [OF v2, of "mVideoProcessorsMgr s"] out
  obtain c3 where c3: "composer_setProcessorsManager c2 (mVideoProcessorsMgr s) ?i = Inr c3"
    and out3: "composer_getOutput c3 ?i = Inr (Some ?f)" by auto
  define t where "t = s\<lparr>fbs := h, next_fb := Suc ?f, composers := (composers s)(c := c3),
      events := events s @ [ComposerPrepare c, ComposerAddInputs c ?d [] ?i,
        ComposerSetOutput c (Some ?f) ?i, ComposerSetManager c (mVideoProcessorsMgr s) ?i]\<rparr>"
  have run: "composeVideos i s = Inr (?f, t)"
    using c(1) c1 c2 c3
    by (simp add: composeVideos_def eq getE_def call_prepare_def call_addInputs_def log_event_def
        allocateDiOutputFb_def call_setOutput_def call_setProcessorsManager_def t_def h_def fb_def
        z0_def fun_upd_idem_iff Let_def)
  have kept: "composer_getType c3 = composer_getType (composers s c)"
    "composer_valid c3 = composer_valid (composers s c)"
    using c1 c2 c3 composer_type_const composer_valid_kept composer_type_manager by metis+
  have below: "types_below ?f (fbs s) h"
  proof -
    have "types_below ?f (fbs s) ?h" by (rule types_below_set_comps)
    then show ?thesis by (simp add: types_below_def h_def)
  qed
  have "video_step s t"
    by (rule video_stepI [where h = h and cs = "(composers s)(c := c3)" and es = "events t"
          and ps = "mDisplayPairs s" and d = "mDIComposerFbs s" and i = "mHwcVideoInputFbs s"
          and m = "mVideoProcessorsMgr s" and n = "Suc ?f" and v = "mHwcVideoPlanes s"])
      (use kept below c(2) in \<open>auto simp: t_def quiet_def intro: composers_keptI\<close>)
  moreover have "composed_on s t \<lparr>din = d, presentZorder = z, pair_fb = ?f, pair_plane = p\<rparr> i z"
    using ne eq c(1) out3 old by (auto simp: composed_on_def t_def h_def fb_def new_framebuffer_def)
  moreover have "\<forall>g < ?f. ctype_of t g =
      (if g \<in> set ?d then MESON_COMPOSITION_DI else ctype_of s g)" by (simp add: t_def h_def)
  ultimately show ?thesis using run by (simp add: t_def)
qed

section \<open>The loop over the planes\<close>

definition plane_pair :: "'a video_state_scheme \<Rightarrow> bool \<Rightarrow> display_pair \<Rightarrow> bool" where
  "plane_pair t cpr p \<longleftrightarrow> ctype_of t (pair_fb p) = MESON_COMPOSITION_PLANE_HWCVIDEO
     \<and> presentZorder p = (if cpr then zorder_of t (pair_fb p) + 1 else zorder_of t (pair_fb p))"

text \<open>
  \<open>allotted\<close>: the new pairs \<open>ps\<close>, one plane each in order; the first sideband and the
  other videos are in them, or, when there are too many videos, with the video composer.
\<close>

definition allotted :: "nat \<Rightarrow> bool \<Rightarrow> u32 \<Rightarrow> fbid list \<Rightarrow> 'a video_state_scheme
    \<Rightarrow> 'a video_state_scheme \<Rightarrow> display_pair list \<Rightarrow> bool" where
  "allotted i cpr minZ sb s t ps \<longleftrightarrow> mDisplayPairs t = mDisplayPairs s @ ps
     \<and> map pair_plane ps = take (length ps) (drop i (mHwcVideoPlanes s))
     \<and> (\<forall>f \<in> set (drop 1 sb). ctype_of t f = MESON_COMPOSITION_DUMMY)
     \<and> (\<forall>f < next_fb s. f \<notin> set sb \<and> f \<notin> set (mDIComposerFbs s) \<longrightarrow> ctype_of t f = ctype_of s f)
     \<and> (if cpr then
          (\<exists>qs q. ps = qs @ [q] \<and> (\<forall>p \<in> set qs. plane_pair t True p)
             \<and> i + length ps = nat (mVideoPlaneNum s)
             \<and> composed_on s t q (nat (mVideoPlaneNum s - 1)) minZ
             \<and> mset (map pair_fb qs) + mset (mDIComposerFbs t) =
                 mset (take 1 sb) + mset (mDIComposerFbs s))
        else (\<forall>p \<in> set ps. plane_pair t False p)
          \<and> mset (map pair_fb ps) = mset (take 1 sb) + mset (mDIComposerFbs s))"

lemma pushPair_step: "video_step s (pushPair d z f p s)"
  unfolding pushPair_def
  by (rule video_step_frame [where ps = "mDisplayPairs (pushPair d z f p s)" and d = "mDIComposerFbs s"
        and i = "mHwcVideoInputFbs s" and m = "mVideoProcessorsMgr s" and v = "mHwcVideoPlanes s"])
    (simp add: pushPair_def)

lemma pushPair_simps [simp]:
  "mHwcVideoPlanes (pushPair d z f p s) = mHwcVideoPlanes s"
  "mDIComposerFbs (pushPair d z f p s) = mDIComposerFbs s"
  "mDisplayPairs (pushPair d z f p s) = mDisplayPairs s
     @ [\<lparr>din = d, presentZorder = z, pair_fb = f, pair_plane = p\<rparr>]"
  "fbs (pushPair d z f p s) = fbs s" "next_fb (pushPair d z f p s) = next_fb s"
  "composers (pushPair d z f p s) = composers s" "events (pushPair d z f p s) = events s"
  "mDiComposer (pushPair d z f p s) = mDiComposer s"
  "mHwcVideoInputFbs (pushPair d z f p s) = mHwcVideoInputFbs s"
  by (simp_all add: pushPair_def)

lemma upd_comp_simps [simp]:
  "mHwcVideoPlanes (upd_comp f c s) = mHwcVideoPlanes s"
  "mDIComposerFbs (upd_comp f c s) = mDIComposerFbs s"
  "mDisplayPairs (upd_comp f c s) = mDisplayPairs s" "next_fb (upd_comp f c s) = next_fb s"
  "fbs (upd_comp f c s) = set_comp f c (fbs s)"
  "mHwcVideoInputFbs (upd_comp f c s) = mHwcVideoInputFbs s"
  by (simp_all add: upd_comp_def)

lemma composed_on_push [simp]:
  "composed_on s (pushPair d z f p t) q i mz = composed_on s t q i mz"
  by (simp add: composed_on_def)

lemma composed_on_from [simp]:
  "composed_on (s\<lparr>mHwcVideoInputFbs := fs\<rparr>) t q i mz = composed_on s t q i mz"
  by (simp add: composed_on_def)

lemma video_step_inputs: "video_step s (s\<lparr>mHwcVideoInputFbs := fs\<rparr>)"
  by (rule video_step_frame [where ps = "mDisplayPairs s" and d = "mDIComposerFbs s" and i = fs
        and m = "mVideoProcessorsMgr s" and v = "mHwcVideoPlanes s"]) simp

lemma video_step_di: "video_step s (s\<lparr>mDIComposerFbs := fs\<rparr>)"
  by (rule video_step_frame [where ps = "mDisplayPairs s" and d = fs and i = "mHwcVideoInputFbs s"
        and m = "mVideoProcessorsMgr s" and v = "mHwcVideoPlanes s"]) simp

lemma di_ready_step: "video_step s t \<Longrightarrow> di_ready s i \<Longrightarrow> di_ready t i"
  using video_step_fields(3) [of s t] video_step_store(3) [of s t]
  by (auto simp: di_ready_def composers_kept_def)

lemma lastVideoPlane_done:
  assumes i: "i < length (mHwcVideoPlanes s)" and N: "mVideoPlaneNum s = int i + 1"
    and old: "\<forall>f \<in> set (mDIComposerFbs s). f < next_fb s" and ne: "mDIComposerFbs s \<noteq> []"
    and cpr: "if cpr then di_ready s i else length (mDIComposerFbs s) = 1"
  shows "okE (lastVideoPlane i cpr minZ s) (\<lambda>t. \<exists>p. video_step s t
    \<and> mHwcVideoPlanes t = mHwcVideoPlanes s \<and> allotted i cpr minZ [] s t [p])"
proof -
  let ?p = "mHwcVideoPlanes s ! i" and ?s = "s\<lparr>mHwcVideoInputFbs := mDIComposerFbs s\<rparr>"
  have plane: "take 1 (drop i (mHwcVideoPlanes s)) = [?p]"
    using i by (simp add: take_Suc_conv_app_nth [of 0] hd_drop_conv_nth)
  have step: "video_step s ?s" by (rule video_step_inputs)
  show ?thesis
  proof (cases cpr)
    case True
    let ?q = "\<lambda>f. \<lparr>din = nat (mOsdPlaneNum s) + i, presentZorder = minZ, pair_fb = f, pair_plane = ?p\<rparr>"
    have push: "okE (pushVideoPair i minZ f t) (\<lambda>u. \<exists>p. video_step s u
        \<and> mHwcVideoPlanes u = mHwcVideoPlanes s \<and> allotted i True minZ [] s u [p])"
      if "video_step ?s t \<and> f = next_fb ?s \<and> mDisplayPairs t = mDisplayPairs ?s
        \<and> mHwcVideoPlanes t = mHwcVideoPlanes ?s \<and> mDIComposerFbs t = mDIComposerFbs ?s
        \<and> (\<forall>g < next_fb ?s. ctype_of t g = (if g \<in> set (mDIComposerFbs ?s)
            then MESON_COMPOSITION_DI else ctype_of ?s g)) \<and> composed_on ?s t (?q f) i minZ" for f t
    proof -
      let ?u = "pushPair (nat (mOsdPlaneNum t) + i) minZ f ?p t"
      have t: "video_step ?s t" by (rule that [THEN conjunct1])
      have co: "composed_on ?s t (?q f) i minZ" using that by (elim conjE)
      have "pushVideoPair i minZ f t = Inr ?u"
        using that i by (simp add: pushVideoPair_def nthE_def)
      moreover have "video_step s ?u"
        using video_step_trans [OF step] video_step_trans [OF t pushPair_step] by blast
      moreover have "composed_on s t (?q f) i minZ" using co by simp
      then have "allotted i True minZ [] s ?u [?q f]"
        using that plane N video_step_fields(5) [OF t] by (simp add: allotted_def)
      ultimately show ?thesis using that by auto
    qed
    have "okE (composeVideos i ?s) (\<lambda>(f, t). okE (pushVideoPair i minZ f t) (\<lambda>u. \<exists>p. video_step s u
        \<and> mHwcVideoPlanes u = mHwcVideoPlanes s \<and> allotted i True minZ [] s u [p]))"
      by (rule okE_mono [OF composeVideos_done [where d = "nat (mOsdPlaneNum s) + i" and z = minZ
              and p = ?p]])
        (use ne old cpr True push di_ready_step [OF step] in \<open>auto split: prod.splits\<close>)
    then show ?thesis using ne True
      by (auto simp: lastVideoPlane_def okE_bindE elim!: okE_mono)
  next
    case False
    then obtain f where f: "mDIComposerFbs s = [f]" using cpr by (auto simp: length_Suc_conv)
    let ?u = "upd_comp f MESON_COMPOSITION_PLANE_HWCVIDEO ?s"
    let ?t = "pushPair (nat (mOsdPlaneNum ?u) + i) (zorder_of s f) f ?p ?u"
    have "lastVideoPlane i cpr minZ s = Inr ?t"
      using False f i by (simp add: lastVideoPlane_def pushVideoPair_def nthE_def Let_def)
    moreover have "video_step s ?t"
      using video_step_trans [OF step] video_step_trans [OF video_step_upd_comp pushPair_step] by blast
    moreover have "allotted i False minZ [] s ?t
        [\<lparr>din = nat (mOsdPlaneNum ?u) + i, presentZorder = zorder_of s f, pair_fb = f, pair_plane = ?p\<rparr>]"
      using f plane by (simp add: allotted_def plane_pair_def)
    ultimately show ?thesis using False by auto
  qed
qed

section \<open>All planes\<close>

text \<open>A round before the last plane: the sideband if there is one, or the best video.\<close>

definition next_video :: "bool \<Rightarrow> fbid list \<Rightarrow> 'a video_state_scheme
    \<Rightarrow> fault + fbid \<times> 'a video_state_scheme" where
  "next_video cpr sb s = (case sb of
     f # rest \<Rightarrow> Inr (f, dropSidebands rest s)
   | [] \<Rightarrow> (case chooseOneVideoFb cpr s of (_, out, s) \<Rightarrow>
       bindE (getE NullDeref out) (\<lambda>f. Inr (f, s))))"

lemma dropSidebands_eq: "dropSidebands fs s = s\<lparr>fbs := set_comps fs MESON_COMPOSITION_DUMMY (fbs s)\<rparr>"
  unfolding dropSidebands_def set_comps_def
  by (induction fs arbitrary: s) (simp_all add: upd_comp_def)

lemma next_video_done:
  assumes ne: "sb \<noteq> [] \<or> mDIComposerFbs s \<noteq> []"
  shows "\<exists>f t. next_video cpr sb s = Inr (f, t) \<and> video_step s t \<and> next_fb t = next_fb s
    \<and> mHwcVideoPlanes t = mHwcVideoPlanes s \<and> mDisplayPairs t = mDisplayPairs s
    \<and> mset (f # mDIComposerFbs t) = mset (take 1 sb) + mset (mDIComposerFbs s)
    \<and> (\<forall>g. ctype_of t g = (if g \<in> set (drop 1 sb) then MESON_COMPOSITION_DUMMY else ctype_of s g))"
proof (cases sb)
  case Nil
  with ne chooseOneVideoFb_best [of s cpr] obtain f where
    f: "chooseOneVideoFb cpr s = (True, Some f, s\<lparr>mDIComposerFbs := remove1 f (mDIComposerFbs s)\<rparr>)"
    "f \<in> set (mDIComposerFbs s)" by blast
  with Nil show ?thesis
    by (intro exI [of _ f] exI [of _ "s\<lparr>mDIComposerFbs := remove1 f (mDIComposerFbs s)\<rparr>"])
      (simp add: next_video_def getE_def video_step_di)
next
  case (Cons f rest)
  have "video_step s (dropSidebands rest s)"
    unfolding dropSidebands_eq by (rule video_step_types [OF types_below_set_comps])
  with Cons show ?thesis
    by (intro exI [of _ f] exI [of _ "dropSidebands rest s"])
      (simp add: next_video_def dropSidebands_eq)
qed

lemma allotVideoPlanes_step:
  "\<not> mVideoPlaneNum s - 1 \<le> int i \<Longrightarrow> allotVideoPlanes (Suc n) i cpr minZ sb s =
    bindE (next_video cpr sb s) (\<lambda>(f, s).
      let s = upd_comp f MESON_COMPOSITION_PLANE_HWCVIDEO s;
          z = (if cpr then zorder_of s f + 1 else zorder_of s f)
      in bindE (pushVideoPair i z f s) (allotVideoPlanes n (Suc i) cpr minZ []))"
  by (simp add: next_video_def)

lemma allotted_Cons:
  assumes s: "video_step s u" "next_fb u = next_fb s" "mHwcVideoPlanes u = mHwcVideoPlanes s"
    "mDisplayPairs u = mDisplayPairs s @ [p]" and i: "i < length (mHwcVideoPlanes s)"
    and p: "pair_plane p = mHwcVideoPlanes s ! i"
      "presentZorder p = (if cpr then zorder_of u (pair_fb p) + 1 else zorder_of u (pair_fb p))"
    and f: "mset (pair_fb p # mDIComposerFbs u) = mset (take 1 sb) + mset (mDIComposerFbs s)"
    and ty: "\<forall>g. ctype_of u g = (if g = pair_fb p then MESON_COMPOSITION_PLANE_HWCVIDEO
        else if g \<in> set (drop 1 sb) then MESON_COMPOSITION_DUMMY else ctype_of s g)"
    and old: "distinct (sb @ mDIComposerFbs s)" "\<forall>f \<in> set sb \<union> set (mDIComposerFbs s). f < next_fb s"
    and t: "video_step u t" "allotted (Suc i) cpr minZ [] u t ps"
  shows "allotted i cpr minZ sb s t (p # ps)"
proof -
  have ps: "mDisplayPairs t = mDisplayPairs u @ ps"
    "map pair_plane ps = take (length ps) (drop (Suc i) (mHwcVideoPlanes u))"
    and keep: "\<And>g. g < next_fb u \<Longrightarrow> g \<notin> set (mDIComposerFbs u) \<Longrightarrow> ctype_of t g = ctype_of u g"
    using t(2) by (simp_all add: allotted_def)
  have fsb: "set (pair_fb p # mDIComposerFbs u) = set (take 1 sb) \<union> set (mDIComposerFbs s)"
    using f by (metis mset_append set_append set_mset_mset)
  have dist: "distinct (pair_fb p # mDIComposerFbs u)"
  proof -
    have "distinct (take 1 sb @ mDIComposerFbs s)" using old(1) by (cases sb) auto
    then show ?thesis using f by (metis mset_append mset_eq_imp_distinct_iff)
  qed
  have rest: "g \<notin> set (pair_fb p # mDIComposerFbs u)" "g < next_fb s" if "g \<in> set (drop 1 sb)" for g
    using that old fsb by (cases sb; auto)+
  have "pair_fb p < next_fb u" using fsb old(2) s(2) by (cases sb) auto
  with dist keep [of "pair_fb p"] ty
  have pp: "ctype_of t (pair_fb p) = MESON_COMPOSITION_PLANE_HWCVIDEO"
    "zorder_of t (pair_fb p) = zorder_of u (pair_fb p)"
    using types_below_fields(1) [OF video_step_store(1) [OF t(1)]] by simp_all
  then have "plane_pair t cpr p" using p(2) by (simp add: plane_pair_def)
  moreover have "map pair_plane (p # ps) = take (length (p # ps)) (drop i (mHwcVideoPlanes s))"
    using ps(2) p(1) s(3) by (simp flip: Cons_nth_drop_Suc [OF i])
  moreover have "\<forall>g \<in> set (drop 1 sb). ctype_of t g = MESON_COMPOSITION_DUMMY"
    using rest keep s(2) ty by auto
  moreover have "ctype_of t g = ctype_of s g"
    if "g < next_fb s" "g \<notin> set sb" "g \<notin> set (mDIComposerFbs s)" for g
  proof -
    have "g \<notin> set (pair_fb p # mDIComposerFbs u)" "g \<notin> set (drop 1 sb)"
      using that fsb by (auto dest: in_set_takeD in_set_dropD)
    with keep [of g] that s(2) ty show ?thesis by simp
  qed
  ultimately show ?thesis
    using t(2) ps(1) s f video_step_fields(4) [OF s(1)] unfolding allotted_def
    by (auto simp: composed_on_def split: if_splits)
qed

end
