(* ===== verification/VideoProcess.thy ===== *)
theory VideoProcess
  imports VideoPlanes
begin

text \<open>
  \<open>processVideoFbs\<close> as a whole: \<open>video_result\<close> is what it does in general and
  \<open>sideband_result\<close> on a device with one video plane that has a legacy sideband to show.
  \<open>video_ready\<close> is the state \<open>setup\<close> leaves on a device with hwc video planes.
\<close>

section \<open>The whole loop\<close>

lemma allot_done:
  assumes "n = length (take 1 sb) + length (mDIComposerFbs s)"
    and "mVideoPlaneNum s = int N" and "N = length (mHwcVideoPlanes s)"
    and "cpr \<longleftrightarrow> N < i + n" and "n = 0 \<and> i \<le> N \<or> i < N" and "sb \<noteq> [] \<longrightarrow> i + 1 < N"
    and "distinct (sb @ mDIComposerFbs s)"
    and "\<forall>f \<in> set sb \<union> set (mDIComposerFbs s). f < next_fb s"
    and "cpr \<longrightarrow> di_ready s (N - 1)"
  shows "okE (allotVideoPlanes n i cpr minZ sb s) (\<lambda>(used, t). \<exists>ps. video_step s t
    \<and> mHwcVideoPlanes t = mHwcVideoPlanes s \<and> used = i + length ps \<and> used \<le> N
    \<and> allotted i cpr minZ sb s t ps)"
  using assms
proof (induction n arbitrary: i sb s)
  case 0
  then have "sb = []" by (cases sb) auto
  with 0 show ?case by (auto simp: allotted_def)
next
  case (Suc n)
  note N = Suc.prems(2,3) and old = Suc.prems(7,8)
  have iN: "i < N" using Suc.prems(5) by simp
  show ?case
  proof (cases "mVideoPlaneNum s - 1 \<le> int i")
    case True
    with N iN have last: "i = N - 1" "mVideoPlaneNum s = int i + 1" by linarith+
    with Suc.prems(6) have sb: "sb = []" by (cases sb) auto
    with Suc.prems(1,4) last iN have "mDIComposerFbs s \<noteq> []"
      and "if cpr then di_ready s i else length (mDIComposerFbs s) = 1"
      using Suc.prems(9) by auto
    from lastVideoPlane_done [OF _ last(2) _ this] iN N(2) old(2)
    have "okE (lastVideoPlane i cpr minZ s) (\<lambda>t. \<exists>p. video_step s t
        \<and> mHwcVideoPlanes t = mHwcVideoPlanes s \<and> allotted i cpr minZ [] s t [p])" by blast
    then have "okE (lastVideoPlane i cpr minZ s) (\<lambda>t. \<exists>ps. video_step s t
        \<and> mHwcVideoPlanes t = mHwcVideoPlanes s \<and> Suc i = i + length ps \<and> Suc i \<le> N
        \<and> allotted i cpr minZ sb s t ps)"
    proof (rule okE_mono, elim exE)
      fix t p
      assume "video_step s t \<and> mHwcVideoPlanes t = mHwcVideoPlanes s \<and> allotted i cpr minZ [] s t [p]"
      then show "\<exists>ps. video_step s t \<and> mHwcVideoPlanes t = mHwcVideoPlanes s
          \<and> Suc i = i + length ps \<and> Suc i \<le> N \<and> allotted i cpr minZ sb s t ps"
        using sb iN by (intro exI [of _ "[p]"]) simp
    qed
    with True show ?thesis by (simp add: okE_simps)
  next
    case False
    have ne: "sb \<noteq> [] \<or> mDIComposerFbs s \<noteq> []" using Suc.prems(1) by (cases sb) auto
    from next_video_done [OF ne, of cpr] obtain f t where run: "next_video cpr sb s = Inr (f, t)"
      and t: "video_step s t" "next_fb t = next_fb s" "mHwcVideoPlanes t = mHwcVideoPlanes s"
        "mDisplayPairs t = mDisplayPairs s"
      and f: "mset (f # mDIComposerFbs t) = mset (take 1 sb) + mset (mDIComposerFbs s)"
      and ty: "\<forall>g. ctype_of t g = (if g \<in> set (drop 1 sb) then MESON_COMPOSITION_DUMMY else ctype_of s g)"
      by blast
    define t1 where "t1 = upd_comp f MESON_COMPOSITION_PLANE_HWCVIDEO t"
    define z where "z = (if cpr then zorder_of t1 f + 1 else zorder_of t1 f)"
    define p where "p = \<lparr>din = nat (mOsdPlaneNum t1) + i, presentZorder = z, pair_fb = f,
        pair_plane = mHwcVideoPlanes s ! i\<rparr>"
    define u where "u = pushPair (din p) z f (pair_plane p) t1"
    have push: "pushVideoPair i z f t1 = Inr u"
      using iN N(2) t(3) by (simp add: pushVideoPair_def nthE_def u_def p_def t1_def)
    have su: "video_step s u"
      using video_step_trans [OF t(1)] video_step_trans [OF video_step_upd_comp pushPair_step]
      unfolding u_def t1_def by blast
    have u: "next_fb u = next_fb s" "mHwcVideoPlanes u = mHwcVideoPlanes s"
      "mDisplayPairs u = mDisplayPairs s @ [p]" "mDIComposerFbs u = mDIComposerFbs t"
      "fbs u = set_comp f MESON_COMPOSITION_PLANE_HWCVIDEO (fbs t)"
      using t by (simp_all add: u_def t1_def p_def)
    have mf: "mset (pair_fb p # mDIComposerFbs u) = mset (take 1 sb) + mset (mDIComposerFbs s)"
      using f u by (simp add: p_def)
    have fd: "distinct (f # mDIComposerFbs t)" "set (f # mDIComposerFbs t) \<subseteq> set sb \<union> set (mDIComposerFbs s)"
    proof -
      have "distinct (take 1 sb @ mDIComposerFbs s)" using old(1) by (cases sb) auto
      then show "distinct (f # mDIComposerFbs t)" using f by (metis mset_append mset_eq_imp_distinct_iff)
      have "set (f # mDIComposerFbs t) = set (take 1 sb) \<union> set (mDIComposerFbs s)"
        using f by (metis mset_append set_append set_mset_mset)
      then show "set (f # mDIComposerFbs t) \<subseteq> set sb \<union> set (mDIComposerFbs s)"
        by (auto dest: in_set_takeD)
    qed
    have len: "n = length (mDIComposerFbs u)"
      using arg_cong [OF f, of size] Suc.prems(1) u by simp
    have "okE (allotVideoPlanes n (Suc i) cpr minZ [] u) (\<lambda>(used, w). \<exists>ps. video_step u w
        \<and> mHwcVideoPlanes w = mHwcVideoPlanes u \<and> used = Suc i + length ps \<and> used \<le> N
        \<and> allotted (Suc i) cpr minZ [] u w ps)"
    proof (rule Suc.IH)
      show "n = length (take 1 []) + length (mDIComposerFbs u)" using len by simp
      show "mVideoPlaneNum u = int N" using video_step_fields(4) [OF su] N by simp
      show "N = length (mHwcVideoPlanes u)" using u N by simp
      show "cpr \<longleftrightarrow> N < Suc i + n" using Suc.prems(4) by simp
      show "n = 0 \<and> Suc i \<le> N \<or> Suc i < N" using False N(1) iN by linarith
      show "distinct ([] @ mDIComposerFbs u)" using fd u by simp
      show "\<forall>f \<in> set [] \<union> set (mDIComposerFbs u). f < next_fb u" using fd(2) old(2) u by auto
      show "cpr \<longrightarrow> di_ready u (N - 1)" using Suc.prems(9) di_ready_step [OF su] by blast
    qed simp
    then have "okE (allotVideoPlanes n (Suc i) cpr minZ [] u) (\<lambda>(used, w). \<exists>ps. video_step s w
        \<and> mHwcVideoPlanes w = mHwcVideoPlanes s \<and> used = i + length ps \<and> used \<le> N
        \<and> allotted i cpr minZ sb s w ps)"
    proof (rule okE_mono, clarify)
      fix w ps
      assume w: "video_step u w" "mHwcVideoPlanes w = mHwcVideoPlanes u" "Suc i + length ps \<le> N"
        "allotted (Suc i) cpr minZ [] u w ps"
      have "allotted i cpr minZ sb s w (p # ps)"
      proof (rule allotted_Cons [OF su u(1,2,3) _ _ _ mf _ old w(1,4)])
        show "\<forall>g. ctype_of u g = (if g = pair_fb p then MESON_COMPOSITION_PLANE_HWCVIDEO
            else if g \<in> set (drop 1 sb) then MESON_COMPOSITION_DUMMY else ctype_of s g)"
          using ty by (simp add: u(5) p_def)
      qed (use iN N in \<open>simp_all add: p_def z_def t1_def u(5)\<close>)
      then show "\<exists>ps'. video_step s w \<and> mHwcVideoPlanes w = mHwcVideoPlanes s
          \<and> Suc i + length ps = i + length ps' \<and> Suc i + length ps \<le> N \<and> allotted i cpr minZ sb s w ps'"
        using w u video_step_trans [OF su w(1)] by (intro exI [of _ "p # ps"]) simp
    qed
    moreover have "allotVideoPlanes (Suc n) i cpr minZ sb s = allotVideoPlanes n (Suc i) cpr minZ [] u"
    proof -
      have "allotVideoPlanes (Suc n) i cpr minZ sb s =
          bindE (pushVideoPair i z f t1) (allotVideoPlanes n (Suc i) cpr minZ [])"
        unfolding allotVideoPlanes_step [OF False] run by (simp add: Let_def t1_def z_def)
      then show ?thesis by (simp only: push bindE_simps)
    qed
    ultimately show ?thesis by simp
  qed
qed

section \<open>All video framebuffers\<close>

definition sidebands :: "'a osd_state_scheme \<Rightarrow> fbid list" where
  "sidebands s = filter (is_sideband s) (fb_ids s)"

definition di_videos :: "'a osd_state_scheme \<Rightarrow> fbid list" where
  "di_videos s = filter (is_di_video s) (fb_ids s)"

definition empty_videos :: "'a osd_state_scheme \<Rightarrow> fbid list" where
  "empty_videos s = filter (is_empty_video s) (fb_ids s)"

text \<open>Only one sideband is shown, so it counts once.\<close>

definition video_count :: "'a osd_state_scheme \<Rightarrow> nat" where
  "video_count s = length (take 1 (sidebands s)) + length (di_videos s)"

definition min_video_z :: "'a osd_state_scheme \<Rightarrow> u32" where
  "min_video_z s = fold (growMin (INVALID s))
     (map (zorder_of s) (filter (\<lambda>f. is_sideband s f \<or> is_di_video s f) (fb_ids s))) (-1)"

definition video_ready :: "'a video_state_scheme \<Rightarrow> bool" where
  "video_ready s \<longleftrightarrow> mVideoPlaneNum s = int (length (mHwcVideoPlanes s)) \<and> mHwcVideoPlanes s \<noteq> []
     \<and> mDIComposerFbs s = [] \<and> distinct (fb_ids s) \<and> (\<forall>f \<in> set (fb_ids s). f < next_fb s)"

text \<open>The state in which the planes are given out.\<close>

definition video_start :: "wdi_state \<Rightarrow> wdi_state" where
  "video_start s =
     (let n = int (length (sidebands s)) + int (length (di_videos s)); s = scanned s (fb_ids s);
          s = (if n \<le> mVideoPlaneNum s
               then (case mDiComposer s of None \<Rightarrow> s | Some c \<Rightarrow> call_prepare c s) else s)
      in setupProcessors n s)"

lemma setupProcessors_step:
  "video_step s (setupProcessors n s)"
  "mDIComposerFbs (setupProcessors n s) = mDIComposerFbs s"
  "mHwcVideoPlanes (setupProcessors n s) = mHwcVideoPlanes s"
  "mDisplayPairs (setupProcessors n s) = mDisplayPairs s" "fbs (setupProcessors n s) = fbs s"
  "next_fb (setupProcessors n s) = next_fb s"
proof -
  have m: "video_step s (s\<lparr>mVideoProcessorsMgr := b\<rparr>)" for s :: wdi_state and b
    by (rule video_step_frame [where ps = "mDisplayPairs s" and d = "mDIComposerFbs s"
        and i = "mHwcVideoInputFbs s" and m = b and v = "mHwcVideoPlanes s"]) simp
  have l: "set_plane e = [] \<Longrightarrow> video_step s (log_event e (s\<lparr>mVideoProcessorsMgr := b\<rparr>))"
    "set_plane e = [] \<Longrightarrow> video_step s ((log_event e s)\<lparr>mVideoProcessorsMgr := b\<rparr>)"
    for s :: wdi_state and e b
    using video_step_trans [OF m video_step_log] video_step_trans [OF video_step_log m] by blast+
  show "video_step s (setupProcessors n s)"
    unfolding setupProcessors_def by (auto intro!: l)
qed (simp_all add: setupProcessors_def log_event_def)

lemma scanned_step: "video_step s (scanned s fs)"
  unfolding scanned_def
  by (rule video_stepI [where h = "fbs (scanned s fs)" and cs = "composers s" and es = "events s"
        and ps = "mDisplayPairs s" and d = "mDIComposerFbs (scanned s fs)" and i = "mHwcVideoInputFbs s"
        and m = "mVideoProcessorsMgr s" and n = "next_fb s" and v = "mHwcVideoPlanes s"])
    (simp_all add: scanned_def types_below_set_comps)

lemma video_start_eq:
  "\<exists>u n. video_start s = setupProcessors n u \<and> video_step (scanned s (fb_ids s)) u
    \<and> mDIComposerFbs u = mDIComposerFbs (scanned s (fb_ids s))
    \<and> mHwcVideoPlanes u = mHwcVideoPlanes s \<and> mDisplayPairs u = mDisplayPairs s
    \<and> next_fb u = next_fb s \<and> fbs u = fbs (scanned s (fb_ids s))"
proof -
  let ?n = "int (length (sidebands s)) + int (length (di_videos s))" and ?t = "scanned s (fb_ids s)"
  define u where "u = (if ?n \<le> mVideoPlaneNum ?t
      then (case mDiComposer ?t of None \<Rightarrow> ?t | Some c \<Rightarrow> call_prepare c ?t) else ?t)"
  have "video_start s = setupProcessors ?n u" by (simp add: video_start_def u_def Let_def)
  moreover have "video_step ?t u" by (auto simp: u_def call_prepare_step split: option.split)
  moreover have "mDIComposerFbs u = mDIComposerFbs ?t" "mHwcVideoPlanes u = mHwcVideoPlanes s"
    "mDisplayPairs u = mDisplayPairs s" "next_fb u = next_fb s" "fbs u = fbs ?t"
    by (auto simp: u_def scanned_def split: option.split)
  ultimately show ?thesis by blast
qed

lemma video_start_step: "video_step s (video_start s)"
  using video_start_eq [of s] video_step_trans [OF scanned_step] video_step_trans setupProcessors_step(1)
  by metis

lemma video_start_done:
  assumes "mDIComposerFbs s = []"
  shows "mDIComposerFbs (video_start s) = di_videos s"
    "mHwcVideoPlanes (video_start s) = mHwcVideoPlanes s"
    "mDisplayPairs (video_start s) = mDisplayPairs s" "next_fb (video_start s) = next_fb s"
    "fbs (video_start s) = set_comps (empty_videos s) MESON_COMPOSITION_DUMMY (fbs s)"
  using video_start_eq [of s] assms
  by (auto simp: setupProcessors_step scanned_def di_videos_def empty_videos_def)

lemma processVideoFbs_eq:
  assumes "distinct (fb_ids s)"
  shows "processVideoFbs s =
    (if sidebands s = [] \<and> di_videos s = [] then Inr (video_start s)
     else if mVideoPlaneNum s = 1 \<and> sidebands s \<noteq> []
     then oneSidebandPlane (hd (sidebands s)) (tl (sidebands s)) (video_start s)
     else bindE (allotVideoPlanes (video_count s) 0 (mVideoPlaneNum s < int (video_count s))
         (min_video_z s) (sidebands s) (video_start s)) (\<lambda>(usedPlanes, s). erasePlanes usedPlanes s))"
proof -
  note num = video_step_fields(4) [OF video_start_step, of s] video_step_fields(4) [OF scanned_step, of s]
  have "processVideoFbs s =
    (if int (length (sidebands s)) + int (length (di_videos s)) = 0 then Inr (video_start s)
     else if mVideoPlaneNum (video_start s) = 1 \<and> sidebands s \<noteq> []
     then oneSidebandPlane (hd (sidebands s)) (tl (sidebands s)) (video_start s)
     else bindE (allotVideoPlanes (nat ((if sidebands s \<noteq> [] then 1 else 0) + (int (length (sidebands s))
             + int (length (di_videos s)) - int (length (sidebands s))))) 0
           (mVideoPlaneNum (video_start s) < (if sidebands s \<noteq> [] then 1 else 0) + (int (length (sidebands s))
             + int (length (di_videos s)) - int (length (sidebands s))))
         (min_video_z s) (sidebands s) (video_start s)) (\<lambda>(usedPlanes, s). erasePlanes usedPlanes s))"
    unfolding processVideoFbs_def Let_def scan_videos [OF assms] prod.case video_start_def
    by (simp only: scan_of_def Let_def sidebands_def [symmetric] di_videos_def [symmetric]
        min_video_z_def [symmetric] video_scan.simps append_Nil add_0_left)
  moreover have "(if sidebands s \<noteq> [] then 1 else 0) + (int (length (sidebands s))
      + int (length (di_videos s)) - int (length (sidebands s))) = int (video_count s)"
    by (cases "sidebands s") (simp_all add: video_count_def)
  moreover have "int (length (sidebands s)) + int (length (di_videos s)) = 0 \<longleftrightarrow>
      sidebands s = [] \<and> di_videos s = []"
    by (simp flip: of_nat_add)
  ultimately show ?thesis by (simp only: num nat_int)
qed

text \<open>
  \<open>video_result s t ps\<close>: what \<open>processVideoFbs\<close> does, except on a device with one plane that
  has a legacy sideband to show. The videos that get no pair are typed \<open>DUMMY\<close> or go to the
  video composer; all other layers are as before.
\<close>

definition video_result :: "'a video_state_scheme \<Rightarrow> 'a video_state_scheme \<Rightarrow> display_pair list \<Rightarrow> bool" where
  "video_result s t ps \<longleftrightarrow> video_step s t \<and> mDisplayPairs t = mDisplayPairs s @ ps
     \<and> map pair_plane ps @ mHwcVideoPlanes t = mHwcVideoPlanes s
     \<and> (\<forall>f \<in> set (drop 1 (sidebands s)) \<union> set (empty_videos s). ctype_of t f = MESON_COMPOSITION_DUMMY)
     \<and> (\<forall>f < next_fb s. f \<notin> set (sidebands s) \<union> set (di_videos s) \<union> set (empty_videos s)
          \<longrightarrow> ctype_of t f = ctype_of s f)
     \<and> (if length (mHwcVideoPlanes s) < video_count s then
          (\<exists>qs q. ps = qs @ [q] \<and> (\<forall>p \<in> set qs. plane_pair t True p)
             \<and> mHwcVideoPlanes t = []
             \<and> composed_on s t q (length (mHwcVideoPlanes s) - 1) (min_video_z s)
             \<and> mset (map pair_fb qs) + mset (mDIComposerFbs t) =
                 mset (take 1 (sidebands s)) + mset (di_videos s))
        else (\<forall>p \<in> set ps. plane_pair t False p)
          \<and> mset (map pair_fb ps) = mset (take 1 (sidebands s)) + mset (di_videos s))"

text \<open>One plane and a sideband: the plane shows it, or, when it is disabled, a video.\<close>

definition sideband_result :: "'a video_state_scheme \<Rightarrow> 'a video_state_scheme \<Rightarrow> display_pair \<Rightarrow> bool" where
  "sideband_result s t p \<longleftrightarrow> video_step s t \<and> mDisplayPairs t = mDisplayPairs s @ [p]
     \<and> pair_plane p # mHwcVideoPlanes t = mHwcVideoPlanes s
     \<and> presentZorder p = zorder_of t (pair_fb p)
     \<and> (if mIsSideBandDisable s
        then (if di_videos s = []
              then pair_fb p = hd (sidebands s) \<and> ctype_of t (pair_fb p) = MESON_COMPOSITION_DUMMY
              else pair_fb p \<in> set (di_videos s) \<and> ctype_of t (pair_fb p) = MESON_COMPOSITION_PLANE_HWCVIDEO)
        else pair_fb p = hd (sidebands s) \<and> ctype_of t (pair_fb p) = MESON_COMPOSITION_PLANE_HWCVIDEO)
     \<and> (\<forall>f \<in> set (sidebands s) \<union> set (di_videos s) \<union> set (empty_videos s).
          f \<noteq> pair_fb p \<longrightarrow> ctype_of t f = MESON_COMPOSITION_DUMMY)
     \<and> (\<forall>f < next_fb s. f \<notin> set (sidebands s) \<union> set (di_videos s) \<union> set (empty_videos s)
          \<longrightarrow> ctype_of t f = ctype_of s f)"

lemma video_lists:
  "distinct (fb_ids s) \<Longrightarrow> distinct (sidebands s @ di_videos s)"
  "set (sidebands s) \<union> set (di_videos s) \<union> set (empty_videos s) \<subseteq> set (fb_ids s)"
  "set (empty_videos s) \<inter> (set (sidebands s) \<union> set (di_videos s)) = {}"
  by (auto simp: sidebands_def di_videos_def empty_videos_def video_kinds)

lemma erasePlanes_done:
  assumes "n \<le> length (mHwcVideoPlanes s)"
  shows "erasePlanes n s = Inr (s\<lparr>mHwcVideoPlanes := drop n (mHwcVideoPlanes s)\<rparr>)"
    "video_step s (s\<lparr>mHwcVideoPlanes := v\<rparr>)"
  by (use assms in \<open>simp add: erasePlanes_def\<close>)
    (rule video_step_frame [where ps = "mDisplayPairs s" and d = "mDIComposerFbs s"
        and i = "mHwcVideoInputFbs s" and m = "mVideoProcessorsMgr s" and v = v], simp)

lemma processVideoFbs_result:
  assumes ready: "video_ready s" and not_one: "\<not> (mVideoPlaneNum s = 1 \<and> sidebands s \<noteq> [])"
    and di: "length (mHwcVideoPlanes s) < video_count s \<longrightarrow> di_ready s (length (mHwcVideoPlanes s) - 1)"
  shows "okE (processVideoFbs s) (\<lambda>t. \<exists>ps. video_result s t ps)"
proof -
  let ?N = "length (mHwcVideoPlanes s)" and ?v = "video_start s"
  note r = ready [unfolded video_ready_def]
  then have d: "distinct (fb_ids s)" and di0: "mDIComposerFbs s = []" and N: "mVideoPlaneNum s = int ?N"
    and old: "\<forall>f \<in> set (fb_ids s). f < next_fb s" and ne: "mHwcVideoPlanes s \<noteq> []" by simp_all
  note v = video_start_done [OF di0]
  have step: "video_step s ?v" by (rule video_start_step)
  have ty: "ctype_of ?v f = (if f \<in> set (empty_videos s) then MESON_COMPOSITION_DUMMY else ctype_of s f)" for f
    by (simp add: v)
  show ?thesis
  proof (cases "sidebands s = [] \<and> di_videos s = []")
    case True
    then have "video_result s ?v []"
      using step ne by (auto simp: video_result_def v video_count_def ty)
    with True show ?thesis by (auto simp: processVideoFbs_eq [OF d])
  next
    case False
    define cpr where "cpr \<longleftrightarrow> ?N < video_count s"
    have all: "set (sidebands s) \<union> set (di_videos s) \<subseteq> set (fb_ids s)" using video_lists(2) [of s] by blast
    have "okE (allotVideoPlanes (video_count s) 0 cpr (min_video_z s) (sidebands s) ?v)
      (\<lambda>(used, t). \<exists>ps. video_step ?v t \<and> mHwcVideoPlanes t = mHwcVideoPlanes ?v
        \<and> used = 0 + length ps \<and> used \<le> ?N \<and> allotted 0 cpr (min_video_z s) (sidebands s) ?v t ps)"
    proof (rule allot_done)
      show "video_count s = length (take 1 (sidebands s)) + length (mDIComposerFbs ?v)"
        by (simp add: video_count_def v)
      show "mVideoPlaneNum ?v = int ?N" using video_step_fields(4) [OF step] N by simp
      show "cpr \<longleftrightarrow> ?N < 0 + video_count s" by (simp add: cpr_def)
      show "sidebands s \<noteq> [] \<longrightarrow> 0 + 1 < ?N" using not_one N ne by (cases ?N) auto
      show "distinct (sidebands s @ mDIComposerFbs ?v)" using video_lists(1) [OF d] v by simp
      show "\<forall>f \<in> set (sidebands s) \<union> set (mDIComposerFbs ?v). f < next_fb ?v"
        using all old v by auto
      show "cpr \<longrightarrow> di_ready ?v (?N - 1)" using di di_ready_step [OF step] by (simp add: cpr_def)
    qed (use ne v in auto)
    then have "okE (bindE (allotVideoPlanes (video_count s) 0 cpr (min_video_z s) (sidebands s) ?v)
        (\<lambda>(usedPlanes, s). erasePlanes usedPlanes s)) (\<lambda>t. \<exists>ps. video_result s t ps)"
      unfolding okE_bindE
    proof (rule okE_mono)
      fix ut
      assume "case ut of (used, t) \<Rightarrow> \<exists>ps. video_step ?v t \<and> mHwcVideoPlanes t = mHwcVideoPlanes ?v
        \<and> used = 0 + length ps \<and> used \<le> ?N \<and> allotted 0 cpr (min_video_z s) (sidebands s) ?v t ps"
      then obtain t ps where ut: "ut = (length ps, t)"
        and t: "video_step ?v t" "mHwcVideoPlanes t = mHwcVideoPlanes ?v" "length ps \<le> ?N"
        "allotted 0 cpr (min_video_z s) (sidebands s) ?v t ps" by (cases ut) auto
      let ?t = "t\<lparr>mHwcVideoPlanes := drop (length ps) (mHwcVideoPlanes t)\<rparr>"
      have st: "video_step s ?t"
        using video_step_trans [OF step video_step_trans [OF t(1) erasePlanes_done(2)]] t v by simp
      have "map pair_plane ps @ mHwcVideoPlanes ?t = mHwcVideoPlanes s"
        using t(2,4) v by (simp add: allotted_def)
      moreover have "ctype_of ?t f = MESON_COMPOSITION_DUMMY" if "f \<in> set (empty_videos s)" for f
      proof -
        have "f < next_fb ?v" "f \<notin> set (sidebands s)" "f \<notin> set (mDIComposerFbs ?v)"
          using that old video_lists(2,3) [of s] v by auto
        then have "ctype_of t f = ctype_of ?v f" using t(4) unfolding allotted_def by blast
        then show ?thesis using that ty by simp
      qed
      moreover have "plane_pair ?t b p = plane_pair t b p" "composed_on s ?t q i z = composed_on ?v t q i z"
        for b p q i z by (simp_all add: plane_pair_def composed_on_def v)
      moreover have "nat (mVideoPlaneNum ?v - 1) = ?N - 1"
        using video_step_fields(4) [OF step] N by simp
      ultimately have "video_result s ?t ps"
        using t(4) st v ty unfolding video_result_def allotted_def cpr_def by auto
      then show "okE (case ut of (usedPlanes, s) \<Rightarrow> erasePlanes usedPlanes s)
          (\<lambda>t. \<exists>ps. video_result s t ps)"
        using t(2,3) v by (auto simp: ut erasePlanes_done)
    qed
    moreover have "processVideoFbs s = bindE (allotVideoPlanes (video_count s) 0 cpr (min_video_z s)
        (sidebands s) ?v) (\<lambda>(usedPlanes, s). erasePlanes usedPlanes s)"
      unfolding processVideoFbs_eq [OF d] if_not_P [OF False] cpr_def N if_not_P [OF not_one [unfolded N]]
      by (simp only: of_nat_less_iff)
    ultimately show ?thesis by (simp only:)
  qed
qed


section \<open>One plane and a legacy sideband\<close>

definition one_pair :: "fbid \<Rightarrow> fbid list \<Rightarrow> 'a video_state_scheme \<Rightarrow> 'a video_state_scheme" where
  "one_pair g d s =
     s\<lparr>mDisplayPairs := mDisplayPairs s @ [\<lparr>din = nat (mOsdPlaneNum s), presentZorder = zorder_of s g,
             pair_fb = g, pair_plane = hd (mHwcVideoPlanes s)\<rparr>],
           mHwcVideoPlanes := tl (mHwcVideoPlanes s), mHwcVideoInputFbs := d,
           fbs := set_comps d MESON_COMPOSITION_DUMMY (fbs s)\<rparr>"

lemma one_pair_tail:
  assumes "mHwcVideoPlanes s \<noteq> []"
  shows "bindE (pushVideoPair 0 (zorder_of s g) g s) (\<lambda>s. bindE (erasePlanes 1 s) (\<lambda>s.
      let s = s\<lparr>mHwcVideoInputFbs := mDIComposerFbs s\<rparr>
      in Inr (s\<lparr>fbs := set_comps (mHwcVideoInputFbs s) MESON_COMPOSITION_DUMMY (fbs s)\<rparr>))) =
    Inr (one_pair g (mDIComposerFbs s) s)"
  using assms
  by (cases "mHwcVideoPlanes s")
    (simp_all add: pushVideoPair_def nthE_def erasePlanes_def Let_def one_pair_def pushPair_def)

lemma one_pair_step: "video_step s (one_pair g d s)"
  by (rule video_stepI [where h = "set_comps d MESON_COMPOSITION_DUMMY (fbs s)" and cs = "composers s"
        and es = "events s" and ps = "mDisplayPairs (one_pair g d s)" and d = "mDIComposerFbs s" and i = d
        and m = "mVideoProcessorsMgr s" and n = "next_fb s" and v = "tl (mHwcVideoPlanes s)"])
    (simp_all add: one_pair_def types_below_set_comps Let_def)

lemma oneSidebandPlane_done:
  assumes ne: "mHwcVideoPlanes s \<noteq> []" and d: "distinct (f # rest @ mDIComposerFbs s)"
  shows "okE (oneSidebandPlane f rest s) (\<lambda>t. \<exists>p. video_step s t
     \<and> mDisplayPairs t = mDisplayPairs s @ [p] \<and> pair_plane p = hd (mHwcVideoPlanes s)
     \<and> mHwcVideoPlanes t = tl (mHwcVideoPlanes s) \<and> presentZorder p = zorder_of t (pair_fb p)
     \<and> (if mIsSideBandDisable s
        then (if mDIComposerFbs s = []
              then pair_fb p = f \<and> ctype_of t (pair_fb p) = MESON_COMPOSITION_DUMMY
              else pair_fb p \<in> set (mDIComposerFbs s)
                \<and> ctype_of t (pair_fb p) = MESON_COMPOSITION_PLANE_HWCVIDEO)
        else pair_fb p = f \<and> ctype_of t (pair_fb p) = MESON_COMPOSITION_PLANE_HWCVIDEO)
     \<and> (\<forall>g. g \<noteq> pair_fb p \<longrightarrow> ctype_of t g = (if g \<in> set (f # rest @ mDIComposerFbs s)
          then MESON_COMPOSITION_DUMMY else ctype_of s g)))"
proof -
  let ?D = MESON_COMPOSITION_DUMMY and ?V = MESON_COMPOSITION_PLANE_HWCVIDEO
  define r where "r = dropSidebands rest s"
  have r: "mHwcVideoPlanes r = mHwcVideoPlanes s" "mDIComposerFbs r = mDIComposerFbs s"
    "mDisplayPairs r = mDisplayPairs s" "fbs r = set_comps rest ?D (fbs s)"
    "mIsSideBandDisable r = mIsSideBandDisable s" by (simp_all add: r_def dropSidebands_eq)
  have sr: "video_step s r"
    unfolding r_def dropSidebands_eq by (rule video_step_types [OF types_below_set_comps])
  show ?thesis
  proof (cases "mIsSideBandDisable s")
    case False
    let ?u = "upd_comp f ?V r"
    have "oneSidebandPlane f rest s = Inr (one_pair f (mDIComposerFbs ?u) ?u)"
      using False one_pair_tail [of ?u f] ne r by (simp add: oneSidebandPlane_def Let_def flip: r_def)
    moreover have "video_step s (one_pair f (mDIComposerFbs ?u) ?u)"
      using video_step_trans [OF sr video_step_trans [OF video_step_upd_comp one_pair_step]] .
    ultimately show ?thesis using False d r by (simp add: one_pair_def Let_def)
  next
    case dis: True
    let ?u = "upd_comp f ?D r"
    have su: "video_step s ?u" using video_step_trans [OF sr video_step_upd_comp] .
    show ?thesis
    proof (cases "mDIComposerFbs s = []")
      case True
      have "oneSidebandPlane f rest s = Inr (one_pair f (mDIComposerFbs ?u) ?u)"
        using dis True one_pair_tail [of ?u f] ne r
        by (simp add: oneSidebandPlane_def Let_def flip: r_def)
      moreover have "video_step s (one_pair f (mDIComposerFbs ?u) ?u)"
        using video_step_trans [OF su one_pair_step] .
      ultimately show ?thesis using dis True d r by (simp add: one_pair_def Let_def)
    next
      case False
      with r have "mDIComposerFbs ?u \<noteq> []" by simp
      from chooseOneVideoFb_best [OF this, of False] obtain g where
        g: "chooseOneVideoFb False ?u = (True, Some g, ?u\<lparr>mDIComposerFbs := remove1 g (mDIComposerFbs ?u)\<rparr>)"
        "g \<in> set (mDIComposerFbs ?u)" by blast
      let ?w = "upd_comp g ?V (?u\<lparr>mDIComposerFbs := remove1 g (mDIComposerFbs ?u)\<rparr>)"
      have "oneSidebandPlane f rest s = Inr (one_pair g (mDIComposerFbs ?w) ?w)"
        using dis False one_pair_tail [of ?w g] ne r g
        by (simp add: oneSidebandPlane_def Let_def getE_def flip: r_def)
      moreover have "video_step s (one_pair g (mDIComposerFbs ?w) ?w)"
        using video_step_trans [OF su video_step_trans [OF video_step_di
          video_step_trans [OF video_step_upd_comp one_pair_step]]] .
      ultimately show ?thesis using dis False d r g by (auto simp: one_pair_def Let_def)
    qed
  qed
qed

lemma processVideoFbs_one_sideband:
  assumes ready: "video_ready s" and one: "mVideoPlaneNum s = 1" "sidebands s \<noteq> []"
  shows "okE (processVideoFbs s) (\<lambda>t. \<exists>p. sideband_result s t p)"
proof -
  let ?v = "video_start s" and ?f = "hd (sidebands s)" and ?rest = "tl (sidebands s)"
  note r = ready [unfolded video_ready_def]
  then have d: "distinct (fb_ids s)" and di0: "mDIComposerFbs s = []"
    and ne: "mHwcVideoPlanes s \<noteq> []" by simp_all
  note v = video_start_done [OF di0]
  have step: "video_step s ?v" by (rule video_start_step)
  have sb: "?f # ?rest = sidebands s" using one by simp
  have dd: "distinct (?f # ?rest @ mDIComposerFbs ?v)"
    using video_lists(1) [OF d] one v by (cases "sidebands s") auto
  have run: "processVideoFbs s = oneSidebandPlane ?f ?rest ?v"
    unfolding processVideoFbs_eq [OF d] using one by simp
  have mem: "set (?f # ?rest @ mDIComposerFbs ?v) = set (sidebands s) \<union> set (di_videos s)"
    using v arg_cong [OF sb, of set] by auto
  have hd: "?f \<in> set (sidebands s)" using one by simp
  have ty: "ctype_of ?v g = (if g \<in> set (empty_videos s) then MESON_COMPOSITION_DUMMY else ctype_of s g)" for g
    by (simp add: v)
  have dis: "mIsSideBandDisable ?v = mIsSideBandDisable s" by (rule video_step_fields(6) [OF step])
  have nev: "mHwcVideoPlanes ?v \<noteq> []" using ne v by simp
  show ?thesis
    unfolding run
  proof (rule okE_mono [OF oneSidebandPlane_done [OF nev dd]], elim exE conjE)
    fix t p
    assume t: "video_step ?v t" "mDisplayPairs t = mDisplayPairs ?v @ [p]"
      "pair_plane p = hd (mHwcVideoPlanes ?v)" "mHwcVideoPlanes t = tl (mHwcVideoPlanes ?v)"
      "presentZorder p = zorder_of t (pair_fb p)"
      and c: "if mIsSideBandDisable ?v
        then (if mDIComposerFbs ?v = []
              then pair_fb p = ?f \<and> ctype_of t (pair_fb p) = MESON_COMPOSITION_DUMMY
              else pair_fb p \<in> set (mDIComposerFbs ?v)
                \<and> ctype_of t (pair_fb p) = MESON_COMPOSITION_PLANE_HWCVIDEO)
        else pair_fb p = ?f \<and> ctype_of t (pair_fb p) = MESON_COMPOSITION_PLANE_HWCVIDEO"
      and o: "\<forall>g. g \<noteq> pair_fb p \<longrightarrow> ctype_of t g = (if g \<in> set (?f # ?rest @ mDIComposerFbs ?v)
          then MESON_COMPOSITION_DUMMY else ctype_of ?v g)"
    have "video_step s t" by (rule video_step_trans [OF step t(1)])
    moreover have "pair_fb p \<in> set (sidebands s) \<union> set (di_videos s)"
      using c hd v(1) by (auto split: if_splits)
    then have "ctype_of t g = ctype_of s g"
      if "g \<notin> set (sidebands s) \<union> set (di_videos s) \<union> set (empty_videos s)" for g
      using that o [rule_format, of g] unfolding mem ty by auto
    moreover have "ctype_of t g = MESON_COMPOSITION_DUMMY"
      if "g \<in> set (sidebands s) \<union> set (di_videos s) \<union> set (empty_videos s)" "g \<noteq> pair_fb p" for g
      using that o [rule_format, of g] unfolding mem ty by auto
    moreover have "pair_plane p # mHwcVideoPlanes t = mHwcVideoPlanes s" using t(3,4) ne v by simp
    moreover have "if mIsSideBandDisable s
        then (if di_videos s = []
              then pair_fb p = ?f \<and> ctype_of t (pair_fb p) = MESON_COMPOSITION_DUMMY
              else pair_fb p \<in> set (di_videos s) \<and> ctype_of t (pair_fb p) = MESON_COMPOSITION_PLANE_HWCVIDEO)
        else pair_fb p = ?f \<and> ctype_of t (pair_fb p) = MESON_COMPOSITION_PLANE_HWCVIDEO"
      using c by (simp only: dis v(1))
    ultimately have "sideband_result s t p"
      using t(2,5) v(3) unfolding sideband_result_def by simp
    then show "\<exists>p. sideband_result s t p" by blast
  qed
qed

end
