(* ===== verification/VideoProps.thy ===== *)
theory VideoProps
  imports MultiplanesProps VideoProcess
begin

text \<open>
  The properties of the video part of \<open>MultiplanesWithDiComposition\<close>: the choice of the video
  that gets a plane of its own, and \<open>processVideoFbs\<close>, from \<open>setup\<close> on. \<open>demo_video\<close> is a
  frame with three videos below two ui layers.
\<close>

section \<open>Setup\<close>

definition plane_others :: "hw_display_plane list \<Rightarrow> hw_display_plane list" where
  "plane_others ps = filter (\<lambda>p. plane_available p \<and> plane_type p \<noteq> OSD_PLANE
     \<and> plane_type p \<noteq> HWC_VIDEO_PLANE) ps"

lemma fold_wdi_collectComposer:
  "fold wdi_collectComposer cs s = s\<lparr>
     mDummyComposer := first_of (composers s) MESON_COMPOSITION_DUMMY cs (mDummyComposer s),
     mClientComposer := first_of (composers s) MESON_COMPOSITION_CLIENT cs (mClientComposer s),
     mDiComposer := first_of (composers s) MESON_COMPOSITION_DI cs (mDiComposer s)\<rparr>"
proof (induction cs arbitrary: s)
  case Nil
  show ?case by (simp add: first_of_def split: option.split)
next
  case (Cons c cs)
  show ?case
    using Cons
    by (cases "composers s c") (auto simp: wdi_collectComposer_def first_of_def split: option.split)
qed

lemma fold_wdi_collectPlane:
  "fold wdi_collectPlane ps s = s\<lparr>mOsdPlanes := mOsdPlanes s @ plane_sel OSD_PLANE ps,
     mHwcVideoPlanes := mHwcVideoPlanes s @ plane_sel HWC_VIDEO_PLANE ps,
     mOtherPlanes := mOtherPlanes s @ plane_others ps\<rparr>"
proof (induction ps arbitrary: s)
  case Nil
  show ?case by (simp add: plane_others_def)
next
  case (Cons p ps)
  then show ?case
    by (cases "plane_type p") (auto simp: wdi_collectPlane_def plane_others_def plane_sel_def)
qed

definition wdi_collected :: "fbid list \<Rightarrow> cid list \<Rightarrow> hw_display_plane list \<Rightarrow> wdi_state \<Rightarrow> wdi_state \<Rightarrow> bool" where
  "wdi_collected layers cs planes s t \<longleftrightarrow>
     plat t = plat s \<and> fbs t = fbs s \<and> composers t = composers s \<and> next_fb t = next_fb s
     \<and> map_wf (mFramebuffers t) \<and> set (mFramebuffers t) = (\<lambda>f. (zorder_of s f, f)) ` set layers
     \<and> mOsdPlanes t = plane_sel OSD_PLANE planes
     \<and> mHwcVideoPlanes t = plane_sel HWC_VIDEO_PLANE planes \<and> mOtherPlanes t = plane_others planes
     \<and> mVideoPlaneNum t = int (length (mHwcVideoPlanes t)) \<and> mOsdPlaneNum t = int (length (mOsdPlanes t))
     \<and> mDummyComposer t = first_of (composers s) MESON_COMPOSITION_DUMMY cs None
     \<and> mClientComposer t = first_of (composers s) MESON_COMPOSITION_CLIENT cs None
     \<and> mDiComposer t = first_of (composers s) MESON_COMPOSITION_DI cs None
     \<and> mOtherComposers t = [] \<and> mDIComposerFbs t = [] \<and> mHwcVideoInputFbs t = []
     \<and> mOverlayFbs t = [] \<and> mComposerFbs t = [] \<and> mComposer t = None \<and> mDisplayPairs t = []
     \<and> mDisplayRefFb t = None \<and> range_unset t \<and> \<not> mInsideVideoFbsFlag t \<and> \<not> mHaveClient t \<and> mHDRMode t"

lemma flag_if:
  "(if c then s\<lparr>mHideSecureLayer := True\<rparr> else s) = s\<lparr>mHideSecureLayer := (c \<or> mHideSecureLayer s)\<rparr>"
  "(if c then s\<lparr>mForceClientComposer := True\<rparr> else s) = s\<lparr>mForceClientComposer := (c \<or> mForceClientComposer s)\<rparr>"
  for s :: wdi_state
  by simp_all

lemma flag_if_video:
  "(if c then s\<lparr>mIsSideBandDisable := True\<rparr> else s) = s\<lparr>mIsSideBandDisable := (c \<or> mIsSideBandDisable s)\<rparr>"
  "(if c then s\<lparr>mIsDisablePostProcessor := True\<rparr> else s) =
     s\<lparr>mIsDisablePostProcessor := (c \<or> mIsDisablePostProcessor s)\<rparr>"
  for s :: wdi_state
  by simp_all

lemma wdi_setup_collected:
  assumes "distinct (map (zorder_of s) layers)"
  shows "wdi_collected layers cs planes s (wdi_setup layers cs planes crtc flag scale mode s)"
proof -
  define u where "u = (let s = wdi_init s;
          s = s\<lparr>mScaleValue := scale, mHDRMode := True\<rparr>;
          s = (if and flag COMPOSE_HIDE_SECURE_FB \<noteq> 0 then s\<lparr>mHideSecureLayer := True\<rparr> else s);
          s = (if and flag COMPOSE_FORCE_CLIENT \<noteq> 0 then s\<lparr>mForceClientComposer := True\<rparr> else s);
          s = (if and flag COMPOSE_DISABLE_SIDEBAND \<noteq> 0 then s\<lparr>mIsSideBandDisable := True\<rparr> else s);
          s = (if and flag COMPOSE_DISABLE_POSTPROCESSOR \<noteq> 0
               then s\<lparr>mIsDisablePostProcessor := True\<rparr> else s);
          s = handleLLM (mIsDisablePostProcessor s) s in s\<lparr>mCrtc := crtc\<rparr>)"
  have u: "plat u = plat s" "fbs u = fbs s" "composers u = composers s" "next_fb u = next_fb s"
    "mFramebuffers u = []" "mOsdPlanes u = []" "mHwcVideoPlanes u = []" "mOtherPlanes u = []"
    "mDummyComposer u = None" "mClientComposer u = None" "mDiComposer u = None" "mOtherComposers u = []"
    "mDIComposerFbs u = []" "mHwcVideoInputFbs u = []" "mOverlayFbs u = []" "mComposerFbs u = []"
    "mComposer u = None" "mDisplayPairs u = []" "mDisplayRefFb u = None" "mInsideVideoFbsFlag u = False"
    "mHaveClient u = False" "mMinComposerZorder u = INVALID s" "mMaxComposerZorder u = INVALID s"
    "mHDRMode u = True"
    unfolding u_def Let_def flag_if flag_if_video
    by (simp_all add: wdi_init_def handleLLM_def log_event_def)
  define l where "l = fold addLayer layers u"
  have l: "l = u\<lparr>mFramebuffers := mFramebuffers l\<rparr>" unfolding l_def fold_addLayer by simp
  have lf: "plat l = plat s" "fbs l = fbs s" "composers l = composers s" "next_fb l = next_fb s"
    "mOsdPlanes l = []" "mHwcVideoPlanes l = []" "mOtherPlanes l = []"
    "mDummyComposer l = None" "mClientComposer l = None" "mDiComposer l = None" "mOtherComposers l = []"
    "mDIComposerFbs l = []" "mHwcVideoInputFbs l = []" "mOverlayFbs l = []" "mComposerFbs l = []"
    "mComposer l = None" "mDisplayPairs l = []" "mDisplayRefFb l = None" "mInsideVideoFbsFlag l = False"
    "mHaveClient l = False" "mMinComposerZorder l = INVALID s" "mMaxComposerZorder l = INVALID s"
    "mHDRMode l = True"
    by (subst l, simp add: u)+
  have wf: "map_wf (mFramebuffers l) \<and> set (mFramebuffers l) = (\<lambda>f. (zorder_of u f, f)) ` set layers"
    unfolding l_def by (rule addLayers_set) (use assms u in simp_all)
  have eq: "wdi_setup layers cs planes crtc flag scale mode s =
    (let s = fold wdi_collectPlane planes (fold wdi_collectComposer cs l)
     in s\<lparr>mVideoPlaneNum := int (length (mHwcVideoPlanes s)), mOsdPlaneNum := int (length (mOsdPlanes s)),
          mVsyncRefreshRate := (if refreshRate mode = 0 then 60 else word_of_int \<lfloor>refreshRate mode\<rfloor>)\<rparr>)"
    unfolding wdi_setup_def l_def u_def Let_def ..
  show ?thesis
    unfolding eq fold_wdi_collectComposer fold_wdi_collectPlane Let_def
    using wf by (simp add: wdi_collected_def lf u range_unset_def)
qed


lemma wdi_setup_ids:
  assumes "layers_ok s layers" and "wdi_collected layers cs planes s t"
  shows "fbs_wf t" "distinct (fb_ids t)" "set (fb_ids t) = set layers"
proof -
  have w: "map_wf (mFramebuffers t)" "set (mFramebuffers t) = (\<lambda>f. (zorder_of s f, f)) ` set layers"
    "fbs t = fbs s" "plat t = plat s"
    using assms(2) by (simp_all add: wdi_collected_def)
  then show "fbs_wf t" using assms(1) by (auto simp: fbs_wf_def layers_ok_def)
  then show "distinct (fb_ids t)" by (rule fbs_wf_distinct)
  show "set (fb_ids t) = set layers" using w(2) by (force simp: fb_ids_def)
qed

lemma wdi_setup_video_ready:
  assumes layers: "layers_ok s layers" and old: "\<forall>f \<in> set layers. f < next_fb s"
    and planes: "plane_sel HWC_VIDEO_PLANE planes \<noteq> []"
  shows "video_ready (wdi_setup layers cs planes crtc flag scale mode s)"
proof -
  let ?t = "wdi_setup layers cs planes crtc flag scale mode s"
  have c: "wdi_collected layers cs planes s ?t"
    by (rule wdi_setup_collected) (use layers in \<open>simp add: layers_ok_def\<close>)
  show ?thesis
    using c wdi_setup_ids [OF layers c] old planes by (simp add: video_ready_def wdi_collected_def)
qed

section \<open>A concrete frame\<close>

definition video_fb :: "u32 \<Rightarrow> drm_fb_type \<Rightarrow> int \<Rightarrow> int \<Rightarrow> drm_framebuffer" where
  "video_fb z ty vt x = (demo_fb z ty)\<lparr>videoType := vt, mDisplayFrame := mk_rect x 0 (x + 400) 300\<rparr>"

text \<open>Three videos side by side, the second an AFBC video, a legacy sideband, and two ui layers.\<close>

definition video_store :: "fbid \<Rightarrow> drm_framebuffer" where
  "video_store f =
     (if f = 10 then video_fb 0 DRM_FB_VIDEO_DMABUF 0 0
      else if f = 11 then video_fb 1 DRM_FB_VIDEO_UVM_DMA 32 500
      else if f = 12 then video_fb 2 DRM_FB_VIDEO_TUNNEL_SIDEBAND 0 1000
      else if f = 13 then video_fb 3 DRM_FB_VIDEO_SIDEBAND 0 1500
      else demo_fb (of_nat (f - 10)) DRM_FB_SCANOUT)"

definition empty_impl :: composer_impl where
  "empty_impl = \<lparr>inputFbs = [], overlayFbs = [], outputFb = None, processorsMgr = False\<rparr>"

definition video_composers :: "cid \<Rightarrow> composer" where
  "video_composers c = (if c = 0 then DummyComposer else if c = 1 then ClientComposer [] (Some 99)
     else DiComposer [empty_impl, empty_impl])"

definition video_planes :: "nat \<Rightarrow> hw_display_plane list" where
  "video_planes n = [demo_plane 0 OSD_PLANE, demo_plane 1 OSD_PLANE, demo_plane 5 CURSOR_PLANE]
     @ map (\<lambda>i. demo_plane (10 + i) HWC_VIDEO_PLANE) [0..<n]"

definition video_blank :: wdi_state where
  "video_blank = \<lparr>plat = demo_platform, fbs = video_store, composers = video_composers, events = [],
     mHDRMode = False, mHideSecureLayer = False, mForceClientComposer = False, mFramebuffers = [],
     mDisplayRefFb = None, mOsdDisplayFrame = zero_zoom, mCrtc = None, mDummyComposer = None,
     mClientComposer = None, mOtherComposers = [], mOsdPlanes = [], mOtherPlanes = [],
     mComposer = None, mOverlayFbs = [], mComposerFbs = [], mDisplayPairs = [],
     mHaveClient = False, mInsideVideoFbsFlag = False, mMinComposerZorder = -1,
     mMaxComposerZorder = -1, mMinVideoZorder = -1, mMaxVideoZorder = -1,
     mDiComposer = None, mHwcVideoPlanes = [], mDIComposerFbs = [], mHwcVideoInputFbs = [],
     mOsdPlaneNum = 0, mVideoPlaneNum = 0, mScaleValue = 1, mIsSideBandDisable = False,
     mVideoProcessorsMgr = False, mIsDisablePostProcessor = False, next_fb = 100,
     mVsyncRefreshRate = 60, mWhiteBoardMode = False, mComProcessor = False, mWBQueue = [],
     mWhiteBoardData = None, outfb = None, showfb = None\<rparr>"

definition demo_mode :: drm_mode_info where
  "demo_mode = \<lparr>pixelW = 3840, pixelH = 2160, refreshRate = 60\<rparr>"

definition demo_video :: "fbid list \<Rightarrow> nat \<Rightarrow> wdi_state" where
  "demo_video layers n = wdi_setup layers [0, 1, 2] (video_planes n) (Some 0) 0 1 demo_mode video_blank"

lemma demo_layers_ok: "layers_ok video_blank [10, 11, 12, 14, 15]" "layers_ok video_blank [10, 11, 13, 14]"
  by (simp_all add: layers_ok_def video_blank_def video_store_def video_fb_def demo_fb_def demo_platform_def)

lemma demo_video_ready:
  assumes "n \<noteq> 0"
  shows "video_ready (demo_video [10, 11, 12, 14, 15] n)" "video_ready (demo_video [10, 11, 13, 14] n)"
proof -
  have "plane_sel HWC_VIDEO_PLANE (video_planes n) \<noteq> []"
    using assms by (simp add: video_planes_def plane_sel_def demo_plane_def)
  then show "video_ready (demo_video [10, 11, 12, 14, 15] n)" "video_ready (demo_video [10, 11, 13, 14] n)"
    unfolding demo_video_def using demo_layers_ok
    by (auto intro!: wdi_setup_video_ready simp: video_blank_def)
qed

lemma demo_video_facts:
  "length (mHwcVideoPlanes (demo_video [10, 11, 12, 14, 15] 2)) = 2"
  "length (mHwcVideoPlanes (demo_video [10, 11, 12, 14, 15] 3)) = 3"
  "length (mHwcVideoPlanes (demo_video [10, 11, 13, 14] 1)) = 1"
  "mVideoPlaneNum (demo_video [10, 11, 13, 14] 1) = 1"
  "sidebands (demo_video [10, 11, 12, 14, 15] 2) = []" "sidebands (demo_video [10, 11, 12, 14, 15] 3) = []"
  "sidebands (demo_video [10, 11, 13, 14] 1) = [13]" 
  "di_videos (demo_video [10, 11, 12, 14, 15] 2) = [10, 11, 12]" "di_videos (demo_video [10, 11, 12, 14, 15] 3) = [10, 11, 12]"
  by code_simp+

lemma demo_di_ready: "di_ready (demo_video [10, 11, 12, 14, 15] 2) 1"
proof -
  have "mDiComposer (demo_video [10, 11, 12, 14, 15] 2) = Some 2"
    "composers (demo_video [10, 11, 12, 14, 15] 2) 2 = DiComposer [empty_impl, empty_impl]" by code_simp+
  then show ?thesis by (simp add: di_ready_def)
qed

lemma demo_no_video:
  "mHwcVideoPlanes (demo_video [10, 14] 0) = []" "mVideoPlaneNum (demo_video [10, 14] 0) = 0"
  "mDIComposerFbs (demo_video [10, 14] 0) = []" "video_count (demo_video [10, 14] 0) = 1"
  "fb_ids (demo_video [10, 14] 0) = [10, 14]"
  by code_simp+

lemmas video_defs = video_fb_def video_store_def empty_impl_def video_composers_def video_planes_def
  video_blank_def demo_defs

section \<open>Choosing a video\<close>

text \<open>C18
  \<open>chooseOneVideoFb\<close> takes the best candidate and only that one: among the videos (when the
  composer is needed, among those \<open>chooseVideoFbsBaseNoOverlap\<close> keeps), if any has a video type,
  one of the lexicographically greatest type and then of the greatest z-order, and otherwise one of
  the biggest window and then of the greatest z-order.
\<close>

theorem choose_best_video:
  assumes "mDIComposerFbs s \<noteq> []"
  shows "\<exists>f. chooseOneVideoFb c s = (True, Some f, s\<lparr>mDIComposerFbs := remove1 f (mDIComposerFbs s)\<rparr>)
    \<and> f \<in> set (mDIComposerFbs s)
    \<and> best_video (plat s) (fbs s) (video_candidates (fbs s) c (mDIComposerFbs s)) f"
  by (rule chooseOneVideoFb_best [OF assms])

definition demo_choice :: wdi_state where
  "demo_choice = video_blank\<lparr>mDIComposerFbs := [10, 11, 12]\<rparr>"

theorem choose_best_video_witness:
  "\<exists>f. chooseOneVideoFb True demo_choice = (True, Some f,
      demo_choice\<lparr>mDIComposerFbs := remove1 f (mDIComposerFbs demo_choice)\<rparr>)
    \<and> f \<in> set (mDIComposerFbs demo_choice)
    \<and> best_video (plat demo_choice) (fbs demo_choice)
        (video_candidates (fbs demo_choice) True (mDIComposerFbs demo_choice)) f"
  by (rule choose_best_video) (simp add: demo_choice_def)

text \<open>C19
  \<open>chooseVideoFbsBaseNoOverlap\<close> never returns an empty list, keeps the order, keeps only videos
  that pairwise do not overlap, and drops a video only if it overlaps another one.
\<close>

theorem no_overlap_choice:
  assumes "fs \<noteq> []"
  shows "chooseVideoFbsBaseNoOverlap h fs \<noteq> [] \<and> subseq (chooseVideoFbsBaseNoOverlap h fs) fs
    \<and> sorted_wrt (\<lambda>f g. f \<noteq> g \<longrightarrow> disjoint_frames h f g) (chooseVideoFbsBaseNoOverlap h fs)
    \<and> (\<forall>f \<in> set fs. f \<notin> set (chooseVideoFbsBaseNoOverlap h fs) \<longrightarrow>
         (\<exists>g \<in> set fs. g \<noteq> f \<and> \<not> disjoint_frames h f g))"
  using chooseNoOverlap_last [OF assms, of h] chooseNoOverlap_subseq [of h fs]
    chooseNoOverlap_pairwise [of h fs] chooseNoOverlap_dropped [of _ fs h] by auto

theorem no_overlap_choice_witness:
  "chooseVideoFbsBaseNoOverlap video_store [10, 11, 12] \<noteq> []"
  using no_overlap_choice [of "[10, 11, 12]" video_store] by simp

text \<open>C20
  The loop of \<open>chooseOneVideoFbBaseVideoType\<close> over the video types, which filters round by
  round and stops at one framebuffer, keeps the same framebuffers as comparing the types
  lexicographically.
\<close>

theorem video_type_rounds:
  "set (filterVideoTypes h (video_types p) fs) =
    {f \<in> set fs. list_all (\<lambda>g. type_le h (video_types p) g f) fs}"
  using filterVideoTypes_set [of h "video_types p" fs] by (simp add: list_all_iff)

theorem video_type_rounds_witness:
  "set (filterVideoTypes video_store (video_types demo_platform) [10, 11, 12]) =
    {f \<in> {10, 11, 12}. list_all (\<lambda>g. type_le video_store (video_types demo_platform) g f) [10, 11, 12]}"
  using video_type_rounds [of video_store demo_platform "[10, 11, 12]"] by simp

section \<open>Giving out the video planes\<close>

lemma video_step_zorder:
  assumes "video_step s t" and "f < next_fb s"
  shows "zorder_of t f = zorder_of s f"
  using types_below_fields(1) [OF video_step_store(1) [OF assms(1)] assms(2)] .

lemma videos_old:
  assumes "video_ready s" and "f \<in> set (sidebands s) \<union> set (di_videos s)"
  shows "f < next_fb s"
  using assms video_lists(2) [of s] by (auto simp: video_ready_def)

text \<open>C21
  With at least as many planes as videos, \<open>processVideoFbs\<close> gives the first legacy sideband and
  every other video with a buffer a plane of its own, in the order of the planes and at its own
  z-order; further sidebands and videos without a buffer are dummies, all other layers untouched.
\<close>

theorem enough_video_planes:
  assumes ready: "video_ready s" and n: "video_count s \<le> length (mHwcVideoPlanes s)"
    and two: "sidebands s \<noteq> [] \<longrightarrow> 2 \<le> length (mHwcVideoPlanes s)"
  shows "okE (processVideoFbs s) (\<lambda>t. \<exists>ps. mDisplayPairs t = mDisplayPairs s @ ps
    \<and> map pair_plane ps @ mHwcVideoPlanes t = mHwcVideoPlanes s
    \<and> mset (map pair_fb ps) = mset (take 1 (sidebands s)) + mset (di_videos s)
    \<and> (\<forall>p \<in> set ps. ctype_of t (pair_fb p) = MESON_COMPOSITION_PLANE_HWCVIDEO
         \<and> presentZorder p = zorder_of s (pair_fb p))
    \<and> (\<forall>f \<in> set (drop 1 (sidebands s)) \<union> set (empty_videos s). ctype_of t f = MESON_COMPOSITION_DUMMY)
    \<and> (\<forall>f < next_fb s. f \<notin> set (sidebands s) \<union> set (di_videos s) \<union> set (empty_videos s)
         \<longrightarrow> ctype_of t f = ctype_of s f))"
proof -
  have one: "\<not> (mVideoPlaneNum s = 1 \<and> sidebands s \<noteq> [])"
    using two ready by (auto simp: video_ready_def)
  have few: "\<not> length (mHwcVideoPlanes s) < video_count s" using n by simp
  show ?thesis
  proof (rule okE_mono [OF processVideoFbs_result [OF ready one]], goal_cases)
    case 1
    show ?case using few by simp
  next
    case (2 t)
    then obtain ps where r: "video_result s t ps" by blast
    then have st: "video_step s t" and ps: "\<forall>p \<in> set ps. plane_pair t False p"
      and m: "mset (map pair_fb ps) = mset (take 1 (sidebands s)) + mset (di_videos s)"
      using few unfolding video_result_def by simp_all
    have "presentZorder p = zorder_of s (pair_fb p)" if "p \<in> set ps" for p
    proof -
      have "pair_fb p \<in># mset (map pair_fb ps)" using that by simp
      then have "pair_fb p \<in> set (sidebands s) \<union> set (di_videos s)"
        unfolding m by (auto dest: in_set_takeD)
      then show ?thesis using ps that video_step_zorder [OF st videos_old [OF ready]]
        by (simp add: plane_pair_def)
    qed
    then show ?case using r ps m few unfolding video_result_def plane_pair_def by auto
  qed
qed

theorem enough_video_planes_witness:
  "okE (processVideoFbs (demo_video [10, 11, 12, 14, 15] 3)) (\<lambda>t. \<exists>ps.
     mDisplayPairs t = mDisplayPairs (demo_video [10, 11, 12, 14, 15] 3) @ ps
     \<and> mset (map pair_fb ps) = {#10, 11, 12#})"
proof (rule okE_mono [OF enough_video_planes], goal_cases)
  case (4 t)
  then show ?case by (elim exE conjE) (simp add: demo_video_facts)
qed (simp_all add: demo_video_ready demo_video_facts video_count_def)

text \<open>C22
  With more videos than planes, the last plane shows the output of the video composer at the
  lowest z-order of all videos, its inputs are exactly the videos that got no plane, and every other
  plane shows one video, one above its own z-order. Every video is in one of the two.
\<close>

theorem too_many_videos:
  assumes ready: "video_ready s" and n: "length (mHwcVideoPlanes s) < video_count s"
    and two: "sidebands s \<noteq> [] \<longrightarrow> 2 \<le> length (mHwcVideoPlanes s)"
    and di: "di_ready s (length (mHwcVideoPlanes s) - 1)"
  shows "okE (processVideoFbs s) (\<lambda>t. \<exists>qs q. mDisplayPairs t = mDisplayPairs s @ qs @ [q]
    \<and> map pair_plane (qs @ [q]) = mHwcVideoPlanes s \<and> mHwcVideoPlanes t = []
    \<and> mset (map pair_fb qs) + mset (mDIComposerFbs t) = mset (take 1 (sidebands s)) + mset (di_videos s)
    \<and> (\<forall>p \<in> set qs. ctype_of t (pair_fb p) = MESON_COMPOSITION_PLANE_HWCVIDEO
         \<and> presentZorder p = zorder_of s (pair_fb p) + 1)
    \<and> presentZorder q = min_video_z s \<and> mFbType (fbs t (pair_fb q)) = DRM_FB_DI_COMPOSE_OUTPUT
    \<and> (\<forall>f \<in> set (mDIComposerFbs t). ctype_of t f = MESON_COMPOSITION_DI)
    \<and> (\<exists>c. mDiComposer t = Some c
         \<and> composer_getOutput (composers t c) (int (length (mHwcVideoPlanes s) - 1)) = Inr (Some (pair_fb q))
         \<and> ComposerAddInputs c (mDIComposerFbs t) [] (int (length (mHwcVideoPlanes s) - 1)) \<in> set (events t)))"
proof -
  have one: "\<not> (mVideoPlaneNum s = 1 \<and> sidebands s \<noteq> [])"
    using two ready by (auto simp: video_ready_def)
  show ?thesis
  proof (rule okE_mono [OF processVideoFbs_result [OF ready one]], goal_cases)
    case 1
    show ?case using di by simp
  next
    case (2 t)
    then obtain ps where r: "video_result s t ps" by blast
    then obtain qs q where ps: "ps = qs @ [q]" and qs: "\<forall>p \<in> set qs. plane_pair t True p"
      and co: "composed_on s t q (length (mHwcVideoPlanes s) - 1) (min_video_z s)"
      and m: "mset (map pair_fb qs) + mset (mDIComposerFbs t) = mset (take 1 (sidebands s)) + mset (di_videos s)"
      and none: "mHwcVideoPlanes t = []"
      unfolding video_result_def if_P [OF n] by blast
    have st: "video_step s t" and pairs: "mDisplayPairs t = mDisplayPairs s @ ps"
      "map pair_plane ps @ mHwcVideoPlanes t = mHwcVideoPlanes s"
      using r unfolding video_result_def by simp_all
    have "presentZorder p = zorder_of s (pair_fb p) + 1" if "p \<in> set qs" for p
    proof -
      have "pair_fb p \<in># mset (map pair_fb qs) + mset (mDIComposerFbs t)" using that by simp
      then have "pair_fb p \<in> set (sidebands s) \<union> set (di_videos s)"
        unfolding m by (auto dest: in_set_takeD)
      then show ?thesis using qs that video_step_zorder [OF st videos_old [OF ready]]
        by (simp add: plane_pair_def)
    qed
    then show ?case
      using co m qs pairs none unfolding composed_on_def ps plane_pair_def
      by (intro exI [of _ qs] exI [of _ q]) auto
  qed
qed

theorem too_many_videos_witness:
  "okE (processVideoFbs (demo_video [10, 11, 12, 14, 15] 2)) (\<lambda>t. \<exists>qs q.
     mDisplayPairs t = mDisplayPairs (demo_video [10, 11, 12, 14, 15] 2) @ qs @ [q]
     \<and> mset (map pair_fb qs) + mset (mDIComposerFbs t) = {#10, 11, 12#})"
proof (rule okE_mono [OF too_many_videos], goal_cases)
  case (5 t)
  then show ?case by (elim exE conjE) (simp add: demo_video_facts)
qed (simp_all add: demo_video_ready demo_video_facts demo_di_ready [unfolded One_nat_def] video_count_def)

text \<open>On a device with one video plane a legacy sideband takes it and every other video is hidden.
  When sidebands are disabled, the plane shows the best of the other videos instead; with no other
  video the disabled sideband is still given to the plane, typed as a dummy.
\<close>

theorem one_plane_sideband:
  assumes ready: "video_ready s" and one: "mVideoPlaneNum s = 1" and sb: "sidebands s \<noteq> []"
  shows "okE (processVideoFbs s) (\<lambda>t. \<exists>p. mDisplayPairs t = mDisplayPairs s @ [p]
    \<and> [pair_plane p] = mHwcVideoPlanes s \<and> mHwcVideoPlanes t = []
    \<and> presentZorder p = zorder_of s (pair_fb p)
    \<and> (if mIsSideBandDisable s \<and> di_videos s \<noteq> [] then pair_fb p \<in> set (di_videos s)
       else pair_fb p = hd (sidebands s))
    \<and> ctype_of t (pair_fb p) = (if mIsSideBandDisable s \<and> di_videos s = [] then MESON_COMPOSITION_DUMMY
        else MESON_COMPOSITION_PLANE_HWCVIDEO)
    \<and> (\<forall>f \<in> set (sidebands s) \<union> set (di_videos s) \<union> set (empty_videos s).
          f \<noteq> pair_fb p \<longrightarrow> ctype_of t f = MESON_COMPOSITION_DUMMY))"
proof (rule okE_mono [OF processVideoFbs_one_sideband [OF ready one sb]], elim exE)
  fix t p assume r: "sideband_result s t p"
  then have st: "video_step s t" and fb: "pair_fb p \<in> set (sidebands s) \<union> set (di_videos s)"
    and z: "presentZorder p = zorder_of t (pair_fb p)"
    using sb by (auto simp: sideband_result_def split: if_splits)
  have "length (mHwcVideoPlanes s) = 1" using one ready by (simp add: video_ready_def)
  moreover have "pair_plane p # mHwcVideoPlanes t = mHwcVideoPlanes s"
    using r unfolding sideband_result_def by simp
  ultimately have "mHwcVideoPlanes t = []" "[pair_plane p] = mHwcVideoPlanes s"
    by (metis One_nat_def length_0_conv length_Cons nat.inject)+
  then show "\<exists>p. mDisplayPairs t = mDisplayPairs s @ [p] \<and> [pair_plane p] = mHwcVideoPlanes s
    \<and> mHwcVideoPlanes t = [] \<and> presentZorder p = zorder_of s (pair_fb p)
    \<and> (if mIsSideBandDisable s \<and> di_videos s \<noteq> [] then pair_fb p \<in> set (di_videos s)
       else pair_fb p = hd (sidebands s))
    \<and> ctype_of t (pair_fb p) = (if mIsSideBandDisable s \<and> di_videos s = [] then MESON_COMPOSITION_DUMMY
        else MESON_COMPOSITION_PLANE_HWCVIDEO)
    \<and> (\<forall>f \<in> set (sidebands s) \<union> set (di_videos s) \<union> set (empty_videos s).
          f \<noteq> pair_fb p \<longrightarrow> ctype_of t f = MESON_COMPOSITION_DUMMY)"
    using r z video_step_zorder [OF st videos_old [OF ready fb]]
    by (intro exI [of _ p]) (auto simp: sideband_result_def split: if_splits)
qed

theorem one_plane_sideband_witness:
  "okE (processVideoFbs (demo_video [10, 11, 13, 14] 1)) (\<lambda>t. mHwcVideoPlanes t = [])"
proof (rule okE_mono [OF one_plane_sideband], goal_cases)
  case (4 t)
  then show ?case by blast
qed (simp_all add: demo_video_ready demo_video_facts [unfolded One_nat_def])

lemma composeVideos_planes:
  "composeVideos i s = Inr (f, t) \<Longrightarrow> mHwcVideoPlanes t = mHwcVideoPlanes s"
  by (auto simp: composeVideos_def Let_def bindE_Inr_iff getE_def call_addInputs_def
      call_setOutput_def call_setProcessorsManager_def allocateDiOutputFb_def call_prepare_def log_event_def split: option.splits)

lemma lastVideoPlane_none:
  assumes "mHwcVideoPlanes s = []"
  shows "(\<exists>e. lastVideoPlane i c z s = Inl e) \<or> (\<exists>t. lastVideoPlane i c z s = Inr t \<and> mHwcVideoPlanes t = [])"
proof (cases "lastVideoPlane i c z s")
  case (Inr t)
  have push: "pushVideoPair i z f u \<noteq> Inr t" if "mHwcVideoPlanes u = []" for z f u
    using that by (simp add: pushVideoPair_def nthE_def)
  have "mHwcVideoPlanes t = []"
    using Inr assms push composeVideos_planes [of i "s\<lparr>mHwcVideoInputFbs := mDIComposerFbs s\<rparr>"]
    by (auto simp: lastVideoPlane_def Let_def bindE_Inr_iff split: if_splits)
  with Inr show ?thesis by blast
qed blast

text \<open>C23
  Without a video plane \<open>processVideoFbs\<close> cannot end normally when there is a video to show: it
  indexes or erases an element of the empty plane vector, or calls a composer that is not there.
\<close>

theorem no_video_plane:
  assumes d: "distinct (fb_ids s)" and none: "mHwcVideoPlanes s = []" "mVideoPlaneNum s = 0"
    and di0: "mDIComposerFbs s = []" and video: "0 < video_count s"
  shows "\<exists>e. processVideoFbs s = Inl e"
proof -
  let ?v = "video_start s"
  have v: "mHwcVideoPlanes ?v = []" "mVideoPlaneNum ?v = 0"
    using video_start_done(2) [OF di0] none video_step_fields(4) [OF video_start_step [of s]] by simp_all
  obtain k where k: "video_count s = Suc k" using video gr0_implies_Suc by blast
  have ne: "\<not> (sidebands s = [] \<and> di_videos s = [])" using video by (auto simp: video_count_def)
  have "processVideoFbs s = bindE (bindE (lastVideoPlane 0 True (min_video_z s) ?v)
      (\<lambda>s. Inr (1, s))) (\<lambda>(usedPlanes, s). erasePlanes usedPlanes s)"
    unfolding processVideoFbs_eq [OF d] if_not_P [OF ne] using none k v by simp
  with lastVideoPlane_none [OF v(1), of 0 True "min_video_z s"] show ?thesis by (auto simp: erasePlanes_def)
qed

theorem no_video_plane_witness: "\<exists>e. processVideoFbs (demo_video [10, 14] 0) = Inl e"
  by (rule no_video_plane) (simp_all add: demo_no_video)

text \<open>
  \<open>setup\<close> leaves the state the video part relies on: the layers in the map by z-order, every
  available plane in the list of its kind, and the counts and lists of videos as they start.
\<close>

theorem wdi_setup_ready:
  assumes layers: "layers_ok s layers" and old: "\<forall>f \<in> set layers. f < next_fb s"
    and planes: "plane_sel HWC_VIDEO_PLANE planes \<noteq> []"
    and t: "t = wdi_setup layers cs planes crtc flag scale mode s"
  shows "video_ready t \<and> fbs_wf t \<and> set (fb_ids t) = set layers
    \<and> mset (mOsdPlanes t) + mset (mHwcVideoPlanes t) + mset (mOtherPlanes t) =
        mset (filter plane_available planes)
    \<and> (\<forall>i c. mDiComposer t = Some c \<longrightarrow> (di_ready t i \<longleftrightarrow> composer_valid (composers s c) (int i)))"
proof -
  have "wdi_collected layers cs planes s t"
    unfolding t by (rule wdi_setup_collected) (use layers in \<open>simp add: layers_ok_def\<close>)
  moreover have "mset (plane_sel OSD_PLANE planes) + mset (plane_sel HWC_VIDEO_PLANE planes)
      + mset (plane_others planes) = mset (filter plane_available planes)"
    by (induction planes) (auto simp: plane_sel_def plane_others_def)
  moreover have "composer_getType (h c) = ty" if "first_of h ty cs None = Some c" for h c ty
    using that by (auto simp: first_of_def find_Some_iff)
  ultimately show ?thesis
    using wdi_setup_video_ready [OF layers old planes] wdi_setup_ids [OF layers]
    unfolding t by (auto simp: wdi_collected_def di_ready_def)
qed

theorem wdi_setup_ready_witness:
  "video_ready (demo_video [10, 11, 12, 14, 15] 2)
   \<and> set (fb_ids (demo_video [10, 11, 12, 14, 15] 2)) = {10, 11, 12, 14, 15}"
proof -
  have "plane_sel HWC_VIDEO_PLANE (video_planes 2) \<noteq> []"
    by (simp add: video_planes_def plane_sel_def demo_plane_def)
  then show ?thesis
    using wdi_setup_ready [OF demo_layers_ok(1) _ _ demo_video_def] by (simp add: video_blank_def)
qed

end
