(* ===== verification/DiPick.thy ===== *)
theory DiPick
  imports VideoProps
begin

text \<open>
  The second half of \<open>MultiplanesWithDiComposition::decideComposition\<close>, up to the compose range:
  \<open>wdi_pickoutOsdFbs_post\<close> shows that the loop over the framebuffers, which also drops the layers
  without a buffer, ends in a state of \<open>pick_post\<close>, the notion that serves
  \<open>MultiplanesComposition\<close> too. \<open>checked\<close> is the store with those layers dropped.
\<close>

section \<open>Layers that cannot be shown\<close>

definition bad_layer :: "'a world_scheme \<Rightarrow> fbid \<Rightarrow> bool" where
  "bad_layer s f \<longleftrightarrow> mBufferHandle (fbs s f) = None \<and> mFbType (fbs s f) \<noteq> DRM_FB_COLOR
     \<or> rect_w (mDisplayFrame (fbs s f)) < 0 \<or> rect_h (mDisplayFrame (fbs s f)) < 0"

lemma checkLayerValidate_bad:
  "checkLayerValidate f s = (if bad_layer s f then upd_comp f MESON_COMPOSITION_DUMMY s else s)"
  by (simp add: checkLayerValidate_def bad_layer_def)

definition drop_bad :: "'a world_scheme \<Rightarrow> fbid list \<Rightarrow> fbid \<Rightarrow> drm_framebuffer" where
  "drop_bad s fs = set_comps (filter (bad_layer s) fs) MESON_COMPOSITION_DUMMY (fbs s)"

definition checked :: "'a osd_state_scheme \<Rightarrow> 'a osd_state_scheme" where
  "checked s = s\<lparr>fbs := drop_bad s (fb_ids s)\<rparr>"

lemma set_comps_apply:
  "set_comps fs c h f = (if f \<in> set fs then (h f)\<lparr>mCompositionType := c\<rparr> else h f)"
  unfolding set_comps_def by (induction fs arbitrary: h) (auto simp: set_comp_def)

lemma drop_bad_at:
  "drop_bad s fs f = (if f \<in> set fs \<and> bad_layer s f
     then (fbs s f)\<lparr>mCompositionType := MESON_COMPOSITION_DUMMY\<rparr> else fbs s f)"
  by (simp add: drop_bad_def set_comps_apply)

lemma drop_bad_snoc:
  "drop_bad s (fs @ [f]) = (if bad_layer s f
     then set_comp f MESON_COMPOSITION_DUMMY (drop_bad s fs) else drop_bad s fs)"
  by (simp add: drop_bad_def set_comps_def)

lemma bad_layer_dropped: "fbs t = drop_bad s fs \<Longrightarrow> bad_layer t f = bad_layer s f"
  by (simp add: bad_layer_def drop_bad_at)

lemma checked_fields [simp]:
  "mFramebuffers (checked s) = mFramebuffers s" "plat (checked s) = plat s"
  "mOsdPlanes (checked s) = mOsdPlanes s" "fbs (checked s) = drop_bad s (fb_ids s)"
  "fb_ids (checked s) = fb_ids s"
  by (simp_all add: checked_def fb_ids_def)

lemma drop_bad_zorder [simp]: "mZorder (drop_bad s fs f) = mZorder (fbs s f)"
  by (simp add: drop_bad_at)

lemma checked_wf [simp]: "fbs_wf (checked s) = fbs_wf s"
  by (simp add: fbs_wf_def)

section \<open>The loop\<close>

definition gfx_overlay :: "meson_composition \<Rightarrow> bool" where
  "gfx_overlay t \<longleftrightarrow> t = MESON_COMPOSITION_PLANE_HWCVIDEO \<or> t = MESON_COMPOSITION_DI"

lemma gfx_overlay_no_ui: "\<forall>t. is_ui t \<longrightarrow> \<not> gfx_overlay t"
  by (auto simp: is_ui_def gfx_overlay_def)

lemma pickoutUiFb_store:
  assumes "h f = fbs s f"
  shows "pickoutUiFb b f (s\<lparr>fbs := h\<rparr>) = bindE (pickoutUiFb b f s) (\<lambda>t. Inr (t\<lparr>fbs := h\<rparr>))"
  using assms by (simp add: pickoutUiFb_def growRange_def split: list.split)

text \<open>Sorting one framebuffer only looks at that framebuffer in the store.\<close>

lemma wdi_sortOsdFb_step:
  assumes wf: "fbs_wf s" and planes: "mOsdPlanes s \<noteq> []" and m: "mFramebuffers s = xs @ e # ys"
    and cov: "range_covers s (filter (needs_composer s) (map snd xs)) mn mx"
    and h: "h (snd e) = fbs s (snd e)"
  shows "okE (wdi_sortOsdFb e (d, (picked gfx_overlay s xs mn mx)\<lparr>fbs := h\<rparr>)) (\<lambda>dt. \<exists>mn mx.
    snd dt = (picked gfx_overlay s (xs @ [e]) mn mx)\<lparr>fbs := h\<rparr>
    \<and> range_covers s (filter (needs_composer s) (map snd (xs @ [e]))) mn mx)"
proof -
  let ?ty = "ctype_of s (snd e)" and ?p = "picked gfx_overlay s xs mn mx"
  have wf_m: "map_wf (mFramebuffers s)" using wf by (simp add: fbs_wf_def)
  have valid: "\<forall>g \<in> set (filter (needs_composer s) (map snd xs)). zorder_of s g \<noteq> INVALID s"
    using fbs_wf_valid [OF wf] m by (auto simp: fb_ids_def)
  show ?thesis
  proof (cases "is_ui ?ty")
    case True
    obtain p ps where p: "mOsdPlanes s = p # ps" using planes by (cases "mOsdPlanes s") auto
    define b where "b = (?ty = MESON_COMPOSITION_CLIENT)"
    define hc where "hc = (mHaveClient s
      \<or> (\<exists>e \<in> set (xs @ [e]). ctype_of s (snd e) = MESON_COMPOSITION_CLIENT))"
    have hcp: "?p\<lparr>mHaveClient := hc\<rparr> = (if b then ?p\<lparr>mHaveClient := True\<rparr> else ?p)"
    proof (cases b)
      case True
      then show ?thesis by (auto simp: hc_def b_def)
    next
      case False
      then have "hc = mHaveClient ?p" by (auto simp: hc_def b_def picked_def)
      then show ?thesis using False by simp
    qed
    have comm: "?p\<lparr>fbs := h, mHaveClient := True\<rparr> = ?p\<lparr>mHaveClient := True, fbs := h\<rparr>"
      by (cases "?p") simp
    have "wdi_sortOsdFb e (d, ?p\<lparr>fbs := h\<rparr>) =
        bindE (pickoutUiFb b (snd e) ((?p\<lparr>mHaveClient := hc\<rparr>)\<lparr>fbs := h\<rparr>)) (\<lambda>s'. Inr (d, s'))"
      unfolding hcp using True by (cases ?ty) (simp_all add: wdi_sortOsdFb_def h b_def is_ui_def comm)
    moreover obtain mn' mx' where
      r: "pickoutUiFb b (snd e) (?p\<lparr>mHaveClient := hc\<rparr>) =
        Inr ((picked gfx_overlay s xs mn' mx')\<lparr>mHaveClient := hc\<rparr>)"
      and c: "range_covers s (if needs_composer s (snd e)
        then filter (needs_composer s) (map snd xs) @ [snd e]
        else filter (needs_composer s) (map snd xs)) mn' mx'"
      using pickoutUiFb_picked [OF p cov valid b_def True, where xs = xs and hc = hc] by blast
    moreover have "(picked gfx_overlay s xs mn' mx')\<lparr>mHaveClient := hc\<rparr> = picked gfx_overlay s (xs @ [e]) mn' mx'"
      unfolding hc_def by (rule picked_ui_step [OF True gfx_overlay_no_ui])
    moreover have "range_covers s (filter (needs_composer s) (map snd (xs @ [e]))) mn' mx'"
      using c by (simp split: if_splits)
    moreover have hf: "h (snd e) = fbs ((?p\<lparr>mHaveClient := hc\<rparr>)) (snd e)" using h by simp
    ultimately have "wdi_sortOsdFb e (d, ?p\<lparr>fbs := h\<rparr>) =
        Inr (d, (picked gfx_overlay s (xs @ [e]) mn' mx')\<lparr>fbs := h\<rparr>)"
      using pickoutUiFb_store [where s = "?p\<lparr>mHaveClient := hc\<rparr>" and h = h and f = "snd e" and b = b] hf by simp
    moreover have "range_covers s (filter (needs_composer s) (map snd (xs @ [e]))) mn' mx'"
      using c by (simp split: if_splits)
    ultimately have run: "wdi_sortOsdFb e (d, ?p\<lparr>fbs := h\<rparr>) =
        Inr (d, (picked gfx_overlay s (xs @ [e]) mn' mx')\<lparr>fbs := h\<rparr>)"
      and cov': "range_covers s (filter (needs_composer s) (map snd (xs @ [e]))) mn' mx'"
      by blast+
    show ?thesis unfolding run okE_Inr snd_conv by (rule exI [of _ mn'], rule exI [of _ mx']) (rule conjI [OF refl cov'])
  next
    case False
    then have n: "\<not> needs_composer s (snd e)" by (auto simp: is_ui_def needs_composer_def)
    let ?os = "mOverlayFbs s @ filter (\<lambda>f. gfx_overlay (ctype_of s f)) (map snd (xs @ [e]))"
    have r: "mFramebuffers_update (map_erase (fst e)) (?p\<lparr>mOverlayFbs := ?os\<rparr>) =
        picked gfx_overlay s (xs @ [e]) mn mx"
      by (rule picked_remove_step [OF wf_m m False refl])
    have f: "mFramebuffers_update (map_erase (fst e)) ((?p\<lparr>mOverlayFbs := ?os\<rparr>)\<lparr>fbs := h\<rparr>) =
        (picked gfx_overlay s (xs @ [e]) mn mx)\<lparr>fbs := h\<rparr>"
      unfolding r [symmetric] by simp
    have "\<exists>d'. wdi_sortOsdFb e (d, ?p\<lparr>fbs := h\<rparr>) =
        Inr (d', mFramebuffers_update (map_erase (fst e)) ((?p\<lparr>mOverlayFbs := ?os\<rparr>)\<lparr>fbs := h\<rparr>))"
      using False by (cases ?ty) (simp_all add: wdi_sortOsdFb_def h is_ui_def gfx_overlay_def picked_def)
    then obtain d' where run: "wdi_sortOsdFb e (d, ?p\<lparr>fbs := h\<rparr>) =
        Inr (d', (picked gfx_overlay s (xs @ [e]) mn mx)\<lparr>fbs := h\<rparr>)"
      unfolding f by blast
    have cov': "range_covers s (filter (needs_composer s) (map snd (xs @ [e]))) mn mx"
      using cov n by simp
    show ?thesis unfolding run okE_Inr snd_conv by (rule exI [of _ mn], rule exI [of _ mx]) (rule conjI [OF refl cov'])
  qed
qed

definition wdi_picked_inv :: "'a video_state_scheme \<Rightarrow> (u32 \<times> fbid) list
    \<Rightarrow> fbid list \<times> 'a video_state_scheme \<Rightarrow> bool" where
  "wdi_picked_inv s xs ds \<longleftrightarrow> (\<exists>mn mx.
     snd ds = (picked gfx_overlay (checked s) xs mn mx)\<lparr>fbs := drop_bad s (map snd xs)\<rparr>
     \<and> range_covers (checked s) (filter (needs_composer (checked s)) (map snd xs)) mn mx)"

lemma wdi_pickoutOsdFb_step:
  assumes wf: "fbs_wf s" and planes: "mOsdPlanes s \<noteq> []" and m: "mFramebuffers s = xs @ e # ys"
    and inv: "wdi_picked_inv s xs ds"
  shows "okE (wdi_pickoutOsdFb e ds) (wdi_picked_inv s (xs @ [e]))"
proof -
  obtain d t where ds: "ds = (d, t)" by (cases ds)
  with inv obtain mn mx where
    t: "t = (picked gfx_overlay (checked s) xs mn mx)\<lparr>fbs := drop_bad s (map snd xs)\<rparr>"
    and cov: "range_covers (checked s) (filter (needs_composer (checked s)) (map snd xs)) mn mx"
    by (auto simp: wdi_picked_inv_def)
  let ?h = "drop_bad s (map snd (xs @ [e]))"
  have "fbs t = drop_bad s (map snd xs)" by (simp add: t)
  then have "checkLayerValidate (snd e) t = t\<lparr>fbs := ?h\<rparr>"
    by (simp add: checkLayerValidate_bad bad_layer_dropped drop_bad_snoc upd_comp_def)
  then have run: "wdi_pickoutOsdFb e ds =
      wdi_sortOsdFb e (d, (picked gfx_overlay (checked s) xs mn mx)\<lparr>fbs := ?h\<rparr>)"
    by (simp add: wdi_pickoutOsdFb_def ds t)
  have "snd e \<in> set (fb_ids s)" using m by (simp add: fb_ids_def)
  then have h: "?h (snd e) = fbs (checked s) (snd e)" by (simp add: drop_bad_at)
  have wfc: "fbs_wf (checked s)" using wf by simp
  have pl: "mOsdPlanes (checked s) \<noteq> []" and mc: "mFramebuffers (checked s) = xs @ e # ys"
    using planes m by simp_all
  show ?thesis
    unfolding run wdi_picked_inv_def
    by (rule wdi_sortOsdFb_step [where s = "checked s" and xs = xs and e = e and ys = ys and h = ?h
      and d = d and mn = mn and mx = mx, OF wfc pl mc cov h])
qed

lemma wdi_pickout_loop:
  assumes wf: "fbs_wf s" and planes: "mOsdPlanes s \<noteq> []" and unset: "range_unset s"
  shows "okE (foldE wdi_pickoutOsdFb (mFramebuffers s) ([], s)) (wdi_picked_inv s (mFramebuffers s))"
proof (rule okE_foldE)
  have "drop_bad s [] = fbs s" by (simp add: drop_bad_def set_comps_def)
  moreover have "picked gfx_overlay (checked s) [] (INVALID s) (INVALID s) = checked s"
    using picked_Nil [of "checked s" gfx_overlay] unset by (simp add: range_unset_def checked_def)
  ultimately show "wdi_picked_inv s [] ([], s)"
    unfolding wdi_picked_inv_def
    by (intro exI [of _ "INVALID s"]) (simp add: range_covers_def checked_def)
qed (rule wdi_pickoutOsdFb_step [OF wf planes])

section \<open>The video framebuffers between them\<close>

text \<open>With \<open>mHDRMode\<close>, which \<open>setup\<close> sets, the loop only moves the range and never sets the flag.\<close>

definition range_moved :: "u32 \<Rightarrow> 'a osd_state_scheme \<Rightarrow> 'a osd_state_scheme \<Rightarrow> bool" where
  "range_moved a t u \<longleftrightarrow> u = t \<or> (\<exists>mx. u = set_range a mx t \<and> mx \<noteq> INVALID t
     \<and> (mMaxComposerZorder t = INVALID t \<or> mMaxComposerZorder t \<le> mx) \<and> a \<le> mx)"

lemma range_moved_step:
  assumes hdr: "mHDRMode t" and ne: "mFramebuffers t \<noteq> []"
    and a: "a = zorder_of t (snd (hd (mFramebuffers t)))"
    and moved: "range_moved a t u" and valid: "zorder_of t f \<noteq> INVALID t"
    and run: "wdi_adjustForVideo a b c f (n, kept, u) = (n', kept', u')"
  shows "range_moved a t u' \<and> set kept' \<subseteq> insert f (set kept)"
proof (cases "a \<le> zorder_of t f \<and> zorder_of t f \<le> b")
  case False
  have "zorder_of u f = zorder_of t f" using moved by (auto simp: range_moved_def set_range_def)
  with False run moved show ?thesis by (auto simp: Let_def split: if_splits)
next
  case True
  let ?z = "zorder_of t f"
  have u: "zorder_of u f = ?z" "mHDRMode u" "mFramebuffers u = mFramebuffers t" "fbs u = fbs t"
    "INVALID u = INVALID t"
    using moved hdr by (auto simp: range_moved_def set_range_def)
  define mx where "mx = (if mMaxComposerZorder u = INVALID t \<or> mMaxComposerZorder u < ?z
      then ?z else mMaxComposerZorder u)"
  have r: "kept' = kept @ [f]" "u' = set_range a mx u"
    using run True by (auto simp: Let_def u a [symmetric] set_range_def mx_def)
  have "set_range a mx u = set_range a mx t"
    using moved by (auto simp: range_moved_def set_range_def)
  moreover have "mx \<noteq> INVALID t" using valid by (simp add: mx_def)
  moreover have "a \<le> mx" using True by (auto simp: mx_def intro: order_trans)
  moreover have "mMaxComposerZorder t = INVALID t \<or> mMaxComposerZorder t \<le> mx"
    using moved by (auto simp: range_moved_def mx_def set_range_def intro: order_trans)
  ultimately show ?thesis using r by (auto simp: range_moved_def)
qed

lemma fold_adjust_moved:
  assumes hdr: "mHDRMode t" and ne: "mFramebuffers t \<noteq> []"
    and a: "a = zorder_of t (snd (hd (mFramebuffers t)))"
  shows "range_moved a t u \<Longrightarrow> \<forall>f \<in> set fs. zorder_of t f \<noteq> INVALID t \<Longrightarrow>
    fold (wdi_adjustForVideo a b c) fs (n, kept, u) = (n', kept', u') \<Longrightarrow>
    range_moved a t u' \<and> set kept' \<subseteq> set kept \<union> set fs"
proof (induction fs arbitrary: n kept u)
  case Nil
  then show ?case by simp
next
  case (Cons f fs)
  obtain n1 k1 u1 where s1: "wdi_adjustForVideo a b c f (n, kept, u) = (n1, k1, u1)"
    by (metis prod_cases3)
  have "range_moved a t u1" and k1: "set k1 \<subseteq> insert f (set kept)"
    using range_moved_step [OF hdr ne a Cons.prems(1) _ s1] Cons.prems(2) by simp_all
  from Cons.IH [OF this(1), of n1 k1] Cons.prems s1
  have "range_moved a t u' \<and> set kept' \<subseteq> set k1 \<union> set fs" by simp
  then show ?case using k1 by auto
qed

lemma wdi_checkVideoFbs_post:
  assumes hdr: "mHDRMode t" and wf: "fbs_wf s" and post: "pick_post s t"
    and ov: "\<forall>f \<in> set (mOverlayFbs t). zorder_of t f \<noteq> INVALID t"
  shows "pick_post s (wdi_checkVideoFbs t)"
proof (cases "mOverlayFbs t \<noteq> [] \<and> mFramebuffers t \<noteq> []")
  case False
  with post show ?thesis by (auto simp: wdi_checkVideoFbs_def)
next
  case True
  then have ne: "mFramebuffers t \<noteq> []" by simp
  define a where "a = zorder_of t (snd (hd (mFramebuffers t)))"
  define b where "b = zorder_of t (snd (last (mFramebuffers t)))"
  obtain n kept u where fold: "fold (wdi_adjustForVideo a b (2 < length (mOverlayFbs t)))
      (mOverlayFbs t) (0, [], t) = (n, kept, u)"
    by (metis prod_cases3)
  have eq: "wdi_checkVideoFbs t = u\<lparr>mOverlayFbs := kept\<rparr>"
    using True fold by (simp add: wdi_checkVideoFbs_def a_def b_def Let_def)
  have "range_moved a t t" by (simp add: range_moved_def)
  from fold_adjust_moved [OF hdr ne a_def this ov fold] have "range_moved a t u" by simp
  then consider "u = t"
    | mx where "u = set_range a mx t" "mx \<noteq> INVALID t"
      "mMaxComposerZorder t = INVALID t \<or> mMaxComposerZorder t \<le> mx" "a \<le> mx"
    unfolding range_moved_def by blast
  then show ?thesis
  proof cases
    case 1
    then show ?thesis using pick_post_overlays [OF post] by (simp add: eq)
  next
    case (2 mx)
    from pick_post_extend [OF wf post ne 2(2,3) 2(4) [unfolded a_def]]
    show ?thesis by (simp add: eq 2(1) a_def)
  qed
qed

section \<open>The whole step\<close>

lemma drop_bad_all: "drop_bad s (map snd (mFramebuffers s)) = fbs (checked s)"
  by (simp add: fb_ids_def)

lemma pick_post_hdr: "pick_post s t \<Longrightarrow> mHDRMode t = mHDRMode s"
  by (simp add: pick_post_def pick_frame_fields)

lemma checked_planes [simp]: "mOsdPlanes (checked s) = mOsdPlanes s" "mHDRMode (checked s) = mHDRMode s"
  "mOverlayFbs (checked s) = mOverlayFbs s" "dummy_ready (checked s) = dummy_ready s"
  by (simp_all add: checked_def dummy_ready_def)

lemma wdi_pickoutOsdFbs_post:
  assumes wf: "fbs_wf s" and planes: "mOsdPlanes s \<noteq> []" and unset: "range_unset s"
    and hdr: "mHDRMode s" and ov: "mOverlayFbs s = []" and dummy: "dummy_ready s"
  shows "okE (wdi_pickoutOsdFbs s) (pick_post (checked s))"
  unfolding wdi_pickoutOsdFbs_def okE_bindE [of "foldE _ _ _"]
proof (rule okE_mono [OF wdi_pickout_loop [OF wf planes unset]])
  fix ds assume inv: "wdi_picked_inv s (mFramebuffers s) ds"
  obtain d t where ds: "ds = (d, t)" by (cases ds)
  from inv obtain mn mx where
    "t = (picked gfx_overlay (checked s) (mFramebuffers s) mn mx)\<lparr>fbs := drop_bad s (map snd (mFramebuffers s))\<rparr>"
    and cov: "range_covers (checked s) (filter (needs_composer (checked s)) (fb_ids (checked s))) mn mx"
    unfolding wdi_picked_inv_def ds by (auto simp: fb_ids_def)
  then have t: "t = picked gfx_overlay (checked s) (mFramebuffers (checked s)) mn mx"
    unfolding drop_bad_all by (simp add: picked_def)
  have wfc: "fbs_wf (checked s)" using wf by simp
  have post: "pick_post (checked s) t" unfolding t by (rule picked_post [OF wfc cov])
  have "dummy_ready t" using dummy by (simp add: dummy_ready_def t picked_def checked_def)
  note run = dummy_inputs_run [OF this, of d]
  have postd: "pick_post (checked s) (dummy_inputs d t)" by (rule pick_post_dummy [OF post])
  have "\<forall>f \<in> set (mOverlayFbs (checked s)). zorder_of (checked s) f \<noteq> INVALID (checked s)"
    using ov by simp
  note mem = mem_picked_overlay [OF this wfc]
  have "zorder_of (dummy_inputs d t) f \<noteq> INVALID (dummy_inputs d t)"
    if f: "f \<in> set (mOverlayFbs (dummy_inputs d t))" for f
  proof -
    have "zorder_of (checked s) f \<noteq> INVALID (checked s)"
      by (rule mem [where mn = mn and mx = mx]) (use f t in simp)
    then show ?thesis using postd by (auto simp: pick_post_def pick_frame_fields)
  qed
  moreover have "mHDRMode (dummy_inputs d t)" using pick_post_hdr [OF postd] hdr by simp
  ultimately have "pick_post (checked s) (wdi_checkVideoFbs (dummy_inputs d t))"
    using wdi_checkVideoFbs_post [OF _ wfc postd] by blast
  then show "okE (case ds of (dummyFbs, s) \<Rightarrow> bindE (if dummyFbs \<noteq> []
      then bindE (getE NullDeref (mDummyComposer s)) (\<lambda>c. call_addInputs c dummyFbs [] 0 s)
      else Inr s) (\<lambda>s. Inr (wdi_checkVideoFbs s))) (pick_post (checked s))"
    unfolding ds prod.case run by simp
qed

end
