(* ===== verification/DiRange.thy ===== *)
theory DiRange
  imports VideoProps
begin

text \<open>
  \<open>MultiplanesWithDiComposition::handleVPULimit\<close>: the limits of the scaler only widen a compose
  range in use, or put one in place that the osd planes can show. \<open>wdi_settle_range\<close> is the
  outcome of \<open>confirmComposerRange\<close> and \<open>handleVPULimit\<close>, as \<open>settle_range\<close> is for
  \<open>MultiplanesComposition\<close>. \<open>INVALID_ZORDER\<close> has to be the greatest z-order, as it is in the
  header of the platform: only then does a range that is not in use contain no layer above it.
\<close>

section \<open>Widening a range in use\<close>

lemma set_range_keeps [simp]:
  "fbs_wf (set_range mn mx s) = fbs_wf s" "mCrtc (set_range mn mx s) = mCrtc s"
  by (simp_all add: fbs_wf_def) (simp add: set_range_def)

definition widened :: "'a osd_state_scheme \<Rightarrow> 'a osd_state_scheme \<Rightarrow> bool" where
  "widened u v \<longleftrightarrow> (\<exists>mn mx. v = set_range mn mx u \<and> mn \<le> mMinComposerZorder u
     \<and> mMaxComposerZorder u \<le> mx \<and> mn \<noteq> INVALID u \<and> mx \<noteq> INVALID u)"

lemma widenedI: "mn \<le> mMinComposerZorder u \<Longrightarrow> mMaxComposerZorder u \<le> mx \<Longrightarrow> mn \<noteq> INVALID u
    \<Longrightarrow> mx \<noteq> INVALID u \<Longrightarrow> widened u (set_range mn mx u)"
  unfolding widened_def by blast

lemma widened_refl: "range_hits u \<Longrightarrow> widened u u"
  using widenedI [of "mMinComposerZorder u" u "mMaxComposerZorder u"]
  by (simp add: range_hits_def set_range_def)

lemma widened_trans: "widened u v \<Longrightarrow> widened v w \<Longrightarrow> widened u w"
  unfolding widened_def by (elim exE conjE) (auto simp: set_range_def intro: order_trans)

lemma widened_composed: "widened u v \<Longrightarrow> is_fb_composed u f \<Longrightarrow> is_fb_composed v f"
  unfolding widened_def is_fb_composed_def by (elim exE conjE) (auto intro: order_trans)

lemma widened_hits:
  assumes "range_hits u" and "widened u v"
  shows "range_hits v" "osd_outputs v \<le> osd_outputs u"
proof -
  from assms(2) have fields: "fb_ids v = fb_ids u" "INVALID v = INVALID u"
    "mMinComposerZorder v \<noteq> INVALID u" "mMaxComposerZorder v \<noteq> INVALID u"
    unfolding widened_def by auto
  then show "range_hits v" using assms(1) widened_composed [OF assms(2)] by (auto simp: range_hits_def)
  have "length (filter (\<lambda>f. \<not> is_fb_composed v f) fs) \<le> length (filter (\<lambda>f. \<not> is_fb_composed u f) fs)" for fs
    using widened_composed [OF assms(2)] by (induction fs) auto
  then show "osd_outputs v \<le> osd_outputs u" by (simp add: osd_outputs_def fields)
qed

lemma mem_entry: "fbs_wf s \<Longrightarrow> e \<in> set (mFramebuffers s) \<Longrightarrow> zorder_of s (snd e) = fst e \<and> fst e \<noteq> INVALID s"
  by (auto simp: fbs_wf_def)

lemma before_lower_bound:
  assumes "length (lower_bound k m) \<noteq> length m"
  defines "i \<equiv> length m - length (lower_bound k m) - 1"
  shows "m ! i \<in> set m" "fst (m ! i) < k"
proof -
  define tw where "tw = takeWhile (\<lambda>e. fst e < k) m"
  have m: "m = tw @ lower_bound k m" by (simp add: tw_def lower_bound_def)
  then have len: "length m = length tw + length (lower_bound k m)" by (metis length_append)
  then have i: "i < length tw" using assms(1) by (simp add: i_def)
  then have "m ! i = tw ! i" by (subst m) (simp add: nth_append)
  moreover have "tw ! i \<in> set tw" using i by simp
  ultimately show "m ! i \<in> set m" "fst (m ! i) < k"
    by (auto simp: tw_def dest: set_takeWhileD)
qed

lemma handleVPUScaleLimit_hits:
  assumes wf: "fbs_wf s" and hits: "range_hits s"
  shows "widened s (handleVPUScaleLimit s)"
proof -
  have ne: "mMinComposerZorder s \<noteq> INVALID s" "mMaxComposerZorder s \<noteq> INVALID s"
    using hits by (simp_all add: range_hits_def)
  let ?m = "mFramebuffers s" and ?it = "lower_bound (mMinComposerZorder s) (mFramebuffers s)"
  have up: "widened s (s\<lparr>mMaxComposerZorder := zorder_of s (snd e)\<rparr>)"
    if "upper_bound (mMaxComposerZorder s) ?m = e # es" for e es
  proof -
    have "e \<in> set (upper_bound (mMaxComposerZorder s) ?m)" using that by simp
    then have "e \<in> set ?m" unfolding upper_bound_def by (rule set_dropWhileD)
    moreover have "\<not> fst e \<le> mMaxComposerZorder s"
      using that by (auto simp: upper_bound_def dropWhile_eq_Cons_conv)
    ultimately show ?thesis
      using mem_entry [OF wf] widenedI [of "mMinComposerZorder s" s "zorder_of s (snd e)"] ne
      by (auto simp: set_range_def)
  qed
  have down: "widened s (s\<lparr>mMinComposerZorder := zorder_of s (snd (?m ! (length ?m - length ?it - 1)))\<rparr>)"
    if "length ?it \<noteq> length ?m"
  proof -
    let ?e = "?m ! (length ?m - length ?it - 1)"
    have e: "?e \<in> set ?m" "fst ?e < mMinComposerZorder s" using before_lower_bound [OF that] by simp_all
    then show ?thesis
      using mem_entry [OF wf e(1)] widenedI [of "zorder_of s (snd ?e)" s "mMaxComposerZorder s"] ne
      by (auto simp: set_range_def)
  qed
  show ?thesis
    unfolding handleVPUScaleLimit_def Let_def
    using up down ne widened_refl [OF hits] by (simp split: list.split)
qed

lemma scaleLimit_none_above:
  "\<forall>f \<in> set fs. \<not> mMaxComposerZorder s < zorder_of s f \<Longrightarrow>
    upClientNum (fold (scaleLimitStep s) fs c) = upClientNum c"
proof (induction fs arbitrary: c)
  case Nil
  then show ?case by simp
next
  case (Cons f fs)
  then have "upClientNum (scaleLimitStep s f c) = upClientNum c"
    by (auto simp: scaleLimitStep_def Let_def)
  with Cons show ?case by simp
qed

lemma handleVPUScaleLimit_unset:
  assumes unset: "range_unset s" and top_z: "\<forall>z. z \<le> INVALID s"
  shows "handleVPUScaleLimit s = s \<or> handleVPUScaleLimit s =
    set_range (zorder_of s (snd (hd (mFramebuffers s)))) (zorder_of s (snd (hd (mFramebuffers s)))) s"
proof -
  have "\<forall>f \<in> set (fb_ids s). \<not> mMaxComposerZorder s < zorder_of s f"
    using unset top_z by (auto simp: range_unset_def not_less)
  note none = scaleLimit_none_above [OF this]
  show ?thesis
    using unset unfolding handleVPUScaleLimit_def Let_def none
    by (simp add: range_unset_def set_range_def)
qed

lemma coverStep_hits:
  assumes wf: "fbs_wf s" and hits: "range_hits s" and f: "f \<in> set (fb_ids s)"
  shows "widened s (coverStep f s)"
proof -
  have "coverStep f s = set_range (min (zorder_of s f) (mMinComposerZorder s))
      (max (zorder_of s f) (mMaxComposerZorder s)) s"
    using hits by (auto simp: coverStep_def set_range_def range_hits_def min_def max_def)
  moreover have "zorder_of s f \<noteq> INVALID s" by (rule fbs_wf_valid [OF wf f])
  ultimately show ?thesis using hits by (auto simp: range_hits_def intro!: widenedI simp: min_def max_def)
qed

lemma widened_fields: "widened s t \<Longrightarrow> fb_ids t = fb_ids s \<and> fbs_wf t = fbs_wf s
    \<and> mFramebuffers t = mFramebuffers s \<and> mCrtc t = mCrtc s \<and> plat t = plat s"
  unfolding widened_def by (elim exE conjE) simp

lemma fold_coverStep_hits:
  "fbs_wf s \<Longrightarrow> range_hits s \<Longrightarrow> set fs \<subseteq> set (fb_ids s) \<Longrightarrow> widened s (fold coverStep fs s)"
proof (induction fs arbitrary: s)
  case Nil
  then show ?case by (simp add: widened_refl)
next
  case (Cons f fs)
  then have w: "widened s (coverStep f s)" by (simp add: coverStep_hits)
  with Cons.IH [of "coverStep f s"] Cons.prems widened_hits(1) [OF _ w]
  have "widened (coverStep f s) (fold coverStep fs (coverStep f s))"
    by (simp add: widened_fields [OF w])
  with w show ?case by (simp add: widened_trans)
qed

lemma fold_coverStep_unset:
  assumes wf: "fbs_wf s" and unset: "range_unset s" and ne: "mFramebuffers s \<noteq> []"
  shows "\<exists>mn mx. fold coverStep (fb_ids s) s = set_range mn mx s \<and> range_hits (set_range mn mx s)"
proof -
  let ?f = "snd (hd (mFramebuffers s))" and ?z = "zorder_of s (snd (hd (mFramebuffers s)))"
  obtain fs where ids: "fb_ids s = ?f # fs"
    using ne by (cases "mFramebuffers s") (simp_all add: fb_ids_def)
  let ?t = "set_range ?z ?z s"
  have t: "coverStep ?f s = ?t" using unset by (simp add: coverStep_def set_range_def range_unset_def)
  have hits: "range_hits ?t" using single_range [OF wf ne unset] by simp
  have "fbs_wf ?t" using wf by simp
  from fold_coverStep_hits [OF this hits, of fs] have w: "widened ?t (fold coverStep fs ?t)"
    by (simp add: ids subset_insertI)
  then obtain mn mx where "fold coverStep fs ?t = set_range mn mx ?t" unfolding widened_def by blast
  with widened_hits(1) [OF hits w] show ?thesis
    by (intro exI [of _ mn] exI [of _ mx]) (simp add: ids t)
qed

lemma handleVPUOddScaleLimit_cases:
  assumes "mCrtc s \<noteq> None"
  shows "handleVPUOddScaleLimit s = Inr s \<or> handleVPUOddScaleLimit s = Inr (fold coverStep (fb_ids s) s)"
  using assms by (auto simp: handleVPUOddScaleLimit_def getE_def split: option.splits)

section \<open>The range and the base framebuffer\<close>

lemma wdi_limit_hits:
  assumes wf: "fbs_wf s" and hits: "range_hits s" and crtc: "mCrtc s \<noteq> None"
  shows "okE (wdi_handleVPULimit s) (widened s)"
proof (cases "mFramebuffers s = []")
  case True
  then show ?thesis using widened_refl [OF hits] by (simp add: wdi_handleVPULimit_def)
next
  case False
  let ?u = "handleVPUScaleLimit s"
  have u: "widened s ?u" by (rule handleVPUScaleLimit_hits [OF wf hits])
  note fu = widened_fields [OF u] widened_hits(1) [OF hits u]
  from handleVPUOddScaleLimit_cases [of ?u] obtain v where
    v: "handleVPUOddScaleLimit ?u = Inr v" "widened ?u v"
    using widened_refl fold_coverStep_hits fu wf crtc by (metis order_refl)
  have "range_hits v" using widened_hits(1) [OF _ v(2)] fu by simp
  then show ?thesis
    using False v widened_trans [OF u v(2)] by (simp add: wdi_handleVPULimit_def range_hits_def)
qed

lemma chooseBaseFb_unset:
  assumes wf: "fbs_wf t" and ne: "mFramebuffers t \<noteq> []" and unset: "range_unset t"
    and ref: "mDisplayRefFb t = None" and n: "length (mFramebuffers t) \<le> length (mOsdPlanes t)"
  shows "range_settled t (chooseBaseFb t)"
proof -
  obtain minX minY w h where o4: "fold (offsetStep t) (fb_ids t) (-1, -1, 0, 0) = (minX, minY, w, h)"
    by (metis prod_cases4)
  define r where "r = (if length (mFramebuffers t) = 1 then Some (snd (hd (mFramebuffers t)))
    else chooseRefFb t
      (mk_rect 0 0 OSD_SCALER_INPUT_MAX_WIDTH OSD_SCALER_INPUT_MAX_HEIGHT)
      (mk_rect 0 0 (int32 (w - minX)) (int32 (h - minY))) (fb_ids t) (mDisplayRefFb t))"
  define z where "z = zorder_of t (snd (hd (mFramebuffers t)))"
  have none: "\<forall>f \<in> set (fb_ids t). \<not> is_fb_composed t f"
    using range_unset_composed [OF wf unset] by blast
  show ?thesis
  proof (cases r)
    case None
    then have eq: "chooseBaseFb t = set_range z z t"
      using o4 ref by (simp add: chooseBaseFb_def Let_def r_def z_def set_range_def split: if_splits)
    show ?thesis unfolding eq
      by (rule range_settledI_hits) (use single_range [OF wf ne unset, folded z_def] n ref none in auto)
  next
    case (Some f)
    have hd: "snd (hd (mFramebuffers t)) \<in> set (fb_ids t)" using ne by (simp add: fb_ids_def)
    have f: "f \<in> set (fb_ids t)"
    proof (cases "length (mFramebuffers t) = 1")
      case True
      then show ?thesis using Some hd by (simp add: r_def)
    next
      case False
      then show ?thesis using Some chooseRefFb_mem ref by (fastforce simp: r_def)
    qed
    define zf where "zf = (mOsdDisplayFrame t)\<lparr>crtc_display_x := minX, crtc_display_y := minY\<rparr>"
    have eq: "chooseBaseFb t = t\<lparr>mDisplayRefFb := Some f, mOsdDisplayFrame := zf\<rparr>"
      using Some o4 ref by (simp add: chooseBaseFb_def Let_def r_def zf_def split: if_splits)
    moreover have "\<exists>mn mx ref z. chooseBaseFb t = t\<lparr>mMinComposerZorder := mn,
        mMaxComposerZorder := mx, mDisplayRefFb := ref, mOsdDisplayFrame := z\<rparr>"
      unfolding eq by (intro exI [of _ "mMinComposerZorder t"] exI [of _ "mMaxComposerZorder t"]
          exI [of _ "Some f"] exI [of _ zf]) simp
    ultimately show ?thesis using f n unset none by (auto simp: range_settled_def)
  qed
qed

lemma wdi_limit_unset:
  assumes wf: "fbs_wf t" and ne: "mFramebuffers t \<noteq> []" and unset: "range_unset t"
    and ref: "mDisplayRefFb t = None" and n: "length (mFramebuffers t) \<le> length (mOsdPlanes t)"
    and crtc: "mCrtc t \<noteq> None" and top_z: "\<forall>z. z \<le> INVALID t"
  shows "okE (wdi_handleVPULimit t) (range_settled t)"
proof -
  have none: "\<forall>f \<in> set (fb_ids t). \<not> is_fb_composed t f"
    using range_unset_composed [OF wf unset] by blast
  have settled: "range_settled t (set_range mn mx t)" if h: "range_hits (set_range mn mx t)" for mn mx
    by (rule range_settledI_hits) (use osd_outputs_le [OF h] n none ref h in auto)
  have run: "okE (bindE (handleVPUOddScaleLimit u) (\<lambda>s.
      if mMaxComposerZorder s \<noteq> INVALID s \<and> mMinComposerZorder s \<noteq> INVALID s then Inr s
      else Inr (chooseBaseFb s))) (range_settled t)"
    if u: "handleVPUOddScaleLimit u = Inr v" and v: "v = t \<or> (\<exists>mn mx. v = set_range mn mx t \<and> range_hits v)" for u v
    using v
  proof (elim disjE exE conjE)
    assume "v = t"
    then show ?thesis using chooseBaseFb_unset [OF wf ne unset ref n] u unset
      by (simp add: range_unset_def)
  next
    fix mn mx assume "v = set_range mn mx t" "range_hits v"
    then show ?thesis using settled u by (auto simp: range_hits_def)
  qed
  obtain v where v: "handleVPUOddScaleLimit (handleVPUScaleLimit t) = Inr v"
      "v = t \<or> (\<exists>mn mx. v = set_range mn mx t \<and> range_hits v)"
  proof -
  have "\<exists>v. handleVPUOddScaleLimit (handleVPUScaleLimit t) = Inr v
      \<and> (v = t \<or> (\<exists>mn mx. v = set_range mn mx t \<and> range_hits v))"
    using handleVPUScaleLimit_unset [OF unset top_z]
  proof
    assume "handleVPUScaleLimit t = t"
    then show ?thesis
      using handleVPUOddScaleLimit_cases [OF crtc] fold_coverStep_unset [OF wf unset ne] by metis
  next
    let ?z = "zorder_of t (snd (hd (mFramebuffers t)))"
    let ?u = "set_range ?z ?z t"
    assume eq: "handleVPUScaleLimit t = ?u"
    have hits: "range_hits ?u" using single_range [OF wf ne unset] by simp
    have "fbs_wf ?u" "mCrtc ?u \<noteq> None" using wf crtc by simp_all
    then obtain v where v: "handleVPUOddScaleLimit ?u = Inr v" "widened ?u v"
      using handleVPUOddScaleLimit_cases [of ?u] widened_refl [OF hits]
        fold_coverStep_hits [OF _ hits] by (metis order_refl)
    then have "range_hits v" "\<exists>mn mx. v = set_range mn mx t"
      using widened_hits(1) [OF hits] by (auto simp: widened_def)
    with v show ?thesis by (auto simp: eq)
  qed
    then show thesis using that by blast
  qed
  from run [OF this] ne show ?thesis by (simp add: wdi_handleVPULimit_def)
qed

lemma wdi_settle_range:
  assumes wf: "fbs_wf t" and ne: "mFramebuffers t \<noteq> []" and range: "range_unset t \<or> range_hits t"
    and ref: "mDisplayRefFb t = None" and planes: "mOsdPlanes t \<noteq> []" and crtc: "mCrtc t \<noteq> None"
    and len: "int (length (mFramebuffers t)) < 2 ^ 31" and top_z: "\<forall>z. z \<le> INVALID t"
  shows "okE (wdi_confirmComposerRange t) (\<lambda>u. okE (wdi_handleVPULimit u) (range_settled t))"
proof -
  have step: "okE (wdi_handleVPULimit u) (range_settled t)"
    if u: "u = set_range mn mx t" and hits: "range_hits u" and out: "osd_outputs u \<le> length (mOsdPlanes t)"
      and grow: "\<forall>f \<in> set (fb_ids t). is_fb_composed t f \<longrightarrow> is_fb_composed u f" for u mn mx
  proof -
    have "fbs_wf u" "mCrtc u \<noteq> None" using wf crtc by (simp_all add: u)
    from wdi_limit_hits [OF this(1) hits this(2)] show ?thesis
    proof (rule okE_mono)
      fix w assume w: "widened u w"
      then obtain mn' mx' where eq: "w = set_range mn' mx' t" by (auto simp: widened_def u)
      show "range_settled t w" unfolding eq
        by (rule range_settledI_hits)
          (use widened_hits [OF hits w] widened_composed [OF w] out grow ref eq in auto)
    qed
  qed
  show ?thesis
  proof (cases "range_hits t")
    case True
    then obtain mn mx where "confirmComposerRange t = Inr (set_range mn mx t)"
      and "range_hits (set_range mn mx t)"
      and "osd_outputs (set_range mn mx t) \<le> length (mOsdPlanes t)"
      and "\<forall>f \<in> set (fb_ids t). is_fb_composed t f \<longrightarrow> is_fb_composed (set_range mn mx t) f"
      using confirmComposerRange_hits [OF wf True planes len] by blast
    then show ?thesis using step by (simp add: wdi_confirmComposerRange_def)
  next
    case False
    with range have unset: "range_unset t" by simp
    from confirmComposerRange_unset [OF wf unset planes len] show ?thesis
    proof (elim disjE conjE exE)
      assume n: "length (mFramebuffers t) \<le> length (mOsdPlanes t)" and "confirmComposerRange t = Inr t"
      then show ?thesis using wdi_limit_unset [OF wf ne unset ref n crtc top_z]
        by (simp add: wdi_confirmComposerRange_def)
    next
      fix mn mx
      assume "confirmComposerRange t = Inr (set_range mn mx t)"
        and "range_hits (set_range mn mx t)"
        and "osd_outputs (set_range mn mx t) = length (mOsdPlanes t)"
      then show ?thesis using step range_unset_composed [OF wf unset]
        by (simp add: wdi_confirmComposerRange_def)
    qed
  qed
qed

end
