(* ===== verification/DiDecide.thy ===== *)
theory DiDecide
  imports DiPick DiRange
begin

text \<open>
  \<open>MultiplanesWithDiComposition::decideComposition\<close> as a whole: \<open>gfx_ready\<close> is the state in
  which \<open>processGfxFbs\<close> runs, \<open>gfx_decided\<close> says that it never faults there and ends in a state
  of \<open>osd_decided\<close>.
\<close>

section \<open>One plane for every output\<close>

lemma wdi_setOsdPair_run:
  assumes r: "mDisplayRefFb s = Some r"
  shows "length (r # done @ filter (\<lambda>f. f \<noteq> r) fs) \<le> length ps \<Longrightarrow>
    foldE wdi_setOsdPair fs (length done, osd_done s (r # done) ps)
      = Inr (length (done @ filter (\<lambda>f. f \<noteq> r) fs), osd_done s (r # done @ filter (\<lambda>f. f \<noteq> r) fs) ps)"
proof (induction fs arbitrary: "done")
  case Nil
  then show ?case by simp
next
  case (Cons f fs)
  show ?case
  proof (cases "f = r")
    case True
    with Cons r show ?thesis by simp
  next
    case False
    have len: "Suc (length done) < length ps" using Cons.prems False by simp
    then have used: "\<not> (ps = [] \<or> length done \<noteq> length ps - 1) \<longleftrightarrow> False" by auto
    have "wdi_setOsdPair f (length done, osd_done s (r # done) ps) =
        Inr (length (done @ [f]), osd_done s (r # done @ [f]) ps)"
      using False r len used osd_done_snoc [of f "r # done" s ps] by (auto simp: nthE_def Let_def)
    with Cons.IH [of "done @ [f]"] Cons.prems False show ?thesis by simp
  qed
qed

lemma wdi_setOsdFbs2PlanePairs_placed:
  assumes d: "distinct (fb_ids s)" and r: "mDisplayRefFb s = Some r" "r \<in> set (fb_ids s)"
    and len: "length (mFramebuffers s) \<le> length (mOsdPlanes s)"
  shows "wdi_setOsdFbs2PlanePairs s = Inr (osd_placed s r)"
proof -
  let ?P = "primaryFirst (mOsdPlanes s)" and ?others = "filter (\<lambda>f. f \<noteq> r) (fb_ids s)"
  let ?s = "s\<lparr>mOsdPlanes := ?P\<rparr>"
  have ne: "mFramebuffers s \<noteq> []" using r(2) by (auto simp: fb_ids_def)
  have n: "Suc (length ?others) = length (mFramebuffers s)"
    using osd_order_props(3) [OF d r(2)] by (simp add: osd_order_def)
  then have le: "length (r # [] @ ?others) \<le> length ?P" using len by simp
  then have "0 < length ?P" by (metis Suc_le_length_iff length_Cons length_greater_0_conv list.distinct(1))
  then have nth0: "nthE OutOfRange ?P 0 = Inr (?P ! 0)" by (simp add: nthE_def)
  have s0: "markOsd r (pushPair 0 (zorder_of s r) r (?P ! 0) ?s) = osd_done s [r] ?P"
    using osd_done_snoc [of r "[]" s ?P] by (simp add: osd_done_def osd_pairs_def mark_types_def)
  have "wdi_setOsdFbs2PlanePairs s =
      bindE (foldE wdi_setOsdPair (fb_ids s) (0, osd_done s [r] ?P)) (\<lambda>(used, s).
        if used < length (mOsdPlanes s)
        then Inr (s\<lparr>mOsdPlanes := drop (Suc used) (mOsdPlanes s)\<rparr>) else Inl OutOfRange)"
    using ne r nth0 by (simp add: wdi_setOsdFbs2PlanePairs_def Let_def s0) (simp add: fb_ids_def osd_done_def)
  also have "\<dots> = Inr (osd_placed s r)"
    using wdi_setOsdPair_run [OF r(1) le] n len
    by (simp add: osd_placed_def osd_order_def)
  finally show ?thesis .
qed

section \<open>The decision on the osd planes\<close>

definition gfx_ready :: "wdi_state \<Rightarrow> bool" where
  "gfx_ready s \<longleftrightarrow> fbs_wf s \<and> range_unset s \<and> mDisplayRefFb s = None \<and> mOverlayFbs s = []
     \<and> mComposerFbs s = [] \<and> mComposer s = None \<and> mHDRMode s \<and> \<not> mInsideVideoFbsFlag s
     \<and> dummy_ready s \<and> mOtherComposers s = []
     \<and> (\<exists>c. mClientComposer s = Some c \<and> composer_getType (composers s c) = MESON_COMPOSITION_CLIENT)
     \<and> mCrtc s \<noteq> None \<and> mOsdPlanes s \<noteq> [] \<and> int (length (mFramebuffers s)) < 2 ^ 31
     \<and> (\<forall>z. z \<le> INVALID s)"

lemma gfx_finish:
  assumes split: "osd_split t w r" and none: "mComposer t = None" and other: "mOtherComposers t = []"
    and client: "mClientComposer t = Some c" "composer_getType (composers t c) = MESON_COMPOSITION_CLIENT"
  shows "okE (runs [wdi_selectComposer, wdi_setOsdFbs2PlanePairs, startComposer] w) (osd_finished t w r)"
proof -
  note w = osd_splitD [OF split]
  note [simp] = osd_frame_fields [OF w(1)]
  have d: "distinct (fb_ids w)" using fbs_wf_distinct [OF w(2)] .
  have len: "length (mFramebuffers w) \<le> length (mOsdPlanes w)" using w(5) by simp
  show ?thesis
  proof (cases "mComposerFbs w = []")
    case True
    define v where "v = w\<lparr>composers := (composers w)(c := composer_prepare (composers w c)),
        events := events w @ [ComposerPrepare c]\<rparr>"
    have sel: "wdi_selectComposer w = Inr v"
      using True client by (simp add: wdi_selectComposer_def getE_def call_prepare_def log_event_def v_def)
    have "fb_ids v = fb_ids w" "mDisplayRefFb v = Some r" "mFramebuffers v = mFramebuffers w"
      "mOsdPlanes v = mOsdPlanes w" using w(3) by (simp_all add: v_def)
    then have set: "wdi_setOsdFbs2PlanePairs v = Inr (osd_placed v r)"
      using wdi_setOsdFbs2PlanePairs_placed [of v r] d w(4) len by simp
    have start: "startComposer (osd_placed v r) = Inr (osd_placed v r)"
      using none by (simp add: startComposer_def osd_placed_def osd_done_def v_def)
    have "osd_finished t w r (osd_placed v r)"
      by (rule placed_finished [OF split none True v_def]) (use client in auto)
    then show ?thesis by (simp add: sel set start)
  next
    case False
    define v where "v = w\<lparr>mComposer := Some c,
      fbs := set_comps (mComposerFbs w) (composer_getType (composers w c)) (fbs w)\<rparr>"
    have chosen: "chosen w c" using client by (simp add: chosen_def client_valid)
    have sel: "wdi_selectComposer w = Inr v"
      using False none client other by (simp add: wdi_selectComposer_def getE_def v_def)
    have "fb_ids v = fb_ids w" "mDisplayRefFb v = Some r" "mFramebuffers v = mFramebuffers w"
      "mOsdPlanes v = mOsdPlanes w" using w(3) by (simp_all add: v_def)
    then have set: "wdi_setOsdFbs2PlanePairs v = Inr (osd_placed v r)"
      using wdi_setOsdFbs2PlanePairs_placed [of v r] d w(4) len by simp
    show ?thesis using started_finished [OF split chosen False v_def] by (simp add: sel set okE_bindE)
  qed
qed

lemma processGfxFbs_runs:
  assumes "\<not> mInsideVideoFbsFlag t"
  shows "bindE (if \<not> mInsideVideoFbsFlag t then wdi_handleOsdComposition t
      else wdi_handleOsdCompositionWithVideo t) startComposer =
    bindE (wdi_confirmComposerRange t) (\<lambda>u. bindE (wdi_handleVPULimit u) (\<lambda>v.
      bindE (wdi_fillComposerFbs v) (runs [wdi_selectComposer, wdi_setOsdFbs2PlanePairs, startComposer])))"
  using assms by (auto simp: wdi_handleOsdComposition_def bindE_def split: sum.splits)

lemma gfx_some:
  assumes ready: "gfx_ready b" and pick: "pick_post b t" and ne: "mFramebuffers t \<noteq> []"
  shows "okE (bindE (if \<not> mInsideVideoFbsFlag t then wdi_handleOsdComposition t
      else wdi_handleOsdCompositionWithVideo t) startComposer) (osd_decided b)"
proof -
  note p = ready [unfolded gfx_ready_def]
  have pf: "pick_frame b t" using pick by (simp add: pick_post_def)
  note tf = pick_frame_fields [OF pf]
  have wf: "fbs_wf t" using pick_post_wf [OF pick] p by blast
  have range: "range_unset t \<or> range_hits t" using pick by (simp add: pick_post_def)
  have "length (mFramebuffers t) \<le> length (mFramebuffers b)" using pick by (simp add: pick_post_def)
  then have len: "int (length (mFramebuffers t)) < 2 ^ 31" using p by linarith
  obtain c where c: "mClientComposer t = Some c" "composer_getType (composers t c) = MESON_COMPOSITION_CLIENT"
    using p tf by auto
  have f: "mDisplayRefFb t = None" "mOsdPlanes t \<noteq> []" "mComposerFbs t = []" "mComposer t = None"
    "mOtherComposers t = []" "mCrtc t \<noteq> None" "\<not> mInsideVideoFbsFlag t" "\<forall>z. z \<le> INVALID t"
    using p tf by simp_all
  show ?thesis
    unfolding processGfxFbs_runs [OF f(7)] okE_bindE
  proof (rule okE_mono [OF wdi_settle_range [OF wf ne range f(1,2,6) len f(8)]], erule okE_mono)
    fix v assume "range_settled t v"
    from fill_settled [OF wf this f(3)]
    show "okE (wdi_fillComposerFbs v) (\<lambda>a. okE
        (runs [wdi_selectComposer, wdi_setOsdFbs2PlanePairs, startComposer] a) (osd_decided b))"
      unfolding wdi_fillComposerFbs_def
    proof (rule okE_mono, elim exE)
      fix w r assume split: "osd_split t w r"
      show "okE (runs [wdi_selectComposer, wdi_setOsdFbs2PlanePairs, startComposer] w) (osd_decided b)"
        by (rule okE_mono [OF gfx_finish [OF split f(4,5) c]]) (rule osd_finished_decided [OF pick split])
    qed
  qed
qed

lemma gfx_none:
  assumes ready: "gfx_ready b" and pick: "pick_post b t" and empty: "mFramebuffers t = []"
  shows "okE (bindE (if \<not> mInsideVideoFbsFlag t then wdi_handleOsdComposition t
      else wdi_handleOsdCompositionWithVideo t) startComposer) (osd_decided b)"
proof -
  note p = ready [unfolded gfx_ready_def]
  have pf: "pick_frame b t" using pick by (simp add: pick_post_def)
  note [simp] = pick_frame_fields [OF pf]
  from p obtain c where c: "mClientComposer b = Some c" by blast
  have unset: "range_unset t" using pick empty by (auto simp: pick_post_def range_hits_def fb_ids_def)
  let ?t = "t\<lparr>mOverlayFbs := filter (is_fb_composed t) (mOverlayFbs t)\<rparr>"
  have "wdi_handleVPULimit t = Inr t" "wdi_confirmComposerRange t = Inr t"
    using empty by (simp_all add: wdi_handleVPULimit_def wdi_confirmComposerRange_def confirmComposerRange_def)
  moreover have "wdi_fillComposerFbs t = Inr ?t"
    using fillComposerFbs_unset [OF unset] by (simp add: wdi_fillComposerFbs_def)
  moreover have "wdi_selectComposer ?t = Inr (call_prepare c ?t)"
    using p c by (simp add: wdi_selectComposer_def getE_def)
  moreover have "wdi_setOsdFbs2PlanePairs (call_prepare c ?t) = Inr (call_prepare c ?t)"
    using empty by (simp add: wdi_setOsdFbs2PlanePairs_def call_prepare_def log_event_def)
  moreover have "startComposer (call_prepare c ?t) = Inr (call_prepare c ?t)"
    using p by (simp add: startComposer_def call_prepare_def log_event_def)
  moreover have nf: "\<not> mInsideVideoFbsFlag t" using p by simp
  ultimately have run: "bindE (if \<not> mInsideVideoFbsFlag t then wdi_handleOsdComposition t
      else wdi_handleOsdCompositionWithVideo t) startComposer = Inr (call_prepare c ?t)"
    unfolding processGfxFbs_runs [OF nf] by simp
  have "osd_decided b (call_prepare c ?t)"
    by (rule nothing_decided [OF pick empty, where ov = "mOverlayFbs ?t" and es = "[ComposerPrepare c]"
          and c = "(composers t)(c := composer_prepare (composers t c))"])
      (use p c in \<open>simp_all add: call_prepare_def log_event_def\<close>)
  then show ?thesis unfolding run by simp
qed

lemma gfx_ready_checked: "gfx_ready s \<Longrightarrow> gfx_ready (checked s)"
  unfolding gfx_ready_def by (simp add: range_unset_def) (simp add: checked_def)

lemma processGfxFbs_decided:
  assumes ready: "gfx_ready s"
  shows "okE (processGfxFbs s) (osd_decided (checked s))"
proof -
  note p = ready [unfolded gfx_ready_def]
  have "okE (wdi_pickoutOsdFbs s) (pick_post (checked s))"
    by (rule wdi_pickoutOsdFbs_post) (use p in simp_all)
  then show ?thesis
    unfolding processGfxFbs_def okE_bindE [of "wdi_pickoutOsdFbs _"]
  proof (rule okE_mono)
    fix t assume "pick_post (checked s) t"
    then show "okE (bindE (if \<not> mInsideVideoFbsFlag t then wdi_handleOsdComposition t
        else wdi_handleOsdCompositionWithVideo t) startComposer) (osd_decided (checked s))"
      using gfx_some gfx_none gfx_ready_checked [OF ready] by blast
  qed
qed

end
