(* ===== verification/DiCommit.thy ===== *)
theory DiCommit
  imports MultiplanesDi MultiplanesCommit
begin

text \<open>
  \<open>MultiplanesWithDiComposition::commit\<close> and \<open>commitTunnelVideo\<close> without the whiteboard:
  which planes each of the two programs. \<open>commit_step s es t\<close> is what the body of either loop
  does: only fences, handle flags and the log change.
\<close>

section \<open>One step of the loops\<close>

definition commit_store :: "(fbid \<Rightarrow> drm_framebuffer) \<Rightarrow> (fbid \<Rightarrow> drm_framebuffer) \<Rightarrow> bool" where
  "commit_store h h' \<longleftrightarrow>
     (\<forall>f. \<exists>e u. h' f = (h f)\<lparr>mCurReleaseFence := e, mFbHandleUpdated := u\<rparr>)"

definition commit_step :: "'a world_scheme \<Rightarrow> hw_event list \<Rightarrow> 'a world_scheme \<Rightarrow> bool" where
  "commit_step s es t \<longleftrightarrow> (\<exists>h. t = s\<lparr>fbs := h, events := events s @ es\<rparr> \<and> commit_store (fbs s) h)"

lemma commit_store_refl [simp]: "commit_store h h"
  unfolding commit_store_def
proof
  fix f show "\<exists>e u. h f = (h f)\<lparr>mCurReleaseFence := e, mFbHandleUpdated := u\<rparr>"
    by (rule exI [of _ "mCurReleaseFence (h f)"], rule exI [of _ "mFbHandleUpdated (h f)"]) simp
qed

lemma commit_store_trans:
  assumes "commit_store h h'" and "commit_store h' h''"
  shows "commit_store h h''"
  unfolding commit_store_def
proof
  fix f
  from assms obtain e u e' u' where 1: "h' f = (h f)\<lparr>mCurReleaseFence := e, mFbHandleUpdated := u\<rparr>"
    and 2: "h'' f = (h' f)\<lparr>mCurReleaseFence := e', mFbHandleUpdated := u'\<rparr>"
    unfolding commit_store_def by blast
  have "h'' f = (h f)\<lparr>mCurReleaseFence := e', mFbHandleUpdated := u'\<rparr>"
    by (subst 2, subst 1) simp
  then show "\<exists>e u. h'' f = (h f)\<lparr>mCurReleaseFence := e, mFbHandleUpdated := u\<rparr>" by blast
qed

lemma commit_store_fence: "fence_only h h' \<Longrightarrow> commit_store h h'"
  unfolding commit_store_def fence_only_def
proof (rule allI)
  fix f assume "\<forall>f. \<exists>e. h' f = (h f)\<lparr>mCurReleaseFence := e\<rparr>"
  then obtain e where e: "h' f = (h f)\<lparr>mCurReleaseFence := e\<rparr>" by blast
  have "h' f = (h f)\<lparr>mCurReleaseFence := e, mFbHandleUpdated := mFbHandleUpdated (h f)\<rparr>"
    by (subst e) simp
  then show "\<exists>e u. h' f = (h f)\<lparr>mCurReleaseFence := e, mFbHandleUpdated := u\<rparr>" by blast
qed

lemma commit_store_fields:
  assumes "commit_store h h'"
  shows "mCompositionType (h' f) = mCompositionType (h f)" "isVtBuffer (h' f) = isVtBuffer (h f)"
    "mSecure (h' f) = mSecure (h f)" "mFbType (h' f) = mFbType (h f)"
proof -
  from assms obtain e u where eq: "h' f = (h f)\<lparr>mCurReleaseFence := e, mFbHandleUpdated := u\<rparr>"
    unfolding commit_store_def by blast
  show "mCompositionType (h' f) = mCompositionType (h f)" "isVtBuffer (h' f) = isVtBuffer (h f)"
    "mSecure (h' f) = mSecure (h f)" "mFbType (h' f) = mFbType (h f)"
    by (subst eq, simp)+
qed

lemma commit_step_refl: "commit_step s [] s"
  unfolding commit_step_def by (rule exI [of _ "fbs s"]) simp

lemma commit_stepI: "t = s\<lparr>fbs := h, events := events s @ es\<rparr> \<Longrightarrow> commit_store (fbs s) h \<Longrightarrow> commit_step s es t"
  unfolding commit_step_def by blast

lemma commit_step_trans:
  assumes "commit_step s es t" and "commit_step t es' u"
  shows "commit_step s (es @ es') u"
proof -
  from assms obtain h h' where t: "t = s\<lparr>fbs := h, events := events s @ es\<rparr>"
    and u: "u = t\<lparr>fbs := h', events := events t @ es'\<rparr>"
    and 1: "commit_store (fbs s) h" and 2: "commit_store (fbs t) h'" unfolding commit_step_def by blast
  show ?thesis
  proof (rule commit_stepI)
    show "u = s\<lparr>fbs := h', events := events s @ es @ es'\<rparr>" by (simp add: u t)
    show "commit_store (fbs s) h'" using commit_store_trans [OF 1] 2 t by simp
  qed
qed

lemma commit_step_log: "commit_step s [e] (log_event e s)"
  by (rule commit_stepI [where h = "fbs s"]) (simp_all add: log_event_def)

lemma commit_step_clear: "commit_step s [] (clearFbHandleFlag f s)"
proof (rule commit_stepI)
  show "clearFbHandleFlag f s = s\<lparr>fbs := (fbs s)(f := (fbs s f)\<lparr>mFbHandleUpdated := False\<rparr>),
      events := events s @ []\<rparr>" by (simp add: clearFbHandleFlag_def)
  show "commit_store (fbs s) ((fbs s)(f := (fbs s f)\<lparr>mFbHandleUpdated := False\<rparr>))"
    unfolding commit_store_def
  proof
    fix g
    have "((fbs s)(f := (fbs s f)\<lparr>mFbHandleUpdated := False\<rparr>)) g =
        (fbs s g)\<lparr>mCurReleaseFence := mCurReleaseFence (fbs s g),
          mFbHandleUpdated := (g \<noteq> f \<and> mFbHandleUpdated (fbs s g))\<rparr>" by simp
    then show "\<exists>e u. ((fbs s)(f := (fbs s f)\<lparr>mFbHandleUpdated := False\<rparr>)) g =
        (fbs s g)\<lparr>mCurReleaseFence := e, mFbHandleUpdated := u\<rparr>" by blast
  qed
qed

lemma commit_step_fields:
  assumes "commit_step s es t"
  shows "plat t = plat s" "composers t = composers s" "events t = events s @ es"
    "ctype_of t f = ctype_of s f" "isVtBuffer (fbs t f) = isVtBuffer (fbs s f)"
    "mSecure (fbs t f) = mSecure (fbs s f)"
  using assms commit_store_fields unfolding commit_step_def by (elim exE conjE; simp)+

lemma commit_step_video:
  assumes "commit_step s es t"
  shows "mDisplayPairs t = mDisplayPairs s" "mComposer t = mComposer s" "mCrtc t = mCrtc s"
    "mDIComposerFbs t = mDIComposerFbs s" "mDiComposer t = mDiComposer s"
    "mVideoPlaneNum t = mVideoPlaneNum s" "mVideoProcessorsMgr t = mVideoProcessorsMgr s"
    "mHwcVideoPlanes t = mHwcVideoPlanes s" "mOtherPlanes t = mOtherPlanes s"
    "mOsdPlanes t = mOsdPlanes s" "mHideSecureLayer t = mHideSecureLayer s"
  using assms unfolding commit_step_def by (elim exE conjE; simp)+

lemma commit_step_board: "commit_step s es t \<Longrightarrow> mWhiteBoardMode t = mWhiteBoardMode s"
  unfolding commit_step_def by (elim exE conjE) simp

section \<open>The video tunnels that are interrupted\<close>

text \<open>
  \<open>interruptVtProcess\<close> is answered by the layer of the framebuffer. \<open>vt_answers p l es\<close> are
  the calls of \<open>es\<close>, made after the log \<open>l\<close>, in order: the framebuffer and whether the
  playback is interrupted. \<open>stopped_pairs ps as\<close> are the pairs whose call was answered so.
\<close>

primrec vt_answers :: "platform \<Rightarrow> hw_event list \<Rightarrow> hw_event list \<Rightarrow> (fbid \<times> bool) list" where
  "vt_answers p l [] = []"
| "vt_answers p l (e # es) =
     (case e of InterruptVtProcess f b \<Rightarrow> [(f, interruptVtProcess p (l @ [e]) \<noteq> None)] | _ \<Rightarrow> [])
     @ vt_answers p (l @ [e]) es"

definition stopped_pairs :: "display_pair list \<Rightarrow> (fbid \<times> bool) list \<Rightarrow> display_pair list" where
  "stopped_pairs ps as = map fst (filter (\<lambda>(p, f, b). b) (zip ps as))"

definition vt_free :: "hw_event list \<Rightarrow> bool" where
  "vt_free es \<longleftrightarrow> (\<forall>f b. InterruptVtProcess f b \<notin> set es)"

lemma vt_free_simps [simp]:
  "vt_free []" "vt_free (xs @ ys) \<longleftrightarrow> vt_free xs \<and> vt_free ys"
  "vt_free (e # es) \<longleftrightarrow> (\<forall>f b. e \<noteq> InterruptVtProcess f b) \<and> vt_free es"
  by (auto simp: vt_free_def)

lemma vt_free_blank [simp]: "vt_free (map blank_event ps)"
  by (induction ps) (simp_all add: blank_event_def)

lemma vt_answers_free [simp]: "vt_free es \<Longrightarrow> vt_answers p l es = []"
  by (induction es arbitrary: l) (auto split: hw_event.split)

lemma vt_answers_append [simp]:
  "vt_answers p l (xs @ ys) = vt_answers p l xs @ vt_answers p (l @ xs) ys"
  by (induction xs arbitrary: l) simp_all

lemma stopped_pairs_append:
  assumes "length ps = length as"
  shows "stopped_pairs (ps @ qs) (as @ bs) = stopped_pairs ps as @ stopped_pairs qs bs"
  using assms by (simp add: stopped_pairs_def)

lemma stopped_pairs_simps [simp]:
  "stopped_pairs [] as = []" "stopped_pairs (p # ps) ((f, b) # as) = (if b then [p] else []) @ stopped_pairs ps as"
  by (simp_all add: stopped_pairs_def)

section \<open>The calls\<close>

lemma try_setPlane_step:
  "\<exists>ret t. try_setPlane p f z b s = (ret, t) \<and> commit_step s [SetPlane (plane_id p) (Some f) z b] t"
  by (simp add: try_setPlane_def ask_def commit_step_log Let_def)

lemma try_runProcessors_step:
  "\<exists>r es t. try_runProcessors p f z b s = (r, t) \<and> commit_step s es t
    \<and> planes_set es = (if r then [plane_id p] else []) \<and> vt_free es"
proof (cases "fst (ask (VpmRun f (plane_id p) z b) s) = 0")
  case True
  then have "try_runProcessors p f z b s = (False, log_event (VpmRun f (plane_id p) z b) s)"
    by (simp add: try_runProcessors_def ask_def Let_def)
  then show ?thesis using commit_step_log [of s "VpmRun f (plane_id p) z b"]
    by (intro exI [of _ False] exI [of _ "[VpmRun f (plane_id p) z b]"]) auto
next
  case False
  then have "try_runProcessors p f z b s = (True, log_event (SetPlaneProcessed (plane_id p) f z b)
      (log_event (VpmRun f (plane_id p) z b) s))"
    by (simp add: try_runProcessors_def ask_def Let_def)
  moreover have "commit_step s ([VpmRun f (plane_id p) z b] @ [SetPlaneProcessed (plane_id p) f z b])
      (log_event (SetPlaneProcessed (plane_id p) f z b) (log_event (VpmRun f (plane_id p) z b) s))"
    by (rule commit_step_trans [OF commit_step_log commit_step_log])
  ultimately show ?thesis
    by (intro exI [of _ True] exI [of _ "[VpmRun f (plane_id p) z b] @ [SetPlaneProcessed (plane_id p) f z b]"]
        exI conjI) (assumption | simp)+
qed

text \<open>A composer whose \<open>start\<close> at a slot does not stop.\<close>

definition startable_at :: "composer \<Rightarrow> int \<Rightarrow> bool" where
  "startable_at c i \<longleftrightarrow> composer_valid c i \<and>
     (\<forall>impls. c = DiComposer impls \<longrightarrow> outputFb (impls ! nat i) \<noteq> None)"

lemma call_start_step:
  assumes "startable_at (composers s c) i"
  shows "\<exists>es t. call_start c i s = Inr t \<and> commit_step s es t \<and> planes_set es = [] \<and> vt_free es"
proof -
  have "\<exists>h es. composer_start (plat s) (fbs s) (composers s c) i = Inr (h, es)
      \<and> planes_set es = [] \<and> vt_free es \<and> fence_only (fbs s) h"
  proof (cases "composers s c")
    case (DiComposer impls)
    with assms obtain out where out: "outputFb (impls ! nat i) = Some out" and i: "0 \<le> i" "nat i < length impls"
      by (auto simp: startable_at_def)
    define r where "r = di_noProcessors (plat s) (fbs s) (impls ! nat i) out"
    have r: "planes_set (snd r) = []" "vt_free (snd r)" "fence_only (fbs s) (fst r)"
      by (simp_all add: r_def di_noProcessors_def Let_def fold_fence fence_only_def)
    have "composer_start (plat s) (fbs s) (composers s c) i = Inr (if \<not> processorsMgr (impls ! nat i)
         \<or> \<not> vpm_runProcessors (plat s) (inputFbs (impls ! nat i)) (mZorder (fbs s out)) then r else (fbs s, []))"
      using out i by (simp add: DiComposer di_start_def Let_def r_def)
    moreover obtain h' es where "r = (h', es)" by (cases r)
    ultimately show ?thesis using r fence_only_refl by (auto split: if_splits)
  qed (use assms in \<open>auto simp: startable_at_def fence_only_refl\<close>)
  then obtain h es where h: "composer_start (plat s) (fbs s) (composers s c) i = Inr (h, es)"
    "planes_set es = []" "vt_free es" "fence_only (fbs s) h" by blast
  let ?t = "s\<lparr>fbs := h, events := events s @ [ComposerStart c i] @ es\<rparr>"
  have "call_start c i s = Inr ?t" using h by (simp add: call_start_def)
  moreover have "commit_step s ([ComposerStart c i] @ es) ?t"
    by (rule commit_stepI [where h = h]) (simp_all add: commit_store_fence h(4))
  ultimately show ?thesis using h(2,3) by (intro exI [of _ "[ComposerStart c i] @ es"] exI [of _ ?t]) simp
qed

section \<open>Commit\<close>

text \<open>
  What the properties of \<open>commit\<close> and \<open>commitTunnelVideo\<close> need: composers that can start, and
  no whiteboard.
\<close>

definition wdi_commit_ready :: "wdi_state \<Rightarrow> bool" where
  "wdi_commit_ready s \<longleftrightarrow> mCrtc s \<noteq> None \<and> \<not> mWhiteBoardMode s
     \<and> (\<forall>c. mComposer s = Some c \<longrightarrow> startable_at (composers s c) 0)
     \<and> (\<forall>p \<in> set (mDisplayPairs s). ctype_of s (pair_fb p) = MESON_COMPOSITION_DI \<longrightarrow>
          (\<exists>c. mDiComposer s = Some c \<and> startable_at (composers s c) (mVideoPlaneNum s - 1)))"

definition shown_fb :: "fbid option \<Rightarrow> 'a osd_state_scheme \<Rightarrow> display_pair \<Rightarrow> fbid" where
  "shown_fb out s p = (case (out, mComposer s) of
     (Some g, Some c) \<Rightarrow> if ctype_of s (pair_fb p) = composer_getType (composers s c) then g else pair_fb p
   | _ \<Rightarrow> pair_fb p)"

text \<open>
  A pair whose buffers come from a video tunnel: \<open>commit\<close> leaves it to the tunnel thread, unless
  the playback is interrupted.
\<close>

definition tunnel_pair :: "fbid option \<Rightarrow> 'a osd_state_scheme \<Rightarrow> display_pair \<Rightarrow> bool" where
  "tunnel_pair out s p \<longleftrightarrow> isVtBuffer (fbs s (shown_fb out s p))"

text \<open>A pair of the video composer, one of whose inputs comes from a tunnel.\<close>

definition tunnel_input :: "fbid option \<Rightarrow> 'a video_state_scheme \<Rightarrow> display_pair \<Rightarrow> bool" where
  "tunnel_input out s p \<longleftrightarrow> \<not> (case (out, mComposer s) of
       (Some g, Some c) \<Rightarrow> ctype_of s (pair_fb p) = composer_getType (composers s c) | _ \<Rightarrow> False)
     \<and> ctype_of s (pair_fb p) = MESON_COMPOSITION_DI
     \<and> list_ex (\<lambda>g. isVtBuffer (fbs s g)) (mDIComposerFbs s)"

lemma tunnel_input_iff:
  "tunnel_input out s p \<longleftrightarrow> \<not> (\<exists>g c. out = Some g \<and> mComposer s = Some c
       \<and> ctype_of s (pair_fb p) = composer_getType (composers s c))
     \<and> ctype_of s (pair_fb p) = MESON_COMPOSITION_DI
     \<and> list_ex (\<lambda>g. isVtBuffer (fbs s g)) (mDIComposerFbs s)"
  by (auto simp: tunnel_input_def split: option.split)

lemma wdi_pairFb_step:
  assumes out: "out \<noteq> None \<longrightarrow> mComposer s \<noteq> None"
    and di: "ctype_of s (pair_fb p) = MESON_COMPOSITION_DI \<longrightarrow>
      (\<exists>c. mDiComposer s = Some c \<and> startable_at (composers s c) (mVideoPlaneNum s - 1))"
  shows "\<exists>z es t. wdi_pairFb out p (cf, s) = Inr (shown_fb out s p, z,
      (if tunnel_input out s p then cf\<lparr>bHaveVTBuffer := True\<rparr> else cf), t)
    \<and> commit_step s es t \<and> planes_set es = [] \<and> vt_free es"
proof (cases "\<exists>g c. out = Some g \<and> mComposer s = Some c
    \<and> ctype_of s (pair_fb p) = composer_getType (composers s c)")
  case True
  then show ?thesis
    using commit_step_refl [of s]
    by (auto simp: wdi_pairFb_def getE_def shown_fb_def tunnel_input_iff intro!: exI [of _ "[]"])
next
  case False
  have own: "shown_fb out s p = pair_fb p" using False by (auto simp: shown_fb_def split: option.split)
  have none: "(case out of None \<Rightarrow> Inr None
             | Some g \<Rightarrow> bindE (getE NullDeref (mComposer s)) (\<lambda>c.
                 Inr (if ctype_of s (pair_fb p) = composer_getType (composers s c) then Some g else None)))
      = (Inr None :: fault + fbid option)"
    using False out by (auto simp: getE_def split: option.split)
  show ?thesis
  proof (cases "ctype_of s (pair_fb p) = MESON_COMPOSITION_DI
      \<and> \<not> list_ex (\<lambda>g. isVtBuffer (fbs s g)) (mDIComposerFbs s)")
    case True
    then obtain c where c: "mDiComposer s = Some c" "startable_at (composers s c) (mVideoPlaneNum s - 1)"
      using di by blast
    from call_start_step [OF c(2)] obtain es t where
      "call_start c (mVideoPlaneNum s - 1) s = Inr t" "commit_step s es t" "planes_set es = []" "vt_free es"
      by blast
    with True c show ?thesis
      by (auto simp: wdi_pairFb_def none own tunnel_input_iff getE_def)
  next
    case nodi: False
    with False commit_step_refl [of s] show ?thesis
      by (auto simp: wdi_pairFb_def none own tunnel_input_iff intro!: exI [of _ "[]"])
  qed
qed

lemma wdi_showFb_step:
  assumes "\<not> mWhiteBoardMode s"
  shows "\<exists>cf' es t. wdi_showFb p b f z (cf, s) = Inr (cf', t) \<and> commit_step s es t
    \<and> planes_set es = [plane_id (pair_plane p)] \<and> vt_free es \<and> bHaveVTBuffer cf' = bHaveVTBuffer cf"
proof -
  define pr where "pr = (if mVideoProcessorsMgr s \<and> ctype_of s f \<noteq> MESON_COMPOSITION_DI
      then try_runProcessors (pair_plane p) f z b s else (False, s))"
  obtain r u es where pr: "pr = (r, u)" and u: "commit_step s es u"
    and es: "planes_set es = (if r then [plane_id (pair_plane p)] else [])" "vt_free es"
    using try_runProcessors_step [of "pair_plane p" f z b s] commit_step_refl [of s]
    unfolding pr_def by (cases "mVideoProcessorsMgr s \<and> ctype_of s f \<noteq> MESON_COMPOSITION_DI") force+
  note wb = commit_step_board [OF u]
  obtain ret v es' where sp: "(if \<not> r then try_setPlane (pair_plane p) f z b u else (0, u)) = (ret, v)"
    and v: "commit_step u es' v" and es': "planes_set es' = (if r then [] else [plane_id (pair_plane p)])" "vt_free es'"
    using try_setPlane_step [of "pair_plane p" f z b u] commit_step_refl [of u] by (cases r) force+
  have "wdi_showFb p b f z (cf, s) = Inr (if ret \<noteq> 0 then cf\<lparr>setPlaneSuccess := False\<rparr> else cf,
      clearFbHandleFlag f v)"
    using assms pr sp commit_step_board [OF v] wb unfolding pr_def
    by (simp add: wdi_showFb_def Let_def split: prod.split)
  moreover have "commit_step s (es @ es') (clearFbHandleFlag f v)"
    using commit_step_trans [OF commit_step_trans [OF u v] commit_step_clear] by simp
  moreover have "planes_set (es @ es') = [plane_id (pair_plane p)]" "vt_free (es @ es')" using es es' by simp_all
  ultimately show ?thesis
    by (intro exI [of _ "if ret \<noteq> 0 then cf\<lparr>setPlaneSuccess := False\<rparr> else cf"] exI [of _ "es @ es'"]
        exI [of _ "clearFbHandleFlag f v"]) simp
qed

lemma commit_step_shown:
  assumes "commit_step s es t"
  shows "shown_fb out t p = shown_fb out s p" "tunnel_pair out t p = tunnel_pair out s p"
    "tunnel_input out t p = tunnel_input out s p"
proof -
  note f = commit_step_fields [OF assms] commit_step_video [OF assms]
  show "shown_fb out t p = shown_fb out s p"
    by (simp add: shown_fb_def f split: option.split)
  then show "tunnel_pair out t p = tunnel_pair out s p" by (simp add: tunnel_pair_def f)
  show "tunnel_input out t p = tunnel_input out s p" by (simp add: tunnel_input_iff f)
qed

lemma commit_step_funs:
  fixes s :: "'a video_state_scheme"
  assumes "commit_step s es t"
  shows "shown_fb out t = shown_fb out s" "tunnel_pair out t = tunnel_pair out s"
  by (rule ext, rule commit_step_shown [OF assms])+

definition has_tunnel :: "fbid option \<Rightarrow> 'a video_state_scheme \<Rightarrow> display_pair \<Rightarrow> bool" where
  "has_tunnel out s p \<longleftrightarrow> tunnel_input out s p \<or> tunnel_pair out s p"

text \<open>
  An interrupted playback: the plane is programmed once, on the spot.
\<close>

lemma interruptedVideo_step:
  "\<exists>es. commit_step s es (interruptedVideo p f z b s) \<and> planes_set es = [plane_id p] \<and> vt_free es"
proof -
  define s1 where "s1 = (if mVideoProcessorsMgr s then log_event (VpmReset f) s else s)"
  define s2 where "s2 = snd (try_setPlane p f z b s1)"
  define s3 where "s3 = (if b \<noteq> BLANK_FOR_NO_CONTENT then log_event (FreeSolidColorBuffer f) s2 else s2)"
  have 1: "commit_step s (if mVideoProcessorsMgr s then [VpmReset f] else []) s1"
    by (simp add: s1_def commit_step_log commit_step_refl)
  have 2: "commit_step s1 [SetPlane (plane_id p) (Some f) z b] s2"
    by (simp add: s2_def try_setPlane_def ask_def Let_def commit_step_log)
  have 3: "commit_step s2 (if b \<noteq> BLANK_FOR_NO_CONTENT then [FreeSolidColorBuffer f] else []) s3"
    by (simp add: s3_def commit_step_log commit_step_refl)
  have "interruptedVideo p f z b s = s3" by (simp add: interruptedVideo_def s1_def s2_def s3_def Let_def)
  with commit_step_trans [OF commit_step_trans [OF 1 2] 3] show ?thesis
    by (intro exI conjI) (assumption | simp)+
qed

lemma interrupt_asked: "try_interruptVtProcess f b s =
    (interruptVtProcess (plat s) (events s @ [InterruptVtProcess f b]), log_event (InterruptVtProcess f b) s)"
  by (simp add: try_interruptVtProcess_def Let_def log_event_def)

text \<open>The calls the loop makes for one pair, and for a list of them.\<close>

definition pair_log :: "fbid option \<Rightarrow> 'a video_state_scheme \<Rightarrow> display_pair \<Rightarrow> hw_event list \<Rightarrow> bool" where
  "pair_log out s p es \<longleftrightarrow>
     (if tunnel_pair out s p
      then (\<exists>b. vt_answers (plat s) (events s) es = [(shown_fb out s p, b)]
             \<and> planes_set es = (if b then [plane_id (pair_plane p)] else []))
      else vt_answers (plat s) (events s) es = [] \<and> planes_set es = [plane_id (pair_plane p)])"

definition pairs_log :: "fbid option \<Rightarrow> 'a video_state_scheme \<Rightarrow> display_pair list \<Rightarrow> hw_event list \<Rightarrow> bool" where
  "pairs_log out s ps es \<longleftrightarrow> (\<exists>as. as = vt_answers (plat s) (events s) es
     \<and> map fst as = map (shown_fb out s) (filter (tunnel_pair out s) ps)
     \<and> mset (planes_set es) = image_mset plane_id
          (mset (map pair_plane (filter (\<lambda>p. \<not> tunnel_pair out s p) ps))
           + mset (map pair_plane (stopped_pairs (filter (tunnel_pair out s) ps) as))))"

lemma pairs_log_snoc:
  assumes t: "commit_step s es t" and ps: "pairs_log out s ps es" and p: "pair_log out t p es'"
  shows "pairs_log out s (ps @ [p]) (es @ es')"
proof -
  define as where "as = vt_answers (plat s) (events s) es"
  define as' where "as' = vt_answers (plat t) (events t) es'"
  have a: "map fst as = map (shown_fb out s) (filter (tunnel_pair out s) ps)"
    and pl: "mset (planes_set es) = image_mset plane_id
          (mset (map pair_plane (filter (\<lambda>p. \<not> tunnel_pair out s p) ps))
           + mset (map pair_plane (stopped_pairs (filter (tunnel_pair out s) ps) as)))"
    using ps by (simp_all add: pairs_log_def as_def)
  have len: "length (filter (tunnel_pair out s) ps) = length as"
    using map_eq_imp_length_eq [OF a] by simp
  have all: "vt_answers (plat s) (events s) (es @ es') = as @ as'"
    using commit_step_fields [OF t] by (simp add: as_def as'_def)
  show ?thesis
    using p a pl unfolding pairs_log_def all pair_log_def as'_def [symmetric] commit_step_shown [OF t]
    by (cases "tunnel_pair out s p") (auto simp: stopped_pairs_append [OF len] split: if_splits)
qed

lemma wdi_commitPair_step:
  assumes wb: "\<not> mWhiteBoardMode s"
    and out: "out \<noteq> None \<longrightarrow> mComposer s \<noteq> None"
    and di: "ctype_of s (pair_fb p) = MESON_COMPOSITION_DI \<longrightarrow>
      (\<exists>c. mDiComposer s = Some c \<and> startable_at (composers s c) (mVideoPlaneNum s - 1))"
  shows "\<exists>cf' es t. wdi_commitPair out p (cf, s) = Inr (cf', t) \<and> commit_step s es t
    \<and> pair_log out s p es \<and> bHaveVTBuffer cf' = (bHaveVTBuffer cf \<or> has_tunnel out s p)"
proof -
  define cf1 where "cf1 = (if tunnel_input out s p then cf\<lparr>bHaveVTBuffer := True\<rparr> else cf)"
  from wdi_pairFb_step [OF out di, of cf] obtain z es t where
    run: "wdi_pairFb out p (cf, s) = Inr (shown_fb out s p, z, cf1, t)"
    and t: "commit_step s es t" and es: "planes_set es = []" "vt_free es" unfolding cf1_def by blast
  note f = commit_step_fields [OF t]
  let ?b = "blankFlag s (pair_fb p)" and ?f = "shown_fb out s p"
  show ?thesis
  proof (cases "tunnel_pair out s p")
    case True
    let ?e = "InterruptVtProcess ?f ?b" and ?cf = "cf1\<lparr>bHaveVTBuffer := True\<rparr>"
    let ?u = "log_event ?e t" and ?a = "interruptVtProcess (plat s) (events s @ es @ [?e])"
    have u: "commit_step s (es @ [?e]) ?u" by (rule commit_step_trans [OF t commit_step_log])
    have "isVtBuffer (fbs t ?f)" using True f by (simp add: tunnel_pair_def)
    then have eq: "wdi_commitPair out p (cf, s) = (case ?a of
        Some b' \<Rightarrow> Inr (?cf, interruptedVideo (pair_plane p) ?f z b' ?u) | None \<Rightarrow> Inr (?cf, ?u))"
      by (simp add: wdi_commitPair_def run Let_def interrupt_asked f)
    show ?thesis
    proof (cases ?a)
      case None
      then show ?thesis using True es u eq
        by (intro exI [of _ ?cf] exI [of _ "es @ [?e]"] exI [of _ ?u])
          (auto simp: has_tunnel_def pair_log_def)
    next
      case (Some b')
      from interruptedVideo_step [of ?u "pair_plane p" ?f z b'] obtain es' where
        v: "commit_step ?u es' (interruptedVideo (pair_plane p) ?f z b' ?u)"
        "planes_set es' = [plane_id (pair_plane p)]" "vt_free es'" by blast
      from commit_step_trans [OF u v(1)] show ?thesis using True es v Some eq
        by (intro exI [of _ ?cf] exI [of _ "(es @ [?e]) @ es'"]
            exI [of _ "interruptedVideo (pair_plane p) ?f z b' ?u"]) (auto simp: has_tunnel_def pair_log_def)
    qed
  next
    case False
    have "\<not> isVtBuffer (fbs t ?f)" using False f by (simp add: tunnel_pair_def)
    then have eq: "wdi_commitPair out p (cf, s) = wdi_showFb p ?b ?f z (cf1, t)"
      by (simp add: wdi_commitPair_def run Let_def)
    have "\<not> mWhiteBoardMode t" using wb commit_step_board [OF t] by simp
    from wdi_showFb_step [OF this, of p ?b ?f z cf1] obtain cf' es' u where
      u: "wdi_showFb p ?b ?f z (cf1, t) = Inr (cf', u)" "commit_step t es' u"
      "planes_set es' = [plane_id (pair_plane p)]" "vt_free es'" "bHaveVTBuffer cf' = bHaveVTBuffer cf1" by blast
    then show ?thesis using False es commit_step_trans [OF t u(2)] eq
      by (intro exI [of _ cf'] exI [of _ "es @ es'"] exI [of _ u])
        (simp add: has_tunnel_def cf1_def pair_log_def)
  qed
qed

lemma foldE_commitPair:
  assumes ready: "wdi_commit_ready s" and out: "out \<noteq> None \<longrightarrow> mComposer s \<noteq> None"
    and ps: "set ps \<subseteq> set (mDisplayPairs s)"
  shows "okE (foldE (wdi_commitPair out) ps (cf, s)) (\<lambda>(cf', t). \<exists>es. commit_step s es t
    \<and> pairs_log out s ps es \<and> bHaveVTBuffer cf' = (bHaveVTBuffer cf \<or> (\<exists>p \<in> set ps. has_tunnel out s p)))"
  using ps
proof (induction ps arbitrary: cf rule: rev_induct)
  case Nil
  then show ?case using commit_step_refl [of s] by (auto simp: pairs_log_def intro!: exI [of _ "[]"])
next
  case (snoc p ps)
  have app: "foldE g (xs @ [x]) a = bindE (foldE g xs a) (g x)"
    for g :: "display_pair \<Rightarrow> commit_flags \<times> wdi_state \<Rightarrow> fault + commit_flags \<times> wdi_state" and xs x a
    by (induction xs arbitrary: a) (auto simp: bindE_def split: sum.splits)
  show ?case
    unfolding app okE_bindE
  proof (rule okE_mono [OF snoc.IH])
    show "set ps \<subseteq> set (mDisplayPairs s)" using snoc.prems by simp
    fix a :: "commit_flags \<times> wdi_state"
    assume "case a of (cf', t) \<Rightarrow> \<exists>es. commit_step s es t \<and> pairs_log out s ps es
      \<and> bHaveVTBuffer cf' = (bHaveVTBuffer cf \<or> (\<exists>p \<in> set ps. has_tunnel out s p))"
    then obtain cf1 t es where a: "a = (cf1, t)" and t: "commit_step s es t" and es: "pairs_log out s ps es"
      and c1: "bHaveVTBuffer cf1 = (bHaveVTBuffer cf \<or> (\<exists>p \<in> set ps. has_tunnel out s p))"
      by (cases a) auto
    note f = commit_step_fields [OF t] commit_step_video [OF t] commit_step_board [OF t]
    have p: "p \<in> set (mDisplayPairs s)" using snoc.prems by simp
    note r = ready [unfolded wdi_commit_ready_def]
    have "\<exists>cf' es' u. wdi_commitPair out p (cf1, t) = Inr (cf', u) \<and> commit_step t es' u
      \<and> pair_log out t p es' \<and> bHaveVTBuffer cf' = (bHaveVTBuffer cf1 \<or> has_tunnel out t p)"
      by (rule wdi_commitPair_step) (use r out p f in auto)
    then obtain cf' es' u where u: "wdi_commitPair out p (cf1, t) = Inr (cf', u)" "commit_step t es' u"
      "pair_log out t p es'" "bHaveVTBuffer cf' = (bHaveVTBuffer cf1 \<or> has_tunnel out t p)" by blast
    have "has_tunnel out t p = has_tunnel out s p" by (simp add: has_tunnel_def commit_step_shown [OF t])
    then show "okE (wdi_commitPair out p a) (\<lambda>(cf', t). \<exists>es. commit_step s es t
      \<and> pairs_log out s (ps @ [p]) es
      \<and> bHaveVTBuffer cf' = (bHaveVTBuffer cf \<or> (\<exists>p \<in> set (ps @ [p]). has_tunnel out s p)))"
      using u c1 pairs_log_snoc [OF t es u(3)] commit_step_trans [OF t u(2)]
      by (auto simp: a intro!: exI [of _ "es @ es'"])
  qed
qed

text \<open>The planes no pair uses, in the order in which they are blanked.\<close>

definition idle_planes :: "'a video_state_scheme \<Rightarrow> hw_display_plane list" where
  "idle_planes s = mOtherPlanes s @ mHwcVideoPlanes s @ mOsdPlanes s"

lemma fold_wdi_blankPlane: "fold (wdi_blankPlane vt) ps s = s\<lparr>events := events s
    @ map blank_event (filter (\<lambda>p. \<not> (vt \<and> plane_type p = HWC_VIDEO_PLANE)) ps)\<rparr>"
  by (induction ps arbitrary: s)
    (simp_all add: wdi_blankPlane_def blankPlane_def call_setPlane_def log_event_def blank_event_def)

lemma fold_handleUVM:
  "\<exists>es. handleUVM s = s\<lparr>events := events s @ es\<rparr> \<and> planes_set es = [] \<and> vt_free es"
proof -
  have "\<exists>es. fold (\<lambda>p s. if mFbType (fbs s (pair_fb p)) = DRM_FB_VIDEO_UVM_DMA
      then log_event (UvmCommitDisplay (pair_fb p)) s else s) ps s = s\<lparr>events := events s @ es\<rparr>
      \<and> planes_set es = [] \<and> vt_free es" for ps
  proof (induction ps arbitrary: s)
    case Nil
    show ?case by (auto intro!: exI [of _ "[]"])
  next
    case (Cons p ps)
    let ?e = "if mFbType (fbs s (pair_fb p)) = DRM_FB_VIDEO_UVM_DMA then [UvmCommitDisplay (pair_fb p)] else []"
    from Cons.IH [of "s\<lparr>events := events s @ ?e\<rparr>"] obtain es where
      "fold (\<lambda>p s. if mFbType (fbs s (pair_fb p)) = DRM_FB_VIDEO_UVM_DMA
        then log_event (UvmCommitDisplay (pair_fb p)) s else s) ps (s\<lparr>events := events s @ ?e\<rparr>)
        = (s\<lparr>events := events s @ ?e\<rparr>)\<lparr>events := events (s\<lparr>events := events s @ ?e\<rparr>) @ es\<rparr>"
      "planes_set es = []" "vt_free es" by blast
    then show ?case
      by (cases "mFbType (fbs s (pair_fb p)) = DRM_FB_VIDEO_UVM_DMA")
        (auto simp: log_event_def intro!: exI [of _ "?e @ es"])
  qed
  then show ?thesis unfolding handleUVM_def .
qed


definition wdi_output :: "'a osd_state_scheme \<Rightarrow> fbid option" where
  "wdi_output s = (case mComposer s of None \<Rightarrow> None
     | Some c \<Rightarrow> (case composer_getOutput (composers s c) 0 of Inr g \<Rightarrow> g | Inl _ \<Rightarrow> None))"

lemma composerOutput_step:
  assumes "\<forall>c. mComposer s = Some c \<longrightarrow> startable_at (composers s c) 0"
  shows "\<exists>es t. composerOutput s = Inr (wdi_output s, t) \<and> commit_step s es t \<and> planes_set es = [] \<and> vt_free es"
proof (cases "mComposer s")
  case None
  then show ?thesis using commit_step_refl [of s]
    by (auto simp: composerOutput_def wdi_output_def intro!: exI [of _ "[]"])
next
  case (Some c)
  with assms have st: "startable_at (composers s c) 0" by simp
  from call_start_step [OF this] obtain es t where
    t: "call_start c 0 s = Inr t" "commit_step s es t" "planes_set es = []" "vt_free es" by blast
  have "\<exists>out. composer_getOutput (composers s c) 0 = Inr out"
    using st by (cases "composers s c") (auto simp: startable_at_def di_getOutput_def di_impl_def)
  then show ?thesis using Some t commit_step_fields(2) [OF t(2)]
    by (auto simp: composerOutput_def wdi_output_def)
qed

definition any_tunnel :: "'a video_state_scheme \<Rightarrow> bool" where
  "any_tunnel s \<longleftrightarrow> (\<exists>p \<in> set (mDisplayPairs s). has_tunnel (wdi_output s) s p)"

text \<open>
  The planes one commit programs whatever the video tunnels answer: the others belong to the thread
  of the video tunnel, but \<open>commit\<close> also programs those of the pairs it finds interrupted.
\<close>

definition commit_planes :: "'a video_state_scheme \<Rightarrow> hw_display_plane multiset" where
  "commit_planes s =
     mset (map pair_plane (filter (\<lambda>p. \<not> tunnel_pair (wdi_output s) s p) (mDisplayPairs s)))
     + mset (filter (\<lambda>p. \<not> (any_tunnel s \<and> plane_type p = HWC_VIDEO_PLANE)) (idle_planes s))"

definition tunnel_pairs :: "'a video_state_scheme \<Rightarrow> display_pair list" where
  "tunnel_pairs s = filter (tunnel_pair (wdi_output s) s) (mDisplayPairs s)"

definition wdi_committed :: "'a video_state_scheme \<Rightarrow> hw_event list \<Rightarrow> bool" where
  "wdi_committed s es \<longleftrightarrow> (\<exists>as. as = vt_answers (plat s) (events s) es
     \<and> map fst as = map (shown_fb (wdi_output s) s) (tunnel_pairs s)
     \<and> mset (planes_set es) = image_mset plane_id
          (commit_planes s + mset (map pair_plane (stopped_pairs (tunnel_pairs s) as))))"

lemma commit_step_output:
  fixes s :: "'a video_state_scheme"
  assumes "commit_step s es t"
  shows "wdi_output t = wdi_output s"
  using commit_step_fields(2) [OF assms] commit_step_video(2) [OF assms]
  by (simp add: wdi_output_def split: option.split)

lemma commit_step_pairs:
  assumes "commit_step s es t"
  shows "tunnel_pairs t = tunnel_pairs s"
  using commit_step_funs [OF assms] commit_step_output [OF assms] commit_step_video(1) [OF assms]
  by (simp add: tunnel_pairs_def)

lemma planes_set_blank [simp]: "planes_set (map blank_event ps) = map plane_id ps"
  by (induction ps) (simp_all add: blank_event_def)

lemma wdi_commit_done:
  assumes ready: "wdi_commit_ready s"
  shows "okE (wdi_commit s) (\<lambda>(ret, t). \<exists>es u r z. commit_step s es u
    \<and> wdi_committed s es
    \<and> t = u\<lparr>mOtherPlanes := idle_planes s, mDisplayRefFb := r, mOsdDisplayFrame := z\<rparr>)"
proof -
  note r = ready [unfolded wdi_commit_ready_def]
  from r composerOutput_step obtain es1 t1 where t1: "composerOutput s = Inr (wdi_output s, t1)"
    "commit_step s es1 t1" "planes_set es1 = []" "vt_free es1" by blast
  from fold_handleUVM [of t1] obtain es2 where es2: "handleUVM t1 = t1\<lparr>events := events t1 @ es2\<rparr>"
    "planes_set es2 = []" "vt_free es2" by blast
  define t2 where "t2 = handleUVM t1"
  have t12: "commit_step t1 es2 t2"
    by (rule commit_stepI [where h = "fbs t1"]) (simp_all add: t2_def es2)
  have t2: "commit_step s (es1 @ es2) t2" by (rule commit_step_trans [OF t1(2) t12])
  note f = commit_step_fields [OF t2] commit_step_video [OF t2] commit_step_board [OF t2]
  have ready2: "wdi_commit_ready t2" using ready by (simp add: wdi_commit_ready_def f)
  have out: "wdi_output s \<noteq> None \<longrightarrow> mComposer t2 \<noteq> None"
    by (auto simp: wdi_output_def f split: option.splits)
  from foldE_commitPair [OF ready2 out order_refl, of "\<lparr>setPlaneSuccess = True, bHaveVTBuffer = False\<rparr>"]
  obtain cf t3 es3 where run: "foldE (wdi_commitPair (wdi_output s)) (mDisplayPairs t2)
      (\<lparr>setPlaneSuccess = True, bHaveVTBuffer = False\<rparr>, t2) = Inr (cf, t3)"
    and t3: "commit_step t2 es3 t3"
    and es3: "pairs_log (wdi_output s) t2 (mDisplayPairs t2) es3"
    and vt: "bHaveVTBuffer cf = (\<exists>p \<in> set (mDisplayPairs t2). has_tunnel (wdi_output s) t2 p)"
    unfolding okE_iff by auto
  have vt': "bHaveVTBuffer cf = any_tunnel s"
    using vt by (simp add: any_tunnel_def has_tunnel_def commit_step_shown [OF t2] f)
  note s3 = commit_step_trans [OF t2 t3]
  note f3 = commit_step_video [OF s3]
  let ?bl = "map blank_event (filter (\<lambda>p. \<not> (any_tunnel s \<and> plane_type p = HWC_VIDEO_PLANE)) (idle_planes s))"
  have blank: "wdi_blankUnused (bHaveVTBuffer cf) t3 =
      t3\<lparr>mOtherPlanes := idle_planes s, events := events t3 @ ?bl\<rparr>"
    unfolding wdi_blankUnused_def Let_def fold_wdi_blankPlane vt'
    by (simp add: idle_planes_def f3)
  define u where "u = t3\<lparr>events := events t3 @ ?bl\<rparr>"
  have su: "commit_step s ((es1 @ es2) @ es3 @ ?bl) u"
  proof -
    have "commit_step t3 ?bl u" by (rule commit_stepI [where h = "fbs t3"]) (simp_all add: u_def)
    from commit_step_trans [OF s3 this] show ?thesis by simp
  qed
  have cm: "wdi_committed s ((es1 @ es2) @ es3 @ ?bl)"
    using t1(3,4) es2(2,3) es3
    by (simp add: wdi_committed_def pairs_log_def tunnel_pairs_def commit_planes_def commit_step_funs [OF t2] f
        ac_simps)
  let ?v = "u\<lparr>mOtherPlanes := idle_planes s\<rparr>"
  have v: "wdi_blankUnused (bHaveVTBuffer cf) t3 = ?v" by (simp add: blank u_def)
  obtain dr z where upd: "updateOsdDisplayFrame (wdi_output s) ?v = ?v\<lparr>mDisplayRefFb := dr, mOsdDisplayFrame := z\<rparr>"
    using updateOsdDisplayFrame_log [of "wdi_output s" ?v] by blast
  obtain crtc where "mCrtc s = Some crtc" using r by blast
  then have eq: "wdi_commit s = (if \<not> setPlaneSuccess cf then Inr (HWC2_ERROR_NO_RESOURCES (plat ?v), ?v)
      else Inr (0, log_event (SetDisplayFrame z) (?v\<lparr>mDisplayRefFb := dr, mOsdDisplayFrame := z\<rparr>)))"
    using t1(1) run v upd unfolding t2_def by (simp add: wdi_commit_def Let_def)
  have any: "\<exists>es w r z. commit_step s es w \<and> wdi_committed s es
      \<and> t = w\<lparr>mOtherPlanes := idle_planes s, mDisplayRefFb := r, mOsdDisplayFrame := z\<rparr>"
    if "commit_step s es w" "wdi_committed s es"
      "t = w\<lparr>mOtherPlanes := idle_planes s, mDisplayRefFb := r, mOsdDisplayFrame := z\<rparr>" for t es w r z
    using that by blast
  show ?thesis
  proof (cases "setPlaneSuccess cf")
    case False
    have "?v = u\<lparr>mOtherPlanes := idle_planes s, mDisplayRefFb := mDisplayRefFb u, mOsdDisplayFrame := mOsdDisplayFrame u\<rparr>"
      by simp
    from any [OF su cm this] show ?thesis using False unfolding eq by simp
  next
    case True
    let ?w = "log_event (SetDisplayFrame z) u"
    have w: "commit_step s (((es1 @ es2) @ es3 @ ?bl) @ [SetDisplayFrame z]) ?w"
      by (rule commit_step_trans [OF su commit_step_log])
    have e: "log_event (SetDisplayFrame z) (?v\<lparr>mDisplayRefFb := dr, mOsdDisplayFrame := z\<rparr>) =
        ?w\<lparr>mOtherPlanes := idle_planes s, mDisplayRefFb := dr, mOsdDisplayFrame := z\<rparr>"
      by (simp add: log_event_def)
    have p: "wdi_committed s (((es1 @ es2) @ es3 @ ?bl) @ [SetDisplayFrame z])"
      using cm unfolding wdi_committed_def vt_answers_append [of _ _ "(es1 @ es2) @ es3 @ ?bl"] by simp
    from any [OF w p e] show ?thesis using True unfolding eq by simp
  qed
qed


section \<open>The thread of the video tunnel\<close>

definition tunnel_own :: "'a world_scheme \<Rightarrow> display_pair \<Rightarrow> bool" where
  "tunnel_own s p \<longleftrightarrow> isVtBuffer (fbs s (pair_fb p)) \<and> ctype_of s (pair_fb p) \<noteq> MESON_COMPOSITION_DI"

text \<open>One pair: its plane is programmed once, interrupted or not. Only a refused plane stops the loop.\<close>

lemma tunnelPair_step:
  assumes di: "ctype_of s (pair_fb p) = MESON_COMPOSITION_DI \<longrightarrow>
      (\<exists>c. mDiComposer s = Some c \<and> startable_at (composers s c) (mVideoPlaneNum s - 1))"
  shows "\<exists>r es t. tunnelPair p s = Inr (r, t) \<and> commit_step s es t \<and> r \<noteq> Some 0 \<and> (r \<noteq> None \<longrightarrow> tunnel_own s p)
    \<and> planes_set es = (if tunnel_own s p then [plane_id (pair_plane p)] else [])"
proof -
  let ?f = "pair_fb p" and ?b = "blankFlag s (pair_fb p)" and ?z = "presentZorder p"
  show ?thesis
  proof (cases "tunnel_own s p")
    case False
    show ?thesis
    proof (cases "ctype_of s ?f = MESON_COMPOSITION_DI
        \<and> list_ex (\<lambda>g. isVtBuffer (fbs s g)) (mDIComposerFbs s)")
      case True
      with di obtain c where c: "mDiComposer s = Some c"
        "startable_at (composers s c) (mVideoPlaneNum s - 1)" by blast
      from call_start_step [OF c(2)] obtain es t where
        "call_start c (mVideoPlaneNum s - 1) s = Inr t" "commit_step s es t" "planes_set es = []" by blast
      with True False c show ?thesis by (auto simp: tunnelPair_def Let_def getE_def)
    next
      case nodi: False
      with False commit_step_refl [of s] show ?thesis
        by (auto simp: tunnelPair_def tunnel_own_def Let_def intro!: exI [of _ "[]"])
    qed
  next
    case True
    let ?e = "InterruptVtProcess ?f ?b"
    let ?t = "log_event ?e s" and ?a = "interruptVtProcess (plat s) (events s @ [?e])"
    have t: "commit_step s [?e] ?t" by (rule commit_step_log)
    show ?thesis
    proof (cases ?a)
      case (Some b')
      from interruptedVideo_step [of ?t "pair_plane p" ?f ?z b'] obtain es where
        v: "commit_step ?t es (interruptedVideo (pair_plane p) ?f ?z b' ?t)"
        "planes_set es = [plane_id (pair_plane p)]" by blast
      have "tunnelPair p s = Inr (None, interruptedVideo (pair_plane p) ?f ?z b' ?t)"
        using True Some by (simp add: tunnelPair_def tunnel_own_def Let_def interrupt_asked)
      with True v(2) commit_step_trans [OF t v(1)] show ?thesis
        by (intro exI [of _ None] exI [of _ "[?e] @ es"]
            exI [of _ "interruptedVideo (pair_plane p) ?f ?z b' ?t"]) simp
    next
      case None
      define pr where "pr = (if mVideoProcessorsMgr ?t then try_runProcessors (pair_plane p) ?f ?z ?b ?t else (False, ?t))"
      have eq: "tunnelPair p s = (case pr of (True, s) \<Rightarrow> Inr (None, s)
          | (False, s) \<Rightarrow> (case try_setPlane (pair_plane p) ?f ?z ?b s of (ret, s) \<Rightarrow>
               Inr (if ret \<noteq> 0 then Some ret else None, clearFbHandleFlag ?f s)))"
        using True None by (simp add: tunnelPair_def tunnel_own_def Let_def interrupt_asked pr_def)
      obtain r u es where pr: "pr = (r, u)" and u: "commit_step ?t es u"
        and es: "planes_set es = (if r then [plane_id (pair_plane p)] else [])"
        using try_runProcessors_step [of "pair_plane p" ?f ?z ?b ?t] commit_step_refl [of ?t]
        unfolding pr_def by (cases "mVideoProcessorsMgr ?t") force+
      note su = commit_step_trans [OF t u]
      obtain ret v where sp: "try_setPlane (pair_plane p) ?f ?z ?b u = (ret, v)"
        "commit_step u [SetPlane (plane_id (pair_plane p)) (Some ?f) ?z ?b] v" using try_setPlane_step by blast
      note sv = commit_step_trans [OF commit_step_trans [OF su sp(2)] commit_step_clear [of v ?f]]
      show ?thesis
        using True es pr su sv sp(1) unfolding eq by (cases r) (force, fastforce)
    qed
  qed
qed

definition tunnel_ready :: "'a video_state_scheme \<Rightarrow> display_pair list \<Rightarrow> bool" where
  "tunnel_ready s ps \<longleftrightarrow> (\<forall>p \<in> set ps. ctype_of s (pair_fb p) = MESON_COMPOSITION_DI \<longrightarrow>
          (\<exists>c. mDiComposer s = Some c \<and> startable_at (composers s c) (mVideoPlaneNum s - 1)))"

lemma tunnelPairs_step:
  fixes s :: "'a video_state_scheme"
  assumes "tunnel_ready s ps"
  shows "\<exists>r es t n. tunnelPairs ps s = Inr (r, t) \<and> commit_step s es t \<and> r \<noteq> Some 0
    \<and> (r = None \<longrightarrow> n = length ps)
    \<and> planes_set es = map (\<lambda>p. plane_id (pair_plane p)) (filter (tunnel_own s) (take n ps))"
  using assms
proof (induction ps arbitrary: s)
  case Nil
  then show ?case using commit_step_refl [of s] by (auto intro!: exI [of _ "[]"])
next
  case (Cons p ps)
  have "\<exists>r es t. tunnelPair p s = Inr (r, t) \<and> commit_step s es t \<and> r \<noteq> Some 0 \<and> (r \<noteq> None \<longrightarrow> tunnel_own s p)
    \<and> planes_set es = (if tunnel_own s p then [plane_id (pair_plane p)] else [])"
    by (rule tunnelPair_step) (use Cons.prems in \<open>simp add: tunnel_ready_def\<close>)
  then obtain r es t where t: "tunnelPair p s = Inr (r, t)" "commit_step s es t" "r \<noteq> Some 0"
    "planes_set es = (if tunnel_own s p then [plane_id (pair_plane p)] else [])" by blast
  show ?case
  proof (cases r)
    case (Some ret)
    with t show ?thesis
      by (intro exI [of _ "Some ret"] exI [of _ es] exI [of _ t] exI [of _ 1]) simp
  next
    case None
    note f = commit_step_fields [OF t(2)] commit_step_video [OF t(2)]
    have "tunnel_ready t ps" using Cons.prems by (simp add: tunnel_ready_def f)
    from Cons.IH [OF this] obtain r' es' u n where u: "tunnelPairs ps t = Inr (r', u)" "commit_step t es' u"
      "r' \<noteq> Some 0" "r' = None \<longrightarrow> n = length ps"
      "planes_set es' = map (\<lambda>p. plane_id (pair_plane p)) (filter (tunnel_own t) (take n ps))" by blast
    have "tunnel_own t = tunnel_own s" by (rule ext) (simp add: tunnel_own_def f)
    then show ?thesis using t(1,4) u None commit_step_trans [OF t(2) u(2)]
      by (intro exI [of _ r'] exI [of _ "es @ es'"] exI [of _ u] exI [of _ "Suc n"]) simp
  qed
qed

text \<open>
  \<open>commitTunnelVideo\<close> programs the planes of its pairs once each and blanks the unused video
  planes; when a plane refuses its framebuffer, it returns that error and leaves out the rest.
\<close>

definition tunnel_planes :: "'a video_state_scheme \<Rightarrow> nat list" where
  "tunnel_planes s = map (\<lambda>p. plane_id (pair_plane p)) (filter (tunnel_own s) (mDisplayPairs s))
     @ map plane_id (mHwcVideoPlanes s)"

lemma wdi_commitTunnelVideo_done:
  fixes s :: "'a video_state_scheme"
  assumes "tunnel_ready s (mDisplayPairs s)" and "mCrtc s \<noteq> None"
  shows "okE (wdi_commitTunnelVideo s) (\<lambda>(ret, t). \<exists>es. commit_step s es t
    \<and> (if ret = 0 then planes_set es = tunnel_planes s else mset (planes_set es) \<subseteq># mset (tunnel_planes s)))"
proof -
  from tunnelPairs_step [OF assms(1)] obtain r es t n where t: "tunnelPairs (mDisplayPairs s) s = Inr (r, t)"
    "commit_step s es t" "r \<noteq> Some 0" "r = None \<longrightarrow> n = length (mDisplayPairs s)"
    "planes_set es = map (\<lambda>p. plane_id (pair_plane p)) (filter (tunnel_own s) (take n (mDisplayPairs s)))" by blast
  let ?bl = "map blank_event (mHwcVideoPlanes s)"
  have v: "mHwcVideoPlanes t = mHwcVideoPlanes s" by (rule commit_step_video(8) [OF t(2)])
  have "commit_step t ?bl (fold blankPlane (mHwcVideoPlanes t) t)"
    unfolding fold_blankPlane v by (rule commit_stepI [where h = "fbs t"]) simp_all
  note full = commit_step_trans [OF t(2) this]
  have "filter (tunnel_own s) (mDisplayPairs s) = filter (tunnel_own s) (take n (mDisplayPairs s))
      @ filter (tunnel_own s) (drop n (mDisplayPairs s))" by (simp flip: filter_append)
  then have part: "mset (planes_set es) \<subseteq># mset (tunnel_planes s)"
    by (simp add: t(5) tunnel_planes_def)
  show ?thesis
  proof (cases r)
    case None
    then show ?thesis using assms(2) t v full
      by (auto simp: wdi_commitTunnelVideo_def tunnel_planes_def intro!: exI [of _ "es @ ?bl"])
  next
    case (Some ret)
    then have "wdi_commitTunnelVideo s = Inr (ret, t)" using assms(2) t(1) by (auto simp: wdi_commitTunnelVideo_def)
    moreover have "ret \<noteq> 0" using t(3) Some by simp
    ultimately show ?thesis using t(2) part by auto
  qed
qed

text \<open>
  The pairs of a decision: a framebuffer fed by a video tunnel is not given to a composer, and no
  composer writes to the buffer of one.
\<close>

definition tunnel_pairs_ok :: "'a video_state_scheme \<Rightarrow> bool" where
  "tunnel_pairs_ok s \<longleftrightarrow> (\<forall>p \<in> set (mDisplayPairs s). isVtBuffer (fbs s (pair_fb p)) \<longrightarrow>
       ctype_of s (pair_fb p) \<noteq> MESON_COMPOSITION_DI
       \<and> (\<forall>c. mComposer s = Some c \<longrightarrow> ctype_of s (pair_fb p) \<noteq> composer_getType (composers s c)))
     \<and> (\<forall>g. wdi_output s = Some g \<longrightarrow> \<not> isVtBuffer (fbs s g))"

lemma tunnel_own_pair:
  assumes "tunnel_pairs_ok s" and "p \<in> set (mDisplayPairs s)"
  shows "tunnel_pair (wdi_output s) s p = tunnel_own s p"
proof (cases "shown_fb (wdi_output s) s p = pair_fb p")
  case True
  then show ?thesis using assms by (auto simp: tunnel_pair_def tunnel_own_def tunnel_pairs_ok_def)
next
  case False
  then obtain g c where g: "wdi_output s = Some g" "mComposer s = Some c"
    "ctype_of s (pair_fb p) = composer_getType (composers s c)" "shown_fb (wdi_output s) s p = g"
    by (auto simp: shown_fb_def split: option.splits if_splits)
  then have "\<not> isVtBuffer (fbs s (pair_fb p))"
    using assms by (auto simp: tunnel_pairs_ok_def)
  moreover have "\<not> isVtBuffer (fbs s g)" using assms(1) g(1) by (simp add: tunnel_pairs_ok_def)
  ultimately show ?thesis using g(4) by (simp add: tunnel_pair_def tunnel_own_def)
qed

lemma commit_tunnel_planes:
  assumes ok: "tunnel_pairs_ok s" and vt: "any_tunnel s"
    and other: "\<forall>p \<in> set (mOtherPlanes s) \<union> set (mOsdPlanes s). plane_type p \<noteq> HWC_VIDEO_PLANE"
    and video: "\<forall>p \<in> set (mHwcVideoPlanes s). plane_type p = HWC_VIDEO_PLANE"
  shows "commit_planes s + (mset (map pair_plane (filter (tunnel_own s) (mDisplayPairs s)))
      + mset (mHwcVideoPlanes s)) = mset (map pair_plane (mDisplayPairs s)) + mset (idle_planes s)"
proof -
  have f: "filter (\<lambda>p. \<not> tunnel_pair (wdi_output s) s p) (mDisplayPairs s) =
      filter (\<lambda>p. \<not> tunnel_own s p) (mDisplayPairs s)"
    by (rule filter_cong [OF refl]) (simp add: tunnel_own_pair [OF ok])
  have i: "filter (\<lambda>p. \<not> (any_tunnel s \<and> plane_type p = HWC_VIDEO_PLANE)) (idle_planes s) =
      mOtherPlanes s @ mOsdPlanes s"
    using vt other video by (simp add: idle_planes_def filter_empty_conv)
  have s: "mset (map pair_plane ps) = mset (map pair_plane (filter (tunnel_own s) ps))
      + mset (map pair_plane (filter (\<lambda>p. \<not> tunnel_own s p) ps))" for ps :: "display_pair list"
    by (induction ps) auto
  show ?thesis unfolding commit_planes_def f i s [of "mDisplayPairs s"] by (simp add: idle_planes_def)
qed

end
