(* ===== verification/DiWhiteboard.thy ===== *)
theory DiWhiteboard
  imports DiCommit
begin

text \<open>
  The two buffers of the whiteboard: a scanout framebuffer is composed into a buffer that is not
  on the screen, which then becomes the one on the screen.
\<close>

section \<open>Double buffering\<close>

definition wb_ok :: "wdi_state \<Rightarrow> bool" where
  "wb_ok s \<longleftrightarrow> distinct (mWBQueue s) \<and> 2 \<le> length (mWBQueue s)
     \<and> (\<forall>f \<in> set (mWBQueue s). \<forall>g \<in> set (mWBQueue s). mBufferState (fbs s f) = MODE_FRONT
          \<longrightarrow> mBufferState (fbs s g) = MODE_FRONT \<longrightarrow> f = g)"

lemma pickWbBuffer_some:
  "\<exists>f \<in> set fs. mBufferState (h f) = st \<Longrightarrow>
    \<exists>f \<in> set fs. mBufferState (h f) = st \<and> pickWbBuffer h st fs cur = Some f"
  by (induction fs arbitrary: cur) auto

lemma not_front: "mBufferState x \<noteq> MODE_FRONT \<longleftrightarrow> mBufferState x = MODE_BACK"
  by (cases "mBufferState x") simp_all

lemma wb_ok_back:
  assumes "wb_ok s"
  shows "\<exists>f \<in> set (mWBQueue s). mBufferState (fbs s f) = MODE_BACK"
proof -
  obtain a b r where q: "mWBQueue s = a # b # r"
    using assms by (cases "mWBQueue s"; cases "tl (mWBQueue s)") (auto simp: wb_ok_def)
  then have "a \<noteq> b" using assms by (auto simp: wb_ok_def)
  then have "mBufferState (fbs s a) \<noteq> MODE_FRONT \<or> mBufferState (fbs s b) \<noteq> MODE_FRONT"
    using assms q by (auto simp: wb_ok_def)
  then show ?thesis using q by (auto simp: not_front)
qed

text \<open>Only the framebuffers' states and the queue matter.\<close>

definition wb_same :: "fbid list \<Rightarrow> wdi_state \<Rightarrow> wdi_state \<Rightarrow> bool" where
  "wb_same q s t \<longleftrightarrow> mWBQueue t = mWBQueue s \<and> outfb t = outfb s \<and> showfb t = showfb s
     \<and> mComProcessor t = mComProcessor s \<and> mWhiteBoardData t = mWhiteBoardData s
     \<and> mWhiteBoardMode t = mWhiteBoardMode s \<and> plat t = plat s
     \<and> (\<forall>f \<in> set q. mBufferState (fbs t f) = mBufferState (fbs s f))"

lemma wb_same_trans: "wb_same q s t \<Longrightarrow> wb_same q t u \<Longrightarrow> wb_same q s u"
  by (auto simp: wb_same_def)

lemma commit_step_wb:
  assumes "commit_step s es t" shows "wb_same q s t"
proof -
  from assms obtain h where t: "t = s\<lparr>fbs := h, events := events s @ es\<rparr>" and h: "commit_store (fbs s) h"
    unfolding commit_step_def by blast
  have "mBufferState (h f) = mBufferState (fbs s f)" for f
  proof -
    from h obtain e u where eq: "h f = (fbs s f)\<lparr>mCurReleaseFence := e, mFbHandleUpdated := u\<rparr>"
      unfolding commit_store_def by blast
    show ?thesis by (subst eq) simp
  qed
  then show ?thesis by (simp add: wb_same_def t)
qed

lemma renderWhiteBoard_done:
  assumes ok: "wb_ok s" and data: "mComProcessor s" "mWhiteBoardData s = Some d" and f: "f \<notin> set (mWBQueue s)"
  shows "\<exists>out \<in> set (mWBQueue s). mBufferState (fbs s out) = MODE_BACK
    \<and> okE (renderWhiteBoard f s) (\<lambda>t. outfb t = Some out \<and> mWBQueue t = mWBQueue s \<and> showfb t = showfb s
        \<and> (\<exists>es. events t = events s @ es @ [WbComposite f d out])
        \<and> (\<forall>g \<in> set (mWBQueue s). mBufferState (fbs t g) = mBufferState (fbs s g))
        \<and> mBufferHandle (fbs t f) = mBufferHandle (fbs s out))"
proof -
  from pickWbBuffer_some [OF wb_ok_back [OF ok], of "outfb s"] obtain out where
    out: "out \<in> set (mWBQueue s)" "mBufferState (fbs s out) = MODE_BACK"
    "pickWbBuffer (fbs s) MODE_BACK (mWBQueue s) (outfb s) = Some out" by blast
  show ?thesis
  proof (intro bexI [of _ out] conjI)
    define fence where "fence = (if mPrevReleaseFence (fbs s out) = -1 then -1
        else sys_dup (plat s) (mPrevReleaseFence (fbs s out)))"
    let ?es = "(if 0 \<le> fence then [WbWaitRelease fence, CloseFd fence] else [])
        @ [WbWaitAcquire f, WbUpdate (mDisplayFrame (fbs s d))]"
    have "\<exists>t. renderWhiteBoard f s = Inr t \<and> t = takeWbBuffer f out
        (s\<lparr>outfb := Some out, events := events s @ ?es @ [WbComposite f d out]\<rparr>)"
      using out(3) data by (simp add: renderWhiteBoard_def Let_def getE_def assertE_def log_event_def fence_def)
    then show "okE (renderWhiteBoard f s) (\<lambda>t. outfb t = Some out \<and> mWBQueue t = mWBQueue s \<and> showfb t = showfb s
        \<and> (\<exists>es. events t = events s @ es @ [WbComposite f d out])
        \<and> (\<forall>g \<in> set (mWBQueue s). mBufferState (fbs t g) = mBufferState (fbs s g))
        \<and> mBufferHandle (fbs t f) = mBufferHandle (fbs s out))"
      using f out(1) by (auto simp: takeWbBuffer_def Let_def)
  qed (use out in simp_all)
qed

lemma set_buffer_state_simps [simp]:
  "mBufferState (fbs (set_buffer_state st f s) g) = (if g = f then st else mBufferState (fbs s g))"
  "mWBQueue (set_buffer_state st f w) = mWBQueue w" "outfb (set_buffer_state st f w) = outfb w"
  "events (set_buffer_state st f s) = events s"
  by (simp_all add: set_buffer_state_def)

lemma swapWbBuffers_done:
  assumes ok: "wb_ok s" and out: "outfb s = Some out" "out \<in> set (mWBQueue s)"
    and bk: "mBufferState (fbs s out) = MODE_BACK"
  shows "wb_ok (swapWbBuffers s)" "mWBQueue (swapWbBuffers s) = mWBQueue s"
    "events (swapWbBuffers s) = events s"
    "\<forall>g \<in> set (mWBQueue s). mBufferState (fbs (swapWbBuffers s) g) = (if g = out then MODE_FRONT else MODE_BACK)"
proof -
  have st: "\<forall>g \<in> set (mWBQueue s). mBufferState (fbs (swapWbBuffers s) g) = (if g = out then MODE_FRONT else MODE_BACK)
     \<and> mWBQueue (swapWbBuffers s) = mWBQueue s \<and> events (swapWbBuffers s) = events s"
  proof (cases "\<exists>f \<in> set (mWBQueue s). mBufferState (fbs s f) = MODE_FRONT")
    case True
    from pickWbBuffer_some [OF this, of "showfb s"] obtain f where f: "f \<in> set (mWBQueue s)"
      "mBufferState (fbs s f) = MODE_FRONT" "pickWbBuffer (fbs s) MODE_FRONT (mWBQueue s) (showfb s) = Some f" by blast
    have "swapWbBuffers s = set_buffer_state MODE_FRONT out ((set_buffer_state MODE_BACK f s)\<lparr>showfb := Some f\<rparr>)"
      using True f(3) out by (auto simp: swapWbBuffers_def Let_def list_ex_iff)
    moreover have "mBufferState (fbs s g) = MODE_BACK" if "g \<in> set (mWBQueue s)" "g \<noteq> f" for g
      using that ok f(1,2) by (auto simp: wb_ok_def simp flip: not_front)
    ultimately show ?thesis by (simp add: set_buffer_state_def)
  next
    case False
    then have "swapWbBuffers s = set_buffer_state MODE_FRONT out
        (s\<lparr>showfb := pickWbBuffer (fbs s) MODE_FRONT (mWBQueue s) (showfb s)\<rparr>)"
      using out by (auto simp: swapWbBuffers_def Let_def list_ex_iff)
    moreover have "mBufferState (fbs s g) = MODE_BACK" if "g \<in> set (mWBQueue s)" for g
      using that False by (auto simp flip: not_front)
    ultimately show ?thesis by (simp add: set_buffer_state_def)
  qed
  then show q: "mWBQueue (swapWbBuffers s) = mWBQueue s" "events (swapWbBuffers s) = events s"
    "\<forall>g \<in> set (mWBQueue s). mBufferState (fbs (swapWbBuffers s) g) = (if g = out then MODE_FRONT else MODE_BACK)"
    using out(2) by auto
  then show "wb_ok (swapWbBuffers s)" using ok unfolding wb_ok_def q(1)
    by (auto split: if_splits)
qed

end
