(* ===== verification/DiProps.thy ===== *)
theory DiProps
  imports VideoProps DiWhiteboard MultiplanesZorder
begin

text \<open>
  The properties of \<open>MultiplanesWithDiComposition\<close> after the decision: z-orders, \<open>commit\<close>,
  \<open>commitTunnelVideo\<close> and the whiteboard.
\<close>

section \<open>Z-orders\<close>

definition is_hwc_pair :: "display_pair \<Rightarrow> bool" where
  "is_hwc_pair p \<longleftrightarrow> plane_type (pair_plane p) = HWC_VIDEO_PLANE"

definition hwc_top :: "(fbid \<Rightarrow> drm_framebuffer) \<Rightarrow> u32 \<Rightarrow> display_pair \<Rightarrow> bool" where
  "hwc_top h mx p \<longleftrightarrow> is_hwc_pair p \<and> mx < mZorder (h (pair_fb p))"

definition raised :: "u32 \<Rightarrow> display_pair \<Rightarrow> display_pair" where
  "raised d p = (if is_hwc_pair p then p\<lparr>presentZorder := presentZorder p + d\<rparr> else p)"

lemma wdi_video_one: "wdi_videoLayerZorders h single mx 1 ps =
    map (raised (1 + (if single then 129 else 0))) ps"
  by (induction ps) (auto simp: raised_def is_hwc_pair_def zorder_bases add.assoc)

lemma wdi_video_nth:
  "i < length ps \<Longrightarrow> wdi_videoLayerZorders h single mx 0 ps ! i =
    raised ((if hwc_top h mx (ps ! i) \<and> (\<forall>j < i. \<not> hwc_top h mx (ps ! j)) then 129 else 1)
      + (if single then 129 else 0)) (ps ! i)"
proof (induction ps arbitrary: i)
  case (Cons p ps)
  show ?case
  proof (cases "hwc_top h mx p")
    case True
    have "wdi_videoLayerZorders h single mx 0 (p # ps) = raised (129 + (if single then 129 else 0)) p
        # map (raised (1 + (if single then 129 else 0))) ps"
      using True wdi_video_one [of h single mx ps]
      by (simp add: hwc_top_def raised_def is_hwc_pair_def zorder_bases add.assoc Let_def)
    with True Cons.prems show ?thesis by (cases i) auto
  next
    case False
    have "wdi_videoLayerZorders h single mx 0 (p # ps) = raised (1 + (if single then 129 else 0)) p
        # wdi_videoLayerZorders h single mx 0 ps"
      using False by (auto simp: hwc_top_def raised_def is_hwc_pair_def zorder_bases add.assoc Let_def)
    with False Cons show ?thesis by (cases i) (auto simp: less_Suc_eq_0_disj simp del: wdi_videoLayerZorders.simps)
  qed
qed simp

lemma osd_raised_hwc [simp]:
  "hwc_top h mx (osd_raised p) = hwc_top h mx p" "is_hwc_pair (osd_raised p) = is_hwc_pair p"
  by (simp_all add: osd_raised_def hwc_top_def is_hwc_pair_def)

lemma wdi_zorder_nth:
  assumes "i < length (mDisplayPairs s)"
  shows "mDisplayPairs (wdi_handleDisplayLayerZorder s) ! i =
    raised ((if hwc_top (fbs s) (max_osd s) (mDisplayPairs s ! i)
        \<and> (\<forall>j < i. \<not> hwc_top (fbs s) (max_osd s) (mDisplayPairs s ! j)) then 129 else 1)
      + (if length (mDisplayPairs s) = 1 then 129 else 0)) (osd_raised (mDisplayPairs s ! i))"
proof -
  have "mDisplayPairs (wdi_handleDisplayLayerZorder s) =
      wdi_videoLayerZorders (fbs s) (length (mDisplayPairs s) = 1) (max_osd s) 0
        (map osd_raised (mDisplayPairs s))"
    by (simp add: wdi_handleDisplayLayerZorder_def osdLayerZorders_eq max_osd_def)
  moreover have "(\<forall>j < i. \<not> hwc_top (fbs s) (max_osd s) (map osd_raised (mDisplayPairs s) ! j)) \<longleftrightarrow>
      (\<forall>j < i. \<not> hwc_top (fbs s) (max_osd s) (mDisplayPairs s ! j))" using assms by auto
  ultimately show ?thesis using assms wdi_video_nth [of i "map osd_raised (mDisplayPairs s)"] by simp
qed

lemma band_single:
  fixes z :: u32
  assumes "z < 64"
  shows "130 \<le> z + 130 \<and> z + 130 \<le> 193"
  using assms by (simp add: word_less_nat_alt word_le_nat_alt unat_word_ariths)

text \<open>C24
  With z-orders below 64, osd pairs end in the band 65 to 128; with more than one pair, the
  first video that lies above all osd pairs ends in 129 to 192 and every other video in 1 to 64. A
  single video pair is put on top with the base of the bottom band added as well, so it ends in 130
  to 193, one beyond the band its comment names.
\<close>

theorem wdi_zorder_bands:
  assumes fit: "zorders_fit s" and i: "i < length (mDisplayPairs s)"
    and p: "p = mDisplayPairs s ! i" and q: "q = mDisplayPairs (wdi_handleDisplayLayerZorder s) ! i"
  shows "(is_osd_pair p \<longrightarrow> 65 \<le> presentZorder q \<and> presentZorder q \<le> 128)
    \<and> (is_hwc_pair p \<and> 1 < length (mDisplayPairs s) \<longrightarrow>
         (if hwc_top (fbs s) (max_osd s) p \<and> (\<forall>j < i. \<not> hwc_top (fbs s) (max_osd s) (mDisplayPairs s ! j))
          then 129 \<le> presentZorder q \<and> presentZorder q \<le> 192
          else 1 \<le> presentZorder q \<and> presentZorder q \<le> 64))
    \<and> (is_hwc_pair p \<and> length (mDisplayPairs s) = 1 \<and> INVALID s = -1 \<longrightarrow>
         presentZorder q = presentZorder p + 130 \<and> 130 \<le> presentZorder q \<and> presentZorder q \<le> 193)"
proof -
  have z: "presentZorder p < 64" using fit i p by (simp add: zorders_fit_def)
  have not_both: "is_osd_pair p \<Longrightarrow> \<not> is_hwc_pair p" by (simp add: is_osd_pair_def is_hwc_pair_def)
  have single: "\<not> hwc_top (fbs s) (max_osd s) p"
    if "is_hwc_pair p" "length (mDisplayPairs s) = 1" "INVALID s = -1"
  proof -
    have "\<not> is_osd_pair r" if "r \<in> set (mDisplayPairs s)" for r
      using that \<open>is_hwc_pair p\<close> \<open>length (mDisplayPairs s) = 1\<close> i p not_both
      by (cases "mDisplayPairs s") (auto simp: is_osd_pair_def is_hwc_pair_def)
    then have "max_osd s = -1" using max_osd_fit(2) [OF fit] that(3) by auto
    then show ?thesis by (simp add: hwc_top_def)
  qed
  show ?thesis
    unfolding q wdi_zorder_nth [OF i] p [symmetric]
    using z band_arith [OF z] band_single [OF z] single not_both
    by (auto simp: raised_def osd_raised_def zorder_bases is_hwc_pair_def add.assoc)
qed


definition demo_pair :: "nat \<Rightarrow> u32 \<Rightarrow> fbid \<Rightarrow> hw_display_plane \<Rightarrow> display_pair" where
  "demo_pair d z f p = \<lparr>din = d, presentZorder = z, pair_fb = f, pair_plane = p\<rparr>"

text \<open>Two videos, one fed by a video tunnel, and one ui layer, on two video planes and one osd plane.\<close>

definition demo_shown :: wdi_state where
  "demo_shown = video_blank\<lparr>mCrtc := Some 0, mDisplayPairs :=
     [demo_pair 2 0 10 (demo_plane 10 HWC_VIDEO_PLANE), demo_pair 3 1 11 (demo_plane 11 HWC_VIDEO_PLANE),
      demo_pair 0 4 14 (demo_plane 1 OSD_PLANE)],
     mHwcVideoPlanes := [demo_plane 12 HWC_VIDEO_PLANE], mOsdPlanes := [demo_plane 0 OSD_PLANE],
     mOtherPlanes := [demo_plane 5 CURSOR_PLANE],
     fbs := (\<lambda>f. (video_store f)\<lparr>isVtBuffer := (f = 11), mCompositionType :=
       (if f < 14 then MESON_COMPOSITION_PLANE_HWCVIDEO else MESON_COMPOSITION_PLANE_OSD)\<rparr>)\<rparr>"

lemmas shown_defs = demo_shown_def demo_pair_def video_blank_def demo_platform_def demo_plane_def

theorem wdi_zorder_bands_witness:
  "is_hwc_pair (mDisplayPairs demo_shown ! 0)
    \<and> 1 \<le> presentZorder (mDisplayPairs (wdi_handleDisplayLayerZorder demo_shown) ! 0)
    \<and> presentZorder (mDisplayPairs (wdi_handleDisplayLayerZorder demo_shown) ! 0) \<le> 192"
proof -
  have fit: "zorders_fit demo_shown" "0 < length (mDisplayPairs demo_shown)"
    "1 < length (mDisplayPairs demo_shown)"
    by (simp_all add: zorders_fit_def shown_defs)
  have p: "is_hwc_pair (mDisplayPairs demo_shown ! 0)" by (simp add: is_hwc_pair_def shown_defs)
  have "\<not> hwc_top (fbs demo_shown) (max_osd demo_shown) (mDisplayPairs demo_shown ! 0)"
    by (simp add: hwc_top_def shown_defs video_store_def video_fb_def demo_fb_def)
  with wdi_zorder_bands [OF fit(1,2) refl refl] p fit(3) show ?thesis
    by (auto intro: order_trans)
qed

section \<open>Commit\<close>

text \<open>C25
  \<open>commit\<close> reaches the end when the display has a crtc, its composers can be started and the
  whiteboard is off (\<open>wdi_commit_ready\<close>). It asks for every pair a video tunnel feeds, once and in
  order, whether the playback is interrupted (\<open>interruptVtProcess\<close>). It programs, each exactly
  once, the planes of the pairs no tunnel feeds, the planes of the fed pairs whose playback is
  interrupted, and the unused planes, except that it leaves unused video planes alone when a tunnel
  feeds a pair or the video composer.
\<close>

theorem wdi_commit_planes:
  assumes "wdi_commit_ready s"
  shows "okE (wdi_commit s) (\<lambda>(ret, t). \<exists>es as. events t = events s @ es
    \<and> as = vt_answers (plat s) (events s) es
    \<and> map fst as = map (shown_fb (wdi_output s) s) (tunnel_pairs s)
    \<and> mset (planes_set es) = image_mset plane_id
         (commit_planes s + mset (map pair_plane (stopped_pairs (tunnel_pairs s) as)))
    \<and> mDisplayPairs t = mDisplayPairs s \<and> mHwcVideoPlanes t = mHwcVideoPlanes s)"
proof (rule okE_mono [OF wdi_commit_done [OF assms]], clarify)
  fix ret t es u r z
  assume u: "commit_step s es u" and es: "wdi_committed s es"
  let ?t = "u\<lparr>mOtherPlanes := idle_planes s, mDisplayRefFb := r, mOsdDisplayFrame := z\<rparr>"
  show "\<exists>es as. events ?t = events s @ es
    \<and> as = vt_answers (plat s) (events s) es
    \<and> map fst as = map (shown_fb (wdi_output s) s) (tunnel_pairs s)
    \<and> mset (planes_set es) = image_mset plane_id
         (commit_planes s + mset (map pair_plane (stopped_pairs (tunnel_pairs s) as)))
    \<and> mDisplayPairs ?t = mDisplayPairs s \<and> mHwcVideoPlanes ?t = mHwcVideoPlanes s"
    using es commit_step_fields(3) [OF u] commit_step_video [OF u]
    by (intro exI [of _ es] exI [of _ "vt_answers (plat s) (events s) es"]) (simp add: wdi_committed_def)
qed

text \<open>The same frame with a layer that interrupts the playback of its tunnel.\<close>

definition interrupting :: "platform \<Rightarrow> platform" where
  "interrupting p = p\<lparr>interruptVtProcess := (\<lambda>_. Some BLANK_FOR_NO_CONTENT)\<rparr>"

definition demo_stopped :: wdi_state where
  "demo_stopped = demo_shown\<lparr>plat := interrupting demo_platform\<rparr>"

lemma interrupting_answers:
  "vt_answers (interrupting p) l es = map (\<lambda>f. (f, True)) (map fst (vt_answers (interrupting p) l es))"
  by (induction es arbitrary: l) (auto simp: interrupting_def split: hw_event.split)

lemma quiet_answers:
  "vt_answers demo_platform l es = map (\<lambda>f. (f, False)) (map fst (vt_answers demo_platform l es))"
  by (induction es arbitrary: l) (auto simp: demo_platform_def split: hw_event.split)

lemma demo_shown_ready: "wdi_commit_ready demo_shown" "wdi_commit_ready demo_stopped"
  by (simp_all add: wdi_commit_ready_def shown_defs demo_stopped_def)

lemma demo_shown_planes:
  "plat demo_shown = demo_platform" "plat demo_stopped = interrupting demo_platform"
  "map plane_id (map pair_plane (tunnel_pairs demo_shown)) = [11]" "map plane_id (map pair_plane (tunnel_pairs demo_stopped)) = [11]"
  "map (shown_fb (wdi_output demo_shown) demo_shown) (tunnel_pairs demo_shown) = [11]"
  "map (shown_fb (wdi_output demo_stopped) demo_stopped) (tunnel_pairs demo_stopped) = [11]"
  "image_mset plane_id (commit_planes demo_shown) = {#10, 1, 5, 0#}"
  "image_mset plane_id (commit_planes demo_stopped) = {#10, 1, 5, 0#}"
  by (simp_all add: demo_stopped_def tunnel_pairs_def commit_planes_def tunnel_pair_def shown_fb_def wdi_output_def
      any_tunnel_def has_tunnel_def idle_planes_def shown_defs)

lemma demo_stopped_pairs:
  assumes "map fst (vt_answers (plat s) (events s) es) = map (shown_fb (wdi_output s) s) (tunnel_pairs s)"
  shows "s = demo_shown \<Longrightarrow> stopped_pairs (tunnel_pairs s) (vt_answers (plat s) (events s) es) = []"
    and "s = demo_stopped \<Longrightarrow> stopped_pairs (tunnel_pairs s) (vt_answers (plat s) (events s) es) = tunnel_pairs s"
proof -
  obtain q q' where q: "tunnel_pairs demo_shown = [q]" "tunnel_pairs demo_stopped = [q']"
    using demo_shown_planes(3,4) by auto
  show "s = demo_shown \<Longrightarrow> stopped_pairs (tunnel_pairs s) (vt_answers (plat s) (events s) es) = []"
    using assms quiet_answers [of "events s" es] by (simp add: demo_shown_planes(1) q)
  show "s = demo_stopped \<Longrightarrow> stopped_pairs (tunnel_pairs s) (vt_answers (plat s) (events s) es) = tunnel_pairs s"
    using assms interrupting_answers [of demo_platform "events s" es]
    by (simp add: demo_shown_planes(2) q)
qed

theorem wdi_commit_planes_witness:
  "okE (wdi_commit demo_shown) (\<lambda>(ret, t). \<exists>es. events t = events demo_shown @ es
     \<and> mset (planes_set es) = {#10, 1, 5, 0#})
   \<and> okE (wdi_commit demo_stopped) (\<lambda>(ret, t). \<exists>es. events t = events demo_stopped @ es
     \<and> mset (planes_set es) = {#10, 1, 5, 0, 11#})"
proof (intro conjI)
  show "okE (wdi_commit demo_shown) (\<lambda>(ret, t). \<exists>es. events t = events demo_shown @ es
     \<and> mset (planes_set es) = {#10, 1, 5, 0#})"
  proof (rule okE_mono [OF wdi_commit_planes [OF demo_shown_ready(1)]], clarify)
    fix t es
    assume e: "events t = events demo_shown @ es" and a: "map fst (vt_answers (plat demo_shown) (events demo_shown) es)
        = map (shown_fb (wdi_output demo_shown) demo_shown) (tunnel_pairs demo_shown)"
      and m: "mset (planes_set es) = image_mset plane_id (commit_planes demo_shown + mset (map pair_plane
        (stopped_pairs (tunnel_pairs demo_shown) (vt_answers (plat demo_shown) (events demo_shown) es))))"
    have "mset (planes_set es) = {#10, 1, 5, 0#}"
      using m unfolding demo_stopped_pairs(1) [OF a refl] by (simp add: demo_shown_planes(7))
    with e show "\<exists>es. events t = events demo_shown @ es \<and> mset (planes_set es) = {#10, 1, 5, 0#}" by blast
  qed
  show "okE (wdi_commit demo_stopped) (\<lambda>(ret, t). \<exists>es. events t = events demo_stopped @ es
     \<and> mset (planes_set es) = {#10, 1, 5, 0, 11#})"
  proof (rule okE_mono [OF wdi_commit_planes [OF demo_shown_ready(2)]], clarify)
    fix t es
    assume e: "events t = events demo_stopped @ es" and a: "map fst (vt_answers (plat demo_stopped) (events demo_stopped) es)
        = map (shown_fb (wdi_output demo_stopped) demo_stopped) (tunnel_pairs demo_stopped)"
      and m: "mset (planes_set es) = image_mset plane_id (commit_planes demo_stopped + mset (map pair_plane
        (stopped_pairs (tunnel_pairs demo_stopped) (vt_answers (plat demo_stopped) (events demo_stopped) es))))"
    have "image_mset plane_id (mset (map pair_plane (tunnel_pairs demo_stopped))) = {#11#}"
      using demo_shown_planes(4) by (metis mset_map mset_single_iff)
    then have "mset (planes_set es) = {#10, 1, 5, 0, 11#}"
      using m unfolding demo_stopped_pairs(2) [OF a refl] by (simp add: demo_shown_planes(8))
    with e show "\<exists>es. events t = events demo_stopped @ es \<and> mset (planes_set es) = {#10, 1, 5, 0, 11#}" by blast
  qed
qed

text \<open>
  The two threads share the planes: when a video tunnel feeds one of the pairs, \<open>commit\<close>
  followed by \<open>commitTunnelVideo\<close> programs every plane of the frame exactly once, whether in a pair
  or unused, and once more those of the pairs \<open>commit\<close> found interrupted; unless a plane refuses
  its framebuffer, which makes \<open>commitTunnelVideo\<close> return early.
\<close>

definition frame_planes :: "wdi_state \<Rightarrow> hw_event list \<Rightarrow> nat multiset" where
  "frame_planes s es = image_mset plane_id (mset (map pair_plane (mDisplayPairs s)) + mset (idle_planes s)
     + mset (map pair_plane (stopped_pairs (tunnel_pairs s) (vt_answers (plat s) (events s) es))))"

lemma commit_then_tunnel:
  assumes ready: "wdi_commit_ready s" and ok: "tunnel_pairs_ok s" and vt: "any_tunnel s"
    and other: "\<forall>p \<in> set (mOtherPlanes s) \<union> set (mOsdPlanes s). plane_type p \<noteq> HWC_VIDEO_PLANE"
    and video: "\<forall>p \<in> set (mHwcVideoPlanes s). plane_type p = HWC_VIDEO_PLANE"
  shows "okE (wdi_commit s) (\<lambda>(rc, t). \<exists>es. events t = events s @ es
    \<and> okE (wdi_commitTunnelVideo t) (\<lambda>(ret, u). \<exists>es'. events u = events t @ es'
      \<and> (if ret = 0 then mset (planes_set (es @ es')) = frame_planes s es
          else mset (planes_set (es @ es')) \<subseteq># frame_planes s es)))"
proof (rule okE_mono [OF wdi_commit_done [OF ready]], clarify)
  fix rc es u r z
  assume u: "commit_step s es u" and es: "wdi_committed s es"
  let ?t = "u\<lparr>mOtherPlanes := idle_planes s, mDisplayRefFb := r, mOsdDisplayFrame := z\<rparr>"
  note f = commit_step_fields [OF u] commit_step_video [OF u]
  have tr: "tunnel_ready ?t (mDisplayPairs ?t)" and crtc: "mCrtc ?t \<noteq> None"
    using ready by (simp_all add: wdi_commit_ready_def tunnel_ready_def f)
  have "tunnel_own ?t = tunnel_own s" by (rule ext) (simp add: tunnel_own_def f)
  then have tp: "tunnel_planes ?t = tunnel_planes s" by (simp add: tunnel_planes_def f)
  define extra where "extra = mset (map pair_plane (stopped_pairs (tunnel_pairs s) (vt_answers (plat s) (events s) es)))"
  have "mset (planes_set es) + mset (tunnel_planes s) = image_mset plane_id (commit_planes s
      + (mset (map pair_plane (filter (tunnel_own s) (mDisplayPairs s))) + mset (mHwcVideoPlanes s)) + extra)"
    using es by (simp add: wdi_committed_def extra_def tunnel_planes_def image_mset.compositionality o_def ac_simps)
  then have all: "mset (planes_set es) + mset (tunnel_planes s) = frame_planes s es"
    unfolding commit_tunnel_planes [OF ok vt other video] frame_planes_def extra_def .
  have "okE (wdi_commitTunnelVideo ?t) (\<lambda>(ret, v). \<exists>es'. events v = events ?t @ es'
      \<and> (if ret = 0 then mset (planes_set (es @ es')) = frame_planes s es
          else mset (planes_set (es @ es')) \<subseteq># frame_planes s es))"
    by (rule okE_mono [OF wdi_commitTunnelVideo_done [OF tr crtc, unfolded tp]])
      (auto simp: all [symmetric] commit_step_fields(3) split: if_splits)
  then show "\<exists>es. events ?t = events s @ es
    \<and> okE (wdi_commitTunnelVideo ?t) (\<lambda>(ret, u). \<exists>es'. events u = events ?t @ es'
      \<and> (if ret = 0 then mset (planes_set (es @ es')) = frame_planes s es
          else mset (planes_set (es @ es')) \<subseteq># frame_planes s es))"
    using f by (intro exI [of _ es]) simp
qed

section \<open>The whiteboard\<close>

text \<open>C26
  Showing a scanout framebuffer in whiteboard mode composes it into a buffer of the whiteboard that
  is not on the screen; afterwards exactly that buffer is marked as the one on the screen.
\<close>

theorem whiteboard_swap:
  assumes ok: "wb_ok s" and mode: "mWhiteBoardMode s" and data: "mComProcessor s" "mWhiteBoardData s = Some d"
    and f: "f \<notin> set (mWBQueue s)" "mFbType (fbs s f) = DRM_FB_SCANOUT"
  shows "okE (wdi_showFb p b f z (cf, s)) (\<lambda>(cf', t). wb_ok t \<and> mWBQueue t = mWBQueue s
    \<and> (\<exists>out \<in> set (mWBQueue s). mBufferState (fbs s out) = MODE_BACK
        \<and> WbComposite f d out \<in> set (events t)
        \<and> (\<forall>g \<in> set (mWBQueue s). mBufferState (fbs t g) = (if g = out then MODE_FRONT else MODE_BACK))))"
proof -
  define pr where "pr = (if mVideoProcessorsMgr s \<and> ctype_of s f \<noteq> MESON_COMPOSITION_DI
      then try_runProcessors (pair_plane p) f z b s else (False, s))"
  obtain r u es where pr: "pr = (r, u)" and u: "commit_step s es u"
    using try_runProcessors_step [of "pair_plane p" f z b s] commit_step_refl [of s]
    unfolding pr_def by (cases "mVideoProcessorsMgr s \<and> ctype_of s f \<noteq> MESON_COMPOSITION_DI") force+
  have same: "wb_same (mWBQueue s) s u" by (rule commit_step_wb [OF u])
  then have uf: "mWBQueue u = mWBQueue s" "mComProcessor u" "mWhiteBoardData u = Some d" "mWhiteBoardMode u"
    "\<forall>g \<in> set (mWBQueue s). mBufferState (fbs u g) = mBufferState (fbs s g)"
    using mode data by (simp_all add: wb_same_def)
  have oku: "wb_ok u" using ok uf by (simp add: wb_ok_def)
  from u obtain h where "u = s\<lparr>fbs := h, events := events s @ es\<rparr>" "commit_store (fbs s) h"
    unfolding commit_step_def by blast
  then have ty: "mFbType (fbs u f) = DRM_FB_SCANOUT" using commit_store_fields(4) f(2) by simp
  from renderWhiteBoard_done [OF oku uf(2,3), of f] f(1) uf(1) obtain out where
    out: "out \<in> set (mWBQueue u)" "mBufferState (fbs u out) = MODE_BACK"
    and ren: "okE (renderWhiteBoard f u) (\<lambda>t. outfb t = Some out \<and> mWBQueue t = mWBQueue u \<and> showfb t = showfb u
        \<and> (\<exists>es. events t = events u @ es @ [WbComposite f d out])
        \<and> (\<forall>g \<in> set (mWBQueue u). mBufferState (fbs t g) = mBufferState (fbs u g))
        \<and> mBufferHandle (fbs t f) = mBufferHandle (fbs u out))" by auto
  then obtain t es' where t: "renderWhiteBoard f u = Inr t" "outfb t = Some out" "mWBQueue t = mWBQueue u"
    "events t = events u @ es' @ [WbComposite f d out]"
    "\<forall>g \<in> set (mWBQueue u). mBufferState (fbs t g) = mBufferState (fbs u g)" by (auto simp: okE_iff)
  have okt: "wb_ok t" using oku t(3,5) by (simp add: wb_ok_def)
  obtain ret v where v: "try_setPlane (pair_plane p) f z b t = (ret, v)"
    "commit_step t [SetPlane (plane_id (pair_plane p)) (Some f) z b] v"
    using try_setPlane_step by blast
  have sv: "wb_same (mWBQueue t) t v" by (rule commit_step_wb [OF v(2)])
  have okv: "wb_ok v" using okt sv by (simp add: wb_ok_def wb_same_def)
  have vo: "outfb v = Some out" "out \<in> set (mWBQueue v)" "mBufferState (fbs v out) = MODE_BACK"
    "mWBQueue v = mWBQueue s"
    using sv out t uf by (simp_all add: wb_same_def)
  note w = swapWbBuffers_done [OF okv vo(1,2,3)]
  let ?w = "clearFbHandleFlag f (swapWbBuffers v)"
  have sw: "wb_same (mWBQueue s) (swapWbBuffers v) ?w" by (rule commit_step_wb [OF commit_step_clear])
  have run: "wdi_showFb p b f z (cf, s) = Inr (if ret \<noteq> 0 then cf\<lparr>setPlaneSuccess := False\<rparr> else cf, ?w)"
    using pr uf ty t(1) v(1) unfolding pr_def
    by (simp add: wdi_showFb_def Let_def split: prod.split)
  have ev: "WbComposite f d out \<in> set (events ?w)"
    using w(3) commit_step_fields(3) [OF v(2)] t(4) commit_step_fields(3) [OF commit_step_clear [of "swapWbBuffers v" f]]
    by simp
  have st: "\<forall>g \<in> set (mWBQueue s). mBufferState (fbs ?w g) = (if g = out then MODE_FRONT else MODE_BACK)"
    using sw w(4) vo(4) by (simp add: wb_same_def)
  have "wb_ok ?w" using w(1) sw vo(4) w(2) by (simp add: wb_ok_def wb_same_def)
  moreover have "mWBQueue ?w = mWBQueue s" using sw w(2) vo(4) by (simp add: wb_same_def)
  moreover have "out \<in> set (mWBQueue s)" "mBufferState (fbs s out) = MODE_BACK" using out uf by auto
  ultimately show ?thesis unfolding run using ev st by auto
qed

definition demo_board :: wdi_state where
  "demo_board = wdi_setCustomizedBuffer (Some 12) True video_blank"

lemma demo_board_ok:
  "wb_ok demo_board" "mWhiteBoardMode demo_board" "mComProcessor demo_board"
  "mWhiteBoardData demo_board = Some 12" "14 \<notin> set (mWBQueue demo_board)"
  "mFbType (fbs demo_board 14) = DRM_FB_SCANOUT" "mWBQueue demo_board = [100, 101]"
  by (simp_all add: wb_ok_def demo_board_def wdi_setCustomizedBuffer_def allocWbBuffer_def Let_def
      WB_BUF_CNT_def log_event_def upt_rec video_blank_def demo_platform_def video_store_def demo_fb_def)

theorem whiteboard_swap_witness:
  "okE (wdi_showFb (demo_pair 0 4 14 (demo_plane 1 OSD_PLANE)) UNBLANK 14 4
      (\<lparr>setPlaneSuccess = True, bHaveVTBuffer = False\<rparr>, demo_board))
    (\<lambda>(cf, t). wb_ok t \<and> mWBQueue t = [100, 101])"
  by (rule okE_mono [OF whiteboard_swap [OF demo_board_ok(1-6)]]) (auto simp: demo_board_ok(7))

text \<open>Entering whiteboard mode for the first time allocates the buffers, none of them on the screen;
  leaving it marks every buffer as free again, and entering it again keeps the buffers.
\<close>

theorem whiteboard_modes:
  "(\<not> mComProcessor s \<and> mWBQueue s = [] \<longrightarrow>
      wb_ok (wdi_setCustomizedBuffer c True s) \<and> mComProcessor (wdi_setCustomizedBuffer c True s)
      \<and> length (mWBQueue (wdi_setCustomizedBuffer c True s)) = WB_BUF_CNT
      \<and> (\<forall>g \<in> set (mWBQueue (wdi_setCustomizedBuffer c True s)). next_fb s \<le> g
           \<and> mBufferState (fbs (wdi_setCustomizedBuffer c True s) g) = MODE_BACK))
    \<and> (mComProcessor s \<longrightarrow> wdi_setCustomizedBuffer c True s = s\<lparr>mWhiteBoardMode := True, mWhiteBoardData := c\<rparr>)
    \<and> mWBQueue (wdi_setCustomizedBuffer c False s) = mWBQueue s
    \<and> (\<forall>g \<in> set (mWBQueue s). mBufferState (fbs (wdi_setCustomizedBuffer c False s) g) = MODE_BACK)"
proof -
  have fold: "mWBQueue (fold (set_buffer_state MODE_BACK) fs t) = mWBQueue t
      \<and> (\<forall>g. mBufferState (fbs (fold (set_buffer_state MODE_BACK) fs t) g) =
           (if g \<in> set fs then MODE_BACK else mBufferState (fbs t g)))" for fs and t :: wdi_state
    by (induction fs arbitrary: t) auto
  have alloc: "wdi_setCustomizedBuffer c True s =
      allocWbBuffer 1 (allocWbBuffer 0 (log_event WbSetup
        (s\<lparr>mWhiteBoardMode := True, mWhiteBoardData := c, mComProcessor := True\<rparr>)))"
    if "\<not> mComProcessor s"
    using that by (simp add: wdi_setCustomizedBuffer_def WB_BUF_CNT_def upt_rec)
  show ?thesis
    using fold [of "mWBQueue s" "s\<lparr>mWhiteBoardMode := False, mWhiteBoardData := c\<rparr>"]
    by (auto simp: alloc) (auto simp: wdi_setCustomizedBuffer_def allocWbBuffer_def Let_def wb_ok_def
        WB_BUF_CNT_def log_event_def split: option.splits prod.splits)
qed

theorem whiteboard_modes_witness:
  "wb_ok demo_board \<and> length (mWBQueue demo_board) = WB_BUF_CNT"
proof -
  have "\<not> mComProcessor video_blank" "mWBQueue video_blank = []" by (simp_all add: video_blank_def)
  with whiteboard_modes [of video_blank "Some 12"] show ?thesis by (simp add: demo_board_def)
qed

end
