(* ===== verification/DiFrame.thy ===== *)
theory DiFrame
  imports DiDecide DiProps
begin

text \<open>
  One frame of \<open>MultiplanesWithDiComposition\<close>, from \<open>setup\<close> to \<open>commit\<close>. \<open>frame_decided t r\<close>
  is what the decision makes of the state \<open>t\<close> that \<open>setup\<close> leaves; \<open>wdi_decide_frame\<close> proves that
  it is always reached, and the properties at the end say which planes the two commits program.
\<close>

section \<open>The types the osd framebuffers are picked by\<close>

definition wdi_base :: "wdi_state \<Rightarrow> wdi_state" where
  "wdi_base p = checked (wdi_applyCompositionFlags p)"

text \<open>The flags only concern the framebuffers that have no type yet.\<close>

definition retyped :: "'a osd_state_scheme \<Rightarrow> 'a osd_state_scheme \<Rightarrow> bool" where
  "retyped s t \<longleftrightarrow> (\<exists>h. t = s\<lparr>fbs := h\<rparr> \<and> only_types (fbs s) h \<and> (\<forall>f. \<not> is_ui (ctype_of s f)
     \<longrightarrow> mCompositionType (h f) = ctype_of s f \<or> mCompositionType (h f) = MESON_COMPOSITION_DUMMY))"

lemma retyped_refl: "retyped s s"
  unfolding retyped_def by (rule exI [of _ "fbs s"]) simp

lemma retyped_trans:
  assumes "retyped s t" and "retyped t u"
  shows "retyped s u"
proof -
  obtain h k where h: "t = s\<lparr>fbs := h\<rparr>" "only_types (fbs s) h" "\<forall>f. \<not> is_ui (ctype_of s f)
      \<longrightarrow> mCompositionType (h f) = ctype_of s f \<or> mCompositionType (h f) = MESON_COMPOSITION_DUMMY"
    and k: "u = t\<lparr>fbs := k\<rparr>" "only_types (fbs t) k" "\<forall>f. \<not> is_ui (ctype_of t f)
      \<longrightarrow> mCompositionType (k f) = ctype_of t f \<or> mCompositionType (k f) = MESON_COMPOSITION_DUMMY"
    using assms unfolding retyped_def by blast
  have "only_types (fbs s) k" using only_types_trans [OF h(2)] k(2) by (simp add: h(1))
  moreover have "u = s\<lparr>fbs := k\<rparr>" by (simp add: h(1) k(1))
  moreover have "mCompositionType (k f) = ctype_of s f \<or> mCompositionType (k f) = MESON_COMPOSITION_DUMMY"
    if "\<not> is_ui (ctype_of s f)" for f
  proof -
    have hf: "mCompositionType (h f) = ctype_of s f \<or> mCompositionType (h f) = MESON_COMPOSITION_DUMMY"
      using h(3) that by blast
    then have "\<not> is_ui (ctype_of t f)" using that by (auto simp: h(1) is_ui_def)
    with k(3) have "mCompositionType (k f) = mCompositionType (h f) \<or> mCompositionType (k f) = MESON_COMPOSITION_DUMMY"
      by (auto simp: h(1))
    with hf show ?thesis by auto
  qed
  ultimately show ?thesis unfolding retyped_def by blast
qed

lemma retyped_upd: "ctype_of s f = MESON_COMPOSITION_UNDETERMINED \<or> c = MESON_COMPOSITION_DUMMY \<Longrightarrow> retyped s (upd_comp f c s)"
  unfolding retyped_def upd_comp_def
  by (intro exI [of _ "set_comp f c (fbs s)"]) (auto simp: only_types_set_comp is_ui_def)

lemma applyCompositionFlags_retyped: "retyped s (applyCompositionFlags s)"
proof -
  have one: "retyped s (applyCompositionFlag f s)" for f and s :: "'b osd_state_scheme"
    by (simp add: applyCompositionFlag_def retyped_upd retyped_refl)
  have "retyped s (fold applyCompositionFlag fs s)" for fs
  proof (induction fs arbitrary: s)
    case Nil
    show ?case by (simp add: retyped_refl)
  next
    case (Cons f fs)
    show ?case using retyped_trans [OF one Cons.IH] by simp
  qed
  then show ?thesis by (simp add: applyCompositionFlags_def retyped_refl)
qed

lemma checked_retyped: "retyped s (checked s)"
  unfolding retyped_def checked_def
  by (intro exI [of _ "drop_bad s (fb_ids s)"])
    (auto simp: drop_bad_def only_types_set_comps)

lemma base_retyped: "retyped p (wdi_base p)"
  unfolding wdi_base_def wdi_applyCompositionFlags_def
  by (rule retyped_trans [OF applyCompositionFlags_retyped checked_retyped])

lemma retyped_fields:
  assumes "retyped s t"
  shows "plat t = plat s" "composers t = composers s" "mFramebuffers t = mFramebuffers s"
    "fb_ids t = fb_ids s" "mOsdPlanes t = mOsdPlanes s" "mOtherPlanes t = mOtherPlanes s"
    "mHDRMode t = mHDRMode s" "mDisplayRefFb t = mDisplayRefFb s" "mComposer t = mComposer s"
    "events t = events s" "mComposerFbs t = mComposerFbs s" "mOverlayFbs t = mOverlayFbs s"
    "mClientComposer t = mClientComposer s" "mOtherComposers t = mOtherComposers s"
    "mInsideVideoFbsFlag t = mInsideVideoFbsFlag s" "mDummyComposer t = mDummyComposer s"
    "mMinComposerZorder t = mMinComposerZorder s" "mMaxComposerZorder t = mMaxComposerZorder s"
    "mDisplayPairs t = mDisplayPairs s" "mCrtc t = mCrtc s" "osd_state.more t = osd_state.more s"
    "zorder_of t f = zorder_of s f" "only_types (fbs s) (fbs t)"
  using assms unfolding retyped_def fb_ids_def by (elim exE conjE; simp add: only_types_fields)+

lemma retyped_type:
  "retyped s t \<Longrightarrow> \<not> is_ui (ctype_of s f) \<Longrightarrow> ctype_of t f = ctype_of s f \<or> ctype_of t f = MESON_COMPOSITION_DUMMY"
  unfolding retyped_def by auto

section \<open>After the videos\<close>

definition video_pair_ok :: "wdi_state \<Rightarrow> display_pair \<Rightarrow> bool" where
  "video_pair_ok p q \<longleftrightarrow> \<not> is_ui (ctype_of p (pair_fb q))
     \<and> (ctype_of p (pair_fb q) = MESON_COMPOSITION_DI \<longrightarrow> \<not> isVtBuffer (fbs p (pair_fb q))
         \<and> (\<exists>c. mDiComposer p = Some c \<and> composer_getType (composers p c) = MESON_COMPOSITION_DI
              \<and> startable_at (composers p c) (mVideoPlaneNum p - 1)))"

definition video_done :: "wdi_state \<Rightarrow> wdi_state \<Rightarrow> bool" where
  "video_done s p \<longleftrightarrow> video_step s p
     \<and> (\<exists>ps. mDisplayPairs p = mDisplayPairs s @ ps
          \<and> map pair_plane ps @ mHwcVideoPlanes p = mHwcVideoPlanes s \<and> (\<forall>q \<in> set ps. video_pair_ok p q))
     \<and> (\<forall>f \<in> set (fb_ids s). is_video_kind (mFbType (fbs s f)) \<noteq> None \<longrightarrow> \<not> is_ui (ctype_of p f))"

lemma video_kind_cases:
  "f \<in> set (fb_ids s) \<Longrightarrow> is_video_kind (mFbType (fbs s f)) \<noteq> None \<Longrightarrow> ctype_of s f = MESON_COMPOSITION_DUMMY
    \<or> f \<in> set (sidebands s) \<union> set (di_videos s) \<union> set (empty_videos s)"
  by (auto simp: sidebands_def di_videos_def empty_videos_def video_kinds)

lemma not_video_kind:
  "ctype_of s f = MESON_COMPOSITION_DUMMY \<Longrightarrow>
    f \<notin> set (sidebands s) \<union> set (di_videos s) \<union> set (empty_videos s)"
  by (auto simp: sidebands_def di_videos_def empty_videos_def video_kinds)

lemma not_ui_types [simp]:
  "\<not> is_ui MESON_COMPOSITION_DUMMY" "\<not> is_ui MESON_COMPOSITION_PLANE_HWCVIDEO" "\<not> is_ui MESON_COMPOSITION_DI"
  by (simp_all add: is_ui_def)

lemma video_result_done:
  assumes ready: "video_ready s" and di: "di_ready s (length (mHwcVideoPlanes s) - 1)"
    and r: "video_result s p ps"
  shows "video_done s p"
proof -
  note r' = r [unfolded video_result_def]
  then have st: "video_step s p" and pairs: "mDisplayPairs p = mDisplayPairs s @ ps"
      "map pair_plane ps @ mHwcVideoPlanes p = mHwcVideoPlanes s" by simp_all
  have old: "f < next_fb s" if "f \<in> set (fb_ids s)" for f using ready that by (simp add: video_ready_def)
  have shown: "(\<forall>q \<in> set ps. video_pair_ok p q)
      \<and> (\<forall>f \<in> set (take 1 (sidebands s)) \<union> set (di_videos s). \<not> is_ui (ctype_of p f))"
  proof (cases "length (mHwcVideoPlanes s) < video_count s")
    case True
    then obtain qs q where ps: "ps = qs @ [q]" and qs: "\<forall>p' \<in> set qs. plane_pair p True p'"
      and co: "composed_on s p q (length (mHwcVideoPlanes s) - 1) (min_video_z s)"
      and m: "mset (map pair_fb qs) + mset (mDIComposerFbs p) = mset (take 1 (sidebands s)) + mset (di_videos s)"
      using r' unfolding if_P [OF True] by blast
    from di obtain c where c: "mDiComposer s = Some c" "composer_getType (composers s c) = MESON_COMPOSITION_DI"
      by (auto simp: di_ready_def)
    have "composers_kept (composers s) (composers p)" using video_step_store [OF st] by simp
    then have type: "composer_getType (composers p c) = MESON_COMPOSITION_DI" using c by (simp add: composers_kept_def)
    have cp: "mDiComposer p = Some c" using c video_step_fields [OF st] by simp
    let ?i = "int (length (mHwcVideoPlanes s) - 1)"
    have out: "composer_getOutput (composers p c) ?i = Inr (Some (pair_fb q))"
      using co cp by (auto simp: composed_on_def)
    obtain impls where impls: "composers p c = DiComposer impls" using type by (cases "composers p c") auto
    have "startable_at (composers p c) ?i"
      using out by (auto simp: impls startable_at_def di_getOutput_def di_impl_def bindE_Inr_iff split: if_splits)
    moreover have "mVideoPlaneNum p - 1 = ?i"
      using ready video_step_fields [OF st] by (cases "mHwcVideoPlanes s") (simp_all add: video_ready_def)
    ultimately have "video_pair_ok p q"
      using co cp type by (auto simp: video_pair_ok_def composed_on_def)
    moreover have "video_pair_ok p p'" if "p' \<in> set qs" for p'
      using qs that by (simp add: video_pair_ok_def plane_pair_def)
    moreover have "\<not> is_ui (ctype_of p f)" if "f \<in> set (take 1 (sidebands s)) \<union> set (di_videos s)" for f
    proof -
      have "f \<in># mset (map pair_fb qs) + mset (mDIComposerFbs p)" using that unfolding m by auto
      then consider "f \<in> pair_fb ` set qs" | "f \<in> set (mDIComposerFbs p)" by auto
      then show ?thesis using qs co by cases (auto simp: plane_pair_def composed_on_def)
    qed
    ultimately show ?thesis by (auto simp: ps)
  next
    case False
    then have qs: "\<forall>p' \<in> set ps. plane_pair p False p'"
      and m: "mset (map pair_fb ps) = mset (take 1 (sidebands s)) + mset (di_videos s)"
      using r' unfolding if_not_P [OF False] by simp_all
    have "\<not> is_ui (ctype_of p f)" if "f \<in> set (take 1 (sidebands s)) \<union> set (di_videos s)" for f
    proof -
      have "f \<in># mset (map pair_fb ps)" using that unfolding m by auto
      then show ?thesis using qs by (auto simp: plane_pair_def)
    qed
    then show ?thesis using qs by (auto simp: video_pair_ok_def plane_pair_def)
  qed
  have "\<not> is_ui (ctype_of p f)" if f: "f \<in> set (fb_ids s)" "is_video_kind (mFbType (fbs s f)) \<noteq> None" for f
    using video_kind_cases [OF f]
  proof
    assume d: "ctype_of s f = MESON_COMPOSITION_DUMMY"
    then have "ctype_of p f = ctype_of s f" using r' not_video_kind old [OF f(1)] by blast
    with d show ?thesis by simp
  next
    assume "f \<in> set (sidebands s) \<union> set (di_videos s) \<union> set (empty_videos s)"
    then consider "f \<in> set (drop 1 (sidebands s)) \<union> set (empty_videos s)"
      | "f \<in> set (take 1 (sidebands s)) \<union> set (di_videos s)"
      by (metis UnE UnI1 UnI2 append_take_drop_id set_append)
    then show ?thesis using r' shown by cases auto
  qed
  with shown st pairs show ?thesis unfolding video_done_def by blast
qed

lemma sideband_result_done:
  assumes ready: "video_ready s" and sb: "sidebands s \<noteq> []" and r: "sideband_result s p q"
  shows "video_done s p"
proof -
  note r' = r [unfolded sideband_result_def]
  have old: "f < next_fb s" if "f \<in> set (fb_ids s)" for f using ready that by (simp add: video_ready_def)
  have q: "ctype_of p (pair_fb q) = MESON_COMPOSITION_DUMMY \<or> ctype_of p (pair_fb q) = MESON_COMPOSITION_PLANE_HWCVIDEO"
    using r' by (auto split: if_splits)
  have "\<not> is_ui (ctype_of p f)" if f: "f \<in> set (fb_ids s)" "is_video_kind (mFbType (fbs s f)) \<noteq> None" for f
    using video_kind_cases [OF f]
  proof
    assume d: "ctype_of s f = MESON_COMPOSITION_DUMMY"
    then have "ctype_of p f = ctype_of s f" using r' not_video_kind old [OF f(1)] by blast
    with d show ?thesis by simp
  next
    assume "f \<in> set (sidebands s) \<union> set (di_videos s) \<union> set (empty_videos s)"
    then show ?thesis using r' q by (cases "f = pair_fb q") auto
  qed
  moreover have "video_pair_ok p q" using q by (auto simp: video_pair_ok_def)
  ultimately show ?thesis using r' unfolding video_done_def by (auto intro!: exI [of _ "[q]"])
qed

lemma processVideoFbs_video_done:
  assumes ready: "video_ready s" and di: "di_ready s (length (mHwcVideoPlanes s) - 1)"
  shows "okE (processVideoFbs s) (video_done s)"
proof (cases "mVideoPlaneNum s = 1 \<and> sidebands s \<noteq> []")
  case True
  then show ?thesis
    by (intro okE_mono [OF processVideoFbs_one_sideband [OF ready]])
      (use sideband_result_done [OF ready] in blast)+
next
  case False
  show ?thesis
    by (rule okE_mono [OF processVideoFbs_result [OF ready False]])
      (use di video_result_done [OF ready di] in blast)+
qed

section \<open>What a frame starts from\<close>

text \<open>
  The inputs of a frame: layers with z-orders of their own, a composer of each kind, of which the
  video composer has a slot for the last video plane, and planes of both kinds.
\<close>

definition wdi_inputs_ok :: "wdi_state \<Rightarrow> fbid list \<Rightarrow> cid list \<Rightarrow> hw_display_plane list \<Rightarrow> bool" where
  "wdi_inputs_ok s layers cs planes \<longleftrightarrow> layers_ok s layers \<and> (\<forall>f \<in> set layers. f < next_fb s)
     \<and> (\<exists>c \<in> set cs. composers s c = DummyComposer)
     \<and> (\<exists>c \<in> set cs. composer_getType (composers s c) = MESON_COMPOSITION_CLIENT)
     \<and> (\<exists>c \<in> set cs. composer_getType (composers s c) = MESON_COMPOSITION_DI)
     \<and> (\<forall>c \<in> set cs. composer_getType (composers s c) = MESON_COMPOSITION_DI
          \<longrightarrow> composer_valid (composers s c) (int (length (plane_sel HWC_VIDEO_PLANE planes) - 1)))
     \<and> plane_sel OSD_PLANE planes \<noteq> [] \<and> plane_sel HWC_VIDEO_PLANE planes \<noteq> []
     \<and> (\<forall>z. z \<le> INVALID s)"

definition frame_ready :: "wdi_state \<Rightarrow> bool" where
  "frame_ready t \<longleftrightarrow> gfx_ready t \<and> video_ready t \<and> di_ready t (length (mHwcVideoPlanes t) - 1)
     \<and> mDisplayPairs t = []"

lemma first_of_some:
  assumes "\<exists>c \<in> set cs. composer_getType (h c) = ty"
  shows "\<exists>c \<in> set cs. first_of h ty cs None = Some c \<and> composer_getType (h c) = ty"
proof -
  from find_exists [of cs "\<lambda>c. composer_getType (h c) = ty"] assms show ?thesis
    by (auto simp: first_of_def)
qed

lemma wdi_setup_keeps:
  "mCrtc (wdi_setup layers cs planes crtc flag scale mode s) = crtc
   \<and> mWhiteBoardMode (wdi_setup layers cs planes crtc flag scale mode s) = mWhiteBoardMode s
   \<and> quiet s (wdi_setup layers cs planes crtc flag scale mode s)"
proof -
  define u where "u = (let s = wdi_init s; s = s\<lparr>mScaleValue := scale, mHDRMode := True\<rparr>;
          s = (if and flag COMPOSE_HIDE_SECURE_FB \<noteq> 0 then s\<lparr>mHideSecureLayer := True\<rparr> else s);
          s = (if and flag COMPOSE_FORCE_CLIENT \<noteq> 0 then s\<lparr>mForceClientComposer := True\<rparr> else s);
          s = (if and flag COMPOSE_DISABLE_SIDEBAND \<noteq> 0 then s\<lparr>mIsSideBandDisable := True\<rparr> else s);
          s = (if and flag COMPOSE_DISABLE_POSTPROCESSOR \<noteq> 0
               then s\<lparr>mIsDisablePostProcessor := True\<rparr> else s) in s)"
  have u: "events u = events s" "mWhiteBoardMode u = mWhiteBoardMode s"
    unfolding u_def Let_def flag_if flag_if_video by (simp_all add: wdi_init_def)
  define v where "v = (handleLLM (mIsDisablePostProcessor u) u)\<lparr>mCrtc := crtc\<rparr>"
  have v: "quiet s v" "mWhiteBoardMode v = mWhiteBoardMode s" "mCrtc v = crtc"
    by (simp_all add: v_def handleLLM_def log_event_def u quiet_def)
  have eq: "wdi_setup layers cs planes crtc flag scale mode s =
    (let s = fold wdi_collectPlane planes (fold wdi_collectComposer cs (fold addLayer layers v))
     in s\<lparr>mVideoPlaneNum := int (length (mHwcVideoPlanes s)), mOsdPlaneNum := int (length (mOsdPlanes s)),
          mVsyncRefreshRate := (if refreshRate mode = 0 then 60 else word_of_int \<lfloor>refreshRate mode\<rfloor>)\<rparr>)"
    unfolding wdi_setup_def v_def u_def Let_def ..
  show ?thesis
    unfolding eq Let_def fold_wdi_collectComposer fold_wdi_collectPlane fold_addLayer
    using v by (simp add: quiet_def)
qed

lemma wdi_setup_frame_ready:
  assumes ok: "wdi_inputs_ok s layers cs planes"
    and t: "t = wdi_setup layers cs planes (Some crtc) flag scale mode s"
  shows "frame_ready t"
proof -
  note o = ok [unfolded wdi_inputs_ok_def]
  then have layers: "layers_ok s layers" and old: "\<forall>f \<in> set layers. f < next_fb s"
    and video: "plane_sel HWC_VIDEO_PLANE planes \<noteq> []" and osd: "plane_sel OSD_PLANE planes \<noteq> []" by simp_all
  have c: "wdi_collected layers cs planes s t"
    unfolding t by (rule wdi_setup_collected) (use layers in \<open>simp add: layers_ok_def\<close>)
  note f = c [unfolded wdi_collected_def]
  obtain d where d: "mDummyComposer t = Some d" "composers t d = DummyComposer"
    using first_of_some [of cs "composers s" MESON_COMPOSITION_DUMMY] o f by (auto simp: dummy_type)
  obtain e where e: "mClientComposer t = Some e" "composer_getType (composers t e) = MESON_COMPOSITION_CLIENT"
    using first_of_some [of cs "composers s" MESON_COMPOSITION_CLIENT] o f by auto
  obtain g where g: "g \<in> set cs" "mDiComposer t = Some g" "composer_getType (composers t g) = MESON_COMPOSITION_DI"
    using first_of_some [of cs "composers s" MESON_COMPOSITION_DI] o f by auto
  have di: "di_ready t (length (mHwcVideoPlanes t) - 1)" using g o f by (simp add: di_ready_def)
  have ids: "fbs_wf t" "distinct (fb_ids t)" "set (fb_ids t) = set layers"
    using wdi_setup_ids [OF layers c] .
  have "length (fb_ids t) \<le> length layers" using ids card_length [of layers] distinct_card by metis
  then have len: "int (length (mFramebuffers t)) < 2 ^ 31" using layers by (simp add: layers_ok_def)
  have crtc: "mCrtc t \<noteq> None" using wdi_setup_keeps unfolding t by simp
  have vr: "video_ready t" unfolding t by (rule wdi_setup_video_ready [OF layers old video])
  have "dummy_ready t" using d by (auto simp: dummy_ready_def)
  moreover have "\<exists>c. mClientComposer t = Some c \<and> composer_getType (composers t c) = MESON_COMPOSITION_CLIENT"
    using e by blast
  moreover have "range_unset t" "mDisplayRefFb t = None" "mOverlayFbs t = []" "mComposerFbs t = []"
    "mComposer t = None" "mHDRMode t" "\<not> mInsideVideoFbsFlag t" "mOtherComposers t = []"
    "mOsdPlanes t \<noteq> []" "\<forall>z. z \<le> INVALID t"
    using f osd o by simp_all
  ultimately have "gfx_ready t" using ids(1) crtc len unfolding gfx_ready_def by blast
  then show ?thesis using vr di f by (simp add: frame_ready_def)
qed

lemma gfx_ready_step:
  assumes g: "gfx_ready s" and v: "video_ready s" and st: "video_step s p" and re: "retyped p q"
  shows "gfx_ready q"
proof -
  note f = video_step_fields [OF st] and r = retyped_fields [OF re] and g' = g [unfolded gfx_ready_def]
  have z: "zorder_of q f = zorder_of s f" if "f \<in> set (fb_ids s)" for f
  proof -
    have "f < next_fb s" using v that by (simp add: video_ready_def)
    then show ?thesis using video_step_zorder [OF st] r by simp
  qed
  have "fbs_wf q"
  proof -
    have "\<forall>e \<in> set (mFramebuffers s). zorder_of q (snd e) = zorder_of s (snd e)" using z by (simp add: fb_ids_def)
    moreover have "mFramebuffers q = mFramebuffers s" "plat q = plat s" using f r by simp_all
    ultimately show ?thesis using g' unfolding fbs_wf_def by metis
  qed
  moreover have "composers_kept (composers s) (composers q)" using video_step_store [OF st] r by simp
  then have "composer_getType (composers q c) = composer_getType (composers s c)" for c
    by (simp add: composers_kept_def)
  then have "dummy_ready q" "\<exists>c. mClientComposer q = Some c \<and> composer_getType (composers q c) = MESON_COMPOSITION_CLIENT"
    using g' f r by (auto simp: dummy_ready_def dummy_type [symmetric])
  moreover have "range_unset q" using g' f r by (simp add: range_unset_def)
  ultimately show ?thesis using g' unfolding gfx_ready_def f r by blast
qed

section \<open>The decision as a whole\<close>

definition client_kept :: "wdi_state \<Rightarrow> wdi_state \<Rightarrow> bool" where
  "client_kept t r \<longleftrightarrow> (\<forall>c. mComposer r = Some c \<longrightarrow> mClientComposer t = Some c
     \<and> composer_getType (composers r c) = MESON_COMPOSITION_CLIENT
     \<and> composer_getOutput (composers r c) 0 = composer_getOutput (composers t c) 0)"

definition frame_decided :: "wdi_state \<Rightarrow> wdi_state \<Rightarrow> bool" where
  "frame_decided t r \<longleftrightarrow> (\<forall>f \<in> set (fb_ids t). ctype_of r f \<noteq> MESON_COMPOSITION_UNDETERMINED)
     \<and> mset (map pair_plane (mDisplayPairs r)) + mset (idle_planes r) = mset (idle_planes t)
     \<and> mOtherPlanes r = mOtherPlanes t \<and> set (mOsdPlanes r) \<subseteq> set (mOsdPlanes t)
     \<and> set (mHwcVideoPlanes r) \<subseteq> set (mHwcVideoPlanes t)
     \<and> quiet t r \<and> plat r = plat t \<and> mCrtc r = mCrtc t \<and> mWhiteBoardMode r = mWhiteBoardMode t
     \<and> client_kept t r
     \<and> (\<forall>p \<in> set (mDisplayPairs r). ctype_of r (pair_fb p) = MESON_COMPOSITION_DI \<longrightarrow>
          (\<exists>c. mDiComposer r = Some c \<and> startable_at (composers r c) (mVideoPlaneNum r - 1)))
     \<and> (\<forall>f < next_fb t. isVtBuffer (fbs r f) = isVtBuffer (fbs t f))
     \<and> ((\<forall>f < next_fb t. isVtBuffer (fbs t f) \<longrightarrow> mFbType (fbs t f) = DRM_FB_VIDEO_TUNNEL_SIDEBAND)
        \<longrightarrow> (\<forall>p \<in> set (mDisplayPairs r). isVtBuffer (fbs r (pair_fb p))
          \<longrightarrow> ctype_of r (pair_fb p) \<notin> {MESON_COMPOSITION_DI, MESON_COMPOSITION_CLIENT}))"

lemma wdi_videoLayerZorders_keys: "pair_keys (wdi_videoLayerZorders h single m n ps) = pair_keys ps"
  by (induction h single m n ps rule: wdi_videoLayerZorders.induct) (auto simp: pair_keys_def Let_def)

text \<open>The z-orders that are computed last leave everything else of the outcome as it is.\<close>

lemma zorders_last:
  "\<exists>ps. wdi_handleDisplayLayerZorder (wdi_handleOverlayVideoZorder u) = u\<lparr>mDisplayPairs := ps\<rparr>
     \<and> pair_keys ps = pair_keys (mDisplayPairs u)"
proof -
  let ?v = "wdi_handleOverlayVideoZorder u"
  have v: "?v = u\<lparr>mDisplayPairs := mDisplayPairs ?v\<rparr>" "pair_keys (mDisplayPairs ?v) = pair_keys (mDisplayPairs u)"
    using handleOverlayVideoZorder_keys [of u]
    by (simp_all add: wdi_handleOverlayVideoZorder_def handleOverlayVideoZorder_def)
  obtain mx qs where qs: "osdLayerZorders (INVALID ?v) (INVALID ?v) (mDisplayPairs ?v) = (mx, qs)" by fastforce
  let ?ps = "wdi_videoLayerZorders (fbs ?v) (length (mDisplayPairs ?v) = 1) mx 0 qs"
  have "wdi_handleDisplayLayerZorder ?v = ?v\<lparr>mDisplayPairs := ?ps\<rparr>"
    by (simp add: wdi_handleDisplayLayerZorder_def qs)
  also have "\<dots> = u\<lparr>mDisplayPairs := ?ps\<rparr>" by (subst v(1)) simp
  finally have "wdi_handleDisplayLayerZorder ?v = u\<lparr>mDisplayPairs := ?ps\<rparr>" .
  moreover have "pair_keys ?ps = pair_keys (mDisplayPairs u)"
    using osdLayerZorders_keys [OF qs] v(2) by (simp add: wdi_videoLayerZorders_keys)
  ultimately show ?thesis by blast
qed

lemma wdi_more:
  assumes "osd_state.more (u :: wdi_state) = osd_state.more p"
  shows "mHwcVideoPlanes u = mHwcVideoPlanes p" "mVideoPlaneNum u = mVideoPlaneNum p"
    "mDiComposer u = mDiComposer p" "mWhiteBoardMode u = mWhiteBoardMode p"
  using assms by (cases u; cases p; simp)+

lemma only_types_vt: "only_types h h' \<Longrightarrow> isVtBuffer (h' f) = isVtBuffer (h f)"
  by (auto simp: only_types_def)

lemma osd_composer_client:
  assumes d: "osd_decided b u" and other: "mOtherComposers b = []"
    and client: "mClientComposer b = Some e" "composer_getType (composers b e) = MESON_COMPOSITION_CLIENT"
  shows "mComposer u = Some c \<Longrightarrow> c = e \<and> composer_getType (composers u c) = MESON_COMPOSITION_CLIENT
      \<and> composer_getOutput (composers u c) 0 = composer_getOutput (composers b c) 0"
    and "f \<in> set (mComposerFbs u) \<Longrightarrow> ctype_of u f = MESON_COMPOSITION_CLIENT \<and> f \<in> set (ui_of b)"
proof -
  have oc: "osd_composer b u" and ot: "osd_types b u" using d by (simp_all add: osd_decided_def)
  have co: "c = e \<and> composer_getType (composers u c) = MESON_COMPOSITION_CLIENT" if "mComposer u = Some c" for c
  proof -
    have "mComposerFbs u \<noteq> []" using oc that by (auto simp: osd_composer_def split: if_splits)
    then show ?thesis using oc that other client by (auto simp: osd_composer_def)
  qed
  then show "mComposer u = Some c \<Longrightarrow> c = e \<and> composer_getType (composers u c) = MESON_COMPOSITION_CLIENT
      \<and> composer_getOutput (composers u c) 0 = composer_getOutput (composers b c) 0"
    using d unfolding osd_decided_def by blast
  assume f: "f \<in> set (mComposerFbs u)"
  then have "mComposerFbs u \<noteq> []" by auto
  then obtain c where "mComposer u = Some c" using oc by (auto simp: osd_composer_def)
  then have "composer_getType (composers u (the (mComposer u))) = MESON_COMPOSITION_CLIENT"
    using co by auto
  then have "ctype_of u f = MESON_COMPOSITION_CLIENT" using ot f by (simp add: osd_types_def)
  moreover have "f \<in> set (ui_of b)" using oc f by (auto simp: osd_composer_def)
  ultimately show "ctype_of u f = MESON_COMPOSITION_CLIENT \<and> f \<in> set (ui_of b)" by simp
qed

text \<open>A pair of the outcome shows a video, or a ui framebuffer.\<close>

lemma outcome_pair:
  assumes d: "osd_decided b u" and other: "mOtherComposers b = []"
    and client: "mClientComposer b = Some e" "composer_getType (composers b e) = MESON_COMPOSITION_CLIENT"
    and re: "retyped p b" and ok: "\<forall>q \<in> set (mDisplayPairs p). video_pair_ok p q"
    and q: "q \<in> set (mDisplayPairs u)"
  shows "video_pair_ok p q \<and> (ctype_of u (pair_fb q) = ctype_of p (pair_fb q)
        \<or> ctype_of u (pair_fb q) = MESON_COMPOSITION_DUMMY)
    \<or> pair_fb q \<in> set (ui_of b) \<and> (ctype_of u (pair_fb q) = MESON_COMPOSITION_CLIENT
        \<or> ctype_of u (pair_fb q) = MESON_COMPOSITION_PLANE_OSD)"
proof -
  have ot: "osd_types b u" and op: "osd_planes b u" using d by (simp_all add: osd_decided_def)
  let ?f = "pair_fb q"
  have split: "mDisplayPairs u = mDisplayPairs p @ osd_added b u"
    using op retyped_fields [OF re] by (simp add: osd_planes_def)
  show ?thesis
  proof (cases "q \<in> set (mDisplayPairs p)")
    case True
    then have v: "video_pair_ok p q" using ok by simp
    then have nui: "\<not> is_ui (ctype_of p ?f)" by (simp add: video_pair_ok_def)
    from retyped_type [OF re nui]
    have bt: "ctype_of b ?f = ctype_of p ?f \<or> ctype_of b ?f = MESON_COMPOSITION_DUMMY" .
    then have "?f \<notin> set (ui_of b)" using nui by (auto simp: ui_of_def)
    moreover from this have "?f \<notin> set (mComposerFbs u)"
      using osd_composer_client(2) [OF d other client] by blast
    ultimately have "ctype_of u ?f = ctype_of b ?f" using ot by (simp add: osd_types_def)
    with bt v show ?thesis by auto
  next
    case False
    with q split have "q \<in> set (osd_added b u)" by simp
    then have ui: "?f \<in> set (ui_of b)" using op by (auto simp: osd_planes_def)
    show ?thesis
    proof (cases "?f \<in> set (mComposerFbs u)")
      case True
      then show ?thesis using ui osd_composer_client(2) [OF d other client] by blast
    next
      case False
      then show ?thesis using ui ot by (simp add: osd_types_def)
    qed
  qed
qed

lemma osd_decided_frame:
  assumes ready: "frame_ready t" and vd: "video_done t p" and d: "osd_decided (wdi_base p) u"
    and keys: "pair_keys ps = pair_keys (mDisplayPairs u)"
  shows "frame_decided t (u\<lparr>mDisplayPairs := ps\<rparr>)"
proof -
  define b where "b = wdi_base p"
  note d = d [folded b_def]
  have re: "retyped p b" unfolding b_def by (rule base_retyped)
  note rf = retyped_fields [OF re]
  have st: "video_step t p" using vd by (simp add: video_done_def)
  note vf = video_step_fields [OF st] and vs = video_step_store [OF st]
  have g: "gfx_ready t" and none: "mDisplayPairs t = []" and vready: "video_ready t"
    using ready by (simp_all add: frame_ready_def)
  obtain e where e: "mClientComposer t = Some e" "composer_getType (composers t e) = MESON_COMPOSITION_CLIENT"
    using g by (auto simp: gfx_ready_def)
  have kept: "composers_kept (composers t) (composers b)" using vs(3) rf(2) by simp
  have be: "mClientComposer b = Some e" "composer_getType (composers b e) = MESON_COMPOSITION_CLIENT"
    using e vf rf kept by (simp_all add: composers_kept_def)
  have other: "mOtherComposers b = []" using g vf rf by (simp add: gfx_ready_def)
  have pairs: "map pair_plane (mDisplayPairs p) @ mHwcVideoPlanes p = mHwcVideoPlanes t"
    and pok: "\<forall>q \<in> set (mDisplayPairs p). video_pair_ok p q"
    using vd none by (auto simp: video_done_def)
  note comp = osd_composer_client [OF d other be] and pair = outcome_pair [OF d other be re pok]
  have ot: "osd_types b u" and op: "osd_planes b u" and ou: "only_types (fbs b) (fbs u)" and q: "quiet b u"
    and same: "plat u = plat b" "mCrtc u = mCrtc b"
      "\<forall>d. Some d \<noteq> mComposer u \<and> Some d \<noteq> mClientComposer b \<longrightarrow> composers u d = composers b d"
    using d by (simp_all add: osd_decided_def)
  have more: "osd_state.more u = osd_state.more p" "mOtherPlanes u = mOtherPlanes p"
    using op rf by (simp_all add: osd_planes_def)
  note mf = wdi_more [OF more(1)]
  have ids: "fb_ids b = fb_ids t" using vf rf by simp
  have types: "ctype_of u f \<noteq> MESON_COMPOSITION_UNDETERMINED" if "f \<in> set (fb_ids t)" for f
  proof (cases "f \<in> set (mComposerFbs u)")
    case True
    then show ?thesis using comp(2) by simp
  next
    case False
    then show ?thesis using ot that ids by (auto simp: osd_types_def ui_of_def is_ui_def)
  qed
  have planes: "map pair_plane ps = map pair_plane (mDisplayPairs u)" by (rule pair_keys_planes [OF keys])
  have fbsp: "map pair_fb ps = map pair_fb (mDisplayPairs u)"
  proof -
    have "map (fst \<circ> snd) (pair_keys ps) = map (fst \<circ> snd) (pair_keys (mDisplayPairs u))" by (simp only: keys)
    then show ?thesis by (simp add: pair_keys_def o_def)
  qed
  have "mset (map pair_plane (mDisplayPairs u)) + mset (mOsdPlanes u) =
      mset (map pair_plane (mDisplayPairs p)) + mset (mOsdPlanes t)"
    using osd_planes_mset [OF op] rf vf by simp
  moreover have "mset (mHwcVideoPlanes t) = mset (map pair_plane (mDisplayPairs p)) + mset (mHwcVideoPlanes p)"
    by (simp only: pairs [symmetric] mset_append)
  ultimately have all: "mset (map pair_plane ps) + mset (idle_planes (u\<lparr>mDisplayPairs := ps\<rparr>)) = mset (idle_planes t)"
    using more mf vf planes by (simp add: idle_planes_def ac_simps)
  have osd: "set (mOsdPlanes u) \<subseteq> set (mOsdPlanes t)"
  proof -
    have "mOsdPlanes u = (if osd_added b u = [] then mOsdPlanes b
        else drop (length (osd_added b u)) (primaryFirst (mOsdPlanes b)))"
      using op by (simp only: osd_planes_def)
    moreover have "set (primaryFirst (mOsdPlanes b)) = set (mOsdPlanes b)"
      by (metis mset_primaryFirst set_mset_mset)
    ultimately have "set (mOsdPlanes u) \<subseteq> set (mOsdPlanes b)"
      using set_drop_subset by (metis order_refl)
    moreover have "mOsdPlanes b = mOsdPlanes t" using rf(5) vf(9) by simp
    ultimately show ?thesis by simp
  qed
  have white: "mWhiteBoardMode p = mWhiteBoardMode t"
    using st unfolding video_step_def by (elim conjE exE) simp
  have hwc: "set (mHwcVideoPlanes u) \<subseteq> set (mHwcVideoPlanes t)" unfolding mf pairs [symmetric] by simp
  have qt: "quiet t u"
    using quiet_trans [OF vs(4), of u] q rf(10) by (simp add: quiet_def)
  have client: "client_kept t (u\<lparr>mDisplayPairs := ps\<rparr>)"
  proof -
    have "mClientComposer t = Some c \<and> composer_getType (composers u c) = MESON_COMPOSITION_CLIENT
        \<and> composer_getOutput (composers u c) 0 = composer_getOutput (composers t c) 0"
      if "mComposer u = Some c" for c
    proof -
      note cc = comp(1) [OF that]
      then have "composer_getOutput (composers b c) = composer_getOutput (composers t c)"
        using kept e by (simp add: composers_kept_def)
      then show ?thesis using cc e by auto
    qed
    then show ?thesis by (simp add: client_kept_def)
  qed
  have pair': "\<exists>q' \<in> set (mDisplayPairs u). pair_fb q' = pair_fb q" if "q \<in> set ps" for q
  proof -
    have "pair_fb q \<in> set (map pair_fb ps)" using that by simp
    then show ?thesis unfolding fbsp by auto
  qed
  have di: "\<exists>c. mDiComposer u = Some c \<and> startable_at (composers u c) (mVideoPlaneNum u - 1)"
    if q: "q \<in> set ps" "ctype_of u (pair_fb q) = MESON_COMPOSITION_DI" for q
  proof -
    from pair' [OF q(1)] obtain q' where q': "q' \<in> set (mDisplayPairs u)" "pair_fb q' = pair_fb q" by blast
    then have "video_pair_ok p q'" "ctype_of p (pair_fb q') = MESON_COMPOSITION_DI"
      using pair [OF q'(1)] q(2) by auto
    then obtain c where c: "mDiComposer p = Some c" "composer_getType (composers p c) = MESON_COMPOSITION_DI"
      "startable_at (composers p c) (mVideoPlaneNum p - 1)" by (auto simp: video_pair_ok_def)
    have "c \<noteq> e" using c(2) be(2) rf(2) by auto
    then have "Some c \<noteq> mComposer u" "Some c \<noteq> mClientComposer b" using comp(1) be(1) by force+
    then have "composers u c = composers p c" using same(3) rf(2) by simp
    then show ?thesis using c mf by simp
  qed
  have vt: "isVtBuffer (fbs u f) = isVtBuffer (fbs p f)" for f
    using only_types_vt [OF ou] only_types_vt [OF rf(23)] by simp
  have tunnel: "ctype_of u (pair_fb q) \<notin> {MESON_COMPOSITION_DI, MESON_COMPOSITION_CLIENT}"
    if typed: "\<forall>f < next_fb t. isVtBuffer (fbs t f) \<longrightarrow> mFbType (fbs t f) = DRM_FB_VIDEO_TUNNEL_SIDEBAND"
      and q: "q \<in> set ps" "isVtBuffer (fbs u (pair_fb q))" for q
  proof -
    from pair' [OF q(1)] obtain q' where q': "q' \<in> set (mDisplayPairs u)" "pair_fb q' = pair_fb q" by blast
    let ?f = "pair_fb q'"
    have vtp: "isVtBuffer (fbs p ?f)" using q(2) q'(2) vt by simp
    show ?thesis using pair [OF q'(1)]
    proof
      assume "video_pair_ok p q' \<and> (ctype_of u ?f = ctype_of p ?f \<or> ctype_of u ?f = MESON_COMPOSITION_DUMMY)"
      then show ?thesis using vtp q'(2) by (auto simp: video_pair_ok_def is_ui_def)
    next
      assume "?f \<in> set (ui_of b) \<and> (ctype_of u ?f = MESON_COMPOSITION_CLIENT \<or> ctype_of u ?f = MESON_COMPOSITION_PLANE_OSD)"
      then have f: "?f \<in> set (fb_ids t)" and ui: "is_ui (ctype_of b ?f)" by (auto simp: ui_of_def ids)
      have old: "?f < next_fb t" using vready f by (simp add: video_ready_def)
      have "isVtBuffer (fbs t ?f)" using vtp types_below_fields(7) [OF vs(1) old] by simp
      then have "is_video_kind (mFbType (fbs t ?f)) \<noteq> None" using typed old by simp
      then have nui: "\<not> is_ui (ctype_of p ?f)" using vd f by (auto simp: video_done_def)
      have "\<not> is_ui (ctype_of b ?f)" using retyped_type [OF re nui] nui by auto
      with ui show ?thesis by simp
    qed
  qed
  show ?thesis
    unfolding frame_decided_def
  proof (intro conjI)
    show "\<forall>f \<in> set (fb_ids t). ctype_of (u\<lparr>mDisplayPairs := ps\<rparr>) f \<noteq> MESON_COMPOSITION_UNDETERMINED"
      using types by simp
    show "\<forall>f < next_fb t. isVtBuffer (fbs (u\<lparr>mDisplayPairs := ps\<rparr>) f) = isVtBuffer (fbs t f)"
      using vt types_below_fields(7) [OF vs(1)] by simp
    show "mOtherPlanes (u\<lparr>mDisplayPairs := ps\<rparr>) = mOtherPlanes t" using more(2) vf(10) by simp
    show "plat (u\<lparr>mDisplayPairs := ps\<rparr>) = plat t" "mCrtc (u\<lparr>mDisplayPairs := ps\<rparr>) = mCrtc t"
      using same(1,2) rf(1,20) vf(1,8) by simp_all
    show "mWhiteBoardMode (u\<lparr>mDisplayPairs := ps\<rparr>) = mWhiteBoardMode t" using white mf(4) by simp
  qed (use all client osd hwc qt di tunnel in \<open>simp_all add: quiet_def\<close>)
qed

lemma wdi_decide_empty:
  assumes ready: "frame_ready t" and empty: "mFramebuffers t = []"
  shows "okE (wdi_decideComposition t) (frame_decided t)"
proof -
  have g: "gfx_ready t" and none: "mDisplayPairs t = []" using ready by (simp_all add: frame_ready_def)
  then obtain e where e: "mClientComposer t = Some e" "composer_getType (composers t e) = MESON_COMPOSITION_CLIENT"
    and mc: "mComposer t = None" by (auto simp: gfx_ready_def)
  obtain ov out where c: "composers t e = ClientComposer ov out" using e(2) by (cases "composers t e") auto
  let ?r = "t\<lparr>composers := (composers t)(e := ClientComposer [] None),
      events := events t @ [ComposerPrepare e, ComposerSetOutput e None 1]\<rparr>"
  have "wdi_decideComposition t = Inr ?r"
    using empty e(1) c
    by (simp add: wdi_decideComposition_def call_prepare_def log_event_def call_setOutput_def)
  moreover have "quiet t ?r"
    by (rule quietI [of _ _ "[ComposerPrepare e, ComposerSetOutput e None 1]"]) simp_all
  then have "frame_decided t ?r"
    using none mc empty by (simp add: frame_decided_def client_kept_def idle_planes_def fb_ids_def)
  ultimately show ?thesis by simp
qed

lemma wdi_decide_frame:
  assumes ready: "frame_ready t"
  shows "okE (wdi_decideComposition t) (frame_decided t)"
proof (cases "mFramebuffers t = []")
  case True
  with ready show ?thesis by (rule wdi_decide_empty)
next
  case False
  have g: "gfx_ready t" and v: "video_ready t" and di: "di_ready t (length (mHwcVideoPlanes t) - 1)"
    using ready by (simp_all add: frame_ready_def)
  have step: "okE (bindE (processGfxFbs (wdi_applyCompositionFlags p)) (\<lambda>s.
      Inr (wdi_handleDisplayLayerZorder (wdi_handleOverlayVideoZorder s)))) (frame_decided t)"
    if vd: "video_done t p" for p
  proof -
    have "gfx_ready (wdi_applyCompositionFlags p)"
      unfolding wdi_applyCompositionFlags_def
      by (rule gfx_ready_step [OF g v _ applyCompositionFlags_retyped]) (use vd in \<open>simp add: video_done_def\<close>)
    from processGfxFbs_decided [OF this, folded wdi_base_def] show ?thesis
      unfolding okE_bindE
    proof (rule okE_mono)
      fix u assume u: "osd_decided (wdi_base p) u"
      obtain ps where "wdi_handleDisplayLayerZorder (wdi_handleOverlayVideoZorder u) = u\<lparr>mDisplayPairs := ps\<rparr>"
        "pair_keys ps = pair_keys (mDisplayPairs u)" using zorders_last by blast
      with osd_decided_frame [OF ready vd u] show "okE (Inr (wdi_handleDisplayLayerZorder
          (wdi_handleOverlayVideoZorder u))) (frame_decided t)" by simp
    qed
  qed
  show ?thesis
    unfolding wdi_decideComposition_def if_not_P [OF False] okE_bindE [of "processVideoFbs _"]
    by (rule okE_mono [OF processVideoFbs_video_done [OF v di] step])
qed

section \<open>Committing it\<close>

text \<open>
  The framebuffers fed by a video tunnel: they are layers of the type the tunnel gives them, and
  the client target is none of them.
\<close>

definition tunnel_layers_ok :: "wdi_state \<Rightarrow> cid list \<Rightarrow> bool" where
  "tunnel_layers_ok s cs \<longleftrightarrow>
     (\<forall>f < next_fb s. isVtBuffer (fbs s f) \<longrightarrow> mFbType (fbs s f) = DRM_FB_VIDEO_TUNNEL_SIDEBAND)
     \<and> (\<forall>c \<in> set cs. \<forall>g. composer_getType (composers s c) = MESON_COMPOSITION_CLIENT
          \<and> composer_getOutput (composers s c) 0 = Inr (Some g) \<longrightarrow> g < next_fb s \<and> \<not> isVtBuffer (fbs s g))"

lemma frame_commit_ready:
  assumes d: "frame_decided t r" and crtc: "mCrtc t \<noteq> None" and wb: "\<not> mWhiteBoardMode t"
  shows "wdi_commit_ready r"
proof -
  have "startable_at (composers r c) 0" if "mComposer r = Some c" for c
    using d that by (cases "composers r c") (auto simp: frame_decided_def client_kept_def startable_at_def)
  then show ?thesis using d crtc wb by (simp add: wdi_commit_ready_def frame_decided_def)
qed

lemma frame_tunnel_pairs:
  assumes ready: "frame_ready t" and d: "frame_decided t r" and tl: "tunnel_layers_ok t cs"
    and cs: "set_option (mClientComposer t) \<subseteq> set cs"
  shows "tunnel_pairs_ok r"
proof -
  have typed: "\<forall>f < next_fb t. isVtBuffer (fbs t f) \<longrightarrow> mFbType (fbs t f) = DRM_FB_VIDEO_TUNNEL_SIDEBAND"
    using tl by (simp add: tunnel_layers_ok_def)
  have ck: "client_kept t r" using d by (simp add: frame_decided_def)
  have pairs: "ctype_of r (pair_fb p) \<notin> {MESON_COMPOSITION_DI, MESON_COMPOSITION_CLIENT}"
    if "p \<in> set (mDisplayPairs r)" "isVtBuffer (fbs r (pair_fb p))" for p
    using d typed that by (simp add: frame_decided_def)
  have "\<not> isVtBuffer (fbs r g)" if g: "wdi_output r = Some g" for g
  proof -
    from g obtain c where c: "mComposer r = Some c" "composer_getOutput (composers r c) 0 = Inr (Some g)"
      by (auto simp: wdi_output_def split: option.splits sum.splits)
    then have "mClientComposer t = Some c" "composer_getOutput (composers t c) 0 = Inr (Some g)"
      using ck by (auto simp: client_kept_def)
    moreover from this have "composer_getType (composers t c) = MESON_COMPOSITION_CLIENT" "c \<in> set cs"
      using ready cs by (auto simp: frame_ready_def gfx_ready_def)
    ultimately have "g < next_fb t" "\<not> isVtBuffer (fbs t g)" using tl by (auto simp: tunnel_layers_ok_def)
    then show ?thesis using d by (simp add: frame_decided_def)
  qed
  then show ?thesis using pairs ck by (auto simp: tunnel_pairs_ok_def client_kept_def)
qed

text \<open>
  The commit of a frame: where a video tunnel feeds one of its pairs, its thread follows.
  \<open>frame_planes\<close> are the planes of the frame and, once more, those of the interrupted pairs.
\<close>

lemma commit_frame_planes:
  assumes ready: "wdi_commit_ready r" and ok: "tunnel_pairs_ok r"
    and other: "\<forall>p \<in> set (mOtherPlanes r) \<union> set (mOsdPlanes r). plane_type p \<noteq> HWC_VIDEO_PLANE"
    and video: "\<forall>p \<in> set (mHwcVideoPlanes r). plane_type p = HWC_VIDEO_PLANE"
  shows "okE (wdi_commit r) (\<lambda>(rc, t). \<exists>es. events t = events r @ es
    \<and> (if any_tunnel r
       then okE (wdi_commitTunnelVideo t) (\<lambda>(ret, u). \<exists>es'. events u = events t @ es'
         \<and> (if ret = 0 then mset (planes_set (es @ es')) = frame_planes r es
             else mset (planes_set (es @ es')) \<subseteq># frame_planes r es))
       else mset (planes_set es) =
         image_mset plane_id (mset (map pair_plane (mDisplayPairs r)) + mset (idle_planes r))))"
proof (cases "any_tunnel r")
  case True
  then show ?thesis using commit_then_tunnel [OF ready ok True other video] by simp
next
  case False
  then have no: "\<forall>p \<in> set (mDisplayPairs r). \<not> tunnel_pair (wdi_output r) r p"
    by (auto simp: any_tunnel_def has_tunnel_def)
  then have "tunnel_pairs r = []" by (simp add: tunnel_pairs_def filter_empty_conv)
  moreover have "commit_planes r = mset (map pair_plane (mDisplayPairs r)) + mset (idle_planes r)"
    using False no by (simp add: commit_planes_def filter_id_conv [THEN iffD2])
  ultimately have "mset (planes_set es) = image_mset plane_id (mset (map pair_plane (mDisplayPairs r)) + mset (idle_planes r))"
    if "wdi_committed r es" for es using that by (simp add: wdi_committed_def)
  with False show ?thesis
    by (intro okE_mono [OF wdi_commit_done [OF ready]]) (auto simp: commit_step_fields(3))
qed

lemma plane_sel_type: "p \<in> set (plane_sel ty ps) \<Longrightarrow> plane_type p = ty"
  by (auto simp: plane_sel_def)

lemma plane_lists:
  "mset (plane_others ps @ plane_sel HWC_VIDEO_PLANE ps @ plane_sel OSD_PLANE ps) = mset (filter plane_available ps)"
  by (induction ps) (auto simp: plane_sel_def plane_others_def)

section \<open>The properties\<close>

lemma demo_inputs_ok:
  "wdi_inputs_ok video_blank [10, 11, 12, 14, 15] [0, 1, 2] (video_planes 2)"
proof -
  have "plane_sel HWC_VIDEO_PLANE (video_planes 2) = [demo_plane 10 HWC_VIDEO_PLANE, demo_plane 11 HWC_VIDEO_PLANE]"
    "plane_sel OSD_PLANE (video_planes 2) \<noteq> []"
    by (simp_all add: video_planes_def plane_sel_def demo_plane_def upt_rec)
  then show ?thesis using demo_layers_ok(1)
    by (simp add: wdi_inputs_ok_def video_blank_def video_composers_def demo_platform_def word_order.extremum)
qed

text \<open>C10
  Whatever the layers are, \<open>decideComposition\<close> after \<open>setup\<close> returns: no assertion fails, nothing is
  read out of range or through a null pointer. Every layer has a composition type then, every plane
  is either in one pair or left over, and the composer, if one is needed, is the client composer.
\<close>

theorem wdi_decide_total:
  assumes ok: "wdi_inputs_ok s layers cs planes"
  shows "okE (wdi_decideComposition (wdi_setup layers cs planes (Some crtc) flag scale mode s)) (\<lambda>t.
     (\<forall>f \<in> set layers. ctype_of t f \<noteq> MESON_COMPOSITION_UNDETERMINED)
     \<and> mset (map pair_plane (mDisplayPairs t)) + mset (idle_planes t) = mset (filter plane_available planes)
     \<and> (\<forall>c. mComposer t = Some c \<longrightarrow> composer_getType (composers t c) = MESON_COMPOSITION_CLIENT))"
proof -
  define t where "t = wdi_setup layers cs planes (Some crtc) flag scale mode s"
  have ready: "frame_ready t" by (rule wdi_setup_frame_ready [OF ok t_def])
  have layers: "layers_ok s layers" using ok by (simp add: wdi_inputs_ok_def)
  have c: "wdi_collected layers cs planes s t"
    unfolding t_def by (rule wdi_setup_collected) (use layers in \<open>simp add: layers_ok_def\<close>)
  have "mset (idle_planes t) = mset (filter plane_available planes)"
    using c plane_lists by (simp add: wdi_collected_def idle_planes_def)
  then show ?thesis
    unfolding t_def [symmetric] wdi_setup_ids(3) [OF layers c, symmetric]
    by (intro okE_mono [OF wdi_decide_frame [OF ready]]) (auto simp: frame_decided_def client_kept_def)
qed

theorem wdi_decide_total_witness:
  "okE (wdi_decideComposition (demo_video [10, 11, 12, 14, 15] 2))
    (\<lambda>t. \<forall>f \<in> {10, 11, 12, 14, 15}. ctype_of t f \<noteq> MESON_COMPOSITION_UNDETERMINED)"
  unfolding demo_video_def by (rule okE_mono [OF wdi_decide_total [OF demo_inputs_ok]]) simp

text \<open>C11
  One frame with the whiteboard off, from \<open>setup\<close> through the decision to the commit. Where no video
  tunnel feeds a pair or the video composer, \<open>commit\<close> programs every available plane exactly once,
  with a framebuffer or blank. Where one does, \<open>commit\<close> and \<open>commitTunnelVideo\<close> share the
  planes: together they program every available plane exactly once, and once more the planes of
  the pairs whose playback \<open>commit\<close> found interrupted (\<open>interruptVtProcess\<close>). When a plane
  refuses its framebuffer, \<open>commitTunnelVideo\<close> returns the error early and may leave planes out.
\<close>

theorem wdi_frame_programs_planes:
  assumes ok: "wdi_inputs_ok s layers cs planes" and tl: "tunnel_layers_ok s cs"
    and wb: "\<not> mWhiteBoardMode s"
  shows "okE (wdi_decideComposition (wdi_setup layers cs planes (Some crtc) flag scale mode s)) (\<lambda>r.
    quiet s r \<and> okE (wdi_commit r) (\<lambda>(rc, t). \<exists>es available stopped. events t = events r @ es
      \<and> available = mset (map plane_id (filter plane_available planes))
      \<and> stopped = mset (map plane_id (map pair_plane
           (stopped_pairs (tunnel_pairs r) (vt_answers (plat r) (events r) es))))
      \<and> (if any_tunnel r
         then okE (wdi_commitTunnelVideo t) (\<lambda>(ret, u). \<exists>es'. events u = events t @ es'
           \<and> (if ret = 0 then mset (planes_set (es @ es')) = available + stopped
               else mset (planes_set (es @ es')) \<subseteq># available + stopped))
         else mset (planes_set es) = available)))"
proof -
  define t where "t = wdi_setup layers cs planes (Some crtc) flag scale mode s"
  have ready: "frame_ready t" by (rule wdi_setup_frame_ready [OF ok t_def])
  have c: "wdi_collected layers cs planes s t"
    unfolding t_def by (rule wdi_setup_collected) (use ok in \<open>simp add: wdi_inputs_ok_def layers_ok_def\<close>)
  note f = c [unfolded wdi_collected_def]
  have k: "mCrtc t = Some crtc" "\<not> mWhiteBoardMode t" "quiet s t"
    using wdi_setup_keeps wb unfolding t_def by simp_all
  have tlt: "tunnel_layers_ok t cs" using tl f by (simp add: tunnel_layers_ok_def)
  have ccs: "set_option (mClientComposer t) \<subseteq> set cs"
    using f by (auto simp: first_of_def find_Some_iff)
  have idle_t: "mset (idle_planes t) = mset (filter plane_available planes)"
    using f plane_lists by (simp add: idle_planes_def)
  show ?thesis unfolding t_def [symmetric]
  proof (rule okE_mono [OF wdi_decide_frame [OF ready]], rule conjI)
    fix r assume d: "frame_decided t r"
    note d' = d [unfolded frame_decided_def]
    have cr: "wdi_commit_ready r" by (rule frame_commit_ready [OF d]) (use k in simp_all)
    have tp: "tunnel_pairs_ok r" by (rule frame_tunnel_pairs [OF ready d tlt ccs])
    have lists: "mOtherPlanes r = plane_others planes" "set (mOsdPlanes r) \<subseteq> set (plane_sel OSD_PLANE planes)"
      "set (mHwcVideoPlanes r) \<subseteq> set (plane_sel HWC_VIDEO_PLANE planes)" using d' f by simp_all
    have other: "\<forall>p \<in> set (mOtherPlanes r) \<union> set (mOsdPlanes r). plane_type p \<noteq> HWC_VIDEO_PLANE"
      using lists(2) unfolding lists(1) by (auto simp: plane_others_def plane_sel_def)
    have video: "\<forall>p \<in> set (mHwcVideoPlanes r). plane_type p = HWC_VIDEO_PLANE"
      using lists(3) by (auto simp: plane_sel_def)
    show "quiet s r" using quiet_trans k(3) d' by blast
    have all: "mset (map pair_plane (mDisplayPairs r)) + mset (idle_planes r) = mset (filter plane_available planes)"
      using d' idle_t by (simp only:)
    then have fp: "frame_planes r es = mset (map plane_id (filter plane_available planes)) +
        mset (map plane_id (map pair_plane
          (stopped_pairs (tunnel_pairs r) (vt_answers (plat r) (events r) es))))" for es
      by (simp only: frame_planes_def image_mset_union mset_map)
    show "okE (wdi_commit r) (\<lambda>(rc, t). \<exists>es available stopped. events t = events r @ es
      \<and> available = mset (map plane_id (filter plane_available planes))
      \<and> stopped = mset (map plane_id (map pair_plane
           (stopped_pairs (tunnel_pairs r) (vt_answers (plat r) (events r) es))))
      \<and> (if any_tunnel r
         then okE (wdi_commitTunnelVideo t) (\<lambda>(ret, u). \<exists>es'. events u = events t @ es'
           \<and> (if ret = 0 then mset (planes_set (es @ es')) = available + stopped
               else mset (planes_set (es @ es')) \<subseteq># available + stopped))
         else mset (planes_set es) = available))"
    proof (rule okE_mono [OF commit_frame_planes [OF cr tp other video, unfolded all fp]], elim case_prodE exE conjE,
        hypsubst, unfold prod.case)
      fix rc t es
      assume "events t = events r @ es" and "if any_tunnel r
         then okE (wdi_commitTunnelVideo t) (\<lambda>(ret, u). \<exists>es'. events u = events t @ es'
           \<and> (if ret = 0 then mset (planes_set (es @ es')) = mset (map plane_id (filter plane_available planes)) +
                 mset (map plane_id (map pair_plane (stopped_pairs (tunnel_pairs r) (vt_answers (plat r) (events r) es))))
               else mset (planes_set (es @ es')) \<subseteq># mset (map plane_id (filter plane_available planes)) +
                 mset (map plane_id (map pair_plane (stopped_pairs (tunnel_pairs r) (vt_answers (plat r) (events r) es))))))
         else mset (planes_set es) = image_mset plane_id (mset (filter plane_available planes))"
      then show "\<exists>es available stopped. events t = events r @ es
        \<and> available = mset (map plane_id (filter plane_available planes))
        \<and> stopped = mset (map plane_id (map pair_plane
             (stopped_pairs (tunnel_pairs r) (vt_answers (plat r) (events r) es))))
        \<and> (if any_tunnel r
           then okE (wdi_commitTunnelVideo t) (\<lambda>(ret, u). \<exists>es'. events u = events t @ es'
             \<and> (if ret = 0 then mset (planes_set (es @ es')) = available + stopped
                 else mset (planes_set (es @ es')) \<subseteq># available + stopped))
           else mset (planes_set es) = available)"
        by (intro exI [of _ es] exI conjI) (assumption | rule refl | simp only: mset_map)+
    qed
  qed
qed

text \<open>
  A frame with a video that a tunnel feeds, whose layer interrupts the playback: the tunnel's plane
  is programmed by both threads.
\<close>

definition tunnel_blank :: wdi_state where
  "tunnel_blank = video_blank\<lparr>plat := interrupting demo_platform,
     fbs := video_store(12 := (video_store 12)\<lparr>isVtBuffer := True\<rparr>)\<rparr>"

definition demo_tunnel_frame :: wdi_state where
  "demo_tunnel_frame = wdi_setup [10, 12, 14] [0, 1, 2] (video_planes 2) (Some 0) 0 1 demo_mode tunnel_blank"

lemma demo_tunnel_ok: "wdi_inputs_ok tunnel_blank [10, 12, 14] [0, 1, 2] (video_planes 2)"
  "tunnel_layers_ok tunnel_blank [0, 1, 2]" "\<not> mWhiteBoardMode tunnel_blank"
proof -
  show "wdi_inputs_ok tunnel_blank [10, 12, 14] [0, 1, 2] (video_planes 2)"
    using demo_inputs_ok
    by (simp add: wdi_inputs_ok_def tunnel_blank_def layers_ok_def video_blank_def interrupting_def
        video_store_def video_fb_def demo_fb_def)
  show "tunnel_layers_ok tunnel_blank [0, 1, 2]" "\<not> mWhiteBoardMode tunnel_blank"
    by (auto simp: tunnel_layers_ok_def tunnel_blank_def video_defs)
qed

lemma demo_tunnel_run:
  "okE (wdi_decideComposition demo_tunnel_frame) (\<lambda>r. any_tunnel r
    \<and> okE (wdi_commit r) (\<lambda>(rc, t). okE (wdi_commitTunnelVideo t) (\<lambda>(ret, u). ret = 0
      \<and> sort (planes_set (events u)) = [0, 1, 5, 10, 10, 11])))"
  by code_simp

theorem wdi_frame_programs_planes_witness:
  "okE (wdi_decideComposition demo_tunnel_frame) (\<lambda>r. any_tunnel r \<and> okE (wdi_commit r) (\<lambda>(rc, t).
     \<exists>es. events t = events r @ es \<and> okE (wdi_commitTunnelVideo t) (\<lambda>(ret, u). ret = 0
       \<and> sort (planes_set (events u)) = [0, 1, 5, 10, 10, 11]
       \<and> (\<exists>es'. events u = events t @ es' \<and> mset (planes_set (es @ es'))
         = mset (map plane_id (filter plane_available (video_planes 2))) + mset (map plane_id (map pair_plane
             (stopped_pairs (tunnel_pairs r) (vt_answers (plat r) (events r) es))))))))"
  using demo_tunnel_run
    wdi_frame_programs_planes [OF demo_tunnel_ok, of 0 0 1 demo_mode, folded demo_tunnel_frame_def]
  by (auto simp: okE_iff)

end
