(* ===== verification/VtModel.thy ===== *)
theory VtModel
  imports DrmModel
begin

text \<open>
  The state of a \<open>Hwc2Layer\<close> (src/hwc2/Hwc2Layer.cpp and .h) and of its base class
  \<open>DrmFramebuffer\<close> (src/common/base/DrmFramebuffer.cpp): the records below have the members
  of the two classes under their own names.

  Every call that leaves the layer is appended to \<open>vt_log\<close>. What it returns is a function of
  the calls made so far, a field of \<open>vt_platform\<close>: the system calls, gralloc, the UVM detach
  library and the tunnel driver are not part of the repository. A \<open>std::shared_ptr\<close> to a
  fence is an \<open>option\<close>; \<open>NO_FENCE\<close> is the shared object the code compares pointers with.
  When the last reference to a fence goes, its descriptor is closed: those closes are not in
  the log. \<open>nsecs_t\<close> values are integers, the sums the code forms of them stay in 64 bits for
  every time a clock returns.
\<close>

section \<open>Enumerations\<close>

datatype vt_video_color_t =
    SOLID_COLOR_FOR_BLACK
  | SOLID_COLOR_FOR_BLUE
  | SOLID_COLOR_FOR_GREEN
  | SOLID_COLOR_FOR_INVALID

text \<open>A status comes from the driver as an integer, so it may be none of the enumerators.\<close>

datatype vt_video_status_t =
    VT_VIDEO_STATUS_BLANK
  | VT_VIDEO_STATUS_HIDE
  | VT_VIDEO_STATUS_SHOW
  | VT_VIDEO_STATUS_COLOR_ONCE
  | VT_VIDEO_STATUS_COLOR_ALWAYS
  | VT_VIDEO_STATUS_COLOR_DISABLE
  | VT_VIDEO_STATUS_HOLD_FRAME
  | VT_VIDEO_STATUS_OTHER int

datatype hwc2_error_t =
    HWC2_ERROR_NONE
  | HWC2_ERROR_BAD_LAYER
  | HWC2_ERROR_BAD_PARAMETER
  | HWC2_ERROR_HAS_CHANGES
  | HWC2_ERROR_NOT_VALIDATED
  | HWC2_ERROR_NO_RESOURCES
  | HWC2_ERROR_UNSUPPORTED
  | HWC2_ERROR_BAD_DISPLAY
  | HWC2_ERROR_BAD_CONFIG

definition EAGAIN :: int where "EAGAIN = 11"

definition EINVAL :: int where "EINVAL = 22"

lemma errno_simps [simp]: "EAGAIN \<noteq> EINVAL" "0 < EAGAIN" "0 < EINVAL" "EAGAIN \<noteq> 0" "EINVAL \<noteq> 0"
  by (simp_all add: EAGAIN_def EINVAL_def)

section \<open>Fences\<close>

datatype drm_fence = NO_FENCE | Fence int

fun fence_fd :: "drm_fence \<Rightarrow> int" where
  "fence_fd NO_FENCE = - 1"
| "fence_fd (Fence fd) = fd"

definition fence_isValid :: "drm_fence \<Rightarrow> bool" where
  "fence_isValid f \<longleftrightarrow> fence_fd f \<noteq> - 1"

section \<open>Calls and their answers\<close>

datatype vt_event =
    Dup int
  | CloseFile int
  | SyncMerge int int
  | RefBuffer nat bool
  | UnlockBuffer nat
  | UnrefBuffer nat bool
  | UvmAttach int
  | UvmDetachBuffers
  | UvmCollect int int
  | UvmReleaseAll
  | UvmGetInfo int
  | AllocSolidBuffer
  | PaintSolidBuffer int "(nat \<times> nat \<times> nat) list"
  | ConnectInstance int nat
  | DisconnectInstance int nat
  | AskRefresh int bool
  | FrameDisplayed nat int int
  | ObserverFrameAvailable nat
  | ObserverRefresh nat

record gralloc_info =
  is_uvm_dma_buffer :: bool
  is_omx_metadata_buffer :: bool
  omx_metadata_tunnel :: "int option"
  is_overlay_buffer :: bool
  is_coherent_buffer :: bool
  is_secure_buffer :: bool
  buffer_width :: int
  buffer_height :: int
  buffer_format :: int

record vt_platform =
  answer :: "vt_event list \<Rightarrow> int"
  gralloc :: "nat \<Rightarrow> gralloc_info"
  gralloc_fd :: "nat option \<Rightarrow> int"
  ref_dma_buf :: "nat \<Rightarrow> bool \<Rightarrow> nat option"
  solid_handle :: "vt_event list \<Rightarrow> nat"
  fstat_ino :: "int \<Rightarrow> nat option"
  map_pixel :: "int \<Rightarrow> (nat \<Rightarrow> nat) option"
  stack_bytes :: "nat \<Rightarrow> nat"
  uvm_info :: "vt_event list \<Rightarrow> int \<times> u32"
  sideband_type :: "nat option \<Rightarrow> int option"
  sideband_channel :: "nat option \<Rightarrow> int option"
  HWC_DISPLAY_EXTERNAL :: nat
  AM_INVALID_SIDEBAND :: int
  AM_TV_SIDEBAND :: int
  AM_FIXED_TUNNEL :: int
  AM_VIDEO_EXTERNAL :: int
  HWC2_COMPOSITION_INVALID :: int
  HWC2_COMPOSITION_CURSOR :: int
  HWC3_COMPOSITION_DECORATION :: int
  HAL_PIXEL_FORMAT_BGRA_8888 :: int
  HAL_PIXEL_FORMAT_RGBA_8888 :: int
  HAL_PIXEL_FORMAT_RGBX_8888 :: int
  HAL_PIXEL_FORMAT_RGB_888 :: int
  HAL_PIXEL_FORMAT_RGB_565 :: int
  HAL_PIXEL_FORMAT_YCrCb_420_SP :: int
  ceilf_ratio :: "int \<Rightarrow> int \<Rightarrow> int \<Rightarrow> int"
  ceilf_scaled :: "int \<Rightarrow> int \<Rightarrow> int \<Rightarrow> int"
  framebuffer_size :: "bool \<Rightarrow> int \<times> int"

text \<open>
  \<open>answer es\<close> is what the last call of \<open>es\<close> returns. \<open>map_pixel fd\<close> is the memory of
  the buffer behind \<open>fd\<close>, \<open>None\<close> where \<open>mmap\<close> fails; \<open>stack_bytes\<close> is what an uninitialised
  local array holds. \<open>uvm_info es\<close> is the type and \<open>(uint32_t)(timestamp / 1e9)\<close> of the last
  query. \<open>ceilf_ratio a b c\<close> is \<open>ceilf((float)a * b / c)\<close> and \<open>ceilf_scaled a b c\<close> is
  \<open>ceilf(a * ((float)b / c))\<close>, in single precision.
\<close>

section \<open>The layer\<close>

record drm_color =
  color_r :: nat
  color_g :: nat
  color_b :: nat
  color_a :: nat

record hwc_frect =
  frect_left :: rat
  frect_top :: rat
  frect_right :: rat
  frect_bottom :: rat

record fb_object =
  mBufferHandle :: "nat option"
  mMapBase :: bool
  mColor :: drm_color
  mFbType :: drm_fb_type
  mSourceCrop :: drm_rect
  mVtSourceCrop :: drm_rect
  mDisplayFrame :: drm_rect
  mVtDisplayFrame :: drm_rect
  mBlendMode :: int
  mPlaneAlpha :: rat
  mTransform :: int
  mZorder :: u32
  mSecure :: bool
  mUpdated :: bool
  mFbHandleUpdated :: bool
  mIsSidebandBuffer :: bool
  mCompositionType :: meson_composition
  mId :: nat
  mReqFlag :: u32
  mHdrMetaData :: "(int \<times> rat) list"
  mAcquireFence :: "drm_fence option"
  mPrevReleaseFence :: "drm_fence option"
  mCurReleaseFence :: "drm_fence option"
  mProcessFence :: "drm_fence option"
  vt_log :: "vt_event list"

record vt_item =
  mItemFd :: int
  mItemTime :: int

record vt_solid_color =
  mBufferFd :: int
  mColorType :: vt_video_color_t
  mSolidColorHandle :: "nat option"

record hwc2_layer = fb_object +
  mDataSpace :: int
  mHwcCompositionType :: int
  mVisibleRegion :: "drm_rect list"
  mDamageRegion :: "drm_rect list"
  mBackupDisplayFrame :: drm_rect
  mDiProcessorFence :: "drm_fence option"
  mUpdateZorder :: bool
  mVtRefreshed :: bool
  mFirstVtBuffer :: bool
  mGameMode :: bool
  mVtUpdate :: bool
  mNeedReleaseVtResource :: bool
  mTunnelIdUpdate :: bool
  mTunnelId :: int
  mVtBufferFd :: int
  mSolidColorBufferfd :: int
  mPreVtBufferFd :: int
  mDifd :: int
  mAMVideoType :: int
  mVideoDecTimestamp :: u32
  mDisplayId :: nat
  mIsVirtualLayer :: bool
  mQueuedFrames :: int
  mTimestamp :: int
  mExpectedPresentTime :: int
  mPreviousTimestamp :: int
  mQueueItems :: "vt_item list"
  mContentListener :: bool
  mVtConsumer :: "nat option"
  consumers_made :: nat
  mVideoDisplayStatus :: vt_video_status_t
  mDisplayObserver :: "nat option"
  mAllocSolidColorBufferHandle :: "vt_solid_color option"
  mUvmDetach :: bool
  mPreUvmBufferFd :: int
  mBrightness :: rat
  mCalibrateInfo :: display_zoom_info
  mPreBufferIno :: nat
  mNeedAskRefresh :: bool

text \<open>
  \<open>mVtConsumer\<close> is the consumer object the layer points to; the layer makes a new one with
  each \<open>make_shared\<close>, \<open>consumers_made\<close> counts them. A \<open>VtBufferItem\<close> of the layer's own
  queue is a descriptor and a time stamp.
\<close>

definition zero_rect :: drm_rect where
  "zero_rect = mk_rect 0 0 0 0"

text \<open>\<open>Hwc2Layer::Hwc2Layer\<close> and the constructor of its base.\<close>

definition hwc2_layer_init :: "vt_platform \<Rightarrow> nat \<Rightarrow> hwc2_layer" where
  "hwc2_layer_init p dispId =
     \<lparr>mBufferHandle = None, mMapBase = False,
      mColor = \<lparr>color_r = 0, color_g = 0, color_b = 0, color_a = 0\<rparr>,
      mFbType = DRM_FB_RENDER, mSourceCrop = zero_rect, mVtSourceCrop = zero_rect,
      mDisplayFrame = zero_rect, mVtDisplayFrame = zero_rect, mBlendMode = 0, mPlaneAlpha = 1,
      mTransform = 0, mZorder = 0xFFFFFFFF, mSecure = False, mUpdated = False,
      mFbHandleUpdated = False, mIsSidebandBuffer = False,
      mCompositionType = MESON_COMPOSITION_UNDETERMINED, mId = 0, mReqFlag = 0,
      mHdrMetaData = [], mAcquireFence = Some NO_FENCE, mPrevReleaseFence = None,
      mCurReleaseFence = None, mProcessFence = None, vt_log = [],
      mDataSpace = 0, mHwcCompositionType = HWC2_COMPOSITION_INVALID p, mVisibleRegion = [],
      mDamageRegion = [], mBackupDisplayFrame = zero_rect, mDiProcessorFence = None,
      mUpdateZorder = False, mVtRefreshed = False, mFirstVtBuffer = False, mGameMode = False,
      mVtUpdate = False, mNeedReleaseVtResource = False, mTunnelIdUpdate = False,
      mTunnelId = - 1, mVtBufferFd = - 1, mSolidColorBufferfd = - 1, mPreVtBufferFd = - 1,
      mDifd = - 1, mAMVideoType = - 1, mVideoDecTimestamp = - 1, mDisplayId = dispId,
      mIsVirtualLayer = False, mQueuedFrames = 0, mTimestamp = - 1, mExpectedPresentTime = 0,
      mPreviousTimestamp = 0, mQueueItems = [], mContentListener = False, mVtConsumer = None,
      consumers_made = 0, mVideoDisplayStatus = VT_VIDEO_STATUS_SHOW, mDisplayObserver = None,
      mAllocSolidColorBufferHandle = None, mUvmDetach = False, mPreUvmBufferFd = - 1,
      mBrightness = - 1, mCalibrateInfo = zero_zoom, mPreBufferIno = 0,
      mNeedAskRefresh = False\<rparr>"

section \<open>Calls of the base class\<close>

definition emit :: "vt_event \<Rightarrow> 'a fb_object_scheme \<Rightarrow> 'a fb_object_scheme" where
  "emit e s = s\<lparr>vt_log := vt_log s @ [e]\<rparr>"

definition ask :: "vt_platform \<Rightarrow> vt_event \<Rightarrow> 'a fb_object_scheme
    \<Rightarrow> int \<times> 'a fb_object_scheme" where
  "ask p e s = (answer p (vt_log s @ [e]), emit e s)"

definition fence_dup :: "vt_platform \<Rightarrow> drm_fence \<Rightarrow> 'a fb_object_scheme
    \<Rightarrow> int \<times> 'a fb_object_scheme" where
  "fence_dup p f s = (if fence_fd f = - 1 then (- 1, s) else ask p (Dup (fence_fd f)) s)"

definition opt_fence_dup :: "vt_platform \<Rightarrow> drm_fence option \<Rightarrow> 'a fb_object_scheme
    \<Rightarrow> int \<times> 'a fb_object_scheme" where
  "opt_fence_dup p x s = (case x of None \<Rightarrow> (- 1, s) | Some f \<Rightarrow> fence_dup p f s)"

definition getPrevReleaseFence :: "vt_platform \<Rightarrow> 'a fb_object_scheme
    \<Rightarrow> int \<times> 'a fb_object_scheme" where
  "getPrevReleaseFence p s = opt_fence_dup p (mPrevReleaseFence s) s"

definition getCurReleaseFence :: "vt_platform \<Rightarrow> 'a fb_object_scheme
    \<Rightarrow> int \<times> 'a fb_object_scheme" where
  "getCurReleaseFence p s = opt_fence_dup p (mCurReleaseFence s) s"

definition getProcessFence :: "vt_platform \<Rightarrow> 'a fb_object_scheme
    \<Rightarrow> int \<times> 'a fb_object_scheme" where
  "getProcessFence p s = opt_fence_dup p (mProcessFence s) s"

definition setAcquireFence :: "int \<Rightarrow> 'a fb_object_scheme \<Rightarrow> 'a fb_object_scheme" where
  "setAcquireFence fd s = s\<lparr>mAcquireFence := Some (Fence fd)\<rparr>"

definition setPrevReleaseFence :: "int \<Rightarrow> 'a fb_object_scheme \<Rightarrow> 'a fb_object_scheme" where
  "setPrevReleaseFence fd s = s\<lparr>mPrevReleaseFence := Some (Fence fd)\<rparr>"

definition setCurReleaseFence :: "int \<Rightarrow> 'a fb_object_scheme \<Rightarrow> 'a fb_object_scheme" where
  "setCurReleaseFence fd s = s\<lparr>mCurReleaseFence := Some (Fence fd)\<rparr>"

definition setProcessFence :: "int \<Rightarrow> 'a fb_object_scheme \<Rightarrow> 'a fb_object_scheme" where
  "setProcessFence fd s = s\<lparr>mProcessFence := Some (Fence fd)\<rparr>"

text \<open>
  \<open>DrmFence::merge\<close>: \<open>sync_merge\<close> is one more call in the log; \<open>-1\<close> is its failure.
\<close>

definition fence_merge :: "('e list \<Rightarrow> int) \<Rightarrow> (int \<Rightarrow> int \<Rightarrow> 'e) \<Rightarrow> drm_fence \<Rightarrow> drm_fence
    \<Rightarrow> 'e list \<Rightarrow> drm_fence \<times> 'e list" where
  "fence_merge ans sync_merge f1 f2 es =
     (if \<not> fence_isValid f1 \<and> \<not> fence_isValid f2 then (NO_FENCE, es)
      else let a = (if fence_isValid f1 then fence_fd f1 else fence_fd f2);
               b = (if fence_isValid f2 then fence_fd f2 else fence_fd f1);
               es1 = es @ [sync_merge a b];
               r = ans es1 in
           (if r = - 1 then NO_FENCE else Fence r, es1))"

definition onLayerDisplayed :: "vt_platform \<Rightarrow> int \<Rightarrow> int \<Rightarrow> 'a fb_object_scheme
    \<Rightarrow> 'a fb_object_scheme" where
  "onLayerDisplayed p releaseFence processFence s =
     (if releaseFence < 0 \<or> processFence < 0
      then s\<lparr>mCurReleaseFence :=
        Some (Fence (if releaseFence < 0 then processFence else releaseFence))\<rparr>
      else let (f, es) = fence_merge (answer p) SyncMerge (Fence releaseFence)
             (Fence processFence) (vt_log s) in s\<lparr>mCurReleaseFence := Some f, vt_log := es\<rparr>)"

definition fb_unlock :: "'a fb_object_scheme \<Rightarrow> 'a fb_object_scheme" where
  "fb_unlock s = (case mBufferHandle s of
       None \<Rightarrow> s
     | Some h \<Rightarrow> if mMapBase s then (emit (UnlockBuffer h) s)\<lparr>mMapBase := False\<rparr> else s)"

definition isVtBufferLocked :: "'a fb_object_scheme \<Rightarrow> bool" where
  "isVtBufferLocked s \<longleftrightarrow> mFbType s = DRM_FB_VIDEO_TUNNEL_SIDEBAND"

definition clearBufferInfo :: "'a fb_object_scheme \<Rightarrow> 'a fb_object_scheme" where
  "clearBufferInfo s =
     (let s1 = (case mBufferHandle s of
                  None \<Rightarrow> s
                | Some h \<Rightarrow> (emit (UnrefBuffer h (mIsSidebandBuffer s)) (fb_unlock s))
                    \<lparr>mBufferHandle := None, mFbHandleUpdated := False\<rparr>);
          s2 = s1\<lparr>mAcquireFence := Some NO_FENCE\<rparr>;
          s3 = (if isVtBufferLocked s2 then s2
                else s2\<lparr>mPrevReleaseFence := mCurReleaseFence s2\<rparr>) in
      s3\<lparr>mProcessFence := Some NO_FENCE, mFbType := DRM_FB_RENDER, mSecure := False\<rparr>)"

definition setBufferInfo :: "vt_platform \<Rightarrow> nat option \<Rightarrow> int \<Rightarrow> bool \<Rightarrow> 'a fb_object_scheme
    \<Rightarrow> 'a fb_object_scheme" where
  "setBufferInfo p bufferhnd acquireFence isSideband s =
     (case bufferhnd of
        None \<Rightarrow> if 0 \<le> acquireFence then emit (CloseFile acquireFence) s else s
      | Some h \<Rightarrow>
          let s1 = s\<lparr>mFbHandleUpdated := True, mIsSidebandBuffer := isSideband\<rparr>;
              s2 = (emit (RefBuffer h isSideband) s1)\<lparr>mBufferHandle := ref_dma_buf p h isSideband\<rparr> in
          if 0 \<le> acquireFence then setAcquireFence acquireFence s2 else s2)"

definition getSourceCrop :: "'a fb_object_scheme \<Rightarrow> drm_rect" where
  "getSourceCrop s =
     (let c = mVtSourceCrop s in
      if 0 < rect_left c \<or> 0 < rect_top c \<or> 0 < rect_right c \<or> 0 < rect_bottom c then c
      else if isVtBufferLocked s then mk_rect 0 0 (- 1) (- 1)
      else mSourceCrop s)"

end
