(* ===== verification/VtLayer.thy ===== *)
theory VtLayer
  imports VtModel
begin

text \<open>
  The operations of \<open>Hwc2Layer\<close> (src/hwc2/Hwc2Layer.cpp), in the order of the source, and the
  solid colour buffer of src/common/videotunnel/VtAllocSolidColorBuffer.cpp.

  An operation that can leave the behaviour C++ defines (\<open>pop_front\<close> or \<open>[0]\<close> on an
  empty deque, a call through a null observer) returns \<open>fault + _\<close>. The mutexes are not in the
  model: each operation holds \<open>mMutex\<close> from its first to its last access of the members, so a
  call is one step.
\<close>

section \<open>Solid colour buffer\<close>

definition VIDEO_BUFFER_W :: nat where "VIDEO_BUFFER_W = 384"

definition VIDEO_BUFFER_H :: nat where "VIDEO_BUFFER_H = 180"

text \<open>
  A \<open>memset\<close> is its offset, the byte and the length. \<open>paintVu\<close> is the chroma loop; the green
  case has a second \<open>i++\<close> in its body, so its step is 3.
\<close>

function paintVu :: "nat \<Rightarrow> nat \<Rightarrow> nat \<Rightarrow> nat \<Rightarrow> nat \<Rightarrow> nat \<Rightarrow> (nat \<times> nat \<times> nat) list" where
  "paintVu step v u base len i =
     (if i < len \<and> 0 < step
      then (base + i, v, 1) # (base + i + 1, u, 1) # paintVu step v u base len (i + step)
      else [])"
  by pat_completeness auto
termination by (relation "measure (\<lambda>(step, v, u, base, len, i). len - i)") auto

declare paintVu.simps [simp del]

definition solidColorWrites :: "vt_video_color_t \<Rightarrow> (nat \<times> nat \<times> nat) list" where
  "solidColorWrites c =
     (let len_y = VIDEO_BUFFER_H * VIDEO_BUFFER_W; len_vu = len_y * 1 div 2 in
      case c of
        SOLID_COLOR_FOR_BLACK \<Rightarrow> [(0, 0x10, len_y), (len_y, 0x80, len_vu)]
      | SOLID_COLOR_FOR_BLUE \<Rightarrow> (0, 0x29, len_y) # paintVu 2 0x6e 0xf0 len_y len_vu 0
      | SOLID_COLOR_FOR_GREEN \<Rightarrow> (0, 0x90, len_y) # paintVu 3 0x36 0x23 len_y len_vu 0
      | SOLID_COLOR_FOR_INVALID \<Rightarrow> [(0, 0, len_y + len_vu)])"

definition vt_solid_color_init :: vt_solid_color where
  "vt_solid_color_init =
     \<lparr>mBufferFd = - 1, mColorType = SOLID_COLOR_FOR_INVALID, mSolidColorHandle = None\<rparr>"

definition allocBuffer :: "vt_platform \<Rightarrow> vt_video_color_t \<Rightarrow> vt_solid_color \<Rightarrow> hwc2_layer
    \<Rightarrow> int \<times> vt_solid_color \<times> hwc2_layer" where
  "allocBuffer p colorType b s =
     (if 0 \<le> mBufferFd b \<and> mColorType b = colorType then (mBufferFd b, b, s)
      else
        let b1 = b\<lparr>mColorType := colorType\<rparr>;
            (ret, b2, s2) = (case mSolidColorHandle b1 of
                Some h \<Rightarrow> (0, b1, s)
              | None \<Rightarrow>
                  let (r, s1) = ask p AllocSolidBuffer s in
                  if r \<noteq> 0 then (r, b1, s1)
                  else (0, b1\<lparr>mSolidColorHandle := Some (solid_handle p (vt_log s1))\<rparr>, s1)) in
        if ret \<noteq> 0 then (- ret, b2, s2)
        else
          let fd = gralloc_fd p (mSolidColorHandle b2); b3 = b2\<lparr>mBufferFd := fd\<rparr> in
          if fd \<le> 0 then (- EINVAL, b3, s2)
          else (fd, b3, emit (PaintSolidBuffer fd (solidColorWrites colorType)) s2))"

definition getPreBuffer :: "vt_solid_color \<Rightarrow> int" where
  "getPreBuffer b = mBufferFd b"

section \<open>Buffers detached through UVM\<close>

definition attachUvmBuffer :: "int \<Rightarrow> hwc2_layer \<Rightarrow> hwc2_layer" where
  "attachUvmBuffer bufferFd s = emit (UvmAttach bufferFd) (s\<lparr>mUvmDetach := True\<rparr>)"

definition detachUvmBuffer :: "hwc2_layer \<Rightarrow> hwc2_layer" where
  "detachUvmBuffer s = (if mUvmDetach s then emit UvmDetachBuffers s else s)"

definition collectUvmBuffer :: "int \<Rightarrow> int \<Rightarrow> hwc2_layer \<Rightarrow> hwc2_layer" where
  "collectUvmBuffer fd fence s = (if mUvmDetach s then emit (UvmCollect fd fence) s else s)"

definition releaseUvmResourceLock :: "hwc2_layer \<Rightarrow> hwc2_layer" where
  "releaseUvmResourceLock s =
     (let s1 = (if 0 \<le> mPreUvmBufferFd s then emit (CloseFile (mPreUvmBufferFd s)) s else s);
          s2 = s1\<lparr>mPreUvmBufferFd := - 1\<rparr> in
      if mUvmDetach s2 then emit UvmReleaseAll s2 else s2)"

definition getVideoInfoFromUVM :: "vt_platform \<Rightarrow> int \<Rightarrow> hwc2_layer \<Rightarrow> bool \<times> hwc2_layer" where
  "getVideoInfoFromUVM p fd s =
     (if 0 \<le> fd \<and> mUvmDetach s
      then let s1 = emit (UvmGetInfo fd) s; (type, seconds) = uvm_info p (vt_log s1) in
        (mAMVideoType s \<noteq> type, s1\<lparr>mAMVideoType := type, mVideoDecTimestamp := seconds\<rparr>)
      else (False, s))"

section \<open>When a buffer is due\<close>

definition shouldPresentNow :: "hwc2_layer \<Rightarrow> int \<Rightarrow> bool" where
  "shouldPresentNow s timestamp =
     (if timestamp = - 1 then True
      else if mGameMode s then True
      else let isDue = timestamp < mExpectedPresentTime s;
               isPlausible = timestamp < mExpectedPresentTime s + 1000000000 div 1000 in
        isDue \<or> \<not> isPlausible)"

definition ns2us :: "int \<Rightarrow> int" where
  "ns2us t = (if 0 \<le> t then t div 1000 else - (- t div 1000))"

definition setPresentTime :: "int \<Rightarrow> hwc2_layer \<Rightarrow> hwc2_layer" where
  "setPresentTime expectedPresentTime s =
     (if \<not> isVtBufferLocked s then s
      else s\<lparr>mExpectedPresentTime := ns2us expectedPresentTime\<rparr>)"

definition newGameBuffer :: "hwc2_layer \<Rightarrow> bool" where
  "newGameBuffer s =
     (if isVtBufferLocked s \<and> mGameMode s then 0 < length (mQueueItems s) else False)"

definition vt_isFbUpdated :: "hwc2_layer \<Rightarrow> bool" where
  "vt_isFbUpdated s =
     (if 0 \<le> mSolidColorBufferfd s then True
      else if isVtBufferLocked s
      then (shouldPresentNow s (mTimestamp s) \<and> mVtUpdate s) \<or> mVtRefreshed s
      else mUpdated s \<or> mFbHandleUpdated s)"

definition vt_haveValidBuffer :: "hwc2_layer \<Rightarrow> bool" where
  "vt_haveValidBuffer s = (if isVtBufferLocked s then mFirstVtBuffer s else True)"

definition getBufferFdLocked :: "vt_platform \<Rightarrow> hwc2_layer \<Rightarrow> int" where
  "getBufferFdLocked p s =
     (if 0 \<le> mDifd s then mDifd s
      else if mFbType s = DRM_FB_VIDEO_TUNNEL_SIDEBAND then
        (if shouldPresentNow s (mTimestamp s)
         then if mVtUpdate s then mVtBufferFd s else mPreVtBufferFd s
         else mPreVtBufferFd s)
      else if \<not> mIsSidebandBuffer s then gralloc_fd p (mBufferHandle s)
      else - 1)"

section \<open>Di processor\<close>

definition setDiProcessorFd :: "int \<Rightarrow> hwc2_layer \<Rightarrow> hwc2_layer" where
  "setDiProcessorFd fd s =
     (if 0 \<le> mDifd s then emit (CloseFile (mDifd s)) s else s)\<lparr>mDifd := fd\<rparr>"

definition setDiProcessorFence :: "int \<Rightarrow> hwc2_layer \<Rightarrow> hwc2_layer" where
  "setDiProcessorFence fenceFd s = s\<lparr>mDiProcessorFence := Some (Fence fenceFd)\<rparr>"

definition getDiProcessorFence :: "vt_platform \<Rightarrow> hwc2_layer \<Rightarrow> int \<times> hwc2_layer" where
  "getDiProcessorFence p s = opt_fence_dup p (mDiProcessorFence s) s"

section \<open>Returning buffers\<close>

definition onVtFrameDisplayed :: "vt_platform \<Rightarrow> int \<Rightarrow> int \<Rightarrow> hwc2_layer
    \<Rightarrow> int \<times> hwc2_layer" where
  "onVtFrameDisplayed p bufferFd fenceFd s =
     (case mVtConsumer s of
        None \<Rightarrow> (- 1, s)
      | Some c \<Rightarrow> ask p (FrameDisplayed c bufferFd fenceFd) s)"

definition countQueued :: "int \<Rightarrow> hwc2_layer \<Rightarrow> hwc2_layer" where
  "countQueued d s = s\<lparr>mQueuedFrames := int32 (mQueuedFrames s + d)\<rparr>"

definition giveBack :: "vt_platform \<Rightarrow> int \<Rightarrow> int \<Rightarrow> hwc2_layer \<Rightarrow> int \<times> hwc2_layer" where
  "giveBack p bufferFd fenceFd s =
     (let (ret, s1) = onVtFrameDisplayed p bufferFd fenceFd s in (ret, countQueued (- 1) s1))"

definition popQueue :: "hwc2_layer \<Rightarrow> fault + hwc2_layer" where
  "popQueue s = (case mQueueItems s of
       [] \<Rightarrow> Inl OutOfRange
     | x # xs \<Rightarrow> Inr (s\<lparr>mQueueItems := xs\<rparr>))"

definition setVtPrevReleaseFence :: "hwc2_layer \<Rightarrow> hwc2_layer" where
  "setVtPrevReleaseFence s =
     (let s1 = (if mCurReleaseFence s \<noteq> None \<and> mCurReleaseFence s \<noteq> Some NO_FENCE
                then s\<lparr>mPrevReleaseFence := mCurReleaseFence s\<rparr> else s) in
      s1\<lparr>mCurReleaseFence := None\<rparr>)"

section \<open>Taking the next buffer\<close>

definition expiredItemCount :: "hwc2_layer \<Rightarrow> nat" where
  "expiredItemCount s = length (filter (\<lambda>it. 0 < mItemTime it \<and> shouldPresentNow s (mItemTime it)
     \<and> \<not> mGameMode s) (mQueueItems s))"

definition dropFront :: "vt_platform \<Rightarrow> hwc2_layer \<Rightarrow> fault + hwc2_layer" where
  "dropFront p s = (case mQueueItems s of
       [] \<Rightarrow> Inl OutOfRange
     | it # rest \<Rightarrow>
         let s1 = s\<lparr>mPreviousTimestamp := mItemTime it\<rparr>;
             (fd, s2) = ask p (Dup (mItemFd it)) s1;
             s3 = collectUvmBuffer fd (- 1) s2 in
         popQueue (snd (giveBack p (mItemFd it) (- 1) s3)))"

fun dropExpired :: "vt_platform \<Rightarrow> nat \<Rightarrow> hwc2_layer \<Rightarrow> fault + hwc2_layer" where
  "dropExpired p 0 s = Inr s"
| "dropExpired p (Suc n) s = bindE (dropFront p s) (dropExpired p n)"

definition takeFront :: "vt_platform \<Rightarrow> hwc2_layer \<Rightarrow> fault + (bool \<times> hwc2_layer)" where
  "takeFront p s = (case mQueueItems s of
       [] \<Rightarrow> Inl OutOfRange
     | it # rest \<Rightarrow>
         let s1 = s\<lparr>mVtUpdate := True, mVtBufferFd := mItemFd it, mTimestamp := mItemTime it\<rparr>;
             (change, s2) =
               (if shouldPresentNow s1 (mTimestamp s1)
                then let (c, t) = getVideoInfoFromUVM p (mVtBufferFd s1) s1 in
                  (c, t\<lparr>mFirstVtBuffer := True, mTunnelIdUpdate := False\<rparr>)
                else (False, s1)) in
         Inr (change, s2\<lparr>mPreviousTimestamp := mTimestamp s2\<rparr>))"

definition askSurfaceFlingerRefresh :: "hwc2_layer \<Rightarrow> fault + hwc2_layer" where
  "askSurfaceFlingerRefresh s = (case mDisplayObserver s of
       None \<Rightarrow> Inl NullDeref
     | Some d \<Rightarrow> Inr (emit (ObserverRefresh d) s))"

definition updateVtBuffer :: "vt_platform \<Rightarrow> hwc2_layer \<Rightarrow> fault + hwc2_layer" where
  "updateVtBuffer p s =
     (if \<not> isVtBufferLocked s then Inr s
      else if mQueueItems s = [] then Inr s
      else bindE (dropExpired p (expiredItemCount s - 1) s) (\<lambda>s1.
        bindE (takeFront p s1) (\<lambda>(isVideoTypeChange, s2).
          if isVideoTypeChange then askSurfaceFlingerRefresh s2 else Inr s2)))"

section \<open>Releasing the buffer that was on the screen\<close>

definition collectReleased :: "vt_platform \<Rightarrow> int \<Rightarrow> hwc2_layer \<Rightarrow> hwc2_layer" where
  "collectReleased p releaseFence s =
     (if 0 \<le> mPreVtBufferFd s then
        let (fd, s1) = ask p (Dup (mPreVtBufferFd s)) s in
        if 0 \<le> releaseFence
        then let (f, s2) = ask p (Dup releaseFence) s1 in collectUvmBuffer fd f s2
        else collectUvmBuffer fd releaseFence s1
      else s)"

definition releaseShown :: "vt_platform \<Rightarrow> hwc2_layer \<Rightarrow> int \<times> hwc2_layer" where
  "releaseShown p s =
     (if mPreVtBufferFd s < 0 then
        (0, if 0 \<le> mVtBufferFd s
            then setVtPrevReleaseFence
              (s\<lparr>mPreVtBufferFd := mVtBufferFd s, mVtUpdate := False, mVtBufferFd := - 1\<rparr>)
            else s)
      else
        let (releaseFence, s1) = getPrevReleaseFence p s;
            s2 = collectReleased p releaseFence s1;
            (ret, s3) = giveBack p (mPreVtBufferFd s2) releaseFence s2 in
        (ret, setVtPrevReleaseFence
          (s3\<lparr>mPreVtBufferFd := mVtBufferFd s3, mVtUpdate := False, mVtBufferFd := - 1\<rparr>)))"

definition releaseVtBuffer :: "vt_platform \<Rightarrow> hwc2_layer \<Rightarrow> fault + (int \<times> hwc2_layer)" where
  "releaseVtBuffer p s =
     (if \<not> isVtBufferLocked s then Inr (- EINVAL, s)
      else
        let s1 = detachUvmBuffer s;
            refreshed = mVtRefreshed s1;
            s2 = (if refreshed then s1\<lparr>mVtRefreshed := False\<rparr> else s1);
            now = shouldPresentNow s2 (mTimestamp s2) in
        if refreshed \<and> (\<not> now \<or> (now \<and> \<not> mVtUpdate s2))
        then Inr (0, setVtPrevReleaseFence s2)
        else if \<not> mVtUpdate s2 then Inr (- EAGAIN, s2)
        else if now = False then Inr (- EAGAIN, s2)
        else if mQueueItems s2 = [] then Inr (- EAGAIN, s2)
        else bindE (if 0 \<le> mVtBufferFd s2 then popQueue s2 else Inr s2)
          (\<lambda>s3. Inr (releaseShown p s3)))"

section \<open>Consumers of the tunnel\<close>

definition askVtRefresh :: "vt_platform \<Rightarrow> bool \<Rightarrow> hwc2_layer \<Rightarrow> hwc2_layer" where
  "askVtRefresh p flag s = snd (ask p (AskRefresh (mTunnelId s) flag) s)"

definition setNeedAskRefresh :: "bool \<Rightarrow> hwc2_layer \<Rightarrow> hwc2_layer" where
  "setNeedAskRefresh needRefresh s = s\<lparr>mNeedAskRefresh := needRefresh\<rparr>"

text \<open>\<open>setVtContentListener\<close> fails on a null listener only, and the layer has just made one.\<close>

definition registerConsumer :: "vt_platform \<Rightarrow> hwc2_layer \<Rightarrow> int \<times> hwc2_layer" where
  "registerConsumer p s =
     (if mTunnelId s < 0 then (- 1, s)
      else case mVtConsumer s of
        Some c \<Rightarrow> (0, s)
      | None \<Rightarrow>
          let c = consumers_made s;
              s1 = s\<lparr>mVtConsumer := Some c, consumers_made := Suc c, mContentListener := True\<rparr>;
              (ret, s2) = ask p (ConnectInstance (mTunnelId s1) c) s1 in
          (ret, askVtRefresh p False s2))"

definition unregisterConsumer :: "vt_platform \<Rightarrow> hwc2_layer \<Rightarrow> int \<times> hwc2_layer" where
  "unregisterConsumer p s =
     (if mTunnelId s < 0 then (- 1, s)
      else case mVtConsumer s of
        None \<Rightarrow> (- 1, s)
      | Some c \<Rightarrow>
          let s1 = s\<lparr>mVtSourceCrop := zero_rect, mVtDisplayFrame := zero_rect\<rparr>;
              (ret, s2) = ask p (DisconnectInstance (mTunnelId s1) c) s1 in
          (ret, s2\<lparr>mVtConsumer := None, mTunnelId := - 1\<rparr>))"

definition releaseQueue :: "vt_platform \<Rightarrow> hwc2_layer \<Rightarrow> hwc2_layer" where
  "releaseQueue p s = fold (\<lambda>it t. snd (giveBack p (mItemFd it) (- 1) t)) (mQueueItems s) s"

text \<open>\<open>releaseVtResourceLocked\<close> always returns 0.\<close>

definition releaseVtResourceLocked :: "vt_platform \<Rightarrow> bool \<Rightarrow> bool \<Rightarrow> hwc2_layer
    \<Rightarrow> fault + hwc2_layer" where
  "releaseVtResourceLocked p needDisconnect needKeepLastFrame s =
     (if \<not> (isVtBufferLocked s \<or> mNeedReleaseVtResource s) then Inr s
      else if mVtConsumer s = None then Inr s
      else
        let s1 = (if needDisconnect \<and> mNeedAskRefresh s
                  then (askVtRefresh p True s)\<lparr>mNeedAskRefresh := False\<rparr> else s);
            s2 = (if (\<not> needKeepLastFrame \<or> needDisconnect) \<and> 0 \<le> mPreVtBufferFd s1
                  then let (f, t) = getPrevReleaseFence p s1 in
                    snd (giveBack p (mPreVtBufferFd t) f t)
                  else s1) in
        bindE (if 0 \<le> mVtBufferFd s2
               then let (f, t) = getCurReleaseFence p s2 in
                 popQueue (snd (giveBack p (mVtBufferFd t) f t))
               else Inr s2) (\<lambda>s3.
        let s4 = releaseQueue p s3;
            s5 = (if \<not> needKeepLastFrame \<or> needDisconnect then s4\<lparr>mPreVtBufferFd := - 1\<rparr> else s4);
            s6 = s5\<lparr>mVtBufferFd := - 1, mQueueItems := [], mVtUpdate := False, mTimestamp := - 1\<rparr>;
            s7 = (if 0 \<le> mTunnelId s6 \<and> needDisconnect then snd (unregisterConsumer p s6) else s6)
        in Inr (s7\<lparr>mQueuedFrames := 0, mNeedReleaseVtResource := False\<rparr>)))"

definition releaseVtResource :: "vt_platform \<Rightarrow> hwc2_layer \<Rightarrow> fault + hwc2_layer" where
  "releaseVtResource p s = releaseVtResourceLocked p True False s"

definition clearUpdateFlag :: "vt_platform \<Rightarrow> hwc2_layer \<Rightarrow> fault + hwc2_layer" where
  "clearUpdateFlag p s =
     (let s1 = s\<lparr>mUpdateZorder := False, mUpdated := False\<rparr> in
      if mNeedReleaseVtResource s1 then releaseVtResource p s1 else Inr s1)"

definition handleDisplayDisconnect :: "vt_platform \<Rightarrow> bool \<Rightarrow> hwc2_layer \<Rightarrow> hwc2_layer" where
  "handleDisplayDisconnect p connect s = (if connect then snd (registerConsumer p s) else s)"

section \<open>Callbacks from the tunnel\<close>

definition queueItem :: "vt_item \<Rightarrow> hwc2_layer \<Rightarrow> hwc2_layer" where
  "queueItem it s =
     attachUvmBuffer (mItemFd it) (countQueued 1 (s\<lparr>mQueueItems := mQueueItems s @ [it]\<rparr>))"

definition onVtFrameAvailable :: "vt_item list \<Rightarrow> hwc2_layer \<Rightarrow> fault + (int \<times> hwc2_layer)" where
  "onVtFrameAvailable items s =
     (if \<not> isVtBufferLocked s \<and> \<not> mNeedReleaseVtResource s then Inr (- EINVAL, s)
      else if mTunnelId s < 0 then Inr (- EINVAL, s)
      else
        let s1 = fold queueItem items s in
        if mQueueItems s1 = [] then Inr (- EAGAIN, s1)
        else if mGameMode s1 then
          (case mDisplayObserver s1 of
             None \<Rightarrow> Inl NullDeref
           | Some d \<Rightarrow> Inr (0, emit (ObserverFrameAvailable d) s1))
        else Inr (0, s1))"

definition onVtVideoStatus :: "vt_video_status_t \<Rightarrow> hwc2_layer \<Rightarrow> hwc2_layer" where
  "onVtVideoStatus status s = s\<lparr>mVideoDisplayStatus := status\<rparr>"

definition onVtVideoGameMode :: "int \<Rightarrow> hwc2_layer \<Rightarrow> hwc2_layer" where
  "onVtVideoGameMode data s =
     (if data \<noteq> 1 \<and> data \<noteq> 0 then s else s\<lparr>mGameMode := (data = 1)\<rparr>)"

definition adjustDisplayFrameLocked :: "vt_platform \<Rightarrow> hwc2_layer \<Rightarrow> hwc2_layer" where
  "adjustDisplayFrameLocked p s =
     (let z = mCalibrateInfo s;
          bNoScale = (framebuffer_w z = crtc_display_w z \<and> framebuffer_h z = crtc_display_h z);
          v = mVtDisplayFrame s;
          dispFrame = (if 0 < rect_left v \<or> 0 < rect_top v \<or> 0 < rect_right v \<or> 0 < rect_bottom v
                       then v else mBackupDisplayFrame s) in
      if bNoScale \<or> mIsVirtualLayer s then s\<lparr>mDisplayFrame := dispFrame\<rparr>
      else s\<lparr>mDisplayFrame := mk_rect
        (ceilf_ratio p (rect_left dispFrame) (crtc_display_w z) (framebuffer_w z) + crtc_display_x z)
        (ceilf_ratio p (rect_top dispFrame) (crtc_display_h z) (framebuffer_h z) + crtc_display_y z)
        (ceilf_ratio p (rect_right dispFrame) (crtc_display_w z) (framebuffer_w z) + crtc_display_x z)
        (ceilf_ratio p (rect_bottom dispFrame) (crtc_display_h z) (framebuffer_h z)
          + crtc_display_y z)\<rparr>)"

definition adjustDisplayFrame :: "vt_platform \<Rightarrow> display_zoom_info \<Rightarrow> hwc2_layer \<Rightarrow> hwc2_layer" where
  "adjustDisplayFrame p calibrateInfo s =
     adjustDisplayFrameLocked p (s\<lparr>mCalibrateInfo := calibrateInfo\<rparr>)"

definition vtRefresh :: "hwc2_layer \<Rightarrow> hwc2_layer" where
  "vtRefresh s = s\<lparr>mVtRefreshed := True\<rparr>"

definition setVtSourceCrop :: "drm_rect \<Rightarrow> hwc2_layer \<Rightarrow> hwc2_layer" where
  "setVtSourceCrop rect s = vtRefresh (s\<lparr>mVtSourceCrop := rect, mUpdated := True\<rparr>)"

definition setVtDisplayFrame :: "vt_platform \<Rightarrow> drm_rect \<Rightarrow> hwc2_layer \<Rightarrow> hwc2_layer" where
  "setVtDisplayFrame p rect s =
     (let (ew, eh) = (if mDisplayId s = HWC_DISPLAY_EXTERNAL p then framebuffer_size p True else (1, 1));
          (pw, ph) = (if mDisplayId s = HWC_DISPLAY_EXTERNAL p then framebuffer_size p False else (1, 1));
          s1 = s\<lparr>mVtDisplayFrame := mk_rect
            (ceilf_scaled p (rect_left rect) ew pw) (ceilf_scaled p (rect_top rect) eh ph)
            (ceilf_scaled p (rect_right rect) ew pw) (ceilf_scaled p (rect_bottom rect) eh ph)\<rparr>;
          s2 = (if 0 < framebuffer_w (mCalibrateInfo s1) then adjustDisplayFrameLocked p s1 else s1) in
      vtRefresh (s2\<lparr>mUpdated := True\<rparr>))"

section \<open>Solid colour on the layer\<close>

definition freeSolidColorBufferLocked :: "hwc2_layer \<Rightarrow> hwc2_layer" where
  "freeSolidColorBufferLocked s =
     (if 0 \<le> mSolidColorBufferfd s
      then setCurReleaseFence (- 1) ((emit (CloseFile (mSolidColorBufferfd s)) s)
        \<lparr>mSolidColorBufferfd := - 1, mVtUpdate := False, mVtRefreshed := False\<rparr>)
      else s)"

definition vt_getSolidColorBuffer :: "vt_platform \<Rightarrow> hwc2_layer \<Rightarrow> int \<times> hwc2_layer" where
  "vt_getSolidColorBuffer p s =
     (if \<not> isVtBufferLocked s then (- EINVAL, s)
      else
        let s1 = (case mAllocSolidColorBufferHandle s of
              None \<Rightarrow> s
            | Some b \<Rightarrow>
                if mSolidColorBufferfd s < 0 \<and> mVtRefreshed s
                  \<and> (mVideoDisplayStatus s = VT_VIDEO_STATUS_COLOR_ONCE
                     \<or> mVideoDisplayStatus s = VT_VIDEO_STATUS_COLOR_ALWAYS)
                then if 0 \<le> getPreBuffer b
                  then let (fd, t) = ask p (Dup (getPreBuffer b)) s in
                    t\<lparr>mSolidColorBufferfd := fd\<rparr>
                  else s
                else s) in
        (mSolidColorBufferfd s1, s1))"

definition releaseFrames :: "vt_platform \<Rightarrow> hwc2_layer \<Rightarrow> fault + hwc2_layer" where
  "releaseFrames p s =
     bindE (releaseVtResourceLocked p False False s) (\<lambda>t. Inr (releaseUvmResourceLock t))"

definition isVtNeedClearFrameOrShowColorBuffer :: "vt_platform \<Rightarrow> hwc2_layer
    \<Rightarrow> fault + (bool \<times> hwc2_layer)" where
  "isVtNeedClearFrameOrShowColorBuffer p s =
     (case mVideoDisplayStatus s of
        VT_VIDEO_STATUS_BLANK \<Rightarrow>
          bindE (releaseFrames p (s\<lparr>mVideoDisplayStatus := VT_VIDEO_STATUS_SHOW\<rparr>))
            (\<lambda>t. Inr (True, t))
      | VT_VIDEO_STATUS_HIDE \<Rightarrow>
          bindE (releaseFrames p s) (\<lambda>t. Inr (True, setCurReleaseFence (- 1) t))
      | VT_VIDEO_STATUS_COLOR_ONCE \<Rightarrow>
          bindE (releaseFrames p
            (if 0 \<le> getBufferFdLocked p s \<or> mQueueItems s \<noteq> []
             then s\<lparr>mVideoDisplayStatus := VT_VIDEO_STATUS_SHOW\<rparr> else s)) (\<lambda>t. Inr (False, t))
      | VT_VIDEO_STATUS_COLOR_ALWAYS \<Rightarrow> bindE (releaseFrames p s) (\<lambda>t. Inr (False, t))
      | VT_VIDEO_STATUS_COLOR_DISABLE \<Rightarrow>
          Inr (False, freeSolidColorBufferLocked (s\<lparr>mVideoDisplayStatus := VT_VIDEO_STATUS_SHOW\<rparr>))
      | VT_VIDEO_STATUS_HOLD_FRAME \<Rightarrow>
          bindE (releaseVtResourceLocked p False True s) (\<lambda>t. Inr (False, t))
      | _ \<Rightarrow> Inr (False, s))"

text \<open>
  \<open>interruptVtProcess(flag)\<close>: the result, and \<open>flag\<close> where it is written.
\<close>

definition vt_interruptVtProcess :: "vt_platform \<Rightarrow> drm_plane_blank \<Rightarrow> hwc2_layer
    \<Rightarrow> fault + (bool \<times> drm_plane_blank \<times> hwc2_layer)" where
  "vt_interruptVtProcess p flag s =
     (if \<not> isVtBufferLocked s then Inr (False, flag, s)
      else bindE (isVtNeedClearFrameOrShowColorBuffer p s) (\<lambda>(clear, t).
        if clear then Inr (True, BLANK_FOR_NO_CONTENT, t)
        else if getBufferFdLocked p t < 0 \<and> mAllocSolidColorBufferHandle t = None
          \<and> \<not> mTunnelIdUpdate t
        then Inr (True, BLANK_FOR_NO_CONTENT, t)
        else if getBufferFdLocked p t < 0 \<and> mAllocSolidColorBufferHandle t \<noteq> None
        then Inr (True, flag, t)
        else Inr (False, flag, t)))"

definition onNeedShowTempBuffer :: "vt_platform \<Rightarrow> vt_video_color_t \<Rightarrow> hwc2_layer
    \<Rightarrow> fault + hwc2_layer" where
  "onNeedShowTempBuffer p colorType s =
     (let s1 = (if mSolidColorBufferfd s < 0 then
            let b = (case mAllocSolidColorBufferHandle s of
                       None \<Rightarrow> vt_solid_color_init | Some b \<Rightarrow> b);
                (bufFd, b1, t) = allocBuffer p colorType b s;
                t1 = t\<lparr>mAllocSolidColorBufferHandle := Some b1\<rparr> in
            if 0 \<le> bufFd then let (fd, t2) = ask p (Dup bufFd) t1 in t2\<lparr>mSolidColorBufferfd := fd\<rparr>
            else t1
          else s) in
      if 0 \<le> mSolidColorBufferfd s1 then
        let s2 = s1\<lparr>mVtUpdate := True\<rparr> in
        if \<not> mFirstVtBuffer s2 then askSurfaceFlingerRefresh (s2\<lparr>mFirstVtBuffer := True\<rparr>)
        else Inr s2
      else Inr s1)"

definition onNeedShowTempBufferWithStatus :: "vt_platform \<Rightarrow> vt_video_color_t \<Rightarrow> vt_video_status_t
    \<Rightarrow> hwc2_layer \<Rightarrow> fault + hwc2_layer" where
  "onNeedShowTempBufferWithStatus p colorType status s =
     bindE (if status = VT_VIDEO_STATUS_COLOR_ONCE \<or> status = VT_VIDEO_STATUS_COLOR_ALWAYS
            then onNeedShowTempBuffer p colorType s else Inr s)
       (\<lambda>t. Inr (onVtVideoStatus status t))"

end
