(* ===== verification/VtSetters.thy ===== *)
theory VtSetters
  imports VtLayer
begin

text \<open>
  What SurfaceFlinger sets on a layer (src/hwc2/Hwc2Layer.cpp): its content, a buffer, a sideband
  stream or a colour, and its attributes.
\<close>

section \<open>Content\<close>

text \<open>
  \<open>int color[components]; memcpy(color, base, components)\<close> copies as many bytes as there are
  components into an array of ints: \<open>dim_component k\<close> is the low byte of \<open>color[k]\<close> on a
  little-endian machine.
\<close>

definition dim_component :: "vt_platform \<Rightarrow> (nat \<Rightarrow> nat) \<Rightarrow> nat \<Rightarrow> nat \<Rightarrow> nat" where
  "dim_component p base components k =
     (if 4 * k < components then base (4 * k) else stack_bytes p (4 * k)) mod 256"

definition handleDimLayer :: "vt_platform \<Rightarrow> nat \<Rightarrow> hwc2_layer \<Rightarrow> hwc2_layer" where
  "handleDimLayer p buffer s =
     (let bufFd = gralloc_fd p (Some buffer) in
      if bufFd < 0 then s
      else
        let bufFormat = buffer_format (gralloc p buffer);
            components = (if bufFormat = HAL_PIXEL_FORMAT_RGB_888 p
              \<or> bufFormat = HAL_PIXEL_FORMAT_RGB_565 p then 3 else 4 :: nat) in
        case map_pixel p bufFd of
          None \<Rightarrow> s
        | Some base \<Rightarrow>
            let color = dim_component p base components;
                c = (if bufFormat = HAL_PIXEL_FORMAT_BGRA_8888 p
                     then \<lparr>color_r = color 2, color_g = color 1, color_b = color 0, color_a = color 3\<rparr>
                     else if bufFormat = HAL_PIXEL_FORMAT_RGBA_8888 p
                       \<or> bufFormat = HAL_PIXEL_FORMAT_RGBX_8888 p
                     then \<lparr>color_r = color 0, color_g = color 1, color_b = color 2, color_a = color 3\<rparr>
                     else if bufFormat = HAL_PIXEL_FORMAT_RGB_565 p
                     then \<lparr>color_r = color 0, color_g = color 1, color_b = color 2, color_a = 255\<rparr>
                     else if bufFormat = HAL_PIXEL_FORMAT_RGB_888 p
                     then \<lparr>color_r = color 2, color_g = color 1, color_b = color 0, color_a = 255\<rparr>
                     else mColor s) in
            s\<lparr>mColor := c, mFbType := DRM_FB_COLOR\<rparr>)"

definition setReqFlag :: "u32 \<Rightarrow> hwc2_layer \<Rightarrow> hwc2_layer" where
  "setReqFlag flag s = s\<lparr>mReqFlag := flag\<rparr>"

definition FORCE_CLIENT_REQ :: u32 where "FORCE_CLIENT_REQ = 1"

definition setUvmBuffer :: "vt_platform \<Rightarrow> drm_fb_type \<Rightarrow> int \<Rightarrow> nat \<Rightarrow> hwc2_layer
    \<Rightarrow> hwc2_layer" where
  "setUvmBuffer p preType bufFd bufIno s =
     (let s1 = s\<lparr>mPreBufferIno := bufIno\<rparr>;
          s2 = (if preType = DRM_FB_VIDEO_UVM_DMA \<and> 0 < mPreUvmBufferFd s1
                then let (f, t) = getPrevReleaseFence p s1 in
                  (collectUvmBuffer (mPreUvmBufferFd t) f t)\<lparr>mPreUvmBufferFd := - 1\<rparr>
                else s1);
          s3 = (if 0 < mPreUvmBufferFd s2 then emit (CloseFile (mPreUvmBufferFd s2)) s2 else s2);
          (fd, s4) = ask p (Dup bufFd) s3;
          s5 = attachUvmBuffer fd (s4\<lparr>mPreUvmBufferFd := fd\<rparr>) in
      snd (getVideoInfoFromUVM p bufFd s5))"

text \<open>
  The chain of tests on the gralloc usage of the buffer; \<open>None\<close> where it returns
  \<open>HWC2_ERROR_BAD_LAYER\<close>.
\<close>

definition setBufferType :: "vt_platform \<Rightarrow> drm_fb_type \<Rightarrow> nat \<Rightarrow> hwc2_layer
    \<Rightarrow> hwc2_layer option" where
  "setBufferType p preType h s =
     (let g = gralloc p h in
      if mHwcCompositionType s = HWC2_COMPOSITION_CURSOR p then Some (s\<lparr>mFbType := DRM_FB_CURSOR\<rparr>)
      else if is_uvm_dma_buffer g then
        (let s1 = s\<lparr>mFbType := DRM_FB_VIDEO_UVM_DMA\<rparr>; bufFd = gralloc_fd p (Some h) in
         Some (if bufFd < 0 then s1
               else case fstat_ino p bufFd of
                 None \<Rightarrow> s1
               | Some bufIno \<Rightarrow> if bufIno \<noteq> mPreBufferIno s1
                   then setUvmBuffer p preType bufFd bufIno s1 else s1))
      else if is_omx_metadata_buffer g then
        map_option (\<lambda>tunnel. s\<lparr>mFbType := (if tunnel = 0 then DRM_FB_VIDEO_OMX_PTS
                                            else DRM_FB_VIDEO_OMX_PTS_SECOND)\<rparr>)
          (omx_metadata_tunnel g)
      else if is_overlay_buffer g then Some (s\<lparr>mFbType := DRM_FB_VIDEO_OVERLAY\<rparr>)
      else if buffer_width g \<le> 1 \<and> buffer_height g \<le> 1 then Some (handleDimLayer p h s)
      else if is_coherent_buffer g then
        Some (s\<lparr>mFbType := (if buffer_format g = HAL_PIXEL_FORMAT_YCrCb_420_SP p
                             then DRM_FB_VIDEO_DMABUF else DRM_FB_SCANOUT)\<rparr>)
      else Some (setReqFlag FORCE_CLIENT_REQ (s\<lparr>mFbType := DRM_FB_RENDER\<rparr>)))"

definition typeChanged :: "drm_fb_type \<Rightarrow> hwc2_layer \<Rightarrow> hwc2_layer" where
  "typeChanged preType s =
     (if preType = mFbType s then s
      else
        let s1 = s\<lparr>mUpdated := True\<rparr>;
            s2 = (if preType = DRM_FB_VIDEO_UVM_DMA
                  then releaseUvmResourceLock (s1\<lparr>mPreBufferIno := 0\<rparr>) else s1) in
        if mFbType s2 = DRM_FB_VIDEO_UVM_DMA then setReqFlag 0 s2 else s2)"

definition setBuffer :: "vt_platform \<Rightarrow> nat option \<Rightarrow> int \<Rightarrow> hwc2_layer
    \<Rightarrow> hwc2_error_t \<times> hwc2_layer" where
  "setBuffer p buffer acquireFence s =
     (let preType = mFbType s;
          s1 = (if isVtBufferLocked s
                then releaseUvmResourceLock (s\<lparr>mNeedReleaseVtResource := True\<rparr>) else s);
          s2 = detachUvmBuffer (setBufferInfo p buffer acquireFence False (clearBufferInfo s1)) in
      case (buffer, mBufferHandle s2) of
        (Some b, Some h) \<Rightarrow>
          (case setBufferType p preType h s2 of
             None \<Rightarrow> (HWC2_ERROR_BAD_LAYER, s2)
           | Some s3 \<Rightarrow>
               (HWC2_ERROR_NONE, (typeChanged preType s3)\<lparr>mSecure := is_secure_buffer (gralloc p h)\<rparr>))
      | _ \<Rightarrow> (HWC2_ERROR_NONE, s2\<lparr>mFbType := DRM_FB_UNDEFINED\<rparr>))"

text \<open>
  \<open>setTunnel\<close> is the tunnel branch of \<open>setSidebandStream\<close>; it returns false where the code
  returns \<open>HWC2_ERROR_BAD_PARAMETER\<close>.
\<close>

definition connectTunnel :: "vt_platform \<Rightarrow> int \<Rightarrow> nat option \<Rightarrow> hwc2_layer \<Rightarrow> bool \<times> hwc2_layer" where
  "connectTunnel p channel_id observer s =
     (let s1 = s\<lparr>mTunnelId := channel_id\<rparr>;
          s2 = (if mDisplayObserver s1 = None then s1\<lparr>mDisplayObserver := observer\<rparr> else s1);
          (ret, s3) = registerConsumer p s2 in
      if 0 \<le> ret
      then (True, s3\<lparr>mQueuedFrames := 0, mQueueItems := [], mTunnelIdUpdate := True,
                     mAMVideoType := - 1\<rparr>)
      else (False, s3\<lparr>mTunnelId := - 1\<rparr>))"

definition setTunnel :: "vt_platform \<Rightarrow> int \<Rightarrow> nat option \<Rightarrow> hwc2_layer
    \<Rightarrow> fault + (bool \<times> hwc2_layer)" where
  "setTunnel p channel_id observer s =
     (let s1 = s\<lparr>mFbType := DRM_FB_VIDEO_TUNNEL_SIDEBAND\<rparr> in
      if channel_id < 0 then Inr (False, s1)
      else if mTunnelId s1 \<noteq> channel_id then
        bindE (if 0 \<le> mTunnelId s1 then releaseVtResourceLocked p True False s1 else Inr s1)
          (\<lambda>s2. Inr (connectTunnel p channel_id observer s2))
      else Inr (True, s1))"

definition sidebandDone :: "hwc2_layer \<Rightarrow> hwc2_layer" where
  "sidebandDone s =
     (if mFbType s \<noteq> DRM_FB_VIDEO_TUNNEL_SIDEBAND then releaseUvmResourceLock s else s)
       \<lparr>mSecure := False, mUpdated := True\<rparr>"

definition setSidebandStream :: "vt_platform \<Rightarrow> nat option \<Rightarrow> nat option \<Rightarrow> hwc2_layer
    \<Rightarrow> fault + (hwc2_error_t \<times> hwc2_layer)" where
  "setSidebandStream p stream observer s =
     (let s1 = (setBufferInfo p stream (- 1) True (clearBufferInfo s))\<lparr>mPreBufferIno := 0\<rparr>;
          type = (case sideband_type p stream of None \<Rightarrow> AM_INVALID_SIDEBAND p | Some t \<Rightarrow> t);
          channel_id = (case sideband_channel p stream of None \<Rightarrow> 0 | Some c \<Rightarrow> c) in
      if type = AM_TV_SIDEBAND p
      then Inr (HWC2_ERROR_NONE, sidebandDone (s1\<lparr>mFbType := DRM_FB_VIDEO_SIDEBAND_TV\<rparr>))
      else if type = AM_FIXED_TUNNEL p then
        bindE (setTunnel p channel_id observer s1) (\<lambda>(ok, s2).
          Inr (if ok then (HWC2_ERROR_NONE, sidebandDone s2) else (HWC2_ERROR_BAD_PARAMETER, s2)))
      else Inr (HWC2_ERROR_NONE, sidebandDone
        (s1\<lparr>mFbType := (if channel_id = AM_VIDEO_EXTERNAL p then DRM_FB_VIDEO_SIDEBAND_SECOND
                        else DRM_FB_VIDEO_SIDEBAND)\<rparr>)))"

definition setColor :: "drm_color \<Rightarrow> hwc2_layer \<Rightarrow> hwc2_error_t \<times> hwc2_layer" where
  "setColor color s =
     (HWC2_ERROR_NONE,
      (clearBufferInfo s)\<lparr>mColor := color, mFbType := DRM_FB_COLOR, mUpdated := True\<rparr>)"

section \<open>Attributes\<close>

definition setSourceCrop :: "hwc_frect \<Rightarrow> hwc2_layer \<Rightarrow> hwc2_error_t \<times> hwc2_layer" where
  "setSourceCrop crop s =
     (HWC2_ERROR_NONE, vtRefresh (s\<lparr>mSourceCrop := mk_rect \<lceil>frect_left crop\<rceil> \<lceil>frect_top crop\<rceil>
        \<lfloor>frect_right crop\<rfloor> \<lfloor>frect_bottom crop\<rfloor>, mUpdated := True\<rparr>))"

definition setDisplayFrame :: "drm_rect \<Rightarrow> hwc2_layer \<Rightarrow> hwc2_error_t \<times> hwc2_layer" where
  "setDisplayFrame frame s =
     (HWC2_ERROR_NONE, vtRefresh (s\<lparr>mBackupDisplayFrame := frame, mUpdated := True\<rparr>))"

definition setBlendMode :: "int \<Rightarrow> hwc2_layer \<Rightarrow> hwc2_error_t \<times> hwc2_layer" where
  "setBlendMode mode s = (HWC2_ERROR_NONE, s\<lparr>mBlendMode := mode, mUpdated := True\<rparr>)"

definition setPlaneAlpha :: "rat \<Rightarrow> hwc2_layer \<Rightarrow> hwc2_error_t \<times> hwc2_layer" where
  "setPlaneAlpha alpha s = (HWC2_ERROR_NONE, s\<lparr>mPlaneAlpha := alpha, mUpdated := True\<rparr>)"

definition setTransform :: "int \<Rightarrow> hwc2_layer \<Rightarrow> hwc2_error_t \<times> hwc2_layer" where
  "setTransform transform s =
     (HWC2_ERROR_NONE, s\<lparr>mTransform := int32 transform, mUpdated := True\<rparr>)"

definition setVisibleRegion :: "drm_rect list \<Rightarrow> hwc2_layer \<Rightarrow> hwc2_error_t \<times> hwc2_layer" where
  "setVisibleRegion visible s = (HWC2_ERROR_NONE, s\<lparr>mVisibleRegion := visible\<rparr>)"

definition setSurfaceDamage :: "drm_rect list \<Rightarrow> hwc2_layer \<Rightarrow> hwc2_error_t \<times> hwc2_layer" where
  "setSurfaceDamage damage s = (HWC2_ERROR_NONE, s\<lparr>mDamageRegion := damage\<rparr>)"

definition setCompositionType :: "vt_platform \<Rightarrow> int \<Rightarrow> hwc2_layer
    \<Rightarrow> hwc2_error_t \<times> hwc2_layer" where
  "setCompositionType p type s =
     (HWC2_ERROR_NONE,
      let s1 = s\<lparr>mHwcCompositionType := type, mUpdated := True\<rparr> in
      if type = HWC3_COMPOSITION_DECORATION p then s1\<lparr>mFbType := DRM_FB_DECORATION\<rparr> else s1)"

definition setDataspace :: "int \<Rightarrow> hwc2_layer \<Rightarrow> hwc2_error_t \<times> hwc2_layer" where
  "setDataspace dataspace s = (HWC2_ERROR_NONE, s\<lparr>mDataSpace := dataspace, mUpdated := True\<rparr>)"

definition setZorder :: "u32 \<Rightarrow> hwc2_layer \<Rightarrow> hwc2_error_t \<times> hwc2_layer" where
  "setZorder z s =
     (HWC2_ERROR_NONE,
      vtRefresh (s\<lparr>mZorder := z, mUpdateZorder := True, mUpdated := True\<rparr>))"

text \<open>\<open>keys\<close> and \<open>metadata\<close> are arrays of at least \<open>numElements\<close> elements.\<close>

definition setPerFrameMetadata :: "nat \<Rightarrow> int list \<Rightarrow> rat list \<Rightarrow> hwc2_layer
    \<Rightarrow> hwc2_error_t \<times> hwc2_layer" where
  "setPerFrameMetadata numElements keys metadata s =
     (HWC2_ERROR_NONE, s\<lparr>mHdrMetaData :=
        fold (\<lambda>(k, v). map_insert k v) (take numElements (zip keys metadata)) []\<rparr>)"

definition setBrightness :: "rat \<Rightarrow> hwc2_layer \<Rightarrow> hwc2_error_t \<times> hwc2_layer" where
  "setBrightness brightness s =
     (if brightness < 0 then (HWC2_ERROR_BAD_PARAMETER, s)
      else (HWC2_ERROR_NONE, s\<lparr>mBrightness := brightness\<rparr>))"

definition commitCompType :: "int \<Rightarrow> hwc2_layer \<Rightarrow> int \<times> hwc2_layer" where
  "commitCompType hwcComp s =
     (0, if mHwcCompositionType s \<noteq> hwcComp then s\<lparr>mHwcCompositionType := hwcComp\<rparr> else s)"

definition setLayerUpdate :: "bool \<Rightarrow> hwc2_layer \<Rightarrow> hwc2_layer" where
  "setLayerUpdate update s = s\<lparr>mUpdated := update\<rparr>"

end
