(* ===== verification/VtCustody.thy ===== *)
theory VtCustody
  imports VtSetters "HOL-Library.Multiset"
begin

text \<open>
  The buffers in the custody of a layer: which it holds, which it has given back, and the
  invariant under which every operation keeps them together.
\<close>

section \<open>Buffers held and given back\<close>

fun event_return :: "vt_event \<Rightarrow> int list" where
  "event_return (FrameDisplayed c fd f) = [fd]"
| "event_return _ = []"

definition given :: "'a fb_object_scheme \<Rightarrow> int list" where
  "given s = concat (map event_return (vt_log s))"

definition held :: "hwc2_layer \<Rightarrow> int multiset" where
  "held s = mset (map mItemFd (mQueueItems s))
     + (if 0 \<le> mPreVtBufferFd s then {#mPreVtBufferFd s#} else {#})"

definition vt_layer_ok :: "hwc2_layer \<Rightarrow> bool" where
  "vt_layer_ok s \<longleftrightarrow>
     (0 \<le> mVtBufferFd s \<longrightarrow> (\<exists>it rest. mQueueItems s = it # rest \<and> mItemFd it = mVtBufferFd s))
     \<and> (\<forall>it \<in> set (mQueueItems s). 0 \<le> mItemFd it)
     \<and> (held s \<noteq> {#} \<longrightarrow> 0 \<le> mTunnelId s)
     \<and> (0 \<le> mTunnelId s \<longrightarrow> mVtConsumer s \<noteq> None)
     \<and> (mVtConsumer s \<noteq> None \<longrightarrow> mDisplayObserver s \<noteq> None)"

text \<open>What the custody of a layer depends on; most operations leave all of it alone.\<close>

definition custody :: "hwc2_layer \<Rightarrow> vt_item list \<times> int \<times> int \<times> int \<times> nat option \<times> nat option \<times> int list" where
  "custody s = (mQueueItems s, mPreVtBufferFd s, mVtBufferFd s, mTunnelId s, mVtConsumer s,
     mDisplayObserver s, given s)"

lemma held_custody: "custody s = custody t \<Longrightarrow> held s = held t"
  by (simp add: custody_def held_def)

lemma vt_layer_ok_custody: "custody s = custody t \<Longrightarrow> vt_layer_ok s = vt_layer_ok t"
  by (simp add: custody_def vt_layer_ok_def held_def)

lemmas custody_unfold = custody_def given_def emit_def ask_def Let_def split_def

named_theorems custody_same \<open>operations that leave the custody alone\<close>

lemma fence_custody [custody_same]:
  "custody (snd (opt_fence_dup p x s)) = custody s"
  "custody (snd (getPrevReleaseFence p s)) = custody s"
  "custody (snd (getCurReleaseFence p s)) = custody s"
  by (simp_all add: opt_fence_dup_def fence_dup_def getPrevReleaseFence_def
      getCurReleaseFence_def custody_unfold split: option.split)

lemma uvm_custody [custody_same]:
  "custody (attachUvmBuffer fd s) = custody s"
  "custody (detachUvmBuffer s) = custody s"
  "custody (collectUvmBuffer fd fence s) = custody s"
  "custody (releaseUvmResourceLock s) = custody s"
  "custody (snd (getVideoInfoFromUVM p fd s)) = custody s"
  by (simp_all add: attachUvmBuffer_def detachUvmBuffer_def collectUvmBuffer_def
      releaseUvmResourceLock_def getVideoInfoFromUVM_def custody_unfold)

lemma buffer_info_custody [custody_same]:
  "custody (clearBufferInfo s) = custody s"
  "custody (setBufferInfo p b f i s) = custody s"
  by (simp_all add: clearBufferInfo_def setBufferInfo_def setAcquireFence_def fb_unlock_def
      custody_unfold split: option.split)

lemma allocBuffer_custody [custody_same]:
  "custody (snd (snd (allocBuffer p c b s))) = custody s"
  by (simp add: allocBuffer_def custody_unfold split: option.split)

lemma free_solid_custody [custody_same]:
  "custody (freeSolidColorBufferLocked s) = custody s"
  "custody (snd (vt_getSolidColorBuffer p s)) = custody s"
  by (simp_all add: freeSolidColorBufferLocked_def setCurReleaseFence_def
      vt_getSolidColorBuffer_def custody_unfold split: option.split)

lemma setter_custody [custody_same]:
  "custody (setDiProcessorFd fd s) = custody s"
  "custody (setDiProcessorFence fd s) = custody s"
  "custody (snd (getDiProcessorFence p s)) = custody s"
  "custody (setPresentTime t s) = custody s"
  "custody (setVtPrevReleaseFence s) = custody s"
  "custody (setNeedAskRefresh b s) = custody s"
  "custody (askVtRefresh p b s) = custody s"
  "custody (onVtVideoStatus st s) = custody s"
  "custody (onVtVideoGameMode n s) = custody s"
  "custody (setVtSourceCrop r s) = custody s"
  "custody (adjustDisplayFrameLocked p s) = custody s"
  "custody (adjustDisplayFrame p z s) = custody s"
  "custody (setVtDisplayFrame p r s) = custody s"
  by (simp_all add: setDiProcessorFd_def setDiProcessorFence_def getDiProcessorFence_def
      opt_fence_dup_def fence_dup_def setPresentTime_def setVtPrevReleaseFence_def
      setNeedAskRefresh_def askVtRefresh_def onVtVideoStatus_def onVtVideoGameMode_def
      setVtSourceCrop_def adjustDisplayFrameLocked_def adjustDisplayFrame_def vtRefresh_def
      setVtDisplayFrame_def custody_unfold split: option.split)

lemma attribute_custody [custody_same]:
  "custody (snd (setSourceCrop c s)) = custody s"
  "custody (snd (setDisplayFrame r s)) = custody s"
  "custody (snd (setBlendMode n s)) = custody s"
  "custody (snd (setPlaneAlpha a s)) = custody s"
  "custody (snd (setTransform n s)) = custody s"
  "custody (snd (setVisibleRegion rs s)) = custody s"
  "custody (snd (setSurfaceDamage rs s)) = custody s"
  "custody (snd (setCompositionType p n s)) = custody s"
  "custody (snd (setDataspace n s)) = custody s"
  "custody (snd (setZorder z s)) = custody s"
  "custody (snd (setPerFrameMetadata k ks ms s)) = custody s"
  "custody (snd (setBrightness a s)) = custody s"
  "custody (snd (commitCompType n s)) = custody s"
  "custody (setLayerUpdate b s) = custody s"
  by (simp_all add: setSourceCrop_def setDisplayFrame_def setBlendMode_def setPlaneAlpha_def
      setTransform_def setVisibleRegion_def setSurfaceDamage_def setCompositionType_def
      setDataspace_def setZorder_def setPerFrameMetadata_def setBrightness_def
      commitCompType_def setLayerUpdate_def vtRefresh_def custody_unfold)

lemma setUvmBuffer_custody [custody_same]: "custody (setUvmBuffer p t fd i s) = custody s"
proof -
  let ?s1 = "s\<lparr>mPreBufferIno := i\<rparr>"
  have 1: "custody ?s1 = custody s" by (simp add: custody_unfold)
  have 2: "custody (if b then s' else t') = custody s"
    if "custody s' = custody s" and "custody t' = custody s" for b and s' t' :: hwc2_layer
    using that by simp
  have 3: "custody (u\<lparr>mPreUvmBufferFd := x\<rparr>) = custody u" for u x by (simp add: custody_unfold)
  have 4: "custody (emit (CloseFile x) u) = custody u" for u :: hwc2_layer and x
    by (simp add: custody_unfold)
  have 5: "custody (snd (ask p (Dup x) u)) = custody u" for u :: hwc2_layer and x
    by (simp add: custody_unfold)
  show ?thesis
    by (simp add: setUvmBuffer_def Let_def split_def custody_same 1 2 3 4 5)
qed

lemma setBufferType_custody:
  "setBufferType p t h s = Some u \<Longrightarrow> custody u = custody s"
proof -
  have 1: "custody (u\<lparr>mFbType := x\<rparr>) = custody u" for u x by (simp add: custody_unfold)
  have 2: "custody (handleDimLayer p h s) = custody s"
    by (simp add: handleDimLayer_def custody_unfold split: option.split)
  have 3: "custody (setReqFlag x u) = custody u" for u x
    by (simp add: setReqFlag_def custody_unfold)
  show "setBufferType p t h s = Some u \<Longrightarrow> custody u = custody s"
    by (auto simp: setBufferType_def Let_def custody_same 1 2 3 split: if_splits option.splits)
qed

lemma setBuffer_custody [custody_same]: "custody (snd (setBuffer p b f s)) = custody s"
proof -
  have 1: "custody (u\<lparr>mFbType := x\<rparr>) = custody u" "custody (u\<lparr>mSecure := y\<rparr>) = custody u"
    "custody (u\<lparr>mNeedReleaseVtResource := z\<rparr>) = custody u" for u x y z
    by (simp_all add: custody_unfold)
  have 2: "custody (typeChanged t u) = custody u" for t u
    by (simp add: typeChanged_def setReqFlag_def releaseUvmResourceLock_def custody_unfold)
  show ?thesis
    by (auto simp: setBuffer_def Let_def custody_same 1 2 dest!: setBufferType_custody
        split: option.split)
qed

lemma setColor_custody [custody_same]: "custody (snd (setColor c s)) = custody s"
proof -
  have "custody (u\<lparr>mColor := c, mFbType := DRM_FB_COLOR, mUpdated := True\<rparr>) = custody u" for u
    by (simp add: custody_unfold)
  then show ?thesis by (simp add: setColor_def custody_same)
qed

section \<open>Operations that change the custody\<close>

lemma custodyD:
  assumes "custody s = (q, a, b, tid, c, d, g)"
  shows "mQueueItems s = q" "mPreVtBufferFd s = a" "mVtBufferFd s = b" "mTunnelId s = tid"
    "mVtConsumer s = c" "mDisplayObserver s = d" "given s = g"
  using assms by (simp_all add: custody_def)

lemma custody_cases:
  obtains q a b tid c d g where "custody s = (q, a, b, tid, c, d, g)"
  by (simp add: custody_def)

lemma vt_layer_ok_iff:
  assumes "custody s = (q, a, b, tid, c, d, g)"
  shows "vt_layer_ok s \<longleftrightarrow> (0 \<le> b \<longrightarrow> (\<exists>it rest. q = it # rest \<and> mItemFd it = b))
     \<and> (\<forall>it \<in> set q. 0 \<le> mItemFd it) \<and> (q \<noteq> [] \<or> 0 \<le> a \<longrightarrow> 0 \<le> tid)
     \<and> (0 \<le> tid \<longrightarrow> c \<noteq> None) \<and> (c \<noteq> None \<longrightarrow> d \<noteq> None)"
  using custodyD [OF assms] by (simp add: vt_layer_ok_def held_def)

lemma held_iff:
  "custody s = (q, a, b, tid, c, d, g) \<Longrightarrow>
    held s = mset (map mItemFd q) + (if 0 \<le> a then {#a#} else {#})"
  by (simp add: custody_def held_def)

lemma giveBack_custody:
  assumes "custody s = (q, a, b, tid, Some c, d, g)"
  shows "custody (snd (giveBack p fd f s)) = (q, a, b, tid, Some c, d, g @ [fd])"
  using custodyD [OF assms]
  by (simp add: giveBack_def onVtFrameDisplayed_def countQueued_def custody_unfold)

lemma popQueue_custody:
  assumes "custody s = (it # q, a, b, tid, c, d, g)"
  shows "\<exists>t. popQueue s = Inr t \<and> custody t = (q, a, b, tid, c, d, g)
    \<and> t = s\<lparr>mQueueItems := q\<rparr>"
  using custodyD [OF assms] by (simp add: popQueue_def custody_unfold)

lemma releaseQueue_custody:
  assumes "custody s = (q, a, b, tid, Some c, d, g)"
  shows "custody (releaseQueue p s) = (q, a, b, tid, Some c, d, g @ map mItemFd q)"
proof -
  have "custody (fold (\<lambda>it t. snd (giveBack p (mItemFd it) (- 1) t)) xs u)
      = (q, a, b, tid, Some c, d, g' @ map mItemFd xs)"
    if "custody u = (q, a, b, tid, Some c, d, g')" for xs u g'
    using that by (induction xs arbitrary: u g') (simp_all add: giveBack_custody)
  from this [OF assms] custodyD [OF assms] show ?thesis by (simp add: releaseQueue_def)
qed

lemma unregisterConsumer_custody:
  assumes "custody s = (q, a, b, tid, Some c, d, g)" and "0 \<le> tid"
  shows "custody (snd (unregisterConsumer p s)) = (q, a, b, - 1, None, d, g)"
  using custodyD [OF assms(1)] assms(2)
  by (simp add: unregisterConsumer_def custody_unfold)

lemma registerConsumer_custody:
  assumes "custody s = (q, a, b, tid, c, d, g)" and "0 \<le> tid"
  shows "\<exists>c'. custody (snd (registerConsumer p s)) = (q, a, b, tid, Some c', d, g)
    \<and> (c = Some c' \<or> c = None)"
  using custodyD [OF assms(1)] assms(2)
  by (simp add: registerConsumer_def askVtRefresh_def custody_unfold split: option.split)

definition release_active :: "hwc2_layer \<Rightarrow> bool" where
  "release_active s \<longleftrightarrow>
     (isVtBufferLocked s \<or> mNeedReleaseVtResource s) \<and> mVtConsumer s \<noteq> None"

lemma release_inactive:
  "\<not> release_active s \<Longrightarrow> releaseVtResourceLocked p disc keep s = Inr s"
  by (auto simp: releaseVtResourceLocked_def release_active_def)

lemma release_custody:
  assumes ok: "vt_layer_ok s" and act: "release_active s"
    and c: "custody s = (q, a, b, tid, Some c, d, g)"
  shows "\<exists>t. releaseVtResourceLocked p disc keep s = Inr t
    \<and> custody t = ([], if keep \<and> \<not> disc then a else - 1, - 1,
        if 0 \<le> tid \<and> disc then - 1 else tid, if 0 \<le> tid \<and> disc then None else Some c, d,
        g @ (if (\<not> keep \<or> disc) \<and> 0 \<le> a then [a] else []) @ map mItemFd q)
    \<and> \<not> mNeedReleaseVtResource t"
proof -
  let ?s1 = "if disc \<and> mNeedAskRefresh s
    then (askVtRefresh p True s)\<lparr>mNeedAskRefresh := False\<rparr> else s"
  let ?g1 = "g @ (if (\<not> keep \<or> disc) \<and> 0 \<le> a then [a] else [])"
  let ?s2 = "if (\<not> keep \<or> disc) \<and> 0 \<le> mPreVtBufferFd ?s1
    then snd (giveBack p (mPreVtBufferFd (snd (getPrevReleaseFence p ?s1)))
      (fst (getPrevReleaseFence p ?s1)) (snd (getPrevReleaseFence p ?s1))) else ?s1"
  have flag: "custody (u\<lparr>mNeedAskRefresh := x\<rparr>) = custody u" for u x by (simp add: custody_unfold)
  have 1: "custody ?s1 = (q, a, b, tid, Some c, d, g)" using c by (simp add: flag custody_same)
  then have pre: "custody (snd (getPrevReleaseFence p ?s1)) = (q, a, b, tid, Some c, d, g)"
    by (simp only: custody_same)
  have 2: "custody ?s2 = (q, a, b, tid, Some c, d, ?g1)"
    using 1 giveBack_custody [OF pre] custodyD [OF 1] custodyD [OF pre] by simp
  let ?r3 = "if 0 \<le> mVtBufferFd ?s2
    then popQueue (snd (giveBack p (mVtBufferFd (snd (getCurReleaseFence p ?s2)))
      (fst (getCurReleaseFence p ?s2)) (snd (getCurReleaseFence p ?s2)))) else Inr ?s2"
  have "\<exists>t. ?r3 = Inr t \<and> custody (releaseQueue p t)
      = (mQueueItems t, a, b, tid, Some c, d, ?g1 @ map mItemFd q)"
  proof (cases "0 \<le> b")
    case True
    with ok c obtain it rest where q: "q = it # rest" and it: "mItemFd it = b"
      by (auto simp: vt_layer_ok_iff)
    have 3: "custody (snd (getCurReleaseFence p ?s2)) = (it # rest, a, b, tid, Some c, d, ?g1)"
      using 2 unfolding q by (simp only: custody_same)
    from popQueue_custody [OF giveBack_custody [OF 3]] obtain t where
      t: "popQueue (snd (giveBack p b (fst (getCurReleaseFence p ?s2))
          (snd (getCurReleaseFence p ?s2)))) = Inr t"
        "custody t = (rest, a, b, tid, Some c, d, ?g1 @ [b])" by blast
    from releaseQueue_custody [OF t(2)] t custodyD [OF 2] custodyD [OF 3] True it q
      custodyD [OF t(2)]
    show ?thesis by simp
  next
    case False
    with releaseQueue_custody [OF 2] custodyD [OF 2] show ?thesis by simp
  qed
  then obtain t where r3: "?r3 = Inr t" and q4: "custody (releaseQueue p t)
      = (mQueueItems t, a, b, tid, Some c, d, ?g1 @ map mItemFd q)" by blast
  let ?s6 = "(if \<not> keep \<or> disc then (releaseQueue p t)\<lparr>mPreVtBufferFd := - 1\<rparr> else releaseQueue p t)
    \<lparr>mVtBufferFd := - 1, mQueueItems := [], mVtUpdate := False, mTimestamp := - 1\<rparr>"
  have 6: "custody ?s6 = ([], if keep \<and> \<not> disc then a else - 1, - 1, tid, Some c, d,
      ?g1 @ map mItemFd q)"
    using custodyD [OF q4] by (simp add: custody_unfold)
  let ?s7 = "if 0 \<le> mTunnelId ?s6 \<and> disc then snd (unregisterConsumer p ?s6) else ?s6"
  have 7: "custody ?s7 = ([], if keep \<and> \<not> disc then a else - 1, - 1,
        if 0 \<le> tid \<and> disc then - 1 else tid, if 0 \<le> tid \<and> disc then None else Some c, d,
        ?g1 @ map mItemFd q)"
    using 6 custodyD [OF 6] unregisterConsumer_custody [OF 6] by (simp only: if_True if_False) auto
  have "releaseVtResourceLocked p disc keep s
      = Inr (?s7\<lparr>mQueuedFrames := 0, mNeedReleaseVtResource := False\<rparr>)"
    using act r3 unfolding releaseVtResourceLocked_def release_active_def Let_def split_def
    by auto
  moreover have "custody (?s7\<lparr>mQueuedFrames := 0, mNeedReleaseVtResource := False\<rparr>) = custody ?s7"
    by (simp add: custody_unfold)
  ultimately show ?thesis using 7 by auto
qed

section \<open>Every operation accounts for the buffers\<close>

text \<open>\<open>accounts s new t\<close>: what was held or given back before, and \<open>new\<close>, is so after.\<close>

definition accounts :: "hwc2_layer \<Rightarrow> int multiset \<Rightarrow> hwc2_layer \<Rightarrow> bool" where
  "accounts s new t \<longleftrightarrow> vt_layer_ok t
     \<and> (\<exists>rs. given t = given s @ rs \<and> mset rs + held t = held s + new)"

lemma accountsI:
  "vt_layer_ok t \<Longrightarrow> given t = given s @ rs \<Longrightarrow> mset rs + held t = held s + new \<Longrightarrow>
    accounts s new t"
  by (auto simp: accounts_def)

lemma accounts_refl: "vt_layer_ok s \<Longrightarrow> accounts s {#} s"
  by (simp add: accounts_def)

lemma accounts_ok: "accounts s new t \<Longrightarrow> vt_layer_ok t"
  by (simp add: accounts_def)

lemma accounts_total:
  "accounts s new t \<Longrightarrow> mset (given t) + held t = mset (given s) + held s + new"
  by (auto simp: accounts_def ac_simps)

lemma accounts_same:
  "vt_layer_ok s \<Longrightarrow> custody t = custody s \<Longrightarrow> accounts s {#} t"
  using held_custody [of t s] vt_layer_ok_custody [of t s]
  by (intro accountsI [of t s "[]"]) (simp_all add: custody_def)

lemma accounts_before: "custody u = custody s \<Longrightarrow> accounts u new t = accounts s new t"
  using held_custody [of u s] by (simp add: accounts_def custody_def)

lemma accounts_after: "custody u = custody t \<Longrightarrow> accounts s new u = accounts s new t"
  using held_custody [of u t] vt_layer_ok_custody [of u t] by (simp add: accounts_def custody_def)

lemma accounts_trans:
  assumes "accounts s m t" and "accounts t n u"
  shows "accounts s (m + n) u"
proof -
  from assms obtain rs qs where
    "given t = given s @ rs" "mset rs + held t = held s + m"
    "given u = given t @ qs" "mset qs + held u = held t + n" "vt_layer_ok u"
    by (auto simp: accounts_def)
  then show ?thesis
    by (intro accountsI [of u s "rs @ qs"]) (simp_all add: ac_simps, metis add.left_commute)
qed

lemma release_accounts:
  assumes "vt_layer_ok s"
  shows "okE (releaseVtResourceLocked p disc keep s) (accounts s {#})"
proof (cases "release_active s")
  case False
  with assms show ?thesis by (simp add: release_inactive accounts_refl)
next
  case True
  obtain q a b tid c' d g where c': "custody s = (q, a, b, tid, c', d, g)" by (rule custody_cases)
  with True obtain c where c: "custody s = (q, a, b, tid, Some c, d, g)"
    by (auto simp: release_active_def custody_def)
  from release_custody [OF assms True c, of p disc keep] obtain t where
    t: "releaseVtResourceLocked p disc keep s = Inr t"
    and u: "custody t = ([], if keep \<and> \<not> disc then a else - 1, - 1,
        if 0 \<le> tid \<and> disc then - 1 else tid, if 0 \<le> tid \<and> disc then None else Some c, d,
        g @ (if (\<not> keep \<or> disc) \<and> 0 \<le> a then [a] else []) @ map mItemFd q)"
    by blast
  from assms c have "vt_layer_ok t" by (auto simp: vt_layer_ok_iff [OF u] vt_layer_ok_iff [OF c])
  then show ?thesis
    unfolding t okE_Inr
    by (rule accountsI) (use custodyD(7) [OF c] custodyD(7) [OF u] held_iff [OF c] held_iff [OF u] in auto)
qed

lemma okE_accounts_before:
  "custody u = custody s \<Longrightarrow> okE r (accounts u new) \<Longrightarrow> okE r (accounts s new)"
  by (erule okE_mono) (simp add: accounts_before [of u s])

lemma releaseFrames_accounts:
  assumes "vt_layer_ok s"
  shows "okE (releaseFrames p s) (accounts s {#})"
  unfolding releaseFrames_def okE_bindE okE_Inr
  by (rule okE_mono [OF release_accounts [OF assms]])
    (simp add: accounts_after [OF uvm_custody(4)])

lemma clearUpdateFlag_accounts:
  assumes "vt_layer_ok s"
  shows "okE (clearUpdateFlag p s) (accounts s {#})"
proof -
  let ?s = "s\<lparr>mUpdateZorder := False, mUpdated := False\<rparr>"
  have c: "custody ?s = custody s" by (simp add: custody_unfold)
  with assms have "vt_layer_ok ?s" by (simp add: vt_layer_ok_custody [OF c])
  from okE_accounts_before [OF c release_accounts [OF this, of p True False]]
    accounts_same [OF assms c]
  show ?thesis unfolding clearUpdateFlag_def releaseVtResource_def Let_def by simp
qed

lemma askSurfaceFlingerRefresh_accounts:
  assumes "vt_layer_ok s" and "mDisplayObserver s \<noteq> None"
  shows "okE (askSurfaceFlingerRefresh s) (accounts s {#})"
proof -
  have "custody (emit (ObserverRefresh d) s) = custody s" for d by (simp add: custody_unfold)
  with assms show ?thesis
    by (auto simp: askSurfaceFlingerRefresh_def accounts_same split: option.split)
qed

text \<open>Dropping one buffer of a queue that the layer keeps looking at.\<close>

definition loose_ok :: "hwc2_layer \<Rightarrow> bool" where
  "loose_ok s \<longleftrightarrow> (\<forall>it \<in> set (mQueueItems s). 0 \<le> mItemFd it)
     \<and> 0 \<le> mTunnelId s \<and> mVtConsumer s \<noteq> None \<and> mDisplayObserver s \<noteq> None"

lemma dropFront_custody:
  assumes "custody s = (it # q, a, b, tid, Some c, d, g)"
  shows "\<exists>t. dropFront p s = Inr t \<and> custody t = (q, a, b, tid, Some c, d, g @ [mItemFd it])"
proof -
  let ?s1 = "s\<lparr>mPreviousTimestamp := mItemTime it\<rparr>"
  let ?s3 = "collectUvmBuffer (fst (ask p (Dup (mItemFd it)) ?s1)) (- 1)
    (snd (ask p (Dup (mItemFd it)) ?s1))"
  have "custody ?s3 = custody s" by (simp add: collectUvmBuffer_def custody_unfold)
  with assms have 3: "custody ?s3 = (it # q, a, b, tid, Some c, d, g)" by simp
  from popQueue_custody [OF giveBack_custody [OF 3]] custodyD(1) [OF assms]
  show ?thesis by (fastforce simp: dropFront_def Let_def split_def)
qed

lemma dropExpired_custody:
  assumes "custody s = (q, a, b, tid, Some c, d, g)" and "n \<le> length q"
  shows "\<exists>t. dropExpired p n s = Inr t
    \<and> custody t = (drop n q, a, b, tid, Some c, d, g @ map mItemFd (take n q))"
  using assms
proof (induction n arbitrary: s q g)
  case (Suc n)
  then obtain it r where q: "q = it # r" by (cases q) auto
  from dropFront_custody [of s it r] Suc.prems obtain t where
    t: "dropFront p s = Inr t" "custody t = (r, a, b, tid, Some c, d, g @ [mItemFd it])"
    unfolding q by blast
  from Suc.IH [OF t(2)] Suc.prems(2) t(1) q show ?case by simp
qed simp

lemma takeFront_custody:
  assumes "custody s = (it # q, a, b, tid, c, d, g)"
  shows "\<exists>ch t. takeFront p s = Inr (ch, t)
    \<and> custody t = (it # q, a, mItemFd it, tid, c, d, g) \<and> mTimestamp t = mItemTime it \<and> mVtUpdate t"
  using custodyD [OF assms]
  by (simp add: takeFront_def getVideoInfoFromUVM_def custody_unfold)

lemma expired_less: "expiredItemCount s - 1 \<le> length (mQueueItems s)"
  unfolding expiredItemCount_def by (meson diff_le_self le_trans length_filter_le)

lemma expired_rest: "mQueueItems s \<noteq> [] \<Longrightarrow> drop (expiredItemCount s - 1) (mQueueItems s) \<noteq> []"
proof -
  assume ne: "mQueueItems s \<noteq> []"
  have "expiredItemCount s \<le> length (mQueueItems s)"
    unfolding expiredItemCount_def by (rule length_filter_le)
  with ne show ?thesis by (cases "mQueueItems s") auto
qed

text \<open>
  What \<open>updateVtBuffer\<close> leaves: all but one of the expired buffers are given back, in order, and
  the head of the rest is the current buffer.
\<close>

lemma updateVtBuffer_custody:
  assumes ok: "vt_layer_ok s" and vt: "isVtBufferLocked s"
    and c: "custody s = (q, a, b, tid, c0, d, g)" and ne: "q \<noteq> []"
  shows "\<exists>t. updateVtBuffer p s = Inr t
    \<and> custody t = (drop (expiredItemCount s - 1) q, a,
        mItemFd (hd (drop (expiredItemCount s - 1) q)), tid, c0, d,
        g @ map mItemFd (take (expiredItemCount s - 1) q))"
proof -
  let ?n = "expiredItemCount s - 1"
  from ok ne obtain x y where c0: "c0 = Some x" and d: "d = Some y"
    by (auto simp: vt_layer_ok_iff [OF c])
  have q: "mQueueItems s = q" by (rule custodyD(1) [OF c])
  from dropExpired_custody [of s q a b tid x d g ?n p] expired_less [of s] c
  obtain t where t: "dropExpired p ?n s = Inr t"
      "custody t = (drop ?n q, a, b, tid, Some x, d, g @ map mItemFd (take ?n q))"
    unfolding q c0 by blast
  from expired_rest [of s] ne obtain it r where r: "drop ?n q = it # r"
    unfolding q by (cases "drop ?n q") auto
  from takeFront_custody [of t it r] t(2) obtain ch u where
    u: "takeFront p t = Inr (ch, u)"
      "custody u = (it # r, a, mItemFd it, tid, Some x, d, g @ map mItemFd (take ?n q))"
    unfolding r by blast
  have "custody (emit (ObserverRefresh y) u) = custody u" by (simp add: custody_unfold)
  with t u r vt ne q d c0 custodyD(6) [OF u(2)] show ?thesis
    by (simp add: updateVtBuffer_def askSurfaceFlingerRefresh_def)
qed

lemma updateVtBuffer_accounts:
  assumes "vt_layer_ok s"
  shows "okE (updateVtBuffer p s) (accounts s {#})"
proof (cases "isVtBufferLocked s \<and> mQueueItems s \<noteq> []")
  case False
  with assms show ?thesis by (auto simp: updateVtBuffer_def accounts_refl)
next
  case True
  obtain n where n: "expiredItemCount s - 1 = n" by blast
  obtain q a b tid c d g where c: "custody s = (q, a, b, tid, c, d, g)" by (rule custody_cases)
  with True have ne: "q \<noteq> []" by (simp add: custody_def)
  from updateVtBuffer_custody [OF assms _ c ne, of p] True obtain t where
    t: "updateVtBuffer p s = Inr t"
    and u: "custody t = (drop n q, a, mItemFd (hd (drop n q)), tid, c, d,
      g @ map mItemFd (take n q))" unfolding n by blast
  from expired_rest [of s] ne custodyD(1) [OF c] n obtain it r where r: "drop n q = it # r"
    by (cases "drop n q") auto
  have "set (it # r) \<subseteq> set q" using set_drop_subset [of n q] unfolding r .
  with assms ne have "vt_layer_ok t"
    by (auto simp: vt_layer_ok_iff [OF u] vt_layer_ok_iff [OF c] r)
  moreover have "mset (map mItemFd (take n q)) + mset (map mItemFd (drop n q))
      = mset (map mItemFd q)"
    by (metis append_take_drop_id map_append mset_append)
  ultimately show ?thesis
    unfolding t okE_Inr
    using held_iff [OF c] held_iff [OF u] custodyD(7) [OF c] custodyD(7) [OF u]
    by (intro accountsI [of t s "map mItemFd (take n q)"]) (simp_all add: ac_simps)
qed

lemma collectReleased_custody [custody_same]: "custody (collectReleased p f s) = custody s"
  by (simp add: collectReleased_def collectUvmBuffer_def custody_unfold)

lemma releaseShown_custody:
  assumes c: "custody s = (q, a, b, tid, Some c, d, g)"
  shows "custody (snd (releaseShown p s)) =
    (if a < 0 then (q, if 0 \<le> b then b else a, if 0 \<le> b then - 1 else b, tid, Some c, d, g)
     else (q, b, - 1, tid, Some c, d, g @ [a]))"
proof -
  have upd: "custody (setVtPrevReleaseFence
      (u\<lparr>mPreVtBufferFd := x, mVtUpdate := y, mVtBufferFd := z\<rparr>)) = (q', x, z, tid', c', d', g')"
    if "custody u = (q', a', b', tid', c', d', g')" for u x y z q' a' b' tid' c' d' g'
    using custodyD [OF that] by (simp add: custody_same) (simp add: custody_unfold)
  let ?s2 = "collectReleased p (fst (getPrevReleaseFence p s)) (snd (getPrevReleaseFence p s))"
  have 2: "custody ?s2 = (q, a, b, tid, Some c, d, g)" using c by (simp only: custody_same)
  from custodyD [OF 2] giveBack_custody [OF 2]
  have 3: "custody (snd (giveBack p (mPreVtBufferFd ?s2) (fst (getPrevReleaseFence p s)) ?s2))
    = (q, a, b, tid, Some c, d, g @ [a])" by simp
  show ?thesis
    using custodyD [OF c] upd [OF c] upd [OF 3] custodyD [OF 3] c
    by (simp add: releaseShown_def Let_def split_def)
qed

text \<open>Either nothing moves, or the buffer that was current is the one shown and the one before
  it is given back.\<close>

definition release_ready :: "hwc2_layer \<Rightarrow> bool" where
  "release_ready s \<longleftrightarrow> isVtBufferLocked s \<and> mVtUpdate s \<and> shouldPresentNow s (mTimestamp s)
     \<and> mQueueItems s \<noteq> []"

lemma detach_fields [simp]:
  "mVtRefreshed (detachUvmBuffer s) = mVtRefreshed s" "mVtUpdate (detachUvmBuffer s) = mVtUpdate s"
  "mTimestamp (detachUvmBuffer s) = mTimestamp s"
  "shouldPresentNow (detachUvmBuffer s) t = shouldPresentNow s t"
  "shouldPresentNow (s\<lparr>mVtRefreshed := b\<rparr>) t = shouldPresentNow s t"
  by (simp_all add: detachUvmBuffer_def emit_def shouldPresentNow_def)

lemma releaseVtBuffer_not_ready:
  assumes "\<not> release_ready s"
  shows "\<exists>r t. releaseVtBuffer p s = Inr (r, t) \<and> custody t = custody s"
proof -
  have same: "custody (u\<lparr>mVtRefreshed := b\<rparr>) = custody u" for u b by (simp add: custody_unfold)
  have q: "mQueueItems (detachUvmBuffer s) = mQueueItems s"
    by (simp add: detachUvmBuffer_def emit_def)
  show ?thesis
    using assms by (auto simp: releaseVtBuffer_def release_ready_def Let_def same q custody_same)
qed

lemma releaseVtBuffer_ready:
  assumes ok: "vt_layer_ok s" and ready: "release_ready s"
    and c: "custody s = (q, a, b, tid, c0, d, g)"
  shows "\<exists>r t. releaseVtBuffer p s = Inr (r, t) \<and> custody t =
    (if a < 0 then (if 0 \<le> b then tl q else q, if 0 \<le> b then b else a, if 0 \<le> b then - 1 else b,
        tid, c0, d, g)
     else (if 0 \<le> b then tl q else q, b, - 1, tid, c0, d, g @ [a]))"
proof -
  let ?s2 = "if mVtRefreshed s then (detachUvmBuffer s)\<lparr>mVtRefreshed := False\<rparr> else detachUvmBuffer s"
  have same: "custody (u\<lparr>mVtRefreshed := b\<rparr>) = custody u" for u b by (simp add: custody_unfold)
  have 2: "custody ?s2 = (q, a, b, tid, c0, d, g)" using c by (simp add: same custody_same)
  from ready c have ne: "q \<noteq> []" by (simp add: release_ready_def custody_def)
  with ok obtain x where c0: "c0 = Some x" by (auto simp: vt_layer_ok_iff [OF c])
  have run: "releaseVtBuffer p s = bindE (if 0 \<le> b then popQueue ?s2 else Inr ?s2)
      (\<lambda>s3. Inr (releaseShown p s3))"
    using ready ne custodyD [OF 2] by (auto simp: releaseVtBuffer_def release_ready_def Let_def)
  show ?thesis
  proof (cases "0 \<le> b")
    case True
    with ok obtain it r where q: "q = it # r" by (auto simp: vt_layer_ok_iff [OF c])
    from popQueue_custody 2 obtain t where
      "popQueue ?s2 = Inr t" "custody t = (r, a, b, tid, Some x, d, g)"
      unfolding q c0 by blast
    with releaseShown_custody [of t r a b tid x d g p] True q c0 run show ?thesis
      by (cases "releaseShown p t") auto
  next
    case False
    with releaseShown_custody [of ?s2 q a b tid x d g p] 2 c0 run show ?thesis
      by (cases "releaseShown p ?s2") auto
  qed
qed

lemma releaseVtBuffer_accounts:
  assumes ok: "vt_layer_ok s"
  shows "okE (releaseVtBuffer p s) (\<lambda>(r, t). accounts s {#} t)"
proof (cases "release_ready s")
  case False
  from releaseVtBuffer_not_ready [OF this, of p] accounts_same [OF ok] show ?thesis by force
next
  case True
  obtain q a b tid c d g where c: "custody s = (q, a, b, tid, c, d, g)" by (rule custody_cases)
  from releaseVtBuffer_ready [OF ok True c, of p] obtain r t where
    t: "releaseVtBuffer p s = Inr (r, t)" and u: "custody t =
    (if a < 0 then (if 0 \<le> b then tl q else q, if 0 \<le> b then b else a, if 0 \<le> b then - 1 else b,
        tid, c, d, g)
     else (if 0 \<le> b then tl q else q, b, - 1, tid, c, d, g @ [a]))" by blast
  from True c have ne: "q \<noteq> []" by (simp add: release_ready_def custody_def)
  have "accounts s {#} t"
  proof (rule accountsI [of t s "if a < 0 then [] else [a]"])
    show "vt_layer_ok t"
      using ok u ne by (auto simp: vt_layer_ok_iff [OF c] vt_layer_ok_iff split: if_splits)
    show "given t = given s @ (if a < 0 then [] else [a])"
      using u c by (auto simp: custody_def split: if_splits)
    have "0 \<le> b \<Longrightarrow> \<exists>it rest. q = it # rest \<and> mItemFd it = b"
      using ok by (simp add: vt_layer_ok_iff [OF c])
    then show "mset (if a < 0 then [] else [a]) + held t = held s + {#}"
      using u held_iff [OF c] by (auto simp: held_iff split: if_splits)
  qed
  with t show ?thesis by simp
qed

end
