(* ===== verification/VtLayerRun.thy ===== *)
theory VtLayerRun
  imports VtCustody
begin

text \<open>
  The calls a layer receives, as steps, and the states they can reach. The theorem at the end
  says that along every sequence of calls each buffer the tunnel delivers is at any moment either
  held by the layer or has been given back to its consumer, once.
\<close>

section \<open>Delivery\<close>

definition accepts_frames :: "hwc2_layer \<Rightarrow> bool" where
  "accepts_frames s \<longleftrightarrow> (isVtBufferLocked s \<or> mNeedReleaseVtResource s) \<and> 0 \<le> mTunnelId s"

lemma queueItems_custody:
  assumes "custody s = (q, a, b, tid, c, d, g)"
  shows "custody (fold queueItem items s) = (q @ items, a, b, tid, c, d, g)"
  using assms
proof (induction items arbitrary: s q)
  case (Cons it items)
  have "custody (queueItem it s) = (q @ [it], a, b, tid, c, d, g)"
    using custodyD [OF Cons.prems]
    by (simp add: queueItem_def attachUvmBuffer_def countQueued_def custody_unfold)
  from Cons.IH [OF this] show ?case by simp
qed simp

lemma observer_frame_custody: "custody (emit (ObserverFrameAvailable d) s) = custody s"
  by (simp add: custody_unfold)

lemma onVtFrameAvailable_accounts:
  assumes ok: "vt_layer_ok s" and fds: "\<forall>it \<in> set items. 0 \<le> mItemFd it"
  shows "okE (onVtFrameAvailable items s)
    (\<lambda>(r, t). accounts s (if accepts_frames s then mset (map mItemFd items) else {#}) t)"
proof (cases "accepts_frames s")
  case False
  with ok show ?thesis
    by (auto simp: onVtFrameAvailable_def accepts_frames_def accounts_refl)
next
  case True
  obtain q a b tid c0 d0 g where c: "custody s = (q, a, b, tid, c0, d0, g)" by (rule custody_cases)
  let ?t = "fold queueItem items s"
  have u: "custody ?t = (q @ items, a, b, tid, c0, d0, g)" by (rule queueItems_custody [OF c])
  from True c have tid: "0 \<le> tid" by (simp add: accepts_frames_def custody_def)
  with ok obtain x d where d0: "d0 = Some d" and c0: "c0 = Some x"
    by (auto simp: vt_layer_ok_iff [OF c])
  have "vt_layer_ok ?t"
    using ok fds tid c0 d0 by (auto simp: vt_layer_ok_iff [OF u] vt_layer_ok_iff [OF c])
  then have acc: "accounts s (mset (map mItemFd items)) ?t"
    using held_iff [OF c] held_iff [OF u] custodyD(7) [OF c] custodyD(7) [OF u]
    by (intro accountsI [of ?t s "[]"]) simp_all
  with True custodyD(6) [OF u] d0 show ?thesis
    by (auto simp: onVtFrameAvailable_def accepts_frames_def Let_def
        accounts_after [OF observer_frame_custody] split: option.split)
qed

section \<open>Commands and interrupts\<close>

lemma status_accounts:
  assumes "vt_layer_ok s"
  shows "okE (isVtNeedClearFrameOrShowColorBuffer p s) (\<lambda>(r, t). accounts s {#} t)"
proof -
  have st: "custody (u\<lparr>mVideoDisplayStatus := x\<rparr>) = custody u" for u x
    by (simp add: custody_unfold)
  have fence: "custody (setCurReleaseFence n u) = custody u" for n and u :: hwc2_layer
    by (simp add: setCurReleaseFence_def custody_unfold)
  have ok: "vt_layer_ok (s\<lparr>mVideoDisplayStatus := x\<rparr>)" for x
    using assms by (simp add: vt_layer_ok_custody [OF st])
  have frames: "okE (releaseFrames p (s\<lparr>mVideoDisplayStatus := x\<rparr>)) (accounts s {#})" for x
    by (rule okE_accounts_before [OF st releaseFrames_accounts [OF ok]])
  note here = frames releaseFrames_accounts [OF assms, of p] release_accounts [OF assms, of p False True]
  show ?thesis
    using here assms
    by (cases "mVideoDisplayStatus s")
      (auto simp: isVtNeedClearFrameOrShowColorBuffer_def okE_simps accounts_after [OF fence]
        accounts_same [OF assms] custody_same st)
qed

lemma interrupt_accounts:
  assumes "vt_layer_ok s"
  shows "okE (vt_interruptVtProcess p flag s) (\<lambda>(r, f, t). accounts s {#} t)"
proof -
  have "okE (vt_interruptVtProcess p flag s) (\<lambda>(r, f, t). accounts s {#} t)"
    if "isVtBufferLocked s"
    using that unfolding vt_interruptVtProcess_def okE_bindE okE_if
    by (simp, intro okE_mono [OF status_accounts [OF assms]]) auto
  then show ?thesis
    using accounts_same [OF assms refl] by (cases "isVtBufferLocked s")
      (auto simp: vt_interruptVtProcess_def)
qed

lemma onNeedShowTempBuffer_accounts:
  assumes "vt_layer_ok s" and "mDisplayObserver s \<noteq> None"
  shows "okE (onNeedShowTempBuffer p c s) (accounts s {#})"
proof -
  let ?b = "case mAllocSolidColorBufferHandle s of None \<Rightarrow> vt_solid_color_init | Some b \<Rightarrow> b"
  let ?t = "snd (snd (allocBuffer p c ?b s))
    \<lparr>mAllocSolidColorBufferHandle := Some (fst (snd (allocBuffer p c ?b s)))\<rparr>"
  let ?s1 = "if mSolidColorBufferfd s < 0 then
      (if 0 \<le> fst (allocBuffer p c ?b s)
       then (snd (ask p (Dup (fst (allocBuffer p c ?b s))) ?t))
         \<lparr>mSolidColorBufferfd := fst (ask p (Dup (fst (allocBuffer p c ?b s))) ?t)\<rparr>
       else ?t)
    else s"
  have upd: "custody (u\<lparr>mAllocSolidColorBufferHandle := x\<rparr>) = custody u"
    "custody (u\<lparr>mSolidColorBufferfd := y\<rparr>) = custody u"
    "custody (u\<lparr>mVtUpdate := z\<rparr>) = custody u" "custody (u\<lparr>mFirstVtBuffer := z\<rparr>) = custody u"
    "custody (snd (ask p (Dup n) u)) = custody u" for u x y z n
    by (simp_all add: custody_unfold)
  have 1: "custody ?s1 = custody s" by (simp add: upd custody_same)
  let ?s2 = "?s1\<lparr>mVtUpdate := True\<rparr>"
  let ?s3 = "?s2\<lparr>mFirstVtBuffer := True\<rparr>"
  have 3: "custody ?s3 = custody s" and 2: "custody ?s2 = custody s" using 1 by (simp_all only: upd)
  have "vt_layer_ok ?s3" using assms(1) vt_layer_ok_custody [OF 3] by blast
  moreover have "mDisplayObserver ?s3 \<noteq> None" using assms(2) 3 by (simp add: custody_def)
  ultimately have a3: "okE (askSurfaceFlingerRefresh ?s3) (accounts s {#})"
    using okE_accounts_before [OF 3] askSurfaceFlingerRefresh_accounts by blast
  have "onNeedShowTempBuffer p c s = (if 0 \<le> mSolidColorBufferfd ?s1
      then if \<not> mFirstVtBuffer ?s2 then askSurfaceFlingerRefresh ?s3 else Inr ?s2 else Inr ?s1)"
    unfolding onNeedShowTempBuffer_def Let_def split_def ..
  then show ?thesis
    using a3 accounts_same [OF assms(1) 1] accounts_same [OF assms(1) 2]
    by (simp only: okE_if okE_Inr if_True if_False split: if_split) blast
qed

lemma onNeedShowTempBufferWithStatus_accounts:
  assumes "vt_layer_ok s" and "mDisplayObserver s \<noteq> None"
  shows "okE (onNeedShowTempBufferWithStatus p c st s) (accounts s {#})"
  using onNeedShowTempBuffer_accounts [OF assms, of p c] accounts_same [OF assms(1) refl]
  unfolding onNeedShowTempBufferWithStatus_def okE_bindE okE_Inr
    accounts_after [OF setter_custody(8)]
  by simp

section \<open>Content\<close>

lemma connectTunnel_accounts:
  assumes ok: "vt_layer_ok s" and c: "custody s = ([], a, b, tid, c, d, g)" and a: "a < 0"
    and ch: "0 \<le> channel_id" and obs: "observer \<noteq> None"
  shows "accounts s {#} (snd (connectTunnel p channel_id observer s))"
proof -
  let ?s1 = "s\<lparr>mTunnelId := channel_id\<rparr>"
  let ?s2 = "if mDisplayObserver ?s1 = None then ?s1\<lparr>mDisplayObserver := observer\<rparr> else ?s1"
  let ?d = "if d = None then observer else d"
  have 2: "custody ?s2 = ([], a, b, channel_id, c, ?d, g)"
    using custodyD [OF c] by (simp add: custody_unfold)
  from registerConsumer_custody [OF 2 ch, of p] obtain c' where
    3: "custody (snd (registerConsumer p ?s2)) = ([], a, b, channel_id, Some c', ?d, g)" by blast
  from ok have b: "\<not> 0 \<le> b" by (auto simp: vt_layer_ok_iff [OF c])
  have upd: "custody (u\<lparr>mQueuedFrames := 0, mQueueItems := [], mTunnelIdUpdate := True,
      mAMVideoType := - 1\<rparr>) = ([], a, b, channel_id, Some c', ?d, g)"
    "custody (u\<lparr>mTunnelId := - 1\<rparr>) = ([], a, b, - 1, Some c', ?d, g)"
    if "custody u = ([], a, b, channel_id, Some c', ?d, g)" for u
    using custodyD [OF that] by (simp_all add: custody_unfold)
  let ?r = "snd (connectTunnel p channel_id observer s)"
  have "custody ?r = ([], a, b, channel_id, Some c', ?d, g)
      \<or> custody ?r = ([], a, b, - 1, Some c', ?d, g)"
    using upd [OF 3] by (simp add: connectTunnel_def Let_def split_def)
  then show ?thesis
  proof
    assume u: "custody ?r = ([], a, b, channel_id, Some c', ?d, g)"
    from obs b a ch ok have "vt_layer_ok ?r" by (auto simp: vt_layer_ok_iff [OF u])
    with held_iff [OF u] held_iff [OF c] custodyD(7) [OF u] custodyD(7) [OF c] show ?thesis
      by (intro accountsI [of ?r s "[]"]) simp_all
  next
    assume u: "custody ?r = ([], a, b, - 1, Some c', ?d, g)"
    from obs b a ch ok have "vt_layer_ok ?r" by (auto simp: vt_layer_ok_iff [OF u])
    with held_iff [OF u] held_iff [OF c] custodyD(7) [OF u] custodyD(7) [OF c] show ?thesis
      by (intro accountsI [of ?r s "[]"]) simp_all
  qed
qed

lemma setTunnel_accounts:
  assumes ok: "vt_layer_ok s" and obs: "observer \<noteq> None"
  shows "okE (setTunnel p channel_id observer s) (\<lambda>(r, t). accounts s {#} t)"
proof -
  let ?s1 = "s\<lparr>mFbType := DRM_FB_VIDEO_TUNNEL_SIDEBAND\<rparr>"
  have 1: "custody ?s1 = custody s" by (simp add: custody_unfold)
  with ok have ok1: "vt_layer_ok ?s1" by (simp add: vt_layer_ok_custody [OF 1])
  have same: "accounts s {#} ?s1" by (rule accounts_same [OF ok 1])
  have "okE (if 0 \<le> mTunnelId ?s1 then releaseVtResourceLocked p True False ?s1 else Inr ?s1)
      (\<lambda>t. accounts s {#} (snd (connectTunnel p channel_id observer t)))" if ch: "0 \<le> channel_id"
  proof -
    obtain q a b tid c0 d g where c: "custody ?s1 = (q, a, b, tid, c0, d, g)" by (rule custody_cases)
    have connect: "accounts s {#} (snd (connectTunnel p channel_id observer t))"
      if "accounts s {#} t" and "custody t = ([], - 1, b', tid', c', d', g')" for t b' tid' c' d' g'
      using accounts_trans [OF that(1) connectTunnel_accounts [OF _ that(2) _ ch obs]] that(1)
      by (simp add: accounts_ok)
    show ?thesis
    proof (cases "0 \<le> tid")
      case True
      with ok1 obtain x where c0: "c0 = Some x" by (auto simp: vt_layer_ok_iff [OF c])
      with c have act: "release_active ?s1"
        by (simp add: release_active_def isVtBufferLocked_def custody_def)
      from release_custody [OF ok1 act, of q a b tid x d g p True False] c c0 obtain t where
        t: "releaseVtResourceLocked p True False ?s1 = Inr t"
          "custody t = ([], - 1, - 1, - 1, None, d, g @ (if 0 \<le> a then [a] else []) @ map mItemFd q)"
        using True by auto
      from release_accounts [OF ok1, of p True False] t have "accounts ?s1 {#} t" by simp
      then have "accounts s {#} t" by (simp add: accounts_before [OF 1])
      from connect [OF this t(2)] True t(1) custodyD(4) [OF c] show ?thesis by simp
    next
      case False
      with ok1 have "q = []" and a: "a < 0" by (auto simp: vt_layer_ok_iff [OF c])
      with c have c': "custody ?s1 = ([], a, b, tid, c0, d, g)" by simp
      from accounts_trans [OF same connectTunnel_accounts [OF ok1 c' a ch obs, of p]]
        False custodyD(4) [OF c]
      show ?thesis by simp
    qed
  qed
  then show ?thesis
    using same by (auto simp: setTunnel_def Let_def okE_simps split_def)
qed

lemma sidebandDone_custody [custody_same]: "custody (sidebandDone s) = custody s"
  by (simp add: sidebandDone_def releaseUvmResourceLock_def custody_unfold)

lemma setSidebandStream_accounts:
  assumes ok: "vt_layer_ok s" and obs: "observer \<noteq> None"
  shows "okE (setSidebandStream p stream observer s) (\<lambda>(r, t). accounts s {#} t)"
proof -
  let ?s1 = "(setBufferInfo p stream (- 1) True (clearBufferInfo s))\<lparr>mPreBufferIno := 0\<rparr>"
  have upd: "custody (u\<lparr>mPreBufferIno := 0\<rparr>) = custody u" "custody (u\<lparr>mFbType := x\<rparr>) = custody u"
    for u x by (simp_all add: custody_unfold)
  have 1: "custody ?s1 = custody s" by (simp add: upd custody_same)
  with ok have ok1: "vt_layer_ok ?s1" by (simp add: vt_layer_ok_custody [OF 1])
  have same: "accounts s {#} (sidebandDone (?s1\<lparr>mFbType := x\<rparr>))" for x
    by (rule accounts_same [OF ok]) (simp add: upd custody_same)
  have tunnel: "okE (setTunnel p ch observer ?s1) (\<lambda>(r, t). accounts s {#} t)" for ch
    using okE_mono [OF setTunnel_accounts [OF ok1 obs, of p ch]]
    by (simp add: accounts_before [OF 1] split_def)
  show ?thesis
    unfolding setSidebandStream_def Let_def okE_if okE_bindE okE_Inr split_def
    using same
    by (auto intro!: okE_mono [OF tunnel] simp: accounts_after [OF sidebandDone_custody]
        split_def)
qed

lemma handleDisplayDisconnect_same:
  "vt_layer_ok s \<Longrightarrow> handleDisplayDisconnect p b s = s"
  by (auto simp: handleDisplayDisconnect_def registerConsumer_def vt_layer_ok_def
      split: option.split)

section \<open>The calls of a layer as steps\<close>

datatype layer_op =
    SetBuffer "nat option" int
  | SetSidebandStream "nat option" "nat option"
  | SetColor drm_color
  | SetSourceCrop hwc_frect
  | SetDisplayFrame drm_rect
  | SetCompositionType int
  | SetZorder u32
  | LayerDisplayed int int
  | ClearUpdateFlag
  | AdjustDisplayFrame display_zoom_info
  | SetPresentTime int
  | UpdateVtBuffer
  | InterruptVtProcess drm_plane_blank
  | GetSolidColorBuffer
  | FreeSolidColorBuffer
  | SetDiProcessorFd int
  | ReleaseVtBuffer
  | ReleaseVtResource
  | HandleDisplayDisconnect bool
  | SetNeedAskRefresh bool
  | FrameAvailable "vt_item list"
  | VideoStatus vt_video_status_t
  | VideoGameMode int
  | SourceCropChange drm_rect
  | DisplayFrameChange drm_rect
  | ShowTempBuffer vt_video_color_t
  | ShowTempBufferWithStatus vt_video_color_t vt_video_status_t

fun layer_step :: "vt_platform \<Rightarrow> layer_op \<Rightarrow> hwc2_layer \<Rightarrow> fault + hwc2_layer" where
  "layer_step p (SetBuffer b f) s = Inr (snd (setBuffer p b f s))"
| "layer_step p (SetSidebandStream st d) s =
     bindE (setSidebandStream p st d s) (\<lambda>(r, t). Inr t)"
| "layer_step p (SetColor c) s = Inr (snd (setColor c s))"
| "layer_step p (SetSourceCrop c) s = Inr (snd (setSourceCrop c s))"
| "layer_step p (SetDisplayFrame r) s = Inr (snd (setDisplayFrame r s))"
| "layer_step p (SetCompositionType n) s = Inr (snd (setCompositionType p n s))"
| "layer_step p (SetZorder z) s = Inr (snd (setZorder z s))"
| "layer_step p (LayerDisplayed r f) s = Inr (onLayerDisplayed p r f s)"
| "layer_step p ClearUpdateFlag s = clearUpdateFlag p s"
| "layer_step p (AdjustDisplayFrame z) s = Inr (adjustDisplayFrame p z s)"
| "layer_step p (SetPresentTime t) s = Inr (setPresentTime t s)"
| "layer_step p UpdateVtBuffer s = updateVtBuffer p s"
| "layer_step p (InterruptVtProcess f) s =
     bindE (vt_interruptVtProcess p f s) (\<lambda>(r, f', t). Inr t)"
| "layer_step p GetSolidColorBuffer s = Inr (snd (vt_getSolidColorBuffer p s))"
| "layer_step p FreeSolidColorBuffer s = Inr (freeSolidColorBufferLocked s)"
| "layer_step p (SetDiProcessorFd fd) s = Inr (setDiProcessorFd fd s)"
| "layer_step p ReleaseVtBuffer s = bindE (releaseVtBuffer p s) (\<lambda>(r, t). Inr t)"
| "layer_step p ReleaseVtResource s = releaseVtResource p s"
| "layer_step p (HandleDisplayDisconnect b) s = Inr (handleDisplayDisconnect p b s)"
| "layer_step p (SetNeedAskRefresh b) s = Inr (setNeedAskRefresh b s)"
| "layer_step p (FrameAvailable items) s = bindE (onVtFrameAvailable items s) (\<lambda>(r, t). Inr t)"
| "layer_step p (VideoStatus st) s = Inr (onVtVideoStatus st s)"
| "layer_step p (VideoGameMode n) s = Inr (onVtVideoGameMode n s)"
| "layer_step p (SourceCropChange r) s = Inr (setVtSourceCrop r s)"
| "layer_step p (DisplayFrameChange r) s = Inr (setVtDisplayFrame p r s)"
| "layer_step p (ShowTempBuffer c) s = onNeedShowTempBuffer p c s"
| "layer_step p (ShowTempBufferWithStatus c st) s = onNeedShowTempBufferWithStatus p c st s"

text \<open>
  What a caller owes: the descriptors the driver hands out are valid, \<open>Hwc2Display\<close> passes
  itself as the observer, and a command comes through a consumer, so after a sideband stream was
  set.
\<close>

fun op_ok :: "layer_op \<Rightarrow> hwc2_layer \<Rightarrow> bool" where
  "op_ok (SetSidebandStream st d) s = (d \<noteq> None)"
| "op_ok (FrameAvailable items) s = list_all (\<lambda>it. 0 \<le> mItemFd it) items"
| "op_ok (ShowTempBuffer c) s = (mDisplayObserver s \<noteq> None)"
| "op_ok (ShowTempBufferWithStatus c st) s = (mDisplayObserver s \<noteq> None)"
| "op_ok _ s = True"

fun accepted :: "layer_op \<Rightarrow> hwc2_layer \<Rightarrow> int list" where
  "accepted (FrameAvailable items) s = (if accepts_frames s then map mItemFd items else [])"
| "accepted _ s = []"

lemma onLayerDisplayed_custody [custody_same]:
  fixes s :: hwc2_layer
  shows "custody (onLayerDisplayed p r f s) = custody s"
  by (simp add: onLayerDisplayed_def fence_merge_def custody_unfold)

lemma layer_step_accounts:
  assumes ok: "vt_layer_ok s" and pre: "op_ok op s"
  shows "okE (layer_step p op s) (accounts s (mset (accepted op s)))"
proof -
  have same: "accounts s {#} t" if "custody t = custody s" for t
    by (rule accounts_same [OF ok that])
  have unit: "okE (bindE r (\<lambda>(x, t). Inr t)) P" if "okE r (\<lambda>(x, t). P t)"
    for r :: "fault + ('x \<times> hwc2_layer)" and P
    using that by (simp add: okE_bindE split_def)
  show ?thesis
  proof (cases op)
    case (SetSidebandStream st d)
    with pre show ?thesis by (simp add: unit setSidebandStream_accounts [OF ok])
  next
    case (InterruptVtProcess f)
    show ?thesis using interrupt_accounts [OF ok, of p f]
      by (simp add: InterruptVtProcess okE_bindE split_def)
  next
    case (FrameAvailable items)
    with pre onVtFrameAvailable_accounts [OF ok, of items] show ?thesis
      by (simp add: okE_bindE split_def list_all_iff split: if_splits)
  next
    case ReleaseVtBuffer
    then show ?thesis by (simp add: unit releaseVtBuffer_accounts [OF ok])
  next
    case (ShowTempBuffer c)
    with pre show ?thesis by (simp add: onNeedShowTempBuffer_accounts [OF ok])
  next
    case (ShowTempBufferWithStatus c st)
    with pre show ?thesis by (simp add: onNeedShowTempBufferWithStatus_accounts [OF ok])
  qed (simp_all add: same custody_same clearUpdateFlag_accounts [OF ok]
      updateVtBuffer_accounts [OF ok] release_accounts [OF ok] releaseVtResource_def
      handleDisplayDisconnect_same [OF ok])
qed

section \<open>Reachable layers\<close>

text \<open>\<open>layer_reach p s fds\<close>: \<open>s\<close> is reached from a new layer, \<open>fds\<close> being all the buffers
  it accepted on the way.\<close>

inductive layer_reach :: "vt_platform \<Rightarrow> hwc2_layer \<Rightarrow> int list \<Rightarrow> bool" for p where
  layer_new: "layer_reach p (hwc2_layer_init p dispId) []"
| layer_next: "layer_reach p s fds \<Longrightarrow> op_ok op s \<Longrightarrow> layer_step p op s = Inr t
    \<Longrightarrow> layer_reach p t (fds @ accepted op s)"

lemma init_custody: "custody (hwc2_layer_init p n) = ([], - 1, - 1, - 1, None, None, [])"
  by (simp add: hwc2_layer_init_def custody_unfold)

lemma layer_reach_accounts:
  "layer_reach p s fds \<Longrightarrow> vt_layer_ok s \<and> mset (given s) + held s = mset fds"
proof (induction rule: layer_reach.induct)
  case (layer_new dispId)
  show ?case
    using vt_layer_ok_iff [OF init_custody] held_iff [OF init_custody] custodyD(7) [OF init_custody]
    by simp
next
  case (layer_next s fds op t)
  from layer_step_accounts [of s op p] layer_next
  have "accounts s (mset (accepted op s)) t" by (simp add: okE_def)
  with layer_next.IH show ?case by (simp add: accounts_ok accounts_total)
qed

end
