(* ===== verification/VtLayerProps.thy ===== *)
theory VtLayerProps
  imports VtLayerRun
begin

text \<open>
  The properties of a layer of the video tunnel: it accounts for every buffer, drops only
  buffers whose time has come, and gives everything back when it leaves the tunnel; and the
  cases in which the code does not.
\<close>

section \<open>A concrete layer\<close>

definition demo_vt :: vt_platform where
  "demo_vt =
     \<lparr>answer = (\<lambda>es. case last es of Dup fd \<Rightarrow> fd + 100 | _ \<Rightarrow> 0),
      gralloc = (\<lambda>h. \<lparr>is_uvm_dma_buffer = False, is_omx_metadata_buffer = False,
        omx_metadata_tunnel = None, is_overlay_buffer = False, is_coherent_buffer = True,
        is_secure_buffer = False, buffer_width = 64, buffer_height = 64, buffer_format = 1\<rparr>),
      gralloc_fd = (\<lambda>h. 7), ref_dma_buf = (\<lambda>h b. Some h), solid_handle = (\<lambda>es. 9),
      fstat_ino = (\<lambda>fd. None), map_pixel = (\<lambda>fd. None), stack_bytes = (\<lambda>n. 0),
      uvm_info = (\<lambda>es. (1, 0)), sideband_type = (\<lambda>h. Some 2),
      sideband_channel = (\<lambda>h. map_option int h), HWC_DISPLAY_EXTERNAL = 1,
      AM_INVALID_SIDEBAND = 0, AM_TV_SIDEBAND = 1, AM_FIXED_TUNNEL = 2, AM_VIDEO_EXTERNAL = 1,
      HWC2_COMPOSITION_INVALID = 0, HWC2_COMPOSITION_CURSOR = 4, HWC3_COMPOSITION_DECORATION = 7,
      HAL_PIXEL_FORMAT_BGRA_8888 = 5, HAL_PIXEL_FORMAT_RGBA_8888 = 1,
      HAL_PIXEL_FORMAT_RGBX_8888 = 2, HAL_PIXEL_FORMAT_RGB_888 = 3, HAL_PIXEL_FORMAT_RGB_565 = 4,
      HAL_PIXEL_FORMAT_YCrCb_420_SP = 17, ceilf_ratio = (\<lambda>a b c. a), ceilf_scaled = (\<lambda>a b c. a),
      framebuffer_size = (\<lambda>b. (1920, 1080))\<rparr>"

definition refusing_vt :: vt_platform where
  "refusing_vt = demo_vt\<lparr>answer := (\<lambda>es. - 1)\<rparr>"

definition demo_item :: "int \<Rightarrow> int \<Rightarrow> vt_item" where
  "demo_item fd t = \<lparr>mItemFd = fd, mItemTime = t\<rparr>"

text \<open>A layer on tunnel 3 with a buffer on the screen and three in its queue.\<close>

definition demo_ops :: "layer_op list" where
  "demo_ops =
     [SetSidebandStream (Some 3) (Some 0), SetPresentTime 10000000, FrameAvailable [demo_item 20 9000],
      UpdateVtBuffer, ReleaseVtBuffer, SetPresentTime 40000000,
      FrameAvailable [demo_item 21 20000, demo_item 22 30000, demo_item 23 60000]]"

fun run_ops :: "vt_platform \<Rightarrow> layer_op list \<Rightarrow> hwc2_layer \<times> int list
    \<Rightarrow> (hwc2_layer \<times> int list) option" where
  "run_ops p [] (s, fds) = Some (s, fds)"
| "run_ops p (c # cs) (s, fds) =
     (if op_ok c s then case layer_step p c s of
          Inl e \<Rightarrow> None
        | Inr t \<Rightarrow> run_ops p cs (t, fds @ accepted c s)
      else None)"

lemma run_ops_reach:
  "layer_reach p s fds \<Longrightarrow> run_ops p cs (s, fds) = Some (t, gs) \<Longrightarrow> layer_reach p t gs"
  by (induction cs arbitrary: s fds)
    (force, auto split: if_splits sum.splits dest: layer_next)

definition demo_layer :: hwc2_layer where
  "demo_layer = fst (the (run_ops demo_vt demo_ops (hwc2_layer_init demo_vt 0, [])))"

lemma demo_layer_run:
  "run_ops demo_vt demo_ops (hwc2_layer_init demo_vt 0, []) = Some (demo_layer, [20, 21, 22, 23])"
proof -
  have "map_option snd (run_ops demo_vt demo_ops (hwc2_layer_init demo_vt 0, []))
    = Some [20, 21, 22, 23]" by code_simp
  then show ?thesis by (auto simp: demo_layer_def)
qed

lemma demo_layer_reach: "layer_reach demo_vt demo_layer [20, 21, 22, 23]"
  by (rule run_ops_reach [OF layer_new demo_layer_run])

lemma demo_layer_facts:
  "isVtBufferLocked demo_layer" "\<not> mNeedReleaseVtResource demo_layer"
  "mVtConsumer demo_layer = Some 0" "mTunnelId demo_layer = 3" "\<not> mGameMode demo_layer"
  "mExpectedPresentTime demo_layer = 40000" "mPreVtBufferFd demo_layer = 20"
  "mQueueItems demo_layer = [demo_item 21 20000, demo_item 22 30000, demo_item 23 60000]"
  by (code_simp)+

section \<open>The buffers of a layer\<close>

text \<open>C27: along every sequence of calls no call is undefined, and each buffer that was accepted
  has been given back or is held, once.\<close>

theorem layer_accounts_buffers:
  assumes "layer_reach p s fds" and "op_ok op s"
  shows "\<exists>t. layer_step p op s = Inr t \<and> layer_reach p t (fds @ accepted op s)
    \<and> mset (given t) + held t = mset (fds @ accepted op s)"
proof -
  from layer_reach_accounts [OF assms(1)] layer_step_accounts [of s op p] assms(2) obtain t where
    t: "layer_step p op s = Inr t" by (auto simp: okE_iff)
  from layer_next [OF assms t] layer_reach_accounts t show ?thesis by blast
qed

theorem layer_accounts_buffers_witness:
  "\<exists>t. layer_step demo_vt UpdateVtBuffer demo_layer = Inr t
    \<and> layer_reach demo_vt t ([20, 21, 22, 23] @ [])
    \<and> mset (given t) + held t = mset [20, 21, 22, 23]"
  using layer_accounts_buffers [OF demo_layer_reach, of UpdateVtBuffer] by simp

lemma releaseVtResource_result:
  assumes ok: "vt_layer_ok s" and act: "release_active s" and "0 \<le> mTunnelId s"
  shows "\<exists>t. releaseVtResource p s = Inr t \<and> held t = {#}
    \<and> given t = given s @ (if 0 \<le> mPreVtBufferFd s then [mPreVtBufferFd s] else [])
        @ map mItemFd (mQueueItems s)
    \<and> mset (given t) = mset (given s) + held s
    \<and> mTunnelId t = - 1 \<and> mVtConsumer t = None \<and> \<not> mNeedReleaseVtResource t"
proof -
  obtain q a b tid c d g where c: "custody s = (q, a, b, tid, Some c, d, g)"
    using act by (auto simp: release_active_def custody_def)
  from release_custody [OF ok act c, of p True False] assms(3) custodyD(4) [OF c] obtain t where
    t: "releaseVtResource p s = Inr t" "\<not> mNeedReleaseVtResource t"
      "custody t = ([], - 1, - 1, - 1, None, d, g @ (if 0 \<le> a then [a] else []) @ map mItemFd q)"
    by (auto simp: releaseVtResource_def)
  have g: "given t = given s @ (if 0 \<le> mPreVtBufferFd s then [mPreVtBufferFd s] else [])
      @ map mItemFd (mQueueItems s)"
    using custodyD [OF t(3)] custodyD [OF c] by simp
  have "mset (given t) = mset (given s) + held s"
    unfolding g by (simp add: held_def)
  moreover have "held t = {#}" using held_iff [OF t(3)] by simp
  ultimately show ?thesis using t(1,2) g custodyD [OF t(3)] by blast
qed

text \<open>
  A layer that is destroyed, or has left the tunnel, gives every buffer back: the one on
  the screen, then its queue in order, and its consumer is gone.\<close>

theorem release_returns_all:
  assumes "layer_reach p s fds" and "release_active s" and "0 \<le> mTunnelId s"
  shows "\<exists>t. releaseVtResource p s = Inr t \<and> mset (given t) = mset fds \<and> held t = {#}
    \<and> given t = given s @ (if 0 \<le> mPreVtBufferFd s then [mPreVtBufferFd s] else [])
        @ map mItemFd (mQueueItems s)
    \<and> mTunnelId t = - 1 \<and> mVtConsumer t = None \<and> \<not> mNeedReleaseVtResource t"
  using releaseVtResource_result [of s p] layer_reach_accounts [OF assms(1)] assms(2,3) by auto

theorem release_returns_all_witness:
  "\<exists>t. releaseVtResource demo_vt demo_layer = Inr t \<and> mset (given t) = mset [20, 21, 22, 23]
    \<and> mTunnelId t = - 1"
proof -
  have "release_active demo_layer" "0 \<le> mTunnelId demo_layer"
    using demo_layer_facts by (simp_all add: release_active_def)
  from release_returns_all [OF demo_layer_reach this] show ?thesis by blast
qed

lemma due_takeWhile:
  assumes "sorted_wrt (\<lambda>x y. mItemTime x \<le> mItemTime y) q"
  shows "filter (\<lambda>it. mItemTime it < E) q = takeWhile (\<lambda>it. mItemTime it < E) q"
  using assms
proof (induction q)
  case (Cons it q)
  show ?case
  proof (cases "mItemTime it < E")
    case False
    with Cons.prems have "filter (\<lambda>it. mItemTime it < E) q = []"
      by (auto simp: filter_empty_conv)
    with False show ?thesis by simp
  qed (use Cons in simp)
qed simp

lemma takeWhile_take: "k \<le> length (takeWhile P q) \<Longrightarrow> x \<in> set (take k q) \<Longrightarrow> P x"
  by (metis in_set_takeD min.absorb1 set_takeWhileD take_take takeWhile_eq_take)

text \<open>C31: with time stamps in order and less than a second ahead, \<open>updateVtBuffer\<close> drops
  buffers that are due only, and the one it makes current is the last that is due, or the next
  one where none is.\<close>

theorem update_drops_due:
  assumes "layer_reach p s fds" and vt: "isVtBufferLocked s" and ne: "mQueueItems s \<noteq> []"
    and mode: "\<not> mGameMode s"
    and sorted: "sorted_wrt (\<lambda>x y. mItemTime x \<le> mItemTime y) (mQueueItems s)"
    and near: "\<forall>it \<in> set (mQueueItems s).
      0 < mItemTime it \<and> mItemTime it < mExpectedPresentTime s + 1000000"
  shows "\<exists>t k. updateVtBuffer p s = Inr t \<and> k < length (mQueueItems s)
    \<and> given t = given s @ map mItemFd (take k (mQueueItems s))
    \<and> mQueueItems t = drop k (mQueueItems s) \<and> mVtBufferFd t = mItemFd (mQueueItems s ! k)
    \<and> (\<forall>it \<in> set (take k (mQueueItems s)). mItemTime it < mExpectedPresentTime s)
    \<and> (\<forall>it \<in> set (drop (Suc k) (mQueueItems s)). mExpectedPresentTime s \<le> mItemTime it)"
proof -
  let ?E = "mExpectedPresentTime s"
  let ?due = "takeWhile (\<lambda>it. mItemTime it < ?E) (mQueueItems s)"
  obtain q a b tid c d g where c: "custody s = (q, a, b, tid, c, d, g)" by (rule custody_cases)
  have q: "mQueueItems s = q" by (rule custodyD(1) [OF c])
  have "filter (\<lambda>it. 0 < mItemTime it \<and> shouldPresentNow s (mItemTime it) \<and> \<not> mGameMode s) q
      = filter (\<lambda>it. mItemTime it < ?E) q"
    using near mode by (intro filter_cong) (auto simp: shouldPresentNow_def q)
  with due_takeWhile [OF sorted] have n: "expiredItemCount s = length ?due"
    by (simp add: expiredItemCount_def q)
  obtain k where k: "expiredItemCount s - 1 = k" by blast
  have le: "k \<le> length ?due" and le': "length ?due \<le> Suc k" using k n by auto
  have len: "k < length q" using expired_rest [OF ne] unfolding k q by simp
  from updateVtBuffer_custody [OF _ vt c, of p] layer_reach_accounts [OF assms(1)] ne obtain t where
    t: "updateVtBuffer p s = Inr t" and u: "custody t = (drop k q, a, mItemFd (hd (drop k q)), tid,
      c, d, g @ map mItemFd (take k q))" unfolding k q by blast
  have "?E \<le> mItemTime it" if "it \<in> set (drop (Suc k) q)" for it
  proof -
    from that obtain i where i: "Suc k \<le> i" "i < length q" "it = q ! i"
      by (auto simp: in_set_conv_nth) (metis add.commute add_Suc_right le_add1 less_diff_conv)
    then have "length ?due < length q" and "length ?due \<le> i" using le' by auto
    then have "\<not> mItemTime (q ! length ?due) < ?E" using nth_length_takeWhile [of _ q] by (auto simp: q)
    moreover have "mItemTime (q ! length ?due) \<le> mItemTime (q ! i)"
      using sorted i \<open>length ?due \<le> i\<close>
      by (cases "length ?due = i") (auto simp: q sorted_wrt_iff_nth_less)
    ultimately show ?thesis using i by simp
  qed
  moreover have "mItemTime it < ?E" if "it \<in> set (take k q)" for it
    using takeWhile_take [OF le] that by (simp add: q)
  ultimately show ?thesis
    using t u len custodyD [OF u] custodyD(7) [OF c] by (auto simp: q hd_drop_conv_nth)
qed

theorem update_drops_due_witness:
  "\<exists>t k. updateVtBuffer demo_vt demo_layer = Inr t
    \<and> mQueueItems t = drop k [demo_item 21 20000, demo_item 22 30000, demo_item 23 60000]"
  using update_drops_due [OF demo_layer_reach] demo_layer_facts
  by (auto simp: demo_item_def)

text \<open>Two buffers more than a second ahead count as expired, so a buffer in front of them
  whose time has not come is given back without being shown.\<close>

theorem far_future_drops_near:
  assumes "layer_reach p s fds" and vt: "isVtBufferLocked s" and mode: "\<not> mGameMode s"
    and q: "mQueueItems s = [x, y, z]" and time: "0 \<le> mExpectedPresentTime s"
    and x: "mExpectedPresentTime s \<le> mItemTime x" "mItemTime x < mExpectedPresentTime s + 1000000"
    and yz: "mExpectedPresentTime s + 1000000 \<le> mItemTime y"
      "mExpectedPresentTime s + 1000000 \<le> mItemTime z"
  shows "\<exists>t. updateVtBuffer p s = Inr t \<and> \<not> shouldPresentNow s (mItemTime x)
    \<and> given t = given s @ [mItemFd x] \<and> mVtBufferFd t = mItemFd y"
proof -
  obtain q' a b tid c d g where c: "custody s = (q', a, b, tid, c, d, g)" by (rule custody_cases)
  have q': "q' = [x, y, z]" using custodyD(1) [OF c] q by simp
  have now: "\<not> shouldPresentNow s (mItemTime x)" "shouldPresentNow s (mItemTime y)"
    "shouldPresentNow s (mItemTime z)"
    using mode x yz time by (auto simp: shouldPresentNow_def)
  with mode yz time have n: "expiredItemCount s - 1 = 1" by (simp add: expiredItemCount_def q)
  from updateVtBuffer_custody [OF _ vt c, of p] layer_reach_accounts [OF assms(1)] obtain t where
    "updateVtBuffer p s = Inr t"
    "custody t = (drop 1 q', a, mItemFd (hd (drop 1 q')), tid, c, d, g @ map mItemFd (take 1 q'))"
    unfolding n by (auto simp: q')
  with now q' custodyD [of t] custodyD(7) [OF c] show ?thesis by auto
qed

definition far_ops :: "layer_op list" where
  "far_ops = [SetSidebandStream (Some 3) (Some 0), SetPresentTime 10000000,
     FrameAvailable [demo_item 21 15000, demo_item 22 2000000, demo_item 23 3000000]]"

definition far_layer :: hwc2_layer where
  "far_layer = fst (the (run_ops demo_vt far_ops (hwc2_layer_init demo_vt 0, [])))"

lemma far_layer_reach: "layer_reach demo_vt far_layer [21, 22, 23]"
proof -
  have "map_option snd (run_ops demo_vt far_ops (hwc2_layer_init demo_vt 0, []))
    = Some [21, 22, 23]" by code_simp
  then have "run_ops demo_vt far_ops (hwc2_layer_init demo_vt 0, []) = Some (far_layer, [21, 22, 23])"
    by (auto simp: far_layer_def)
  then show ?thesis by (rule run_ops_reach [OF layer_new])
qed

lemma far_layer_facts:
  "isVtBufferLocked far_layer" "\<not> mGameMode far_layer" "mExpectedPresentTime far_layer = 10000"
  "mQueueItems far_layer = [demo_item 21 15000, demo_item 22 2000000, demo_item 23 3000000]"
  by (code_simp)+

theorem far_future_drops_near_witness:
  "\<exists>t. updateVtBuffer demo_vt far_layer = Inr t \<and> mVtBufferFd t = 22
    \<and> given t = given far_layer @ [21]"
  using far_future_drops_near [OF far_layer_reach _ _ far_layer_facts(4)] far_layer_facts
  by (auto simp: demo_item_def)

section \<open>Leaving the tunnel\<close>

lemma clear_fields:
  "mNeedReleaseVtResource (snd (setColor c s)) = mNeedReleaseVtResource s"
  "mFbType (snd (setColor c s)) = DRM_FB_COLOR"
  by (simp_all add: setColor_def clearBufferInfo_def emit_def fb_unlock_def Let_def
      split: option.split)

lemma typed_fields:
  "mNeedReleaseVtResource (typeChanged t s) = mNeedReleaseVtResource s"
  "mNeedReleaseVtResource (setUvmBuffer p t fd i s) = mNeedReleaseVtResource s"
  "mNeedReleaseVtResource (handleDimLayer p h s) = mNeedReleaseVtResource s"
  by (auto simp: typeChanged_def setReqFlag_def releaseUvmResourceLock_def setUvmBuffer_def
      handleDimLayer_def emit_def ask_def Let_def split_def attachUvmBuffer_def
      collectUvmBuffer_def getVideoInfoFromUVM_def getPrevReleaseFence_def opt_fence_dup_def
      fence_dup_def split: option.split)

lemma setBuffer_marks:
  assumes "isVtBufferLocked s"
  shows "mNeedReleaseVtResource (snd (setBuffer p b f s))"
proof -
  let ?s1 = "releaseUvmResourceLock (s\<lparr>mNeedReleaseVtResource := True\<rparr>)"
  let ?s2 = "detachUvmBuffer (setBufferInfo p b f False (clearBufferInfo ?s1))"
  have 2: "mNeedReleaseVtResource ?s2"
    by (simp add: detachUvmBuffer_def setBufferInfo_def setAcquireFence_def clearBufferInfo_def
        fb_unlock_def releaseUvmResourceLock_def emit_def Let_def split: option.split)
  have "mNeedReleaseVtResource u" if "setBufferType p t h ?s2 = Some u" for t h u
    using that 2 by (auto simp: setBufferType_def setReqFlag_def typed_fields Let_def
        split: if_splits option.splits)
  with 2 assms show ?thesis by (auto simp: setBuffer_def Let_def typed_fields split: option.split)
qed

text \<open>C32: a graphic buffer set on a tunnel layer makes the next \<open>clearUpdateFlag\<close> give every
  tunnel buffer back and disconnect; a colour set on it does not: the buffers stay, the tunnel
  stays connected, and the next frames it delivers are refused with an error.\<close>

theorem colour_keeps_tunnel_buffers:
  assumes "layer_reach p s fds" and vt: "isVtBufferLocked s" and tid: "0 \<le> mTunnelId s"
    and not_yet: "\<not> mNeedReleaseVtResource s"
  shows "\<exists>t u. clearUpdateFlag p (snd (setBuffer p b f s)) = Inr t
    \<and> held t = {#} \<and> mset (given t) = mset fds \<and> mTunnelId t = - 1
    \<and> clearUpdateFlag p (snd (setColor c s)) = Inr u
    \<and> held u = held s \<and> given u = given s \<and> mTunnelId u = mTunnelId s
    \<and> onVtFrameAvailable items u = Inr (- EINVAL, u)"
proof -
  let ?b = "snd (setBuffer p b f s)"
  let ?b' = "?b\<lparr>mUpdateZorder := False, mUpdated := False\<rparr>"
  from layer_reach_accounts [OF assms(1)] have ok: "vt_layer_ok s"
    and all: "mset (given s) + held s = mset fds" by simp_all
  have cb: "custody ?b' = custody s"
    using setBuffer_custody [of p b f s] by (simp add: custody_unfold)
  have nb: "mNeedReleaseVtResource ?b'" using setBuffer_marks [OF vt] by simp
  obtain q a b tid x d g where cs: "custody s = (q, a, b, tid, Some x, d, g)"
    using ok tid by (auto simp: custody_def vt_layer_ok_def)
  with cb have c': "custody ?b' = (q, a, b, tid, Some x, d, g)" by simp
  have act: "release_active ?b'" using nb custodyD(5) [OF c'] by (simp add: release_active_def)
  have "vt_layer_ok ?b'" using ok vt_layer_ok_custody [OF cb] by blast
  from release_custody [OF this act c', of p True False] tid custodyD(4) [OF cs] obtain t where
    t: "releaseVtResourceLocked p True False ?b' = Inr t"
      "custody t = ([], - 1, - 1, - 1, None, d, g @ (if 0 \<le> a then [a] else []) @ map mItemFd q)"
    by auto
  have "clearUpdateFlag p ?b = Inr t"
    using t(1) nb by (simp add: clearUpdateFlag_def releaseVtResource_def)
  moreover have "held t = {#}" using held_iff [OF t(2)] by simp
  moreover have "mset (given t) = mset fds"
    using all held_iff [OF cs] custodyD(7) [OF cs] custodyD(7) [OF t(2)] by (auto simp: ac_simps)
  moreover have "mTunnelId t = - 1" by (rule custodyD(4) [OF t(2)])
  moreover
  let ?u = "(snd (setColor c s))\<lparr>mUpdateZorder := False, mUpdated := False\<rparr>"
  have "clearUpdateFlag p (snd (setColor c s)) = Inr ?u"
    using not_yet by (simp add: clearUpdateFlag_def clear_fields)
  moreover have cu: "custody ?u = custody s"
    using setColor_custody [of c s] by (simp add: custody_unfold)
  moreover have "onVtFrameAvailable items ?u = Inr (- EINVAL, ?u)"
    using not_yet by (simp add: onVtFrameAvailable_def isVtBufferLocked_def clear_fields)
  ultimately show ?thesis
    using held_custody [OF cu] by (intro exI [of _ t] exI [of _ ?u]) (simp add: custody_def)
qed

theorem colour_keeps_tunnel_buffers_witness:
  "\<exists>u. clearUpdateFlag demo_vt (snd (setColor (mColor demo_layer) demo_layer)) = Inr u
    \<and> held u = held demo_layer \<and> onVtFrameAvailable [demo_item 24 70000] u = Inr (- EINVAL, u)"
proof -
  have "0 \<le> mTunnelId demo_layer" by (simp add: demo_layer_facts)
  from colour_keeps_tunnel_buffers [OF demo_layer_reach demo_layer_facts(1) this demo_layer_facts(2)]
  show ?thesis by blast
qed

section \<open>A tunnel that cannot be connected\<close>

fun is_connect :: "vt_event \<Rightarrow> bool" where
  "is_connect (ConnectInstance tid c) = True"
| "is_connect _ = False"

definition connects :: "'a fb_object_scheme \<Rightarrow> vt_event list" where
  "connects s = filter is_connect (vt_log s)"

definition tunnel_part :: "hwc2_layer \<Rightarrow> int \<times> nat option \<times> vt_event list" where
  "tunnel_part s = (mTunnelId s, mVtConsumer s, connects s)"

lemma content_tunnel_part:
  "tunnel_part ((setBufferInfo p b f i (clearBufferInfo s))\<lparr>mPreBufferIno := 0\<rparr>) = tunnel_part s"
  "tunnel_part (sidebandDone s) = tunnel_part s"
  "tunnel_part (s\<lparr>mFbType := ty\<rparr>) = tunnel_part s"
  by (simp_all add: tunnel_part_def connects_def sidebandDone_def releaseUvmResourceLock_def
      setBufferInfo_def setAcquireFence_def clearBufferInfo_def fb_unlock_def emit_def Let_def
      split: option.split)

text \<open>C33: when the tunnel cannot be connected the call fails, but the consumer stays on the
  layer; the same call again then succeeds without connecting anything.\<close>

theorem retry_after_failed_connect:
  assumes "layer_reach p s fds" and none: "mVtConsumer s = None"
    and type: "sideband_type p st = Some (AM_FIXED_TUNNEL p)" "AM_FIXED_TUNNEL p \<noteq> AM_TV_SIDEBAND p"
    and ch: "sideband_channel p st = Some ch" "0 \<le> ch"
    and first: "setSidebandStream p st d s = Inr (HWC2_ERROR_BAD_PARAMETER, t)"
  shows "\<exists>u. setSidebandStream p st d t = Inr (HWC2_ERROR_NONE, u)
    \<and> mTunnelId u = ch \<and> connects u = connects t"
proof -
  let ?c = "\<lambda>s. (setBufferInfo p st (- 1) True (clearBufferInfo s))\<lparr>mPreBufferIno := 0\<rparr>"
  let ?x = "\<lambda>s. (?c s)\<lparr>mFbType := DRM_FB_VIDEO_TUNNEL_SIDEBAND\<rparr>"
  have part: "tunnel_part (?x s) = tunnel_part s" for s by (simp only: content_tunnel_part)
  have tid: "mTunnelId s < 0"
    using layer_reach_accounts [OF assms(1)] none by (auto simp: vt_layer_ok_def)
  have run: "setSidebandStream p st d s = (let r = connectTunnel p ch d (?x s) in
      Inr (if fst r then (HWC2_ERROR_NONE, sidebandDone (snd r))
           else (HWC2_ERROR_BAD_PARAMETER, snd r)))" if "mTunnelId s < 0" for s
    using that type ch part [of s]
    by (simp add: setSidebandStream_def setTunnel_def Let_def split_def tunnel_part_def)
  have t: "t = snd (connectTunnel p ch d (?x s))" "\<not> fst (connectTunnel p ch d (?x s))"
    using first by (simp_all add: run [OF tid] Let_def split: if_splits)
  have left: "mTunnelId t = - 1" "mVtConsumer t \<noteq> None"
    using t part [of s] none ch
    by (auto simp: connectTunnel_def registerConsumer_def askVtRefresh_def emit_def ask_def
        Let_def split_def tunnel_part_def split: if_splits option.splits)
  let ?r = "connectTunnel p ch d (?x t)"
  have "fst ?r \<and> tunnel_part (snd ?r) = (ch, mVtConsumer t, connects t)"
    using part [of t] left ch
    by (auto simp: connectTunnel_def registerConsumer_def tunnel_part_def connects_def Let_def
        split_def)
  then have "fst ?r" "tunnel_part (sidebandDone (snd ?r)) = (ch, mVtConsumer t, connects t)"
    by (simp_all only: content_tunnel_part)
  then show ?thesis
    using run [of t] left(1) by (simp add: Let_def tunnel_part_def)
qed

definition refused_layer :: hwc2_layer where
  "refused_layer = (case setSidebandStream refusing_vt (Some 3) (Some 0) (hwc2_layer_init refusing_vt 0)
     of Inl e \<Rightarrow> hwc2_layer_init refusing_vt 0 | Inr (e, t) \<Rightarrow> t)"

theorem retry_after_failed_connect_witness:
  "\<exists>u. setSidebandStream refusing_vt (Some 3) (Some 0) refused_layer = Inr (HWC2_ERROR_NONE, u)
    \<and> mTunnelId u = 3 \<and> connects u = connects refused_layer"
proof -
  let ?s = "hwc2_layer_init refusing_vt 0"
  let ?r = "setSidebandStream refusing_vt (Some 3) (Some 0) ?s"
  have "(case ?r of Inl e \<Rightarrow> HWC2_ERROR_NONE | Inr (e, t) \<Rightarrow> e) = HWC2_ERROR_BAD_PARAMETER"
    by code_simp
  then have "?r = Inr (HWC2_ERROR_BAD_PARAMETER, refused_layer)"
    by (auto simp: refused_layer_def split: sum.splits)
  from retry_after_failed_connect [OF layer_new _ _ _ _ _ this, of 3] show ?thesis
    by (simp add: refusing_vt_def demo_vt_def hwc2_layer_init_def)
qed

section \<open>Colours\<close>

definition covers :: "(nat \<times> nat \<times> nat) list \<Rightarrow> nat \<Rightarrow> bool" where
  "covers ws n \<longleftrightarrow> (\<exists>(off, b, len) \<in> set ws. off \<le> n \<and> n < off + len)"

lemma ex_nat_split: "(\<exists>k. P k) \<longleftrightarrow> P 0 \<or> (\<exists>k. P (Suc k))"
  by (metis not0_implies_Suc)

lemma paintVu_set:
  "0 < step \<Longrightarrow> w \<in> set (paintVu step v u base len i) \<longleftrightarrow> (\<exists>k. i + k * step < len
    \<and> (w = (base + (i + k * step), v, 1) \<or> w = (base + (i + k * step) + 1, u, 1)))"
proof (induction step v u base len i rule: paintVu.induct)
  case (1 step v u base len i)
  show ?case
  proof (cases "i < len")
    case False
    then show ?thesis by (subst paintVu.simps) auto
  next
    case True
    let ?Q = "\<lambda>j. j < len \<and> (w = (base + j, v, 1) \<or> w = (base + j + 1, u, 1))"
    have "w \<in> set (paintVu step v u base len i)
        \<longleftrightarrow> ?Q i \<or> w \<in> set (paintVu step v u base len (i + step))"
      using True "1.prems" by (subst paintVu.simps) auto
    also have "\<dots> \<longleftrightarrow> ?Q (i + 0 * step) \<or> (\<exists>k. ?Q (i + Suc k * step))"
      using 1 True by (simp add: add.assoc)
    also have "\<dots> \<longleftrightarrow> (\<exists>k. ?Q (i + k * step))"
      by (rule ex_nat_split [symmetric])
    finally show ?thesis .
  qed
qed

text \<open>Blue is painted on every chroma byte of the solid colour buffer, alternating V and U;
  the loop for green leaves every third chroma byte as it was.\<close>

theorem solid_colours_painted:
  assumes "n < 34560"
  shows "(69120 + n, if even n then 0x6e else 0xf0, 1) \<in> set (solidColorWrites SOLID_COLOR_FOR_BLUE)
    \<and> (n mod 3 = 2 \<longrightarrow> \<not> covers (solidColorWrites SOLID_COLOR_FOR_GREEN) (69120 + n))"
proof -
  have blue: "solidColorWrites SOLID_COLOR_FOR_BLUE
      = (0, 0x29, 69120) # paintVu 2 0x6e 0xf0 69120 34560 0"
    and green: "solidColorWrites SOLID_COLOR_FOR_GREEN
      = (0, 0x90, 69120) # paintVu 3 0x36 0x23 69120 34560 0"
    by (simp_all add: solidColorWrites_def VIDEO_BUFFER_H_def VIDEO_BUFFER_W_def Let_def)
  have "(69120 + n, if even n then 0x6e else 0xf0, 1) \<in> set (paintVu 2 0x6e 0xf0 69120 34560 0)"
    using assms by (cases "even n") (auto simp: paintVu_set elim!: evenE oddE)
  moreover have False if "n mod 3 = 2" and
    "(off, b, len) \<in> set ((0, 0x90, 69120) # paintVu 3 0x36 0x23 69120 34560 0)"
    "off \<le> 69120 + n" "69120 + n < off + len" for off b len
    using that by (auto simp: paintVu_set) presburger+
  ultimately show ?thesis
    unfolding covers_def blue green by fastforce
qed

theorem solid_colours_painted_witness:
  "(69122, 0x6e, 1) \<in> set (solidColorWrites SOLID_COLOR_FOR_BLUE)
    \<and> \<not> covers (solidColorWrites SOLID_COLOR_FOR_GREEN) 69122"
  using solid_colours_painted [of 2] by simp

end
