(* ===== verification/VtInstance.thy ===== *)
theory VtInstance
  imports VtModel
begin

text \<open>
  One tunnel on the side of the composer: \<open>VtInstance\<close>
  (src/common/videotunnel/VtInstance.cpp), the reference counts of its buffers
  (\<open>VtBufferItem\<close> in VtConsumer.h) and the release fences of src/common/base/DrmSync.cpp.

  A \<open>VtBufferItem\<close> is an object the queue of the instance and the vector handed to the
  consumers share: \<open>vt_objects\<close> is the heap of these objects, a container holds their numbers.
  A \<open>VtConsumer\<close> is a number; \<open>listens c\<close> says that its \<open>mReleaseListener\<close> is this instance.
  The driver (src/videotunnel is its C wrapper, an \<open>ioctl\<close> each) is a log of calls; what it
  answers is the parameter \<open>vt_driver\<close>. What a consumer does with a callback is a function on a
  state \<open>'w\<close> of its own, \<open>vt_client\<close>.
\<close>

section \<open>Driver and consumers\<close>

datatype drv_event =
    DrvConnect int
  | DrvDisconnect int
  | DrvAcquire int
  | DrvRelease int int int
  | DrvRecvCmd int
  | DrvPoll
  | DrvWait int
  | DrvDup int
  | DrvMerge int int

datatype vt_cmd_t =
    VT_CMD_SET_VIDEO_STATUS
  | VT_CMD_GET_VIDEO_STATUS
  | VT_CMD_SET_GAME_MODE
  | VT_CMD_SET_SOURCE_CROP
  | VT_CMD_SET_SHOW_SOLID_COLOR
  | VT_CMD_SET_COLOR_BLACK
  | VT_CMD_SET_COLOR_BLUE
  | VT_CMD_SET_COLOR_GREEN
  | VT_CMD_SET_DISPLAY_FRAME
  | VT_CMD_OTHER int

record vt_cmd_data_t =
  cmd_rect :: drm_rect
  cmd_data :: int

record vt_driver =
  drv_answer :: "drv_event list \<Rightarrow> int"
  drv_buffer :: "drv_event list \<Rightarrow> int \<times> int"
  drv_cmd :: "drv_event list \<Rightarrow> vt_cmd_t \<times> vt_cmd_data_t"
  drv_revents :: "drv_event list \<Rightarrow> bool \<times> bool"

text \<open>
  \<open>drv_buffer es\<close> is the descriptor and the time stamp the last call of \<open>es\<close> hands out,
  \<open>drv_revents es\<close> says whether \<open>POLLIN\<close> and \<open>POLLOUT\<close> are set.
\<close>

record 'w vt_client =
  on_frames :: "nat \<Rightarrow> (int \<times> int) list \<Rightarrow> 'w \<Rightarrow> int \<times> 'w"
  on_cmd :: "nat \<Rightarrow> vt_cmd_t \<Rightarrow> vt_cmd_data_t \<Rightarrow> 'w \<Rightarrow> int \<times> 'w"

section \<open>Buffer items\<close>

record vt_buffer_item =
  mRef :: int
  mVtFd :: int
  mTime :: int
  mReleaseFence :: "drm_fence option"

definition new_item :: "int \<Rightarrow> int \<Rightarrow> vt_buffer_item" where
  "new_item bufferFd timeStamp =
     \<lparr>mRef = - 1, mVtFd = bufferFd, mTime = timeStamp, mReleaseFence = Some NO_FENCE\<rparr>"

definition refHandle :: "vt_buffer_item \<Rightarrow> vt_buffer_item" where
  "refHandle b = (if mRef b = - 1 then b\<lparr>mRef := 1\<rparr> else b\<lparr>mRef := mRef b + 1\<rparr>)"

definition unrefHandle :: "vt_buffer_item \<Rightarrow> bool \<times> vt_buffer_item" where
  "unrefHandle b = (mRef b - 1 = 0, b\<lparr>mRef := mRef b - 1\<rparr>)"

section \<open>The instance\<close>

record vt_instance =
  inst_tunnel :: int
  mConsumers :: "nat list"
  mBufferQueue :: "nat list"
  vt_objects :: "nat \<Rightarrow> vt_buffer_item"
  objects_made :: nat
  listens :: "nat \<Rightarrow> bool"
  drv_log :: "drv_event list"

definition vt_instance_init :: "int \<Rightarrow> drv_event list \<Rightarrow> vt_instance" where
  "vt_instance_init tunnelId es =
     \<lparr>inst_tunnel = tunnelId, mConsumers = [], mBufferQueue = [],
      vt_objects = (\<lambda>_. new_item (- 1) (- 1)), objects_made = 0, listens = (\<lambda>_. False),
      drv_log = es\<rparr>"

definition drv_call :: "vt_driver \<Rightarrow> drv_event \<Rightarrow> vt_instance \<Rightarrow> int \<times> vt_instance" where
  "drv_call v e s = (drv_answer v (drv_log s @ [e]), s\<lparr>drv_log := drv_log s @ [e]\<rparr>)"

definition upd_item :: "nat \<Rightarrow> (vt_buffer_item \<Rightarrow> vt_buffer_item) \<Rightarrow> vt_instance
    \<Rightarrow> vt_instance" where
  "upd_item i f s = s\<lparr>vt_objects := (vt_objects s)(i := f (vt_objects s i))\<rparr>"

section \<open>Fences\<close>

datatype fence_status = Invalid | Unsignaled | Signaled

definition ETIME :: int where "ETIME = 62"

text \<open>\<open>DrmFence::getStatus\<close>, with \<open>wait(0)\<close>: the answer to \<open>DrvWait\<close> is 0 or \<open>-errno\<close>.\<close>

definition getStatus :: "vt_driver \<Rightarrow> drm_fence \<Rightarrow> vt_instance \<Rightarrow> fence_status \<times> vt_instance" where
  "getStatus v f s =
     (if fence_fd f = - 1 then (Signaled, s)
      else let (r, t) = drv_call v (DrvWait (fence_fd f)) s in
        (if r = 0 then Signaled else if r = - ETIME then Unsignaled else Invalid, t))"

definition updateReleaseFence :: "vt_driver \<Rightarrow> int \<Rightarrow> drm_fence \<Rightarrow> vt_instance
    \<Rightarrow> drm_fence \<times> vt_instance" where
  "updateReleaseFence v fenceFd f s =
     (if fenceFd < - 1 then (f, s)
      else if f = NO_FENCE then (Fence fenceFd, s)
      else
        let (st1, s1) = getStatus v f s in
        if st1 = Invalid then (Fence fenceFd, s1)
        else
          let (st2, s2) = getStatus v f s1 in
          if st2 = Signaled then (Fence fenceFd, s2)
          else
            let (st3, s3) = getStatus v f s2 in
            if st3 = Unsignaled then
              let (g, es) = fence_merge (drv_answer v) DrvMerge f (Fence fenceFd) (drv_log s3) in
              (g, s3\<lparr>drv_log := es\<rparr>)
            else (f, s3))"

section \<open>Giving a buffer back to the driver\<close>

definition releaseBufferLocked :: "vt_driver \<Rightarrow> nat \<Rightarrow> vt_instance \<Rightarrow> fault + vt_instance" where
  "releaseBufferLocked v i s =
     bindE (getE NullDeref (mReleaseFence (vt_objects s i))) (\<lambda>f.
       let (fd, s1) = (if fence_fd f = - 1 then (- 1, s) else drv_call v (DrvDup (fence_fd f)) s);
           (ret, s2) = drv_call v (DrvRelease (inst_tunnel s1) (mVtFd (vt_objects s1 i)) fd) s1 in
       Inr (upd_item i (\<lambda>b. b\<lparr>mReleaseFence := None\<rparr>) s2))"

definition onFrameDisplayed :: "vt_driver \<Rightarrow> int \<Rightarrow> int \<Rightarrow> vt_instance
    \<Rightarrow> fault + (int \<times> vt_instance)" where
  "onFrameDisplayed v bufferFd fenceFd s =
     (if mBufferQueue s = [] then Inr (- 1, s)
      else case find (\<lambda>i. mVtFd (vt_objects s i) = bufferFd) (mBufferQueue s) of
        None \<Rightarrow> Inr (- 1, s)
      | Some i \<Rightarrow>
          bindE (getE NullDeref (mReleaseFence (vt_objects s i))) (\<lambda>f.
            let (g, s1) = updateReleaseFence v fenceFd f s;
                (last, b) = unrefHandle ((vt_objects s1 i)\<lparr>mReleaseFence := Some g\<rparr>);
                s2 = upd_item i (\<lambda>_. b) s1 in
            if last
            then bindE (releaseBufferLocked v i (s2\<lparr>mBufferQueue := remove1 i (mBufferQueue s2)\<rparr>))
              (\<lambda>s3. Inr (0, s3))
            else Inr (0, s2)))"

definition releaseItem :: "vt_driver \<Rightarrow> nat \<Rightarrow> vt_instance \<Rightarrow> vt_instance" where
  "releaseItem v i s =
     upd_item i (\<lambda>b. b\<lparr>mReleaseFence := None\<rparr>)
       (snd (drv_call v (DrvRelease (inst_tunnel s) (mVtFd (vt_objects s i)) (- 1)) s))"

definition releaseInstanceBuffers :: "vt_driver \<Rightarrow> vt_instance \<Rightarrow> vt_instance" where
  "releaseInstanceBuffers v s =
     (if mBufferQueue s = [] then s
      else (fold (releaseItem v) (mBufferQueue s) s)\<lparr>mBufferQueue := []\<rparr>)"

section \<open>Consumers\<close>

definition registerVtConsumer :: "nat \<Rightarrow> vt_instance \<Rightarrow> int \<times> vt_instance" where
  "registerVtConsumer c s =
     (0, s\<lparr>listens := (listens s)(c := True), mConsumers := mConsumers s @ [c]\<rparr>)"

definition unregisterVtConsumer :: "nat \<Rightarrow> vt_instance \<Rightarrow> int \<times> vt_instance" where
  "unregisterVtConsumer c s =
     (if c \<in> set (mConsumers s) then (0, s\<lparr>mConsumers := remove1 c (mConsumers s)\<rparr>)
      else (- 1, s))"

definition inst_connect :: "vt_driver \<Rightarrow> vt_instance \<Rightarrow> int \<times> vt_instance" where
  "inst_connect v s =
     (if 0 \<le> inst_tunnel s then drv_call v (DrvConnect (inst_tunnel s)) s else (- 1, s))"

definition inst_disconnect :: "vt_driver \<Rightarrow> vt_instance \<Rightarrow> vt_instance" where
  "inst_disconnect v s =
     (if 0 \<le> inst_tunnel s then snd (drv_call v (DrvDisconnect (inst_tunnel s)) s) else s)
       \<lparr>inst_tunnel := - 1\<rparr>"

definition needDestroyThisInstance :: "vt_instance \<Rightarrow> bool" where
  "needDestroyThisInstance s \<longleftrightarrow> mConsumers s = []"

text \<open>\<open>VtInstance::~VtInstance\<close>: the state just before the object is gone.\<close>

definition inst_destroy :: "vt_driver \<Rightarrow> vt_instance \<Rightarrow> vt_instance" where
  "inst_destroy v s =
     (let s1 = s\<lparr>listens := (\<lambda>c. listens s c \<and> c \<notin> set (mConsumers s)), mConsumers := []\<rparr> in
      inst_disconnect v (releaseInstanceBuffers v s1))"

section \<open>Taking buffers from the driver\<close>

definition new_object :: "int \<Rightarrow> int \<Rightarrow> vt_instance \<Rightarrow> vt_instance" where
  "new_object fd t s =
     s\<lparr>vt_objects := (vt_objects s)(objects_made s := new_item fd t),
       mBufferQueue := mBufferQueue s @ [objects_made s],
       objects_made := Suc (objects_made s)\<rparr>"

text \<open>
  The loop stops when the driver has no more buffers (\<open>-EAGAIN\<close>) or fails; it does not return
  where the driver always has one more.
\<close>

partial_function (option) acquireLoop :: "vt_driver \<Rightarrow> nat list \<Rightarrow> vt_instance
    \<Rightarrow> (int \<times> nat list \<times> vt_instance) option" where
  [code]: "acquireLoop v items s =
     (let (ret, s1) = drv_call v (DrvAcquire (inst_tunnel s)) s; (fd, t) = drv_buffer v (drv_log s1) in
      if ret = 0 then acquireLoop v (items @ [objects_made s1]) (new_object fd t s1)
      else Some (ret, items, s1))"

definition payload :: "nat list \<Rightarrow> vt_instance \<Rightarrow> (int \<times> int) list" where
  "payload items s = map (\<lambda>i. (mVtFd (vt_objects s i), mTime (vt_objects s i))) items"

definition ref_all :: "nat list \<Rightarrow> vt_instance \<Rightarrow> vt_instance" where
  "ref_all items s = fold (\<lambda>i. upd_item i refHandle) items s"

definition unref_all :: "nat list \<Rightarrow> vt_instance \<Rightarrow> vt_instance" where
  "unref_all items s = fold (\<lambda>i. upd_item i (\<lambda>b. snd (unrefHandle b))) items s"

text \<open>
  The loop over the consumers: \<open>kept\<close> are those before the iterator, the last argument the
  iterator.
\<close>

fun notifyConsumers :: "'w vt_client \<Rightarrow> nat list \<Rightarrow> nat list \<Rightarrow> int \<Rightarrow> vt_instance \<Rightarrow> 'w \<Rightarrow> nat list
    \<Rightarrow> int \<times> vt_instance \<times> 'w" where
  "notifyConsumers k items kept ret s w [] = (ret, s, w)"
| "notifyConsumers k items kept ret s w (c # cs) =
     (let s1 = ref_all items s; (r, w1) = on_frames k c (payload items s1) w in
      if r < 0 \<and> r \<noteq> - EAGAIN
      then notifyConsumers k items kept (- EAGAIN) (unref_all items (s1\<lparr>mConsumers := kept @ cs\<rparr>)) w1 cs
      else notifyConsumers k items (kept @ [c]) r s1 w1 cs)"

definition acquireBuffer :: "vt_driver \<Rightarrow> 'w vt_client \<Rightarrow> vt_instance \<Rightarrow> 'w
    \<Rightarrow> (int \<times> vt_instance \<times> 'w) option" where
  "acquireBuffer v k s w =
     (case acquireLoop v [] s of
        None \<Rightarrow> None
      | Some (ret, items, s1) \<Rightarrow>
          if ret \<noteq> - EAGAIN then Some (ret, s1, w)
          else if items \<noteq> [] then Some (notifyConsumers k items [] ret s1 w (mConsumers s1))
          else Some (ret, s1, w))"

section \<open>Commands\<close>

fun sendCmd :: "'w vt_client \<Rightarrow> vt_cmd_t \<Rightarrow> vt_cmd_data_t \<Rightarrow> int \<Rightarrow> 'w \<Rightarrow> nat list \<Rightarrow> int \<times> 'w" where
  "sendCmd k cmd d ret w [] = (ret, w)"
| "sendCmd k cmd d ret w (c # cs) =
     (let (r, w1) = on_cmd k c cmd d w in sendCmd k cmd d r w1 cs)"

definition receiveCmds :: "vt_driver \<Rightarrow> 'w vt_client \<Rightarrow> vt_instance \<Rightarrow> 'w
    \<Rightarrow> int \<times> vt_instance \<times> 'w" where
  "receiveCmds v k s w =
     (let (ret, s1) = drv_call v (DrvRecvCmd (inst_tunnel s)) s in
      if ret < 0 then (ret, s1, w)
      else let (cmd, d) = drv_cmd v (drv_log s1); (r, w1) = sendCmd k cmd d ret w (mConsumers s1) in
        (r, s1, w1))"

end
