(* ===== verification/VtManager.thy ===== *)
theory VtManager
  imports VtInstance
begin

text \<open>
  \<open>VtInstanceMgr\<close> and the thread that drives it
  (src/common/videotunnel/VtInstanceMgr.cpp, VtHandleEventsThread.cpp, VideoTunnelDev.cpp):
  the map from tunnel ids to instances, and one turn of the event loop.

  The driver is one device, so its log goes from one instance to the next: an operation runs on
  the instance with the log of the manager. \<open>mVtHandleEventsThread\<close> is \<open>None\<close> before the thread
  object is made, and then its \<open>mExit\<close>.
\<close>

section \<open>State\<close>

record vt_manager =
  mInstances :: "(int \<times> vt_instance) list"
  mVtHandleEventsThread :: "bool option"
  mgr_log :: "drv_event list"

definition vt_manager_init :: vt_manager where
  "vt_manager_init = \<lparr>mInstances = [], mVtHandleEventsThread = None, mgr_log = []\<rparr>"

definition map_put :: "int \<Rightarrow> vt_instance \<Rightarrow> (int \<times> vt_instance) list \<Rightarrow> (int \<times> vt_instance) list" where
  "map_put tid i m = map (\<lambda>e. if fst e = tid then (tid, i) else e) m"

definition with_log :: "vt_manager \<Rightarrow> vt_instance \<Rightarrow> vt_instance" where
  "with_log m i = i\<lparr>drv_log := mgr_log m\<rparr>"

definition store :: "int \<Rightarrow> vt_instance \<Rightarrow> vt_manager \<Rightarrow> vt_manager" where
  "store tid i m = m\<lparr>mInstances := map_put tid i (mInstances m), mgr_log := drv_log i\<rparr>"

section \<open>Clearing up\<close>

text \<open>
  An instance without consumers is disconnected and erased. The local pointer of the loop is the
  last reference, so the destructor runs when the loop goes on; when the caller holds a pointer
  too (\<open>hold\<close>), it runs when the caller returns, and the instance is the third component.
\<close>

fun clearUp :: "vt_driver \<Rightarrow> int option \<Rightarrow> drv_event list \<Rightarrow> (int \<times> vt_instance) list
    \<Rightarrow> drv_event list \<times> (int \<times> vt_instance) list \<times> vt_instance list" where
  "clearUp v hold es [] = (es, [], [])"
| "clearUp v hold es ((tid, i) # rest) =
     (if needDestroyThisInstance i then
        let j = inst_disconnect v (i\<lparr>drv_log := es\<rparr>) in
        if hold = Some tid then
          let (es1, kept, gone) = clearUp v hold (drv_log j) rest in (es1, kept, j # gone)
        else clearUp v hold (drv_log (inst_destroy v j)) rest
      else
        let (es1, kept, gone) = clearUp v hold es rest in (es1, (tid, i) # kept, gone))"

definition clearUpHolding :: "vt_driver \<Rightarrow> int option \<Rightarrow> vt_manager \<Rightarrow> vt_manager" where
  "clearUpHolding v hold m =
     (let (es, kept, gone) = clearUp v hold (mgr_log m) (mInstances m);
          es1 = fold (\<lambda>i es. drv_log (inst_destroy v (i\<lparr>drv_log := es\<rparr>))) gone es in
      m\<lparr>mInstances := kept, mgr_log := es1\<rparr>)"

definition clearUpInstancesLocked :: "vt_driver \<Rightarrow> vt_manager \<Rightarrow> vt_manager" where
  "clearUpInstancesLocked v m =
     (if mInstances m = [] then m else clearUpHolding v None m)"

section \<open>Connecting and disconnecting\<close>

definition startThread :: "vt_manager \<Rightarrow> vt_manager" where
  "startThread m = m\<lparr>mVtHandleEventsThread := Some False\<rparr>"

definition connectInstanceLocked :: "vt_driver \<Rightarrow> int \<Rightarrow> nat \<Rightarrow> vt_manager \<Rightarrow> int \<times> vt_manager" where
  "connectInstanceLocked v tunnelId c m =
     (if tunnelId < 0 then (- 1, m)
      else case map_of (mInstances m) tunnelId of
        Some i \<Rightarrow>
          let (ret, j) = registerVtConsumer c (with_log m i) in
          (ret, startThread (store tunnelId j m))
      | None \<Rightarrow>
          let (ret, i) = inst_connect v (vt_instance_init tunnelId (mgr_log m)) in
          if ret < 0 then (ret, m\<lparr>mgr_log := drv_log (inst_destroy v i)\<rparr>)
          else
            let m1 = m\<lparr>mInstances := map_insert tunnelId i (mInstances m), mgr_log := drv_log i\<rparr>;
                (ret1, j) = registerVtConsumer c i in
            (ret1, startThread (store tunnelId j m1)))"

definition disconnectInstanceLocked :: "vt_driver \<Rightarrow> int \<Rightarrow> nat \<Rightarrow> vt_manager \<Rightarrow> int \<times> vt_manager" where
  "disconnectInstanceLocked v tunnelId c m =
     (if tunnelId < 0 then (- 1, m)
      else if mInstances m = [] then (- 1, m)
      else case map_of (mInstances m) tunnelId of
        None \<Rightarrow> (- 1, clearUpInstancesLocked v m)
      | Some i \<Rightarrow>
          let (ret, j) = unregisterVtConsumer c (with_log m i) in
          (ret, clearUpHolding v (Some tunnelId) (store tunnelId j m)))"

section \<open>Events\<close>

datatype vt_poll_status = eBufferReady | eCmdReady | eNotReady | eInvalidStatus

definition pollBufferAndCmds :: "vt_driver \<Rightarrow> drv_event list \<Rightarrow> vt_poll_status \<times> drv_event list" where
  "pollBufferAndCmds v es =
     (let es1 = es @ [DrvPoll]; (pollin, pollout) = drv_revents v es1 in
      (if 0 < drv_answer v es1
       then if pollin then eBufferReady else if pollout then eCmdReady else eNotReady
       else eNotReady, es1))"

definition pollVtEvents :: "vt_driver \<Rightarrow> vt_manager \<Rightarrow> vt_poll_status \<times> vt_manager" where
  "pollVtEvents v m =
     (let m1 = clearUpInstancesLocked v m in
      if mInstances m1 = [] then (eInvalidStatus, m1)
      else let (st, es) = pollBufferAndCmds v (mgr_log m1) in (st, m1\<lparr>mgr_log := es\<rparr>))"

fun acquireAll :: "vt_driver \<Rightarrow> 'w vt_client \<Rightarrow> int \<Rightarrow> vt_manager \<Rightarrow> 'w \<Rightarrow> int list
    \<Rightarrow> (int \<times> vt_manager \<times> 'w) option" where
  "acquireAll v k ret m w [] = Some (ret, m, w)"
| "acquireAll v k ret m w (tid # tids) =
     (case map_of (mInstances m) tid of
        None \<Rightarrow> acquireAll v k ret m w tids
      | Some i \<Rightarrow>
          (case acquireBuffer v k (with_log m i) w of
             None \<Rightarrow> None
           | Some (r, j, w1) \<Rightarrow> acquireAll v k r (store tid j m) w1 tids))"

definition handleBuffers :: "vt_driver \<Rightarrow> 'w vt_client \<Rightarrow> vt_manager \<Rightarrow> 'w
    \<Rightarrow> (int \<times> vt_manager \<times> 'w) option" where
  "handleBuffers v k m w =
     (let m1 = clearUpInstancesLocked v m in
      if mInstances m1 = [] then Some (- 1, m1, w)
      else acquireAll v k (- 1) m1 w (map fst (mInstances m1)))"

fun receiveAll :: "vt_driver \<Rightarrow> 'w vt_client \<Rightarrow> int \<Rightarrow> vt_manager \<Rightarrow> 'w \<Rightarrow> int list
    \<Rightarrow> int \<times> vt_manager \<times> 'w" where
  "receiveAll v k ret m w [] = (ret, m, w)"
| "receiveAll v k ret m w (tid # tids) =
     (case map_of (mInstances m) tid of
        None \<Rightarrow> receiveAll v k ret m w tids
      | Some i \<Rightarrow>
          let (r, j, w1) = receiveCmds v k (with_log m i) w in
          receiveAll v k r (store tid j m) w1 tids)"

definition handleCmds :: "vt_driver \<Rightarrow> 'w vt_client \<Rightarrow> vt_manager \<Rightarrow> 'w \<Rightarrow> int \<times> vt_manager \<times> 'w" where
  "handleCmds v k m w =
     (let m1 = clearUpInstancesLocked v m in
      if mInstances m1 = [] then (- 1, m1, w)
      else receiveAll v k (- 1) m1 w (map fst (mInstances m1)))"

definition handleVideoTunnelEvents :: "vt_driver \<Rightarrow> 'w vt_client \<Rightarrow> vt_manager \<Rightarrow> 'w
    \<Rightarrow> (int \<times> vt_manager \<times> 'w) option" where
  "handleVideoTunnelEvents v k m w =
     (let (status, m1) = pollVtEvents v m in
      case status of
        eBufferReady \<Rightarrow> handleBuffers v k m1 w
      | eCmdReady \<Rightarrow> Some (handleCmds v k m1 w)
      | eNotReady \<Rightarrow> Some (0, m1, w)
      | eInvalidStatus \<Rightarrow> Some (- 1, m1, w))"

text \<open>
  One turn of the loop of \<open>vtThreadMain\<close>: whether the thread goes on, and the state.
\<close>

definition vtThreadTurn :: "vt_driver \<Rightarrow> 'w vt_client \<Rightarrow> vt_manager \<Rightarrow> 'w
    \<Rightarrow> (bool \<times> vt_manager \<times> 'w) option" where
  "vtThreadTurn v k m w =
     (if mVtHandleEventsThread m \<noteq> Some False then Some (False, m, w)
      else case handleVideoTunnelEvents v k m w of
        None \<Rightarrow> None
      | Some (ret, m1, w1) \<Rightarrow>
          Some (True,
            if ret \<noteq> 0 \<and> ret \<noteq> - EAGAIN then m1\<lparr>mVtHandleEventsThread := Some True\<rparr> else m1, w1))"

end
