(* ===== verification/VtRefs.thy ===== *)
theory VtRefs
  imports VtManager "HOL-Library.Multiset"
begin

text \<open>
  Taking buffers from the driver ends when the driver has none left; and the reference count of
  a buffer is the number of consumers that hold it, so the driver gets it back exactly when the
  last of them has given it back.
\<close>

section \<open>The acquire loop\<close>

fun arrivals :: "vt_driver \<Rightarrow> nat \<Rightarrow> vt_instance \<Rightarrow> vt_instance" where
  "arrivals v 0 s = s"
| "arrivals v (Suc n) s =
     (let s1 = snd (drv_call v (DrvAcquire (inst_tunnel s)) s); (fd, t) = drv_buffer v (drv_log s1) in
      arrivals v n (new_object fd t s1))"

definition acquire_answer :: "vt_driver \<Rightarrow> vt_instance \<Rightarrow> nat \<Rightarrow> int" where
  "acquire_answer v s n =
     drv_answer v (drv_log s @ replicate (Suc n) (DrvAcquire (inst_tunnel s)))"

lemma acquire_answer_0: "drv_answer v (drv_log s @ [DrvAcquire (inst_tunnel s)]) = acquire_answer v s 0"
  by (simp add: acquire_answer_def)

lemma new_object_simps [simp]:
  "inst_tunnel (new_object fd t s) = inst_tunnel s" "drv_log (new_object fd t s) = drv_log s"
  "objects_made (new_object fd t s) = Suc (objects_made s)"
  "mConsumers (new_object fd t s) = mConsumers s" "listens (new_object fd t s) = listens s"
  by (simp_all add: new_object_def)

lemma drv_call_simps [simp]:
  "fst (drv_call v e s) = drv_answer v (drv_log s @ [e])"
  "drv_log (snd (drv_call v e s)) = drv_log s @ [e]"
  "inst_tunnel (snd (drv_call v e s)) = inst_tunnel s"
  "objects_made (snd (drv_call v e s)) = objects_made s"
  "mConsumers (snd (drv_call v e s)) = mConsumers s"
  "mBufferQueue (snd (drv_call v e s)) = mBufferQueue s"
  "vt_objects (snd (drv_call v e s)) = vt_objects s"
  "listens (snd (drv_call v e s)) = listens s"
  by (simp_all add: drv_call_def)

lemma acquire_answer_Suc:
  "acquire_answer v (new_object fd t (snd (drv_call v (DrvAcquire (inst_tunnel s)) s))) n
    = acquire_answer v s (Suc n)"
  by (simp add: acquire_answer_def replicate_app_Cons_same)

lemma acquireLoop_stops:
  assumes "\<And>k. k < n \<Longrightarrow> acquire_answer v s k = 0" and "acquire_answer v s n \<noteq> 0"
  shows "acquireLoop v items s = Some (acquire_answer v s n,
    items @ [objects_made s..<objects_made s + n],
    snd (drv_call v (DrvAcquire (inst_tunnel s)) (arrivals v n s)))"
  using assms
proof (induction n arbitrary: items s)
  case 0
  then show ?case
    by (subst acquireLoop.simps) (simp add: Let_def split_def acquire_answer_0)
next
  case (Suc n)
  let ?s1 = "snd (drv_call v (DrvAcquire (inst_tunnel s)) s)"
  let ?b = "drv_buffer v (drv_log ?s1)"
  let ?t = "new_object (fst ?b) (snd ?b) ?s1"
  have "acquire_answer v ?t k = 0" if "k < n" for k
    unfolding acquire_answer_Suc by (rule Suc.prems(1)) (simp add: that)
  moreover have "acquire_answer v ?t n \<noteq> 0"
    unfolding acquire_answer_Suc by (rule Suc.prems(2))
  ultimately have ih: "acquireLoop v (items @ [objects_made ?s1]) ?t = Some (acquire_answer v ?t n,
      (items @ [objects_made ?s1]) @ [objects_made ?t..<objects_made ?t + n],
      snd (drv_call v (DrvAcquire (inst_tunnel ?t)) (arrivals v n ?t)))"
    using Suc.IH by blast
  have "acquire_answer v s 0 = 0" by (rule Suc.prems(1)) simp
  then have "acquireLoop v items s = acquireLoop v (items @ [objects_made ?s1]) ?t"
    by (subst acquireLoop.simps) (simp add: Let_def split_def acquire_answer_0)
  then show ?case
    unfolding ih by (simp add: acquire_answer_Suc Let_def split_def upt_conv_Cons)
qed

lemma acquireLoop_answer:
  assumes "acquireLoop v items s = Some r"
  shows "\<exists>n. acquire_answer v s n \<noteq> 0"
proof (rule acquireLoop.raw_induct [OF _ assms, where P = "\<lambda>v items s r. \<exists>n. acquire_answer v s n \<noteq> 0"])
  fix loop v items s r
  assume ih: "\<And>v items s r. loop v items s = Some r \<Longrightarrow> \<exists>n. acquire_answer v s n \<noteq> 0"
    and run: "(let (ret, s1) = drv_call v (DrvAcquire (inst_tunnel s)) s;
        (fd, t) = drv_buffer v (drv_log s1)
      in if ret = 0 then loop v (items @ [objects_made s1]) (new_object fd t s1)
         else Some (ret, items, s1)) = Some r"
  show "\<exists>n. acquire_answer v s n \<noteq> 0"
  proof (cases "acquire_answer v s 0 = 0")
    case True
    let ?s1 = "snd (drv_call v (DrvAcquire (inst_tunnel s)) s)"
    let ?b = "drv_buffer v (drv_log ?s1)"
    from run True have "loop v (items @ [objects_made ?s1]) (new_object (fst ?b) (snd ?b) ?s1) = Some r"
      by (simp add: Let_def split_def acquire_answer_0)
    from ih [OF this] show ?thesis unfolding acquire_answer_Suc by blast
  qed blast
qed

lemma acquireBuffer_returns:
  "acquireLoop v [] s = Some x \<Longrightarrow> \<exists>r. acquireBuffer v k s w = Some r"
  by (cases x) (simp add: acquireBuffer_def del: split_paired_Ex)

text \<open>C34: acquireBuffer returns exactly where the driver sometime answers that it has no further
  buffer, or fails; it spins for ever on a driver that always has one more.\<close>

theorem acquire_returns:
  "(\<exists>r. acquireBuffer v k s w = Some r) \<longleftrightarrow> (\<exists>n. acquire_answer v s n \<noteq> 0)"
proof
  assume "\<exists>r. acquireBuffer v k s w = Some r"
  then obtain r where "acquireLoop v [] s = Some r"
    by (auto simp: acquireBuffer_def split: option.splits)
  then show "\<exists>n. acquire_answer v s n \<noteq> 0" by (rule acquireLoop_answer)
next
  assume ex: "\<exists>n. acquire_answer v s n \<noteq> 0"
  let ?n = "LEAST n. acquire_answer v s n \<noteq> 0"
  have "acquire_answer v s ?n \<noteq> 0" using ex by (rule LeastI_ex)
  moreover have "acquire_answer v s k = 0" if "k < ?n" for k using not_less_Least [OF that] by simp
  ultimately have "acquireLoop v [] s = Some (acquire_answer v s ?n,
      [] @ [objects_made s..<objects_made s + ?n],
      snd (drv_call v (DrvAcquire (inst_tunnel s)) (arrivals v ?n s)))"
    by (intro acquireLoop_stops)
  then show "\<exists>r. acquireBuffer v k s w = Some r"
    by (rule acquireBuffer_returns)
qed

section \<open>Reference counts\<close>

text \<open>\<open>h c\<close> is what consumer \<open>c\<close> holds; \<open>fd_of s i\<close> the descriptor of an item.\<close>

abbreviation fd_of :: "vt_instance \<Rightarrow> nat \<Rightarrow> int" where
  "fd_of s i \<equiv> mVtFd (vt_objects s i)"

definition queue_fds :: "vt_instance \<Rightarrow> int list" where
  "queue_fds s = map (fd_of s) (mBufferQueue s)"

definition acquired :: "vt_instance \<Rightarrow> int list" where
  "acquired s = map (fd_of s) [0..<objects_made s]"

definition holds_count :: "(nat \<Rightarrow> int multiset) \<Rightarrow> nat list \<Rightarrow> int \<Rightarrow> nat" where
  "holds_count h cs fd = (\<Sum>c\<leftarrow>cs. count (h c) fd)"

definition refs_ok :: "(nat \<Rightarrow> int multiset) \<Rightarrow> vt_instance \<Rightarrow> bool" where
  "refs_ok h s \<longleftrightarrow> distinct (mBufferQueue s) \<and> distinct (queue_fds s) \<and> distinct (mConsumers s)
     \<and> (\<forall>i \<in> set (mBufferQueue s). i < objects_made s \<and> mReleaseFence (vt_objects s i) \<noteq> None
          \<and> 0 < mRef (vt_objects s i)
          \<and> mRef (vt_objects s i) = int (holds_count h (mConsumers s) (fd_of s i)))
     \<and> (\<forall>c \<in> set (mConsumers s). set_mset (h c) \<subseteq> set (queue_fds s))"

fun event_release :: "drv_event \<Rightarrow> int list" where
  "event_release (DrvRelease tid fd f) = [fd]"
| "event_release _ = []"

definition released :: "vt_instance \<Rightarrow> int list" where
  "released s = concat (map event_release (drv_log s))"

lemma holds_count_take:
  fixes h :: "nat \<Rightarrow> int multiset"
  assumes "distinct cs" and "c \<in> set cs" and "fd \<in># h c"
  shows "holds_count h cs fd = Suc (holds_count (h(c := h c - {#fd#})) cs fd)"
    and "fd' \<noteq> fd \<Longrightarrow> holds_count (h(c := h c - {#fd#})) cs fd' = holds_count h cs fd'"
proof -
  from assms(2) obtain xs ys where cs: "cs = xs @ c # ys" by (auto dest: split_list)
  with assms(1) have no: "c \<notin> set xs" "c \<notin> set ys" by auto
  let ?h = "h(c := h c - {#fd#})"
  have same: "(\<Sum>x\<leftarrow>zs. count (?h x) g) = (\<Sum>x\<leftarrow>zs. count (h x) g)" if "c \<notin> set zs" for zs g
    using that by (induction zs) auto
  have split: "holds_count k cs g = (\<Sum>x\<leftarrow>xs. count (k x) g) + count (k c) g + (\<Sum>x\<leftarrow>ys. count (k x) g)"
    for k :: "nat \<Rightarrow> int multiset" and g by (simp add: holds_count_def cs)
  obtain m where m: "h c = add_mset fd m" using assms(3) by (metis insert_DiffM)
  show "holds_count h cs fd = Suc (holds_count ?h cs fd)"
    unfolding split same [OF no(1)] same [OF no(2)] by (simp add: m)
  show "holds_count ?h cs fd' = holds_count h cs fd'" if "fd' \<noteq> fd"
    unfolding split same [OF no(1)] same [OF no(2)] using that by (simp add: m)
qed

lemma holds_count_0: "holds_count h cs fd = 0 \<longleftrightarrow> (\<forall>c \<in> set cs. fd \<notin># h c)"
  by (auto simp: holds_count_def not_in_iff)

lemma status_fields [simp]:
  "drv_log (snd (getStatus v f s)) = drv_log s @ (if fence_fd f = - 1 then [] else [DrvWait (fence_fd f)])"
  "inst_tunnel (snd (getStatus v f s)) = inst_tunnel s"
  "objects_made (snd (getStatus v f s)) = objects_made s"
  "mConsumers (snd (getStatus v f s)) = mConsumers s"
  "mBufferQueue (snd (getStatus v f s)) = mBufferQueue s"
  "vt_objects (snd (getStatus v f s)) = vt_objects s"
  "listens (snd (getStatus v f s)) = listens s"
  by (simp_all add: getStatus_def Let_def split_def)

lemma updateReleaseFence_fields [simp]:
  "inst_tunnel (snd (updateReleaseFence v n f s)) = inst_tunnel s"
  "objects_made (snd (updateReleaseFence v n f s)) = objects_made s"
  "mConsumers (snd (updateReleaseFence v n f s)) = mConsumers s"
  "mBufferQueue (snd (updateReleaseFence v n f s)) = mBufferQueue s"
  "vt_objects (snd (updateReleaseFence v n f s)) = vt_objects s"
  "listens (snd (updateReleaseFence v n f s)) = listens s"
  "released (snd (updateReleaseFence v n f s)) = released s"
  by (simp_all add: updateReleaseFence_def fence_merge_def released_def Let_def split_def)

lemma upd_item_simps [simp]:
  "inst_tunnel (upd_item i f s) = inst_tunnel s" "mConsumers (upd_item i f s) = mConsumers s"
  "mBufferQueue (upd_item i f s) = mBufferQueue s" "objects_made (upd_item i f s) = objects_made s"
  "listens (upd_item i f s) = listens s" "drv_log (upd_item i f s) = drv_log s"
  "vt_objects (upd_item i f s) = (vt_objects s)(i := f (vt_objects s i))"
  by (simp_all add: upd_item_def)

lemma releaseBufferLocked_result:
  assumes "mReleaseFence (vt_objects s i) \<noteq> None"
  shows "\<exists>t. releaseBufferLocked v i s = Inr t \<and> mBufferQueue t = mBufferQueue s
    \<and> mConsumers t = mConsumers s \<and> objects_made t = objects_made s \<and> inst_tunnel t = inst_tunnel s
    \<and> vt_objects t = (vt_objects s)(i := (vt_objects s i)\<lparr>mReleaseFence := None\<rparr>)
    \<and> released t = released s @ [fd_of s i]"
  using assms
  by (auto simp: releaseBufferLocked_def getE_def released_def Let_def split_def)

text \<open>Giving back one buffer that is held.\<close>

lemma find_queue:
  assumes "distinct (queue_fds s)" and "i \<in> set (mBufferQueue s)"
  shows "find (\<lambda>j. fd_of s j = fd_of s i) (mBufferQueue s) = Some i"
proof -
  have "find (\<lambda>j. f j = f i) q = Some i" if "distinct (map f q)" and "i \<in> set q" for q and f :: "nat \<Rightarrow> int"
    using that by (induction q) (force, force)
  with assms show ?thesis by (simp add: queue_fds_def)
qed

lemma frame_displayed:
  assumes ok: "refs_ok h s" and c: "c \<in> set (mConsumers s)" and fd: "fd \<in># h c"
  shows "\<exists>t. onFrameDisplayed v fd n s = Inr (0, t) \<and> refs_ok (h(c := h c - {#fd#})) t
    \<and> mConsumers t = mConsumers s \<and> acquired t = acquired s
    \<and> mset (queue_fds t) + mset (released t) = mset (queue_fds s) + mset (released s)
    \<and> (fd \<in> set (queue_fds t) \<longleftrightarrow> (\<exists>x \<in> set (mConsumers s). fd \<in># (h(c := h c - {#fd#})) x))"
proof -
  let ?h = "h(c := h c - {#fd#})"
  from ok c fd have "fd \<in> set (queue_fds s)" by (auto simp: refs_ok_def)
  then obtain i where i: "i \<in> set (mBufferQueue s)" and ifd: "fd_of s i = fd"
    by (auto simp: queue_fds_def)
  from ok i obtain f where f: "mReleaseFence (vt_objects s i) = Some f" by (auto simp: refs_ok_def)
  let ?u = "updateReleaseFence v n f s"
  let ?b = "(vt_objects s i)\<lparr>mReleaseFence := Some (fst ?u), mRef := mRef (vt_objects s i) - 1\<rparr>"
  let ?s2 = "upd_item i (\<lambda>_. ?b) (snd ?u)"
  have dist: "distinct (queue_fds s)" "distinct (mBufferQueue s)" "distinct (mConsumers s)"
    using ok by (auto simp: refs_ok_def)
  have found: "find (\<lambda>j. fd_of s j = fd) (mBufferQueue s) = Some i"
    using find_queue [OF dist(1) i] ifd by simp
  have ne: "mBufferQueue s \<noteq> []" using i by auto
  have ref: "mRef (vt_objects s i) = int (holds_count h (mConsumers s) fd)"
    using ok i ifd by (auto simp: refs_ok_def)
  note take = holds_count_take [where h = h, OF dist(3) c fd]
  have others: "fd_of s j \<noteq> fd" if "j \<in> set (mBufferQueue s)" "j \<noteq> i" for j
    using dist(1) i ifd that by (auto simp: queue_fds_def distinct_map inj_on_def)
  have q2: "queue_fds ?s2 = queue_fds s" by (simp add: queue_fds_def)
  have sub: "set_mset (?h x) \<subseteq> set (queue_fds s)" if "x \<in> set (mConsumers s)" for x
    using ok that c by (auto simp: refs_ok_def dest: in_diffD split: if_splits)
  show ?thesis
  proof (cases "mRef (vt_objects s i) - 1 = 0")
    case True
    let ?s3 = "?s2\<lparr>mBufferQueue := remove1 i (mBufferQueue s)\<rparr>"
    have none: "\<forall>x \<in> set (mConsumers s). fd \<notin># ?h x"
      using True ref take(1) unfolding holds_count_0 [symmetric] by linarith
    have "released ?s3 = released (snd ?u)" by (simp add: released_def)
    then have r3: "released ?s3 = released s" by simp
    from releaseBufferLocked_result [of ?s3 i v] obtain t where
      t: "releaseBufferLocked v i ?s3 = Inr t" "mBufferQueue t = remove1 i (mBufferQueue s)"
        "mConsumers t = mConsumers s" "objects_made t = objects_made s"
        "vt_objects t = (vt_objects s)(i := ?b\<lparr>mReleaseFence := None\<rparr>)"
        "released t = released s @ [fd]"
      unfolding r3 using ifd by auto
    have "onFrameDisplayed v fd n s = Inr (0, t)"
      using t(1) True ne found f by (simp add: onFrameDisplayed_def getE_def unrefHandle_def Let_def split_def)
    moreover have qt: "queue_fds t = remove1 fd (queue_fds s)"
    proof -
      have "map (fd_of s) (remove1 i q) = remove1 (fd_of s i) (map (fd_of s) q)"
        if "i \<in> set q" "distinct (map (fd_of s) q)" for q
        using that by (induction q) (auto, metis image_eqI)
      from this [OF i] dist(1) ifd have "map (fd_of s) (mBufferQueue t) = remove1 fd (queue_fds s)"
        by (simp add: queue_fds_def t(2))
      moreover have "map (fd_of t) (mBufferQueue t) = map (fd_of s) (mBufferQueue t)" by (simp add: t(5))
      ultimately show ?thesis by (simp only: queue_fds_def)
    qed
    moreover have "refs_ok ?h t"
      unfolding refs_ok_def
    proof (intro conjI ballI)
      show "distinct (mBufferQueue t)" "distinct (queue_fds t)" "distinct (mConsumers t)"
        using dist by (simp_all add: t qt)
    next
      fix j assume "j \<in> set (mBufferQueue t)"
      then have j: "j \<in> set (mBufferQueue s)" "j \<noteq> i" using dist(2) by (simp_all add: t)
      with ok t take(2) [OF others [OF j]]
      show "j < objects_made t" "mReleaseFence (vt_objects t j) \<noteq> None" "0 < mRef (vt_objects t j)"
        "mRef (vt_objects t j) = int (holds_count ?h (mConsumers t) (fd_of t j))"
        by (auto simp: refs_ok_def)
    next
      fix x assume "x \<in> set (mConsumers t)"
      then have x: "x \<in> set (mConsumers s)" by (simp add: t)
      have "set_mset (?h x) \<subseteq> set (queue_fds s) - {fd}" using sub [OF x] none x by blast
      then show "set_mset (?h x) \<subseteq> set (queue_fds t)" using dist(1) by (simp add: qt)
    qed
    moreover have "fd \<in> set (queue_fds s)" using i ifd by (auto simp: queue_fds_def)
    moreover have "fd \<notin> set (queue_fds t)" using dist(1) by (simp add: qt)
    moreover have "acquired t = acquired s" by (simp add: acquired_def t)
    ultimately show ?thesis using t none by auto
  next
    case False
    have some: "\<exists>x \<in> set (mConsumers s). fd \<in># ?h x"
      using False ref take(1) holds_count_0 [of ?h "mConsumers s" fd] by auto
    have "onFrameDisplayed v fd n s = Inr (0, ?s2)"
      using False ne found f by (simp add: onFrameDisplayed_def getE_def unrefHandle_def Let_def split_def)
    moreover have "refs_ok ?h ?s2"
      unfolding refs_ok_def q2
    proof (intro conjI ballI)
      show "distinct (mBufferQueue ?s2)" "distinct (queue_fds s)" "distinct (mConsumers ?s2)"
        using dist by simp_all
    next
      fix j assume "j \<in> set (mBufferQueue ?s2)"
      then have j: "j \<in> set (mBufferQueue s)" by simp
      show "j < objects_made ?s2" using ok j by (auto simp: refs_ok_def)
      show "mReleaseFence (vt_objects ?s2 j) \<noteq> None" using ok j by (auto simp: refs_ok_def)
      show "0 < mRef (vt_objects ?s2 j)" using ok j False by (auto simp: refs_ok_def)
      show "mRef (vt_objects ?s2 j) = int (holds_count ?h (mConsumers ?s2) (fd_of ?s2 j))"
        using ok j ref take(1) take(2) [OF others [OF j]] ifd by (cases "j = i") (auto simp: refs_ok_def)
    next
      fix x assume "x \<in> set (mConsumers ?s2)"
      with sub show "set_mset (?h x) \<subseteq> set (queue_fds s)" by simp
    qed
    moreover have "fd \<in> set (queue_fds s)" using i ifd by (auto simp: queue_fds_def)
    moreover have "released ?s2 = released s"
    proof -
      have "released ?s2 = released (snd ?u)" by (simp add: released_def)
      then show ?thesis by simp
    qed
    moreover have "acquired ?s2 = acquired s" by (simp add: acquired_def)
    ultimately show ?thesis using some q2 by auto
  qed
qed

text \<open>The calls a consumer makes while one of its operations runs, in order.\<close>

fun displayAll :: "vt_driver \<Rightarrow> (int \<times> int) list \<Rightarrow> vt_instance \<Rightarrow> fault + vt_instance" where
  "displayAll v [] s = Inr s"
| "displayAll v ((fd, n) # rs) s = bindE (onFrameDisplayed v fd n s) (\<lambda>(r, t). displayAll v rs t)"

lemma display_all:
  assumes "refs_ok h s" and "c \<in> set (mConsumers s)" and "mset (map fst rs) \<subseteq># h c"
  shows "\<exists>t. displayAll v rs s = Inr t \<and> refs_ok (h(c := h c - mset (map fst rs))) t
    \<and> mConsumers t = mConsumers s \<and> acquired t = acquired s
    \<and> mset (queue_fds t) + mset (released t) = mset (queue_fds s) + mset (released s)"
  using assms
proof (induction rs arbitrary: h s)
  case (Cons r rs)
  obtain fd n where r: "r = (fd, n)" by (cases r)
  have fd: "fd \<in># h c" using Cons.prems(3) by (auto simp: r dest: mset_subset_eqD)
  let ?h = "h(c := h c - {#fd#})"
  from frame_displayed [OF Cons.prems(1,2) fd, of v n] obtain t where
    t: "onFrameDisplayed v fd n s = Inr (0, t)" "refs_ok ?h t" "mConsumers t = mConsumers s"
      "acquired t = acquired s"
      "mset (queue_fds t) + mset (released t) = mset (queue_fds s) + mset (released s)" by blast
  have "mset (map fst rs) \<subseteq># ?h c"
    using Cons.prems(3) by (simp add: r insert_subset_eq_iff)
  moreover have "?h(c := ?h c - mset (map fst rs)) = h(c := h c - mset (map fst (r # rs)))"
    by (simp add: r)
  moreover have "displayAll v (r # rs) s = displayAll v rs t" by (simp add: r t(1))
  ultimately show ?case using Cons.IH [OF t(2)] t Cons.prems(2) by metis
qed simp

lemma queue_held:
  assumes "refs_ok h s"
  shows "fd \<in> set (queue_fds s) \<longleftrightarrow> (\<exists>c \<in> set (mConsumers s). fd \<in># h c)"
proof
  assume "fd \<in> set (queue_fds s)"
  then obtain i where i: "i \<in> set (mBufferQueue s)" and fd: "fd = fd_of s i"
    by (auto simp: queue_fds_def)
  from assms i have "holds_count h (mConsumers s) fd \<noteq> 0" by (auto simp: refs_ok_def fd)
  then show "\<exists>c \<in> set (mConsumers s). fd \<in># h c" by (auto simp: holds_count_0)
qed (use assms in \<open>auto simp: refs_ok_def\<close>)

section \<open>New buffers\<close>

lemma arrivals_fields:
  "objects_made (arrivals v n s) = objects_made s + n"
  "mBufferQueue (arrivals v n s) = mBufferQueue s @ [objects_made s..<objects_made s + n]"
  "mConsumers (arrivals v n s) = mConsumers s" "inst_tunnel (arrivals v n s) = inst_tunnel s"
  "released (arrivals v n s) = released s"
  by (induction n arbitrary: s)
    (simp_all add: Let_def split_def new_object_def released_def upt_conv_Cons)

lemma arrivals_old: "i < objects_made s \<Longrightarrow> vt_objects (arrivals v n s) i = vt_objects s i"
  by (induction n arbitrary: s) (simp_all add: Let_def split_def new_object_def)

lemma acquired_arrivals:
  "acquired (arrivals v n s) = acquired s
    @ map (fd_of (arrivals v n s)) [objects_made s..<objects_made s + n]"
proof -
  have "[0..<objects_made s + n] = [0..<objects_made s] @ [objects_made s..<objects_made s + n]"
    by (rule upt_add_eq_append) simp
  then show ?thesis by (simp add: acquired_def arrivals_fields arrivals_old)
qed

lemma arrivals_new:
  "objects_made s \<le> i \<Longrightarrow> i < objects_made s + n \<Longrightarrow>
    mRef (vt_objects (arrivals v n s) i) = - 1
    \<and> mReleaseFence (vt_objects (arrivals v n s) i) = Some NO_FENCE"
proof (induction n arbitrary: s)
  case (Suc n)
  let ?s1 = "snd (drv_call v (DrvAcquire (inst_tunnel s)) s)"
  let ?b = "drv_buffer v (drv_log ?s1)"
  let ?t = "new_object (fst ?b) (snd ?b) ?s1"
  have run: "arrivals v (Suc n) s = arrivals v n ?t" by (simp add: Let_def split_def)
  show ?case
  proof (cases "i = objects_made s")
    case True
    then have "vt_objects (arrivals v n ?t) i = vt_objects ?t i" by (intro arrivals_old) simp
    with True show ?thesis unfolding run by (simp add: new_object_def new_item_def)
  next
    case False
    with Suc.prems Suc.IH [of ?t] show ?thesis unfolding run by simp
  qed
qed simp

end
