(* ===== verification/VtClient.thy ===== *)
theory VtClient
  imports VtRefs
begin

text \<open>
  What an instance relies on in its consumers, as an interface, and what follows for the
  reference counts when buffers are delivered to consumers that keep it. The layer provides the
  interface in VtTunnel.
\<close>

section \<open>Delivering to every consumer\<close>

definition client_of :: "((int \<times> int) list \<Rightarrow> 's \<Rightarrow> int \<times> 's)
    \<Rightarrow> (nat \<Rightarrow> vt_cmd_t \<Rightarrow> vt_cmd_data_t \<Rightarrow> 's \<Rightarrow> int \<times> 's) \<Rightarrow> (nat \<Rightarrow> 's) vt_client" where
  "client_of deliver cmd =
     \<lparr>on_frames = (\<lambda>c items w. (fst (deliver items (w c)), w(c := snd (deliver items (w c))))),
      on_cmd = (\<lambda>c m d w. (fst (cmd c m d (w c)), w(c := snd (cmd c m d (w c)))))\<rparr>"

lemma ref_all_objects:
  assumes "distinct items"
  shows "vt_objects (ref_all items s) i =
    (if i \<in> set items then refHandle (vt_objects s i) else vt_objects s i)"
proof -
  have "vt_objects (fold (\<lambda>i. upd_item i refHandle) items s) i =
    (if i \<in> set items then refHandle (vt_objects s i) else vt_objects s i)"
    using assms by (induction items arbitrary: s) auto
  then show ?thesis by (simp add: ref_all_def)
qed

lemma ref_all_fields [simp]:
  "mBufferQueue (ref_all items s) = mBufferQueue s" "mConsumers (ref_all items s) = mConsumers s"
  "objects_made (ref_all items s) = objects_made s" "drv_log (ref_all items s) = drv_log s"
  "inst_tunnel (ref_all items s) = inst_tunnel s"
  unfolding ref_all_def by (induction items arbitrary: s) simp_all

lemma refHandle_fields [simp]:
  "mVtFd (refHandle b) = mVtFd b" "mTime (refHandle b) = mTime b"
  "mReleaseFence (refHandle b) = mReleaseFence b"
  by (simp_all add: refHandle_def)

lemma payload_ref_all: "distinct items \<Longrightarrow> payload items (ref_all items s) = payload items s"
  by (simp add: payload_def ref_all_objects)

text \<open>\<open>m\<close> references taken on new items.\<close>

fun ref_times :: "nat \<Rightarrow> nat list \<Rightarrow> vt_instance \<Rightarrow> vt_instance" where
  "ref_times 0 items s = s"
| "ref_times (Suc m) items s = ref_times m items (ref_all items s)"

lemma ref_times_fields [simp]:
  "mBufferQueue (ref_times m items s) = mBufferQueue s"
  "mConsumers (ref_times m items s) = mConsumers s"
  "objects_made (ref_times m items s) = objects_made s" "drv_log (ref_times m items s) = drv_log s"
  by (induction m arbitrary: s) simp_all

lemma ref_times_objects:
  assumes "distinct items"
  shows "mVtFd (vt_objects (ref_times m items s) i) = mVtFd (vt_objects s i)"
    and "mReleaseFence (vt_objects (ref_times m items s) i) = mReleaseFence (vt_objects s i)"
    and "i \<notin> set items \<Longrightarrow> vt_objects (ref_times m items s) i = vt_objects s i"
    and "i \<in> set items \<Longrightarrow> mRef (vt_objects s i) = - 1 \<Longrightarrow> 0 < m \<Longrightarrow>
      mRef (vt_objects (ref_times m items s) i) = int m"
proof -
  show "mVtFd (vt_objects (ref_times m items s) i) = mVtFd (vt_objects s i)"
    "mReleaseFence (vt_objects (ref_times m items s) i) = mReleaseFence (vt_objects s i)"
    "i \<notin> set items \<Longrightarrow> vt_objects (ref_times m items s) i = vt_objects s i"
    by (induction m arbitrary: s) (simp_all add: ref_all_objects [OF assms])
  have pos: "mRef (vt_objects (ref_times m items s) i) = mRef (vt_objects s i) + int m"
    if "i \<in> set items" "0 < mRef (vt_objects s i)" for m s
    using that
    by (induction m arbitrary: s) (simp_all add: ref_all_objects [OF assms] refHandle_def)
  show "mRef (vt_objects (ref_times m items s) i) = int m"
    if i: "i \<in> set items" and new: "mRef (vt_objects s i) = - 1" and m: "0 < m"
  proof -
    obtain k where k: "m = Suc k" using m by (cases m) auto
    have "mRef (vt_objects (ref_all items s) i) = 1"
      using i new by (simp add: ref_all_objects [OF assms] refHandle_def)
    with pos [OF i, of "ref_all items s" k] show ?thesis by (simp add: k)
  qed
qed

lemma refs_okD:
  assumes "refs_ok h s" and "i \<in> set (mBufferQueue s)"
  shows "i < objects_made s" "mReleaseFence (vt_objects s i) \<noteq> None" "0 < mRef (vt_objects s i)"
    "mRef (vt_objects s i) = int (holds_count h (mConsumers s) (fd_of s i))"
  using assms by (auto simp: refs_ok_def)

lemma holds_count_add:
  "\<forall>c \<in> set cs. h' c = h c + M \<Longrightarrow>
    holds_count h' cs g = holds_count h cs g + length cs * count M g"
  unfolding holds_count_def by (induction cs) (auto simp: algebra_simps)

lemma take_and_drop:
  "snd (unrefHandle (refHandle b)) = b\<lparr>mRef := if mRef b = - 1 then 0 else mRef b\<rparr>"
  by (simp add: refHandle_def unrefHandle_def)

lemma unref_all_fields [simp]:
  "mBufferQueue (unref_all items s) = mBufferQueue s" "mConsumers (unref_all items s) = mConsumers s"
  "objects_made (unref_all items s) = objects_made s" "drv_log (unref_all items s) = drv_log s"
  "inst_tunnel (unref_all items s) = inst_tunnel s"
  unfolding unref_all_def by (induction items arbitrary: s) simp_all

lemma unref_all_objects:
  assumes "distinct items"
  shows "vt_objects (unref_all items s) i =
    (if i \<in> set items then snd (unrefHandle (vt_objects s i)) else vt_objects s i)"
proof -
  have "vt_objects (fold (\<lambda>i. upd_item i (\<lambda>b. snd (unrefHandle b))) items s) i =
    (if i \<in> set items then snd (unrefHandle (vt_objects s i)) else vt_objects s i)"
    using assms by (induction items arbitrary: s) auto
  then show ?thesis by (simp add: unref_all_def)
qed

section \<open>The interface of a consumer\<close>

locale buffer_client =
  fixes deliver :: "(int \<times> int) list \<Rightarrow> 's \<Rightarrow> int \<times> 's"
    and accepts :: "'s \<Rightarrow> bool"
    and ok :: "'s \<Rightarrow> bool"
    and holds :: "'s \<Rightarrow> int multiset"
  assumes delivered: "ok s \<Longrightarrow> accepts s \<Longrightarrow> items \<noteq> [] \<Longrightarrow> \<forall>x \<in> set items. 0 \<le> fst x \<Longrightarrow>
      0 \<le> fst (deliver items s) \<and> ok (snd (deliver items s))
      \<and> holds (snd (deliver items s)) = holds s + mset (map fst items)"
    and refused: "\<not> accepts s \<Longrightarrow> fst (deliver items s) < 0
      \<and> fst (deliver items s) \<noteq> - EAGAIN \<and> snd (deliver items s) = s"
begin

lemma notify_accepted:
  assumes "distinct cs" and "distinct items" and "items \<noteq> []"
    and "\<forall>x \<in> set (payload items s). 0 \<le> fst x"
    and "\<forall>c \<in> set cs. ok (w c) \<and> accepts (w c)"
  shows "\<exists>r. notifyConsumers (client_of deliver cmd) items kept ret s w cs
      = (r, ref_times (length cs) items s,
         \<lambda>c. if c \<in> set cs then snd (deliver (payload items s) (w c)) else w c)
    \<and> (cs \<noteq> [] \<longrightarrow> 0 \<le> r) \<and> (cs = [] \<longrightarrow> r = ret)"
  using assms
proof (induction cs arbitrary: kept ret s w)
  case (Cons c cs)
  let ?pl = "payload items s"
  let ?s1 = "ref_all items s"
  let ?w1 = "w(c := snd (deliver ?pl (w c)))"
  have pl: "payload items ?s1 = ?pl" by (rule payload_ref_all [OF Cons.prems(2)])
  have "?pl \<noteq> []" using Cons.prems(3) by (simp add: payload_def)
  with Cons.prems have r: "0 \<le> fst (deliver ?pl (w c))" using delivered [of "w c" ?pl] by simp
  then have run: "notifyConsumers (client_of deliver cmd) items kept ret s w (c # cs)
      = notifyConsumers (client_of deliver cmd) items (kept @ [c]) (fst (deliver ?pl (w c))) ?s1 ?w1 cs"
    by (simp add: client_of_def pl Let_def)
  have "\<forall>x \<in> set cs. ok (?w1 x) \<and> accepts (?w1 x)" using Cons.prems(1,5) by auto
  moreover have "distinct cs" and "\<forall>x \<in> set (payload items ?s1). 0 \<le> fst x"
    using Cons.prems(1,4) pl by simp_all
  ultimately obtain x where
    x: "notifyConsumers (client_of deliver cmd) items (kept @ [c]) (fst (deliver ?pl (w c))) ?s1 ?w1 cs
      = (x, ref_times (length cs) items ?s1,
         \<lambda>d. if d \<in> set cs then snd (deliver ?pl (?w1 d)) else ?w1 d)"
    "cs \<noteq> [] \<longrightarrow> 0 \<le> x" "cs = [] \<longrightarrow> x = fst (deliver ?pl (w c))"
    using Cons.IH [OF _ Cons.prems(2,3), of ?s1 ?w1 "kept @ [c]" "fst (deliver ?pl (w c))"]
    unfolding pl by blast
  have "(\<lambda>d. if d \<in> set cs then snd (deliver ?pl (?w1 d)) else ?w1 d)
      = (\<lambda>d. if d \<in> set (c # cs) then snd (deliver ?pl (w d)) else w d)"
    using Cons.prems(1) by auto
  with x r run show ?case by (cases "cs = []") auto
qed simp

text \<open>The reference counts after a delivery.\<close>

lemma acquire_refs:
  assumes refs: "refs_ok (\<lambda>c. holds (w c)) s"
    and clients: "mConsumers s \<noteq> []" "\<forall>c \<in> set (mConsumers s). ok (w c) \<and> accepts (w c)"
    and stop: "\<And>k. k < n \<Longrightarrow> acquire_answer v s k = 0" "acquire_answer v s n = - EAGAIN"
    and fds: "distinct (queue_fds (arrivals v n s))"
      "\<forall>fd \<in> set (queue_fds (arrivals v n s)). 0 \<le> fd"
  shows "\<exists>r t w'. acquireBuffer v (client_of deliver cmd) s w = Some (r, t, w')
    \<and> refs_ok (\<lambda>c. holds (w' c)) t \<and> (\<forall>c \<in> set (mConsumers t). ok (w' c))
    \<and> mConsumers t = mConsumers s \<and> released t = released s
    \<and> mset (queue_fds t) + mset (acquired s) = mset (queue_fds s) + mset (acquired t)
    \<and> (\<forall>c. c \<notin> set (mConsumers s) \<longrightarrow> w' c = w c)"
proof -
  let ?a = "arrivals v n s"
  let ?items = "[objects_made s..<objects_made s + n]"
  let ?s1 = "snd (drv_call v (DrvAcquire (inst_tunnel s)) ?a)"
  let ?cs = "mConsumers s"
  have loop: "acquireLoop v [] s = Some (- EAGAIN, ?items, ?s1)"
    using acquireLoop_stops [of n v s "[]"] stop by simp
  have s1: "vt_objects ?s1 = vt_objects ?a" "mBufferQueue ?s1 = mBufferQueue s @ ?items"
    "mConsumers ?s1 = ?cs" "objects_made ?s1 = objects_made s + n" "queue_fds ?s1 = queue_fds ?a"
    by (simp_all add: arrivals_fields queue_fds_def)
  have "released ?s1 = released ?a" by (simp add: released_def)
  then have rel1: "released ?s1 = released s" by (simp add: arrivals_fields)
  have dist: "distinct ?cs" using refs by (simp add: refs_ok_def)
  have kept: "vt_objects ?s1 i = vt_objects s i" if "i \<in> set (mBufferQueue s)" for i
    using refs that by (auto simp: refs_ok_def s1(1) arrivals_old)
  show ?thesis
  proof (cases "n = 0")
    case True
    have "refs_ok (\<lambda>c. holds (w c)) ?s1 = refs_ok (\<lambda>c. holds (w c)) s"
      using True by (simp add: refs_ok_def s1 queue_fds_def arrivals_fields)
    moreover have "acquired ?s1 = acquired s" using True by (simp add: acquired_def)
    ultimately show ?thesis using refs loop clients(2) s1 rel1 True
      by (simp add: acquireBuffer_def)
  next
    case False
    let ?pl = "payload ?items ?s1"
    let ?w' = "\<lambda>c. if c \<in> set ?cs then snd (deliver ?pl (w c)) else w c"
    let ?t = "ref_times (length ?cs) ?items ?s1"
    have items: "distinct ?items" "?items \<noteq> []" using False by auto
    have pl: "map fst ?pl = map (fd_of ?s1) ?items" by (simp add: payload_def)
    have qfds: "queue_fds ?a = queue_fds s @ map (fd_of ?s1) ?items"
    proof -
      have "map (fd_of ?s1) (mBufferQueue s) = queue_fds s" using kept by (simp add: queue_fds_def)
      moreover have "queue_fds ?a = map (fd_of ?s1) (mBufferQueue s) @ map (fd_of ?s1) ?items"
        by (simp add: queue_fds_def arrivals_fields)
      ultimately show ?thesis by simp
    qed
    have pos: "\<forall>x \<in> set ?pl. 0 \<le> fst x" using fds(2) by (auto simp: qfds payload_def)
    from notify_accepted [OF dist items, where s = ?s1 and w = w and cmd = cmd and kept = "[]"
        and ret = "- EAGAIN"] pos clients obtain r where
      "notifyConsumers (client_of deliver cmd) ?items [] (- EAGAIN) ?s1 w ?cs = (r, ?t, ?w')" by blast
    then have run: "acquireBuffer v (client_of deliver cmd) s w = Some (r, ?t, ?w')"
      using loop items(2) by (simp add: acquireBuffer_def arrivals_fields)
    obtain M where M: "mset (map (fd_of ?s1) ?items) = M" by blast
    have "?pl \<noteq> []" using items(2) by (simp add: payload_def)
    then have got: "holds (?w' c) = holds (w c) + M" "ok (?w' c)" if "c \<in> set ?cs" for c
      using delivered [of "w c" ?pl] clients(2) that pos unfolding pl M by simp_all
    have mem: "g \<in># M \<longleftrightarrow> g \<in> set (map (fd_of ?s1) ?items)" for g unfolding M [symmetric] by simp
    have fdt: "fd_of ?t i = fd_of ?s1 i" for i by (rule ref_times_objects(1) [OF items(1)])
    have qt: "queue_fds ?t = queue_fds ?a" unfolding s1(5) [symmetric] by (simp add: queue_fds_def fdt)
    have count: "holds_count (\<lambda>c. holds (?w' c)) ?cs g
        = holds_count (\<lambda>c. holds (w c)) ?cs g + length ?cs * count M g" for g
      by (rule holds_count_add) (use got(1) in blast)
    have "refs_ok (\<lambda>c. holds (?w' c)) ?t"
      unfolding refs_ok_def
    proof (intro conjI ballI)
      show "distinct (mBufferQueue ?t)" "distinct (mConsumers ?t)"
        using refs dist by (auto simp: refs_ok_def arrivals_fields)
      show "distinct (queue_fds ?t)" using fds(1) by (simp add: qt)
    next
      fix i assume "i \<in> set (mBufferQueue ?t)"
      then consider (old) "i \<in> set (mBufferQueue s)" | (new) "i \<in> set ?items"
        by (auto simp: arrivals_fields)
      then have "i < objects_made ?t \<and> mReleaseFence (vt_objects ?t i) \<noteq> None \<and> 0 < mRef (vt_objects ?t i)
        \<and> mRef (vt_objects ?t i) = int (holds_count (\<lambda>c. holds (?w' c)) (mConsumers ?t) (fd_of ?t i))"
      proof cases
        case old
        with refs have i: "i < objects_made s" "i \<notin> set ?items" by (auto simp: refs_ok_def)
        then have obj: "vt_objects ?t i = vt_objects s i"
          using ref_times_objects(3) [OF items(1) i(2)] kept [OF old] by simp
        have "fd_of s i \<in> set (queue_fds s)" using old by (simp add: queue_fds_def)
        then have "fd_of s i \<notin># M" using fds(1) unfolding qfds mem by auto
        then have "count M (fd_of s i) = 0" by (simp add: not_in_iff)
        with refs_okD [OF refs old] i count [of "fd_of s i"] show ?thesis
          by (simp add: obj arrivals_fields)
      next
        case new
        then have ref: "mRef (vt_objects ?s1 i) = - 1" "mReleaseFence (vt_objects ?s1 i) = Some NO_FENCE"
          using arrivals_new [of s i n v] by (auto simp: s1(1))
        have m: "mRef (vt_objects ?t i) = int (length ?cs)"
          using ref_times_objects(4) [OF items(1) new ref(1)] clients(1) by simp
        have "fd_of ?s1 i \<notin> set (queue_fds s)" using fds(1) new unfolding qfds by auto
        then have "\<forall>c \<in> set ?cs. fd_of ?s1 i \<notin># holds (w c)" using refs by (auto simp: refs_ok_def)
        then have "holds_count (\<lambda>c. holds (w c)) ?cs (fd_of ?s1 i) = 0" by (simp add: holds_count_0)
        moreover have "count M (fd_of ?s1 i) = 1"
        proof -
          have "distinct (map (fd_of ?s1) ?items)" using fds(1) unfolding qfds by simp
          moreover have "fd_of ?s1 i \<in> set (map (fd_of ?s1) ?items)" using new by simp
          ultimately show ?thesis unfolding M [symmetric] using distinct_count_atmost_1 by metis
        qed
        moreover have "mReleaseFence (vt_objects ?t i) = Some NO_FENCE"
          using ref(2) ref_times_objects(2) [OF items(1)] by simp
        ultimately show ?thesis
          using new m clients(1) count [of "fd_of ?s1 i"] unfolding fdt
          by (simp add: arrivals_fields)
      qed
      then show "i < objects_made ?t" "mReleaseFence (vt_objects ?t i) \<noteq> None" "0 < mRef (vt_objects ?t i)"
        "mRef (vt_objects ?t i) = int (holds_count (\<lambda>c. holds (?w' c)) (mConsumers ?t) (fd_of ?t i))"
        by blast+
    next
      fix c assume "c \<in> set (mConsumers ?t)"
      then have c: "c \<in> set ?cs" by (simp add: arrivals_fields)
      have "set_mset (holds (?w' c)) = set_mset (holds (w c)) \<union> set_mset M"
        unfolding got(1) [OF c] by simp
      moreover have "set_mset (holds (w c)) \<subseteq> set (queue_fds s)"
        using refs c by (simp add: refs_ok_def)
      moreover have "set_mset M \<subseteq> set (map (fd_of ?s1) ?items)" using mem by blast
      ultimately show "set_mset (holds (?w' c)) \<subseteq> set (queue_fds ?t)"
        unfolding qt qfds set_append by blast
    qed
    moreover have "released ?t = released ?s1" by (simp add: released_def)
    moreover have "mset (queue_fds ?t) + mset (acquired s) = mset (queue_fds s) + mset (acquired ?t)"
    proof -
      have "acquired ?t = acquired ?a" by (simp add: acquired_def fdt)
      then show ?thesis
        unfolding qt qfds by (simp add: acquired_arrivals)
    qed
    ultimately show ?thesis using run got(2) rel1 by (auto simp: arrivals_fields)
  qed
qed

text \<open>Every consumer refuses: each is dropped, and the counts of the items come to 0.\<close>

lemma notify_refused:
  assumes "\<forall>c \<in> set cs. \<not> accepts (w c)" and "distinct items"
  shows "\<exists>t. notifyConsumers (client_of deliver cmd) items kept ret s w cs
      = (if cs = [] then ret else - EAGAIN, t, w)
    \<and> mConsumers t = (if cs = [] then mConsumers s else kept)
    \<and> mBufferQueue t = mBufferQueue s \<and> drv_log t = drv_log s \<and> inst_tunnel t = inst_tunnel s
    \<and> (\<forall>i. vt_objects t i = (if i \<in> set items \<and> cs \<noteq> []
          then (vt_objects s i)\<lparr>mRef := if mRef (vt_objects s i) = - 1 then 0 else mRef (vt_objects s i)\<rparr>
          else vt_objects s i))"
  using assms
proof (induction cs arbitrary: ret s)
  case (Cons c cs)
  let ?s1 = "ref_all items s"
  let ?t = "unref_all items (?s1\<lparr>mConsumers := kept @ cs\<rparr>)"
  have c: "fst (deliver (payload items ?s1) (w c)) < 0"
    "fst (deliver (payload items ?s1) (w c)) \<noteq> - EAGAIN"
    "snd (deliver (payload items ?s1) (w c)) = w c"
    using refused Cons.prems(1) by simp_all
  then have run: "notifyConsumers (client_of deliver cmd) items kept ret s w (c # cs)
      = notifyConsumers (client_of deliver cmd) items kept (- EAGAIN) ?t w cs"
    by (simp add: client_of_def Let_def)
  have obj: "vt_objects ?t i = (if i \<in> set items
      then (vt_objects s i)\<lparr>mRef := if mRef (vt_objects s i) = - 1 then 0 else mRef (vt_objects s i)\<rparr>
      else vt_objects s i)" for i
    by (simp add: unref_all_objects [OF Cons.prems(2)] ref_all_objects [OF Cons.prems(2)] take_and_drop)
  have "\<forall>c \<in> set cs. \<not> accepts (w c)" using Cons.prems(1) by simp
  moreover have fields: "mConsumers ?t = kept @ cs" "mBufferQueue ?t = mBufferQueue s"
    "drv_log ?t = drv_log s" "inst_tunnel ?t = inst_tunnel s"
    by (simp_all add: ref_all_fields)
  moreover obtain u where u: "?t = u" by blast
  ultimately show ?case
    using Cons.IH [OF _ Cons.prems(2), of "- EAGAIN" u] obj fields unfolding run u
    by (cases "cs = []") auto
qed simp

lemma acquire_refused:
  assumes stop: "\<And>k. k < n \<Longrightarrow> acquire_answer v s k = 0" "acquire_answer v s n = - EAGAIN"
    and n: "0 < n" and cs: "mConsumers s \<noteq> []" "\<forall>c \<in> set (mConsumers s). \<not> accepts (w c)"
  shows "\<exists>t. acquireBuffer v (client_of deliver cmd) s w = Some (- EAGAIN, t, w)
    \<and> mConsumers t = [] \<and> released t = released s \<and> inst_tunnel t = inst_tunnel s
    \<and> mBufferQueue t = mBufferQueue s @ [objects_made s..<objects_made s + n]
    \<and> (\<forall>i \<in> {objects_made s..<objects_made s + n}. mRef (vt_objects t i) = 0)"
proof -
  let ?a = "arrivals v n s"
  let ?items = "[objects_made s..<objects_made s + n]"
  let ?s1 = "snd (drv_call v (DrvAcquire (inst_tunnel s)) ?a)"
  have loop: "acquireLoop v [] s = Some (- EAGAIN, ?items, ?s1)"
    using acquireLoop_stops [of n v s "[]"] stop by (simp add: EAGAIN_def)
  have s1: "mBufferQueue ?s1 = mBufferQueue s @ ?items" "mConsumers ?s1 = mConsumers s"
    "vt_objects ?s1 = vt_objects ?a" "inst_tunnel ?s1 = inst_tunnel s"
    by (simp_all add: arrivals_fields)
  have "released ?s1 = released ?a" by (simp add: released_def)
  then have rel: "released ?s1 = released s" by (simp add: arrivals_fields)
  from notify_refused [of "mConsumers s" w ?items cmd "[]" "- EAGAIN" ?s1] cs obtain t where
    t: "notifyConsumers (client_of deliver cmd) ?items [] (- EAGAIN) ?s1 w (mConsumers s) = (- EAGAIN, t, w)"
      "mConsumers t = []" "mBufferQueue t = mBufferQueue ?s1" "drv_log t = drv_log ?s1"
      "inst_tunnel t = inst_tunnel ?s1"
      "\<And>i. i \<in> set ?items \<Longrightarrow> vt_objects t i = (vt_objects ?s1 i)\<lparr>mRef :=
          if mRef (vt_objects ?s1 i) = - 1 then 0 else mRef (vt_objects ?s1 i)\<rparr>"
    by auto
  have "released t = released s" using rel by (simp add: released_def t(4))
  moreover have "acquireBuffer v (client_of deliver cmd) s w = Some (- EAGAIN, t, w)"
    using loop t(1) n by (simp add: acquireBuffer_def arrivals_fields)
  moreover have "mRef (vt_objects t i) = 0" if "i \<in> {objects_made s..<objects_made s + n}" for i
    using t(6) [of i] arrivals_new [of s i n v] that by (simp add: s1)
  ultimately show ?thesis using t s1 by simp
qed

end

end
