(* ===== verification/VtTunnel.thy ===== *)
theory VtTunnel
  imports VtLayerProps VtClient
begin

text \<open>
  A tunnel and the layers that show it, together: the instance of
  src/common/videotunnel/VtInstance.cpp, the consumers of VtConsumer.cpp and the layers of
  src/hwc2/Hwc2Layer.cpp. A step of the tunnel is a delivery to every layer, a call of one layer
  with the buffers it gives back, or a layer coming or going.
\<close>

section \<open>The layer as a consumer\<close>

text \<open>
  \<open>VtConsumer::onFrameAvailable\<close> hands the items to the listener of the layer. The fault branch
  is never taken, see \<open>layer_client\<close>.
\<close>

definition layer_deliver :: "(int \<times> int) list \<Rightarrow> hwc2_layer \<Rightarrow> int \<times> hwc2_layer" where
  "layer_deliver items s =
     (case onVtFrameAvailable (map (\<lambda>(fd, t). \<lparr>mItemFd = fd, mItemTime = t\<rparr>) items) s of
        Inl e \<Rightarrow> (- EINVAL, s)
      | Inr r \<Rightarrow> r)"

definition status_of_int :: "int \<Rightarrow> vt_video_status_t" where
  "status_of_int n =
     (if n = 1 then VT_VIDEO_STATUS_BLANK else if n = 2 then VT_VIDEO_STATUS_HIDE
      else if n = 3 then VT_VIDEO_STATUS_SHOW else if n = 4 then VT_VIDEO_STATUS_COLOR_ONCE
      else if n = 5 then VT_VIDEO_STATUS_COLOR_ALWAYS else if n = 6 then VT_VIDEO_STATUS_COLOR_DISABLE
      else if n = 7 then VT_VIDEO_STATUS_HOLD_FRAME else VT_VIDEO_STATUS_OTHER n)"

definition color_of_int :: "int \<Rightarrow> vt_video_color_t" where
  "color_of_int n =
     (if n = 0 then SOLID_COLOR_FOR_BLACK else if n = 1 then SOLID_COLOR_FOR_BLUE
      else if n = 2 then SOLID_COLOR_FOR_GREEN else SOLID_COLOR_FOR_INVALID)"

text \<open>\<open>VtConsumer::onVtCmds\<close>: the call it makes on the listener, and what it returns.\<close>

fun onVtCmds :: "vt_cmd_t \<Rightarrow> vt_cmd_data_t \<Rightarrow> int \<times> layer_op option" where
  "onVtCmds VT_CMD_SET_VIDEO_STATUS d = (0, Some (VideoStatus (status_of_int (cmd_data d))))"
| "onVtCmds VT_CMD_GET_VIDEO_STATUS d = (0, None)"
| "onVtCmds VT_CMD_SET_GAME_MODE d = (0, Some (VideoGameMode (cmd_data d)))"
| "onVtCmds VT_CMD_SET_SOURCE_CROP d = (0, Some (SourceCropChange (cmd_rect d)))"
| "onVtCmds VT_CMD_SET_DISPLAY_FRAME d = (0, Some (DisplayFrameChange (cmd_rect d)))"
| "onVtCmds VT_CMD_SET_SHOW_SOLID_COLOR d = (0, Some (ShowTempBuffer (color_of_int (cmd_data d))))"
| "onVtCmds VT_CMD_SET_COLOR_BLACK d =
     (0, Some (ShowTempBufferWithStatus SOLID_COLOR_FOR_BLACK (status_of_int (cmd_data d))))"
| "onVtCmds VT_CMD_SET_COLOR_BLUE d =
     (0, Some (ShowTempBufferWithStatus SOLID_COLOR_FOR_BLUE (status_of_int (cmd_data d))))"
| "onVtCmds VT_CMD_SET_COLOR_GREEN d =
     (0, Some (ShowTempBufferWithStatus SOLID_COLOR_FOR_GREEN (status_of_int (cmd_data d))))"
| "onVtCmds (VT_CMD_OTHER n) d = (- 1, None)"

definition layer_cmd :: "vt_platform \<Rightarrow> vt_cmd_t \<Rightarrow> vt_cmd_data_t \<Rightarrow> hwc2_layer \<Rightarrow> int \<times> hwc2_layer" where
  "layer_cmd p m d s =
     (case onVtCmds m d of
        (r, None) \<Rightarrow> (r, s)
      | (r, Some op) \<Rightarrow> (case layer_step p op s of Inl e \<Rightarrow> (r, s) | Inr t \<Rightarrow> (r, t)))"

interpretation layer_client: buffer_client layer_deliver accepts_frames vt_layer_ok held
proof
  fix s :: hwc2_layer and items :: "(int \<times> int) list"
  let ?items = "map (\<lambda>(fd, t). \<lparr>mItemFd = fd, mItemTime = t\<rparr>) items"
  show "0 \<le> fst (layer_deliver items s) \<and> vt_layer_ok (snd (layer_deliver items s))
      \<and> held (snd (layer_deliver items s)) = held s + mset (map fst items)"
    if ok: "vt_layer_ok s" and acc: "accepts_frames s" and ne: "items \<noteq> []"
      and pos: "\<forall>x \<in> set items. 0 \<le> fst x"
  proof -
    obtain q a b tid c d g where c: "custody s = (q, a, b, tid, c, d, g)" by (rule custody_cases)
    have u: "custody (fold queueItem ?items s) = (q @ ?items, a, b, tid, c, d, g)"
      by (rule queueItems_custody [OF c])
    have "\<forall>it \<in> set ?items. 0 \<le> mItemFd it" using pos by auto
    from onVtFrameAvailable_accounts [OF ok this] acc obtain r t where
      t: "onVtFrameAvailable ?items s = Inr (r, t)" "accounts s (mset (map mItemFd ?items)) t"
      unfolding okE_iff by auto
    have "r = 0 \<and> custody t = (q @ ?items, a, b, tid, c, d, g)"
      using t(1) acc ne u custodyD(1) [OF u] observer_frame_custody
      by (auto simp: onVtFrameAvailable_def accepts_frames_def Let_def split: if_splits option.splits)
    moreover have "map mItemFd ?items = map fst items" by auto
    then have "mset (map mItemFd ?items) = mset (map fst items)" by (rule arg_cong)
    ultimately show ?thesis
      using t(1) accounts_ok [OF t(2)] held_iff [OF c] held_iff [of t]
      by (simp add: layer_deliver_def del: mset_map)
  qed
  show "fst (layer_deliver items s) < 0 \<and> fst (layer_deliver items s) \<noteq> - EAGAIN
      \<and> snd (layer_deliver items s) = s" if "\<not> accepts_frames s"
    using that by (auto simp: layer_deliver_def onVtFrameAvailable_def accepts_frames_def
        EINVAL_def EAGAIN_def)
qed

section \<open>Steps of the tunnel\<close>

text \<open>What a layer has given back, with the fences: the \<open>onVtFrameDisplayed\<close> calls of its log.\<close>

fun event_show :: "vt_event \<Rightarrow> (int \<times> int) list" where
  "event_show (FrameDisplayed c fd f) = [(fd, f)]"
| "event_show _ = []"

definition shown :: "hwc2_layer \<Rightarrow> (int \<times> int) list" where
  "shown s = concat (map event_show (vt_log s))"

definition new_returns :: "hwc2_layer \<Rightarrow> hwc2_layer \<Rightarrow> (int \<times> int) list" where
  "new_returns s t = drop (length (shown s)) (shown t)"

lemma given_shown: "given s = map fst (shown s)"
proof -
  have "event_return = map fst \<circ> event_show"
  proof
    show "event_return e = (map fst \<circ> event_show) e" for e by (cases e) auto
  qed
  then show ?thesis by (simp add: given_def shown_def map_concat)
qed

lemma accounts_returns:
  assumes "accounts s {#} t"
  shows "mset (map fst (new_returns s t)) + held t = held s"
proof -
  from assms obtain rs where rs: "given t = given s @ rs" "mset rs + held t = held s"
    by (auto simp: accounts_def)
  have "map fst (new_returns s t) = drop (length (given s)) (given t)"
    by (simp add: new_returns_def given_shown drop_map)
  with rs show ?thesis by simp
qed

fun is_delivery :: "layer_op \<Rightarrow> bool" where
  "is_delivery (FrameAvailable items) = True"
| "is_delivery _ = False"

lemma no_delivery: "\<not> is_delivery op \<Longrightarrow> accepted op s = []"
  by (cases op) auto

text \<open>
  \<open>tunnel_reach v p s w\<close>: instance and layers after some steps. In \<open>tunnel_frames\<close> the driver
  has \<open>n\<close> buffers; it hands out valid descriptors, none of which the composer still has.
  The steps are the deliveries that every layer accepts and that end when the driver has no more
  buffers (\<open>- EAGAIN\<close>). A delivery a layer refuses and one the driver breaks off with another error
  are no steps: \<open>refused_delivery\<close> shows that the former already breaks the reference counts.
\<close>

inductive tunnel_reach :: "vt_driver \<Rightarrow> (nat \<Rightarrow> vt_platform) \<Rightarrow> vt_instance \<Rightarrow> (nat \<Rightarrow> hwc2_layer) \<Rightarrow> bool"
  for v p where
  tunnel_new: "tunnel_reach v p (vt_instance_init tid []) w"
| tunnel_join: "tunnel_reach v p s w \<Longrightarrow> c \<notin> set (mConsumers s) \<Longrightarrow> layer_reach (p c) l fds
    \<Longrightarrow> held l = {#} \<Longrightarrow> mVtConsumer l \<noteq> None
    \<Longrightarrow> tunnel_reach v p (snd (registerVtConsumer c s)) (w(c := l))"
| tunnel_frames: "tunnel_reach v p s w \<Longrightarrow> mConsumers s \<noteq> []
    \<Longrightarrow> (\<forall>c \<in> set (mConsumers s). accepts_frames (w c))
    \<Longrightarrow> (\<And>k. k < n \<Longrightarrow> acquire_answer v s k = 0) \<Longrightarrow> acquire_answer v s n = - EAGAIN
    \<Longrightarrow> distinct (queue_fds (arrivals v n s)) \<Longrightarrow> (\<forall>fd \<in> set (queue_fds (arrivals v n s)). 0 \<le> fd)
    \<Longrightarrow> acquireBuffer v (client_of layer_deliver (\<lambda>c. layer_cmd (p c))) s w = Some (r, t, w')
    \<Longrightarrow> tunnel_reach v p t w'"
| tunnel_call: "tunnel_reach v p s w \<Longrightarrow> c \<in> set (mConsumers s) \<Longrightarrow> op_ok op (w c) \<Longrightarrow> \<not> is_delivery op
    \<Longrightarrow> layer_step (p c) op (w c) = Inr l \<Longrightarrow> mVtConsumer l = mVtConsumer (w c)
    \<Longrightarrow> displayAll v (new_returns (w c) l) s = Inr t \<Longrightarrow> tunnel_reach v p t (w(c := l))"
| tunnel_leave: "tunnel_reach v p s w \<Longrightarrow> c \<in> set (mConsumers s) \<Longrightarrow> op_ok op (w c) \<Longrightarrow> \<not> is_delivery op
    \<Longrightarrow> layer_step (p c) op (w c) = Inr l \<Longrightarrow> mVtConsumer l = None
    \<Longrightarrow> displayAll v (new_returns (w c) l) s = Inr t
    \<Longrightarrow> tunnel_reach v p (snd (unregisterVtConsumer c t)) (w(c := l))"

section \<open>The counts are the holders\<close>

definition tunnel_ok :: "vt_instance \<Rightarrow> (nat \<Rightarrow> hwc2_layer) \<Rightarrow> bool" where
  "tunnel_ok s w \<longleftrightarrow> refs_ok (\<lambda>c. held (w c)) s \<and> (\<forall>c \<in> set (mConsumers s). vt_layer_ok (w c))
     \<and> mset (queue_fds s) + mset (released s) = mset (acquired s)"

lemma tunnel_call_result:
  assumes ok: "tunnel_ok s w" and c: "c \<in> set (mConsumers s)"
    and op: "op_ok op (w c)" "\<not> is_delivery op"
  shows "\<exists>l t. layer_step (p c) op (w c) = Inr l \<and> displayAll v (new_returns (w c) l) s = Inr t
    \<and> tunnel_ok t (w(c := l)) \<and> mConsumers t = mConsumers s"
proof -
  have okc: "vt_layer_ok (w c)" using ok c by (simp add: tunnel_ok_def)
  from layer_step_accounts [OF okc op(1), of "p c"] obtain l where
    l: "layer_step (p c) op (w c) = Inr l" "accounts (w c) {#} l"
    by (auto simp: okE_iff no_delivery [OF op(2)])
  let ?rs = "new_returns (w c) l"
  have h: "mset (map fst ?rs) + held l = held (w c)" by (rule accounts_returns [OF l(2)])
  have sub: "mset (map fst ?rs) \<subseteq># held (w c)" unfolding h [symmetric] by simp
  have refs: "refs_ok (\<lambda>c. held (w c)) s" using ok by (simp add: tunnel_ok_def)
  from display_all [OF refs c sub, of v] obtain t where
    t: "displayAll v ?rs s = Inr t"
      "refs_ok ((\<lambda>c. held (w c))(c := held (w c) - mset (map fst ?rs))) t"
      "mConsumers t = mConsumers s" "acquired t = acquired s"
      "mset (queue_fds t) + mset (released t) = mset (queue_fds s) + mset (released s)" by blast
  have "held (w c) - mset (map fst ?rs) = held l" unfolding h [symmetric] by simp
  then have "(\<lambda>c. held (w c))(c := held (w c) - mset (map fst ?rs)) = (\<lambda>x. held ((w(c := l)) x))"
    by auto
  with t(2) have "refs_ok (\<lambda>x. held ((w(c := l)) x)) t" by simp
  then have "tunnel_ok t (w(c := l))"
    using ok t accounts_ok [OF l(2)] by (simp add: tunnel_ok_def)
  with l(1) t(1,3) show ?thesis by blast
qed

lemma refs_ok_empty_holder:
  assumes refs: "refs_ok h s" and "h c = {#}"
  shows "refs_ok h (snd (unregisterVtConsumer c s))"
proof -
  have "holds_count h (remove1 c cs) g = holds_count h cs g" for cs g
    using assms(2) by (induction cs) (auto simp: holds_count_def)
  then show ?thesis
    using refs by (auto simp: refs_ok_def unregisterVtConsumer_def queue_fds_def dest: notin_set_remove1)
qed

lemma refs_ok_join:
  assumes refs: "refs_ok h s" and "c \<notin> set (mConsumers s)"
  shows "refs_ok (h(c := {#})) (snd (registerVtConsumer c s))"
proof -
  have "holds_count (h(c := {#})) cs g = holds_count h cs g" if "c \<notin> set cs" for cs g
    using that by (induction cs) (auto simp: holds_count_def)
  moreover have "holds_count k (cs @ [c]) g = holds_count k cs g + count (k c) g" for k cs g
    by (simp add: holds_count_def)
  ultimately show ?thesis
    using assms by (auto simp: refs_ok_def registerVtConsumer_def queue_fds_def)
qed

lemma tunnel_reach_ok: "tunnel_reach v p s w \<Longrightarrow> tunnel_ok s w"
proof (induction rule: tunnel_reach.induct)
  case (tunnel_new tid w)
  show ?case
    by (simp add: tunnel_ok_def refs_ok_def vt_instance_init_def queue_fds_def released_def acquired_def)
next
  case (tunnel_join s w c l fds)
  have "(\<lambda>x. held ((w(c := l)) x)) = (\<lambda>x. held (w x))(c := {#})"
    using tunnel_join.hyps by auto
  moreover have "refs_ok ((\<lambda>x. held (w x))(c := {#})) (snd (registerVtConsumer c s))"
    using refs_ok_join tunnel_join by (simp add: tunnel_ok_def)
  moreover have "vt_layer_ok l" using layer_reach_accounts tunnel_join.hyps by blast
  ultimately show ?case
    using tunnel_join.IH
    by (simp add: tunnel_ok_def registerVtConsumer_def queue_fds_def released_def acquired_def)
next
  case (tunnel_frames s w n r t w')
  have refs: "refs_ok (\<lambda>c. held (w c)) s"
    and acc: "\<forall>c \<in> set (mConsumers s). vt_layer_ok (w c) \<and> accepts_frames (w c)"
    using tunnel_frames.IH tunnel_frames.hyps(3) by (auto simp: tunnel_ok_def)
  from layer_client.acquire_refs [OF refs tunnel_frames.hyps(2) acc, of n v "\<lambda>c. layer_cmd (p c)"]
    tunnel_frames.hyps(4-8)
  have t: "refs_ok (\<lambda>c. held (w' c)) t" "\<forall>c \<in> set (mConsumers t). vt_layer_ok (w' c)"
    "released t = released s"
    "mset (queue_fds t) + mset (acquired s) = mset (queue_fds s) + mset (acquired t)" by auto
  have "mset (queue_fds s) + mset (released s) = mset (acquired s)"
    using tunnel_frames.IH by (simp add: tunnel_ok_def)
  then have "mset (queue_fds t) + mset (queue_fds s) + mset (released t)
      = mset (queue_fds s) + mset (acquired t)"
    using t(3,4) by (metis add.assoc add.commute)
  then have "mset (queue_fds t) + mset (released t) = mset (acquired t)"
    by (simp add: ac_simps)
  with t(1,2) show ?case by (simp add: tunnel_ok_def)
next
  case (tunnel_call s w c op l t)
  from tunnel_call_result [OF tunnel_call.IH tunnel_call.hyps(2-4), of p v]
  show ?case using tunnel_call.hyps(5,7) by (auto simp del: fun_upd_apply simp: fun_upd_def)
next
  case (tunnel_leave s w c op l t)
  from tunnel_call_result [OF tunnel_leave.IH tunnel_leave.hyps(2-4), of p v]
  have t: "tunnel_ok t (w(c := l))" "mConsumers t = mConsumers s"
    using tunnel_leave.hyps(5,7) by (auto simp: fun_upd_def)
  have c: "c \<in> set (mConsumers t)" using t(2) tunnel_leave.hyps(2) by simp
  have "vt_layer_ok l" using t(1) c by (auto simp: tunnel_ok_def)
  then have "held l = {#}" using tunnel_leave.hyps(6) by (auto simp: vt_layer_ok_def)
  then have "refs_ok (\<lambda>x. held ((w(c := l)) x)) (snd (unregisterVtConsumer c t))"
    using t(1) by (intro refs_ok_empty_holder) (simp_all add: tunnel_ok_def)
  moreover have "set (mConsumers (snd (unregisterVtConsumer c t))) \<subseteq> set (mConsumers t)"
    by (simp add: unregisterVtConsumer_def set_remove1_subset)
  ultimately show ?case
    using t(1) by (auto simp: tunnel_ok_def unregisterVtConsumer_def queue_fds_def released_def
        acquired_def split: if_splits)
qed

end
