(* ===== verification/VtManagerProps.thy ===== *)
theory VtManagerProps
  imports VtClient
begin

text \<open>
  What the manager of the tunnels promises: erasing an instance gives its buffers back, and
  connecting and disconnecting undo each other.
\<close>

section \<open>Clearing up\<close>

text \<open>What an idle instance leaves in the log when it is erased.\<close>

definition teardown :: "vt_instance \<Rightarrow> drv_event list" where
  "teardown i = (if 0 \<le> inst_tunnel i then [DrvDisconnect (inst_tunnel i)] else [])
     @ map (\<lambda>fd. DrvRelease (- 1) fd (- 1)) (queue_fds i)"

lemma releaseItems_log:
  "drv_log (fold (releaseItem v) q s) = drv_log s @ map (\<lambda>i. DrvRelease (inst_tunnel s) (fd_of s i) (- 1)) q
    \<and> inst_tunnel (fold (releaseItem v) q s) = inst_tunnel s"
proof (induction q arbitrary: s)
  case (Cons i q)
  have fd: "fd_of (releaseItem v i s) j = fd_of s j" for j by (simp add: releaseItem_def)
  show ?case
    using Cons [of "releaseItem v i s"] unfolding fd by (simp add: releaseItem_def)
qed simp

lemma inst_destroy_log:
  "drv_log (inst_destroy v s) = drv_log s
    @ map (\<lambda>fd. DrvRelease (inst_tunnel s) fd (- 1)) (queue_fds s)
    @ (if 0 \<le> inst_tunnel s then [DrvDisconnect (inst_tunnel s)] else [])"
  using releaseItems_log [of v "mBufferQueue s" "s\<lparr>listens := X, mConsumers := []\<rparr>" for X]
  by (simp add: inst_destroy_def releaseInstanceBuffers_def inst_disconnect_def queue_fds_def Let_def
      comp_def)

lemma destroy_disconnected:
  "drv_log (inst_destroy v (inst_disconnect v s)) = drv_log s @ teardown s"
  by (simp add: inst_destroy_log) (simp add: inst_disconnect_def teardown_def queue_fds_def)

definition idle :: "(int \<times> vt_instance) list \<Rightarrow> vt_instance list" where
  "idle m = filter needDestroyThisInstance (map snd m)"

definition live :: "(int \<times> vt_instance) list \<Rightarrow> (int \<times> vt_instance) list" where
  "live m = filter (\<lambda>e. \<not> needDestroyThisInstance (snd e)) m"

lemma with_es [simp]:
  "needDestroyThisInstance (i\<lparr>drv_log := es\<rparr>) = needDestroyThisInstance i"
  "teardown (i\<lparr>drv_log := es\<rparr>) = teardown i"
  by (simp_all add: needDestroyThisInstance_def teardown_def queue_fds_def)

lemma clearUp_none:
  "clearUp v None es m = (es @ concat (map teardown (idle m)), live m, [])"
  by (induction m arbitrary: es)
    (auto simp: idle_def live_def Let_def split_def destroy_disconnected)

text \<open>
  Erasing the instances without consumers gives each of their buffers back once, but
  after the tunnel was disconnected, so for tunnel -1; the others are left alone.\<close>

theorem clear_up_log:
  "clearUpInstancesLocked v m =
    m\<lparr>mInstances := live (mInstances m),
      mgr_log := mgr_log m @ concat (map teardown (idle (mInstances m)))\<rparr>"
  by (simp add: clearUpInstancesLocked_def clearUpHolding_def clearUp_none)
    (simp add: live_def idle_def)

lemma map_put_insert:
  "tid \<notin> fst ` set m \<Longrightarrow> map_put tid j (map_insert tid i m) = map_insert tid j m"
proof (induction m)
  case (Cons e m)
  have "map (\<lambda>e. if fst e = tid then (tid, j) else e) m = m" if "tid \<notin> fst ` set m"
    using that by (intro map_idI) force
  with Cons show ?case by (auto simp: map_put_def)
qed (simp add: map_put_def)

lemma map_of_insert:
  "tid \<notin> fst ` set m \<Longrightarrow> map_of (map_insert tid i m) tid = Some i"
  by (induction m) auto

lemma clearUp_live: "\<forall>e \<in> set m. \<not> needDestroyThisInstance (snd e) \<Longrightarrow> clearUp v hold es m = (es, m, [])"
  by (induction m) auto

lemma clearUp_held:
  assumes "\<forall>e \<in> set m. \<not> needDestroyThisInstance (snd e)" and "needDestroyThisInstance j"
  shows "clearUp v (Some tid) es (map_insert tid j m) =
    (if tid \<in> fst ` set m then clearUp v (Some tid) es (map_insert tid j m)
     else let k = inst_disconnect v (j\<lparr>drv_log := es\<rparr>) in (drv_log k, m, [k]))"
  using assms by (induction m) (auto simp: clearUp_live Let_def)

lemma clear_last:
  assumes new: "tid \<notin> fst ` set (mInstances m)"
    and live: "\<forall>e \<in> set (mInstances m). mConsumers (snd e) \<noteq> []"
    and k: "mConsumers k = []" "mBufferQueue k = []" "inst_tunnel k = tid" "0 \<le> tid"
    and m1: "mInstances m1 = map_insert tid k (mInstances m)" "mgr_log m1 = drv_log k"
  shows "clearUpHolding v (Some tid) m1
    = m1\<lparr>mInstances := mInstances m, mgr_log := drv_log k @ [DrvDisconnect tid]\<rparr>"
proof -
  have "\<forall>e \<in> set (mInstances m). \<not> needDestroyThisInstance (snd e)" "needDestroyThisInstance k"
    using live k(1) by (simp_all add: needDestroyThisInstance_def)
  from clearUp_held [OF this, of v tid "drv_log k"] new
  have clr: "clearUp v (Some tid) (mgr_log m1) (mInstances m1)
      = (drv_log (inst_disconnect v k), mInstances m, [inst_disconnect v k])"
    unfolding m1 by (simp add: Let_def)
  have d: "drv_log (inst_disconnect v k) = drv_log k @ [DrvDisconnect tid]"
    using k by (simp add: inst_disconnect_def)
  moreover have "drv_log (inst_destroy v ((inst_disconnect v k)\<lparr>drv_log := es\<rparr>)) = es" for es
    using k by (simp add: inst_destroy_log inst_disconnect_def queue_fds_def)
  ultimately show ?thesis by (simp add: clearUpHolding_def clr)
qed

text \<open>C36: connecting the first consumer of a tunnel and disconnecting it again leaves the manager
  as it was, with the tunnel closed; only the thread goes on.\<close>

theorem connect_disconnect:
  assumes "0 \<le> tid" and new: "tid \<notin> fst ` set (mInstances m)"
    and live: "\<forall>e \<in> set (mInstances m). mConsumers (snd e) \<noteq> []"
    and answer: "0 \<le> drv_answer v (mgr_log m @ [DrvConnect tid])"
  shows "fst (connectInstanceLocked v tid c m) = 0
    \<and> disconnectInstanceLocked v tid c (snd (connectInstanceLocked v tid c m))
      = (0, m\<lparr>mVtHandleEventsThread := Some False,
           mgr_log := mgr_log m @ [DrvConnect tid, DrvDisconnect tid]\<rparr>)"
proof -
  let ?es = "mgr_log m @ [DrvConnect tid]"
  let ?i = "(vt_instance_init tid (mgr_log m))\<lparr>drv_log := ?es\<rparr>"
  let ?j = "?i\<lparr>listens := (listens ?i)(c := True), mConsumers := [c]\<rparr>"
  let ?m1 = "m\<lparr>mInstances := map_insert tid ?j (mInstances m), mgr_log := ?es,
      mVtHandleEventsThread := Some False\<rparr>"
  have none: "map_of (mInstances m) tid = None" using new by (simp add: map_of_eq_None_iff)
  have conn: "inst_connect v (vt_instance_init tid (mgr_log m)) = (drv_answer v ?es, ?i)"
    using assms(1) by (simp add: inst_connect_def drv_call_def vt_instance_init_def)
  have reg: "registerVtConsumer c ?i = (0, ?j)"
    by (simp add: registerVtConsumer_def vt_instance_init_def)
  have c: "connectInstanceLocked v tid c m = (0, ?m1)"
    using assms(1) answer
    by (simp add: connectInstanceLocked_def none conn reg store_def startThread_def
        map_put_insert [OF new])
  let ?k = "?j\<lparr>mConsumers := []\<rparr>"
  have unreg: "unregisterVtConsumer c (with_log ?m1 ?j) = (0, ?k)"
    by (simp add: unregisterVtConsumer_def with_log_def)
  have "clearUpHolding v (Some tid) (store tid ?k ?m1)
      = m\<lparr>mVtHandleEventsThread := Some False,
           mgr_log := mgr_log m @ [DrvConnect tid, DrvDisconnect tid]\<rparr>"
    using clear_last [OF new live, of ?k "store tid ?k ?m1" v] assms(1)
    by (simp add: store_def map_put_insert [OF new] vt_instance_init_def)
  moreover have "map_of (mInstances ?m1) tid = Some ?j" using map_of_insert [OF new] by simp
  moreover have "mInstances ?m1 \<noteq> []" by (cases "mInstances m") auto
  ultimately have "disconnectInstanceLocked v tid c ?m1 = (0, m\<lparr>mVtHandleEventsThread := Some False,
           mgr_log := mgr_log m @ [DrvConnect tid, DrvDisconnect tid]\<rparr>)"
    using assms(1) unreg by (simp add: disconnectInstanceLocked_def)
  with c show ?thesis by simp
qed

definition quiet_driver :: vt_driver where
  "quiet_driver =
     \<lparr>drv_answer = (\<lambda>es. 0), drv_buffer = (\<lambda>es. (40, 0)),
      drv_cmd = (\<lambda>es. (VT_CMD_GET_VIDEO_STATUS, \<lparr>cmd_rect = \<lparr>rect_left = 0, rect_top = 0, rect_right = 0, rect_bottom = 0\<rparr>,
        cmd_data = 0\<rparr>)),
      drv_revents = (\<lambda>es. (False, False))\<rparr>"

theorem connect_disconnect_witness:
  "disconnectInstanceLocked quiet_driver 3 0 (snd (connectInstanceLocked quiet_driver 3 0 vt_manager_init))
    = (0, vt_manager_init\<lparr>mVtHandleEventsThread := Some False,
        mgr_log := [DrvConnect 3, DrvDisconnect 3]\<rparr>)"
  using connect_disconnect [of 3 vt_manager_init quiet_driver 0]
  by (simp add: vt_manager_init_def quiet_driver_def)

end
