(* ===== verification/VtTunnelProps.thy ===== *)
theory VtTunnelProps
  imports VtTunnel VtManagerProps
begin

text \<open>
  The properties of a tunnel with the layers that show it.
\<close>

section \<open>A concrete tunnel\<close>

text \<open>The driver has one buffer, descriptor 40.\<close>

fun is_acquire :: "drv_event \<Rightarrow> bool" where
  "is_acquire (DrvAcquire tid) = True"
| "is_acquire _ = False"

definition demo_driver :: vt_driver where
  "demo_driver = quiet_driver\<lparr>drv_answer := (\<lambda>es.
     if is_acquire (last es) \<and> length (filter is_acquire es) \<noteq> 1 then - EAGAIN else 0)\<rparr>"

definition joined_layer :: hwc2_layer where
  "joined_layer = fst (the (run_ops demo_vt [SetSidebandStream (Some 3) (Some 0)]
     (hwc2_layer_init demo_vt 0, [])))"

definition two_consumers :: vt_instance where
  "two_consumers = snd (registerVtConsumer 1 (snd (registerVtConsumer 0 (vt_instance_init 3 []))))"

definition demo_client :: "(nat \<Rightarrow> hwc2_layer) vt_client" where
  "demo_client = client_of layer_deliver (\<lambda>c. layer_cmd demo_vt)"

definition demo_delivery :: "int \<times> vt_instance \<times> (nat \<Rightarrow> hwc2_layer)" where
  "demo_delivery = the (acquireBuffer demo_driver demo_client two_consumers (\<lambda>c. joined_layer))"

definition demo_tunnel :: vt_instance where
  "demo_tunnel = fst (snd demo_delivery)"

definition demo_layers :: "nat \<Rightarrow> hwc2_layer" where
  "demo_layers = snd (snd demo_delivery)"

lemma joined_layer_reach: "layer_reach demo_vt joined_layer []"
proof -
  have "map_option snd (run_ops demo_vt [SetSidebandStream (Some 3) (Some 0)]
    (hwc2_layer_init demo_vt 0, [])) = Some []" by code_simp
  then have "run_ops demo_vt [SetSidebandStream (Some 3) (Some 0)] (hwc2_layer_init demo_vt 0, [])
    = Some (joined_layer, [])" by (auto simp: joined_layer_def)
  then show ?thesis by (rule run_ops_reach [OF layer_new])
qed

lemma joined_layer_facts:
  "held joined_layer = {#}" "mVtConsumer joined_layer = Some 0" "accepts_frames joined_layer"
proof -
  have "mQueueItems joined_layer = [] \<and> \<not> 0 \<le> mPreVtBufferFd joined_layer" by code_simp
  then show "held joined_layer = {#}" by (simp add: held_def)
qed (code_simp)+

lemma two_consumers_reach:
  "tunnel_reach demo_driver (\<lambda>c. demo_vt) two_consumers (\<lambda>c. joined_layer)"
proof -
  let ?w = "\<lambda>c::nat. joined_layer"
  have "tunnel_reach demo_driver (\<lambda>c. demo_vt) (snd (registerVtConsumer c s)) ?w"
    if "tunnel_reach demo_driver (\<lambda>c. demo_vt) s ?w" "c \<notin> set (mConsumers s)" for c s
  proof -
    have "?w(c := joined_layer) = ?w" by (rule fun_upd_idem) simp
    with tunnel_join [OF that joined_layer_reach] joined_layer_facts show ?thesis by simp
  qed
  from this [OF this [OF tunnel_new]] show ?thesis
    by (simp add: two_consumers_def registerVtConsumer_def vt_instance_init_def)
qed

lemma demo_delivery_run:
  "acquireBuffer demo_driver demo_client two_consumers (\<lambda>c. joined_layer)
    = Some (fst demo_delivery, demo_tunnel, demo_layers)"
proof -
  have "acquireBuffer demo_driver demo_client two_consumers (\<lambda>c. joined_layer) \<noteq> None" by code_simp
  then show ?thesis by (auto simp: demo_delivery_def demo_tunnel_def demo_layers_def)
qed

lemma two_consumers_facts:
  "k < 1 \<Longrightarrow> acquire_answer demo_driver two_consumers k = 0"
  "acquire_answer demo_driver two_consumers 1 = - EAGAIN" "mConsumers two_consumers = [0, 1]"
  "inst_tunnel two_consumers = 3" "objects_made two_consumers = 0" "mBufferQueue two_consumers = []"
proof -
  have "acquire_answer demo_driver two_consumers 0 = 0" by code_simp
  then show "acquire_answer demo_driver two_consumers k = 0" if "k < 1" using that by simp
qed (code_simp)+

lemma demo_tunnel_reach: "tunnel_reach demo_driver (\<lambda>c. demo_vt) demo_tunnel demo_layers"
proof (rule tunnel_frames [OF two_consumers_reach, where n = 1])
  show "acquire_answer demo_driver two_consumers k = 0" if "k < 1" for k
    by (rule two_consumers_facts(1) [OF that])
  show "mConsumers two_consumers \<noteq> []" by (simp add: two_consumers_facts)
  show "\<forall>c \<in> set (mConsumers two_consumers). accepts_frames joined_layer"
    using joined_layer_facts by simp
  show "acquire_answer demo_driver two_consumers 1 = - EAGAIN" by (rule two_consumers_facts(2))
  show "distinct (queue_fds (arrivals demo_driver 1 two_consumers))" by code_simp
  show "\<forall>fd \<in> set (queue_fds (arrivals demo_driver 1 two_consumers)). 0 \<le> fd" by code_simp
qed (rule demo_delivery_run [unfolded demo_client_def])

lemma demo_tunnel_facts:
  "mConsumers demo_tunnel = [0, 1]" "queue_fds demo_tunnel = [40]" "acquired demo_tunnel = [40]"
  "isVtBufferLocked (demo_layers 0)" "mTunnelId (demo_layers 0) = 3"
  "mVtConsumer (demo_layers 0) = Some 0"
  by (code_simp)+

section \<open>Who has a buffer\<close>

text \<open>C28: in every reachable tunnel a buffer waits in the queue exactly while a layer holds it, its
  reference count is the number of layers that hold it, and each buffer the driver handed out is
  in the queue or was given back to the driver, once.\<close>

theorem tunnel_reference_counts:
  assumes "tunnel_reach v p s w"
  shows "(fd \<in> set (queue_fds s) \<longleftrightarrow> (\<exists>c \<in> set (mConsumers s). fd \<in># held (w c)))
    \<and> (\<forall>i \<in> set (mBufferQueue s).
        mRef (vt_objects s i) = int (\<Sum>c\<leftarrow>mConsumers s. count (held (w c)) (fd_of s i)))
    \<and> mset (queue_fds s) + mset (released s) = mset (acquired s)"
proof -
  from tunnel_reach_ok [OF assms] have ok: "refs_ok (\<lambda>c. held (w c)) s"
    "mset (queue_fds s) + mset (released s) = mset (acquired s)" by (simp_all add: tunnel_ok_def)
  with queue_held [OF ok(1)] show ?thesis by (auto simp: refs_ok_def holds_count_def)
qed

theorem tunnel_reference_counts_witness:
  "(\<exists>c \<in> {0, 1}. 40 \<in># held (demo_layers c)) \<and> released demo_tunnel = []
    \<and> count (held (demo_layers 0)) 40 + count (held (demo_layers 1)) 40
      = nat (mRef (vt_objects demo_tunnel 0))"
proof -
  have q: "mBufferQueue demo_tunnel = [0]" by code_simp
  have fd: "fd_of demo_tunnel 0 = 40" by code_simp
  from tunnel_reference_counts [OF demo_tunnel_reach, of 40]
  show ?thesis by (simp add: demo_tunnel_facts q fd)
qed

text \<open>C29: no call of a layer that shows the tunnel goes wrong, neither in the layer nor in the
  instance it gives buffers back to: no observer, fence or item is missing on the way.\<close>

theorem tunnel_calls_defined:
  assumes "tunnel_reach v p s w" and "c \<in> set (mConsumers s)"
    and "op_ok op (w c)" and "\<not> is_delivery op"
  shows "\<exists>l t. layer_step (p c) op (w c) = Inr l \<and> displayAll v (new_returns (w c) l) s = Inr t
    \<and> mset (queue_fds t) + mset (released t) = mset (acquired s)"
proof -
  note ok = tunnel_reach_ok [OF assms(1)]
  from tunnel_call_result [OF ok assms(2-4), of p v] obtain l t where
    t: "layer_step (p c) op (w c) = Inr l" "displayAll v (new_returns (w c) l) s = Inr t"
      "tunnel_ok t (w(c := l))" by blast
  from ok have refs: "refs_ok (\<lambda>c. held (w c)) s" by (simp add: tunnel_ok_def)
  from layer_step_accounts [of "w c" op "p c"] ok assms(2,3) t(1)
  have "accounts (w c) {#} l" by (auto simp: tunnel_ok_def no_delivery [OF assms(4)])
  from accounts_returns [OF this] have sub: "mset (map fst (new_returns (w c) l)) \<subseteq># held (w c)"
    by (metis mset_subset_eq_add_left)
  from display_all [OF refs assms(2) sub, of v] t(2) have "acquired t = acquired s" by simp
  with t show ?thesis by (auto simp: tunnel_ok_def)
qed

theorem tunnel_calls_defined_witness:
  "\<exists>l t. layer_step demo_vt UpdateVtBuffer (demo_layers 0) = Inr l
    \<and> displayAll demo_driver (new_returns (demo_layers 0) l) demo_tunnel = Inr t
    \<and> mset (queue_fds t) + mset (released t) = {#40#}"
  using tunnel_calls_defined [OF demo_tunnel_reach, of 0 UpdateVtBuffer]
  by (simp add: demo_tunnel_facts)

text \<open>C30: when the only layer left on a tunnel gives up its video, every buffer that is not back
  yet goes back to the driver.\<close>

theorem last_layer_returns_all:
  assumes "tunnel_reach v p s w" and only: "mConsumers s = [c]"
    and act: "release_active (w c)" and tid: "0 \<le> mTunnelId (w c)"
  shows "\<exists>l t. releaseVtResource (p c) (w c) = Inr l
    \<and> displayAll v (new_returns (w c) l) s = Inr t
    \<and> mBufferQueue t = [] \<and> mset (released t) = mset (acquired s)"
proof -
  note ok = tunnel_reach_ok [OF assms(1)]
  have c: "c \<in> set (mConsumers s)" by (simp add: only)
  from tunnel_call_result [OF ok c, of ReleaseVtResource p v] obtain l t where
    t: "releaseVtResource (p c) (w c) = Inr l" "displayAll v (new_returns (w c) l) s = Inr t"
      "tunnel_ok t (w(c := l))" "mConsumers t = [c]" by (auto simp: only)
  from tunnel_calls_defined [OF assms(1) c, of ReleaseVtResource] t(1,2)
  have all: "mset (queue_fds t) + mset (released t) = mset (acquired s)" by simp
  have "vt_layer_ok (w c)" using ok c by (simp add: tunnel_ok_def)
  from releaseVtResource_result [OF this act tid, of "p c"] t(1) have "held l = {#}" by simp
  moreover have "refs_ok (\<lambda>x. held ((w(c := l)) x)) t" using t(3) by (simp add: tunnel_ok_def)
  ultimately have "set (queue_fds t) = {}" using queue_held t(4) by force
  then have "queue_fds t = []" by simp
  with all t show ?thesis by (simp add: queue_fds_def)
qed

text \<open>The second layer leaves; the first keeps its buffer.\<close>

definition leaving_layer :: hwc2_layer where
  "leaving_layer = projr (releaseVtResource demo_vt (demo_layers 1))"

definition one_consumer :: vt_instance where
  "one_consumer = snd (unregisterVtConsumer 1
     (projr (displayAll demo_driver (new_returns (demo_layers 1) leaving_layer) demo_tunnel)))"

lemma one_consumer_reach:
  "tunnel_reach demo_driver (\<lambda>c. demo_vt) one_consumer (demo_layers(1 := leaving_layer))"
proof -
  let ?d = "displayAll demo_driver (new_returns (demo_layers 1) leaving_layer) demo_tunnel"
  have "isl (releaseVtResource demo_vt (demo_layers 1)) = False" by code_simp
  then have l: "layer_step demo_vt ReleaseVtResource (demo_layers 1) = Inr leaving_layer"
    by (simp add: leaving_layer_def)
  have none: "mVtConsumer leaving_layer = None" by code_simp
  have "isl ?d = False" by code_simp
  then have d: "?d = Inr (projr ?d)" by simp
  have c: "1 \<in> set (mConsumers demo_tunnel)" by (simp add: demo_tunnel_facts)
  show ?thesis
    unfolding one_consumer_def
    by (rule tunnel_leave [OF demo_tunnel_reach c _ _ l none d]) simp_all
qed

lemma one_consumer_facts:
  "mConsumers one_consumer = [0]" "acquired one_consumer = [40]" "queue_fds one_consumer = [40]"
  by (code_simp)+

theorem last_layer_returns_all_witness:
  "\<exists>l t. releaseVtResource demo_vt (demo_layers 0) = Inr l
    \<and> displayAll demo_driver (new_returns (demo_layers 0) l) one_consumer = Inr t
    \<and> mset (released t) = {#40#}"
proof -
  have "release_active ((demo_layers(1 := leaving_layer)) 0)"
    by (simp add: release_active_def demo_tunnel_facts)
  from last_layer_returns_all [OF one_consumer_reach one_consumer_facts(1) this]
  show ?thesis by (auto simp: demo_tunnel_facts one_consumer_facts)
qed

section \<open>Refused buffers\<close>

text \<open>C35: where every layer refuses the buffers a tunnel has, all of them are dropped as consumers;
  the buffers stay in the queue with a count of 0, none is given back, and the instance is due to
  be erased, which gives its buffers back after disconnecting, for tunnel -1.\<close>

theorem refused_delivery:
  assumes "\<And>k. k < n \<Longrightarrow> acquire_answer v s k = 0" "acquire_answer v s n = - EAGAIN" and "0 < n"
    and "mConsumers s \<noteq> []" and "\<forall>c \<in> set (mConsumers s). \<not> accepts_frames (w c)"
    and "0 \<le> inst_tunnel s"
  shows "\<exists>t. acquireBuffer v (client_of layer_deliver cmd) s w = Some (- EAGAIN, t, w)
    \<and> released t = released s \<and> needDestroyThisInstance t
    \<and> mBufferQueue t = mBufferQueue s @ [objects_made s..<objects_made s + n]
    \<and> (\<forall>i \<in> {objects_made s..<objects_made s + n}. mRef (vt_objects t i) = 0)
    \<and> teardown t = DrvDisconnect (inst_tunnel s) # map (\<lambda>fd. DrvRelease (- 1) fd (- 1)) (queue_fds t)"
proof -
  from layer_client.acquire_refused [OF assms(1-5)] obtain t where
    "acquireBuffer v (client_of layer_deliver cmd) s w = Some (- EAGAIN, t, w)"
    "mConsumers t = []" "released t = released s" "inst_tunnel t = inst_tunnel s"
    "mBufferQueue t = mBufferQueue s @ [objects_made s..<objects_made s + n]"
    "\<forall>i \<in> {objects_made s..<objects_made s + n}. mRef (vt_objects t i) = 0" by blast
  with assms(6) show ?thesis by (auto simp: needDestroyThisInstance_def teardown_def)
qed

theorem refused_delivery_witness:
  "\<exists>t. acquireBuffer demo_driver demo_client two_consumers (\<lambda>c. hwc2_layer_init demo_vt 0)
      = Some (- EAGAIN, t, \<lambda>c. hwc2_layer_init demo_vt 0)
    \<and> needDestroyThisInstance t \<and> mBufferQueue t = [0] \<and> mRef (vt_objects t 0) = 0"
proof -
  have "\<not> accepts_frames (hwc2_layer_init demo_vt 0)" by code_simp
  with refused_delivery [OF two_consumers_facts(1,2), of "\<lambda>c. hwc2_layer_init demo_vt 0"
    "\<lambda>c. layer_cmd demo_vt"] two_consumers_facts(3-6)
  show ?thesis unfolding demo_client_def by (simp del: split_paired_Ex) blast
qed

end
