(* ===== verification/LayerIds.thy ===== *)
theory LayerIds
  imports DrmModel
begin

text \<open>
  Layer ids: the bit map of src/common/utils/BitsMap.cpp and the generator of
  src/hwc2/Hwc2Display.cpp (\<open>initLayerIdGenerator\<close>, \<open>createLayerId\<close>, \<open>destroyLayerId\<close>).

  Whether \<open>char\<close> is signed depends on the platform, and \<open>getZeroBit\<close> compares one with 0xFF:
  \<open>signed_char\<close> says which it is (on ARM, where the composer runs, \<open>char\<close> is unsigned).
\<close>

unbundle bit_operations_syntax

section \<open>The bit map\<close>

type_synonym bits_map = "8 word list"

definition BYTE_IDX :: "nat \<Rightarrow> nat" where "BYTE_IDX i = drop_bit 3 i"

definition BIT_OFFSET :: "nat \<Rightarrow> nat" where "BIT_OFFSET i = i AND 7"

definition bits_map_new :: "nat \<Rightarrow> bits_map" where
  "bits_map_new bits = replicate (BYTE_IDX bits + 1) 0"

definition char_shr :: "bool \<Rightarrow> nat \<Rightarrow> 8 word \<Rightarrow> 8 word" where
  "char_shr signed_char n b = (if signed_char then signed_drop_bit n b else drop_bit n b)"

text \<open>The binary search of \<open>getZeroBit\<close> in one byte.\<close>

definition zeroBitOf :: "bool \<Rightarrow> 8 word \<Rightarrow> nat" where
  "zeroBitOf signed_char b =
     (let (b1, i1) = (if b AND 0xF = 0xF then (char_shr signed_char 4 b, 4) else (b, 0));
          (b2, i2) = (if b1 AND 0x3 = 0x3 then (char_shr signed_char 2 b1, i1 + 2) else (b1, i1)) in
      if b2 AND 0x1 = 0x1 then i2 + 1 else i2)"

fun zeroBitFrom :: "bool \<Rightarrow> nat \<Rightarrow> 8 word list \<Rightarrow> int" where
  "zeroBitFrom signed_char i [] = - 1"
| "zeroBitFrom signed_char i (b # bs) =
     (if \<not> signed_char \<and> b = 0xFF then zeroBitFrom signed_char (Suc i) bs else int (zeroBitOf signed_char b + i * 8))"

definition getZeroBit :: "bool \<Rightarrow> bits_map \<Rightarrow> int" where
  "getZeroBit signed_char m = zeroBitFrom signed_char 0 m"

definition bits_setBit :: "nat \<Rightarrow> bits_map \<Rightarrow> fault + bits_map" where
  "bits_setBit i m = bindE (nthE OutOfRange m (BYTE_IDX i))
     (\<lambda>b. Inr (m[BYTE_IDX i := b OR push_bit (BIT_OFFSET i) 1]))"

definition bits_clearBit :: "nat \<Rightarrow> bits_map \<Rightarrow> fault + bits_map" where
  "bits_clearBit i m = bindE (nthE OutOfRange m (BYTE_IDX i))
     (\<lambda>b. Inr (m[BYTE_IDX i := b AND NOT (push_bit (BIT_OFFSET i) 1)]))"

definition bits_reset :: "bits_map \<Rightarrow> bits_map" where
  "bits_reset m = map (\<lambda>_. 0) m"

section \<open>The generator\<close>

definition MAX_HWC_LAYERS :: nat where "MAX_HWC_LAYERS = 256"

definition LAYER_SLOT_BITS :: nat where "LAYER_SLOT_BITS = 8"

record id_gen =
  mLayersBitmap :: bits_map
  mLayerSeq :: nat

definition initLayerIdGenerator :: id_gen where
  "initLayerIdGenerator = \<lparr>mLayersBitmap = bits_map_new MAX_HWC_LAYERS, mLayerSeq = 0\<rparr>"

definition createLayerId :: "bool \<Rightarrow> id_gen \<Rightarrow> fault + (nat \<times> id_gen)" where
  "createLayerId signed_char g =
     (let idx = getZeroBit signed_char (mLayersBitmap g) in
      if idx < 0 then Inl (AssertFailed ''Bitmap getZeroBit failed'')
      else bindE (bits_setBit (nat idx) (mLayersBitmap g)) (\<lambda>m.
        let layerSeq = (mLayerSeq g + 1) mod MAX_HWC_LAYERS;
            layerId = push_bit LAYER_SLOT_BITS (nat idx AND (MAX_HWC_LAYERS - 1)) OR layerSeq in
        Inr (layerId, \<lparr>mLayersBitmap = m, mLayerSeq = layerSeq\<rparr>)))"

definition destroyLayerId :: "nat \<Rightarrow> id_gen \<Rightarrow> fault + id_gen" where
  "destroyLayerId layerId g =
     bindE (bits_clearBit (drop_bit LAYER_SLOT_BITS layerId) (mLayersBitmap g))
       (\<lambda>m. Inr (g\<lparr>mLayersBitmap := m\<rparr>))"

section \<open>The first free slot\<close>

definition is_set :: "bits_map \<Rightarrow> nat \<Rightarrow> bool" where
  "is_set m i \<longleftrightarrow> i div 8 < length m \<and> bit (m ! (i div 8)) (i mod 8)"

lemma idx_simps: "BYTE_IDX i = i div 8" "BIT_OFFSET i = i mod 8"
  using and_nat_numerals take_bit_eq_mask [of 3 i]
  by (simp_all add: BYTE_IDX_def BIT_OFFSET_def drop_bit_eq_div take_bit_eq_mod mask_numeral)

lemma byte_full: "j < 8 \<Longrightarrow> bit (0xFF :: 8 word) j"
proof -
  have "\<forall>j \<in> set [0..<8]. bit (0xFF :: 8 word) j" by code_simp
  then show "j < 8 \<Longrightarrow> bit (0xFF :: 8 word) j" by simp
qed

lemma zero_bit_check:
  "list_all (\<lambda>n. let b = word_of_nat n :: 8 word; z = zeroBitOf False b in
     z < 8 \<and> \<not> bit b z \<and> list_all (bit b) [0..<z]) [0..<255]"
  by code_simp

lemma zero_bit_of:
  assumes "b \<noteq> 0xFF"
  shows "zeroBitOf False b < 8 \<and> \<not> bit b (zeroBitOf False b)
    \<and> (\<forall>j < zeroBitOf False b. bit b j)"
proof -
  have "unat b < 256" using unsigned_less [of b, where 'a = nat] by simp
  moreover have "unat b \<noteq> 255"
  proof
    assume "unat b = 255"
    then have "unat b = unat (0xFF :: 8 word)" by simp
    then have "b = 0xFF" by (rule unsigned_word_eqI)
    then show False using assms by simp
  qed
  ultimately have "unat b \<in> set [0..<255]" by auto
  then have "let c = word_of_nat (unat b) :: 8 word; z = zeroBitOf False c in
     z < 8 \<and> \<not> bit c z \<and> list_all (bit c) [0..<z]"
    using zero_bit_check by (simp only: list_all_iff)
  then show ?thesis by (simp add: list_all_iff Let_def)
qed

lemma is_set_Cons:
  "i < 8 \<Longrightarrow> is_set (b # bs) i = bit b i"
  "is_set (b # bs) (i + 8) = is_set bs i"
  by (simp_all add: is_set_def)

lemma zeroBitFrom_first:
  "\<exists>b \<in> set bs. b \<noteq> 0xFF \<Longrightarrow> \<exists>z. zeroBitFrom False k bs = int (z + 8 * k) \<and> z < 8 * length bs
     \<and> \<not> is_set bs z \<and> (\<forall>j < z. is_set bs j)"
proof (induction bs arbitrary: k)
  case Nil
  then show ?case by simp
next
  case (Cons b bs)
  show ?case
  proof (cases "b = 0xFF")
    case True
    with Cons.prems have "\<exists>b \<in> set bs. b \<noteq> 0xFF" by simp
    from Cons.IH [OF this, of "Suc k"] obtain z where z: "zeroBitFrom False (Suc k) bs = int (z + 8 * Suc k)"
      "z < 8 * length bs" "\<not> is_set bs z" "\<forall>j < z. is_set bs j" by blast
    have "is_set (b # bs) j" if "j < z + 8" for j
    proof (cases "j < 8")
      case True
      then show ?thesis using \<open>b = 0xFF\<close> byte_full by (simp add: is_set_Cons)
    next
      case False
      then obtain i where "j = i + 8" by (metis le_add_diff_inverse2 not_less)
      then show ?thesis using z(4) that by (simp add: is_set_Cons)
    qed
    then show ?thesis using z True by (intro exI [of _ "z + 8"]) (simp add: is_set_Cons)
  next
    case False
    from zero_bit_of [OF this] False show ?thesis
      by (intro exI [of _ "zeroBitOf False b"]) (auto simp: is_set_Cons)
  qed
qed

lemma getZeroBit_first:
  assumes "i < 8 * length m" "\<not> is_set m i"
  shows "\<exists>z. getZeroBit False m = int z \<and> z \<le> i \<and> \<not> is_set m z \<and> (\<forall>j < z. is_set m j)"
proof -
  have "i div 8 < length m" using assms(1) by simp
  moreover have "m ! (i div 8) \<noteq> 0xFF" using assms byte_full by (auto simp: is_set_def)
  ultimately have "\<exists>b \<in> set m. b \<noteq> 0xFF" by (meson nth_mem)
  from zeroBitFrom_first [OF this, of 0] assms(2) show ?thesis
    unfolding getZeroBit_def by (metis add.right_neutral mult_0_right not_less)
qed

section \<open>Setting and clearing a slot\<close>

lemma is_set_update:
  "i div 8 < length m \<Longrightarrow> is_set (m[i div 8 := m ! (i div 8) OR push_bit (i mod 8) 1]) j
     = (j = i \<or> is_set m j)"
  "i div 8 < length m \<Longrightarrow> is_set (m[i div 8 := m ! (i div 8) AND NOT (push_bit (i mod 8) 1)]) j
     = (j \<noteq> i \<and> is_set m j)"
proof -
  have eq: "j = i \<longleftrightarrow> j div 8 = i div 8 \<and> j mod 8 = i mod 8" for i j :: nat
    by (metis div_mult_mod_eq)
  have len: "j mod 8 < LENGTH(8)" for j :: nat by simp
  show "i div 8 < length m \<Longrightarrow> is_set (m[i div 8 := m ! (i div 8) OR push_bit (i mod 8) 1]) j
     = (j = i \<or> is_set m j)"
    using eq [of j i] len [of j] by (auto simp: is_set_def nth_list_update bit_simps)
  show "i div 8 < length m \<Longrightarrow> is_set (m[i div 8 := m ! (i div 8) AND NOT (push_bit (i mod 8) 1)]) j
     = (j \<noteq> i \<and> is_set m j)"
    using eq [of j i] len [of j] by (auto simp: is_set_def nth_list_update bit_simps)
qed

lemma setBit_result:
  assumes "i < 8 * length m"
  shows "\<exists>m'. bits_setBit i m = Inr m' \<and> length m' = length m
    \<and> (\<forall>j. is_set m' j \<longleftrightarrow> j = i \<or> is_set m j)"
  using assms is_set_update(1) by (simp add: bits_setBit_def nthE_def idx_simps)

lemma clearBit_result:
  assumes "i < 8 * length m"
  shows "\<exists>m'. bits_clearBit i m = Inr m' \<and> length m' = length m
    \<and> (\<forall>j. is_set m' j \<longleftrightarrow> j \<noteq> i \<and> is_set m j)"
  using assms is_set_update(2) by (simp add: bits_clearBit_def nthE_def idx_simps)

section \<open>What the generator keeps\<close>

definition slot_of :: "nat \<Rightarrow> nat" where "slot_of layerId = layerId div 256"

text \<open>
  \<open>ids_ok ids g\<close>: the live layers \<open>ids\<close> have slots of their own, and exactly those slots are set.
\<close>

definition ids_ok :: "nat list \<Rightarrow> id_gen \<Rightarrow> bool" where
  "ids_ok ids g \<longleftrightarrow> length (mLayersBitmap g) = 33 \<and> mLayerSeq g < 256
     \<and> distinct (map slot_of ids) \<and> (\<forall>i \<in> set ids. slot_of i < 256)
     \<and> (\<forall>i. is_set (mLayersBitmap g) i \<longleftrightarrow> i \<in> slot_of ` set ids)"

lemma id_parts:
  assumes "z < 256" "q < 256"
  shows "push_bit LAYER_SLOT_BITS (z AND (MAX_HWC_LAYERS - 1)) OR q = z * 256 + (q :: nat)"
proof -
  have "z AND 255 = z" using assms(1) and_nat_numerals take_bit_eq_mask [of 8 z]
    by (simp add: take_bit_nat_eq_self mask_numeral)
  moreover have "push_bit 8 z OR q = push_bit 8 z + q"
  proof (rule disjunctive_add [symmetric])
    fix n
    show "\<not> bit (push_bit 8 z) n \<or> \<not> bit q n"
    proof (cases "n < 8")
      case True
      then show ?thesis by (simp add: bit_simps)
    next
      case False
      then have "q < 2 ^ n" using assms(2) power_increasing [of 8 n "2 :: nat"] by simp
      then show ?thesis by (simp add: bit_iff_odd [of q])
    qed
  qed
  ultimately show ?thesis by (simp add: LAYER_SLOT_BITS_def MAX_HWC_LAYERS_def push_bit_eq_mult)
qed

lemma ids_ok_init: "ids_ok [] initLayerIdGenerator"
  by (auto simp: ids_ok_def initLayerIdGenerator_def bits_map_new_def idx_simps MAX_HWC_LAYERS_def is_set_def)

lemma free_slot:
  assumes "ids_ok ids g" "length ids < 256"
  shows "\<exists>i < 256. \<not> is_set (mLayersBitmap g) i"
proof (rule ccontr)
  assume "\<not> (\<exists>i < 256. \<not> is_set (mLayersBitmap g) i)"
  then have "{..<256} \<subseteq> slot_of ` set ids" using assms(1) by (auto simp: ids_ok_def)
  then have "256 \<le> card (slot_of ` set ids)"
    using card_mono [of "slot_of ` set ids" "{..<256}"] by simp
  also have "\<dots> \<le> length ids" by (metis card_length length_map list.set_map)
  finally show False using assms(2) by simp
qed

lemma createLayerId_at:
  assumes g: "ids_ok ids g" and z: "getZeroBit False (mLayersBitmap g) = int z" "z < 264"
  shows "\<exists>m. createLayerId False g = Inr ((z mod 256) * 256 + (mLayerSeq g + 1) mod 256,
      \<lparr>mLayersBitmap = m, mLayerSeq = (mLayerSeq g + 1) mod 256\<rparr>)
    \<and> length m = 33 \<and> (\<forall>j. is_set m j \<longleftrightarrow> j = z \<or> is_set (mLayersBitmap g) j)"
proof -
  have "z < 8 * length (mLayersBitmap g)" using assms by (simp add: ids_ok_def)
  from setBit_result [OF this] obtain m where m: "bits_setBit z (mLayersBitmap g) = Inr m"
    "length m = length (mLayersBitmap g)" "\<forall>j. is_set m j \<longleftrightarrow> j = z \<or> is_set (mLayersBitmap g) j" by blast
  have "z AND (MAX_HWC_LAYERS - 1) = (z mod 256) AND (MAX_HWC_LAYERS - 1)"
    using take_bit_eq_mask [of 8 z] take_bit_eq_mask [of 8 "z mod 256"]
    by (simp add: MAX_HWC_LAYERS_def take_bit_eq_mod mask_numeral)
  then have "push_bit LAYER_SLOT_BITS (z AND (MAX_HWC_LAYERS - 1)) OR (mLayerSeq g + 1) mod 256
      = (z mod 256) * 256 + (mLayerSeq g + 1) mod 256"
    using id_parts [of "z mod 256" "(mLayerSeq g + 1) mod 256"] by simp
  then show ?thesis using z m g
    by (simp add: createLayerId_def ids_ok_def Let_def MAX_HWC_LAYERS_def)
qed

lemma createLayerId_first:
  assumes "ids_ok ids g" "getZeroBit False (mLayersBitmap g) = int z" "z < 256"
  shows "\<exists>h. createLayerId False g = Inr (z * 256 + (mLayerSeq g + 1) mod 256, h)"
proof -
  have "z < 264" "z mod 256 = z" using assms(3) by simp_all
  with createLayerId_at [OF assms(1,2)] show ?thesis by metis
qed

lemma next_seq: "(q + 1) mod 256 \<noteq> (q :: nat)"
proof
  assume "(q + 1) mod 256 = q"
  moreover from this have "q < 256" using mod_less_divisor [of 256 "q + 1"] by simp
  ultimately show False by (cases "q = 255") simp_all
qed

lemma createLayerId_ok:
  assumes "ids_ok ids g" "length ids < 256"
  shows "okE (createLayerId False g) (\<lambda>(i, g'). ids_ok (i # ids) g' \<and> i < 65536
    \<and> slot_of i \<notin> slot_of ` set ids)"
proof -
  from free_slot [OF assms] obtain i where i: "i < 256" "\<not> is_set (mLayersBitmap g) i" by blast
  then have "i < 8 * length (mLayersBitmap g)" using assms(1) by (simp add: ids_ok_def)
  from getZeroBit_first [OF this i(2)] i(1) obtain z where z: "getZeroBit False (mLayersBitmap g) = int z"
    "z < 256" "\<not> is_set (mLayersBitmap g) z" by auto
  then have "z < 264" by simp
  from createLayerId_at [OF assms(1) z(1) this] z(2) obtain m where
    m: "createLayerId False g = Inr (z * 256 + (mLayerSeq g + 1) mod 256,
      \<lparr>mLayersBitmap = m, mLayerSeq = (mLayerSeq g + 1) mod 256\<rparr>)" "length m = 33"
      "\<forall>j. is_set m j \<longleftrightarrow> j = z \<or> is_set (mLayersBitmap g) j" by auto
  have "slot_of (z * 256 + (mLayerSeq g + 1) mod 256) = z" by (simp add: slot_of_def)
  then show ?thesis using m z assms(1) by (auto simp: ids_ok_def)
qed

lemma destroyLayerId_ok:
  assumes "ids_ok ids g" "i \<in> set ids"
  shows "okE (destroyLayerId i g) (ids_ok (remove1 i ids))"
proof -
  have s: "slot_of i < 256" "drop_bit LAYER_SLOT_BITS i = slot_of i"
    using assms by (auto simp: ids_ok_def LAYER_SLOT_BITS_def drop_bit_eq_div slot_of_def)
  then have "slot_of i < 8 * length (mLayersBitmap g)" using assms(1) by (simp add: ids_ok_def)
  from clearBit_result [OF this] obtain m where m: "bits_clearBit (slot_of i) (mLayersBitmap g) = Inr m"
    "length m = length (mLayersBitmap g)"
    "\<forall>j. is_set m j \<longleftrightarrow> j \<noteq> slot_of i \<and> is_set (mLayersBitmap g) j" by blast
  have d: "distinct (map slot_of ids)" using assms by (simp add: ids_ok_def)
  then have ids: "distinct ids" by (simp add: distinct_map)
  have "slot_of ` set (remove1 i ids) = slot_of ` set ids - {slot_of i}"
    using d assms(2) ids by (auto simp: distinct_map inj_on_def)
  moreover have "distinct (map slot_of (remove1 i ids))"
    using d by (simp add: distinct_map inj_on_diff ids)
  ultimately show ?thesis using m s assms ids
    by (auto simp: destroyLayerId_def ids_ok_def)
qed

text \<open>Destroying the layer just made leaves the bit map as it was.\<close>

lemma create_destroy:
  assumes "ids_ok ids g" "length ids < 256"
  shows "okE (createLayerId False g) (\<lambda>(i, g'). okE (destroyLayerId i g') (ids_ok ids))"
  by (rule okE_mono [OF createLayerId_ok [OF assms]]) (use destroyLayerId_ok in force)

section \<open>Reachable generators\<close>

text \<open>A display that never has more than 256 layers, with the ids of its layers.\<close>

inductive ids_reach :: "nat list \<Rightarrow> id_gen \<Rightarrow> bool" where
  start: "ids_reach [] initLayerIdGenerator"
| create: "ids_reach ids g \<Longrightarrow> length ids < 256 \<Longrightarrow> createLayerId False g = Inr (i, g')
    \<Longrightarrow> ids_reach (i # ids) g'"
| destroy: "ids_reach ids g \<Longrightarrow> i \<in> set ids \<Longrightarrow> destroyLayerId i g = Inr g'
    \<Longrightarrow> ids_reach (remove1 i ids) g'"

lemma ids_reach_ok: "ids_reach ids g \<Longrightarrow> ids_ok ids g \<and> (\<forall>i \<in> set ids. i < 65536)"
proof (induction rule: ids_reach.induct)
  case start
  show ?case by (simp add: ids_ok_init)
next
  case (create ids g i g')
  then show ?case using createLayerId_ok [of ids g] by simp
next
  case (destroy ids g i g')
  then have "okE (destroyLayerId i g) (ids_ok (remove1 i ids))" by (intro destroyLayerId_ok) simp_all
  then have "ids_ok (remove1 i ids) g'" using destroy(3) by simp
  then show ?case using destroy.IH set_remove1_subset [of i ids] by blast
qed

lemma bit_map_eq:
  assumes "length m = length m'" and "\<forall>j. is_set m j = is_set m' j"
  shows "m = m'"
proof (rule nth_equalityI [OF assms(1)])
  fix k assume k: "k < length m"
  show "m ! k = m' ! k"
  proof (rule bit_word_eqI)
    fix n assume "n < LENGTH(8)"
    then have "(8 * k + n) div 8 = k" "(8 * k + n) mod 8 = n" by simp_all
    moreover have "is_set m (8 * k + n) = is_set m' (8 * k + n)" using assms(2) by blast
    ultimately show "bit (m ! k) n = bit (m' ! k) n" using k assms(1) by (simp add: is_set_def)
  qed
qed

lemma ids_ok_map: "ids_ok ids g \<Longrightarrow> ids_ok ids h \<Longrightarrow> mLayersBitmap g = mLayersBitmap h"
  by (rule bit_map_eq) (simp_all add: ids_ok_def)

lemma createLayerId_seq:
  "createLayerId False g = Inr (i, g') \<Longrightarrow> mLayerSeq g < 256 \<Longrightarrow> mLayerSeq g' = (mLayerSeq g + 1) mod 256"
  by (auto simp: createLayerId_def Let_def bindE_Inr_iff MAX_HWC_LAYERS_def split: if_splits)

section \<open>More layers than slots\<close>

fun createIds :: "bool \<Rightarrow> nat \<Rightarrow> id_gen \<Rightarrow> fault + (nat list \<times> id_gen)" where
  "createIds signed_char 0 g = Inr ([], g)"
| "createIds signed_char (Suc n) g = bindE (createIds signed_char n g) (\<lambda>(ids, g').
     bindE (createLayerId signed_char g') (\<lambda>(i, g''). Inr (ids @ [i], g'')))"

lemma createIds_slots:
  assumes "n \<le> 256"
  shows "\<exists>m. createIds False n initLayerIdGenerator
      = Inr (map (\<lambda>k. k * 256 + (k + 1) mod 256) [0..<n], \<lparr>mLayersBitmap = m, mLayerSeq = n mod 256\<rparr>)
    \<and> length m = 33 \<and> (\<forall>j. is_set m j \<longleftrightarrow> j < n)"
  using assms
proof (induction n)
  case 0
  then show ?case using ids_ok_init by (auto simp: ids_ok_def initLayerIdGenerator_def)
next
  case (Suc n)
  then obtain m where m: "createIds False n initLayerIdGenerator
      = Inr (map (\<lambda>k. k * 256 + (k + 1) mod 256) [0..<n], \<lparr>mLayersBitmap = m, mLayerSeq = n mod 256\<rparr>)"
    "length m = 33" "\<forall>j. is_set m j \<longleftrightarrow> j < n" by auto
  let ?g = "\<lparr>mLayersBitmap = m, mLayerSeq = n mod 256\<rparr>"
  have ok: "ids_ok (map (\<lambda>k. k * 256) [0..<n]) ?g"
    using m Suc.prems by (auto simp: ids_ok_def slot_of_def comp_def image_image)
  have "n < 8 * length m" "\<not> is_set m n" using m Suc.prems by auto
  from getZeroBit_first [OF this] m(3) have z: "getZeroBit False (mLayersBitmap ?g) = int n"
    by (metis id_gen.select_convs(1) le_neq_implies_less)
  from createLayerId_at [OF ok this] Suc.prems m(3) show ?case
    by (auto simp: m(1) mod_Suc_eq less_Suc_eq)
qed

text \<open>A signed \<open>char\<close> is never equal to 0xFF.\<close>

lemma full_signed: "zeroBitOf True 0xFF = 7"
proof -
  have m: "(0xFF :: 8 word) = - 1" by simp
  have "signed_drop_bit n (- 1 :: 8 word) = - 1" for n
    by (rule bit_word_eqI) (simp add: bit_simps)
  then show ?thesis unfolding zeroBitOf_def char_shr_def m by simp
qed
lemma signed_full_byte:
  "okE (createLayerId True \<lparr>mLayersBitmap = 0xFF # m, mLayerSeq = q\<rparr>)
     (\<lambda>(i, g). slot_of i = 7 \<and> mLayersBitmap g = 0xFF # m)"
proof -
  have "getZeroBit True (0xFF # m) = 7" by (simp add: getZeroBit_def full_signed)
  moreover have "bits_setBit 7 (0xFF # m) = Inr (0xFF # m)"
    by (simp add: bits_setBit_def idx_simps nthE_def)
  moreover have "push_bit LAYER_SLOT_BITS (7 AND (MAX_HWC_LAYERS - 1)) OR (q + 1) mod MAX_HWC_LAYERS
      = 7 * 256 + (q + 1) mod 256"
    using id_parts [of 7 "(q + 1) mod 256"] by (simp add: MAX_HWC_LAYERS_def)
  ultimately show ?thesis by (simp add: createLayerId_def slot_of_def Let_def)
qed
section \<open>The properties\<close>

text \<open>C37
  While a display has at most 256 layers, every layer has an id of 16 bits and a slot of its own:
  the next layer gets one that no other has, and every layer can be destroyed.
\<close>

theorem layer_ids_distinct:
  assumes "ids_reach ids g"
  shows "distinct (map slot_of ids) \<and> (\<forall>i \<in> set ids. i < 65536 \<and> okE (destroyLayerId i g) (ids_ok (remove1 i ids)))
    \<and> (length ids < 256 \<longrightarrow> okE (createLayerId False g) (\<lambda>(i, g'). i < 65536 \<and> slot_of i \<notin> slot_of ` set ids))"
proof -
  have ok: "ids_ok ids g" "\<forall>i \<in> set ids. i < 65536" using ids_reach_ok [OF assms] by simp_all
  moreover have "distinct (map slot_of ids)" using ok by (simp add: ids_ok_def)
  moreover have "okE (createLayerId False g) (\<lambda>(i, g'). i < 65536 \<and> slot_of i \<notin> slot_of ` set ids)"
    if "length ids < 256"
    by (rule okE_mono [OF createLayerId_ok [OF ok(1) that]]) auto
  ultimately show ?thesis using destroyLayerId_ok by blast
qed

theorem layer_ids_distinct_witness:
  "distinct (map slot_of []) \<and> okE (createLayerId False initLayerIdGenerator) (\<lambda>(i, g'). i < 65536)"
proof -
  have "okE (createLayerId False initLayerIdGenerator) (\<lambda>(i, g'). i < 65536 \<and> slot_of i \<notin> slot_of ` set [])"
    using layer_ids_distinct [OF ids_reach.start] by simp
  then show ?thesis by simp
qed

text \<open>C38
  Destroying the layer just made gives the bit map back as it was, and the next layer gets the same
  slot with another id, which is what the sequence number in the id is for.
\<close>

theorem layer_id_roundtrip:
  assumes "ids_reach ids g" and "length ids < 256"
  shows "okE (createLayerId False g) (\<lambda>(i, g1). okE (destroyLayerId i g1) (\<lambda>g2.
    mLayersBitmap g2 = mLayersBitmap g
    \<and> okE (createLayerId False g2) (\<lambda>(j, g3). slot_of j = slot_of i \<and> j \<noteq> i)))"
proof -
  have ok: "ids_ok ids g" using ids_reach_ok [OF assms(1)] by simp
  from createLayerId_ok [OF ok assms(2)] obtain i g1 where c1: "createLayerId False g = Inr (i, g1)"
    and ok1: "ids_ok (i # ids) g1" by (auto simp: okE_iff)
  from destroyLayerId_ok [OF ok1, of i] obtain g2 where d: "destroyLayerId i g1 = Inr g2" and ok2: "ids_ok ids g2"
    by (auto simp: okE_iff)
  from createLayerId_ok [OF ok2 assms(2)] obtain j g3 where c2: "createLayerId False g2 = Inr (j, g3)"
    by (auto simp: okE_iff)
  have same: "mLayersBitmap g2 = mLayersBitmap g" by (rule ids_ok_map [OF ok2 ok])
  have seq: "mLayerSeq g < 256" "mLayerSeq g2 = mLayerSeq g1" "mLayerSeq g1 = (mLayerSeq g + 1) mod 256"
    using ok d createLayerId_seq [OF c1]
    by (auto simp: ids_ok_def destroyLayerId_def bindE_Inr_iff)
  from free_slot [OF ok assms(2)] obtain k where k: "k < 256" "\<not> is_set (mLayersBitmap g) k" by blast
  then have "k < 8 * length (mLayersBitmap g)" using ok by (simp add: ids_ok_def)
  from getZeroBit_first [OF this k(2)] k(1) obtain z where z: "getZeroBit False (mLayersBitmap g) = int z" "z < 256"
    by auto
  have z2: "getZeroBit False (mLayersBitmap g2) = int z" by (simp only: same z(1))
  have i: "i = z * 256 + mLayerSeq g1"
    using createLayerId_first [OF ok z] c1 seq(3) by simp
  have j: "j = z * 256 + (mLayerSeq g1 + 1) mod 256"
    using createLayerId_first [OF ok2 z2 z(2)] c2 seq(2) by simp
  have "mLayerSeq g1 < 256" by (simp add: seq(3))
  then have "slot_of j = slot_of i" by (simp add: i j slot_of_def)
  moreover have "j \<noteq> i" using next_seq [of "mLayerSeq g1"] by (simp add: i j)
  ultimately show ?thesis using c1 d c2 same by simp
qed

theorem layer_id_roundtrip_witness:
  "okE (createLayerId False initLayerIdGenerator) (\<lambda>(i, g1). okE (destroyLayerId i g1) (\<lambda>g2.
    mLayersBitmap g2 = mLayersBitmap initLayerIdGenerator
    \<and> okE (createLayerId False g2) (\<lambda>(j, g3). slot_of j = slot_of i \<and> j \<noteq> i)))"
  by (rule layer_id_roundtrip [OF ids_reach.start]) simp

text \<open>C39
  The bit map has a 33rd byte for its 256 bits, so the 257th layer is not refused: it gets slot 0
  and the very id of the first layer. Where \<open>char\<close> is signed, a full byte is never recognised, and
  every layer after the eighth gets the slot of the eighth.
\<close>

theorem layer_ids_run_out:
  "okE (createIds False 257 initLayerIdGenerator) (\<lambda>(ids, g). length ids = 257 \<and> ids ! 256 = ids ! 0)
   \<and> (\<forall>m q. okE (createLayerId True \<lparr>mLayersBitmap = 0xFF # m, mLayerSeq = q\<rparr>)
     (\<lambda>(i, g). slot_of i = 7 \<and> mLayersBitmap g = 0xFF # m))"
proof
  obtain m where m: "createIds False 256 initLayerIdGenerator
      = Inr (map (\<lambda>k. k * 256 + (k + 1) mod 256) [0..<256], \<lparr>mLayersBitmap = m, mLayerSeq = 256 mod 256\<rparr>)"
    "length m = 33" "\<forall>j. is_set m j \<longleftrightarrow> j < 256" using createIds_slots [of 256] by auto
  let ?g = "\<lparr>mLayersBitmap = m, mLayerSeq = 256 mod 256\<rparr>"
  have ok: "ids_ok (map (\<lambda>k. k * 256) [0..<256]) ?g"
    using m by (auto simp: ids_ok_def slot_of_def comp_def image_image)
  have "256 < 8 * length m" "\<not> is_set m 256" using m by auto
  from getZeroBit_first [OF this] m(3) have "getZeroBit False (mLayersBitmap ?g) = int 256"
    by (metis id_gen.select_convs(1) le_neq_implies_less)
  from createLayerId_at [OF ok this] obtain n where
    "createLayerId False ?g = Inr (1, \<lparr>mLayersBitmap = n, mLayerSeq = 1\<rparr>)" by auto
  then have "createIds False (Suc 256) initLayerIdGenerator
      = Inr (map (\<lambda>k. k * 256 + (k + 1) mod 256) [0..<256] @ [1], \<lparr>mLayersBitmap = n, mLayerSeq = 1\<rparr>)"
    by (simp only: createIds.simps m(1) bindE_simps prod.case)
  then show "okE (createIds False 257 initLayerIdGenerator) (\<lambda>(ids, g). length ids = 257 \<and> ids ! 256 = ids ! 0)"
    by (simp add: nth_append)
  show "\<forall>m q. okE (createLayerId True \<lparr>mLayersBitmap = 0xFF # m, mLayerSeq = q\<rparr>)
     (\<lambda>(i, g). slot_of i = 7 \<and> mLayersBitmap g = 0xFF # m)"
    using signed_full_byte by blast
qed

end
