(* ===== verification/PowerMode.thy ===== *)
theory PowerMode
  imports VtModel
begin

text \<open>
  When a display is blanked: \<open>HwcPowerMode\<close> (src/common/hwc/HwcPowerMode.cpp and .h).

  The mode starts as \<open>MESON_POWER_BOOT\<close> and leaves it with the first frame that is shown; from
  then on it follows the connector. The \<open>HWC2_POWER_MODE\<close> values are those of
  hardware/hwcomposer2.h, which is not in the repository: \<open>power_consts\<close> holds them.
\<close>

datatype meson_power_mode = MESON_POWER_BOOT | MESON_POWER_CONNECTOR_IN | MESON_POWER_CONNECTOR_OUT

record power_consts =
  HWC2_POWER_MODE_OFF :: int
  HWC2_POWER_MODE_ON :: int
  HWC2_POWER_MODE_DOZE :: int
  HWC2_POWER_MODE_DOZE_SUSPEND :: int

record hwc_power_mode =
  mScreenBlank :: bool
  mConnectorPresent :: bool
  mConnectorMode :: meson_power_mode
  mPowerMode :: int

definition power_init :: "power_consts \<Rightarrow> hwc_power_mode" where
  "power_init p = \<lparr>mScreenBlank = True, mConnectorPresent = False,
     mConnectorMode = MESON_POWER_BOOT, mPowerMode = HWC2_POWER_MODE_ON p\<rparr>"

definition setScreenStatus :: "bool \<Rightarrow> hwc_power_mode \<Rightarrow> hwc_power_mode" where
  "setScreenStatus bBlank s =
     (let s1 = s\<lparr>mScreenBlank := bBlank\<rparr> in
      if mConnectorMode s1 = MESON_POWER_BOOT \<and> \<not> mScreenBlank s1
      then s1\<lparr>mConnectorMode := (if mConnectorPresent s1 then MESON_POWER_CONNECTOR_IN
                                 else MESON_POWER_CONNECTOR_OUT)\<rparr>
      else s1)"

definition getScreenStatus :: "hwc_power_mode \<Rightarrow> bool" where
  "getScreenStatus s = mScreenBlank s"

definition setConnectorStatus :: "bool \<Rightarrow> hwc_power_mode \<Rightarrow> hwc_power_mode" where
  "setConnectorStatus bConnected s =
     (if mConnectorMode s \<noteq> MESON_POWER_BOOT \<and> mConnectorPresent s \<noteq> bConnected
      then s\<lparr>mConnectorMode := (if bConnected then MESON_POWER_CONNECTOR_IN
                                else MESON_POWER_CONNECTOR_OUT)\<rparr>
      else s)\<lparr>mConnectorPresent := bConnected\<rparr>"

definition power_setPowerMode :: "power_consts \<Rightarrow> int \<Rightarrow> hwc_power_mode
    \<Rightarrow> hwc2_error_t \<times> hwc_power_mode" where
  "power_setPowerMode p mode s =
     (if mode = HWC2_POWER_MODE_ON p \<or> mode = HWC2_POWER_MODE_OFF p then HWC2_ERROR_NONE
      else if mode = HWC2_POWER_MODE_DOZE p \<or> mode = HWC2_POWER_MODE_DOZE_SUSPEND p
      then HWC2_ERROR_UNSUPPORTED
      else HWC2_ERROR_BAD_PARAMETER,
      s\<lparr>mPowerMode := mode\<rparr>)"

definition needBlankScreen :: "power_consts \<Rightarrow> bool \<Rightarrow> hwc_power_mode \<Rightarrow> bool" where
  "needBlankScreen p bLayerPresent s =
     (let powerOn = (mPowerMode s = HWC2_POWER_MODE_ON p) in
      case mConnectorMode s of
        MESON_POWER_BOOT \<Rightarrow> \<not> (mConnectorPresent s \<and> bLayerPresent)
      | MESON_POWER_CONNECTOR_IN \<Rightarrow> \<not> powerOn \<or> \<not> bLayerPresent
      | MESON_POWER_CONNECTOR_OUT \<Rightarrow> True)"

definition getConnectorMode :: "hwc_power_mode \<Rightarrow> meson_power_mode" where
  "getConnectorMode s = mConnectorMode s"

section \<open>The state machine\<close>

text \<open>The calls of a display, and what they keep.\<close>

inductive power_step :: "power_consts \<Rightarrow> hwc_power_mode \<Rightarrow> hwc_power_mode \<Rightarrow> bool" for p where
  screen: "power_step p s (setScreenStatus b s)"
| connector: "power_step p s (setConnectorStatus b s)"
| power: "power_step p s (snd (power_setPowerMode p m s))"

definition power_ok :: "hwc_power_mode \<Rightarrow> bool" where
  "power_ok s \<longleftrightarrow> (case mConnectorMode s of
       MESON_POWER_BOOT \<Rightarrow> mScreenBlank s
     | MESON_POWER_CONNECTOR_IN \<Rightarrow> mConnectorPresent s
     | MESON_POWER_CONNECTOR_OUT \<Rightarrow> \<not> mConnectorPresent s)"

lemmas power_defs = setScreenStatus_def setConnectorStatus_def power_setPowerMode_def power_ok_def

lemma power_step_ok: "power_step p s t \<Longrightarrow> power_ok s \<Longrightarrow> power_ok t"
  by (induction rule: power_step.induct)
    (auto simp: power_defs Let_def split: meson_power_mode.splits if_splits)

lemma power_step_boot:
  "power_step p s t \<Longrightarrow> mConnectorMode s \<noteq> MESON_POWER_BOOT \<Longrightarrow> mConnectorMode t \<noteq> MESON_POWER_BOOT"
  by (induction rule: power_step.induct) (auto simp: power_defs Let_def)

lemma power_init_ok: "power_ok (power_init p)"
  by (simp add: power_ok_def power_init_def)

text \<open>In a reachable state the screen is blanked unless a connector is there and something to show.\<close>

lemma need_blank:
  assumes "power_ok s"
  shows "\<not> needBlankScreen p present s \<longleftrightarrow> mConnectorPresent s \<and> present
     \<and> (mConnectorMode s = MESON_POWER_BOOT \<or> mPowerMode s = HWC2_POWER_MODE_ON p)"
  using assms by (auto simp: needBlankScreen_def power_ok_def Let_def split: meson_power_mode.splits)

section \<open>The property\<close>

lemma power_reach_ok: "(power_step p)\<^sup>*\<^sup>* (power_init p) s \<Longrightarrow> power_ok s"
  by (induction rule: rtranclp_induct) (auto intro: power_init_ok power_step_ok)

lemma power_reach_boot:
  "(power_step p)\<^sup>*\<^sup>* s t \<Longrightarrow> mConnectorMode s \<noteq> MESON_POWER_BOOT \<Longrightarrow> mConnectorMode t \<noteq> MESON_POWER_BOOT"
  by (induction rule: rtranclp_induct) (use power_step_boot in blast)+

text \<open>C40
  In every state a display can reach, the screen is shown exactly when a connector is there, there is
  something to show, and the display is powered on, which does not count while the mode is still that
  of the boot. While it is, nothing has been shown yet, and the first screen that is shown ends the
  boot mode for good.
\<close>

theorem screen_policy:
  assumes "(power_step p)\<^sup>*\<^sup>* (power_init p) s"
  shows "(\<not> needBlankScreen p present s \<longleftrightarrow> mConnectorPresent s \<and> present
      \<and> (mConnectorMode s = MESON_POWER_BOOT \<or> mPowerMode s = HWC2_POWER_MODE_ON p))
    \<and> (mConnectorMode s = MESON_POWER_BOOT \<longrightarrow> getScreenStatus s)
    \<and> (\<forall>t. (power_step p)\<^sup>*\<^sup>* (setScreenStatus False s) t \<longrightarrow> mConnectorMode t \<noteq> MESON_POWER_BOOT)"
proof -
  have ok: "power_ok s" by (rule power_reach_ok [OF assms])
  have "mConnectorMode (setScreenStatus False s) \<noteq> MESON_POWER_BOOT"
    by (simp add: setScreenStatus_def Let_def)
  with need_blank [OF ok] ok power_reach_boot show ?thesis
    by (auto simp: power_ok_def getScreenStatus_def)
qed

definition demo_power :: power_consts where
  "demo_power = \<lparr>HWC2_POWER_MODE_OFF = 0, HWC2_POWER_MODE_ON = 2,
     HWC2_POWER_MODE_DOZE = 1, HWC2_POWER_MODE_DOZE_SUSPEND = 3\<rparr>"

theorem screen_policy_witness:
  "\<not> needBlankScreen demo_power True (setScreenStatus False (setConnectorStatus True (power_init demo_power)))"
proof -
  let ?c = "setConnectorStatus True (power_init demo_power)"
  let ?s = "setScreenStatus False ?c"
  have "power_step demo_power (power_init demo_power) ?c" "power_step demo_power ?c ?s"
    by (rule power_step.connector, rule power_step.screen)
  then have "(power_step demo_power)\<^sup>*\<^sup>* (power_init demo_power) ?s" by simp
  from screen_policy [OF this, of True] show ?thesis
    by (simp add: setScreenStatus_def setConnectorStatus_def power_init_def)
qed

end
