(* ===== verification/DisplayModel.thy ===== *)
theory DisplayModel
  imports MultiplanesDi VtSetters LayerIds PowerMode "HOL-Library.AList" "HOL-Library.Multiset"
begin

text \<open>
  The state of a display (src/hwc2/Hwc2Display.cpp and .h) and its layers.

  A \<open>std::shared_ptr<Hwc2Layer>\<close> is an address into \<open>layer_heap\<close>. A layer is a framebuffer, so the
  composition strategy sees the same object: \<open>layer_fb\<close> is the part of it a strategy reads, and
  \<open>with_stg\<close> runs a member function of a strategy on the shared framebuffers and composers and takes
  over what it wrote to them. One call of a strategy on a layer is not run on the layer here: during
  \<open>commit\<close> and \<open>commitTunnelVideo\<close> \<open>interruptVtProcess\<close>, which may release buffers of the
  layer's tunnel, is an answer of the strategy's platform and leaves the layer as it is (on a layer
  by itself it is \<open>vt_interruptVtProcess\<close>). The display calls its strategy through \<open>ICompositionStrategy\<close> only:
  \<open>stg_ops\<close> holds the virtual functions.

  \<open>std::unordered_map\<close> iterates in an order of its own, which an insertion may change:
  \<open>bucket_order\<close>. \<open>std::sort\<close> leaves the order of equal elements open: \<open>std_sort\<close>. Every call that
  leaves the display is appended to \<open>disp_log\<close>, \<open>disp_answer\<close> says what it returns.
\<close>

section \<open>The outside\<close>

datatype disp_event =
    CloseLogoDisplay
  | RemoveDebugLayer nat
  | PrepareClientComposer
  | SetClientOutput "fbid option"
  | StrategySetup "fbid list" u32
  | StrategyDecide
  | StrategyUpdate
  | StrategyCommit
  | StrategyCommitTunnel
  | StrategyReleaseFence int
  | PrePageFlip
  | BlankPlane nat
  | ClearPlaneResources nat
  | PlaneDisplayMode nat
  | SetHdrMetadata "(int \<times> rat) list"
  | PageFlip
  | FencePageFlip
  | WaitFence int
  | DupFence int
  | CloseFence int
  | PostProcessorPresent u32 int
  | FrameRateDisplay bool drm_rect
  | CrtcSetMode string
  | GetDisplayMode
  | NotifyPlugIn
  | ResetTags
  | VsyncEnabled bool
  | VsyncObserver nat bool
  | VsyncMixMode
  | VsyncSoftwareMode
  | VsyncHwMode
  | VtVsyncEnabled bool
  | MakeVtDisplayThread
  | SetVsyncInfo int int
  | SetColorTransform bool
  | UpdateModes
  | ObserverRefreshDisplay
  | ObserverVsync int int
  | ObserverHotplug bool
  | ModePolicyHotplug bool
  | ModeMgrNeedHotplug
  | HdrCapsChanged

record disp_env =
  vtp :: vt_platform
  powerc :: power_consts
  signed_char :: bool
  bucket_order :: "(nat \<times> nat) list \<Rightarrow> (nat \<times> nat) list"
  std_sort :: "(nat \<Rightarrow> u32) \<Rightarrow> nat list \<Rightarrow> nat list"
  disp_answer :: "disp_event list \<Rightarrow> int"
  vsync_period :: "disp_event list \<Rightarrow> int option"
  HWC2_COMPOSITION_CLIENT :: int
  HWC2_COMPOSITION_DEVICE :: int
  HWC2_COMPOSITION_SOLID_COLOR :: int
  HWC2_COMPOSITION_SIDEBAND :: int
  HWC3_POWER_MODE_SUSPEND :: int
  HWC2_VSYNC_ENABLE :: int
  HWC2_VSYNC_DISABLE :: int
  debug_disableUiHwc :: bool
  debug_hideLayers :: "nat list"
  debug_disableRefresh :: bool
  debug_hide :: bool
  debug_monitorDevice :: bool
  debug_threshold :: nat
  isHeadlessMode :: bool
  secureLayerProcessEnabled :: bool
  softwareVsyncEnabled :: bool
  primaryHotplugEnabled :: bool
  getDisplayNum :: nat
  connector_isSecure :: bool
  connector_hdmi :: bool
  connector_tv :: bool
  connector_virtual :: bool
  HWC_DISPLAY_PRIMARY :: nat
  HAL_COLOR_TRANSFORM_IDENTITY :: int
  vmx_property :: bool
  plane_8k :: "hw_display_plane \<Rightarrow> bool"
  new_mode :: "disp_event list \<Rightarrow> drm_mode_info \<times> string"
  scale_of :: "u32 \<Rightarrow> rat"
  content_types :: "disp_event list \<Rightarrow> nat list"
  active_width :: "disp_event list \<Rightarrow> int option"
  active_height :: "disp_event list \<Rightarrow> int option"

text \<open>
  \<open>debug_*\<close> is what \<open>DebugHelper\<close> answers; in a build without debugging no flag is set. What the
  laws of the standard library say of \<open>bucket_order\<close> and \<open>std_sort\<close>:
\<close>

definition env_ok :: "disp_env \<Rightarrow> bool" where
  "env_ok e \<longleftrightarrow> (\<forall>m. mset (bucket_order e m) = mset m)
     \<and> (\<forall>key xs. mset (std_sort e key xs) = mset xs
          \<and> sorted_wrt (\<lambda>a b. \<not> key a < key b) (std_sort e key xs))"

section \<open>The strategy as the display sees it\<close>

record 's stg_ops =
  stg_install :: "(fbid \<Rightarrow> drm_framebuffer) \<Rightarrow> (cid \<Rightarrow> composer) \<Rightarrow> nat \<Rightarrow> 's \<Rightarrow> 's"
  stg_fbs :: "'s \<Rightarrow> fbid \<Rightarrow> drm_framebuffer"
  stg_composers :: "'s \<Rightarrow> cid \<Rightarrow> composer"
  stg_next :: "'s \<Rightarrow> nat"
  stg_setup :: "fbid list \<Rightarrow> cid list \<Rightarrow> hw_display_plane list \<Rightarrow> nat option \<Rightarrow> u32 \<Rightarrow> rat
     \<Rightarrow> drm_mode_info \<Rightarrow> 's \<Rightarrow> fault + 's"
  stg_decide :: "'s \<Rightarrow> fault + int \<times> 's"
  stg_update :: "'s \<Rightarrow> 's"
  stg_commit :: "'s \<Rightarrow> fault + int \<times> 's"
  stg_commitTunnelVideo :: "'s \<Rightarrow> fault + int \<times> 's"
  stg_setReleaseFence :: "int \<Rightarrow> 's \<Rightarrow> 's"
  stg_create :: "u32 \<Rightarrow> 's"

section \<open>The display\<close>

datatype meson_composer_t =
    MESON_CLIENT_COMPOSER
  | MESON_DUMMY_COMPOSER
  | MESON_GE2D_COMPOSER
  | MESON_DI_COMPOSER

record 's hwc2_display =
  mDisplayIdx :: nat
  layer_heap :: "nat \<Rightarrow> hwc2_layer"
  fb_heap :: "fbid \<Rightarrow> drm_framebuffer"
  composer_heap :: "cid \<Rightarrow> composer"
  objs_made :: nat
  stg_heap :: "nat \<Rightarrow> 's"
  stgs_made :: nat
  mLayers :: "(nat \<times> nat) list"
  layer_gen :: id_gen
  mDisplayCrtc :: "nat option"
  mPlanes :: "hw_display_plane list"
  mComposers :: "(meson_composer_t \<times> cid) list"
  mCompositionStrategy :: "nat option"
  mFailedDeviceComp :: bool
  mPresentLayers :: "nat list"
  mPresentComposers :: "cid list"
  mPresentPlanes :: "hw_display_plane list"
  mPresentCompositionStg :: "nat option"
  mChangedLayers :: "nat list"
  mOverlayLayers :: "nat list"
  mClientTarget :: "fbid option"
  mForceClient :: bool
  mHwcPowerMode :: hwc_power_mode
  mSkipComposition :: bool
  mConfirmSkip :: bool
  mSignalHpd :: bool
  mValidateDisplay :: bool
  mPresentFence :: int
  mDisplayMode :: drm_mode_info
  mModeName :: string
  mDispCalibrateInfo :: display_zoom_info
  mCalibrateCoordinates :: "int \<times> int \<times> int \<times> int"
  mConfigWidth :: int
  mConfigHeight :: int
  mPostProcessor :: bool
  mProcessorFlags :: u32
  mDispScaleValue :: rat
  mVsync :: "nat option"
  mVsyncState :: bool
  mVtVsync :: "nat option"
  mWBVsync :: "nat option"
  mVtVsyncStatus :: bool
  mVtDisplayThread :: bool
  mVsyncTimestamp :: int
  mFRPeriodNanos :: int
  mHasVideoPresent :: bool
  mOutsideChanged :: bool
  mFirstPresent :: bool
  mDisableSideband :: bool
  mIsDisablePost :: bool
  mVideoLayerRegion :: int
  mWhiteBoard :: bool
  mHideVideo :: bool
  mAidlService :: bool
  mModePolicy :: bool
  mNeedChangeModelist :: bool
  mSupportedContentTypes :: "nat list"
  disp_log :: "disp_event list"

text \<open>The constructor. The layers and framebuffers of the heap that were not made yet do not matter.\<close>

definition display_new :: "disp_env \<Rightarrow> nat \<Rightarrow> (nat \<Rightarrow> hwc2_layer) \<Rightarrow> (fbid \<Rightarrow> drm_framebuffer)
    \<Rightarrow> (cid \<Rightarrow> composer) \<Rightarrow> (nat \<Rightarrow> 's) \<Rightarrow> 's hwc2_display" where
  "display_new e i ls fs cs stgs =
     \<lparr>mDisplayIdx = i, layer_heap = ls, fb_heap = fs, composer_heap = cs, objs_made = 0,
      stg_heap = stgs, stgs_made = 0, mLayers = [], layer_gen = \<lparr>mLayersBitmap = [], mLayerSeq = 0\<rparr>,
      mDisplayCrtc = None, mPlanes = [], mComposers = [], mCompositionStrategy = None,
      mFailedDeviceComp = False, mPresentLayers = [], mPresentComposers = [], mPresentPlanes = [],
      mPresentCompositionStg = None, mChangedLayers = [], mOverlayLayers = [], mClientTarget = None,
      mForceClient = False, mHwcPowerMode = power_init (powerc e), mSkipComposition = False,
      mConfirmSkip = False, mSignalHpd = False, mValidateDisplay = False, mPresentFence = - 1,
      mDisplayMode = \<lparr>pixelW = 0, pixelH = 0, refreshRate = 0\<rparr>, mModeName = [],
      mDispCalibrateInfo = zero_zoom, mCalibrateCoordinates = (0, 0, 0, 0), mConfigWidth = 0,
      mConfigHeight = 0, mPostProcessor = False, mProcessorFlags = 0, mDispScaleValue = 1,
      mVsync = None, mVsyncState = False, mVtVsync = None, mWBVsync = None, mVtVsyncStatus = False,
      mVtDisplayThread = False, mVsyncTimestamp = 0, mFRPeriodNanos = 0, mHasVideoPresent = False,
      mOutsideChanged = False, mFirstPresent = True, mDisableSideband = False, mIsDisablePost = False,
      mVideoLayerRegion = 0, mWhiteBoard = False, mHideVideo = False, mAidlService = False,
      mModePolicy = False, mNeedChangeModelist = False, mSupportedContentTypes = [], disp_log = []\<rparr>"

definition disp_emit :: "disp_event \<Rightarrow> 's hwc2_display \<Rightarrow> 's hwc2_display" where
  "disp_emit ev d = d\<lparr>disp_log := disp_log d @ [ev]\<rparr>"

definition disp_ask :: "disp_env \<Rightarrow> disp_event \<Rightarrow> 's hwc2_display \<Rightarrow> int \<times> 's hwc2_display" where
  "disp_ask e ev d = (let d1 = disp_emit ev d in (disp_answer e (disp_log d1), d1))"

text \<open>The layers the display holds, in the order the map iterates, and all it has a reference to.\<close>

definition layer_objs :: "'s hwc2_display \<Rightarrow> nat list" where
  "layer_objs d = map snd (mLayers d)"

definition live :: "'s hwc2_display \<Rightarrow> nat set" where
  "live d = set (layer_objs d) \<union> set (mPresentLayers d)"

definition upd_layer :: "nat \<Rightarrow> (hwc2_layer \<Rightarrow> hwc2_layer) \<Rightarrow> 's hwc2_display \<Rightarrow> 's hwc2_display" where
  "upd_layer a f d = d\<lparr>layer_heap := (layer_heap d)(a := f (layer_heap d a))\<rparr>"

definition upd_layerE :: "nat \<Rightarrow> (hwc2_layer \<Rightarrow> fault + hwc2_layer) \<Rightarrow> 's hwc2_display
    \<Rightarrow> fault + 's hwc2_display" where
  "upd_layerE a f d = bindE (f (layer_heap d a)) (\<lambda>l. Inr (upd_layer a (\<lambda>_. l) d))"

section \<open>The framebuffers the display and its strategy share\<close>

definition shown_fd :: "drm_fence option \<Rightarrow> int" where
  "shown_fd f = (case f of None \<Rightarrow> - 1 | Some x \<Rightarrow> fence_fd x)"

definition layer_fb :: "hwc2_layer \<Rightarrow> drm_framebuffer" where
  "layer_fb l =
     \<lparr>drm_framebuffer.mBufferHandle = fb_object.mBufferHandle l,
      mFbType = fb_object.mFbType l,
      mSourceCrop = fb_object.mSourceCrop l,
      mDisplayFrame = fb_object.mDisplayFrame l,
      mTransform = fb_object.mTransform l,
      mZorder = fb_object.mZorder l,
      mSecure = fb_object.mSecure l,
      mFbHandleUpdated = fb_object.mFbHandleUpdated l,
      mCompositionType = fb_object.mCompositionType l,
      mId = fb_object.mId l,
      mCurReleaseFence = shown_fd (fb_object.mCurReleaseFence l),
      mPrevReleaseFence = shown_fd (fb_object.mPrevReleaseFence l),
      mBufferState = MODE_BACK,
      videoType = mAMVideoType l,
      isVtBuffer = isVtBufferLocked l,
      haveValidBuffer = vt_haveValidBuffer l\<rparr>"

definition read_fence :: "int \<Rightarrow> drm_fence option \<Rightarrow> drm_fence option" where
  "read_fence fd f = (if fd = shown_fd f then f else Some (Fence fd))"

text \<open>
  What a strategy writes to a layer: the composition type and the two fences. The buffers that
  \<open>interruptVtProcess\<close> releases are not among it, see above.
\<close>

definition read_fb :: "drm_framebuffer \<Rightarrow> hwc2_layer \<Rightarrow> hwc2_layer" where
  "read_fb f l = l\<lparr>fb_object.mCompositionType := drm_framebuffer.mCompositionType f,
     fb_object.mCurReleaseFence := read_fence (drm_framebuffer.mCurReleaseFence f) (fb_object.mCurReleaseFence l),
     fb_object.mPrevReleaseFence := read_fence (drm_framebuffer.mPrevReleaseFence f) (fb_object.mPrevReleaseFence l)\<rparr>"

definition shared_fbs :: "'s hwc2_display \<Rightarrow> fbid \<Rightarrow> drm_framebuffer" where
  "shared_fbs d a = (if a \<in> live d then layer_fb (layer_heap d a) else fb_heap d a)"

definition install :: "'s stg_ops \<Rightarrow> nat \<Rightarrow> 's hwc2_display \<Rightarrow> 's" where
  "install g k d = stg_install g (shared_fbs d) (composer_heap d) (objs_made d) (stg_heap d k)"

definition read_back :: "'s stg_ops \<Rightarrow> nat \<Rightarrow> 's \<Rightarrow> 's hwc2_display \<Rightarrow> 's hwc2_display" where
  "read_back g k s d = d\<lparr>
     stg_heap := (stg_heap d)(k := s),
     fb_heap := stg_fbs g s,
     composer_heap := stg_composers g s,
     objs_made := max (objs_made d) (stg_next g s),
     layer_heap := (\<lambda>a. if a \<in> live d then read_fb (stg_fbs g s a) (layer_heap d a) else layer_heap d a)\<rparr>"

definition with_stg :: "'s stg_ops \<Rightarrow> nat \<Rightarrow> ('s \<Rightarrow> fault + 'r \<times> 's) \<Rightarrow> 's hwc2_display
    \<Rightarrow> fault + 'r \<times> 's hwc2_display" where
  "with_stg g k f d = bindE (f (install g k d)) (\<lambda>(r, s). Inr (r, read_back g k s d))"

section \<open>Layers\<close>

text \<open>\<open>mesonComp2Hwc2Comp\<close> of src/hwc2/Hwc2Base.cpp: what the strategy chose, in the terms of HWC2.\<close>

definition mesonComp2Hwc2Comp :: "disp_env \<Rightarrow> hwc2_layer \<Rightarrow> int" where
  "mesonComp2Hwc2Comp e l =
     (let rest = (if fb_object.mFbType l = DRM_FB_COLOR then HWC2_COMPOSITION_SOLID_COLOR e
                  else HWC2_COMPOSITION_DEVICE e) in
      case fb_object.mCompositionType l of
        MESON_COMPOSITION_CLIENT \<Rightarrow> HWC2_COMPOSITION_CLIENT e
      | MESON_COMPOSITION_PLANE_CURSOR \<Rightarrow> HWC2_COMPOSITION_CURSOR (vtp e)
      | MESON_COMPOSITION_PLANE_AMVIDEO_SIDEBAND \<Rightarrow> HWC2_COMPOSITION_SIDEBAND e
      | MESON_COMPOSITION_PLANE_HWCVIDEO \<Rightarrow>
          (if fb_object.mFbType l = DRM_FB_VIDEO_SIDEBAND
              \<or> fb_object.mFbType l = DRM_FB_VIDEO_SIDEBAND_TV
              \<or> fb_object.mFbType l = DRM_FB_VIDEO_TUNNEL_SIDEBAND
           then HWC2_COMPOSITION_SIDEBAND e else rest)
      | _ \<Rightarrow> rest)"

definition layers_find :: "nat \<Rightarrow> 's hwc2_display \<Rightarrow> nat option" where
  "layers_find i d = map_of (mLayers d) i"

definition layers_emplace :: "disp_env \<Rightarrow> nat \<Rightarrow> nat \<Rightarrow> 's hwc2_display \<Rightarrow> 's hwc2_display" where
  "layers_emplace e i a d =
     (case layers_find i d of
        Some b \<Rightarrow> d
      | None \<Rightarrow> d\<lparr>mLayers := bucket_order e ((i, a) # mLayers d)\<rparr>)"

text \<open>An id is written to a \<open>uint32_t\<close> on its way; it has 16 bits.\<close>

definition createLayer :: "disp_env \<Rightarrow> 's hwc2_display \<Rightarrow> fault + nat \<times> 's hwc2_display" where
  "createLayer e d =
     (let a = objs_made d; l = hwc2_layer_init (vtp e) (mDisplayIdx d) in
      bindE (createLayerId (signed_char e) (layer_gen d)) (\<lambda>(i, gen).
        Inr (i, layers_emplace e i a (d\<lparr>objs_made := Suc a, layer_gen := gen,
          layer_heap := (layer_heap d)(a := l\<lparr>fb_object.mId := i\<rparr>)\<rparr>))))"

definition getLayerById :: "nat \<Rightarrow> 's hwc2_display \<Rightarrow> nat option" where
  "getLayerById i d = layers_find i d"

section \<open>The video tunnel thread follows the layers\<close>

definition handleVtThreadLocked :: "'s hwc2_display \<Rightarrow> fault + 's hwc2_display" where
  "handleVtThreadLocked d =
     (if \<exists>a \<in> set (layer_objs d). isVtBufferLocked (layer_heap d a) then
        let d1 = (if mVtDisplayThread d then d
                  else disp_emit MakeVtDisplayThread (d\<lparr>mVtDisplayThread := True\<rparr>)) in
        if mVtVsyncStatus d1 then Inr d1
        else bindE (getE NullDeref (mVtVsync d1)) (\<lambda>_.
          Inr ((disp_emit (VtVsyncEnabled True) d1)\<lparr>mVtVsyncStatus := True\<rparr>))
      else if mVtDisplayThread d \<and> mVtVsyncStatus d then
        bindE (getE NullDeref (mVtVsync d)) (\<lambda>_.
          Inr ((disp_emit (VtVsyncEnabled False) d)\<lparr>mVtVsyncStatus := False\<rparr>))
      else Inr d)"

definition destroyLayer :: "disp_env \<Rightarrow> nat \<Rightarrow> 's hwc2_display \<Rightarrow> fault + hwc2_error_t \<times> 's hwc2_display" where
  "destroyLayer e i d =
     (case layers_find i d of
        None \<Rightarrow> Inr (HWC2_ERROR_BAD_LAYER, d)
      | Some a \<Rightarrow>
          let d1 = (disp_emit (RemoveDebugLayer i) d)\<lparr>mLayers := AList.delete i (mLayers d)\<rparr> in
          bindE (handleVtThreadLocked d1) (\<lambda>d2.
          bindE (if isVtBufferLocked (layer_heap d2 a) then upd_layerE a (releaseVtResource (vtp e)) d2
                 else Inr d2) (\<lambda>d3.
          bindE (destroyLayerId i (layer_gen d3)) (\<lambda>gen.
            Inr (HWC2_ERROR_NONE, d3\<lparr>layer_gen := gen\<rparr>)))))"

end
