(* ===== verification/Display.thy ===== *)
theory Display
  imports DisplayModel "HOL-Library.Sublist"
begin

text \<open>
  The frame of a display (src/hwc2/Hwc2Display.cpp): \<open>validateDisplay\<close> collects the layers and
  lets the strategy decide, the caller asks for the changed composition types and accepts them,
  \<open>presentDisplay\<close> commits. The log and the dump functions are left out, and so are the debug flags
  of planes and the wait for the expected present time, which has no effect on the state. A query with
  output arrays is modelled for callers that pass them.
\<close>

section \<open>What is shown\<close>

definition isLayerHideForDebug :: "disp_env \<Rightarrow> nat \<Rightarrow> bool" where
  "isLayerHideForDebug e i \<longleftrightarrow> debug_disableRefresh e \<or> i \<in> set (debug_hideLayers e)"

definition collectedType :: "disp_env \<Rightarrow> nat \<Rightarrow> hwc2_layer \<Rightarrow> meson_composition" where
  "collectedType e i l =
     (if isLayerHideForDebug e i then MESON_COMPOSITION_DUMMY
      else if isHeadlessMode e then MESON_COMPOSITION_DUMMY
      else if mHwcCompositionType l = HWC2_COMPOSITION_CLIENT e then MESON_COMPOSITION_CLIENT
      else MESON_COMPOSITION_UNDETERMINED)"

definition set_ctype :: "meson_composition \<Rightarrow> hwc2_layer \<Rightarrow> hwc2_layer" where
  "set_ctype t l = l\<lparr>fb_object.mCompositionType := t\<rparr>"

definition skippedLayer :: "bool \<Rightarrow> hwc2_layer \<Rightarrow> bool" where
  "skippedLayer bUpdateLayerList l \<longleftrightarrow> bUpdateLayerList \<and> \<not> mUpdateZorder l
     \<and> \<not> isVtBufferLocked l \<and> \<not> mIsVirtualLayer l"

definition collectLayer :: "disp_env \<Rightarrow> bool \<Rightarrow> nat \<times> nat \<Rightarrow> 's hwc2_display \<Rightarrow> 's hwc2_display" where
  "collectLayer e bUpdateLayerList = (\<lambda>(i, a) d.
     let l = layer_heap d a in
     if skippedLayer bUpdateLayerList l then d
     else upd_layer a (set_ctype (collectedType e i l)) (d\<lparr>mPresentLayers := mPresentLayers d @ [a]\<rparr>))"

definition hiddenVideo :: "hwc2_layer \<Rightarrow> bool" where
  "hiddenVideo l \<longleftrightarrow> fb_object.mFbType l = DRM_FB_VIDEO_UVM_DMA
     \<or> fb_object.mFbType l = DRM_FB_VIDEO_TUNNEL_SIDEBAND"

definition hideVideoStep :: "nat \<Rightarrow> 's hwc2_display \<Rightarrow> 's hwc2_display" where
  "hideVideoStep a d = (if hiddenVideo (layer_heap d a) \<and> mHideVideo d
     then upd_layer a (set_ctype MESON_COMPOSITION_DUMMY) d else d)"

definition collectLayersForPresent :: "disp_env \<Rightarrow> 's hwc2_display \<Rightarrow> 's hwc2_display" where
  "collectLayersForPresent e d =
     (let bUpdateLayerList = (\<exists>a \<in> set (layer_objs d). mUpdateZorder (layer_heap d a));
          d1 = fold (collectLayer e bUpdateLayerList) (mLayers d) d;
          d2 = (if 1 < length (mPresentLayers d1)
                then d1\<lparr>mPresentLayers := std_sort e (\<lambda>a. fb_object.mZorder (layer_heap d1 a)) (mPresentLayers d1)\<rparr>
                else d1) in
      fold hideVideoStep (mPresentLayers d2) d2)"

definition collectComposersForPresent :: "'s hwc2_display \<Rightarrow> 's hwc2_display" where
  "collectComposersForPresent d = d\<lparr>mPresentComposers := mPresentComposers d @ map snd (mComposers d)\<rparr>"

definition collectPlanesForPresent :: "'s hwc2_display \<Rightarrow> 's hwc2_display" where
  "collectPlanesForPresent d = d\<lparr>mPresentPlanes := mPlanes d\<rparr>"

definition collectCompositionStgForPresent :: "'s hwc2_display \<Rightarrow> 's hwc2_display" where
  "collectCompositionStgForPresent d = d\<lparr>mPresentCompositionStg := mCompositionStrategy d\<rparr>"

definition clearComposition :: "'s hwc2_display \<Rightarrow> 's hwc2_display" where
  "clearComposition d = d\<lparr>mPresentLayers := [], mPresentComposers := [], mPresentPlanes := [],
     mPresentCompositionStg := None, mChangedLayers := [], mOverlayLayers := [],
     mFailedDeviceComp := False, mSkipComposition := False, mConfirmSkip := False\<rparr>"

definition compositionFlags :: "disp_env \<Rightarrow> 's hwc2_display \<Rightarrow> u32" where
  "compositionFlags e d =
     (if mForceClient d \<or> debug_disableUiHwc e then COMPOSE_FORCE_CLIENT else 0)
     + (if secureLayerProcessEnabled e \<and> \<not> connector_isSecure e then COMPOSE_HIDE_SECURE_FB else 0)
     + (if mDisableSideband d then COMPOSE_DISABLE_SIDEBAND else 0)
     + (if mIsDisablePost d then COMPOSE_DISABLE_POSTPROCESSOR else 0)"

section \<open>Display frames\<close>

definition loadCalibrateInfo :: "'s hwc2_display \<Rightarrow> 's hwc2_display" where
  "loadCalibrateInfo d =
     (if pixelW (mDisplayMode d) = 0 \<or> pixelH (mDisplayMode d) = 0 then d
      else case mCalibrateCoordinates d of (x, y, w, h) \<Rightarrow>
        d\<lparr>mDispCalibrateInfo := \<lparr>framebuffer_w = mConfigWidth d, framebuffer_h = mConfigHeight d,
          crtc_display_x = x, crtc_display_y = y, crtc_display_w = w, crtc_display_h = h\<rparr>\<rparr>)"

definition adjustLayer :: "disp_env \<Rightarrow> bool \<Rightarrow> nat \<Rightarrow> 's hwc2_display \<Rightarrow> 's hwc2_display" where
  "adjustLayer e bNeedUpdateLayer a d =
     (let d1 = upd_layer a (adjustDisplayFrame (vtp e) (mDispCalibrateInfo d)) d in
      if bNeedUpdateLayer then upd_layer a (\<lambda>l. vtRefresh (setLayerUpdate True l)) d1 else d1)"

definition disp_adjustDisplayFrame :: "disp_env \<Rightarrow> 's hwc2_display \<Rightarrow> 's hwc2_display" where
  "disp_adjustDisplayFrame e d =
     fold (adjustLayer e (mOutsideChanged d)) (mPresentLayers d) (d\<lparr>mOutsideChanged := False\<rparr>)"

section \<open>The requests of a frame\<close>

record comp_request =
  rq_changed :: "nat list"
  rq_decoration :: bool
  rq_failed :: bool
  rq_flags :: u32
  rq_maxRegion :: int
  rq_maxRect :: drm_rect

definition PRESENT_BLANK :: u32 where "PRESENT_BLANK = 1"

definition PRESENT_SIDEBAND :: u32 where "PRESENT_SIDEBAND = 2"

text \<open>\<open>n\<close> is the number of layers present.\<close>

definition requestLayer :: "disp_env \<Rightarrow> nat \<Rightarrow> hwc2_layer \<Rightarrow> comp_request \<Rightarrow> comp_request" where
  "requestLayer e n l r =
     (if mIsVirtualLayer l then r
      else
        let expected = mesonComp2Hwc2Comp e l;
            t = fb_object.mCompositionType l;
            r1 = (if fb_object.mFbType l = DRM_FB_DECORATION then r\<lparr>rq_decoration := True\<rparr> else r);
            r2 = (if expected \<noteq> mHwcCompositionType l
                  then r1\<lparr>rq_changed := rq_changed r1 @ [fb_object.mId l],
                          rq_failed := rq_failed r1 \<or> (debug_monitorDevice e \<and> n \<le> debug_threshold e
                            \<and> expected = HWC2_COMPOSITION_CLIENT e)\<rparr>
                  else r1);
            r3 = (if expected = HWC2_COMPOSITION_SIDEBAND e \<or> t = MESON_COMPOSITION_PLANE_AMVIDEO
                  then r2\<lparr>rq_flags := or (rq_flags r2) PRESENT_SIDEBAND\<rparr> else r2) in
        if isVideoPlaneComposition t then
          let f = fb_object.mDisplayFrame l;
              region = int32 ((rect_right f - rect_left f) * (rect_bottom f - rect_top f)) in
          if rq_maxRegion r3 < region then r3\<lparr>rq_maxRegion := region, rq_maxRect := f\<rparr> else r3
        else r3)"

definition selfAdaptive :: "int \<Rightarrow> drm_rect \<Rightarrow> 's hwc2_display \<Rightarrow> 's hwc2_display" where
  "selfAdaptive maxRegion maxRect d =
     (let d1 = (if maxRegion \<noteq> 0 \<and> mVideoLayerRegion d \<noteq> maxRegion
                then (disp_emit (FrameRateDisplay True maxRect) d)\<lparr>mVideoLayerRegion := maxRegion\<rparr> else d) in
      if maxRegion = 0 \<and> mVideoLayerRegion d1 \<noteq> 0
      then (disp_emit (FrameRateDisplay False maxRect) d1)\<lparr>mVideoLayerRegion := 0\<rparr> else d1)"

text \<open>The result, and what is written to \<open>outNumTypes\<close> and \<open>outNumRequests\<close>.\<close>

definition collectCompositionRequest :: "disp_env \<Rightarrow> 's hwc2_display
    \<Rightarrow> (hwc2_error_t \<times> nat \<times> nat) \<times> 's hwc2_display" where
  "collectCompositionRequest e d =
     (let r = fold (\<lambda>a. requestLayer e (length (mPresentLayers d)) (layer_heap d a)) (mPresentLayers d)
            \<lparr>rq_changed = mChangedLayers d, rq_decoration = False, rq_failed = mFailedDeviceComp d,
             rq_flags = mProcessorFlags d, rq_maxRegion = 0, rq_maxRect = zero_rect\<rparr>;
          d1 = d\<lparr>mChangedLayers := rq_changed r, mFailedDeviceComp := rq_failed r,
                 mProcessorFlags := rq_flags r\<rparr>;
          d2 = selfAdaptive (rq_maxRegion r) (rq_maxRect r) d1;
          d3 = (case map_of (mComposers d2) MESON_CLIENT_COMPOSER of
                  None \<Rightarrow> d2
                | Some c \<Rightarrow> (case composer_getOverlyFbs (composer_heap d2 c) of
                    None \<Rightarrow> d2
                  | Some fs \<Rightarrow> d2\<lparr>mOverlayLayers := mOverlayLayers d2
                      @ map (\<lambda>a. fb_object.mId (layer_heap d2 a)) fs\<rparr>)) in
      ((if rq_decoration r then HWC2_ERROR_UNSUPPORTED
        else if 0 < length (mChangedLayers d3) then HWC2_ERROR_HAS_CHANGES else HWC2_ERROR_NONE,
        length (mChangedLayers d3), length (mOverlayLayers d3)), d3))"

definition HWC2_LAYER_REQUEST_CLEAR_CLIENT_TARGET :: int where
  "HWC2_LAYER_REQUEST_CLEAR_CLIENT_TARGET = 1"

definition getDisplayRequests :: "'s hwc2_display \<Rightarrow> nat \<times> (nat \<times> int) list" where
  "getDisplayRequests d = (length (mOverlayLayers d),
     map (\<lambda>i. (i, HWC2_LAYER_REQUEST_CLEAR_CLIENT_TARGET)) (mOverlayLayers d))"

text \<open>\<open>mLayers.find(id)->second\<close> is undefined where the layer is gone.\<close>

definition getChangedCompositionTypes :: "disp_env \<Rightarrow> 's hwc2_display \<Rightarrow> fault + (nat \<times> int) list" where
  "getChangedCompositionTypes e d =
     foldE (\<lambda>i out. bindE (getE NullDeref (layers_find i d)) (\<lambda>a.
       Inr (out @ [(i, mesonComp2Hwc2Comp e (layer_heap d a))]))) (mChangedLayers d) []"

definition acceptDisplayChanges :: "disp_env \<Rightarrow> 's hwc2_display \<Rightarrow> 's hwc2_display" where
  "acceptDisplayChanges e d =
     fold (\<lambda>a d. upd_layer a (\<lambda>l. snd (commitCompType (mesonComp2Hwc2Comp e l) l)) d) (mPresentLayers d) d"

section \<open>Vsync and the video tunnel layers\<close>

definition hasVideoLayerPresent :: "'s hwc2_display \<Rightarrow> bool" where
  "hasVideoLayerPresent d \<longleftrightarrow> 0 < length (filter (\<lambda>a. fb_object.mFbType (layer_heap d a) = DRM_FB_VIDEO_UVM_DMA
     \<or> fb_object.mFbType (layer_heap d a) = DRM_FB_VIDEO_OVERLAY) (mPresentLayers d))"

definition adjustVsyncMode :: "disp_env \<Rightarrow> 's hwc2_display \<Rightarrow> fault + 's hwc2_display" where
  "adjustVsyncMode e d =
     (if hasVideoLayerPresent d then
        bindE (if mHasVideoPresent d then Inr d
               else bindE (getE NullDeref (mVsync d)) (\<lambda>_. Inr (disp_emit VsyncMixMode d)))
          (\<lambda>d1. Inr (d1\<lparr>mHasVideoPresent := True\<rparr>))
      else
        bindE (if mHasVideoPresent d
               then bindE (getE NullDeref (mVsync d)) (\<lambda>_.
                 Inr (disp_emit (if softwareVsyncEnabled e then VsyncSoftwareMode else VsyncHwMode) d))
               else Inr d)
          (\<lambda>d1. Inr (d1\<lparr>mHasVideoPresent := False\<rparr>)))"

definition refreshVtLayer :: "disp_env \<Rightarrow> bool \<Rightarrow> nat \<Rightarrow> 's hwc2_display \<Rightarrow> 's hwc2_display" where
  "refreshVtLayer e needAskRefresh a d =
     (if isVtBufferLocked (layer_heap d a) then
        (if needAskRefresh
         then (if getDisplayNum e = 1 then upd_layer a (setNeedAskRefresh True) d else d)
         else upd_layer a vtRefresh d)
      else d)"

definition refreshVtLayersLocked :: "disp_env \<Rightarrow> bool \<Rightarrow> 's hwc2_display \<Rightarrow> 's hwc2_display" where
  "refreshVtLayersLocked e needAskRefresh d = fold (refreshVtLayer e needAskRefresh) (layer_objs d) d"

section \<open>Validate\<close>

definition upd_power :: "(hwc_power_mode \<Rightarrow> hwc_power_mode) \<Rightarrow> 's hwc2_display \<Rightarrow> 's hwc2_display" where
  "upd_power f d = d\<lparr>mHwcPowerMode := f (mHwcPowerMode d)\<rparr>"

definition checkPower :: "disp_env \<Rightarrow> 's hwc2_display \<Rightarrow> 's hwc2_display" where
  "checkPower e d =
     (if needBlankScreen (powerc e) (mPresentLayers d \<noteq> []) (mHwcPowerMode d) then
        let d1 = fold (\<lambda>a. upd_layer a (set_ctype MESON_COMPOSITION_DUMMY)) (mPresentLayers d) d in
        if \<not> getScreenStatus (mHwcPowerMode d1) then d1\<lparr>mConfirmSkip := True\<rparr>
        else d1\<lparr>mSkipComposition := True\<rparr>
      else d)"

definition prepareClient :: "'s hwc2_display \<Rightarrow> 's hwc2_display" where
  "prepareClient d = (case map_of (mComposers d) MESON_CLIENT_COMPOSER of
       None \<Rightarrow> d
     | Some c \<Rightarrow> disp_emit PrepareClientComposer
         (d\<lparr>composer_heap := (composer_heap d)(c := composer_prepare (composer_heap d c))\<rparr>))"

definition decideStrategy :: "disp_env \<Rightarrow> 's stg_ops \<Rightarrow> u32 \<Rightarrow> 's hwc2_display \<Rightarrow> fault + int \<times> 's hwc2_display" where
  "decideStrategy e g flags d =
     (let d1 = upd_power (setScreenStatus (mPresentLayers d = [] \<or> mConfirmSkip d)) d;
          d2 = loadCalibrateInfo d1;
          d3 = (if mPresentLayers d2 = [] then d2 else disp_adjustDisplayFrame e d2) in
      bindE (getE NullDeref (mPresentCompositionStg d3)) (\<lambda>k.
        with_stg g k (\<lambda>s. bindE (stg_setup g (mPresentLayers d3) (mPresentComposers d3) (mPresentPlanes d3)
            (mDisplayCrtc d3) flags (mDispScaleValue d3) (mDisplayMode d3) s) (stg_decide g))
          (disp_emit StrategyDecide (disp_emit (StrategySetup (mPresentLayers d3) flags) d3))))"

definition validateRequests :: "disp_env \<Rightarrow> 's hwc2_display
    \<Rightarrow> fault + (hwc2_error_t \<times> (nat \<times> nat) option) \<times> 's hwc2_display" where
  "validateRequests e d =
     (let ((ret, nt, nr), d1) = collectCompositionRequest e d;
          d2 = (if getScreenStatus (mHwcPowerMode d1)
                then d1\<lparr>mProcessorFlags := or (mProcessorFlags d1) PRESENT_BLANK\<rparr> else d1);
          d3 = d2\<lparr>mValidateDisplay := True\<rparr> in
      bindE (adjustVsyncMode e d3) (\<lambda>d4.
        Inr ((ret, Some (nt, nr)), refreshVtLayersLocked e False d4)))"

definition collectForPresent :: "disp_env \<Rightarrow> 's hwc2_display \<Rightarrow> 's hwc2_display" where
  "collectForPresent e d = collectCompositionStgForPresent (collectPlanesForPresent
     (collectComposersForPresent (collectLayersForPresent e (clearComposition d))))"

definition validateDisplay :: "disp_env \<Rightarrow> 's stg_ops \<Rightarrow> 's hwc2_display
    \<Rightarrow> fault + (hwc2_error_t \<times> (nat \<times> nat) option) \<times> 's hwc2_display" where
  "validateDisplay e g d =
     (let d1 = collectForPresent e d;
          flags = compositionFlags e d1;
          d2 = checkPower e d1 in
      if mSkipComposition d2 then validateRequests e (prepareClient d2)
      else bindE (decideStrategy e g flags d2) (\<lambda>(r, d3).
        if r < 0 then Inr ((HWC2_ERROR_NO_RESOURCES, None), d3) else validateRequests e d3))"

section \<open>Present\<close>

definition presentSkipValidateCheck :: "disp_env \<Rightarrow> 's hwc2_display \<Rightarrow> hwc2_error_t" where
  "presentSkipValidateCheck e d =
     (if debug_disableUiHwc e \<or> debug_hide e then HWC2_ERROR_NOT_VALIDATED
      else if \<exists>a \<in> set (layer_objs d). fb_object.mCompositionType (layer_heap d a) = MESON_COMPOSITION_CLIENT
      then HWC2_ERROR_NOT_VALIDATED
      else if mOutsideChanged d then HWC2_ERROR_NOT_VALIDATED
      else if length (mPresentLayers d) = length (mLayers d) then
        (if \<exists>a \<in> set (layer_objs d). mUpdated (layer_heap d a) then HWC2_ERROR_NOT_VALIDATED
         else HWC2_ERROR_NONE)
      else HWC2_ERROR_NOT_VALIDATED)"

definition isLayerValidate :: "hwc2_layer \<Rightarrow> bool" where
  "isLayerValidate l \<longleftrightarrow> \<not> (fb_object.mBufferHandle l = None \<and> fb_object.mFbType l \<noteq> DRM_FB_COLOR)"

text \<open>The client target covers the crtc; the workaround for the smpte modes takes a line off.\<close>

definition clientTargetFrame :: "'s hwc2_display \<Rightarrow> 's hwc2_display" where
  "clientTargetFrame d =
     (let offset = (if sublist ''smpte'' (mModeName d) then 1 else 0);
          z = mDispCalibrateInfo d in
      case mClientTarget d of
        None \<Rightarrow> d
      | Some f \<Rightarrow> d\<lparr>fb_heap := (fb_heap d)(f := (fb_heap d f)\<lparr>drm_framebuffer.mDisplayFrame :=
          mk_rect (crtc_display_x z) (crtc_display_y z + offset) (crtc_display_x z + crtc_display_w z)
            (crtc_display_y z + crtc_display_h z - offset)\<rparr>)\<rparr>)"

definition setHdrMetadata :: "'s hwc2_display \<Rightarrow> 's hwc2_display" where
  "setHdrMetadata d =
     (case find (\<lambda>a. mHdrMetaData (layer_heap d a) \<noteq> []) (mPresentLayers d) of
        None \<Rightarrow> d
      | Some a \<Rightarrow> disp_emit (SetHdrMetadata (mHdrMetaData (layer_heap d a))) d)"

definition afterFlip :: "disp_env \<Rightarrow> 's stg_ops \<Rightarrow> nat \<Rightarrow> 's hwc2_display \<Rightarrow> int \<times> 's hwc2_display" where
  "afterFlip e g k d =
     (let d1 = (if mWhiteBoard d then
                  let (fence, t) = disp_ask e (DupFence (mPresentFence d)) d in
                  disp_emit (StrategyReleaseFence fence)
                    (t\<lparr>stg_heap := (stg_heap t)(k := stg_setReleaseFence g fence (stg_heap t k))\<rparr>)
                else d);
          d2 = (if mPostProcessor d1 then
                  let (fence, t) = disp_ask e (DupFence (mPresentFence d1)) d1 in
                  (disp_emit (PostProcessorPresent (mProcessorFlags t) fence) t)\<lparr>mProcessorFlags := 0\<rparr>
                else d1) in
      disp_ask e (DupFence (mPresentFence d2)) d2)"

text \<open>Either the fence for the caller, or the error the call returns with.\<close>

definition flipPage :: "disp_env \<Rightarrow> 's stg_ops \<Rightarrow> nat \<Rightarrow> 's hwc2_display
    \<Rightarrow> (hwc2_error_t + int) \<times> 's hwc2_display" where
  "flipPage e g k d =
     (let (r, d1) = disp_ask e PageFlip (setHdrMetadata d);
          (fence, d2) = disp_ask e FencePageFlip d1;
          d3 = d2\<lparr>mPresentFence := fence\<rparr> in
      if r < 0 then (Inl HWC2_ERROR_UNSUPPORTED, d3)
      else let (out, d4) = afterFlip e g k d3 in (Inr out, d4))"

definition composeFrame :: "disp_env \<Rightarrow> 's stg_ops \<Rightarrow> 's hwc2_display
    \<Rightarrow> fault + (hwc2_error_t + int) \<times> 's hwc2_display" where
  "composeFrame e g d =
     bindE (getE NullDeref (mDisplayCrtc d)) (\<lambda>_.
       let (r, d1) = disp_ask e PrePageFlip (clientTargetFrame d) in
       if r \<noteq> 0 then Inr (Inl HWC2_ERROR_NO_RESOURCES, d1)
       else bindE (getE NullDeref (mPresentCompositionStg d1)) (\<lambda>k.
         bindE (with_stg g k (stg_commit g) (disp_emit StrategyCommit d1)) (\<lambda>(ret, d2).
           if ret \<noteq> 0 then Inr (Inl HWC2_ERROR_NONE, d2) else Inr (flipPage e g k d2))))"

definition clearLayerFlag :: "disp_env \<Rightarrow> nat \<Rightarrow> 's hwc2_display \<Rightarrow> fault + 's hwc2_display" where
  "clearLayerFlag e a d = (if mIsVirtualLayer (layer_heap d a) then Inr d
     else upd_layerE a (clearUpdateFlag (vtp e)) d)"

definition closePresentFence :: "'s hwc2_display \<Rightarrow> 's hwc2_display" where
  "closePresentFence d =
     (if 0 \<le> mPresentFence d then disp_emit (CloseFence (mPresentFence d)) d else d)\<lparr>mPresentFence := - 1\<rparr>"

definition firstPresent :: "'s hwc2_display \<Rightarrow> fault + 's hwc2_display" where
  "firstPresent d = (if mFirstPresent d then
       bindE (getE NullDeref (mDisplayCrtc d)) (\<lambda>_. Inr (disp_emit CloseLogoDisplay (d\<lparr>mFirstPresent := False\<rparr>)))
     else Inr d)"

definition updateStrategy :: "'s stg_ops \<Rightarrow> nat \<Rightarrow> 's hwc2_display \<Rightarrow> 's hwc2_display" where
  "updateStrategy g k d = disp_emit StrategyUpdate (d\<lparr>stg_heap := (stg_heap d)(k := stg_update g (stg_heap d k))\<rparr>)"

definition presentFrame :: "disp_env \<Rightarrow> 's stg_ops \<Rightarrow> 's hwc2_display
    \<Rightarrow> fault + (hwc2_error_t \<times> int option) \<times> 's hwc2_display" where
  "presentFrame e g d =
     bindE (if mSkipComposition d then Inr (Inr (- 1), d) else composeFrame e g d) (\<lambda>(r, d1).
       case r of
         Inl err \<Rightarrow> Inr ((err, None), d1)
       | Inr fence \<Rightarrow> bindE (foldE (clearLayerFlag e) (layer_objs d1) d1) (\<lambda>d2.
           Inr ((HWC2_ERROR_NONE, Some fence), d2)))"

text \<open>The result, and what is written to \<open>outPresentFence\<close>.\<close>

definition presentDisplay :: "disp_env \<Rightarrow> 's stg_ops \<Rightarrow> 's hwc2_display
    \<Rightarrow> fault + (hwc2_error_t \<times> int option) \<times> 's hwc2_display" where
  "presentDisplay e g d =
     bindE (firstPresent d) (\<lambda>d1.
       if mValidateDisplay d1 then presentFrame e g (closePresentFence (d1\<lparr>mValidateDisplay := False\<rparr>))
       else if presentSkipValidateCheck e d1 \<noteq> HWC2_ERROR_NONE
       then Inr ((presentSkipValidateCheck e d1, None), d1)
       else bindE (getE NullDeref (mCompositionStrategy d1)) (\<lambda>k.
         presentFrame e g (closePresentFence ((updateStrategy g k d1)\<lparr>mValidateDisplay := False\<rparr>))))"

definition releaseFenceOf :: "disp_env \<Rightarrow> nat \<Rightarrow> (nat \<times> int) list \<times> 's hwc2_display
    \<Rightarrow> (nat \<times> int) list \<times> 's hwc2_display" where
  "releaseFenceOf e a = (\<lambda>(out, d).
     let l = layer_heap d a in
     if \<not> isLayerValidate l \<or> mIsVirtualLayer l then (out, d)
     else
       let (fd, l') = getPrevReleaseFence (vtp e) l;
           d1 = upd_layer a (\<lambda>_. l') d;
           (f, d2) = (if fd \<noteq> - 1 then (fd, d1)
                      else if 0 \<le> mPresentFence d1 then disp_ask e (DupFence (mPresentFence d1)) d1
                      else (- 1, d1)) in
       (out @ [(fb_object.mId l, f)], d2))"

definition getReleaseFences :: "disp_env \<Rightarrow> 's hwc2_display \<Rightarrow> (nat \<times> int) list \<times> 's hwc2_display" where
  "getReleaseFences e d = fold (releaseFenceOf e) (mPresentLayers d) ([], d)"

text \<open>\<open>setClientTarget\<close> makes a framebuffer of the buffer and gives it to the client composer.\<close>

definition client_fb :: "vt_platform \<Rightarrow> nat option \<Rightarrow> drm_framebuffer" where
  "client_fb p target =
     (let size = (case target of None \<Rightarrow> zero_rect
                  | Some h \<Rightarrow> mk_rect 0 0 (buffer_width (gralloc p h)) (buffer_height (gralloc p h))) in
     \<lparr>drm_framebuffer.mBufferHandle = Option.bind target (\<lambda>h. ref_dma_buf p h False),
      mFbType = DRM_FB_SCANOUT, mSourceCrop = size, mDisplayFrame = size, mTransform = 0,
      mZorder = 0xFFFFFFFF, mSecure = False, mFbHandleUpdated = (target \<noteq> None),
      mCompositionType = MESON_COMPOSITION_UNDETERMINED, mId = 0,
      mCurReleaseFence = - 1, mPrevReleaseFence = - 1, mBufferState = MODE_BACK, videoType = 0,
      isVtBuffer = False, haveValidBuffer = True\<rparr>)"

definition setClientTarget :: "disp_env \<Rightarrow> nat option \<Rightarrow> 's hwc2_display \<Rightarrow> fault + hwc2_error_t \<times> 's hwc2_display" where
  "setClientTarget e target d =
     (let f = objs_made d;
          d1 = d\<lparr>objs_made := Suc f, fb_heap := (fb_heap d)(f := client_fb (vtp e) target), mClientTarget := Some f\<rparr> in
      bindE (getE NullDeref (map_of (mComposers d1) MESON_CLIENT_COMPOSER)) (\<lambda>c.
      bindE (composer_setOutput (fb_heap d1) (composer_heap d1 c) (Some f) 0) (\<lambda>c'.
        Inr (HWC2_ERROR_NONE, disp_emit (SetClientOutput (Some f))
          (d1\<lparr>composer_heap := (composer_heap d1)(c := c')\<rparr>)))))"

end
