(* ===== verification/DisplayEvents.thy ===== *)
theory DisplayEvents
  imports Display
begin

text \<open>
  The rest of Hwc2Display.cpp the model covers: setting a display up, switching it on and off, vsync
  sources, hot plug and mode changes, and the calls of the video tunnel thread, with
  \<open>handleVtDisplay\<close> of src/hwc2/VtDisplayThread.cpp. The rounded-corner layer
  (\<open>createVirtualLayer\<close>, built with \<open>ENABLE_VIRTUAL_LAYER\<close> only) is left out, and so are the waits on
  condition variables, the whiteboard thread and the colour matrix. The observer, the connector and
  the mode manager of a display are set before any of these calls; \<open>vsync_period\<close> is what
  \<open>getDisplayVsyncPeriod\<close> reads from the mode manager, None when that fails.
\<close>

section \<open>Setting up\<close>

definition MULTI_PLANES_WITH_DI :: u32 where "MULTI_PLANES_WITH_DI = 2"

definition MULTI_PLANES_WITH_HR :: u32 where "MULTI_PLANES_WITH_HR = 4"

text \<open>The loop over the planes: the number of osd planes, whether a video plane takes 8K, the flags.\<close>

fun strategyFlags :: "disp_env \<Rightarrow> hw_display_plane list \<Rightarrow> nat \<times> bool \<times> u32 \<Rightarrow> nat \<times> bool \<times> u32" where
  "strategyFlags e [] acc = acc"
| "strategyFlags e (p # ps) (osdPlanes, hr, flags) =
     (let osdPlanes = (if plane_type p = OSD_PLANE then Suc osdPlanes else osdPlanes);
          hr = (hr \<or> (plane_type p = HWC_VIDEO_PLANE \<and> plane_8k e p));
          flags = (if 1 < osdPlanes \<and> ps = []
                   then or flags (if hr then MULTI_PLANES_WITH_HR else MULTI_PLANES_WITH_DI) else flags) in
      strategyFlags e ps (osdPlanes, hr, flags))"

text \<open>\<open>CompositionStrategyFactory::create\<close> makes a new strategy, so the pointers always differ.\<close>

definition setDisplayResource :: "disp_env \<Rightarrow> 's stg_ops \<Rightarrow> nat \<Rightarrow> hw_display_plane list
    \<Rightarrow> 's hwc2_display \<Rightarrow> fault + 's hwc2_display" where
  "setDisplayResource e g crtc planes d =
     (let d1 = fold (\<lambda>p. disp_emit (PlaneDisplayMode (plane_id p))) planes
            (d\<lparr>mDisplayCrtc := Some crtc, mPlanes := planes\<rparr>);
          (osdPlanes, hr, flags) = strategyFlags e planes (0, False, 0) in
      bindE (assertE (0 < osdPlanes) (AssertFailed ''No Osd plane assigned'') ()) (\<lambda>_.
        let k = stgs_made d1;
            d2 = d1\<lparr>stgs_made := Suc k, stg_heap := (stg_heap d1)(k := stg_create g flags),
                   mCompositionStrategy := Some k\<rparr> in
        Inr (d2\<lparr>mSupportedContentTypes := content_types e (disp_log d2)\<rparr>)))"

definition display_initialize :: "cid \<Rightarrow> cid \<Rightarrow> cid \<Rightarrow> 's hwc2_display \<Rightarrow> 's hwc2_display" where
  "display_initialize client dummy di d = d\<lparr>
     mComposers := [(MESON_CLIENT_COMPOSER, client), (MESON_DUMMY_COMPOSER, dummy), (MESON_DI_COMPOSER, di)],
     layer_gen := initLayerIdGenerator\<rparr>"

text \<open>A query of the mode manager that fails leaves the member as it was.\<close>

definition getActiveConfigWidthAndHeight :: "disp_env \<Rightarrow> 's hwc2_display \<Rightarrow> 's hwc2_display" where
  "getActiveConfigWidthAndHeight e d =
     (case active_width e (disp_log d) of
        None \<Rightarrow> d
      | Some w \<Rightarrow> (case active_height e (disp_log d) of
          None \<Rightarrow> d\<lparr>mConfigWidth := w\<rparr>
        | Some h \<Rightarrow> d\<lparr>mConfigWidth := w, mConfigHeight := h\<rparr>))"

definition setModeMgr :: "disp_env \<Rightarrow> 's hwc2_display \<Rightarrow> 's hwc2_display" where
  "setModeMgr e d =
     (let (r, d1) = disp_ask e GetDisplayMode d; (mode, name) = new_mode e (disp_log d1) in
      if r = 0 then getActiveConfigWidthAndHeight e (upd_power (setConnectorStatus True)
        (d1\<lparr>mDisplayMode := mode, mModeName := name, mDispScaleValue := scale_of e (pixelW mode)\<rparr>))
      else d1)"

definition setCalibrateInfo :: "int \<Rightarrow> int \<Rightarrow> int \<Rightarrow> int \<Rightarrow> 's hwc2_display \<Rightarrow> 's hwc2_display" where
  "setCalibrateInfo x y w h d = d\<lparr>mCalibrateCoordinates := (x, y, w, h)\<rparr>"

definition outsideChanged :: "'s hwc2_display \<Rightarrow> 's hwc2_display" where
  "outsideChanged d = disp_emit ObserverRefreshDisplay (d\<lparr>mOutsideChanged := True\<rparr>)"

definition disableSideband :: "bool \<Rightarrow> 's hwc2_display \<Rightarrow> 's hwc2_display" where
  "disableSideband isDisable d = d\<lparr>mDisableSideband := isDisable\<rparr>"

definition hideVideoLayer :: "bool \<Rightarrow> 's hwc2_display \<Rightarrow> 's hwc2_display" where
  "hideVideoLayer hide d = d\<lparr>mHideVideo := hide\<rparr>"

definition setAidlClientPid :: "'s hwc2_display \<Rightarrow> 's hwc2_display" where
  "setAidlClientPid d = d\<lparr>mAidlService := True\<rparr>"

definition checkIfContentTypeIsSupported :: "nat \<Rightarrow> 's hwc2_display \<Rightarrow> bool" where
  "checkIfContentTypeIsSupported contentType d \<longleftrightarrow>
     contentType = 0 \<or> contentType \<in> set (mSupportedContentTypes d)"

definition setColorTransform :: "disp_env \<Rightarrow> int \<Rightarrow> 's hwc2_display \<Rightarrow> hwc2_error_t \<times> 's hwc2_display" where
  "setColorTransform e hint d =
     (let enable = (hint \<noteq> HAL_COLOR_TRANSFORM_IDENTITY e) in
      (HWC2_ERROR_NONE,
       if connector_hdmi e \<or> connector_tv e
       then disp_emit (SetColorTransform enable) (d\<lparr>mForceClient := False\<rparr>)
       else d\<lparr>mForceClient := enable\<rparr>))"

definition needSwitchConnector :: "disp_env \<Rightarrow> bool" where
  "needSwitchConnector e \<longleftrightarrow> connector_hdmi e \<or> connector_virtual e \<or> connector_tv e"

section \<open>Power\<close>

definition blankDisplayLocked :: "disp_env \<Rightarrow> bool \<Rightarrow> 's hwc2_display \<Rightarrow> 's hwc2_display" where
  "blankDisplayLocked e blockMode d =
     (if mDisplayCrtc d = None then d
      else
        let d1 = disp_emit PrePageFlip d;
            d2 = fold (\<lambda>p. disp_emit (BlankPlane (plane_id p))) (mPlanes d1) d1;
            (r, d3) = disp_ask e PageFlip d2;
            (fence, d4) = disp_ask e FencePageFlip d3 in
        if r = 0 then disp_emit (if blockMode then WaitFence fence else CloseFence fence) d4 else d4)"

definition blankDisplay :: "disp_env \<Rightarrow> 's hwc2_display \<Rightarrow> 's hwc2_display" where
  "blankDisplay e d = blankDisplayLocked e True
     ((upd_power (setConnectorStatus False) d)\<lparr>mSkipComposition := True\<rparr>)"

definition disp_setPowerMode :: "disp_env \<Rightarrow> int \<Rightarrow> 's hwc2_display \<Rightarrow> hwc2_error_t \<times> 's hwc2_display" where
  "disp_setPowerMode e mode d =
     (if mode = HWC3_POWER_MODE_SUSPEND e \<and> mAidlService d then (HWC2_ERROR_UNSUPPORTED, d)
      else
        let (ret, pm) = power_setPowerMode (powerc e) mode (mHwcPowerMode d);
            d1 = d\<lparr>mHwcPowerMode := pm\<rparr> in
        (ret, if mode = HWC2_POWER_MODE_OFF (powerc e)
              then refreshVtLayersLocked e True (blankDisplayLocked e True d1) else d1))"

section \<open>Vsync\<close>

definition setVsyncEnable :: "disp_env \<Rightarrow> int \<Rightarrow> 's hwc2_display \<Rightarrow> hwc2_error_t \<times> 's hwc2_display" where
  "setVsyncEnable e enabled d =
     (if enabled = HWC2_VSYNC_ENABLE e \<or> enabled = HWC2_VSYNC_DISABLE e then
        let state = (enabled = HWC2_VSYNC_ENABLE e); d1 = d\<lparr>mVsyncState := state\<rparr> in
        (HWC2_ERROR_NONE, if mVsync d1 = None then d1 else disp_emit (VsyncEnabled state) d1)
      else (HWC2_ERROR_BAD_PARAMETER, d))"

datatype vsync_type = DISPLAY_DEFAULT | DISPLAY_VIDEOTUNNEL | DISPLAY_WHITEBOARD

text \<open>An installed vsync object is only detached, the new one is not taken.\<close>

definition setVsync :: "vsync_type \<Rightarrow> nat \<Rightarrow> 's hwc2_display \<Rightarrow> 's hwc2_display" where
  "setVsync t v d =
     (case t of
        DISPLAY_DEFAULT \<Rightarrow>
          (if mVsync d = Some v then d
           else case mVsync d of
             Some old \<Rightarrow> disp_emit (VsyncObserver old False) (disp_emit (VsyncEnabled False) d)
           | None \<Rightarrow> disp_emit (VsyncEnabled (mVsyncState d))
               (disp_emit (VsyncObserver v True) (d\<lparr>mVsync := Some v\<rparr>)))
      | DISPLAY_VIDEOTUNNEL \<Rightarrow>
          (if mVtVsync d = Some v then d
           else case mVtVsync d of
             Some old \<Rightarrow> disp_emit (VsyncObserver old False) d
           | None \<Rightarrow> disp_emit (VsyncObserver v True) (d\<lparr>mVtVsync := Some v\<rparr>))
      | DISPLAY_WHITEBOARD \<Rightarrow>
          (if mWBVsync d = Some v then d
           else case mWBVsync d of
             Some old \<Rightarrow> disp_emit (VsyncObserver old False) d
           | None \<Rightarrow> disp_emit (VsyncObserver v True) (d\<lparr>mWBVsync := Some v\<rparr>)))"

section \<open>Hot plug and mode changes\<close>

definition resetLayer :: "disp_env \<Rightarrow> nat \<Rightarrow> 's hwc2_display \<Rightarrow> fault + 's hwc2_display" where
  "resetLayer e a d =
     (if isVtBufferLocked (layer_heap d a) then
        upd_layerE a (releaseVtResource (vtp e))
          (if getDisplayNum e = 1 then upd_layer a (setNeedAskRefresh True) d else d)
      else Inr d)"

definition clearLayers :: "'s stg_ops \<Rightarrow> 's hwc2_display \<Rightarrow> fault + 's hwc2_display" where
  "clearLayers g d =
     (let d1 = d\<lparr>mLayers := [], mChangedLayers := [], mPresentLayers := []\<rparr> in
      bindE (case mCompositionStrategy d1 of
               None \<Rightarrow> Inr d1
             | Some k \<Rightarrow> bindE (with_stg g k (\<lambda>s. bindE (stg_setup g (mPresentLayers d1) (mPresentComposers d1)
                   (mPresentPlanes d1) (mDisplayCrtc d1) 0 0 (mDisplayMode d1) s) (\<lambda>s. Inr ((), s)))
                 (disp_emit (StrategySetup [] 0) (updateStrategy g k d1))) (\<lambda>(_, d2). Inr d2))
        (\<lambda>d2. handleVtThreadLocked (d2\<lparr>layer_gen := (layer_gen d2)
          \<lparr>mLayersBitmap := bits_reset (mLayersBitmap (layer_gen d2))\<rparr>\<rparr>)))"

definition clearClientOutput :: "'s hwc2_display \<Rightarrow> fault + 's hwc2_display" where
  "clearClientOutput d =
     (let d1 = prepareClient d in
      case map_of (mComposers d1) MESON_CLIENT_COMPOSER of
        None \<Rightarrow> Inr d1
      | Some c \<Rightarrow> bindE (composer_setOutput (fb_heap d1) (composer_heap d1 c) None 0) (\<lambda>c'.
          Inr (disp_emit (SetClientOutput None) (d1\<lparr>composer_heap := (composer_heap d1)(c := c')\<rparr>))))"

definition cleanupBeforeDestroy :: "disp_env \<Rightarrow> 's stg_ops \<Rightarrow> 's hwc2_display \<Rightarrow> fault + 's hwc2_display" where
  "cleanupBeforeDestroy e g d =
     bindE (clearClientOutput d) (\<lambda>d1.
     let d2 = fold (\<lambda>p. disp_emit (ClearPlaneResources (plane_id p))) (mPlanes d1) d1 in
     bindE (foldE (resetLayer e) (layer_objs d2) d2) (clearLayers g))"

definition plugOut :: "disp_env \<Rightarrow> 's stg_ops \<Rightarrow> 's hwc2_display \<Rightarrow> fault + 's hwc2_display" where
  "plugOut e g d =
     bindE (if mModePolicy d then Inr d
            else bindE (getE NullDeref (mDisplayCrtc d)) (\<lambda>_.
              Inr (disp_emit (CrtcSetMode (if vmx_property e then ''576cvbs'' else ''dummy_l'')) d))) (\<lambda>d1.
     let d2 = blankDisplayLocked e (mDisplayIdx d1 = HWC_DISPLAY_PRIMARY e)
            ((upd_power (setConnectorStatus False) d1)\<lparr>mSkipComposition := True\<rparr>) in
     if connector_hdmi e \<or> connector_virtual e then
       bindE (getE NullDeref (mVsync d2)) (\<lambda>_.
       bindE (cleanupBeforeDestroy e g (disp_emit UpdateModes (disp_emit VsyncSoftwareMode d2))) (\<lambda>d3.
         Inr (disp_emit (ObserverHotplug False) d3)))
     else Inr d2)"

definition plugIn :: "disp_env \<Rightarrow> 's hwc2_display \<Rightarrow> fault + 's hwc2_display" where
  "plugIn e d = handleVtThreadLocked
     ((if \<not> connector_hdmi e
       then disp_emit ObserverRefreshDisplay (upd_power (setConnectorStatus True) (d\<lparr>mOutsideChanged := True\<rparr>))
       else d)\<lparr>mSignalHpd := True\<rparr>)"

definition onHotplug :: "disp_env \<Rightarrow> 's stg_ops \<Rightarrow> bool \<Rightarrow> 's hwc2_display \<Rightarrow> fault + 's hwc2_display" where
  "onHotplug e g bConnected d =
     (let d1 = (if mModePolicy d
                then disp_emit (ModePolicyHotplug bConnected) (d\<lparr>mNeedChangeModelist := False\<rparr>) else d) in
      if bConnected then plugIn e d1 else plugOut e g d1)"

text \<open>The state is changed under the lock; what follows calls out.\<close>

definition modeComplete :: "disp_env \<Rightarrow> 's hwc2_display \<Rightarrow> (bool \<times> bool \<times> bool) \<times> 's hwc2_display" where
  "modeComplete e d =
     (let (hdrCapsChanged, d1) =
            (if mSignalHpd d
             then let (r, t) = disp_ask e HdrCapsChanged d in
               (r \<noteq> 0, t\<lparr>mSupportedContentTypes := content_types e (disp_log t)\<rparr>)
             else (False, d));
          (r, d2) = disp_ask e GetDisplayMode d1;
          (mode, name) = new_mode e (disp_log d2) in
      if r = 0 \<and> name \<noteq> ''dummy_l'' then
        let notify = mSignalHpd d2;
            d3 = (upd_power (setConnectorStatus True) d2)\<lparr>mDisplayMode := mode, mModeName := name,
              mSkipComposition := False, mOutsideChanged := True, mSignalHpd := False,
              mDispScaleValue := scale_of e (pixelW mode)\<rparr>;
            d4 = fold (\<lambda>p. disp_emit (PlaneDisplayMode (plane_id p))) (mPlanes d3) d3 in
        ((True, hdrCapsChanged, notify), d4)
      else ((False, hdrCapsChanged, False),
            if r = 0 then d2\<lparr>mDisplayMode := mode, mModeName := name\<rparr> else d2))"

definition onModeChanged :: "disp_env \<Rightarrow> 's stg_ops \<Rightarrow> int \<Rightarrow> 's hwc2_display \<Rightarrow> fault + 's hwc2_display" where
  "onModeChanged e g stage d =
     (if stage \<noteq> 1 then Inr ((upd_power (setConnectorStatus False) d)\<lparr>mSkipComposition := True\<rparr>)
      else
        let ((bSendPlugIn, hdrCapsChanged, bNotifySC), d1) = modeComplete e d;
            d1' = getActiveConfigWidthAndHeight e d1;
            (hp, d2) = (if bSendPlugIn then disp_ask e ModeMgrNeedHotplug d1' else (0, d1')) in
        bindE
          (if bSendPlugIn \<and> (hp \<noteq> 0 \<or> hdrCapsChanged) then
             bindE (if \<not> mFirstPresent d2 \<and> primaryHotplugEnabled e then cleanupBeforeDestroy e g d2 else Inr d2)
               (\<lambda>d3. let d4 = disp_emit (ObserverHotplug True) d3 in
                  Inr (if bNotifySC then disp_emit NotifyPlugIn d4 else d4))
           else Inr (disp_emit ResetTags d2))
          (\<lambda>d5. Inr (disp_emit ObserverRefreshDisplay d5)))"

section \<open>The video tunnel thread\<close>

definition disp_updateVtBuffers :: "disp_env \<Rightarrow> 's hwc2_display \<Rightarrow> fault + 's hwc2_display" where
  "disp_updateVtBuffers e d = foldE (\<lambda>a. upd_layerE a (updateVtBuffer (vtp e))) (layer_objs d) d"

definition setVtLayersPresentTime :: "disp_env \<Rightarrow> 's hwc2_display \<Rightarrow> 's hwc2_display" where
  "setVtLayersPresentTime e d =
     (let period = (case vsync_period e (disp_log d) of None \<Rightarrow> 0 | Some t \<Rightarrow> t);
          period = (if mFRPeriodNanos d = 0 then period else mFRPeriodNanos d) in
      fold (\<lambda>a. upd_layer a (setPresentTime (mVsyncTimestamp d + period))) (layer_objs d) d)"

definition releaseVtLayer :: "disp_env \<Rightarrow> nat \<Rightarrow> 's hwc2_display \<Rightarrow> fault + 's hwc2_display" where
  "releaseVtLayer e a d =
     (if isVtBufferLocked (layer_heap d a)
      then upd_layerE a (\<lambda>l. bindE (releaseVtBuffer (vtp e) l) (\<lambda>(ret, l'). Inr l')) d else Inr d)"

definition releaseVtLayers :: "disp_env \<Rightarrow> 's hwc2_display \<Rightarrow> fault + 's hwc2_display" where
  "releaseVtLayers e d = foldE (releaseVtLayer e) (layer_objs d) d"

definition handleVtDisplayConnection :: "disp_env \<Rightarrow> 's hwc2_display \<Rightarrow> bool \<times> 's hwc2_display" where
  "handleVtDisplayConnection e d =
     (let displayState = (\<not> needBlankScreen (powerc e) (mPresentLayers d \<noteq> []) (mHwcPowerMode d)) in
      (displayState,
       fold (\<lambda>a d. if isVtBufferLocked (layer_heap d a)
                    then upd_layer a (handleDisplayDisconnect (vtp e) displayState) d else d) (layer_objs d) d))"

definition disp_newGameBuffer :: "'s hwc2_display \<Rightarrow> bool" where
  "disp_newGameBuffer d \<longleftrightarrow> (\<exists>a \<in> set (layer_objs d). newGameBuffer (layer_heap d a))"

definition presentVtVideo :: "'s stg_ops \<Rightarrow> 's hwc2_display \<Rightarrow> fault + 's hwc2_display" where
  "presentVtVideo g d =
     (if mSkipComposition d then Inr d
      else bindE (getE NullDeref (mCompositionStrategy d)) (\<lambda>k.
        bindE (with_stg g k (stg_commitTunnelVideo g) (disp_emit StrategyCommitTunnel d)) (\<lambda>(ret, d1). Inr d1)))"

text \<open>
  One round of \<open>handleVtDisplay\<close>. \<open>presentVtVideo\<close> always leaves \<open>-1\<close> in the fence, so there is
  nothing to close.
\<close>

definition vtRound :: "disp_env \<Rightarrow> 's stg_ops \<Rightarrow> 's hwc2_display \<Rightarrow> fault + 's hwc2_display" where
  "vtRound e g d =
     bindE (disp_updateVtBuffers e (setVtLayersPresentTime e d)) (\<lambda>d1.
     let (bConnected, d2) = handleVtDisplayConnection e d1 in
     bindE (if bConnected then presentVtVideo g d2 else Inr d2) (releaseVtLayers e))"

text \<open>The rounds go on as long as a layer in game mode has a buffer.\<close>

partial_function (option) vtRounds :: "disp_env \<Rightarrow> 's stg_ops \<Rightarrow> 's hwc2_display
    \<Rightarrow> (fault + 's hwc2_display) option" where
  "vtRounds e g d =
     (case vtRound e g d of
        Inl f \<Rightarrow> Some (Inl f)
      | Inr d1 \<Rightarrow> if disp_newGameBuffer d1 then vtRounds e g d1 else Some (Inr d1))"

definition onVtVsync :: "int \<Rightarrow> int \<Rightarrow> 's hwc2_display \<Rightarrow> 's hwc2_display" where
  "onVtVsync timestamp period d =
     (let d1 = d\<lparr>mVsyncTimestamp := timestamp\<rparr> in
      if mVtDisplayThread d1 then disp_emit (SetVsyncInfo timestamp period) d1 else d1)"

definition onVsync :: "vsync_type \<Rightarrow> int \<Rightarrow> int \<Rightarrow> 's hwc2_display \<Rightarrow> 's hwc2_display" where
  "onVsync t timestamp period d =
     (case t of
        DISPLAY_DEFAULT \<Rightarrow> disp_emit (ObserverVsync timestamp period) d
      | DISPLAY_VIDEOTUNNEL \<Rightarrow> onVtVsync timestamp period d
      | DISPLAY_WHITEBOARD \<Rightarrow> d\<lparr>mVsyncTimestamp := timestamp\<rparr>)"

end
