(* ===== verification/DisplayLaws.thy ===== *)
theory DisplayLaws
  imports DisplayEvents VtLayerRun
begin

text \<open>
  What the operations of a display keep. \<open>tame l l'\<close> says that a layer \<open>l'\<close> is still the layer \<open>l\<close>
  (its id, the virtual flag) and accounts for its tunnel buffers; \<open>keeps_layers\<close> that an
  operation of the display does nothing but tame changes to layers. \<open>disp_ok\<close> is the invariant of a display.
\<close>

section \<open>Tame changes of a layer\<close>

definition tame :: "hwc2_layer \<Rightarrow> hwc2_layer \<Rightarrow> bool" where
  "tame l l' \<longleftrightarrow> fb_object.mId l' = fb_object.mId l \<and> mIsVirtualLayer l' = mIsVirtualLayer l
     \<and> (vt_layer_ok l \<longrightarrow> accounts l {#} l')"

lemma tame_refl [simp]: "tame l l"
  by (simp add: tame_def accounts_refl)

lemma tame_trans: "tame l m \<Longrightarrow> tame m n \<Longrightarrow> tame l n"
  unfolding tame_def using accounts_trans [of l "{#}" m "{#}" n] accounts_ok [of l "{#}" m] by simp

lemma tame_ok: "tame l l' \<Longrightarrow> vt_layer_ok l \<Longrightarrow> vt_layer_ok l'"
  using accounts_ok by (auto simp: tame_def)

lemma tame_custody:
  "fb_object.mId l' = fb_object.mId l \<Longrightarrow> mIsVirtualLayer l' = mIsVirtualLayer l \<Longrightarrow> custody l' = custody l
     \<Longrightarrow> tame l l'"
  by (simp add: tame_def accounts_same)

named_theorems tame_simps \<open>operations of a layer that are tame\<close>

lemma tame_set_ctype [tame_simps]: "tame l (set_ctype t l)"
  by (rule tame_custody) (simp_all add: set_ctype_def custody_unfold)

lemma tame_vtRefresh [tame_simps]: "tame l (vtRefresh l)"
  by (rule tame_custody) (simp_all add: vtRefresh_def custody_unfold)

lemma tame_setLayerUpdate [tame_simps]: "tame l (vtRefresh (setLayerUpdate b l))"
  by (rule tame_custody) (simp_all add: vtRefresh_def setLayerUpdate_def custody_unfold)

lemma tame_adjust [tame_simps]: "tame l (adjustDisplayFrame p z l)"
  by (rule tame_custody) (simp_all add: adjustDisplayFrame_def adjustDisplayFrameLocked_def Let_def custody_unfold)

lemma tame_needAsk [tame_simps]: "tame l (setNeedAskRefresh b l)"
  by (rule tame_custody) (simp_all add: setNeedAskRefresh_def custody_unfold)

lemma tame_presentTime [tame_simps]: "tame l (setPresentTime t l)"
  by (rule tame_custody) (simp_all add: setPresentTime_def custody_unfold)

lemma tame_commitType [tame_simps]: "tame l (snd (commitCompType t l))"
  by (rule tame_custody) (simp_all add: commitCompType_def custody_unfold)

lemma tame_read_fb [tame_simps]: "tame l (read_fb f l)"
  by (rule tame_custody) (simp_all add: read_fb_def custody_unfold)

lemma tame_releaseFence [tame_simps]: "tame l (snd (VtModel.getPrevReleaseFence p l))"
  by (rule tame_custody; (rule fence_custody)?)
    (simp_all add: getPrevReleaseFence_def opt_fence_dup_def fence_dup_def ask_def emit_def Let_def split: option.split)

text \<open>The members that say which layer it is, and of which kind; no operation of the tunnel touches them.\<close>

definition ident :: "hwc2_layer \<Rightarrow> nat \<times> bool \<times> drm_fb_type \<times> bool" where
  "ident l = (fb_object.mId l, mIsVirtualLayer l, fb_object.mFbType l, mGameMode l)"

named_theorems ident_simps \<open>operations that keep the identity of a layer\<close>

lemmas ident_unfold = ident_def emit_def VtModel.ask_def Let_def split_def

lemma ident_basic [ident_simps]:
  "ident (emit ev l) = ident l" "ident (snd (VtModel.ask p ev l)) = ident l"
  "ident (countQueued n l) = ident l" "ident (collectUvmBuffer a b l) = ident l"
  "ident (detachUvmBuffer l) = ident l" "ident (setVtPrevReleaseFence l) = ident l"
  "ident (askVtRefresh p flag l) = ident l"
  by (simp_all add: ident_unfold countQueued_def collectUvmBuffer_def detachUvmBuffer_def
    setVtPrevReleaseFence_def askVtRefresh_def)

lemma ident_fence [ident_simps]:
  "ident (snd (VtModel.getPrevReleaseFence p l)) = ident l" "ident (snd (VtModel.getCurReleaseFence p l)) = ident l"
  by (simp_all add: ident_unfold getPrevReleaseFence_def getCurReleaseFence_def opt_fence_dup_def fence_dup_def
    split: option.split)

lemma ident_giveBack [ident_simps]: "ident (snd (giveBack p a b l)) = ident l"
  by (simp add: giveBack_def onVtFrameDisplayed_def Let_def split_def ident_simps split: option.split)

lemma ident_popQueue: "popQueue l = Inr l' \<Longrightarrow> ident l' = ident l"
  by (auto simp: popQueue_def ident_def split: list.splits)

lemma ident_releaseQueue [ident_simps]: "ident (releaseQueue p l) = ident l"
proof -
  have "ident (fold (\<lambda>it t. snd (giveBack p (mItemFd it) (- 1) t)) its l) = ident l" for its
    by (induction its arbitrary: l) (simp_all add: ident_simps)
  then show ?thesis by (simp add: releaseQueue_def)
qed

lemma ident_unregister [ident_simps]: "ident (snd (unregisterConsumer p l)) = ident l"
  by (simp add: unregisterConsumer_def ident_unfold split: option.split)

text \<open>\<open>keeps_ident r l\<close>: where the call yields a layer, it is still \<open>l\<close>.\<close>

definition keeps_ident :: "fault + hwc2_layer \<Rightarrow> hwc2_layer \<Rightarrow> bool" where
  "keeps_ident r l \<longleftrightarrow> (\<forall>l'. r = Inr l' \<longrightarrow> ident l' = ident l)"

lemma keeps_ident_simps [simp]:
  "keeps_ident (Inl f) l" "keeps_ident (Inr l') l \<longleftrightarrow> ident l' = ident l"
  by (simp_all add: keeps_ident_def)

lemma keeps_ident_bind:
  assumes r: "keeps_ident r l" and k: "\<And>m. ident m = ident l \<Longrightarrow> keeps_ident (k m) l"
  shows "keeps_ident (bindE r k) l"
proof (cases r)
  case (Inl f)
  then show ?thesis by simp
next
  case (Inr m)
  with r have "ident m = ident l" by simp
  with Inr k show ?thesis by simp
qed

lemma keeps_ident_pop: "ident m = ident l \<Longrightarrow> keeps_ident (popQueue m) l"
  using ident_popQueue by (simp add: keeps_ident_def)

lemma keeps_ident_release: "keeps_ident (releaseVtResourceLocked p a b l) l"
proof -
  have upd: "ident (m\<lparr>mNeedAskRefresh := x\<rparr>) = ident m" "ident (m\<lparr>mPreVtBufferFd := n\<rparr>) = ident m"
    "ident (m\<lparr>mVtBufferFd := n, mQueueItems := q, mVtUpdate := y, mTimestamp := t\<rparr>) = ident m"
    "ident (m\<lparr>mQueuedFrames := n, mNeedReleaseVtResource := y\<rparr>) = ident m" for m x n q y t
    by (simp_all add: ident_def)
  define ask where "ask = (if a \<and> mNeedAskRefresh l then (askVtRefresh p True l)\<lparr>mNeedAskRefresh := False\<rparr> else l)"
  define given_back where "given_back = (if (\<not> b \<or> a) \<and> 0 \<le> mPreVtBufferFd ask
    then snd (giveBack p (mPreVtBufferFd (snd (VtModel.getPrevReleaseFence p ask)))
      (fst (VtModel.getPrevReleaseFence p ask)) (snd (VtModel.getPrevReleaseFence p ask))) else ask)"
  define fin where "fin = (\<lambda>s3. let s4 = releaseQueue p s3;
            s5 = (if \<not> b \<or> a then s4\<lparr>mPreVtBufferFd := - 1\<rparr> else s4);
            s6 = s5\<lparr>mVtBufferFd := - 1, mQueueItems := [], mVtUpdate := False, mTimestamp := - 1\<rparr>;
            s7 = (if 0 \<le> mTunnelId s6 \<and> a then snd (unregisterConsumer p s6) else s6)
        in s7\<lparr>mQueuedFrames := 0, mNeedReleaseVtResource := False\<rparr>)"
  have "ident ask = ident l" by (simp add: ask_def upd ident_simps)
  then have given_back: "ident given_back = ident l" by (simp add: given_back_def ident_simps)
  have fin: "ident (fin m) = ident m" for m by (simp add: fin_def Let_def upd ident_simps)
  have run: "releaseVtResourceLocked p a b l =
    (if \<not> (isVtBufferLocked l \<or> mNeedReleaseVtResource l) \<or> mVtConsumer l = None then Inr l
     else bindE (if 0 \<le> mVtBufferFd given_back
            then popQueue (snd (giveBack p (mVtBufferFd (snd (VtModel.getCurReleaseFence p given_back)))
              (fst (VtModel.getCurReleaseFence p given_back)) (snd (VtModel.getCurReleaseFence p given_back))))
            else Inr given_back) (\<lambda>s3. Inr (fin s3)))"
    by (simp only: releaseVtResourceLocked_def Let_def split_def ask_def given_back_def fin_def de_Morgan_disj if_if_eq_conj) simp
  show ?thesis unfolding run
    by (auto intro!: keeps_ident_bind keeps_ident_pop simp: given_back fin ident_simps)
qed

lemma keeps_ident_clear: "keeps_ident (clearUpdateFlag p l) l"
proof -
  have "ident (l\<lparr>mUpdateZorder := False, mUpdated := False\<rparr>) = ident l" by (simp add: ident_def)
  then show ?thesis using keeps_ident_release [of p True False "l\<lparr>mUpdateZorder := False, mUpdated := False\<rparr>"]
    by (simp add: clearUpdateFlag_def releaseVtResource_def Let_def keeps_ident_def)
qed

lemma keeps_ident_dropFront: "keeps_ident (dropFront p l) l"
proof -
  have "ident (l\<lparr>mPreviousTimestamp := t\<rparr>) = ident l" for t by (simp add: ident_def)
  then show ?thesis
    by (auto simp: dropFront_def Let_def ident_simps split_def split: list.split intro!: keeps_ident_pop)
qed

lemma keeps_ident_dropExpired: "keeps_ident (dropExpired p n l) l"
proof (induction n arbitrary: l)
  case 0
  then show ?case by simp
next
  case (Suc n)
  show ?case unfolding dropExpired.simps
  proof (rule keeps_ident_bind [OF keeps_ident_dropFront])
    fix m assume "ident m = ident l"
    with Suc [of m] show "keeps_ident (dropExpired p n m) l" by (simp add: keeps_ident_def)
  qed
qed

lemma ident_videoInfo [ident_simps]: "ident (snd (getVideoInfoFromUVM p fd l)) = ident l"
  by (simp add: getVideoInfoFromUVM_def ident_unfold)

lemma keeps_ident_update: "keeps_ident (updateVtBuffer p l) l"
proof -
  have upd: "ident (m\<lparr>mVtUpdate := y, mVtBufferFd := n, mTimestamp := t\<rparr>) = ident m"
    "ident (m\<lparr>mFirstVtBuffer := y, mTunnelIdUpdate := z\<rparr>) = ident m"
    "ident (m\<lparr>mPreviousTimestamp := t\<rparr>) = ident m" for m y n t z
    by (simp_all add: ident_def)
  have take: "ident t = ident m" if "takeFront p m = Inr (c, t)" for m c t
    using that by (auto simp: takeFront_def Let_def upd ident_simps split_def split: list.splits if_splits)
  have ask: "keeps_ident (askSurfaceFlingerRefresh m) l" if "ident m = ident l" for m
    using that by (simp add: askSurfaceFlingerRefresh_def ident_simps split: option.split)
  have "keeps_ident (bindE (takeFront p m) (\<lambda>(c, t). if c then askSurfaceFlingerRefresh t else Inr t)) l"
    if "ident m = ident l" for m
    using take that ask by (cases "takeFront p m") auto
  then show ?thesis
    by (auto simp: updateVtBuffer_def intro!: keeps_ident_bind keeps_ident_dropExpired)
qed

lemma ident_releaseShown [ident_simps]: "ident (snd (releaseShown p l)) = ident l"
proof -
  have upd: "ident (m\<lparr>mPreVtBufferFd := n, mVtUpdate := y, mVtBufferFd := k\<rparr>) = ident m" for m n y k
    by (simp add: ident_def)
  have "ident (collectReleased p f m) = ident m" for f m
    by (simp add: collectReleased_def Let_def split_def ident_simps)
  then show ?thesis by (simp add: releaseShown_def Let_def split_def upd ident_simps)
qed

lemma keeps_ident_releaseVt: "keeps_ident (bindE (releaseVtBuffer p l) (\<lambda>(r, t). Inr t)) l"
proof -
  have upd: "ident (m\<lparr>mVtRefreshed := y\<rparr>) = ident m" for m y by (simp add: ident_def)
  have pop: "keeps_ident (bindE (if b then popQueue m else Inr m) (\<lambda>s. Inr (snd (releaseShown p s)))) l"
    if "ident m = ident l" for m b
    using that by (auto intro!: keeps_ident_bind keeps_ident_pop simp: ident_simps)
  have assoc: "bindE (bindE x (\<lambda>s. Inr (releaseShown p s))) (\<lambda>(r, t). Inr t)
      = bindE x (\<lambda>s. Inr (snd (releaseShown p s)))" for x :: "fault + hwc2_layer"
    by (cases x) (simp_all add: split_def)
  show ?thesis
    using pop by (simp add: releaseVtBuffer_def Let_def assoc upd ident_simps)
qed

section \<open>The invariant\<close>

definition lives_ok :: "'s hwc2_display \<Rightarrow> bool" where
  "lives_ok d \<longleftrightarrow> (\<forall>a \<in> live d. vt_layer_ok (layer_heap d a))"

text \<open>
  The ids of the layers are those the generator has given out, every layer is an object of its own
  that knows its id, and every layer the display refers to accounts for its tunnel buffers.
\<close>

definition disp_ok :: "'s hwc2_display \<Rightarrow> bool" where
  "disp_ok d \<longleftrightarrow> ids_ok (map fst (mLayers d)) (layer_gen d)
     \<and> distinct (layer_objs d) \<and> (\<forall>a \<in> live d. a < objs_made d)
     \<and> (\<forall>(i, a) \<in> set (mLayers d). fb_object.mId (layer_heap d a) = i)
     \<and> lives_ok d"

definition keeps_layers :: "'s hwc2_display \<Rightarrow> 's hwc2_display \<Rightarrow> bool" where
  "keeps_layers d d' \<longleftrightarrow> mLayers d' = mLayers d \<and> layer_gen d' = layer_gen d \<and> objs_made d \<le> objs_made d'
     \<and> set (mPresentLayers d') \<subseteq> live d \<and> (\<forall>a. tame (layer_heap d a) (layer_heap d' a))"

lemma live_keeps: "keeps_layers d d' \<Longrightarrow> live d' \<subseteq> live d"
  by (auto simp: keeps_layers_def live_def layer_objs_def)

lemma keeps_layers_trans: "keeps_layers d d1 \<Longrightarrow> keeps_layers d1 d2 \<Longrightarrow> keeps_layers d d2"
  using live_keeps [of d d1] tame_trans unfolding keeps_layers_def by (metis order_trans)

lemma keeps_layers_refl [simp]: "keeps_layers d d"
  by (auto simp: keeps_layers_def live_def)

lemma lives_ok_keeps:
  assumes "lives_ok d" and k: "keeps_layers d d'"
  shows "lives_ok d'"
  using assms live_keeps [OF k] tame_ok unfolding lives_ok_def keeps_layers_def by blast

lemma disp_ok_keeps:
  assumes ok: "disp_ok d" and k: "keeps_layers d d'"
  shows "disp_ok d'"
proof -
  have "lives_ok d'" using lives_ok_keeps [OF _ k] ok by (simp add: disp_ok_def)
  moreover have "\<forall>a \<in> live d'. a < objs_made d'"
    using ok live_keeps [OF k] k by (fastforce simp: disp_ok_def keeps_layers_def)
  moreover have "fb_object.mId (layer_heap d' a) = fb_object.mId (layer_heap d a)" for a
    using k by (simp add: keeps_layers_def tame_def)
  ultimately show ?thesis using ok k by (simp add: disp_ok_def keeps_layers_def layer_objs_def)
qed

lemma keeps_layersI:
  "mLayers d' = mLayers d \<Longrightarrow> layer_gen d' = layer_gen d \<Longrightarrow> objs_made d' = objs_made d
   \<Longrightarrow> set (mPresentLayers d') \<subseteq> set (mPresentLayers d) \<Longrightarrow> layer_heap d' = layer_heap d \<Longrightarrow> keeps_layers d d'"
  by (auto simp: keeps_layers_def live_def)

lemma keeps_upd_layer: "(\<And>l. tame l (f l)) \<Longrightarrow> keeps_layers d (upd_layer a f d)"
  by (auto simp: keeps_layers_def upd_layer_def live_def)

lemma keeps_fold:
  "(\<And>a d. a \<in> set xs \<Longrightarrow> keeps_layers d (f a d)) \<Longrightarrow> keeps_layers d (fold f xs d)"
  by (induction xs arbitrary: d) (auto intro: keeps_layers_trans)

lemma keeps_upd_layerE:
  assumes ok: "lives_ok d" and a: "a \<in> live d"
    and f: "\<And>l. vt_layer_ok l \<Longrightarrow> okE (f l) (accounts l {#})" and i: "\<And>l. keeps_ident (f l) l"
  shows "okE (upd_layerE a f d) (keeps_layers d)"
proof -
  let ?l = "layer_heap d a"
  have "vt_layer_ok ?l" using ok a by (simp add: lives_ok_def)
  with f obtain l where l: "f ?l = Inr l" "accounts ?l {#} l" by (auto simp: okE_iff)
  with i [of ?l] have "tame ?l l" by (simp add: tame_def ident_def)
  then show ?thesis using l(1)
    by (auto simp: upd_layerE_def upd_layer_def keeps_layers_def live_def)
qed

lemma keeps_foldE:
  assumes f: "\<And>a d. a \<in> set xs \<Longrightarrow> lives_ok d \<Longrightarrow> a \<in> live d \<Longrightarrow> okE (f a d) (keeps_layers d)"
    and ok: "lives_ok d" and xs: "set xs \<subseteq> set (layer_objs d)"
  shows "okE (foldE f xs d) (keeps_layers d)"
  using assms
proof (induction xs arbitrary: d)
  case Nil
  then show ?case by simp
next
  case (Cons a xs)
  have "a \<in> live d" using Cons.prems by (simp add: live_def)
  then obtain d1 where d1: "f a d = Inr d1" "keeps_layers d d1" using Cons.prems by (force simp: okE_iff)
  have "okE (foldE f xs d1) (keeps_layers d1)"
  proof (rule Cons.IH)
    show "set xs \<subseteq> set (layer_objs d1)" using Cons.prems(3) d1(2) by (simp add: keeps_layers_def layer_objs_def)
    show "lives_ok d1" using lives_ok_keeps [OF Cons.prems(2) d1(2)] .
  qed (use Cons.prems(1) in simp)
  then show ?case using d1 by (auto simp: okE_iff intro: keeps_layers_trans)
qed

section \<open>Collecting the layers\<close>

lemma skipped_set_ctype [simp]: "skippedLayer b (set_ctype t l) = skippedLayer b l"
  by (simp add: skippedLayer_def set_ctype_def isVtBufferLocked_def)

lemma skipped_upd [simp]:
  "skippedLayer b (layer_heap (upd_layer a (set_ctype t) d) c) = skippedLayer b (layer_heap d c)"
  by (simp add: upd_layer_def)

text \<open>\<open>recollected d d'\<close>: nothing but the list of the layers present and their types has changed.\<close>

definition recollected :: "'s hwc2_display \<Rightarrow> 's hwc2_display \<Rightarrow> bool" where
  "recollected d d' \<longleftrightarrow> (\<exists>h ps. d' = d\<lparr>layer_heap := h, mPresentLayers := ps\<rparr>
     \<and> (\<forall>a. \<exists>t. h a = set_ctype t (layer_heap d a)))"

lemma set_ctype_simps [simp]:
  "set_ctype t (set_ctype u l) = set_ctype t l"
  "fb_object.mCompositionType (set_ctype t l) = t" "fb_object.mZorder (set_ctype t l) = fb_object.mZorder l"
  "fb_object.mFbType (set_ctype t l) = fb_object.mFbType l" "fb_object.mId (set_ctype t l) = fb_object.mId l"
  "mHwcCompositionType (set_ctype t l) = mHwcCompositionType l"
  "mIsVirtualLayer (set_ctype t l) = mIsVirtualLayer l"
  "hiddenVideo (set_ctype t l) = hiddenVideo l"
  "collectedType e i (set_ctype t l) = collectedType e i l"
  by (simp_all add: set_ctype_def hiddenVideo_def collectedType_def)

lemma set_ctype_same: "\<exists>t. l = set_ctype t l"
  by (rule exI [of _ "fb_object.mCompositionType l"]) (simp add: set_ctype_def)

lemma recollected_refl [simp]: "recollected d d"
  unfolding recollected_def by (rule exI [of _ "layer_heap d"], rule exI [of _ "mPresentLayers d"])
    (use set_ctype_same in simp)

lemma recollected_trans:
  assumes "recollected d d1" and "recollected d1 d2"
  shows "recollected d d2"
proof -
  obtain h ps where h: "d1 = d\<lparr>layer_heap := h, mPresentLayers := ps\<rparr>" "\<forall>a. \<exists>t. h a = set_ctype t (layer_heap d a)"
    using assms(1) by (auto simp: recollected_def)
  obtain k qs where k: "d2 = d1\<lparr>layer_heap := k, mPresentLayers := qs\<rparr>" "\<forall>a. \<exists>t. k a = set_ctype t (layer_heap d1 a)"
    using assms(2) by (auto simp: recollected_def)
  have "\<exists>t. k a = set_ctype t (layer_heap d a)" for a
  proof -
    from h(2) obtain t where "h a = set_ctype t (layer_heap d a)" by blast
    moreover from k(2) obtain u where "k a = set_ctype u (layer_heap d1 a)" by blast
    then have "k a = set_ctype u (h a)" by (simp add: h(1))
    ultimately show ?thesis by (metis set_ctype_simps(1))
  qed
  then show ?thesis unfolding recollected_def by (intro exI [of _ k] exI [of _ qs]) (simp add: h(1) k(1))
qed

lemma recollected_fold: "(\<And>a d. recollected d (f a d)) \<Longrightarrow> recollected d (fold f xs d)"
  by (induction xs arbitrary: d) (auto intro: recollected_trans)

lemma recollected_type: "recollected d (upd_layer a (set_ctype t) d)"
  unfolding recollected_def upd_layer_def
  by (rule exI [of _ "(layer_heap d)(a := set_ctype t (layer_heap d a))"], rule exI [of _ "mPresentLayers d"])
    (use set_ctype_same in auto)

lemma recollected_present: "recollected d (d\<lparr>mPresentLayers := ps\<rparr>)"
  unfolding recollected_def by (rule exI [of _ "layer_heap d"], rule exI [of _ ps]) (use set_ctype_same in simp)

lemma recollected_collect: "recollected d (collectLayer e b x d)"
  unfolding collectLayer_def split_def Let_def
  by (auto intro: recollected_trans [OF recollected_present recollected_type])

lemma recollected_hide: "recollected d (hideVideoStep a d)"
  by (simp add: hideVideoStep_def recollected_type)

lemma collect_present:
  "mPresentLayers (fold (collectLayer e b) xs d)
     = mPresentLayers d @ map snd (filter (\<lambda>(i, a). \<not> skippedLayer b (layer_heap d a)) xs)"
proof (induction xs arbitrary: d)
  case Nil
  then show ?case by simp
next
  case (Cons x xs)
  obtain h ps where r: "collectLayer e b x d = d\<lparr>layer_heap := h, mPresentLayers := ps\<rparr>"
    and h: "\<forall>a. \<exists>t. h a = set_ctype t (layer_heap d a)"
    using recollected_collect [of d e b x] by (auto simp: recollected_def)
  have same: "skippedLayer b (h a) = skippedLayer b (layer_heap d a)" for a
    using h by (metis skipped_set_ctype)
  have "mPresentLayers (collectLayer e b x d)
      = mPresentLayers d @ map snd (filter (\<lambda>(i, a). \<not> skippedLayer b (layer_heap d a)) [x])"
    by (simp add: collectLayer_def split_def Let_def upd_layer_def)
  with r have ps: "ps = mPresentLayers d @ map snd (filter (\<lambda>(i, a). \<not> skippedLayer b (layer_heap d a)) [x])"
    by simp
  have "mPresentLayers (fold (collectLayer e b) (x # xs) d)
      = mPresentLayers (fold (collectLayer e b) xs (d\<lparr>layer_heap := h, mPresentLayers := ps\<rparr>))"
    by (simp only: fold_simps r)
  also have "\<dots> = ps @ map snd (filter (\<lambda>(i, a). \<not> skippedLayer b (h a)) xs)"
    unfolding Cons.IH by simp
  finally show ?case by (simp add: ps same split_def)
qed

lemma collect_types:
  assumes "distinct (map snd xs)"
  shows "layer_heap (fold (collectLayer e b) xs d) a =
    (case find (\<lambda>(i, c). c = a \<and> \<not> skippedLayer b (layer_heap d a)) xs of
       None \<Rightarrow> layer_heap d a
     | Some (i, c) \<Rightarrow> set_ctype (collectedType e i (layer_heap d a)) (layer_heap d a))"
  using assms
proof (induction xs arbitrary: d)
  case Nil
  then show ?case by simp
next
  case (Cons x xs)
  obtain i c where x: "x = (i, c)" by fastforce
  let ?d = "collectLayer e b x d"
  have heap: "layer_heap ?d a = (if c = a \<and> \<not> skippedLayer b (layer_heap d a)
      then set_ctype (collectedType e i (layer_heap d a)) (layer_heap d a) else layer_heap d a)"
    by (auto simp: x collectLayer_def Let_def upd_layer_def)
  show ?case
  proof (cases "c = a")
    case True
    then have "a \<notin> snd ` set xs" using Cons.prems by (simp add: x)
    then have none: "find (\<lambda>(i, c). c = a \<and> q) xs = None" for q
      by (force simp: find_None_iff)
    then have "layer_heap (fold (collectLayer e b) xs ?d) a = layer_heap ?d a"
      using Cons.IH [of ?d] Cons.prems none by simp
    then show ?thesis using heap True none [of False] by (simp add: x)
  next
    case False
    then have same: "layer_heap ?d a = layer_heap d a" using heap by simp
    have "\<not> (case x of (i, c) \<Rightarrow> c = a \<and> \<not> skippedLayer b (layer_heap d a))" by (simp add: x False)
    then show ?thesis using Cons.IH [of ?d, unfolded same] Cons.prems by simp
  qed
qed

end
