(* ===== verification/DisplayFrame.thy ===== *)
theory DisplayFrame
  imports DisplayLaws
begin

text \<open>
  The frame of a display: which layers are collected and in which order, which changes are reported,
  and that \<open>validateDisplay\<close> returns.
\<close>

section \<open>The layers of a frame\<close>

lemma hide_heap:
  "layer_heap (fold hideVideoStep ps d) a
     = (if a \<in> set ps \<and> hiddenVideo (layer_heap d a) \<and> mHideVideo d
        then set_ctype MESON_COMPOSITION_DUMMY (layer_heap d a) else layer_heap d a)
   \<and> mPresentLayers (fold hideVideoStep ps d) = mPresentLayers d"
proof (induction ps arbitrary: d)
  case Nil
  then show ?case by simp
next
  case (Cons x ps)
  have "mHideVideo (hideVideoStep x d) = mHideVideo d" "mPresentLayers (hideVideoStep x d) = mPresentLayers d"
    "layer_heap (hideVideoStep x d) a = (if x = a \<and> hiddenVideo (layer_heap d a) \<and> mHideVideo d
        then set_ctype MESON_COMPOSITION_DUMMY (layer_heap d a) else layer_heap d a)"
    by (auto simp: hideVideoStep_def upd_layer_def)
  then show ?case using Cons.IH [of "hideVideoStep x d"] by auto
qed

definition updates_list :: "'s hwc2_display \<Rightarrow> bool" where
  "updates_list d \<longleftrightarrow> (\<exists>a \<in> set (layer_objs d). mUpdateZorder (layer_heap d a))"

definition frameType :: "disp_env \<Rightarrow> 's hwc2_display \<Rightarrow> nat \<Rightarrow> hwc2_layer \<Rightarrow> meson_composition" where
  "frameType e d i l = (if hiddenVideo l \<and> mHideVideo d then MESON_COMPOSITION_DUMMY else collectedType e i l)"

lemma recollected_layers: "recollected d (collectLayersForPresent e d)"
proof -
  define d1 where "d1 = fold (collectLayer e (\<exists>a \<in> set (layer_objs d). mUpdateZorder (layer_heap d a))) (mLayers d) d"
  have "recollected d d1" unfolding d1_def by (rule recollected_fold [OF recollected_collect])
  moreover define d2 where "d2 = (if 1 < length (mPresentLayers d1)
    then d1\<lparr>mPresentLayers := std_sort e (\<lambda>a. fb_object.mZorder (layer_heap d1 a)) (mPresentLayers d1)\<rparr> else d1)"
  have "recollected d1 d2" by (simp add: d2_def recollected_present)
  moreover have "recollected d2 (collectLayersForPresent e d)"
    unfolding collectLayersForPresent_def Let_def d1_def [symmetric] d2_def [symmetric]
    by (rule recollected_fold [OF recollected_hide])
  ultimately show ?thesis using recollected_trans by blast
qed

lemma find_object:
  "(i, a) \<in> set xs \<Longrightarrow> distinct (map snd xs) \<Longrightarrow> q \<Longrightarrow> find (\<lambda>(j, c). c = a \<and> q) xs = Some (i, a)"
  by (induction xs) force+

lemma collect_layers:
  assumes env: "env_ok e" and objs: "distinct (layer_objs d)" and none: "mPresentLayers d = []"
  shows "mset (mPresentLayers (collectLayersForPresent e d))
      = mset (filter (\<lambda>a. \<not> skippedLayer (updates_list d) (layer_heap d a)) (layer_objs d))"
    and "sorted_wrt (\<lambda>a b. \<not> fb_object.mZorder (layer_heap d a) < fb_object.mZorder (layer_heap d b))
      (mPresentLayers (collectLayersForPresent e d))"
    and "(i, a) \<in> set (mLayers d) \<Longrightarrow> \<not> skippedLayer (updates_list d) (layer_heap d a)
      \<Longrightarrow> layer_heap (collectLayersForPresent e d) a = set_ctype (frameType e d i (layer_heap d a)) (layer_heap d a)"
proof -
  let ?b = "updates_list d"
  define d1 where "d1 = fold (collectLayer e ?b) (mLayers d) d"
  define d2 where "d2 = (if 1 < length (mPresentLayers d1)
    then d1\<lparr>mPresentLayers := std_sort e (\<lambda>a. fb_object.mZorder (layer_heap d1 a)) (mPresentLayers d1)\<rparr> else d1)"
  have run: "collectLayersForPresent e d = fold hideVideoStep (mPresentLayers d2) d2"
    by (simp add: collectLayersForPresent_def updates_list_def d1_def d2_def Let_def)
  have r1: "recollected d d1" unfolding d1_def by (rule recollected_fold [OF recollected_collect])
  then have z: "fb_object.mZorder (layer_heap d1 c) = fb_object.mZorder (layer_heap d c)" for c
    unfolding recollected_def by (metis hwc2_display.select_convs(2) hwc2_display.surjective
      hwc2_display.update_convs(2) hwc2_display.update_convs(15) set_ctype_simps(3))
  have p1: "mPresentLayers d1 = filter (\<lambda>a. \<not> skippedLayer ?b (layer_heap d a)) (layer_objs d)"
    unfolding d1_def collect_present using none by (simp add: layer_objs_def filter_map comp_def split_def)
  have h2: "layer_heap d2 = layer_heap d1" "mHideVideo d2 = mHideVideo d1" by (simp_all add: d2_def)
  have fin: "mPresentLayers (collectLayersForPresent e d) = mPresentLayers d2" unfolding run by (simp add: hide_heap)
  have p2: "mset (mPresentLayers d2) = mset (mPresentLayers d1)" using env by (simp add: d2_def env_ok_def)
  show "mset (mPresentLayers (collectLayersForPresent e d))
      = mset (filter (\<lambda>a. \<not> skippedLayer ?b (layer_heap d a)) (layer_objs d))"
    using p1 p2 fin by simp
  have short: "sorted_wrt P xs" if "\<not> 1 < length xs" for P and xs :: "nat list"
    using that by (cases xs) auto
  show "sorted_wrt (\<lambda>a b. \<not> fb_object.mZorder (layer_heap d a) < fb_object.mZorder (layer_heap d b))
      (mPresentLayers (collectLayersForPresent e d))"
    using env short unfolding fin d2_def env_ok_def by (simp add: z)
  assume ia: "(i, a) \<in> set (mLayers d)" and ns: "\<not> skippedLayer ?b (layer_heap d a)"
  show "layer_heap (collectLayersForPresent e d) a = set_ctype (frameType e d i (layer_heap d a)) (layer_heap d a)"
  proof -
    have dist: "distinct (map snd (mLayers d))" using objs by (simp add: layer_objs_def)
    have f: "find (\<lambda>(i, c). c = a \<and> \<not> skippedLayer ?b (layer_heap d a)) (mLayers d) = Some (i, a)"
      using find_object [OF ia dist ns] .
    have h1: "layer_heap d1 a = set_ctype (collectedType e i (layer_heap d a)) (layer_heap d a)"
      unfolding d1_def collect_types [OF dist] f by simp
    have "a \<in> set (mPresentLayers d2)"
      using ia ns p1 mset_eq_setD [OF p2] by (force simp: layer_objs_def)
    moreover have "mHideVideo d1 = mHideVideo d"
      using r1 by (auto simp: recollected_def)
    ultimately show ?thesis unfolding run by (simp add: hide_heap h2 h1 frameType_def)
  qed
qed

section \<open>The requests\<close>

definition changes_type :: "disp_env \<Rightarrow> hwc2_layer \<Rightarrow> bool" where
  "changes_type e l \<longleftrightarrow> \<not> mIsVirtualLayer l \<and> mesonComp2Hwc2Comp e l \<noteq> mHwcCompositionType l"

definition changed_ids :: "disp_env \<Rightarrow> 's hwc2_display \<Rightarrow> nat list" where
  "changed_ids e d = map (\<lambda>a. fb_object.mId (layer_heap d a))
     (filter (\<lambda>a. changes_type e (layer_heap d a)) (mPresentLayers d))"

definition decorated :: "'s hwc2_display \<Rightarrow> bool" where
  "decorated d \<longleftrightarrow> (\<exists>a \<in> set (mPresentLayers d). \<not> mIsVirtualLayer (layer_heap d a)
     \<and> fb_object.mFbType (layer_heap d a) = DRM_FB_DECORATION)"

lemma requestLayer_fields:
  "rq_changed (requestLayer e n l r) = rq_changed r @ (if changes_type e l then [fb_object.mId l] else [])"
  "rq_decoration (requestLayer e n l r)
     \<longleftrightarrow> rq_decoration r \<or> (\<not> mIsVirtualLayer l \<and> fb_object.mFbType l = DRM_FB_DECORATION)"
  by (simp_all add: requestLayer_def changes_type_def Let_def)

lemma request_fold:
  "rq_changed (fold (\<lambda>a. requestLayer e n (h a)) ps r) = rq_changed r
     @ map (\<lambda>a. fb_object.mId (h a)) (filter (\<lambda>a. changes_type e (h a)) ps)"
  "rq_decoration (fold (\<lambda>a. requestLayer e n (h a)) ps r) \<longleftrightarrow> rq_decoration r
     \<or> (\<exists>a \<in> set ps. \<not> mIsVirtualLayer (h a) \<and> fb_object.mFbType (h a) = DRM_FB_DECORATION)"
  by (induction ps arbitrary: r) (simp_all add: requestLayer_fields disj_assoc)

lemma selfAdaptive_frame:
  "\<exists>v l. selfAdaptive m r d = d\<lparr>mVideoLayerRegion := v, disp_log := l\<rparr>"
proof -
  have "selfAdaptive m r d = d\<lparr>mVideoLayerRegion := mVideoLayerRegion (selfAdaptive m r d),
      disp_log := disp_log (selfAdaptive m r d)\<rparr>"
    by (simp add: selfAdaptive_def disp_emit_def Let_def)
  then show ?thesis by blast
qed

text \<open>\<open>booked d d'\<close>: a step of the bookkeeping after the decision.\<close>

definition booked :: "'s hwc2_display \<Rightarrow> 's hwc2_display \<Rightarrow> bool" where
  "booked d d' \<longleftrightarrow> (\<exists>c o' f p v l. d' = d\<lparr>mChangedLayers := c, mOverlayLayers := o', mFailedDeviceComp := f,
     mProcessorFlags := p, mVideoLayerRegion := v, disp_log := l\<rparr>)"

lemma composition_request:
  assumes run: "collectCompositionRequest e d = (res, d')"
  shows "booked d d' \<and> mChangedLayers d' = mChangedLayers d @ changed_ids e d
    \<and> res = (if decorated d then HWC2_ERROR_UNSUPPORTED
             else if mChangedLayers d' \<noteq> [] then HWC2_ERROR_HAS_CHANGES else HWC2_ERROR_NONE,
             length (mChangedLayers d'), length (mOverlayLayers d'))"
proof -
  define r where "r = fold (\<lambda>a. requestLayer e (length (mPresentLayers d)) (layer_heap d a)) (mPresentLayers d)
            \<lparr>rq_changed = mChangedLayers d, rq_decoration = False, rq_failed = mFailedDeviceComp d,
             rq_flags = mProcessorFlags d, rq_maxRegion = 0, rq_maxRect = zero_rect\<rparr>"
  define d1 where "d1 = d\<lparr>mChangedLayers := rq_changed r, mFailedDeviceComp := rq_failed r,
                 mProcessorFlags := rq_flags r\<rparr>"
  obtain v l where d2: "selfAdaptive (rq_maxRegion r) (rq_maxRect r) d1 = d1\<lparr>mVideoLayerRegion := v, disp_log := l\<rparr>"
    using selfAdaptive_frame by blast
  have changed: "rq_changed r = mChangedLayers d @ changed_ids e d" and deco: "rq_decoration r \<longleftrightarrow> decorated d"
    by (simp_all add: r_def request_fold changed_ids_def decorated_def)
  define d3 where "d3 = (case map_of (mComposers d) MESON_CLIENT_COMPOSER of
                  None \<Rightarrow> d1\<lparr>mVideoLayerRegion := v, disp_log := l\<rparr>
                | Some c \<Rightarrow> (case composer_getOverlyFbs (composer_heap d c) of
                    None \<Rightarrow> d1\<lparr>mVideoLayerRegion := v, disp_log := l\<rparr>
                  | Some fs \<Rightarrow> d1\<lparr>mVideoLayerRegion := v, disp_log := l,
                      mOverlayLayers := mOverlayLayers d @ map (\<lambda>a. fb_object.mId (layer_heap d a)) fs\<rparr>))"
  have d3: "d3 = d\<lparr>mChangedLayers := rq_changed r, mOverlayLayers := mOverlayLayers d3,
     mFailedDeviceComp := rq_failed r, mProcessorFlags := rq_flags r, mVideoLayerRegion := v, disp_log := l\<rparr>"
    by (simp add: d3_def d1_def split: option.split)
  have eq: "collectCompositionRequest e d =
     ((if rq_decoration r then HWC2_ERROR_UNSUPPORTED
        else if 0 < length (mChangedLayers d3) then HWC2_ERROR_HAS_CHANGES else HWC2_ERROR_NONE,
        length (mChangedLayers d3), length (mOverlayLayers d3)), d3)"
    unfolding collectCompositionRequest_def Let_def r_def [symmetric] d1_def [symmetric] d2
    by (simp add: d3_def d1_def cong: option.case_cong)
  have "d' = d3" "res = (if decorated d then HWC2_ERROR_UNSUPPORTED
        else if 0 < length (mChangedLayers d3) then HWC2_ERROR_HAS_CHANGES else HWC2_ERROR_NONE,
        length (mChangedLayers d3), length (mOverlayLayers d3))"
    using run [unfolded eq deco prod.inject] by blast+
  moreover have "mChangedLayers d3 = mChangedLayers d @ changed_ids e d" 
    by (simp add: d3_def d1_def changed split: option.split)
  moreover have "booked d d3" using d3 unfolding booked_def by blast
  ultimately show ?thesis by simp
qed

section \<open>After the decision\<close>

definition refreshed :: "hwc2_layer \<Rightarrow> hwc2_layer \<Rightarrow> bool" where
  "refreshed l l' \<longleftrightarrow> (\<exists>b. l' = l\<lparr>mVtRefreshed := b\<rparr>)"

lemma refreshed_refl [simp]: "refreshed l l"
  unfolding refreshed_def by (rule exI [of _ "mVtRefreshed l"]) simp

lemma mesonComp_cong:
  "fb_object.mFbType l' = fb_object.mFbType l \<Longrightarrow> fb_object.mCompositionType l' = fb_object.mCompositionType l
     \<Longrightarrow> mesonComp2Hwc2Comp e l' = mesonComp2Hwc2Comp e l"
  by (simp only: mesonComp2Hwc2Comp_def)

lemma refreshed_same:
  assumes "refreshed l l'"
  shows "mesonComp2Hwc2Comp e l' = mesonComp2Hwc2Comp e l" "mHwcCompositionType l' = mHwcCompositionType l"
    "fb_object.mCompositionType l' = fb_object.mCompositionType l" "fb_object.mId l' = fb_object.mId l"
    "mIsVirtualLayer l' = mIsVirtualLayer l" "fb_object.mZorder l' = fb_object.mZorder l" "tame l l'"
proof -
  obtain b where l': "l' = l\<lparr>mVtRefreshed := b\<rparr>" using assms by (auto simp: refreshed_def)
  show "tame l l'" unfolding l' by (rule tame_custody) (simp_all add: custody_unfold)
  show "mesonComp2Hwc2Comp e l' = mesonComp2Hwc2Comp e l" by (rule mesonComp_cong) (simp_all add: l')
qed (use assms in \<open>auto simp: refreshed_def\<close>)

text \<open>Nothing but \<open>vtRefresh\<close> happens to a layer after the decision.\<close>

lemma refresh_heap:
  "\<exists>h. fold (refreshVtLayer e False) ps d = d\<lparr>layer_heap := h\<rparr> \<and> (\<forall>a. refreshed (layer_heap d a) (h a))"
proof (induction ps arbitrary: d)
  case Nil
  show ?case by (rule exI [of _ "layer_heap d"]) simp
next
  case (Cons x ps)
  define h where "h = layer_heap (refreshVtLayer e False x d)"
  have d1: "refreshVtLayer e False x d = d\<lparr>layer_heap := h\<rparr>"
    by (simp add: h_def refreshVtLayer_def upd_layer_def)
  have "h a = layer_heap d a \<or> h a = vtRefresh (layer_heap d a)" for a
    by (simp add: h_def refreshVtLayer_def upd_layer_def)
  then have h: "refreshed (layer_heap d a) (h a)" for a
    by (metis refreshed_refl refreshed_def vtRefresh_def)
  from Cons.IH [of "d\<lparr>layer_heap := h\<rparr>"] obtain k where
    k: "fold (refreshVtLayer e False) ps (d\<lparr>layer_heap := h\<rparr>) = d\<lparr>layer_heap := k\<rparr>" "\<forall>a. refreshed (h a) (k a)"
    by auto
  have "refreshed (layer_heap d a) (k a)" for a
    using h [of a] k(2) by (auto simp: refreshed_def dest!: spec [of _ a])
  then show ?case using k(1) d1 by (intro exI [of _ k]) simp
qed

definition vsync_set :: "'s hwc2_display \<Rightarrow> bool" where
  "vsync_set d \<longleftrightarrow> mVsync d \<noteq> None"

lemma adjustVsync_ok:
  assumes "vsync_set d"
  shows "\<exists>b l. adjustVsyncMode e d = Inr (d\<lparr>mHasVideoPresent := b, disp_log := l\<rparr>)"
proof -
  obtain v where v: "mVsync d = Some v" using assms by (auto simp: vsync_set_def)
  have "adjustVsyncMode e d = Inr (d\<lparr>mHasVideoPresent := hasVideoLayerPresent d, disp_log :=
     (if hasVideoLayerPresent d then (if mHasVideoPresent d then disp_log d else disp_log d @ [VsyncMixMode])
      else if mHasVideoPresent d
      then disp_log d @ [if softwareVsyncEnabled e then VsyncSoftwareMode else VsyncHwMode] else disp_log d)\<rparr>)"
    by (simp add: adjustVsyncMode_def disp_emit_def getE_def v)
  then show ?thesis by blast
qed

definition validated :: "disp_env \<Rightarrow> 's hwc2_display \<Rightarrow> hwc2_error_t \<times> (nat \<times> nat) option
    \<Rightarrow> 's hwc2_display \<Rightarrow> bool" where
  "validated e d res d' \<longleftrightarrow> (\<forall>a. refreshed (layer_heap d a) (layer_heap d' a))
     \<and> mLayers d' = mLayers d \<and> layer_gen d' = layer_gen d \<and> objs_made d' = objs_made d
     \<and> mPresentLayers d' = mPresentLayers d \<and> mHwcPowerMode d' = mHwcPowerMode d
     \<and> mSkipComposition d' = mSkipComposition d \<and> mConfirmSkip d' = mConfirmSkip d
     \<and> stg_heap d' = stg_heap d \<and> mCompositionStrategy d' = mCompositionStrategy d
     \<and> mPresentCompositionStg d' = mPresentCompositionStg d \<and> mDisplayCrtc d' = mDisplayCrtc d
     \<and> mVsync d' = mVsync d \<and> mValidateDisplay d' \<and> composer_heap d' = composer_heap d
     \<and> mChangedLayers d' = mChangedLayers d @ changed_ids e d
     \<and> res = (if decorated d then HWC2_ERROR_UNSUPPORTED
             else if mChangedLayers d' \<noteq> [] then HWC2_ERROR_HAS_CHANGES else HWC2_ERROR_NONE,
             Some (length (mChangedLayers d'), length (mOverlayLayers d')))"

lemma validateRequests_ok:
  assumes "vsync_set d"
  shows "okE (validateRequests e d) (\<lambda>(res, d'). validated e d res d')"
proof -
  obtain res d1 where c: "collectCompositionRequest e d = (res, d1)" by fastforce
  note r = composition_request [OF c]
  from r have "booked d d1" by blast
  then obtain c o' f p v l where d1: "d1 = d\<lparr>mChangedLayers := c, mOverlayLayers := o', mFailedDeviceComp := f,
     mProcessorFlags := p, mVideoLayerRegion := v, disp_log := l\<rparr>" unfolding booked_def by blast
  define p' where "p' = (if getScreenStatus (mHwcPowerMode d1) then or (mProcessorFlags d1) PRESENT_BLANK
    else mProcessorFlags d1)"
  have d2: "(if getScreenStatus (mHwcPowerMode d1)
      then d1\<lparr>mProcessorFlags := or (mProcessorFlags d1) PRESENT_BLANK\<rparr> else d1) = d1\<lparr>mProcessorFlags := p'\<rparr>"
    by (simp add: p'_def)
  let ?d3 = "d1\<lparr>mProcessorFlags := p', mValidateDisplay := True\<rparr>"
  have "vsync_set ?d3" using assms by (simp add: d1 vsync_set_def)
  from adjustVsync_ok [OF this] obtain b k where d4: "adjustVsyncMode e ?d3 = Inr (?d3\<lparr>mHasVideoPresent := b, disp_log := k\<rparr>)"
    by blast
  obtain h where h: "refreshVtLayersLocked e False (?d3\<lparr>mHasVideoPresent := b, disp_log := k\<rparr>)
      = (?d3\<lparr>mHasVideoPresent := b, disp_log := k\<rparr>)\<lparr>layer_heap := h\<rparr>" "\<forall>a. refreshed (layer_heap d a) (h a)"
    using refresh_heap [of e "layer_objs ?d3" "?d3\<lparr>mHasVideoPresent := b, disp_log := k\<rparr>"]
    unfolding refreshVtLayersLocked_def by (auto simp: layer_objs_def d1)
  let ?d5 = "(?d3\<lparr>mHasVideoPresent := b, disp_log := k\<rparr>)\<lparr>layer_heap := h\<rparr>"
  obtain ret nt nr where res: "res = (ret, nt, nr)" by (cases res)
  have run: "validateRequests e d = Inr ((ret, Some (nt, nr)), ?d5)"
    unfolding validateRequests_def c res Let_def prod.case d2 d4 bindE_simps h(1) ..
  have fields: "mChangedLayers d1 = mChangedLayers d @ changed_ids e d" "ret = (if decorated d then HWC2_ERROR_UNSUPPORTED
             else if mChangedLayers d1 \<noteq> [] then HWC2_ERROR_HAS_CHANGES else HWC2_ERROR_NONE)"
    "nt = length (mChangedLayers d1)" "nr = length (mOverlayLayers d1)"
    using r res by simp_all
  have "validated e d (ret, Some (nt, nr)) ?d5"
    unfolding validated_def fields(2-4) using h(2) fields(1) by (simp add: d1)
  then show ?thesis by (simp add: run)
qed

end
