(* ===== verification/DisplayValidate.thy ===== *)
theory DisplayValidate
  imports DisplayFrame
begin

text \<open>
  \<open>validateDisplay\<close> returns: \<open>composition_stg\<close> is what a display needs of its strategy, and from it
  \<open>validate_ok\<close> follows for every strategy that keeps the contract.
\<close>

section \<open>What stays of a layer until the decision\<close>

definition same_shape :: "hwc2_layer \<Rightarrow> hwc2_layer \<Rightarrow> bool" where
  "same_shape l l' \<longleftrightarrow> fb_object.mZorder l' = fb_object.mZorder l \<and> fb_object.mFbType l' = fb_object.mFbType l
     \<and> mHwcCompositionType l' = mHwcCompositionType l \<and> tame l l'"

lemma same_shape_refl [simp]: "same_shape l l"
  by (simp add: same_shape_def)

lemma same_shape_trans: "same_shape l m \<Longrightarrow> same_shape m n \<Longrightarrow> same_shape l n"
  unfolding same_shape_def using tame_trans by metis

lemma same_shape_ops:
  "same_shape l (set_ctype t l)" "same_shape l (read_fb f l)" "same_shape l (adjustDisplayFrame p z l)"
  "same_shape l (vtRefresh (setLayerUpdate b l))"
  using tame_simps by (simp_all add: same_shape_def set_ctype_def read_fb_def adjustDisplayFrame_def
    adjustDisplayFrameLocked_def vtRefresh_def setLayerUpdate_def Let_def)

text \<open>\<open>shaped d d'\<close>: a step of \<open>validateDisplay\<close> that leaves the lists of the display alone.\<close>

definition shaped :: "'s hwc2_display \<Rightarrow> 's hwc2_display \<Rightarrow> bool" where
  "shaped d d' \<longleftrightarrow> mLayers d' = mLayers d \<and> layer_gen d' = layer_gen d \<and> objs_made d \<le> objs_made d'
     \<and> mPresentLayers d' = mPresentLayers d \<and> mChangedLayers d' = mChangedLayers d
     \<and> (\<forall>a. same_shape (layer_heap d a) (layer_heap d' a))
     \<and> mPresentCompositionStg d' = mPresentCompositionStg d \<and> mDisplayCrtc d' = mDisplayCrtc d
     \<and> mCompositionStrategy d' = mCompositionStrategy d
     \<and> mVsync d' = mVsync d \<and> mComposers d' = mComposers d \<and> mPlanes d' = mPlanes d
     \<and> mPresentComposers d' = mPresentComposers d \<and> mPresentPlanes d' = mPresentPlanes d"

lemma shaped_refl [simp]: "shaped d d"
  by (simp add: shaped_def)

lemma shaped_trans: "shaped d d1 \<Longrightarrow> shaped d1 d2 \<Longrightarrow> shaped d d2"
  unfolding shaped_def using same_shape_trans by (metis order_trans)

lemma shaped_keeps: "shaped d d' \<Longrightarrow> keeps_layers d d'"
  by (auto simp: shaped_def keeps_layers_def same_shape_def live_def)

definition stg_same :: "'s hwc2_display \<Rightarrow> 's hwc2_display \<Rightarrow> bool" where
  "stg_same d d' \<longleftrightarrow> stg_heap d' = stg_heap d \<and> composer_heap d' = composer_heap d
     \<and> objs_made d' = objs_made d \<and> mSkipComposition d' = mSkipComposition d
     \<and> mHwcPowerMode d' = mHwcPowerMode d"

lemma stg_same_trans: "stg_same d d1 \<Longrightarrow> stg_same d1 d2 \<Longrightarrow> stg_same d d2"
  by (simp add: stg_same_def)

lemma fold_shaped:
  "(\<And>a d. shaped d (f a d) \<and> stg_same d (f a d)) \<Longrightarrow> shaped d (fold f xs d) \<and> stg_same d (fold f xs d)"
proof (induction xs arbitrary: d)
  case Nil
  then show ?case by (simp add: stg_same_def)
next
  case (Cons x xs)
  from Cons.IH [OF Cons.prems, of "f x d"] Cons.prems [of d x]
  show ?case using shaped_trans stg_same_trans by (metis fold_simps(2))
qed

lemma upd_shaped:
  "(\<And>l. same_shape l (f l)) \<Longrightarrow> shaped d (upd_layer a f d) \<and> stg_same d (upd_layer a f d)"
  by (simp add: shaped_def stg_same_def upd_layer_def)

lemma adjust_shaped: "shaped d (disp_adjustDisplayFrame e d) \<and> stg_same d (disp_adjustDisplayFrame e d)"
proof -
  have "shaped d (adjustLayer e b a d) \<and> stg_same d (adjustLayer e b a d)" for b a and d :: "'s hwc2_display"
  proof -
    let ?d = "upd_layer a (adjustDisplayFrame (vtp e) (mDispCalibrateInfo d)) d"
    have 1: "shaped d ?d \<and> stg_same d ?d" by (rule upd_shaped) (rule same_shape_ops)
    have 2: "shaped ?d (upd_layer a (\<lambda>l. vtRefresh (setLayerUpdate True l)) ?d)
        \<and> stg_same ?d (upd_layer a (\<lambda>l. vtRefresh (setLayerUpdate True l)) ?d)"
      by (rule upd_shaped) (rule same_shape_ops)
    show ?thesis
      using 1 shaped_trans [OF conjunct1 [OF 1] conjunct1 [OF 2]] stg_same_trans [OF conjunct2 [OF 1] conjunct2 [OF 2]]
      by (simp add: adjustLayer_def Let_def)
  qed
  from fold_shaped [of "adjustLayer e (mOutsideChanged d)" "d\<lparr>mOutsideChanged := False\<rparr>" "mPresentLayers d", OF this]
  have f: "shaped (d\<lparr>mOutsideChanged := False\<rparr>) (disp_adjustDisplayFrame e d)
      \<and> stg_same (d\<lparr>mOutsideChanged := False\<rparr>) (disp_adjustDisplayFrame e d)"
    by (simp add: disp_adjustDisplayFrame_def)
  have "shaped d (d\<lparr>mOutsideChanged := False\<rparr>)" "stg_same d (d\<lparr>mOutsideChanged := False\<rparr>)"
    by (simp_all add: shaped_def stg_same_def)
  with f show ?thesis using shaped_trans stg_same_trans by blast
qed

lemma calibrate_shaped: "shaped d (loadCalibrateInfo d) \<and> stg_same d (loadCalibrateInfo d)"
  by (cases "mCalibrateCoordinates d") (simp add: loadCalibrateInfo_def shaped_def stg_same_def)

section \<open>Blanking\<close>

lemma dummy_fold:
  "\<exists>h. fold (\<lambda>a. upd_layer a (set_ctype t)) ps d = d\<lparr>layer_heap := h\<rparr>
     \<and> (\<forall>a. h a = (if a \<in> set ps then set_ctype t (layer_heap d a) else layer_heap d a))"
proof (induction ps arbitrary: d)
  case Nil
  show ?case by (rule exI [of _ "layer_heap d"]) simp
next
  case (Cons x ps)
  obtain h where h: "fold (\<lambda>a. upd_layer a (set_ctype t)) ps (upd_layer x (set_ctype t) d)
      = (upd_layer x (set_ctype t) d)\<lparr>layer_heap := h\<rparr>"
    "\<forall>a. h a = (if a \<in> set ps then set_ctype t (layer_heap (upd_layer x (set_ctype t) d) a)
       else layer_heap (upd_layer x (set_ctype t) d) a)"
    using Cons.IH by blast
  have eq: "fold (\<lambda>a. upd_layer a (set_ctype t)) (x # ps) d = d\<lparr>layer_heap := h\<rparr>"
    unfolding fold_simps h(1) by (simp add: upd_layer_def)
  have "h a = (if a \<in> set (x # ps) then set_ctype t (layer_heap d a) else layer_heap d a)" for a
    using h(2) by (simp add: upd_layer_def)
  with eq show ?case by blast
qed

definition need_blank_frame :: "disp_env \<Rightarrow> 's hwc2_display \<Rightarrow> bool" where
  "need_blank_frame e d \<longleftrightarrow> needBlankScreen (powerc e) (mPresentLayers d \<noteq> []) (mHwcPowerMode d)"

lemma checkPower_cases:
  "if need_blank_frame e d
   then (\<exists>h. checkPower e d = (if getScreenStatus (mHwcPowerMode d) then d\<lparr>layer_heap := h, mSkipComposition := True\<rparr>
           else d\<lparr>layer_heap := h, mConfirmSkip := True\<rparr>)
         \<and> (\<forall>a. h a = (if a \<in> set (mPresentLayers d) then set_ctype MESON_COMPOSITION_DUMMY (layer_heap d a)
              else layer_heap d a)))
   else checkPower e d = d"
  using dummy_fold [of MESON_COMPOSITION_DUMMY "mPresentLayers d" d]
  unfolding checkPower_def need_blank_frame_def Let_def by auto

lemma checkPower_shaped: "shaped d (checkPower e d)"
proof (cases "need_blank_frame e d")
  case False
  with checkPower_cases [of e d] show ?thesis by simp
next
  case True
  with checkPower_cases [of e d] obtain h where
    "checkPower e d = (if getScreenStatus (mHwcPowerMode d) then d\<lparr>layer_heap := h, mSkipComposition := True\<rparr>
           else d\<lparr>layer_heap := h, mConfirmSkip := True\<rparr>)"
    "\<forall>a. h a = (if a \<in> set (mPresentLayers d) then set_ctype MESON_COMPOSITION_DUMMY (layer_heap d a)
              else layer_heap d a)" by auto
  then show ?thesis by (simp add: shaped_def same_shape_ops)
qed

section \<open>What a frame starts from and ends with\<close>

definition frame_layers :: "u32 \<Rightarrow> 's hwc2_display \<Rightarrow> nat list \<Rightarrow> bool" where
  "frame_layers iv d layers \<longleftrightarrow> distinct (map (\<lambda>a. fb_object.mZorder (layer_heap d a)) layers)
     \<and> (\<forall>a \<in> set layers. a < objs_made d \<and> fb_object.mZorder (layer_heap d a) \<noteq> iv)
     \<and> int (length layers) < 2 ^ 31"

definition typed_layers :: "'s hwc2_display \<Rightarrow> bool" where
  "typed_layers d \<longleftrightarrow> (\<forall>a \<in> set (mPresentLayers d).
     fb_object.mCompositionType (layer_heap d a) \<noteq> MESON_COMPOSITION_UNDETERMINED)"

section \<open>The contract of a strategy\<close>

locale composition_stg =
  fixes g :: "'s stg_ops"
    and fit :: "(cid \<Rightarrow> composer) \<Rightarrow> cid list \<Rightarrow> hw_display_plane list \<Rightarrow> bool"
    and invalid_z :: "'s \<Rightarrow> u32"
    and stg_ready :: "'s \<Rightarrow> bool"
  assumes decides: "stg_ready s \<Longrightarrow> distinct (map (\<lambda>f. drm_framebuffer.mZorder (h f)) layers)
    \<Longrightarrow> \<forall>f \<in> set layers. f < n \<and> drm_framebuffer.mZorder (h f) \<noteq> invalid_z s
    \<Longrightarrow> int (length layers) < 2 ^ 31 \<Longrightarrow> fit cs css planes
    \<Longrightarrow> okE (bindE (stg_setup g layers css planes (Some crtc) flags scale mode (stg_install g h cs n s)) (stg_decide g))
      (\<lambda>(r, t). 0 \<le> r \<and> (\<forall>f \<in> set layers.
        drm_framebuffer.mCompositionType (stg_fbs g t f) \<noteq> MESON_COMPOSITION_UNDETERMINED))"
begin

lemma decide_ok:
  assumes k: "mPresentCompositionStg d = Some k" and crtc: "mDisplayCrtc d = Some c"
    and inp: "frame_layers (invalid_z (stg_heap d k)) d (mPresentLayers d)"
    and sr: "stg_ready (stg_heap d k)"
    and fit: "fit (composer_heap d) (mPresentComposers d) (mPresentPlanes d)"
  shows "okE (decideStrategy e g flags d) (\<lambda>(r, d'). 0 \<le> r \<and> shaped d d' \<and> typed_layers d'
    \<and> mSkipComposition d' = mSkipComposition d
    \<and> mHwcPowerMode d' = setScreenStatus (mPresentLayers d = [] \<or> mConfirmSkip d) (mHwcPowerMode d))"
proof -
  define d1 where "d1 = upd_power (setScreenStatus (mPresentLayers d = [] \<or> mConfirmSkip d)) d"
  define d3 where "d3 = (if mPresentLayers (loadCalibrateInfo d1) = [] then loadCalibrateInfo d1
    else disp_adjustDisplayFrame e (loadCalibrateInfo d1))"
  have s1: "shaped d d1" "stg_heap d1 = stg_heap d" "composer_heap d1 = composer_heap d"
    "objs_made d1 = objs_made d" "mSkipComposition d1 = mSkipComposition d"
    "mHwcPowerMode d1 = setScreenStatus (mPresentLayers d = [] \<or> mConfirmSkip d) (mHwcPowerMode d)"
    by (simp_all add: d1_def upd_power_def shaped_def)
  note cal = calibrate_shaped [of d1]
  note adj = adjust_shaped [of "loadCalibrateInfo d1" e]
  have s3: "shaped d1 d3 \<and> stg_same d1 d3"
    using cal shaped_trans [OF conjunct1 [OF cal] conjunct1 [OF adj]]
      stg_same_trans [OF conjunct2 [OF cal] conjunct2 [OF adj]]
    by (simp add: d3_def)
  have sd: "shaped d d3" using shaped_trans [OF s1(1) conjunct1 [OF s3]] .
  define d4 where "d4 = disp_emit StrategyDecide (disp_emit (StrategySetup (mPresentLayers d3) flags) d3)"
  have run: "decideStrategy e g flags d = with_stg g k (\<lambda>s. bindE (stg_setup g (mPresentLayers d3)
      (mPresentComposers d3) (mPresentPlanes d3) (mDisplayCrtc d3) flags (mDispScaleValue d3) (mDisplayMode d3) s)
      (stg_decide g)) d4"
    unfolding decideStrategy_def d1_def [symmetric] Let_def d3_def [symmetric] d4_def
    using sd k by (simp add: getE_def shaped_def)
  have d4: "layer_heap d4 = layer_heap d3" "mPresentLayers d4 = mPresentLayers d" "stg_heap d4 = stg_heap d"
    "composer_heap d4 = composer_heap d" "objs_made d4 = objs_made d"
    using sd s1(2-4) conjunct2 [OF s3] by (simp_all add: d4_def disp_emit_def shaped_def stg_same_def)
  have z: "drm_framebuffer.mZorder (shared_fbs d4 a) = fb_object.mZorder (layer_heap d a)" if "a \<in> set (mPresentLayers d)" for a
    using that sd by (simp add: shared_fbs_def live_def d4 layer_fb_def shaped_def same_shape_def)
  have mz: "map (\<lambda>a. drm_framebuffer.mZorder (shared_fbs d4 a)) (mPresentLayers d)
      = map (\<lambda>a. fb_object.mZorder (layer_heap d a)) (mPresentLayers d)" by (simp add: z)
  have lists: "mPresentLayers d3 = mPresentLayers d" "mPresentComposers d3 = mPresentComposers d"
    "mPresentPlanes d3 = mPresentPlanes d" "mDisplayCrtc d3 = Some c" using sd crtc by (simp_all add: shaped_def)
  have dec: "okE (bindE (stg_setup g (mPresentLayers d) (mPresentComposers d) (mPresentPlanes d) (Some c) flags
      (mDispScaleValue d3) (mDisplayMode d3) (stg_install g (shared_fbs d4) (composer_heap d) (objs_made d) (stg_heap d k)))
      (stg_decide g)) (\<lambda>(r, t). 0 \<le> r \<and> (\<forall>f \<in> set (mPresentLayers d).
        drm_framebuffer.mCompositionType (stg_fbs g t f) \<noteq> MESON_COMPOSITION_UNDETERMINED))"
  proof (rule decides)
    show "distinct (map (\<lambda>f. drm_framebuffer.mZorder (shared_fbs d4 f)) (mPresentLayers d))"
      unfolding mz using inp by (simp add: frame_layers_def)
  qed (use inp z fit sr in \<open>simp_all add: frame_layers_def\<close>)
  have after: "shaped d (read_back g k s d4) \<and> typed_layers (read_back g k s d4)
      \<and> mSkipComposition (read_back g k s d4) = mSkipComposition d \<and> mHwcPowerMode (read_back g k s d4) = mHwcPowerMode d1"
    if "\<forall>f \<in> set (mPresentLayers d). drm_framebuffer.mCompositionType (stg_fbs g s f) \<noteq> MESON_COMPOSITION_UNDETERMINED" for s
  proof (intro conjI)
    have "shaped d3 (read_back g k s d4)"
      using same_shape_ops(2) by (simp add: shaped_def read_back_def d4_def disp_emit_def)
    with sd show "shaped d (read_back g k s d4)" by (rule shaped_trans)
    show "typed_layers (read_back g k s d4)"
      using that by (simp add: typed_layers_def read_back_def d4 live_def read_fb_def)
  qed (use conjunct2 [OF s3] s1(5) in \<open>simp_all add: read_back_def d4_def disp_emit_def stg_same_def\<close>)
  show ?thesis
    unfolding run lists with_stg_def install_def d4(3-5) okE_bindE [of "bindE _ _"]
    by (rule okE_mono [OF dec]) (use after s1(6) in auto)
qed

end

end
