(* ===== verification/DisplayValid.thy ===== *)
theory DisplayValid
  imports DisplayValidate
begin

text \<open>
  What one call of \<open>validateDisplay\<close> leaves behind. Under the contract of a strategy, the locale
  \<open>composition_stg\<close>, the call returns and \<open>frame_validated\<close> describes its result.
\<close>

section \<open>One call of validateDisplay\<close>

definition at_frame :: "disp_env \<Rightarrow> 's hwc2_display \<Rightarrow> 's hwc2_display \<Rightarrow> bool" where
  "at_frame e d d1 \<longleftrightarrow> mset (mPresentLayers d1)
       = mset (filter (\<lambda>a. \<not> skippedLayer (updates_list d) (layer_heap d a)) (layer_objs d))
     \<and> sorted_wrt (\<lambda>a b. \<not> fb_object.mZorder (layer_heap d a) < fb_object.mZorder (layer_heap d b)) (mPresentLayers d1)"

lemma collectForPresent_frame:
  "\<exists>h ps. collectForPresent e d = (clearComposition d)\<lparr>layer_heap := h, mPresentLayers := ps,
       mPresentComposers := map snd (mComposers d), mPresentPlanes := mPlanes d,
       mPresentCompositionStg := mCompositionStrategy d\<rparr>
     \<and> (\<forall>a. \<exists>t. h a = set_ctype t (layer_heap d a))
     \<and> collectLayersForPresent e (clearComposition d) = (clearComposition d)\<lparr>layer_heap := h, mPresentLayers := ps\<rparr>"
proof -
  obtain h ps where r: "collectLayersForPresent e (clearComposition d)
      = (clearComposition d)\<lparr>layer_heap := h, mPresentLayers := ps\<rparr>"
    and h: "\<forall>a. \<exists>t. h a = set_ctype t (layer_heap (clearComposition d) a)"
    using recollected_layers [of "clearComposition d" e] by (auto simp: recollected_def)
  have "collectForPresent e d = (clearComposition d)\<lparr>layer_heap := h, mPresentLayers := ps,
       mPresentComposers := map snd (mComposers d), mPresentPlanes := mPlanes d,
       mPresentCompositionStg := mCompositionStrategy d\<rparr>"
    unfolding collectForPresent_def r
    by (simp add: collectComposersForPresent_def collectPlanesForPresent_def collectCompositionStgForPresent_def
      clearComposition_def)
  with h r show ?thesis by (intro exI [of _ h] exI [of _ ps]) (simp add: clearComposition_def)
qed

lemma tame_ctype: "l' = set_ctype t l \<Longrightarrow> tame l l'"
  using tame_set_ctype by simp

lemma collected_frame:
  assumes env: "env_ok e" and objs: "distinct (layer_objs d)" and d1: "d1 = collectForPresent e d"
  shows "keeps_layers d d1" "at_frame e d d1" "mPresentCompositionStg d1 = mCompositionStrategy d"
    "mDisplayCrtc d1 = mDisplayCrtc d" "mVsync d1 = mVsync d" "stg_heap d1 = stg_heap d"
    "composer_heap d1 = composer_heap d" "objs_made d1 = objs_made d" "mChangedLayers d1 = []"
    "mSkipComposition d1 = False" "mConfirmSkip d1 = False" "mHwcPowerMode d1 = mHwcPowerMode d"
    "mPresentComposers d1 = map snd (mComposers d)" "mPresentPlanes d1 = mPlanes d"
    "mCompositionStrategy d1 = mCompositionStrategy d" "mComposers d1 = mComposers d"
    "\<forall>a. \<exists>t. layer_heap d1 a = set_ctype t (layer_heap d a)" "mset (mPresentLayers d1) \<subseteq># mset (layer_objs d)"
proof -
  obtain h ps where d1': "d1 = (clearComposition d)\<lparr>layer_heap := h, mPresentLayers := ps,
       mPresentComposers := map snd (mComposers d), mPresentPlanes := mPlanes d,
       mPresentCompositionStg := mCompositionStrategy d\<rparr>"
    and h: "\<forall>a. \<exists>t. h a = set_ctype t (layer_heap d a)"
    and c: "collectLayersForPresent e (clearComposition d) = (clearComposition d)\<lparr>layer_heap := h, mPresentLayers := ps\<rparr>"
    using collectForPresent_frame [of e d] unfolding d1 by blast
  show "mPresentCompositionStg d1 = mCompositionStrategy d"
    "mDisplayCrtc d1 = mDisplayCrtc d" "mVsync d1 = mVsync d" "stg_heap d1 = stg_heap d"
    "composer_heap d1 = composer_heap d" "objs_made d1 = objs_made d" "mChangedLayers d1 = []"
    "mSkipComposition d1 = False" "mConfirmSkip d1 = False" "mHwcPowerMode d1 = mHwcPowerMode d"
    "mPresentComposers d1 = map snd (mComposers d)" "mPresentPlanes d1 = mPlanes d"
    "mCompositionStrategy d1 = mCompositionStrategy d" "mComposers d1 = mComposers d"
    by (simp_all add: d1' clearComposition_def)
  have none: "mPresentLayers (clearComposition d) = []" by (simp add: clearComposition_def)
  have objs': "distinct (layer_objs (clearComposition d))" using objs by (simp add: clearComposition_def layer_objs_def)
  have same: "layer_heap (clearComposition d) = layer_heap d" "layer_objs (clearComposition d) = layer_objs d"
    "updates_list (clearComposition d) = updates_list d"
    by (simp_all add: clearComposition_def layer_objs_def updates_list_def)
  have p: "mPresentLayers d1 = ps" by (simp add: d1')
  show af: "at_frame e d d1"
    using collect_layers(1,2) [OF env objs' none] unfolding at_frame_def same c p by simp
  show sub: "mset (mPresentLayers d1) \<subseteq># mset (layer_objs d)"
    using af by (simp add: at_frame_def)
  then have "set ps \<subseteq> set (layer_objs d)" using p set_mset_mono by fastforce
  then show "keeps_layers d d1"
    using h by (auto simp: keeps_layers_def live_def d1' clearComposition_def intro: tame_ctype)
  show "\<forall>a. \<exists>t. layer_heap d1 a = set_ctype t (layer_heap d a)" using h by (simp add: d1')
qed

lemma same_shape_frame:
  "frame_layers iv d layers \<Longrightarrow> objs_made d \<le> objs_made d'
   \<Longrightarrow> \<forall>a. fb_object.mZorder (layer_heap d' a) = fb_object.mZorder (layer_heap d a)
   \<Longrightarrow> mset layers' \<subseteq># mset layers \<Longrightarrow> frame_layers iv d' layers'"
proof -
  assume f: "frame_layers iv d layers" and n: "objs_made d \<le> objs_made d'"
    and z: "\<forall>a. fb_object.mZorder (layer_heap d' a) = fb_object.mZorder (layer_heap d a)"
    and sub: "mset layers' \<subseteq># mset layers"
  from sub obtain M where "mset layers = mset layers' + M" by (auto simp: mset_subset_eq_exists_conv)
  moreover obtain zs where "mset zs = M" using ex_mset by blast
  ultimately have perm: "mset layers = mset (layers' @ zs)" by simp
  have "mset (map (\<lambda>a. fb_object.mZorder (layer_heap d a)) layers)
      = mset (map (\<lambda>a. fb_object.mZorder (layer_heap d a)) (layers' @ zs))" by (simp only: mset_map perm)
  then have "distinct (map (\<lambda>a. fb_object.mZorder (layer_heap d a)) (layers' @ zs))"
    using f mset_eq_imp_distinct_iff unfolding frame_layers_def by blast
  then have "distinct (map (\<lambda>a. fb_object.mZorder (layer_heap d a)) layers')" by simp
  moreover have "set layers' \<subseteq> set layers" using sub set_mset_mono by fastforce
  moreover have "length layers' \<le> length layers" using size_mset_mono [OF sub] by simp
  moreover have "a < objs_made d' \<and> fb_object.mZorder (layer_heap d' a) \<noteq> iv" if "a \<in> set layers" for a
    using that f n z unfolding frame_layers_def by (metis less_le_trans)
  ultimately show "frame_layers iv d' layers'" unfolding frame_layers_def using f z by (auto simp: frame_layers_def)
qed

definition frame_validated :: "disp_env \<Rightarrow> 's hwc2_display \<Rightarrow> hwc2_error_t \<times> (nat \<times> nat) option
    \<Rightarrow> 's hwc2_display \<Rightarrow> bool" where
  "frame_validated e d res d' \<longleftrightarrow> keeps_layers d d' \<and> at_frame e d d' \<and> typed_layers d' \<and> mValidateDisplay d'
     \<and> mChangedLayers d' = changed_ids e d'
     \<and> res = (if decorated d' then HWC2_ERROR_UNSUPPORTED
              else if changed_ids e d' \<noteq> [] then HWC2_ERROR_HAS_CHANGES else HWC2_ERROR_NONE,
              Some (length (changed_ids e d'), length (mOverlayLayers d')))
     \<and> getScreenStatus (mHwcPowerMode d')
         = needBlankScreen (powerc e) (mPresentLayers d' \<noteq> []) (mHwcPowerMode d)
     \<and> (mSkipComposition d' \<longleftrightarrow> getScreenStatus (mHwcPowerMode d') \<and> getScreenStatus (mHwcPowerMode d))
     \<and> (mSkipComposition d' \<longrightarrow> stg_heap d' = stg_heap d \<and> mHwcPowerMode d' = mHwcPowerMode d
          \<and> (\<forall>a \<in> set (mPresentLayers d'). fb_object.mCompositionType (layer_heap d' a) = MESON_COMPOSITION_DUMMY))"

lemma validated_keeps: "validated e d res d' \<Longrightarrow> keeps_layers d d'"
  by (auto simp: validated_def keeps_layers_def live_def refreshed_same(7))

lemma refreshed_fbtype: "refreshed l l' \<Longrightarrow> fb_object.mFbType l' = fb_object.mFbType l"
  by (auto simp: refreshed_def)

lemma validated_changes:
  assumes v: "validated e d res d'"
  shows "changed_ids e d' = changed_ids e d" "decorated d' = decorated d" "typed_layers d' = typed_layers d"
proof -
  have r: "refreshed (layer_heap d a) (layer_heap d' a)" for a using v by (simp add: validated_def)
  have p: "mPresentLayers d' = mPresentLayers d" using v by (simp add: validated_def)
  note s = refreshed_same [OF r] refreshed_fbtype [OF r]
  show "changed_ids e d' = changed_ids e d" "decorated d' = decorated d" "typed_layers d' = typed_layers d"
    by (simp_all add: changed_ids_def changes_type_def decorated_def typed_layers_def p s)
qed

lemma at_frame_present: "at_frame e d d1 \<Longrightarrow> mPresentLayers d2 = mPresentLayers d1 \<Longrightarrow> at_frame e d d2"
  by (simp add: at_frame_def)

lemma no_layers_blank: "needBlankScreen p False s"
  by (simp add: needBlankScreen_def split: meson_power_mode.split)

lemma getScreen_set [simp]: "getScreenStatus (setScreenStatus b s) = b"
  by (simp add: getScreenStatus_def setScreenStatus_def Let_def)

text \<open>The requests complete a frame whose layers have their types.\<close>

lemma requests_complete:
  assumes keep: "keeps_layers d d3" and at: "at_frame e d d3" and typed: "typed_layers d3"
    and new: "mChangedLayers d3 = []" and vs: "vsync_set d3"
    and blank: "getScreenStatus (mHwcPowerMode d3)
         = needBlankScreen (powerc e) (mPresentLayers d3 \<noteq> []) (mHwcPowerMode d)"
    and skip: "mSkipComposition d3 \<longleftrightarrow> getScreenStatus (mHwcPowerMode d3) \<and> getScreenStatus (mHwcPowerMode d)"
    and skipped: "mSkipComposition d3 \<Longrightarrow> stg_heap d3 = stg_heap d \<and> mHwcPowerMode d3 = mHwcPowerMode d
          \<and> (\<forall>a \<in> set (mPresentLayers d3). fb_object.mCompositionType (layer_heap d3 a) = MESON_COMPOSITION_DUMMY)"
  shows "okE (validateRequests e d3) (\<lambda>(res, d'). frame_validated e d res d')"
proof (rule okE_mono [OF validateRequests_ok [OF vs]], clarify)
  fix res1 res2 d'
  assume v: "validated e d3 (res1, res2) d'"
  note c = validated_changes [OF v]
  note v' = v [unfolded validated_def]
  have same: "mPresentLayers d' = mPresentLayers d3" "mHwcPowerMode d' = mHwcPowerMode d3"
    "mSkipComposition d' = mSkipComposition d3" "stg_heap d' = stg_heap d3" "mValidateDisplay d'"
    "mChangedLayers d' = changed_ids e d3" using v' new by simp_all
  have ty: "fb_object.mCompositionType (layer_heap d' a) = fb_object.mCompositionType (layer_heap d3 a)" for a
    using v' refreshed_same(3) by blast
  have res: "(res1, res2) = (if decorated d3 then HWC2_ERROR_UNSUPPORTED
             else if mChangedLayers d' \<noteq> [] then HWC2_ERROR_HAS_CHANGES else HWC2_ERROR_NONE,
             Some (length (mChangedLayers d'), length (mOverlayLayers d')))" using v' by blast
  show "frame_validated e d (res1, res2) d'"
    unfolding frame_validated_def
  proof (intro conjI)
    show "keeps_layers d d'" using keep validated_keeps [OF v] keeps_layers_trans by blast
    show "at_frame e d d'" by (rule at_frame_present [OF at same(1)])
    show "typed_layers d'" using typed c by simp
    show "(res1, res2) = (if decorated d' then HWC2_ERROR_UNSUPPORTED
              else if changed_ids e d' \<noteq> [] then HWC2_ERROR_HAS_CHANGES else HWC2_ERROR_NONE,
              Some (length (changed_ids e d'), length (mOverlayLayers d')))"
      using res unfolding c same(6) .
  qed (use same c blank skip skipped ty in simp_all)
qed

lemma checkPower_fields:
  assumes d2: "d2 = checkPower e d1"
  shows "mSkipComposition d2 = (mSkipComposition d1 \<or> need_blank_frame e d1 \<and> getScreenStatus (mHwcPowerMode d1))"
    "mConfirmSkip d2 = (mConfirmSkip d1 \<or> need_blank_frame e d1 \<and> \<not> getScreenStatus (mHwcPowerMode d1))"
    "mHwcPowerMode d2 = mHwcPowerMode d1" "stg_heap d2 = stg_heap d1" "composer_heap d2 = composer_heap d1"
    "objs_made d2 = objs_made d1"
    "need_blank_frame e d1 \<Longrightarrow> a \<in> set (mPresentLayers d2)
       \<Longrightarrow> fb_object.mCompositionType (layer_heap d2 a) = MESON_COMPOSITION_DUMMY"
proof -
  obtain h where h: "fold (\<lambda>a. upd_layer a (set_ctype MESON_COMPOSITION_DUMMY)) (mPresentLayers d1) d1 = d1\<lparr>layer_heap := h\<rparr>"
    "\<forall>a. h a = (if a \<in> set (mPresentLayers d1) then set_ctype MESON_COMPOSITION_DUMMY (layer_heap d1 a) else layer_heap d1 a)"
    using dummy_fold by blast
  have run: "d2 = (if need_blank_frame e d1 then d1\<lparr>layer_heap := h,
      mConfirmSkip := mConfirmSkip d1 \<or> \<not> getScreenStatus (mHwcPowerMode d1),
      mSkipComposition := mSkipComposition d1 \<or> getScreenStatus (mHwcPowerMode d1)\<rparr> else d1)"
    unfolding d2 checkPower_def need_blank_frame_def Let_def h(1) by simp
  show "mSkipComposition d2 = (mSkipComposition d1 \<or> need_blank_frame e d1 \<and> getScreenStatus (mHwcPowerMode d1))"
    "mConfirmSkip d2 = (mConfirmSkip d1 \<or> need_blank_frame e d1 \<and> \<not> getScreenStatus (mHwcPowerMode d1))"
    "mHwcPowerMode d2 = mHwcPowerMode d1" "stg_heap d2 = stg_heap d1" "composer_heap d2 = composer_heap d1"
    "objs_made d2 = objs_made d1"
    by (simp_all add: run)
  show "fb_object.mCompositionType (layer_heap d2 a) = MESON_COMPOSITION_DUMMY"
    if "need_blank_frame e d1" "a \<in> set (mPresentLayers d2)"
    using that h(2) by (simp add: run)
qed

context composition_stg
begin

lemma validate_ok:
  assumes ok: "disp_ok d" and env: "env_ok e" and k: "mCompositionStrategy d = Some k"
    and crtc: "mDisplayCrtc d = Some c" and vs: "vsync_set d"
    and layers: "frame_layers (invalid_z (stg_heap d k)) d (layer_objs d)" and sr: "stg_ready (stg_heap d k)"
    and fit: "fit (composer_heap d) (map snd (mComposers d)) (mPlanes d)"
  shows "okE (validateDisplay e g d) (\<lambda>(res, d'). frame_validated e d res d')"
proof -
  define d1 where "d1 = collectForPresent e d"
  have objs: "distinct (layer_objs d)" using ok by (simp add: disp_ok_def)
  note col = collected_frame [OF env objs d1_def]
  define d2 where "d2 = checkPower e d1"
  define blank where "blank = needBlankScreen (powerc e) (mPresentLayers d1 \<noteq> []) (mHwcPowerMode d)"
  have nb: "need_blank_frame e d1 = blank" by (simp add: need_blank_frame_def blank_def col)
  have sh: "shaped d1 d2" unfolding d2_def by (rule checkPower_shaped)
  note sh' = sh [unfolded shaped_def]
  have p2: "mSkipComposition d2 = (blank \<and> getScreenStatus (mHwcPowerMode d))"
    "mConfirmSkip d2 = (blank \<and> \<not> getScreenStatus (mHwcPowerMode d))" "mHwcPowerMode d2 = mHwcPowerMode d"
    "stg_heap d2 = stg_heap d" "composer_heap d2 = composer_heap d" "objs_made d2 = objs_made d"
    using checkPower_fields [OF d2_def, unfolded nb col(4,6-8,10-12)] by simp_all
  have keep2: "keeps_layers d d2" using keeps_layers_trans [OF col(1) shaped_keeps [OF sh]] .
  have at2: "at_frame e d d2" by (rule at_frame_present [OF col(2)]) (use sh' in simp)
  show ?thesis
  proof (cases "mSkipComposition d2")
    case True
    then have b: blank and g': "getScreenStatus (mHwcPowerMode d)" using p2 by simp_all
    define d3 where "d3 = prepareClient d2"
    have f3: "mLayers d3 = mLayers d2" "layer_heap d3 = layer_heap d2" "mPresentLayers d3 = mPresentLayers d2"
      "mChangedLayers d3 = mChangedLayers d2" "mVsync d3 = mVsync d2" "mHwcPowerMode d3 = mHwcPowerMode d2"
      "mSkipComposition d3 = mSkipComposition d2" "stg_heap d3 = stg_heap d2" "layer_gen d3 = layer_gen d2"
      "objs_made d3 = objs_made d2"
      by (simp_all add: d3_def prepareClient_def disp_emit_def split: option.split)
    have k3: "keeps_layers d2 d3" by (rule keeps_layersI) (simp_all add: f3)
    have dummy: "fb_object.mCompositionType (layer_heap d3 a) = MESON_COMPOSITION_DUMMY"
      if "a \<in> set (mPresentLayers d3)" for a
      using checkPower_fields(7) [OF d2_def] nb b that f3 by simp
    have run: "validateDisplay e g d = validateRequests e d3"
      using True by (simp add: validateDisplay_def Let_def d1_def [symmetric] d2_def [symmetric] d3_def)
    show ?thesis unfolding run
    proof (rule requests_complete)
      show "keeps_layers d d3" using keeps_layers_trans [OF keep2 k3] .
      show "at_frame e d d3" by (rule at_frame_present [OF at2 f3(3)])
      show "typed_layers d3" using dummy by (simp add: typed_layers_def)
    qed (use f3 sh' p2 col b g' vs dummy in \<open>simp_all add: vsync_set_def blank_def\<close>)
  next
    case False
    have fl: "frame_layers (invalid_z (stg_heap d2 k)) d2 (mPresentLayers d2)"
    proof -
      have z: "fb_object.mZorder (layer_heap d2 a) = fb_object.mZorder (layer_heap d a)" for a
      proof -
        from col(17) obtain t where "layer_heap d1 a = set_ctype t (layer_heap d a)" by blast
        moreover have "same_shape (layer_heap d1 a) (layer_heap d2 a)" using sh' by blast
        ultimately show ?thesis by (simp add: same_shape_def)
      qed
      have "mset (mPresentLayers d2) \<subseteq># mset (layer_objs d)" using col(18) sh' by simp
      from same_shape_frame [OF layers _ _ this, of d2] z p2(4,6) show ?thesis by simp
    qed
    have kk: "mPresentCompositionStg d2 = Some k" "mDisplayCrtc d2 = Some c"
      "mPresentComposers d2 = map snd (mComposers d)" "mPresentPlanes d2 = mPlanes d"
      using sh' col k crtc by simp_all
    have dec: "okE (decideStrategy e g (compositionFlags e d1) d2) (\<lambda>(r, d'). 0 \<le> r \<and> shaped d2 d' \<and> typed_layers d'
      \<and> mSkipComposition d' = mSkipComposition d2
      \<and> mHwcPowerMode d' = setScreenStatus (mPresentLayers d2 = [] \<or> mConfirmSkip d2) (mHwcPowerMode d2))"
      by (rule decide_ok [OF kk(1,2) fl]) (use sr fit p2 kk in simp_all)
    have run: "validateDisplay e g d = bindE (decideStrategy e g (compositionFlags e d1) d2) (\<lambda>(r, d3).
        if r < 0 then Inr ((HWC2_ERROR_NO_RESOURCES, None), d3) else validateRequests e d3)"
      using False by (simp add: validateDisplay_def Let_def d1_def [symmetric] d2_def [symmetric])
    show ?thesis unfolding run okE_bindE
    proof (rule okE_mono [OF dec], clarify)
      fix r :: int and d3
      assume r: "0 \<le> r" and s3: "shaped d2 d3" and t3: "typed_layers d3" and k3: "mSkipComposition d3 = mSkipComposition d2"
        and m3: "mHwcPowerMode d3 = setScreenStatus (mPresentLayers d2 = [] \<or> mConfirmSkip d2) (mHwcPowerMode d2)"
      note s3' = s3 [unfolded shaped_def]
      have pl: "mPresentLayers d3 = mPresentLayers d1" "mPresentLayers d2 = mPresentLayers d1" using s3' sh' by simp_all
      have "mPresentLayers d1 = [] \<Longrightarrow> blank" by (simp add: blank_def no_layers_blank)
      then have scr: "getScreenStatus (mHwcPowerMode d3) = blank" using False p2 by (auto simp: m3 pl)
      have "okE (validateRequests e d3) (\<lambda>(res, d'). frame_validated e d res d')"
      proof (rule requests_complete [OF _ _ t3])
        show "keeps_layers d d3" using keeps_layers_trans [OF keep2 shaped_keeps [OF s3]] .
        show "at_frame e d d3" by (rule at_frame_present [OF at2]) (use s3' in simp)
        show "mSkipComposition d3 \<longleftrightarrow> getScreenStatus (mHwcPowerMode d3) \<and> getScreenStatus (mHwcPowerMode d)"
          using False p2 k3 scr by simp
      qed (use s3' sh' col vs scr k3 False pl in \<open>simp_all add: vsync_set_def blank_def\<close>)
      with r show "okE (if r < 0 then Inr ((HWC2_ERROR_NO_RESOURCES, None), d3) else validateRequests e d3)
        (\<lambda>(res, d'). frame_validated e d res d')" unfolding if_not_P [OF leD [OF r]] by simp
    qed
  qed
qed

end

end
