(* ===== verification/DisplaySteps.thy ===== *)
theory DisplaySteps
  imports DisplayValid
begin

text \<open>
  The calls of a display as steps, and its invariant. \<open>yields r P\<close>: where the call returns, \<open>P\<close> holds.
\<close>

section \<open>Results of calls\<close>

definition yields :: "'e + 'a \<Rightarrow> ('a \<Rightarrow> bool) \<Rightarrow> bool" where
  "yields r P \<longleftrightarrow> (\<forall>x. r = Inr x \<longrightarrow> P x)"

lemma yields_simps [simp]:
  "yields (Inr x) P = P x" "yields (Inl f) P" "yields r (\<lambda>_. True)"
  by (simp_all add: yields_def)

lemma yields_bindE: "yields (bindE r f) P = yields r (\<lambda>a. yields (f a) P)"
  by (cases r) simp_all

lemma yields_getE: "yields (getE f x) P = (\<forall>a. x = Some a \<longrightarrow> P a)"
  by (cases x) (simp_all add: getE_def)

lemma yields_if: "yields (if c then r else q) P = (if c then yields r P else yields q P)"
  by simp

lemma yields_mono: "yields r P \<Longrightarrow> (\<And>x. P x \<Longrightarrow> Q x) \<Longrightarrow> yields r Q"
  by (simp add: yields_def)

lemma okE_yields: "okE r P \<Longrightarrow> yields r P"
  by (auto simp: okE_iff)

lemma yieldsD: "yields r P \<Longrightarrow> r = Inr x \<Longrightarrow> P x"
  by (simp add: yields_def)

section \<open>Calls that keep the layers\<close>

lemma keeps_same:
  "mLayers d' = mLayers d \<Longrightarrow> layer_gen d' = layer_gen d \<Longrightarrow> objs_made d \<le> objs_made d'
   \<Longrightarrow> mPresentLayers d' = mPresentLayers d \<Longrightarrow> layer_heap d' = layer_heap d \<Longrightarrow> keeps_layers d d'"
  by (auto simp: keeps_layers_def live_def)

lemma keeps_emit [simp]: "keeps_layers d (disp_emit ev d)"
  by (rule keeps_same) (simp_all add: disp_emit_def)

lemma keeps_ask [simp]: "keeps_layers d (snd (disp_ask e ev d))"
  by (simp add: disp_ask_def Let_def)

text \<open>A strategy writes nothing to a layer but its type and its fences.\<close>

lemma keeps_read_back: "keeps_layers d (read_back g k s d)"
  using tame_read_fb by (auto simp: keeps_layers_def read_back_def live_def)

lemma keeps_with_stg: "yields (with_stg g k f d) (\<lambda>(r, d'). keeps_layers d d')"
  by (simp add: with_stg_def yields_bindE split_def keeps_read_back)

lemma keeps_then: "keeps_layers d d1 \<Longrightarrow> yields r (\<lambda>(x, d'). keeps_layers d1 d') \<Longrightarrow> yields r (\<lambda>(x, d'). keeps_layers d d')"
  by (auto simp: yields_def intro: keeps_layers_trans)

lemma keeps_refresh: "keeps_layers d (refreshVtLayersLocked e b d)"
proof -
  have "keeps_layers d (refreshVtLayer e b a d)" for a and d :: "'s hwc2_display"
    using keeps_upd_layer [of "setNeedAskRefresh True" d a] keeps_upd_layer [of vtRefresh d a]
    by (simp add: refreshVtLayer_def tame_simps)
  then show ?thesis by (auto simp: refreshVtLayersLocked_def intro: keeps_fold)
qed

lemma keeps_accept: "keeps_layers d (acceptDisplayChanges e d)"
  unfolding acceptDisplayChanges_def by (rule keeps_fold) (rule keeps_upd_layer, rule tame_commitType)

lemma keeps_fences: "keeps_layers d (snd (getReleaseFences e d))"
proof -
  have one: "keeps_layers d (snd (releaseFenceOf e a (out, d)))" for a out and d :: "'s hwc2_display"
  proof -
    let ?l = "layer_heap d a"
    have k: "keeps_layers d (upd_layer a (\<lambda>_. snd (VtModel.getPrevReleaseFence (vtp e) ?l)) d)"
      using tame_releaseFence by (auto simp: keeps_layers_def upd_layer_def live_def)
    then have "keeps_layers d (snd (disp_ask e ev (upd_layer a (\<lambda>_. snd (VtModel.getPrevReleaseFence (vtp e) ?l)) d)))" for ev
      using keeps_layers_trans [OF _ keeps_ask] by blast
    with k show ?thesis by (simp add: releaseFenceOf_def Let_def split_def)
  qed
  have "keeps_layers d (snd (fold (releaseFenceOf e) xs (out, d)))" for xs out
  proof (induction xs arbitrary: out d)
    case Nil
    then show ?case by simp
  next
    case (Cons x xs)
    obtain out1 d1 where o: "releaseFenceOf e x (out, d) = (out1, d1)" by fastforce
    with one [of d x out] have "keeps_layers d d1" by simp
    with Cons.IH [of d1 out1] show ?case using keeps_layers_trans by (simp add: o) blast
  qed
  then show ?thesis by (simp add: getReleaseFences_def)
qed

section \<open>Presenting\<close>

lemma keeps_clearFlags:
  assumes ok: "lives_ok d"
  shows "yields (foldE (clearLayerFlag e) (layer_objs d) d) (keeps_layers d)"
proof (rule okE_yields, rule keeps_foldE [OF _ ok])
  fix a and d :: "'a hwc2_display"
  assume "lives_ok d" "a \<in> live d"
  then show "okE (clearLayerFlag e a d) (keeps_layers d)"
    unfolding clearLayerFlag_def
    by (auto intro!: keeps_upd_layerE clearUpdateFlag_accounts keeps_ident_clear)
qed simp

lemma keeps_flip:
  fixes d :: "'s hwc2_display"
  shows "keeps_layers d (snd (flipPage e g k d))"
proof -
  have h: "keeps_layers d (setHdrMetadata d)" by (simp add: setHdrMetadata_def split: option.split)
  have after: "keeps_layers d (snd (afterFlip e g k d))" for d :: "'s hwc2_display"
    by (rule keeps_same) (simp_all add: afterFlip_def disp_ask_def disp_emit_def Let_def split_def)
  define d0 where "d0 = snd (disp_ask e FencePageFlip (snd (disp_ask e PageFlip (setHdrMetadata d))))"
  have 0: "keeps_layers d d0"
    unfolding d0_def by (rule keeps_layers_trans [OF h keeps_layers_trans [OF keeps_ask keeps_ask]])
  have 1: "keeps_layers d (d0\<lparr>mPresentFence := f\<rparr>)" for f
    by (rule keeps_layers_trans [OF 0]) (rule keeps_same; simp)
  show ?thesis
    using 1 keeps_layers_trans [OF 1 after]
    unfolding flipPage_def Let_def split_def d0_def [symmetric] by simp
qed

lemma keeps_compose:
  fixes d :: "'s hwc2_display"
  shows "yields (composeFrame e g d) (\<lambda>(r, d'). keeps_layers d d')"
proof -
  define d1 where "d1 = snd (disp_ask e PrePageFlip (clientTargetFrame d))"
  have 1: "keeps_layers d d1"
    by (rule keeps_same) (simp_all add: d1_def clientTargetFrame_def disp_ask_def disp_emit_def Let_def split: option.split)
  have flip: "yields (with_stg g k (stg_commit g) (disp_emit StrategyCommit d1)) (\<lambda>x. (fst x \<noteq> 0 \<longrightarrow> keeps_layers d (snd x))
      \<and> (fst x = 0 \<longrightarrow> keeps_layers d (snd (flipPage e g k (snd x)))))" for k
  proof (rule yields_mono [OF keeps_with_stg])
    fix x :: "int \<times> 's hwc2_display"
    assume "case x of (ret, d2) \<Rightarrow> keeps_layers (disp_emit StrategyCommit d1) d2"
    then have "keeps_layers d (snd x)" using keeps_layers_trans [OF 1 keeps_layers_trans [OF keeps_emit]] by (simp add: split_def)
    with keeps_layers_trans [OF this keeps_flip]
    show "(fst x \<noteq> 0 \<longrightarrow> keeps_layers d (snd x)) \<and> (fst x = 0 \<longrightarrow> keeps_layers d (snd (flipPage e g k (snd x))))" by blast
  qed
  show ?thesis
    using 1 flip unfolding composeFrame_def Let_def split_def d1_def [symmetric] yields_bindE yields_getE yields_if
    by simp
qed

lemma keeps_presentFrame:
  assumes "lives_ok d"
  shows "yields (presentFrame e g d) (\<lambda>(r, d'). keeps_layers d d')"
proof -
  have step: "yields (foldE (clearLayerFlag e) (layer_objs d1) d1) (\<lambda>d2. keeps_layers d d2)" if k: "keeps_layers d d1" for d1
    by (rule yields_mono [OF keeps_clearFlags [OF lives_ok_keeps [OF assms k]]]) (rule keeps_layers_trans [OF k])
  have "yields (if mSkipComposition d then Inr (Inr (- 1), d) else composeFrame e g d) (\<lambda>(r, d1). keeps_layers d d1)"
    by (cases "mSkipComposition d") (simp_all add: keeps_compose)
  then show ?thesis unfolding presentFrame_def yields_bindE
    by (rule yields_mono) (auto simp: yields_bindE split: sum.split intro: step)
qed

lemma keeps_present:
  assumes ok: "lives_ok d"
  shows "yields (presentDisplay e g d) (\<lambda>(r, d'). keeps_layers d d')"
proof -
  have first: "yields (firstPresent d) (keeps_layers d)"
    by (auto simp: firstPresent_def yields_bindE yields_getE disp_emit_def intro: keeps_same)
  have frame: "yields (presentFrame e g d2) (\<lambda>(r, d'). keeps_layers d d')" if k: "keeps_layers d d2" for d2
    by (rule keeps_then [OF k keeps_presentFrame [OF lives_ok_keeps [OF ok k]]])
  have close: "keeps_layers d (closePresentFence (d\<lparr>mValidateDisplay := b\<rparr>))" for b and d :: "'a hwc2_display"
    by (rule keeps_same) (simp_all add: closePresentFence_def disp_emit_def)
  have upd: "keeps_layers d (updateStrategy g k d)" for k and d :: "'a hwc2_display"
    by (rule keeps_same) (simp_all add: updateStrategy_def disp_emit_def)
  show ?thesis unfolding presentDisplay_def yields_bindE
  proof (rule yields_mono [OF first])
    fix d1 assume k: "keeps_layers d d1"
    note a = keeps_layers_trans [OF k close] and b = keeps_layers_trans [OF keeps_layers_trans [OF k upd] close]
    show "yields (if mValidateDisplay d1 then presentFrame e g (closePresentFence (d1\<lparr>mValidateDisplay := False\<rparr>))
       else if presentSkipValidateCheck e d1 \<noteq> HWC2_ERROR_NONE then Inr ((presentSkipValidateCheck e d1, None), d1)
       else bindE (getE NullDeref (mCompositionStrategy d1)) (\<lambda>k.
         presentFrame e g (closePresentFence ((updateStrategy g k d1)\<lparr>mValidateDisplay := False\<rparr>))))
      (\<lambda>(r, d'). keeps_layers d d')"
      using frame [OF a] frame [OF b] k by (simp add: yields_bindE yields_getE)
  qed
qed

end
