(* ===== verification/DisplayReach.thy ===== *)
theory DisplayReach
  imports DisplaySteps
begin

text \<open>
  Creating and destroying layers keeps the invariant of a display: the ids stay apart, and the
  objects the map refers to are those made so far.
\<close>

section \<open>Creating and destroying layers\<close>

lemma ids_ok_perm: "mset ids' = mset ids \<Longrightarrow> ids_ok ids g \<Longrightarrow> ids_ok ids' g"
proof -
  assume m: "mset ids' = mset ids" and ok: "ids_ok ids g"
  then have s: "set ids' = set ids" by (metis mset_eq_setD)
  have "mset (map slot_of ids') = mset (map slot_of ids)" using m by simp
  then have "distinct (map slot_of ids')" using ok mset_eq_imp_distinct_iff unfolding ids_ok_def by blast
  with ok s show ?thesis by (simp add: ids_ok_def)
qed

lemma layers_of: "mset (mLayers d') = add_mset (i, a) (mset (mLayers d))
  \<Longrightarrow> mset (map fst (mLayers d')) = mset (i # map fst (mLayers d))
    \<and> mset (layer_objs d') = add_mset a (mset (layer_objs d)) \<and> set (mLayers d') = insert (i, a) (set (mLayers d))"
proof -
  assume m: "mset (mLayers d') = add_mset (i, a) (mset (mLayers d))"
  then have "image_mset fst (mset (mLayers d')) = add_mset i (image_mset fst (mset (mLayers d)))"
    "image_mset snd (mset (mLayers d')) = add_mset a (image_mset snd (mset (mLayers d)))" by simp_all
  moreover have "set_mset (mset (mLayers d')) = insert (i, a) (set (mLayers d))" using m by simp
  ultimately show ?thesis by (simp add: layer_objs_def)
qed

lemma distinct_add_mset: "mset xs = add_mset a (mset ys) \<Longrightarrow> distinct xs \<longleftrightarrow> a \<notin> set ys \<and> distinct ys"
  using mset_eq_imp_distinct_iff [of xs "a # ys"] by simp

lemma new_layer_ok: "vt_layer_ok ((hwc2_layer_init p n)\<lparr>fb_object.mId := i\<rparr>)"
proof -
  have "custody ((hwc2_layer_init p n)\<lparr>fb_object.mId := i\<rparr>) = custody (hwc2_layer_init p n)"
    by (simp add: custody_unfold)
  from vt_layer_ok_custody [OF this] show ?thesis using vt_layer_ok_iff [OF init_custody] by simp
qed

lemma create_ok:
  assumes ok: "disp_ok d" and env: "env_ok e" and char: "\<not> signed_char e" and room: "length (mLayers d) < 256"
  shows "okE (createLayer e d) (\<lambda>(i, d'). disp_ok d' \<and> i \<notin> fst ` set (mLayers d) \<and> i < 65536
    \<and> mset (mLayers d') = add_mset (i, objs_made d) (mset (mLayers d)))"
proof -
  let ?a = "objs_made d"
  have ids: "ids_ok (map fst (mLayers d)) (layer_gen d)" and len: "length (map fst (mLayers d)) < 256"
    using ok room by (simp_all add: disp_ok_def)
  from createLayerId_ok [OF ids len] char obtain i gen where
    new: "createLayerId (signed_char e) (layer_gen d) = Inr (i, gen)" "ids_ok (i # map fst (mLayers d)) gen"
    "i < 65536" "slot_of i \<notin> slot_of ` set (map fst (mLayers d))" by (auto simp: okE_iff)
  then have fresh: "i \<notin> fst ` set (mLayers d)" by auto
  then have none: "map_of (mLayers d) i = None" by (simp add: map_of_eq_None_iff)
  define l where "l = (hwc2_layer_init (vtp e) (mDisplayIdx d))\<lparr>fb_object.mId := i\<rparr>"
  define d' where "d' = d\<lparr>objs_made := Suc ?a, layer_gen := gen, layer_heap := (layer_heap d)(?a := l),
    mLayers := bucket_order e ((i, ?a) # mLayers d)\<rparr>"
  have run: "createLayer e d = Inr (i, d')"
    by (simp add: createLayer_def Let_def new(1) layers_emplace_def layers_find_def none d'_def l_def)
  have m: "mset (mLayers d') = add_mset (i, ?a) (mset (mLayers d))" using env by (simp add: d'_def env_ok_def)
  note ms = layers_of [OF m]
  have old: "a < ?a" if "a \<in> live d" for a using ok that by (simp add: disp_ok_def)
  then have na: "?a \<notin> set (layer_objs d)" by (auto simp: live_def)
  have live: "live d' = insert ?a (live d)"
  proof -
    have "set (layer_objs d') = insert ?a (set (layer_objs d))" using ms by (metis mset_eq_setD list.simps(15) mset.simps(2))
    then show ?thesis by (simp add: live_def d'_def)
  qed
  have heap: "layer_heap d' a = (if a = ?a then l else layer_heap d a)" for a by (simp add: d'_def)
  have lok: "vt_layer_ok l" by (simp add: l_def new_layer_ok)
  have "disp_ok d'" unfolding disp_ok_def
  proof (intro conjI)
    show "ids_ok (map fst (mLayers d')) (layer_gen d')"
      by (rule ids_ok_perm [OF conjunct1 [OF ms]]) (use new(2) in \<open>simp add: d'_def\<close>)
    show "distinct (layer_objs d')"
      using distinct_add_mset [OF conjunct1 [OF conjunct2 [OF ms]]] na ok by (simp add: disp_ok_def)
    show "\<forall>a \<in> live d'. a < objs_made d'" using old unfolding live by (auto simp: d'_def intro: less_SucI)
    show "lives_ok d'" using ok lok by (auto simp: lives_ok_def live heap disp_ok_def)
    show "\<forall>(j, a) \<in> set (mLayers d'). fb_object.mId (layer_heap d' a) = j"
    proof (intro ballI, clarify)
      fix j a assume "(j, a) \<in> set (mLayers d')"
      then have "(j, a) = (i, ?a) \<or> (j, a) \<in> set (mLayers d)" using ms by auto
      then show "fb_object.mId (layer_heap d' a) = j"
      proof
        assume old': "(j, a) \<in> set (mLayers d)"
        then have "a \<noteq> ?a" using na by (force simp: layer_objs_def)
        moreover have "fb_object.mId (layer_heap d a) = j" using ok old' by (auto simp: disp_ok_def)
        ultimately show ?thesis by (simp add: heap)
      qed (simp add: heap l_def)
    qed
  qed
  with fresh new(3) m run show ?thesis by simp
qed

text \<open>The tunnel thread is started and stopped outside of the layers.\<close>

lemma handleVtThread_frame:
  "yields (handleVtThreadLocked d) (\<lambda>d'. \<exists>b s l. d' = d\<lparr>mVtDisplayThread := b, mVtVsyncStatus := s, disp_log := l\<rparr>)"
proof (rule yields_mono)
  show "yields (handleVtThreadLocked d) (\<lambda>d'. d' = d\<lparr>mVtDisplayThread := mVtDisplayThread d',
      mVtVsyncStatus := mVtVsyncStatus d', disp_log := disp_log d'\<rparr>)"
    by (simp add: handleVtThreadLocked_def Let_def disp_emit_def yields_bindE yields_getE)
qed blast

lemma handleVtThread_ok: "mVtVsync d \<noteq> None \<Longrightarrow> okE (handleVtThreadLocked d) (\<lambda>_. True)"
  by (auto simp: handleVtThreadLocked_def Let_def disp_emit_def okE_simps)

lemma destroy_found:
  assumes ok: "disp_ok d" and Some: "layers_find i d = Some a"
    and d1_def: "d1 = (disp_emit (RemoveDebugLayer i) d)\<lparr>mLayers := AList.delete i (mLayers d)\<rparr>"
    and thread: "handleVtThreadLocked d1 = Inr t"
  shows "okE (destroyLayer e i d) (\<lambda>(r, d'). disp_ok d' \<and> mLayers d' = AList.delete i (mLayers d)
    \<and> r = HWC2_ERROR_NONE)"
proof -
  have ia: "(i, a) \<in> set (mLayers d)" using Some by (simp add: layers_find_def map_of_SomeD)
  obtain b s l where
    d2: "handleVtThreadLocked d1 = Inr (d1\<lparr>mVtDisplayThread := b, mVtVsyncStatus := s, disp_log := l\<rparr>)"
    using yieldsD [OF handleVtThread_frame thread] thread by auto
  let ?d2 = "d1\<lparr>mVtDisplayThread := b, mVtVsyncStatus := s, disp_log := l\<rparr>"
  have lv: "vt_layer_ok (layer_heap d a)" using ok ia by (force simp: disp_ok_def lives_ok_def live_def layer_objs_def)
  obtain m where m: "releaseVtResource (vtp e) (layer_heap d a) = Inr m" "tame (layer_heap d a) m"
  proof -
    from release_accounts [OF lv, of "vtp e" True False] obtain m where
      m: "releaseVtResource (vtp e) (layer_heap d a) = Inr m" "accounts (layer_heap d a) {#} m"
      by (auto simp: okE_iff releaseVtResource_def)
    moreover have "ident m = ident (layer_heap d a)"
      using keeps_ident_release [of "vtp e" True False "layer_heap d a"] m(1)
      by (simp add: keeps_ident_def releaseVtResource_def)
    ultimately show ?thesis using that by (simp add: tame_def ident_def)
  qed
  define k where "k = (if isVtBufferLocked (layer_heap d a) then m else layer_heap d a)"
  have k: "tame (layer_heap d a) k" using m(2) by (simp add: k_def)
  let ?d3 = "?d2\<lparr>layer_heap := (layer_heap d)(a := k)\<rparr>"
  have d3: "(if isVtBufferLocked (layer_heap ?d2 a) then upd_layerE a (releaseVtResource (vtp e)) ?d2 else Inr ?d2) = Inr ?d3"
    using m(1) by (simp add: d1_def disp_emit_def upd_layerE_def upd_layer_def k_def)
  have ids: "ids_ok (map fst (mLayers d)) (layer_gen d)"
    using ok by (simp add: disp_ok_def)
  then have "distinct (map slot_of (map fst (mLayers d)))" by (simp add: ids_ok_def)
  then have di: "distinct (map fst (mLayers d))" unfolding distinct_map by blast
  from destroyLayerId_ok [OF ids] ia obtain gen where
    gen: "destroyLayerId i (layer_gen d) = Inr gen" "ids_ok (remove1 i (map fst (mLayers d))) gen"
    by (force simp: okE_iff)
  define d' where "d' = ?d3\<lparr>layer_gen := gen\<rparr>"
  have run: "destroyLayer e i d = Inr (HWC2_ERROR_NONE, d')"
    unfolding destroyLayer_def Some option.case Let_def d1_def [symmetric] d2 bindE_simps d3
    using gen(1) by (simp add: d1_def disp_emit_def d'_def)
  have L: "mLayers d' = AList.delete i (mLayers d)" by (simp add: d'_def d1_def disp_emit_def)
  have f: "map fst (mLayers d') = remove1 i (map fst (mLayers d))"
    unfolding L AList.delete_keys using di by (simp add: distinct_remove1_removeAll)
  have sub: "set (mLayers d') \<subseteq> set (mLayers d)" unfolding L by (auto simp: AList.delete_eq)
  have live: "live d' \<subseteq> live d" using sub by (auto simp: live_def layer_objs_def d'_def d1_def disp_emit_def)
  have heap: "tame (layer_heap d c) (layer_heap d' c)" for c using k by (simp add: d'_def)
  have "disp_ok d'" unfolding disp_ok_def
  proof (intro conjI)
    show "ids_ok (map fst (mLayers d')) (layer_gen d')" unfolding f using gen(2) by (simp add: d'_def)
    have "distinct (layer_objs d)" using ok by (simp add: disp_ok_def)
    then show "distinct (layer_objs d')" unfolding layer_objs_def L AList.delete_eq by (simp add: distinct_map_filter)
    show "\<forall>a \<in> live d'. a < objs_made d'"
      using live ok by (auto simp: disp_ok_def d'_def d1_def disp_emit_def)
    show "lives_ok d'" using live heap ok tame_ok unfolding lives_ok_def disp_ok_def by blast
    show "\<forall>(j, c) \<in> set (mLayers d'). fb_object.mId (layer_heap d' c) = j"
      using sub heap ok by (fastforce simp: disp_ok_def tame_def)
  qed
  with run L show ?thesis by simp
qed

text \<open>The call returns where the vsync of the tunnel thread is set.\<close>

lemma destroy_yields:
  assumes ok: "disp_ok d"
  shows "yields (destroyLayer e i d) (\<lambda>(r, d'). disp_ok d' \<and> mLayers d' = AList.delete i (mLayers d)
    \<and> r = (if layers_find i d = None then HWC2_ERROR_BAD_LAYER else HWC2_ERROR_NONE))"
    and "mVtVsync d \<noteq> None \<Longrightarrow> okE (destroyLayer e i d) (\<lambda>_. True)"
proof -
  let ?d1 = "(disp_emit (RemoveDebugLayer i) d)\<lparr>mLayers := AList.delete i (mLayers d)\<rparr>"
  have none: "destroyLayer e i d = Inr (HWC2_ERROR_BAD_LAYER, d) \<and> AList.delete i (mLayers d) = mLayers d"
    if "layers_find i d = None"
  proof -
    have "i \<notin> fst ` set (mLayers d)" using that by (simp add: layers_find_def map_of_eq_None_iff)
    then show ?thesis using that by (simp add: destroyLayer_def)
  qed
  show "yields (destroyLayer e i d) (\<lambda>(r, d'). disp_ok d' \<and> mLayers d' = AList.delete i (mLayers d)
    \<and> r = (if layers_find i d = None then HWC2_ERROR_BAD_LAYER else HWC2_ERROR_NONE))"
  proof (cases "layers_find i d")
    case None
    with none ok show ?thesis by simp
  next
    case (Some a)
    show ?thesis
    proof (cases "handleVtThreadLocked ?d1")
      case (Inl f)
      with Some show ?thesis by (simp add: destroyLayer_def)
    next
      case (Inr t)
      from okE_yields [OF destroy_found [OF ok Some refl Inr]] show ?thesis
        by (rule yields_mono) (use Some in auto)
    qed
  qed
  assume vs: "mVtVsync d \<noteq> None"
  have "okE (handleVtThreadLocked ?d1) (\<lambda>_. True)"
    by (rule handleVtThread_ok) (use vs in \<open>simp add: disp_emit_def\<close>)
  then obtain t where t: "handleVtThreadLocked ?d1 = Inr t" by (auto simp: okE_iff)
  show "okE (destroyLayer e i d) (\<lambda>_. True)"
  proof (cases "layers_find i d")
    case None
    with none show ?thesis by simp
  next
    case (Some a)
    show ?thesis by (rule okE_mono [OF destroy_found [OF ok Some refl t]]) simp
  qed
qed

end
