(* ===== verification/DisplayRun.thy ===== *)
theory DisplayRun
  imports DisplayReach
begin

text \<open>
  No call of a layer changes which layer it is: every constructor of \<open>layer_op\<close> keeps the id and the
  virtual flag, so that the map of a display stays true to its layers.
\<close>

section \<open>No call of a layer changes which layer it is\<close>

definition names :: "hwc2_layer \<Rightarrow> nat \<times> bool" where
  "names l = (fb_object.mId l, mIsVirtualLayer l)"

lemma names_ident: "ident l' = ident l \<Longrightarrow> names l' = names l"
  by (simp add: ident_def names_def)

definition keeps_names :: "fault + hwc2_layer \<Rightarrow> hwc2_layer \<Rightarrow> bool" where
  "keeps_names r l \<longleftrightarrow> yields r (\<lambda>l'. names l' = names l)"

lemma keeps_names_ident: "keeps_ident r l \<Longrightarrow> keeps_names r l"
  by (auto simp: keeps_ident_def keeps_names_def yields_def intro: names_ident)

lemma keeps_names_simps [simp]: "keeps_names (Inr l') l \<longleftrightarrow> names l' = names l" "keeps_names (Inl f) l"
  by (simp_all add: keeps_names_def)

named_theorems names_simps \<open>operations that keep the name of a layer\<close>

lemmas names_unfold = names_def emit_def VtModel.ask_def Let_def split_def

lemma names_parts [names_simps]:
  "names (releaseUvmResourceLock l) = names l" "names (clearBufferInfo l) = names l"
  "names (setBufferInfo p bh f i l) = names l" "names (snd (getVideoInfoFromUVM p fd l)) = names l"
  "names (detachUvmBuffer l) = names l" "names (attachUvmBuffer fd l) = names l"
  "names (collectUvmBuffer fd n l) = names l" "names (snd (VtModel.getPrevReleaseFence p l)) = names l"
  "names (snd (VtModel.ask p ev l)) = names l" "names (emit ev l) = names l"
  "names (setCurReleaseFence n l) = names l" "names (freeSolidColorBufferLocked l) = names l"
  "names (snd (snd (allocBuffer p c sb l))) = names l"
  by (simp_all add: names_unfold releaseUvmResourceLock_def clearBufferInfo_def setBufferInfo_def
    getVideoInfoFromUVM_def detachUvmBuffer_def attachUvmBuffer_def collectUvmBuffer_def getPrevReleaseFence_def
    opt_fence_dup_def fence_dup_def fb_unlock_def setAcquireFence_def setCurReleaseFence_def freeSolidColorBufferLocked_def
    allocBuffer_def split: option.split)

lemma names_fields [names_simps]:
  "names (l\<lparr>mFbType := x\<rparr>) = names l" "names (l\<lparr>mPreBufferIno := n\<rparr>) = names l"
  "names (l\<lparr>mPreUvmBufferFd := fd\<rparr>) = names l" "names (l\<lparr>mSecure := b\<rparr>) = names l"
  "names (l\<lparr>mUpdated := b\<rparr>) = names l" "names (l\<lparr>mNeedReleaseVtResource := b\<rparr>) = names l"
  "names (l\<lparr>mVideoDisplayStatus := st\<rparr>) = names l" "names (l\<lparr>mAllocSolidColorBufferHandle := h\<rparr>) = names l"
  "names (l\<lparr>mSolidColorBufferfd := fd\<rparr>) = names l" "names (l\<lparr>mVtUpdate := b\<rparr>) = names l"
  "names (l\<lparr>mFirstVtBuffer := b\<rparr>) = names l" "names (l\<lparr>mReqFlag := f\<rparr>) = names l"
  "names (l\<lparr>mColor := c\<rparr>) = names l" "names (l\<lparr>mTunnelId := n\<rparr>) = names l" "names (l\<lparr>mDisplayObserver := d\<rparr>) = names l"
  by (simp_all add: names_def)

lemma names_setBuffer: "names (snd (setBuffer p b f l)) = names l"
proof -
  have uvm: "names (setUvmBuffer p ty fd i m) = names m" for ty fd i m
    by (simp add: setUvmBuffer_def Let_def split_def names_simps)
  have dim: "names (handleDimLayer p h m) = names m" for h m
    by (simp add: handleDimLayer_def Let_def names_def split: option.split)
  have ty: "setBufferType p pre h m = Some m' \<Longrightarrow> names m' = names m" for pre h m m'
    by (auto simp: setBufferType_def Let_def names_simps uvm dim setReqFlag_def split: if_splits option.splits)
  have ch: "names (typeChanged pre m) = names m" for pre m
    by (simp add: typeChanged_def Let_def setReqFlag_def names_simps)
  show ?thesis
    by (auto simp: setBuffer_def Let_def names_simps ch dest!: ty split: option.split)
qed

lemma names_register: "names (snd (registerConsumer p l)) = names l"
  by (simp add: registerConsumer_def askVtRefresh_def names_unfold split: option.split)

lemma keeps_names_bind:
  "keeps_names r l \<Longrightarrow> (\<And>m. names m = names l \<Longrightarrow> keeps_names (k m) l) \<Longrightarrow> keeps_names (bindE r k) l"
  by (cases r) simp_all

lemma names_sideband: "yields (setSidebandStream p st d l) (\<lambda>(r, l'). names l' = names l)"
proof -
  have doneE: "names (sidebandDone m) = names m" for m
    by (simp add: sidebandDone_def names_def releaseUvmResourceLock_def emit_def Let_def)
  have connect: "names (snd (connectTunnel p c d m)) = names m" for c m
  proof -
    have "names (m\<lparr>mTunnelId := y, mDisplayObserver := x\<rparr>) = names m" "names (m\<lparr>mTunnelId := y\<rparr>) = names m"
      "names (m\<lparr>mQueuedFrames := n, mQueueItems := q, mTunnelIdUpdate := b, mAMVideoType := v\<rparr>) = names m"
      for m x y n q b v by (simp_all add: names_def)
    then show ?thesis by (simp add: connectTunnel_def Let_def split_def names_register)
  qed
  have release: "yields (releaseVtResourceLocked p True False m) (\<lambda>m'. names m' = names m)" for m
    using keeps_names_ident [OF keeps_ident_release, of p True False m] by (simp add: keeps_names_def)
  have tunnel: "yields (setTunnel p c d m) (\<lambda>(r, m'). names m' = names m)" for c m
    using release [of "m\<lparr>mFbType := DRM_FB_VIDEO_TUNNEL_SIDEBAND\<rparr>"]
    by (auto simp: setTunnel_def Let_def yields_bindE split_def connect names_simps elim: yields_mono)
  let ?m = "(setBufferInfo p st (- 1) True (clearBufferInfo l))\<lparr>mPreBufferIno := 0\<rparr>"
  have m: "names ?m = names l" by (simp add: names_simps)
  show ?thesis
    using tunnel [of _ ?m] m
    by (auto simp: setSidebandStream_def Let_def yields_bindE split_def doneE names_simps elim!: yields_mono)
qed

lemma names_interrupt: "yields (vt_interruptVtProcess p f l) (\<lambda>(r, g, l'). names l' = names l)"
proof -
  have release: "yields (releaseVtResourceLocked p a b m) (\<lambda>m'. names m' = names m)" for a b m
    using keeps_names_ident [OF keeps_ident_release, of p a b m] by (simp add: keeps_names_def)
  have frames: "yields (releaseFrames p m) (\<lambda>m'. names m' = names m)" for m
    using release by (simp add: releaseFrames_def yields_bindE names_simps)
  have st: "yields (isVtNeedClearFrameOrShowColorBuffer p l) (\<lambda>(r, l'). names l' = names l)"
    using frames [of l] frames [of "l\<lparr>mVideoDisplayStatus := VT_VIDEO_STATUS_SHOW\<rparr>"] release [of False True l]
    by (cases "mVideoDisplayStatus l")
      (simp_all add: isVtNeedClearFrameOrShowColorBuffer_def yields_bindE names_simps)
  show ?thesis
    using st by (auto simp: vt_interruptVtProcess_def yields_bindE split_def elim!: yields_mono)
qed

lemma names_temp: "keeps_names (onNeedShowTempBuffer p c l) l"
proof -
  have refresh: "keeps_names (askSurfaceFlingerRefresh m) l" if "names m = names l" for m
    using that by (simp add: askSurfaceFlingerRefresh_def names_simps split: option.split)
  show ?thesis
    by (auto simp: onNeedShowTempBuffer_def Let_def split_def names_simps intro!: refresh)
qed

lemma names_setters [names_simps]:
  "names (snd (setColor c l)) = names l" "names (snd (setSourceCrop cr l)) = names l"
  "names (snd (setDisplayFrame r l)) = names l" "names (snd (setCompositionType p n l)) = names l"
  "names (snd (setZorder z l)) = names l" "names (onLayerDisplayed p f g l) = names l"
  "names (adjustDisplayFrame p zi l) = names l" "names (setPresentTime t l) = names l"
  "names (snd (vt_getSolidColorBuffer p l)) = names l" "names (setDiProcessorFd fd l) = names l"
  "names (setNeedAskRefresh b l) = names l" "names (onVtVideoStatus st l) = names l"
  "names (onVtVideoGameMode m l) = names l" "names (setVtSourceCrop r l) = names l"
  "names (setVtDisplayFrame p r l) = names l"
  by (simp_all add: names_unfold setColor_def clearBufferInfo_def fb_unlock_def setSourceCrop_def setDisplayFrame_def
    setCompositionType_def setZorder_def onLayerDisplayed_def adjustDisplayFrame_def adjustDisplayFrameLocked_def
    setPresentTime_def vt_getSolidColorBuffer_def setDiProcessorFd_def setNeedAskRefresh_def onVtVideoStatus_def
    onVtVideoGameMode_def setVtSourceCrop_def setVtDisplayFrame_def vtRefresh_def split: option.split)

lemma layer_step_names: "keeps_names (layer_step p op l) l"
proof (cases op)
  case (SetSidebandStream st d)
  then show ?thesis using names_sideband [of p st d l] by (simp add: keeps_names_def yields_bindE split_def)
next
  case (InterruptVtProcess f)
  then show ?thesis using names_interrupt [of p f l] by (simp add: keeps_names_def yields_bindE split_def)
next
  case (FrameAvailable items)
  have q: "names (fold queueItem items m) = names m" for m
  proof (induction items arbitrary: m)
    case (Cons it items)
    have "names (queueItem it m) = names m"
      by (simp add: queueItem_def attachUvmBuffer_def countQueued_def names_unfold)
    then show ?case using Cons by simp
  qed simp
  show ?thesis
    by (auto simp: FrameAvailable onVtFrameAvailable_def Let_def q names_simps split: option.split)
next
  case (ShowTempBufferWithStatus c st)
  then show ?thesis using names_temp
    by (simp add: onNeedShowTempBufferWithStatus_def keeps_names_def yields_bindE names_simps)
qed (simp_all add: names_setBuffer names_temp keeps_names_ident [OF keeps_ident_clear]
  keeps_names_ident [OF keeps_ident_update] keeps_names_ident [OF keeps_ident_releaseVt]
  keeps_names_ident [OF keeps_ident_release] releaseVtResource_def names_register handleDisplayDisconnect_def
  names_simps)

end
