(* ===== verification/DisplayInv.thy ===== *)
theory DisplayInv
  imports DisplayRun
begin

text \<open>
  The calls of a display and the states they reach: \<open>disp_reach\<close>. In each of them the invariant
  \<open>disp_ok\<close> holds.
\<close>

section \<open>Validating\<close>

lemma keeps_requests: "yields (validateRequests e d) (\<lambda>(r, d'). keeps_layers d d')"
proof -
  obtain res d1 where c: "collectCompositionRequest e d = (res, d1)" by fastforce
  from composition_request [OF c] have "booked d d1" by blast
  then have k1: "keeps_layers d d1" unfolding booked_def by (auto intro: keeps_same)
  obtain ret nt nr where res: "res = (ret, nt, nr)" by (cases res)
  define d3 where "d3 = (if getScreenStatus (mHwcPowerMode d1)
    then d1\<lparr>mProcessorFlags := or (mProcessorFlags d1) PRESENT_BLANK\<rparr> else d1)\<lparr>mValidateDisplay := True\<rparr>"
  have k3: "keeps_layers d d3" by (rule keeps_layers_trans [OF k1 keeps_same]) (simp_all add: d3_def)
  have vs: "yields (adjustVsyncMode e d3) (keeps_layers d3)"
    by (auto simp: adjustVsyncMode_def yields_bindE yields_getE disp_emit_def intro: keeps_same)
  have run: "validateRequests e d = bindE (adjustVsyncMode e d3) (\<lambda>d4. Inr ((ret, Some (nt, nr)), refreshVtLayersLocked e False d4))"
    by (simp add: validateRequests_def c res d3_def Let_def)
  show ?thesis
    unfolding run yields_bindE
    by (rule yields_mono [OF vs]) (auto intro: keeps_layers_trans [OF k3 keeps_layers_trans [OF _ keeps_refresh]])
qed

lemma keeps_decide: "yields (decideStrategy e g flags d) (\<lambda>(r, d'). keeps_layers d d')"
proof -
  define d2 where "d2 = loadCalibrateInfo (upd_power (setScreenStatus (mPresentLayers d = [] \<or> mConfirmSkip d)) d)"
  define d3 where "d3 = (if mPresentLayers d2 = [] then d2 else disp_adjustDisplayFrame e d2)"
  define d4 where "d4 = disp_emit StrategyDecide (disp_emit (StrategySetup (mPresentLayers d3) flags) d3)"
  have 1: "keeps_layers d (upd_power (setScreenStatus (mPresentLayers d = [] \<or> mConfirmSkip d)) d)"
    by (rule keeps_same) (simp_all add: upd_power_def)
  have 2: "keeps_layers d d2" unfolding d2_def
    by (rule keeps_layers_trans [OF 1 shaped_keeps]) (use calibrate_shaped in blast)
  have 3: "keeps_layers d d3" unfolding d3_def
    using 2 keeps_layers_trans [OF 2 shaped_keeps [OF conjunct1 [OF adjust_shaped]]] by simp
  have 4: "keeps_layers d d4" unfolding d4_def by (rule keeps_layers_trans [OF 3 keeps_layers_trans [OF keeps_emit keeps_emit]])
  show ?thesis
    unfolding decideStrategy_def Let_def d2_def [symmetric] d3_def [symmetric] d4_def [symmetric] yields_bindE yields_getE
    by (auto intro: keeps_then [OF 4 keeps_with_stg])
qed

lemma keeps_validate:
  assumes env: "env_ok e" and objs: "distinct (layer_objs d)"
  shows "yields (validateDisplay e g d) (\<lambda>(r, d'). keeps_layers d d')"
proof -
  define d2 where "d2 = checkPower e (collectForPresent e d)"
  have 2: "keeps_layers d d2" unfolding d2_def
    by (rule keeps_layers_trans [OF collected_frame(1) [OF env objs refl] shaped_keeps [OF checkPower_shaped]])
  have prep: "keeps_layers d2 (prepareClient d2)"
    by (rule keeps_same) (simp_all add: prepareClient_def disp_emit_def split: option.split)
  have "yields (decideStrategy e g f d2) (\<lambda>(r, d3). yields (if r < 0 then Inr ((HWC2_ERROR_NO_RESOURCES, None), d3)
      else validateRequests e d3) (\<lambda>(r, d'). keeps_layers d d'))" for f
  proof (rule yields_mono [OF keeps_decide], clarify)
    fix r :: int and d3 assume "keeps_layers d2 d3"
    then have 3: "keeps_layers d d3" by (rule keeps_layers_trans [OF 2])
    show "yields (if r < 0 then Inr ((HWC2_ERROR_NO_RESOURCES, None), d3) else validateRequests e d3) (\<lambda>(r, d'). keeps_layers d d')"
      using 3 keeps_then [OF 3 keeps_requests] by simp
  qed
  then show ?thesis
    using keeps_then [OF keeps_layers_trans [OF 2 prep] keeps_requests]
    unfolding validateDisplay_def Let_def d2_def [symmetric]
    by (cases "mSkipComposition d2") (simp_all add: yields_bindE split_def)
qed

section \<open>Power, targets, the tunnel thread\<close>

lemma fold_emit: "fold (\<lambda>x. disp_emit (f x)) xs d = d\<lparr>disp_log := disp_log d @ map f xs\<rparr>"
  by (induction xs arbitrary: d) (simp_all add: disp_emit_def)

lemma keeps_blank: "keeps_layers d (blankDisplayLocked e b d)"
  by (rule keeps_same) (simp_all add: blankDisplayLocked_def disp_ask_def disp_emit_def fold_emit
    Let_def split_def)

lemma keeps_power: "keeps_layers d (snd (disp_setPowerMode e m d))"
proof -
  have k: "keeps_layers d (d\<lparr>mHwcPowerMode := p\<rparr>)" for p by (rule keeps_same) simp_all
  show ?thesis
    using k keeps_layers_trans [OF k keeps_layers_trans [OF keeps_blank keeps_refresh]]
    by (simp add: disp_setPowerMode_def Let_def split_def)
qed

lemma keeps_target: "yields (setClientTarget e t d) (\<lambda>(r, d'). keeps_layers d d')"
proof -
  have k: "keeps_layers d (disp_emit ev (d\<lparr>objs_made := Suc (objs_made d), fb_heap := h, mClientTarget := f,
      composer_heap := c\<rparr>))" for ev h f c
    by (rule keeps_same) (simp_all add: disp_emit_def)
  have "yields r (\<lambda>_. True)" for r :: "fault + composer" by simp
  then show ?thesis
    using k by (simp add: setClientTarget_def Let_def yields_bindE yields_getE)
qed

lemma tame_connection: "tame l (handleDisplayDisconnect p b l)"
proof -
  have "ident (handleDisplayDisconnect p b l) = ident l"
    by (simp add: handleDisplayDisconnect_def registerConsumer_def askVtRefresh_def ident_def VtModel.ask_def emit_def
      Let_def split_def split: option.split)
  then show ?thesis using handleDisplayDisconnect_same by (auto simp: tame_def ident_def accounts_refl)
qed

lemma updateVt_ok:
  "lives_ok d \<Longrightarrow> okE (disp_updateVtBuffers e d) (keeps_layers d)"
  unfolding disp_updateVtBuffers_def
  by (rule keeps_foldE [OF _ _ subset_refl])
    (auto intro!: keeps_upd_layerE updateVtBuffer_accounts keeps_ident_update)

lemma releaseVt_ok:
  assumes "lives_ok d"
  shows "okE (releaseVtLayers e d) (keeps_layers d)"
  unfolding releaseVtLayers_def
proof (rule keeps_foldE [OF _ assms subset_refl])
  fix a and d :: "'a hwc2_display"
  assume "lives_ok d" "a \<in> live d"
  moreover have "okE (bindE (releaseVtBuffer (vtp e) l) (\<lambda>(ret, l'). Inr l')) (accounts l {#})" if "vt_layer_ok l" for l
    using releaseVtBuffer_accounts [OF that, of "vtp e"] by (simp add: okE_bindE split_def)
  ultimately show "okE (releaseVtLayer e a d) (keeps_layers d)"
    unfolding releaseVtLayer_def by (auto intro!: keeps_upd_layerE keeps_ident_releaseVt)
qed

lemma keeps_time: "keeps_layers d (setVtLayersPresentTime e d)"
  unfolding setVtLayersPresentTime_def Let_def
  by (rule keeps_fold) (rule keeps_upd_layer, rule tame_presentTime)

lemma keeps_connection: "keeps_layers d (snd (handleVtDisplayConnection e d))"
  unfolding handleVtDisplayConnection_def Let_def snd_conv
  by (rule keeps_fold) (auto intro: keeps_upd_layer tame_connection)

lemma keeps_presentVt: "yields (presentVtVideo g d) (keeps_layers d)"
  using keeps_then [OF keeps_emit [of d StrategyCommitTunnel] keeps_with_stg [of g _ "stg_commitTunnelVideo g"]]
  by (simp add: presentVtVideo_def yields_bindE yields_getE split_def)

lemma foldE_heap:
  "foldE (\<lambda>a. upd_layerE a f) xs d = Inr d' \<Longrightarrow> d' = d\<lparr>layer_heap := layer_heap d'\<rparr>"
proof (induction xs arbitrary: d)
  case (Cons x xs)
  from Cons.prems obtain d1 where d1: "upd_layerE x f d = Inr d1" "foldE (\<lambda>a. upd_layerE a f) xs d1 = Inr d'"
    by (auto simp: bindE_Inr_iff)
  then obtain l where "d1 = upd_layer x (\<lambda>_. l) d" by (auto simp: upd_layerE_def bindE_Inr_iff)
  then have "d1 = d\<lparr>layer_heap := layer_heap d1\<rparr>" by (simp add: upd_layer_def)
  with Cons.IH [OF d1(2)] show ?case by (metis hwc2_display.update_convs(2) hwc2_display.surjective)
qed simp

lemma fold_strategy:
  "(\<And>a d. mCompositionStrategy (f a d) = mCompositionStrategy d)
     \<Longrightarrow> mCompositionStrategy (fold f xs d) = mCompositionStrategy d"
  by (induction xs arbitrary: d) simp_all

text \<open>A round up to the commit; it can only fail where the strategy does.\<close>

lemma round_split:
  assumes ok: "lives_ok d"
  shows "\<exists>c d2. keeps_layers d d2 \<and> mCompositionStrategy d2 = mCompositionStrategy d
    \<and> vtRound e g d = bindE (if c then presentVtVideo g d2 else Inr d2) (releaseVtLayers e)"
proof -
  let ?d0 = "setVtLayersPresentTime e d"
  obtain d1 where d1: "disp_updateVtBuffers e ?d0 = Inr d1" "keeps_layers ?d0 d1"
    using updateVt_ok [OF lives_ok_keeps [OF ok keeps_time]] by (auto simp: okE_iff)
  let ?c = "fst (handleVtDisplayConnection e d1)" and ?d2 = "snd (handleVtDisplayConnection e d1)"
  have "keeps_layers d ?d2" by (rule keeps_layers_trans [OF keeps_layers_trans [OF keeps_time d1(2)] keeps_connection])
  moreover have "mCompositionStrategy ?d2 = mCompositionStrategy d1"
    unfolding handleVtDisplayConnection_def Let_def snd_conv by (rule fold_strategy) (simp add: upd_layer_def)
  moreover have "mCompositionStrategy d1 = mCompositionStrategy ?d0"
    using arg_cong [OF foldE_heap [OF d1(1) [unfolded disp_updateVtBuffers_def]], of mCompositionStrategy] by simp
  moreover have "mCompositionStrategy ?d0 = mCompositionStrategy d"
    unfolding setVtLayersPresentTime_def Let_def by (rule fold_strategy) (simp add: upd_layer_def)
  moreover have "vtRound e g d = bindE (if ?c then presentVtVideo g ?d2 else Inr ?d2) (releaseVtLayers e)"
    by (simp add: vtRound_def d1(1) split_def Let_def)
  ultimately show ?thesis by auto
qed

lemma keeps_round:
  fixes d :: "'s hwc2_display"
  assumes ok: "lives_ok d"
  shows "yields (vtRound e g d) (keeps_layers d)"
proof -
  from round_split [OF ok] obtain c d2 where 2: "keeps_layers d d2"
    and run: "vtRound e g d = bindE (if c then presentVtVideo g d2 else Inr d2) (releaseVtLayers e)" by blast
  have "yields (if c then presentVtVideo g d2 else Inr d2) (keeps_layers d2)" by (simp add: keeps_presentVt)
  then show ?thesis unfolding run yields_bindE
  proof (rule yields_mono)
    fix d3 assume "keeps_layers d2 d3"
    then have 3: "keeps_layers d d3" by (rule keeps_layers_trans [OF 2])
    show "yields (releaseVtLayers e d3) (keeps_layers d)"
      by (rule yields_mono [OF okE_yields [OF releaseVt_ok [OF lives_ok_keeps [OF ok 3]]]]) (rule keeps_layers_trans [OF 3])
  qed
qed

definition tunnel_total :: "'s stg_ops \<Rightarrow> bool" where
  "tunnel_total g \<longleftrightarrow> (\<forall>s. okE (stg_commitTunnelVideo g s) (\<lambda>_. True))"

lemma round_total:
  assumes ok: "lives_ok d" and tot: "tunnel_total g" and k: "mCompositionStrategy d \<noteq> None"
  shows "okE (vtRound e g d) (\<lambda>d'. mCompositionStrategy d' = mCompositionStrategy d)"
proof -
  from round_split [OF ok] obtain c d2 where 2: "keeps_layers d d2" "mCompositionStrategy d2 = mCompositionStrategy d"
    and run: "vtRound e g d = bindE (if c then presentVtVideo g d2 else Inr d2) (releaseVtLayers e)" by blast
  obtain n where n: "mCompositionStrategy d2 = Some n" using k 2(2) by auto
  have p: "okE (if c then presentVtVideo g d2 else Inr d2) (\<lambda>d3. mCompositionStrategy d3 = mCompositionStrategy d2)"
  proof -
    from tot obtain r s where "stg_commitTunnelVideo g (install g n (disp_emit StrategyCommitTunnel d2)) = Inr (r, s)"
      unfolding tunnel_total_def okE_iff by fast
    then show ?thesis by (simp add: presentVtVideo_def n getE_def with_stg_def read_back_def disp_emit_def)
  qed
  have kp: "yields (if c then presentVtVideo g d2 else Inr d2) (keeps_layers d2)" by (simp add: keeps_presentVt)
  from p obtain d3 where d3: "(if c then presentVtVideo g d2 else Inr d2) = Inr d3" "mCompositionStrategy d3 = mCompositionStrategy d2"
    unfolding okE_iff by blast
  have l3: "lives_ok d3" by (rule lives_ok_keeps [OF ok keeps_layers_trans [OF 2(1) yieldsD [OF kp d3(1)]]])
  obtain d4 where d4: "releaseVtLayers e d3 = Inr d4" using releaseVt_ok [OF l3] by (auto simp: okE_iff)
  have "mCompositionStrategy d4 = mCompositionStrategy d3"
  proof -
    have one: "mCompositionStrategy x = mCompositionStrategy d" if "releaseVtLayer e a d = Inr x" for a d x
      using that by (auto simp: releaseVtLayer_def upd_layerE_def upd_layer_def bindE_Inr_iff split: if_splits)
    have "foldE (releaseVtLayer e) xs d = Inr x \<Longrightarrow> mCompositionStrategy x = mCompositionStrategy d" for xs d x
      by (induction xs arbitrary: d) (auto simp: bindE_Inr_iff dest: one)
    with d4 show ?thesis by (simp add: releaseVtLayers_def)
  qed
  then show ?thesis using d3 d4 2(2) by (simp add: run)
qed

section \<open>Hot plug and mode changes\<close>

lemma keeps_disp_ok: "disp_ok d \<Longrightarrow> yields r (keeps_layers d) \<Longrightarrow> yields r disp_ok"
  by (auto simp: yields_def intro: disp_ok_keeps)

lemma keeps_thread: "yields (handleVtThreadLocked d) (keeps_layers d)"
  by (rule yields_mono [OF handleVtThread_frame]) (auto intro: keeps_same)

lemma reset_ids: "ids_ok ids g \<Longrightarrow> ids_ok [] (g\<lparr>mLayersBitmap := bits_reset (mLayersBitmap g)\<rparr>)"
  by (auto simp: ids_ok_def bits_reset_def is_set_def)

lemma no_layers_ok:
  "mLayers d = [] \<Longrightarrow> mPresentLayers d = [] \<Longrightarrow> ids_ok [] (layer_gen d) \<Longrightarrow> disp_ok d"
  by (simp add: disp_ok_def lives_ok_def live_def layer_objs_def)

lemma clearLayers_ok:
  assumes ok: "disp_ok d"
  shows "yields (clearLayers g d) (\<lambda>d'. disp_ok d' \<and> mLayers d' = [])"
proof -
  define d1 where "d1 = d\<lparr>mLayers := [], mChangedLayers := [], mPresentLayers := []\<rparr>"
  define P where "P = (\<lambda>d2 :: 'a hwc2_display. mLayers d2 = [] \<and> mPresentLayers d2 = [] \<and> layer_gen d2 = layer_gen d)"
  have ids: "ids_ok (map fst (mLayers d)) (layer_gen d)" using ok by (simp add: disp_ok_def)
  have stg: "yields (with_stg g k f (disp_emit (StrategySetup [] 0) (updateStrategy g k d1))) (\<lambda>(u, d2). P d2)" for k and f :: "'a \<Rightarrow> fault + unit \<times> 'a"
    by (simp add: with_stg_def yields_bindE split_def P_def read_back_def d1_def updateStrategy_def disp_emit_def)
  have mid: "yields (case mCompositionStrategy d1 of
               None \<Rightarrow> Inr d1
             | Some k \<Rightarrow> bindE (with_stg g k (\<lambda>s. bindE (stg_setup g (mPresentLayers d1) (mPresentComposers d1)
                   (mPresentPlanes d1) (mDisplayCrtc d1) 0 0 (mDisplayMode d1) s) (\<lambda>s. Inr ((), s)))
                 (disp_emit (StrategySetup [] 0) (updateStrategy g k d1))) (\<lambda>(u, d2). Inr d2)) P"
    using stg by (auto simp: yields_bindE split_def P_def d1_def split: option.split)
  show ?thesis unfolding clearLayers_def Let_def d1_def [symmetric] yields_bindE
  proof (rule yields_mono [OF mid])
    fix d2 assume P: "P d2"
    let ?d3 = "d2\<lparr>layer_gen := (layer_gen d2)\<lparr>mLayersBitmap := bits_reset (mLayersBitmap (layer_gen d2))\<rparr>\<rparr>"
    have ok3: "disp_ok ?d3" by (rule no_layers_ok) (use P reset_ids [OF ids] in \<open>simp_all add: P_def\<close>)
    show "yields (handleVtThreadLocked ?d3) (\<lambda>d'. disp_ok d' \<and> mLayers d' = [])"
      by (rule yields_mono [OF keeps_thread]) (use disp_ok_keeps [OF ok3] P in \<open>auto simp: keeps_layers_def P_def\<close>)
  qed
qed

lemma cleanup_ok:
  fixes d :: "'s hwc2_display"
  assumes ok: "disp_ok d"
  shows "yields (cleanupBeforeDestroy e g d) (\<lambda>d'. disp_ok d' \<and> mLayers d' = [])"
proof -
  have out: "yields (clearClientOutput d) (keeps_layers d)"
  proof -
    have "keeps_layers d (prepareClient d)"
      by (rule keeps_same) (simp_all add: prepareClient_def disp_emit_def split: option.split)
    moreover have "keeps_layers d (disp_emit ev ((prepareClient d)\<lparr>composer_heap := h\<rparr>))" for ev h
      by (rule keeps_same) (simp_all add: prepareClient_def disp_emit_def split: option.split)
    ultimately show ?thesis by (simp add: clearClientOutput_def Let_def yields_bindE split: option.split)
  qed
  have reset: "yields (foldE (resetLayer e) (layer_objs d2) d2) (keeps_layers d2)" if ok2: "lives_ok d2" for d2 :: "'s hwc2_display"
  proof (rule okE_yields, rule keeps_foldE [OF _ ok2 subset_refl])
    fix a and d :: "'s hwc2_display"
    assume l: "lives_ok d" "a \<in> live d"
    have n: "keeps_layers d (upd_layer a (setNeedAskRefresh True) d)" by (rule keeps_upd_layer) (rule tame_needAsk)
    have rel: "okE (upd_layerE a (releaseVtResource (vtp e)) d1) (keeps_layers d1)"
      if "lives_ok d1" "a \<in> live d1" for d1 :: "'s hwc2_display"
      by (rule keeps_upd_layerE [OF that])
        (use release_accounts keeps_ident_release in \<open>auto simp: releaseVtResource_def\<close>)
    have "a \<in> live (upd_layer a (setNeedAskRefresh True) d)" using l(2) by (simp add: live_def upd_layer_def layer_objs_def)
    with lives_ok_keeps [OF l(1) n] rel
    have "okE (upd_layerE a (releaseVtResource (vtp e)) (upd_layer a (setNeedAskRefresh True) d)) (keeps_layers d)"
      by (blast intro: okE_mono keeps_layers_trans [OF n])
    with rel [OF l] show "okE (resetLayer e a d) (keeps_layers d)" by (simp add: resetLayer_def)
  qed
  show ?thesis unfolding cleanupBeforeDestroy_def yields_bindE Let_def
  proof (rule yields_mono [OF out])
    fix d1 assume k: "keeps_layers d d1"
    define d2 where "d2 = fold (\<lambda>p. disp_emit (ClearPlaneResources (plane_id p))) (mPlanes d1) d1"
    have "keeps_layers d1 d2" unfolding d2_def fold_emit by (rule keeps_same) simp_all
    then have ok2: "disp_ok d2" using disp_ok_keeps [OF disp_ok_keeps [OF ok k]] by blast
    then have "lives_ok d2" by (simp add: disp_ok_def)
    from keeps_disp_ok [OF ok2 reset [OF this]]
    show "yields (foldE (resetLayer e) (layer_objs d2) d2) (\<lambda>d3. yields (clearLayers g d3) (\<lambda>d'. disp_ok d' \<and> mLayers d' = []))"
      by (rule yields_mono) (rule clearLayers_ok)
  qed
qed

end
