(* ===== verification/DisplayCalls.thy ===== *)
theory DisplayCalls
  imports DisplayInv
begin

text \<open>
  The calls a display gets, as the datatype \<open>disp_op\<close>, and the displays they can reach. Every call
  keeps the invariant \<open>disp_ok\<close> where it returns.
\<close>

section \<open>Plugging\<close>

lemma disp_ok_same:
  fixes d d' :: "'s hwc2_display"
  shows "disp_ok d \<Longrightarrow> mLayers d' = mLayers d \<Longrightarrow> layer_gen d' = layer_gen d \<Longrightarrow> objs_made d' = objs_made d
   \<Longrightarrow> mPresentLayers d' = mPresentLayers d \<Longrightarrow> layer_heap d' = layer_heap d \<Longrightarrow> disp_ok d'"
  using disp_ok_keeps [OF _ keeps_same [of d' d]] by simp

lemma plug_ok:
  fixes d :: "'s hwc2_display"
  assumes ok: "disp_ok d"
  shows "yields (onHotplug e g b d) disp_ok"
proof -
  define d1 where "d1 = (if mModePolicy d then disp_emit (ModePolicyHotplug b) (d\<lparr>mNeedChangeModelist := False\<rparr>) else d)"
  have ok1: "disp_ok d1" by (rule disp_ok_same [OF ok]) (simp_all add: d1_def disp_emit_def)
  have inn: "yields (plugIn e d1) disp_ok"
    unfolding plugIn_def
    by (rule keeps_disp_ok [OF _ keeps_thread], rule disp_ok_same [OF ok1]) (simp_all add: disp_emit_def upd_power_def)
  have out: "yields (plugOut e g d1) disp_ok"
  proof -
    define mode where "mode = (if mModePolicy d1 then Inr d1 else bindE (getE NullDeref (mDisplayCrtc d1)) (\<lambda>_.
              Inr (disp_emit (CrtcSetMode (if vmx_property e then ''576cvbs'' else ''dummy_l'')) d1)))"
    have k: "yields mode disp_ok"
      by (auto simp: mode_def yields_bindE yields_getE ok1 disp_emit_def intro: disp_ok_same [OF ok1])
    show ?thesis unfolding plugOut_def Let_def mode_def [symmetric] yields_bindE
    proof (rule yields_mono [OF k])
      fix d2 :: "'s hwc2_display" assume ok2: "disp_ok d2"
      let ?d3 = "blankDisplayLocked e (mDisplayIdx d2 = HWC_DISPLAY_PRIMARY e)
            ((upd_power (setConnectorStatus False) d2)\<lparr>mSkipComposition := True\<rparr>)"
      have ok2': "disp_ok ((upd_power (setConnectorStatus False) d2)\<lparr>mSkipComposition := True\<rparr>)"
        by (rule disp_ok_same [OF ok2]) (simp_all add: upd_power_def)
      have ok3: "disp_ok ?d3" by (rule disp_ok_keeps [OF ok2' keeps_blank])
      have ok4: "disp_ok (disp_emit UpdateModes (disp_emit VsyncSoftwareMode ?d3))"
        by (rule disp_ok_same [OF ok3]) (simp_all add: disp_emit_def)
      have "yields (cleanupBeforeDestroy e g (disp_emit UpdateModes (disp_emit VsyncSoftwareMode ?d3)))
          (\<lambda>d3. disp_ok (disp_emit (ObserverHotplug False) d3))"
        by (rule yields_mono [OF cleanup_ok [OF ok4]]) (auto intro: disp_ok_same simp: disp_emit_def)
      with ok3 show "yields (if connector_hdmi e \<or> connector_virtual e then bindE (getE NullDeref (mVsync ?d3)) (\<lambda>_.
           bindE (cleanupBeforeDestroy e g (disp_emit UpdateModes (disp_emit VsyncSoftwareMode ?d3))) (\<lambda>d3.
           Inr (disp_emit (ObserverHotplug False) d3))) else Inr ?d3) disp_ok"
        by (simp add: yields_bindE yields_getE)
    qed
  qed
  show ?thesis using inn out by (simp add: onHotplug_def Let_def d1_def)
qed

lemma modeChanged_ok:
  fixes d :: "'s hwc2_display"
  assumes ok: "disp_ok d"
  shows "yields (onModeChanged e g stage d) disp_ok"
proof -
  define d2 where "d2 = (let ((bSendPlugIn, hdrCapsChanged, bNotifySC), d1) = modeComplete e d;
            d1' = getActiveConfigWidthAndHeight e d1 in if bSendPlugIn then snd (disp_ask e ModeMgrNeedHotplug d1') else d1')"
  have act: "disp_ok d1 \<Longrightarrow> disp_ok (getActiveConfigWidthAndHeight e d1)" for d1 :: "'s hwc2_display"
    by (simp add: getActiveConfigWidthAndHeight_def split: option.split; auto intro: disp_ok_same)
  have ask: "disp_ok d1 \<Longrightarrow> disp_ok (snd (disp_ask e ev d1))" for ev and d1 :: "'s hwc2_display"
    by (rule disp_ok_keeps [OF _ keeps_ask])
  have mode: "disp_ok (snd (modeComplete e d))"
    by (rule disp_ok_same [OF ok]) (simp_all add: modeComplete_def disp_ask_def disp_emit_def fold_emit upd_power_def
      Let_def split_def)
  have ok2: "disp_ok d2" using ask [OF act [OF mode]] act [OF mode] by (simp add: d2_def Let_def split_def)
  have clean: "yields (cleanupBeforeDestroy e g d2) disp_ok"
    by (rule yields_mono [OF cleanup_ok [OF ok2]]) simp
  have em: "disp_ok d3 \<Longrightarrow> disp_ok (disp_emit ev d3)" for ev and d3 :: "'s hwc2_display"
    by (rule disp_ok_keeps [OF _ keeps_emit])
  have after: "yields (if c then bindE (if n then cleanupBeforeDestroy e g d2 else Inr d2)
      (\<lambda>d3. let d4 = disp_emit (ObserverHotplug True) d3 in Inr (if b then disp_emit NotifyPlugIn d4 else d4)) else Inr (disp_emit ResetTags d2))
      (\<lambda>d5. disp_ok (disp_emit ObserverRefreshDisplay d5))" for c n b
    using em ok2 yields_mono [OF clean, of "\<lambda>d3. disp_ok (disp_emit ObserverRefreshDisplay
      (if b then disp_emit NotifyPlugIn (disp_emit (ObserverHotplug True) d3) else disp_emit (ObserverHotplug True) d3))"]
    by (simp add: yields_bindE Let_def)
  have off: "disp_ok ((upd_power (setConnectorStatus False) d)\<lparr>mSkipComposition := True\<rparr>)"
    by (rule disp_ok_same [OF ok]) (simp_all add: upd_power_def)
  have run: "\<exists>c n b. stage = 1 \<longrightarrow> onModeChanged e g stage d = bindE (if c then bindE (if n then cleanupBeforeDestroy e g d2 else Inr d2)
      (\<lambda>d3. let d4 = disp_emit (ObserverHotplug True) d3 in Inr (if b then disp_emit NotifyPlugIn d4 else d4))
      else Inr (disp_emit ResetTags d2))
      (\<lambda>d5. Inr (disp_emit ObserverRefreshDisplay d5))"
  proof -
    obtain s h n d1 where m: "modeComplete e d = ((s, h, n), d1)" 
      by (cases "modeComplete e d"; cases "fst (modeComplete e d)") auto
    show ?thesis
      unfolding onModeChanged_def m d2_def Let_def split_def fst_conv snd_conv
      by (rule exI [of _ "s \<and> (fst (if s then disp_ask e ModeMgrNeedHotplug (getActiveConfigWidthAndHeight e d1)
            else (0, getActiveConfigWidthAndHeight e d1)) \<noteq> 0 \<or> h)"],
          rule exI [of _ "\<not> mFirstPresent (if s then snd (disp_ask e ModeMgrNeedHotplug (getActiveConfigWidthAndHeight e d1))
            else getActiveConfigWidthAndHeight e d1) \<and> primaryHotplugEnabled e"], rule exI [of _ n]) (cases s; simp)
  qed
  show ?thesis
  proof (cases "stage = 1")
    case True
    with run obtain c n b where r: "onModeChanged e g stage d = bindE (if c then bindE (if n then cleanupBeforeDestroy e g d2 else Inr d2)
      (\<lambda>d3. let d4 = disp_emit (ObserverHotplug True) d3 in Inr (if b then disp_emit NotifyPlugIn d4 else d4))
      else Inr (disp_emit ResetTags d2))
      (\<lambda>d5. Inr (disp_emit ObserverRefreshDisplay d5))" by blast
    show ?thesis unfolding r yields_bindE [of _ "\<lambda>d5. Inr (disp_emit ObserverRefreshDisplay d5)"] using after by simp
  next
    case False
    with off show ?thesis by (simp add: onModeChanged_def)
  qed
qed

section \<open>Reachable displays\<close>

datatype disp_op =
    CreateLayer
  | DestroyLayer nat
  | LayerCall nat layer_op
  | ValidateDisplay
  | AcceptDisplayChanges
  | PresentDisplay
  | GetReleaseFences
  | SetClientTarget "nat option"
  | SetPowerMode int
  | SetVsyncEnable int
  | SetVsync vsync_type nat
  | SetColorTransform int
  | SetCalibrateInfo int int int int
  | OutsideChanged
  | DisableSideband bool
  | HideVideoLayer bool
  | BlankDisplay
  | Hotplug bool
  | ModeChanged int
  | VtRound
  | OnVsync vsync_type int int
  | SetDisplayResource nat "hw_display_plane list"
  | SetModeMgr

text \<open>A call for a layer looks it up by its id first.\<close>

fun disp_call :: "disp_env \<Rightarrow> 's stg_ops \<Rightarrow> disp_op \<Rightarrow> 's hwc2_display \<Rightarrow> fault + 's hwc2_display" where
  "disp_call e g CreateLayer d = bindE (createLayer e d) (\<lambda>(i, d'). Inr d')"
| "disp_call e g (DestroyLayer i) d = bindE (destroyLayer e i d) (\<lambda>(r, d'). Inr d')"
| "disp_call e g (LayerCall i op) d = (case getLayerById i d of
     None \<Rightarrow> Inr d | Some a \<Rightarrow> upd_layerE a (layer_step (vtp e) op) d)"
| "disp_call e g ValidateDisplay d = bindE (validateDisplay e g d) (\<lambda>(r, d'). Inr d')"
| "disp_call e g AcceptDisplayChanges d = Inr (acceptDisplayChanges e d)"
| "disp_call e g PresentDisplay d = bindE (presentDisplay e g d) (\<lambda>(r, d'). Inr d')"
| "disp_call e g GetReleaseFences d = Inr (snd (getReleaseFences e d))"
| "disp_call e g (SetClientTarget t) d = bindE (setClientTarget e t d) (\<lambda>(r, d'). Inr d')"
| "disp_call e g (SetPowerMode m) d = Inr (snd (disp_setPowerMode e m d))"
| "disp_call e g (SetVsyncEnable n) d = Inr (snd (setVsyncEnable e n d))"
| "disp_call e g (SetVsync t v) d = Inr (setVsync t v d)"
| "disp_call e g (SetColorTransform h) d = Inr (snd (setColorTransform e h d))"
| "disp_call e g (SetCalibrateInfo x y w h) d = Inr (setCalibrateInfo x y w h d)"
| "disp_call e g OutsideChanged d = Inr (outsideChanged d)"
| "disp_call e g (DisableSideband b) d = Inr (disableSideband b d)"
| "disp_call e g (HideVideoLayer b) d = Inr (hideVideoLayer b d)"
| "disp_call e g BlankDisplay d = Inr (blankDisplay e d)"
| "disp_call e g (Hotplug b) d = onHotplug e g b d"
| "disp_call e g (ModeChanged stage) d = onModeChanged e g stage d"
| "disp_call e g VtRound d = vtRound e g d"
| "disp_call e g (OnVsync t ts p) d = Inr (onVsync t ts p d)"
| "disp_call e g (SetDisplayResource c ps) d = setDisplayResource e g c ps d"
| "disp_call e g SetModeMgr d = Inr (setModeMgr e d)"

text \<open>What a caller owes: room for a layer, and what \<open>op_ok\<close> asks of a call for a layer.\<close>

fun call_ok :: "disp_op \<Rightarrow> 's hwc2_display \<Rightarrow> bool" where
  "call_ok CreateLayer d \<longleftrightarrow> length (mLayers d) < 256"
| "call_ok (LayerCall i op) d \<longleftrightarrow> (case getLayerById i d of None \<Rightarrow> True | Some a \<Rightarrow> op_ok op (layer_heap d a))"
| "call_ok _ d \<longleftrightarrow> True"

inductive disp_reach :: "disp_env \<Rightarrow> 's stg_ops \<Rightarrow> 's hwc2_display \<Rightarrow> bool" for e g where
  disp_start: "disp_reach e g (display_initialize client dummy di (display_new e i ls fs cs stgs))"
| disp_next: "disp_reach e g d \<Longrightarrow> call_ok op d \<Longrightarrow> disp_call e g op d = Inr d' \<Longrightarrow> disp_reach e g d'"

inductive_cases disp_reachE: "disp_reach e g d"

lemma layer_call_ok:
  assumes ok: "disp_ok d" and a: "getLayerById i d = Some a" and op: "op_ok op (layer_heap d a)"
  shows "okE (upd_layerE a (layer_step (vtp e) op) d) disp_ok"
proof -
  let ?l = "layer_heap d a"
  have ia: "(i, a) \<in> set (mLayers d)" using a by (simp add: getLayerById_def layers_find_def map_of_SomeD)
  then have live: "a \<in> live d" by (force simp: live_def layer_objs_def)
  then have "vt_layer_ok ?l" using ok by (simp add: disp_ok_def lives_ok_def)
  from layer_step_accounts [OF this op, of "vtp e"] obtain l where
    l: "layer_step (vtp e) op ?l = Inr l" "accounts ?l (mset (accepted op ?l)) l" by (auto simp: okE_iff)
  have n: "names l = names ?l" using layer_step_names [of "vtp e" op ?l] l(1) by (simp add: keeps_names_def)
  define d' where "d' = upd_layer a (\<lambda>_. l) d"
  have f: "mLayers d' = mLayers d" "layer_objs d' = layer_objs d" "live d' = live d" "layer_gen d' = layer_gen d"
    "objs_made d' = objs_made d" "layer_heap d' c = (if c = a then l else layer_heap d c)" for c
    by (simp_all add: d'_def upd_layer_def layer_objs_def live_def)
  have "lives_ok d'" using ok accounts_ok [OF l(2)] by (simp add: lives_ok_def f disp_ok_def)
  moreover have "fb_object.mId (layer_heap d' c) = fb_object.mId (layer_heap d c)" for c
    using n by (simp add: f names_def)
  ultimately have "disp_ok d'" using ok by (simp add: disp_ok_def f)
  then show ?thesis by (simp add: upd_layerE_def l(1) d'_def)
qed

lemma call_keeps_ok:
  fixes d :: "'s hwc2_display"
  assumes env: "env_ok e" and char: "\<not> signed_char e" and ok: "disp_ok d" and pre: "call_ok op d"
  shows "yields (disp_call e g op d) disp_ok"
proof -
  have lives: "lives_ok d" and objs: "distinct (layer_objs d)" using ok by (simp_all add: disp_ok_def)
  have pair: "yields (bindE r (\<lambda>(x, d'). Inr d')) disp_ok" if "yields r (\<lambda>(x, d'). keeps_layers d d')"
    for r :: "fault + 'x \<times> 's hwc2_display"
    unfolding yields_bindE by (rule yields_mono [OF that]) (auto intro: disp_ok_keeps [OF ok])
  note same = disp_ok_same [OF ok]
  show ?thesis
  proof (cases op)
    case CreateLayer
    with pre create_ok [OF ok env char] show ?thesis
      by (auto simp: yields_bindE split_def intro!: okE_yields elim: okE_mono)
  next
    case (DestroyLayer i)
    have "yields (destroyLayer e i d) (\<lambda>(r, d'). disp_ok d')"
      by (rule yields_mono [OF destroy_yields(1) [OF ok]]) auto
    then show ?thesis by (simp add: DestroyLayer yields_bindE split_def)
  next
    case (LayerCall i lop)
    with pre layer_call_ok [OF ok, of i _ lop] show ?thesis
      by (auto simp: ok intro: okE_yields split: option.splits)
  next
    case (SetDisplayResource c ps)
    have "yields (setDisplayResource e g c ps d) disp_ok"
      by (auto simp: setDisplayResource_def yields_bindE assertE_def Let_def split_def fold_emit intro: same)
    then show ?thesis by (simp add: SetDisplayResource)
  next
    case SetModeMgr
    have "disp_ok (setModeMgr e d)"
      by (rule same) (simp_all add: setModeMgr_def getActiveConfigWidthAndHeight_def disp_ask_def disp_emit_def upd_power_def
        Let_def split_def split: option.split)
    then show ?thesis by (simp add: SetModeMgr)
  next
    case BlankDisplay
    have "disp_ok ((upd_power (setConnectorStatus False) d)\<lparr>mSkipComposition := True\<rparr>)"
      by (rule same) (simp_all add: upd_power_def)
    then show ?thesis using disp_ok_keeps [OF _ keeps_blank] by (simp add: BlankDisplay blankDisplay_def)
  next
    case (SetVsync t v)
    have "disp_ok (setVsync t v d)"
      by (rule same) (simp_all add: setVsync_def disp_emit_def split: vsync_type.split option.split)
    then show ?thesis by (simp add: SetVsync)
  next
    case (OnVsync t ts p)
    have "disp_ok (onVsync t ts p d)"
      by (rule same) (simp_all add: onVsync_def onVtVsync_def disp_emit_def Let_def split: vsync_type.split)
    then show ?thesis by (simp add: OnVsync)
  next
    case (SetVsyncEnable n)
    have "disp_ok (snd (setVsyncEnable e n d))" by (rule same) (simp_all add: setVsyncEnable_def disp_emit_def Let_def)
    then show ?thesis by (simp add: SetVsyncEnable)
  next
    case (SetColorTransform h)
    have "disp_ok (snd (setColorTransform e h d))" by (rule same) (simp_all add: setColorTransform_def disp_emit_def Let_def)
    then show ?thesis by (simp add: SetColorTransform)
  next
    case (SetCalibrateInfo x y w h)
    then show ?thesis by (auto simp: setCalibrateInfo_def intro: same)
  next
    case OutsideChanged
    then show ?thesis by (auto simp: outsideChanged_def disp_emit_def intro: same)
  next
    case (DisableSideband b)
    then show ?thesis by (auto simp: disableSideband_def intro: same)
  next
    case (HideVideoLayer b)
    then show ?thesis by (auto simp: hideVideoLayer_def intro: same)
  qed (simp_all add: pair keeps_validate [OF env objs] keeps_present [OF lives] keeps_target
    disp_ok_keeps [OF ok keeps_accept] disp_ok_keeps [OF ok keeps_fences] disp_ok_keeps [OF ok keeps_power]
    plug_ok [OF ok] modeChanged_ok [OF ok] keeps_disp_ok [OF ok keeps_round [OF lives]])
qed

lemma start_ok: "disp_ok (display_initialize client dummy di (display_new e i ls fs cs stgs))"
  by (rule no_layers_ok) (simp_all add: display_initialize_def display_new_def ids_ok_init)

lemma disp_reach_ok:
  assumes "env_ok e" and "\<not> signed_char e"
  shows "disp_reach e g d \<Longrightarrow> disp_ok d"
proof (induction rule: disp_reach.induct)
  case (disp_start client dummy di i ls fs cs stgs)
  show ?case by (rule start_ok)
next
  case (disp_next d op d')
  from yieldsD [OF call_keeps_ok [OF assms disp_next.IH disp_next.hyps(2)] disp_next.hyps(3)] show ?case .
qed

end
