(* ===== verification/DisplayTunnel.thy ===== *)
theory DisplayTunnel
  imports DisplayLaws
begin

text \<open>
  The rounds of the video tunnel thread end: every round takes a buffer from each layer in game mode
  that has one.
\<close>

section \<open>One operation on every layer\<close>

lemma foldE_layers:
  assumes "distinct xs" and "foldE (\<lambda>a. upd_layerE a f) xs d = Inr d'"
  shows "\<exists>h. d' = d\<lparr>layer_heap := h\<rparr> \<and> (\<forall>a \<in> set xs. f (layer_heap d a) = Inr (h a))
    \<and> (\<forall>a. a \<notin> set xs \<longrightarrow> h a = layer_heap d a)"
  using assms
proof (induction xs arbitrary: d)
  case Nil
  then show ?case by (intro exI [of _ "layer_heap d"]) simp
next
  case (Cons x xs)
  from Cons.prems(2) obtain d1 where d1: "upd_layerE x f d = Inr d1" "foldE (\<lambda>a. upd_layerE a f) xs d1 = Inr d'"
    by (auto simp: bindE_Inr_iff)
  from d1(1) obtain l where l: "f (layer_heap d x) = Inr l" "d1 = upd_layer x (\<lambda>_. l) d"
    by (auto simp: upd_layerE_def bindE_Inr_iff)
  note rest = d1(2) [unfolded l(2)]
  let ?d = "upd_layer x (\<lambda>_. l) d"
  from Cons.IH [OF _ rest] Cons.prems(1) obtain h where h: "d' = ?d\<lparr>layer_heap := h\<rparr>"
    "\<forall>a \<in> set xs. f (layer_heap ?d a) = Inr (h a)" "\<forall>a. a \<notin> set xs \<longrightarrow> h a = layer_heap ?d a" by auto
  have "d' = d\<lparr>layer_heap := h\<rparr>" unfolding h(1) by (simp add: upd_layer_def)
  moreover have "f (layer_heap d a) = Inr (h a)" if "a \<in> set (x # xs)" for a
  proof (cases "a = x")
    case True
    then show ?thesis using h(3) l(1) Cons.prems(1) by (simp add: upd_layer_def)
  next
    case False
    then have "layer_heap ?d a = layer_heap d a" "a \<in> set xs" using that by (simp_all add: upd_layer_def)
    then show ?thesis using h(2) by metis
  qed
  moreover have "\<forall>a. a \<notin> set (x # xs) \<longrightarrow> h a = layer_heap d a"
    using h(3) by (simp add: upd_layer_def)
  ultimately show ?case by blast
qed

lemma fold_layers:
  assumes "distinct xs"
  shows "fold (\<lambda>a. upd_layer a f) xs d
    = d\<lparr>layer_heap := (\<lambda>a. if a \<in> set xs then f (layer_heap d a) else layer_heap d a)\<rparr>"
  using assms
proof (induction xs arbitrary: d)
  case Nil
  then show ?case by simp
next
  case (Cons x xs)
  let ?d = "upd_layer x f d"
  have "(\<lambda>a. if a \<in> set xs then f (layer_heap ?d a) else layer_heap ?d a)
      = (\<lambda>a. if a \<in> set (x # xs) then f (layer_heap d a) else layer_heap d a)"
    using Cons.prems by (auto simp: upd_layer_def fun_eq_iff)
  then show ?case using Cons.IH [of ?d] Cons.prems by (simp add: upd_layer_def)
qed

section \<open>A layer in a round\<close>

definition in_game :: "hwc2_layer \<Rightarrow> bool" where
  "in_game l \<longleftrightarrow> isVtBufferLocked l \<and> mGameMode l"

definition waiting :: "hwc2_layer \<Rightarrow> nat" where
  "waiting l = (if in_game l then length (mQueueItems l) else 0)"

definition picked :: "hwc2_layer \<Rightarrow> bool" where
  "picked l \<longleftrightarrow> (in_game l \<longrightarrow> mQueueItems l \<noteq> [] \<longrightarrow> mVtUpdate l \<and> 0 \<le> mVtBufferFd l)"

lemma newGameBuffer_waiting: "newGameBuffer l \<longleftrightarrow> 0 < waiting l"
  by (simp add: newGameBuffer_def waiting_def in_game_def)

lemma in_game_ident: "ident l' = ident l \<Longrightarrow> in_game l' = in_game l"
  by (simp add: ident_def in_game_def isVtBufferLocked_def)

lemma due_in_game: "in_game l \<Longrightarrow> shouldPresentNow l t"
  by (simp add: in_game_def shouldPresentNow_def)

lemma videoInfo_queue:
  "mQueueItems (snd (getVideoInfoFromUVM p fd l)) = mQueueItems l"
  "mVtUpdate (snd (getVideoInfoFromUVM p fd l)) = mVtUpdate l"
  "mVtBufferFd (snd (getVideoInfoFromUVM p fd l)) = mVtBufferFd l"
  by (simp_all add: getVideoInfoFromUVM_def VtModel.ask_def emit_def Let_def split_def)

lemma update_picks:
  assumes ok: "vt_layer_ok l" and run: "updateVtBuffer p l = Inr l'"
  shows "waiting l' = waiting l" "picked l'"
proof -
  have i: "ident l' = ident l" using keeps_ident_update [of p l] run by (simp add: keeps_ident_def)
  have q: "mQueueItems l' = mQueueItems l \<and> (mQueueItems l \<noteq> [] \<longrightarrow> mVtUpdate l' \<and> 0 \<le> mVtBufferFd l')"
    if g: "in_game l"
  proof (cases "mQueueItems l")
    case Nil
    with run show ?thesis by (simp add: updateVtBuffer_def split: if_splits)
  next
    case (Cons it rest)
    have fd: "0 \<le> mItemFd it" using ok Cons by (simp add: vt_layer_ok_def)
    have n: "expiredItemCount l = 0" using g by (simp add: expiredItemCount_def in_game_def)
    define m where "m = snd (getVideoInfoFromUVM p (mItemFd it)
      (l\<lparr>mVtUpdate := True, mVtBufferFd := mItemFd it, mTimestamp := mItemTime it\<rparr>))"
    obtain c where t: "takeFront p l = Inr (c, m\<lparr>mFirstVtBuffer := True, mTunnelIdUpdate := False,
        mPreviousTimestamp := mTimestamp m\<rparr>)"
    proof
      have "shouldPresentNow (l\<lparr>mVtUpdate := True, mVtBufferFd := mItemFd it, mTimestamp := mItemTime it\<rparr>) x" for x
        by (rule due_in_game) (use g in \<open>simp add: in_game_def isVtBufferLocked_def\<close>)
      then show "takeFront p l = Inr (fst (getVideoInfoFromUVM p (mItemFd it)
          (l\<lparr>mVtUpdate := True, mVtBufferFd := mItemFd it, mTimestamp := mItemTime it\<rparr>)),
          m\<lparr>mFirstVtBuffer := True, mTunnelIdUpdate := False, mPreviousTimestamp := mTimestamp m\<rparr>)"
        by (simp add: takeFront_def Cons m_def split_def Let_def)
    qed
    let ?m = "m\<lparr>mFirstVtBuffer := True, mTunnelIdUpdate := False, mPreviousTimestamp := mTimestamp m\<rparr>"
    have "isVtBufferLocked l" using g by (simp add: in_game_def)
    then have r: "(if c then askSurfaceFlingerRefresh ?m else Inr ?m) = Inr l'"
      using run Cons n t by (simp add: updateVtBuffer_def)
    have "mQueueItems l' = mQueueItems ?m" "mVtUpdate l' = mVtUpdate ?m" "mVtBufferFd l' = mVtBufferFd ?m"
      using r by (auto simp: askSurfaceFlingerRefresh_def emit_def split: if_splits option.splits)
    then show ?thesis using fd Cons by (simp add: m_def videoInfo_queue)
  qed
  show "waiting l' = waiting l" "picked l'"
    using q in_game_ident [OF i] by (auto simp: waiting_def picked_def)
qed

text \<open>What the calls between the two keep.\<close>

definition same_queue :: "hwc2_layer \<Rightarrow> hwc2_layer \<Rightarrow> bool" where
  "same_queue l l' \<longleftrightarrow> ident l' = ident l \<and> mQueueItems l' = mQueueItems l \<and> mVtUpdate l' = mVtUpdate l
     \<and> mVtBufferFd l' = mVtBufferFd l"

lemma same_queue_waiting: "same_queue l l' \<Longrightarrow> waiting l' = waiting l \<and> picked l' = picked l"
  using in_game_ident [of l' l] by (simp add: same_queue_def waiting_def picked_def)

lemma same_queue_ops:
  "same_queue l l" "same_queue l (setPresentTime t l)" "same_queue l (read_fb f l)"
  "same_queue l (handleDisplayDisconnect p b l)"
  by (simp_all add: same_queue_def setPresentTime_def read_fb_def ident_def handleDisplayDisconnect_def
    registerConsumer_def askVtRefresh_def VtModel.ask_def emit_def Let_def split_def split: option.split)

lemma releaseShown_queue: "mQueueItems (snd (releaseShown p l)) = mQueueItems l"
  by (simp add: releaseShown_def Let_def split_def setVtPrevReleaseFence_def collectReleased_def
    giveBack_def onVtFrameDisplayed_def collectUvmBuffer_def getPrevReleaseFence_def opt_fence_dup_def fence_dup_def
    countQueued_def VtModel.ask_def emit_def split: option.split)

lemma detach_same: "same_queue l (detachUvmBuffer l)"
  by (simp add: same_queue_def detachUvmBuffer_def ident_def emit_def)

lemma release_takes:
  assumes run: "releaseVtBuffer p l = Inr (r, l')" and pick: "picked l"
  shows "waiting l' = waiting l - 1"
proof -
  have i: "ident l' = ident l" using keeps_ident_releaseVt [of p l] run by (simp add: keeps_ident_def)
  have "mQueueItems l' = tl (mQueueItems l)" if g: "in_game l"
  proof -
    define s1 where "s1 = detachUvmBuffer l"
    define s2 where "s2 = (if mVtRefreshed s1 then s1\<lparr>mVtRefreshed := False\<rparr> else s1)"
    have same: "same_queue l s2" using detach_same [of l] by (simp add: s1_def s2_def same_queue_def ident_def)
    have vt: "isVtBufferLocked l" using g by (simp add: in_game_def)
    have "in_game s2" using in_game_ident [of s2 l] same g by (simp add: same_queue_def)
    then have now: "shouldPresentNow s2 x" for x by (rule due_in_game)
    have q: "mQueueItems s2 = mQueueItems l" "mVtUpdate s2 = mVtUpdate l" "mVtBufferFd s2 = mVtBufferFd l"
      using same by (simp_all add: same_queue_def)
    have body: "releaseVtBuffer p l = (if mVtRefreshed s1 \<and> \<not> mVtUpdate s2 then Inr (0, setVtPrevReleaseFence s2)
        else if \<not> mVtUpdate s2 then Inr (- EAGAIN, s2) else if mQueueItems s2 = [] then Inr (- EAGAIN, s2)
        else bindE (if 0 \<le> mVtBufferFd s2 then popQueue s2 else Inr s2) (\<lambda>s3. Inr (releaseShown p s3)))"
      unfolding releaseVtBuffer_def Let_def s1_def [symmetric] s2_def [symmetric] by (simp only: vt now) simp
    show ?thesis
    proof (cases "mQueueItems l")
      case Nil
      then show ?thesis using run q
        by (auto simp: body setVtPrevReleaseFence_def split: if_splits)
    next
      case (Cons it rest)
      then have "mVtUpdate l" "0 \<le> mVtBufferFd l" using pick g by (simp_all add: picked_def)
      then have "releaseShown p (s2\<lparr>mQueueItems := rest\<rparr>) = (r, l')"
        using run q Cons by (auto simp: body popQueue_def split: if_splits)
      then show ?thesis using releaseShown_queue [of p "s2\<lparr>mQueueItems := rest\<rparr>"] Cons by simp
    qed
  qed
  then show ?thesis using in_game_ident [OF i] by (simp add: waiting_def)
qed

section \<open>A round\<close>

definition vt_waiting :: "'s hwc2_display \<Rightarrow> nat" where
  "vt_waiting d = sum_list (map (\<lambda>a. waiting (layer_heap d a)) (layer_objs d))"

lemma newGame_waiting: "disp_newGameBuffer d \<longleftrightarrow> vt_waiting d \<noteq> 0"
  by (auto simp: disp_newGameBuffer_def vt_waiting_def newGameBuffer_waiting)

lemma connection_fold:
  fixes d :: "'s hwc2_display"
  shows "snd (handleVtDisplayConnection e d) = fold (\<lambda>a. upd_layer a (\<lambda>l. if isVtBufferLocked l
     then handleDisplayDisconnect (vtp e) (\<not> needBlankScreen (powerc e) (mPresentLayers d \<noteq> []) (mHwcPowerMode d)) l
     else l)) (layer_objs d) d"
proof -
  have "(if isVtBufferLocked (layer_heap d a) then upd_layer a f d else d)
      = upd_layer a (\<lambda>l. if isVtBufferLocked l then f l else l) d" for a f and d :: "'s hwc2_display"
    by (simp add: upd_layer_def)
  then show ?thesis by (simp add: handleVtDisplayConnection_def Let_def)
qed

lemma release_fold:
  fixes d :: "'s hwc2_display"
  shows "releaseVtLayers e d = foldE (\<lambda>a. upd_layerE a (\<lambda>l. if isVtBufferLocked l
     then bindE (releaseVtBuffer (vtp e) l) (\<lambda>(r, t). Inr t) else Inr l)) (layer_objs d) d"
proof -
  have "releaseVtLayer e a d = upd_layerE a (\<lambda>l. if isVtBufferLocked l
     then bindE (releaseVtBuffer (vtp e) l) (\<lambda>(r, t). Inr t) else Inr l) d" for a and d :: "'s hwc2_display"
    by (simp add: releaseVtLayer_def upd_layerE_def upd_layer_def)
  then have "releaseVtLayer e = (\<lambda>a. upd_layerE a (\<lambda>l. if isVtBufferLocked l
     then bindE (releaseVtBuffer (vtp e) l) (\<lambda>(r, t). Inr t) else Inr l) :: 's hwc2_display \<Rightarrow> _)" by (simp add: fun_eq_iff)
  then show ?thesis by (simp add: releaseVtLayers_def)
qed

lemma round_takes:
  assumes lives: "lives_ok d" and objs: "distinct (layer_objs d)" and run: "vtRound e g d = Inr d'"
  shows "mLayers d' = mLayers d" "a \<in> set (layer_objs d) \<Longrightarrow> waiting (layer_heap d' a) = waiting (layer_heap d a) - 1"
proof -
  let ?t = "mVsyncTimestamp d + (if mFRPeriodNanos d = 0
    then (case vsync_period e (disp_log d) of None \<Rightarrow> 0 | Some t \<Rightarrow> t) else mFRPeriodNanos d)"
  let ?os = "layer_objs d"
  define h0 where "h0 = (\<lambda>a. if a \<in> set ?os then setPresentTime ?t (layer_heap d a) else layer_heap d a)"
  have 0: "setVtLayersPresentTime e d = d\<lparr>layer_heap := h0\<rparr>"
    by (simp add: setVtLayersPresentTime_def fold_layers [OF objs] h0_def)
  from run [unfolded vtRound_def 0] obtain d1 where d1: "disp_updateVtBuffers e (d\<lparr>layer_heap := h0\<rparr>) = Inr d1"
    and rest1: "bindE (if fst (handleVtDisplayConnection e d1) then presentVtVideo g (snd (handleVtDisplayConnection e d1))
      else Inr (snd (handleVtDisplayConnection e d1))) (releaseVtLayers e) = Inr d'"
    by (auto simp: bindE_Inr_iff split_def Let_def)
  have "foldE (\<lambda>a. upd_layerE a (updateVtBuffer (vtp e))) ?os (d\<lparr>layer_heap := h0\<rparr>) = Inr d1"
    using d1 by (simp add: disp_updateVtBuffers_def layer_objs_def)
  from foldE_layers [OF objs this] obtain h1 where h1: "d1 = d\<lparr>layer_heap := h1\<rparr>"
    "\<forall>a \<in> set ?os. updateVtBuffer (vtp e) (h0 a) = Inr (h1 a)" by auto
  define d2 where "d2 = snd (handleVtDisplayConnection e d1)"
  obtain h2 where h2: "d2 = d\<lparr>layer_heap := h2\<rparr>" "\<forall>a. same_queue (h1 a) (h2 a)"
  proof
    have objs1: "distinct (layer_objs d1)" using objs by (simp add: h1(1) layer_objs_def)
    show "d2 = d\<lparr>layer_heap := layer_heap d2\<rparr>"
      unfolding d2_def connection_fold fold_layers [OF objs1] by (simp add: h1(1))
    show "\<forall>a. same_queue (h1 a) (layer_heap d2 a)"
      unfolding d2_def connection_fold fold_layers [OF objs1] by (simp add: h1(1) same_queue_ops)
  qed
  have "\<exists>d3. (if fst (handleVtDisplayConnection e d1) then presentVtVideo g d2 else Inr d2) = Inr d3
      \<and> releaseVtLayers e d3 = Inr d' \<and> mLayers d3 = mLayers d \<and> (\<forall>a. same_queue (h2 a) (layer_heap d3 a))"
  proof -
    from rest1 [folded d2_def] obtain d3 where d3: "(if fst (handleVtDisplayConnection e d1) then presentVtVideo g d2 else Inr d2) = Inr d3"
      "releaseVtLayers e d3 = Inr d'" by (auto simp: bindE_Inr_iff)
    have "d3 = d2 \<or> (\<exists>k s. d3 = read_back g k s (disp_emit StrategyCommitTunnel d2))"
      using d3(1) by (auto simp: presentVtVideo_def with_stg_def bindE_Inr_iff getE_def split: if_splits option.splits)
    then have "mLayers d3 = mLayers d2 \<and> (\<forall>a. same_queue (layer_heap d2 a) (layer_heap d3 a))"
      by (auto simp: read_back_def disp_emit_def same_queue_ops)
    with d3 show ?thesis by (auto simp: h2(1))
  qed
  then obtain d3 where d3: "releaseVtLayers e d3 = Inr d'" "mLayers d3 = mLayers d" "\<forall>a. same_queue (h2 a) (layer_heap d3 a)" by blast
  have objs3: "layer_objs d3 = ?os" using d3(2) by (simp add: layer_objs_def)
  obtain h4 where h4: "d' = d3\<lparr>layer_heap := h4\<rparr>"
    "\<forall>a \<in> set ?os. (if isVtBufferLocked (layer_heap d3 a)
      then bindE (releaseVtBuffer (vtp e) (layer_heap d3 a)) (\<lambda>(r, t). Inr t) else Inr (layer_heap d3 a)) = Inr (h4 a)"
    using foldE_layers [OF objs d3(1) [unfolded release_fold objs3]] by auto
  show "mLayers d' = mLayers d" using d3(2) by (simp add: h4(1))
  assume a: "a \<in> set ?os"
  have "vt_layer_ok (layer_heap d a)" using lives a by (simp add: lives_ok_def live_def)
  then have ok: "vt_layer_ok (h0 a)" using tame_ok [OF tame_presentTime] by (simp add: h0_def)
  have w0: "waiting (h0 a) = waiting (layer_heap d a)"
    using same_queue_waiting [OF same_queue_ops(2)] by (simp add: h0_def)
  have "updateVtBuffer (vtp e) (h0 a) = Inr (h1 a)" using h1(2) a by blast
  note w1 = update_picks [OF ok this]
  have w3: "waiting (layer_heap d3 a) = waiting (h1 a)" "picked (layer_heap d3 a)"
    using same_queue_waiting [OF h2(2) [rule_format]] same_queue_waiting [OF d3(3) [rule_format]] w1(2) by simp_all
  show "waiting (layer_heap d' a) = waiting (layer_heap d a) - 1"
  proof (cases "isVtBufferLocked (layer_heap d3 a)")
    case True
    then obtain r where "releaseVtBuffer (vtp e) (layer_heap d3 a) = Inr (r, h4 a)"
      using h4(2) a by (cases "releaseVtBuffer (vtp e) (layer_heap d3 a)") auto
    from release_takes [OF this w3(2)] show ?thesis using w3 w1 w0 h4(1) by simp
  next
    case False
    then have "h4 a = layer_heap d3 a" using h4(2) a by auto
    moreover have "waiting (layer_heap d3 a) = 0" using False by (simp add: waiting_def in_game_def)
    ultimately show ?thesis using w3 w1 w0 h4(1) by simp
  qed
qed

end
