(* ===== verification/DisplayStg.thy ===== *)
theory DisplayStg
  imports DisplayValid DiFrame
begin

text \<open>
  The strategies behind \<open>ICompositionStrategy\<close> and \<open>CompositionStrategyFactory\<close>: both strategies the
  library verifies keep the contract of a display. \<open>fresh\<close> is the object the factory makes.
\<close>

section \<open>The factory\<close>

datatype simple_strategy =
    MultiplanesComposition
  | MultiplanesWithDiComposition
  | MultiplanesWithHRComposition
  | SingleplaneComposition

definition MULTI_OSD_PLANES :: u32 where "MULTI_OSD_PLANES = 1"

definition strategy_create :: "bool \<Rightarrow> u32 \<Rightarrow> simple_strategy option" where
  "strategy_create simple flags =
     (if simple then Some
        (if and flags MULTI_OSD_PLANES \<noteq> 0 then MultiplanesComposition
         else if and flags MULTI_PLANES_WITH_DI \<noteq> 0 then MultiplanesWithDiComposition
         else if and flags MULTI_PLANES_WITH_HR \<noteq> 0 then MultiplanesWithHRComposition
         else SingleplaneComposition)
      else None)"

section \<open>MultiplanesWithDiComposition\<close>

definition wdi_ops :: "(u32 \<Rightarrow> wdi_state) \<Rightarrow> wdi_state stg_ops" where
  "wdi_ops fresh = \<lparr>
     stg_install = (\<lambda>h cs n s. s\<lparr>fbs := h, composers := cs, next_fb := max (next_fb s) n\<rparr>),
     stg_fbs = fbs, stg_composers = composers, stg_next = next_fb,
     stg_setup = (\<lambda>layers cs planes crtc flags scale mode s.
       Inr (wdi_setup layers cs planes crtc flags scale mode s)),
     stg_decide = (\<lambda>s. bindE (wdi_decideComposition s) (\<lambda>t. Inr (0, t))),
     stg_update = wdi_updateComposition, stg_commit = wdi_commit,
     stg_commitTunnelVideo = wdi_commitTunnelVideo, stg_setReleaseFence = wdi_setReleaseFence,
     stg_create = fresh\<rparr>"

definition wdi_fit :: "(cid \<Rightarrow> composer) \<Rightarrow> cid list \<Rightarrow> hw_display_plane list \<Rightarrow> bool" where
  "wdi_fit h cs planes \<longleftrightarrow> (\<exists>c \<in> set cs. h c = DummyComposer)
     \<and> (\<exists>c \<in> set cs. composer_getType (h c) = MESON_COMPOSITION_CLIENT)
     \<and> (\<exists>c \<in> set cs. composer_getType (h c) = MESON_COMPOSITION_DI)
     \<and> (\<forall>c \<in> set cs. composer_getType (h c) = MESON_COMPOSITION_DI
          \<longrightarrow> composer_valid (h c) (int (length (plane_sel HWC_VIDEO_PLANE planes) - 1)))
     \<and> plane_sel OSD_PLANE planes \<noteq> [] \<and> plane_sel HWC_VIDEO_PLANE planes \<noteq> []"

definition greatest_invalid :: "wdi_state \<Rightarrow> bool" where
  "greatest_invalid s \<longleftrightarrow> (\<forall>z. z \<le> INVALID s)"

interpretation wdi: composition_stg "wdi_ops fresh" wdi_fit "\<lambda>s. INVALID s" greatest_invalid
proof unfold_locales
  fix s :: wdi_state and h :: "fbid \<Rightarrow> drm_framebuffer" and layers n cs css planes crtc flags scale mode
  assume z: "greatest_invalid s" and dist: "distinct (map (\<lambda>f. drm_framebuffer.mZorder (h f)) layers)"
    and inputs: "\<forall>f \<in> set layers. f < n \<and> drm_framebuffer.mZorder (h f) \<noteq> INVALID s"
    and len: "int (length layers) < 2 ^ 31" and fit: "wdi_fit cs css planes"
  define u where "u = s\<lparr>fbs := h, composers := cs, next_fb := max (next_fb s) n\<rparr>"
  have layers: "layers_ok u layers" using dist inputs len by (simp add: layers_ok_def u_def)
  then have ok: "wdi_inputs_ok u layers css planes"
    using z inputs fit by (simp add: wdi_inputs_ok_def u_def wdi_fit_def greatest_invalid_def less_max_iff_disj)
  define t where "t = wdi_setup layers css planes (Some crtc) flags scale mode u"
  have ready: "frame_ready t" by (rule wdi_setup_frame_ready [OF ok t_def])
  have c: "wdi_collected layers css planes u t"
    unfolding t_def by (rule wdi_setup_collected) (use layers in \<open>simp add: layers_ok_def\<close>)
  note ids = wdi_setup_ids(3) [OF layers c]
  have "okE (wdi_decideComposition t) (\<lambda>t. \<forall>f \<in> set layers. drm_framebuffer.mCompositionType (fbs t f) \<noteq> MESON_COMPOSITION_UNDETERMINED)"
    by (rule okE_mono [OF wdi_decide_frame [OF ready]]) (simp add: frame_decided_def ids)
  then show "okE (bindE (stg_setup (wdi_ops fresh) layers css planes (Some crtc) flags scale mode
        (stg_install (wdi_ops fresh) h cs n s)) (stg_decide (wdi_ops fresh)))
      (\<lambda>(r, t). 0 \<le> r \<and> (\<forall>f \<in> set layers. drm_framebuffer.mCompositionType (stg_fbs (wdi_ops fresh) t f) \<noteq> MESON_COMPOSITION_UNDETERMINED))"
    by (simp add: wdi_ops_def t_def [unfolded u_def] okE_simps)
qed

section \<open>MultiplanesComposition\<close>

text \<open>It has no release fence to take and makes no framebuffers.\<close>

definition mp_ops :: "(u32 \<Rightarrow> mp_state) \<Rightarrow> mp_state stg_ops" where
  "mp_ops fresh = \<lparr>
     stg_install = (\<lambda>h cs n s. s\<lparr>fbs := h, composers := cs\<rparr>),
     stg_fbs = fbs, stg_composers = composers, stg_next = (\<lambda>s. 0),
     stg_setup = (\<lambda>layers cs planes crtc flags scale mode. mp_setup layers cs planes crtc flags),
     stg_decide = (\<lambda>s. bindE (decideComposition s) (\<lambda>t. Inr (0, t))),
     stg_update = updateComposition, stg_commit = (\<lambda>s. bindE (commit s) (\<lambda>t. Inr (0, t))),
     stg_commitTunnelVideo = (\<lambda>s. Inr (0, s)), stg_setReleaseFence = (\<lambda>fence s. s),
     stg_create = fresh\<rparr>"

definition mp_fit :: "(cid \<Rightarrow> composer) \<Rightarrow> cid list \<Rightarrow> hw_display_plane list \<Rightarrow> bool" where
  "mp_fit h cs planes \<longleftrightarrow> (\<exists>c \<in> set cs. h c = DummyComposer)
     \<and> (\<exists>c \<in> set cs. composer_getType (h c) = MESON_COMPOSITION_CLIENT)
     \<and> (\<forall>c \<in> set cs. composer_getType (h c) = MESON_COMPOSITION_DI \<longrightarrow> composer_valid (h c) 0)
     \<and> planes_ok planes \<and> plane_sel OSD_PLANE planes \<noteq> []"

interpretation mp: composition_stg "mp_ops fresh" mp_fit "\<lambda>s. INVALID s" "\<lambda>s. True"
proof unfold_locales
  fix s :: mp_state and h :: "fbid \<Rightarrow> drm_framebuffer" and cs :: "cid \<Rightarrow> composer"
    and layers css planes crtc flags scale mode
    and n :: nat
  assume dist: "distinct (map (\<lambda>f. drm_framebuffer.mZorder (h f)) layers)"
    and inputs: "\<forall>f \<in> set layers. f < n \<and> drm_framebuffer.mZorder (h f) \<noteq> INVALID s"
    and len: "int (length layers) < 2 ^ 31" and fit: "mp_fit cs css planes"
  let ?u = "s\<lparr>fbs := h, composers := cs\<rparr>"
  have "layers_ok ?u layers" using dist inputs len by (simp add: layers_ok_def)
  moreover have "composers_ok ?u css" using fit by (simp add: composers_ok_def mp_fit_def)
  ultimately have su: "okE (mp_setup layers css planes (Some crtc) flags ?u) (setup_post layers css planes (Some crtc) ?u)"
    by (rule mp_setup_post) (use fit in \<open>simp_all add: mp_fit_def\<close>)
  have "okE (decideComposition t) (\<lambda>r. \<forall>f \<in> set layers. drm_framebuffer.mCompositionType (fbs r f) \<noteq> MESON_COMPOSITION_UNDETERMINED)"
    if p: "setup_post layers css planes (Some crtc) ?u t" for t
  proof (rule okE_mono [OF decide_decided])
    show "mp_ready t" using p by (simp add: setup_post_def)
    have "snd ` set (mFramebuffers t) = set layers" using p by (simp add: setup_post_def image_image)
    then have "set layers \<subseteq> set (fb_ids t)" by (simp add: fb_ids_def)
    then show "\<forall>f \<in> set layers. drm_framebuffer.mCompositionType (fbs r f) \<noteq> MESON_COMPOSITION_UNDETERMINED" if "decided t r" for r
      using typed_decided [OF that] by blast
  qed
  then show "okE (bindE (stg_setup (mp_ops fresh) layers css planes (Some crtc) flags scale mode
        (stg_install (mp_ops fresh) h cs n s)) (stg_decide (mp_ops fresh)))
      (\<lambda>(r, t). 0 \<le> r \<and> (\<forall>f \<in> set layers. drm_framebuffer.mCompositionType (stg_fbs (mp_ops fresh) t f) \<noteq> MESON_COMPOSITION_UNDETERMINED))"
    using su by (simp add: mp_ops_def okE_simps) (elim okE_mono, simp add: okE_simps)
qed

end
