(* ===== verification/DisplayProps.thy ===== *)
theory DisplayProps
  imports DisplayCalls DisplayTunnel DisplayStg VtLayerProps
begin

text \<open>The properties of a display, each with a witness on a display with two layers.\<close>

section \<open>What is reported and accepted\<close>

text \<open>The layers present are layers of the display.\<close>

definition present_ok :: "'s hwc2_display \<Rightarrow> bool" where
  "present_ok d \<longleftrightarrow> distinct (mPresentLayers d) \<and> set (mPresentLayers d) \<subseteq> set (layer_objs d)"

lemma at_frame_present_ok:
  assumes ok: "disp_ok d" and at: "at_frame e d d'" and keep: "keeps_layers d d'"
  shows "present_ok d'"
proof -
  have m: "mset (mPresentLayers d') = mset (filter (\<lambda>a. \<not> skippedLayer (updates_list d) (layer_heap d a)) (layer_objs d))"
    using at by (simp add: at_frame_def)
  have "distinct (layer_objs d)" using ok by (simp add: disp_ok_def)
  then have "distinct (mPresentLayers d')" using mset_eq_imp_distinct_iff [OF m] by simp
  moreover have "set (mPresentLayers d') \<subseteq> set (layer_objs d)" using mset_eq_setD [OF m] by auto
  moreover have "layer_objs d' = layer_objs d" using keep by (simp add: keeps_layers_def layer_objs_def)
  ultimately show ?thesis by (simp add: present_ok_def)
qed

text \<open>What \<open>getChangedCompositionTypes\<close> has to report.\<close>

definition changed_types :: "disp_env \<Rightarrow> 's hwc2_display \<Rightarrow> (nat \<times> int) list" where
  "changed_types e d = map (\<lambda>a. (fb_object.mId (layer_heap d a), mesonComp2Hwc2Comp e (layer_heap d a)))
     (filter (\<lambda>a. changes_type e (layer_heap d a)) (mPresentLayers d))"

lemma changed_reported:
  assumes ok: "disp_ok d" and pres: "present_ok d" and ch: "mChangedLayers d = changed_ids e d"
  shows "getChangedCompositionTypes e d = Inr (changed_types e d)"
proof -
  have find: "layers_find (fb_object.mId (layer_heap d a)) d = Some a" if "a \<in> set (mPresentLayers d)" for a
  proof -
    from that pres obtain i where i: "(i, a) \<in> set (mLayers d)" by (force simp: present_ok_def layer_objs_def)
    then have "fb_object.mId (layer_heap d a) = i" using ok by (auto simp: disp_ok_def)
    moreover have "distinct (map slot_of (map fst (mLayers d)))" using ok by (simp add: disp_ok_def ids_ok_def)
    then have "distinct (map fst (mLayers d))" unfolding distinct_map by blast
    ultimately show ?thesis using i by (simp add: layers_find_def)
  qed
  have "foldE (\<lambda>i out. bindE (getE NullDeref (layers_find i d)) (\<lambda>a. Inr (out @ [(i, mesonComp2Hwc2Comp e (layer_heap d a))])))
      (map (\<lambda>a. fb_object.mId (layer_heap d a)) ps) out
    = Inr (out @ map (\<lambda>a. (fb_object.mId (layer_heap d a), mesonComp2Hwc2Comp e (layer_heap d a))) ps)"
    if "set ps \<subseteq> set (mPresentLayers d)" for ps out
    using that
  proof (induction ps arbitrary: out)
    case (Cons a ps)
    then show ?case using find [of a] by (simp add: getE_def)
  qed simp
  then show ?thesis
    by (simp add: getChangedCompositionTypes_def ch changed_ids_def changed_types_def)
qed

lemma accept_settles:
  assumes pres: "present_ok d"
  shows "changed_ids e (acceptDisplayChanges e d) = []"
proof -
  let ?f = "\<lambda>l. snd (commitCompType (mesonComp2Hwc2Comp e l) l)"
  have "acceptDisplayChanges e d = d\<lparr>layer_heap := (\<lambda>a. if a \<in> set (mPresentLayers d) then ?f (layer_heap d a) else layer_heap d a)\<rparr>"
    unfolding acceptDisplayChanges_def by (rule fold_layers) (use pres in \<open>simp add: present_ok_def\<close>)
  moreover have "\<not> changes_type e (?f l)" for l
  proof -
    have "mesonComp2Hwc2Comp e (?f l) = mesonComp2Hwc2Comp e l" by (rule mesonComp_cong) (simp_all add: commitCompType_def)
    moreover have "mHwcCompositionType (?f l) = mesonComp2Hwc2Comp e l" by (simp add: commitCompType_def)
    ultimately show ?thesis by (simp add: changes_type_def)
  qed
  ultimately show ?thesis by (simp add: changed_ids_def)
qed

section \<open>The rounds of the tunnel thread\<close>

definition rounds_done :: "'s stg_ops \<Rightarrow> 's hwc2_display \<Rightarrow> fault + 's hwc2_display \<Rightarrow> bool" where
  "rounds_done g d r \<longleftrightarrow> yields r (\<lambda>d'. \<not> disp_newGameBuffer d' \<and> keeps_layers d d')
     \<and> (tunnel_total g \<and> mCompositionStrategy d \<noteq> None \<longrightarrow> okE r (\<lambda>_. True))"

lemma rounds_step:
  assumes ok: "lives_ok d"
    and rest: "\<And>d1. vtRound e g d = Inr d1 \<Longrightarrow> disp_newGameBuffer d1
      \<Longrightarrow> \<exists>r. vtRounds e g d1 = Some r \<and> rounds_done g d1 r"
  shows "\<exists>r. vtRounds e g d = Some r \<and> rounds_done g d r"
proof (cases "vtRound e g d")
  case (Inl f)
  then have "\<not> (tunnel_total g \<and> mCompositionStrategy d \<noteq> None)" using round_total [OF ok, of g e] by (cases "mCompositionStrategy d") auto
  with Inl show ?thesis by (subst vtRounds.simps) (simp add: rounds_done_def)
next
  case (Inr d1)
  have k: "keeps_layers d d1" using yieldsD [OF keeps_round [OF ok] Inr] .
  have s: "tunnel_total g \<Longrightarrow> mCompositionStrategy d \<noteq> None \<Longrightarrow> mCompositionStrategy d1 = mCompositionStrategy d"
    using round_total [OF ok, of g e] Inr by simp
  show ?thesis
  proof (cases "disp_newGameBuffer d1")
    case True
    from rest [OF Inr True] obtain r where r: "vtRounds e g d1 = Some r" "rounds_done g d1 r" by blast
    have "rounds_done g d r" using r(2) s keeps_layers_trans [OF k] by (auto simp: rounds_done_def yields_def)
    with r(1) True Inr show ?thesis by (subst vtRounds.simps) simp
  next
    case False
    with Inr k show ?thesis by (subst vtRounds.simps) (simp add: rounds_done_def)
  qed
qed

lemma vtRounds_end:
  assumes "lives_ok d" and "distinct (layer_objs d)"
  shows "\<exists>r. vtRounds e g d = Some r \<and> rounds_done g d r"
proof -
  have game: "\<exists>r. vtRounds e g d = Some r \<and> rounds_done g d r"
    if "lives_ok d" "distinct (layer_objs d)" "vt_waiting d = n" "disp_newGameBuffer d" for d n
    using that
  proof (induction n arbitrary: d rule: less_induct)
    case (less n)
    show ?case
    proof (rule rounds_step [OF less.prems(1)])
      fix d1 assume run: "vtRound e g d = Inr d1" and more: "disp_newGameBuffer d1"
      note r = round_takes [OF less.prems(1,2) run]
      have k: "keeps_layers d d1" using yieldsD [OF keeps_round [OF less.prems(1)] run] .
      have o: "layer_objs d1 = layer_objs d" using r(1) by (simp add: layer_objs_def)
      obtain a where a: "a \<in> set (layer_objs d)" "0 < waiting (layer_heap d a)"
        using less.prems(4) by (auto simp: disp_newGameBuffer_def newGameBuffer_waiting)
      have "sum (\<lambda>a. waiting (layer_heap d1 a)) (set (layer_objs d)) < sum (\<lambda>a. waiting (layer_heap d a)) (set (layer_objs d))"
        by (rule sum_strict_mono_ex1) (use r(2) a in \<open>auto intro!: bexI [of _ a]\<close>)
      then have "vt_waiting d1 < n"
        using less.prems(2,3) by (simp add: vt_waiting_def o sum_list_distinct_conv_sum_set)
      from less.IH [OF this lives_ok_keeps [OF less.prems(1) k] _ refl more] o less.prems(2)
      show "\<exists>r. vtRounds e g d1 = Some r \<and> rounds_done g d1 r" by simp
    qed
  qed
  show ?thesis
  proof (rule rounds_step [OF assms(1)])
    fix d1 assume run: "vtRound e g d = Inr d1" and more: "disp_newGameBuffer d1"
    have k: "keeps_layers d d1" using yieldsD [OF keeps_round [OF assms(1)] run] .
    have "layer_objs d1 = layer_objs d" using round_takes(1) [OF assms run] by (simp add: layer_objs_def)
    then show "\<exists>r. vtRounds e g d1 = Some r \<and> rounds_done g d1 r"
      using game [OF lives_ok_keeps [OF assms(1) k] _ refl more] assms(2) by simp
  qed
qed

section \<open>The strategy of a display\<close>

definition is_osd :: "hw_display_plane \<Rightarrow> bool" where "is_osd p \<longleftrightarrow> plane_type p = OSD_PLANE"

definition takes_8k :: "disp_env \<Rightarrow> hw_display_plane list \<Rightarrow> bool" where
  "takes_8k e ps \<longleftrightarrow> (\<exists>p \<in> set ps. plane_type p = HWC_VIDEO_PLANE \<and> plane_8k e p)"

lemma strategyFlags_last:
  "ps \<noteq> [] \<Longrightarrow> strategyFlags e ps (n, hr, fl) = (n + length (filter is_osd ps), hr \<or> takes_8k e ps,
     if 1 < n + length (filter is_osd ps)
     then or fl (if hr \<or> takes_8k e ps then MULTI_PLANES_WITH_HR else MULTI_PLANES_WITH_DI) else fl)"
proof (induction ps arbitrary: n hr)
  case (Cons p ps)
  show ?case
  proof (cases "ps = []")
    case True
    then show ?thesis by (simp add: is_osd_def takes_8k_def Let_def)
  next
    case False
    then show ?thesis by (simp add: Cons.IH is_osd_def takes_8k_def disj_assoc Let_def)
  qed
qed simp

lemma strategyFlags_start:
  "strategyFlags e ps (0, False, 0) = (length (filter is_osd ps), takes_8k e ps,
     if 1 < length (filter is_osd ps)
     then if takes_8k e ps then MULTI_PLANES_WITH_HR else MULTI_PLANES_WITH_DI else 0)"
  by (cases "ps = []") (simp_all add: strategyFlags_last takes_8k_def)

section \<open>A concrete display\<close>

definition demo_disp_env :: disp_env where
  "demo_disp_env = \<lparr>vtp = demo_vt, powerc = demo_power, signed_char = False, bucket_order = (\<lambda>m. m),
     std_sort = (\<lambda>key xs. rev (sort_key key xs)), disp_answer = (\<lambda>es. 0), vsync_period = (\<lambda>es. Some 16666666),
     HWC2_COMPOSITION_CLIENT = 1, HWC2_COMPOSITION_DEVICE = 2, HWC2_COMPOSITION_SOLID_COLOR = 3,
     HWC2_COMPOSITION_SIDEBAND = 5, HWC3_POWER_MODE_SUSPEND = 4, HWC2_VSYNC_ENABLE = 1, HWC2_VSYNC_DISABLE = 2,
     debug_disableUiHwc = False, debug_hideLayers = [], debug_disableRefresh = False, debug_hide = False,
     debug_monitorDevice = False, debug_threshold = 0, isHeadlessMode = False, secureLayerProcessEnabled = False,
     softwareVsyncEnabled = False, primaryHotplugEnabled = False, getDisplayNum = 1, connector_isSecure = True,
     connector_hdmi = True, connector_tv = False, connector_virtual = False, HWC_DISPLAY_PRIMARY = 0,
     HAL_COLOR_TRANSFORM_IDENTITY = 0, vmx_property = False, plane_8k = (\<lambda>p. False),
     new_mode = (\<lambda>es. (demo_mode, ''2160p60hz'')), scale_of = (\<lambda>w. 1), content_types = (\<lambda>es. []),
     active_width = (\<lambda>es. Some 1920), active_height = (\<lambda>es. Some 1080)\<rparr>"

lemma demo_env_ok: "env_ok demo_disp_env" "\<not> signed_char demo_disp_env"
proof -
  have "sorted_wrt (\<lambda>a b. \<not> key a < key b) (rev (sort_key key xs))" for key :: "nat \<Rightarrow> u32" and xs
  proof -
    have "sorted_wrt (\<lambda>a b. key a \<le> key b) (sort_key key xs)"
      using sorted_sort_key [of key xs] by (simp add: sorted_wrt_map)
    then show ?thesis by (simp add: sorted_wrt_rev not_less)
  qed
  then show "env_ok demo_disp_env" by (simp add: env_ok_def demo_disp_env_def)
  show "\<not> signed_char demo_disp_env" by (simp add: demo_disp_env_def)
qed

text \<open>A display with a mode, two layers with a buffer each, and two osd and video planes.\<close>

abbreviation demo_stg :: "wdi_state stg_ops" where "demo_stg \<equiv> wdi_ops (\<lambda>fl. video_blank)"

definition demo_disp_ops :: "disp_op list" where
  "demo_disp_ops = [SetDisplayResource 0 (video_planes 2), SetVsync DISPLAY_DEFAULT 0, SetVsync DISPLAY_VIDEOTUNNEL 1,
     SetModeMgr, CreateLayer, CreateLayer, LayerCall 1 (SetBuffer (Some 7) (- 1)), LayerCall 1 (SetZorder 1),
     LayerCall 1 (SetCompositionType 2), LayerCall 258 (SetColor \<lparr>color_r = 0, color_g = 0, color_b = 0, color_a = 255\<rparr>),
     LayerCall 258 (SetZorder 2), LayerCall 258 (SetCompositionType 2)]"

fun run_disp :: "disp_env \<Rightarrow> 's stg_ops \<Rightarrow> disp_op list \<Rightarrow> 's hwc2_display \<Rightarrow> 's hwc2_display option" where
  "run_disp e g [] d = Some d"
| "run_disp e g (c # cs) d = (if call_ok c d then case disp_call e g c d of
     Inl f \<Rightarrow> None | Inr d' \<Rightarrow> run_disp e g cs d' else None)"

lemma run_disp_reach: "disp_reach e g d \<Longrightarrow> run_disp e g cs d = Some d' \<Longrightarrow> disp_reach e g d'"
  by (induction cs arbitrary: d) (force, auto split: if_splits sum.splits dest: disp_next)

definition demo_start :: "wdi_state hwc2_display" where
  "demo_start = display_initialize 1 0 2 (display_new demo_disp_env 0 (\<lambda>a. hwc2_layer_init demo_vt 0) video_store
     video_composers (\<lambda>k. video_blank))"

definition demo_disp :: "wdi_state hwc2_display" where
  "demo_disp = the (run_disp demo_disp_env demo_stg demo_disp_ops demo_start)"

lemma demo_run:
  "case run_disp demo_disp_env demo_stg demo_disp_ops demo_start of None \<Rightarrow> False
   | Some d \<Rightarrow> layer_objs d = [1, 0] \<and> mCompositionStrategy d = Some 0 \<and> mDisplayCrtc d = Some 0 \<and> mVsync d = Some 0
       \<and> map snd (mComposers d) = [1, 0, 2] \<and> objs_made d = 2"
  by code_simp

lemma demo_heaps:
  "fb_object.mZorder (layer_heap demo_disp 0) = 1 \<and> fb_object.mZorder (layer_heap demo_disp 1) = 2"
  by code_simp

lemma demo_disp_run: "run_disp demo_disp_env demo_stg demo_disp_ops demo_start = Some demo_disp"
  using demo_run by (simp add: demo_disp_def split: option.splits)

lemma demo_reach: "disp_reach demo_disp_env demo_stg demo_disp"
  by (rule run_disp_reach [OF _ demo_disp_run]) (simp add: demo_start_def disp_start)

text \<open>A display with a layer in game mode that has two buffers.\<close>

abbreviation game_stg :: "mp_state stg_ops" where "game_stg \<equiv> mp_ops (\<lambda>fl. demo_blank)"

definition game_start :: "mp_state hwc2_display" where
  "game_start = display_initialize 1 0 2 (display_new demo_disp_env 0 (\<lambda>a. hwc2_layer_init demo_vt 0) demo_store
     demo_composers (\<lambda>k. demo_blank))"

definition demo_game :: "mp_state hwc2_display" where
  "demo_game = the (run_disp demo_disp_env game_stg [SetDisplayResource 0 demo_planes, CreateLayer,
     LayerCall 1 (SetSidebandStream (Some 3) (Some 0)), LayerCall 1 (VideoGameMode 1),
     LayerCall 1 (FrameAvailable [demo_item 20 9000, demo_item 21 25000])] game_start)"

lemma game_run:
  "case run_disp demo_disp_env game_stg [SetDisplayResource 0 demo_planes, CreateLayer,
     LayerCall 1 (SetSidebandStream (Some 3) (Some 0)), LayerCall 1 (VideoGameMode 1),
     LayerCall 1 (FrameAvailable [demo_item 20 9000, demo_item 21 25000])] game_start of
   None \<Rightarrow> False | Some d \<Rightarrow> vt_waiting d = 2 \<and> mCompositionStrategy d = Some 0"
  by code_simp

lemma game_reach: "disp_reach demo_disp_env game_stg demo_game" "vt_waiting demo_game = 2"
  "mCompositionStrategy demo_game \<noteq> None"
proof -
  from game_run obtain d where d: "run_disp demo_disp_env game_stg [SetDisplayResource 0 demo_planes, CreateLayer,
     LayerCall 1 (SetSidebandStream (Some 3) (Some 0)), LayerCall 1 (VideoGameMode 1),
     LayerCall 1 (FrameAvailable [demo_item 20 9000, demo_item 21 25000])] game_start = Some d"
     "vt_waiting d = 2" "mCompositionStrategy d = Some 0" by (auto split: option.splits)
  then have "demo_game = d" by (simp add: demo_game_def)
  with d(2,3) run_disp_reach [OF _ d(1)] show "disp_reach demo_disp_env game_stg demo_game" "vt_waiting demo_game = 2"
    "mCompositionStrategy demo_game \<noteq> None"
    by (simp_all add: game_start_def disp_start)
qed

text \<open>What a call of \<open>validateDisplay\<close> needs: a vsync, a crtc, a strategy that fits the composers and
  planes, and a z-order of its own for every layer.\<close>

definition wdi_display_ready :: "wdi_state hwc2_display \<Rightarrow> bool" where
  "wdi_display_ready d \<longleftrightarrow> mVsync d \<noteq> None \<and> mDisplayCrtc d \<noteq> None
     \<and> (\<exists>k. mCompositionStrategy d = Some k \<and> greatest_invalid (stg_heap d k)
          \<and> frame_layers (INVALID (stg_heap d k)) d (layer_objs d))
     \<and> wdi_fit (composer_heap d) (map snd (mComposers d)) (mPlanes d)"

lemma demo_parts:
  "INVALID (stg_heap demo_disp 0) = - 1 \<and> length (plane_sel OSD_PLANE (mPlanes demo_disp)) = 2
   \<and> length (plane_sel HWC_VIDEO_PLANE (mPlanes demo_disp)) = 2
   \<and> map (\<lambda>c. composer_getType (composer_heap demo_disp c)) [0, 1, 2]
       = [MESON_COMPOSITION_DUMMY, MESON_COMPOSITION_CLIENT, MESON_COMPOSITION_DI]
   \<and> composer_valid (composer_heap demo_disp 2) 1"
  by code_simp

lemma demo_disp_ready: "wdi_display_ready demo_disp"
proof -
  have d: "layer_objs demo_disp = [1, 0]" "mCompositionStrategy demo_disp = Some 0" "mDisplayCrtc demo_disp = Some 0"
    "mVsync demo_disp = Some 0" "map snd (mComposers demo_disp) = [1, 0, 2]" "objs_made demo_disp = 2"
    using demo_run by (simp_all add: demo_disp_run)
  have "greatest_invalid (stg_heap demo_disp 0)" using demo_parts by (simp add: greatest_invalid_def word_order.extremum)
  moreover have "frame_layers (INVALID (stg_heap demo_disp 0)) demo_disp (layer_objs demo_disp)"
    using demo_heaps demo_parts by (simp add: frame_layers_def d)
  moreover have "wdi_fit (composer_heap demo_disp) (map snd (mComposers demo_disp)) (mPlanes demo_disp)"
    using demo_parts by (auto simp: wdi_fit_def d dummy_type simp flip: length_greater_0_conv)
  ultimately show ?thesis by (simp add: wdi_display_ready_def d)
qed

lemma reach_validates:
  assumes "disp_reach e (wdi_ops fresh) d" "env_ok e" "\<not> signed_char e" "wdi_display_ready d"
  shows "okE (validateDisplay e (wdi_ops fresh) d) (\<lambda>(res, d'). frame_validated e d res d' \<and> disp_ok d'
    \<and> present_ok d')"
proof -
  have ok: "disp_ok d" by (rule disp_reach_ok [OF assms(2,3,1)])
  from assms(4) obtain k c where r: "vsync_set d" "mDisplayCrtc d = Some c" "mCompositionStrategy d = Some k"
    "greatest_invalid (stg_heap d k)" "frame_layers (INVALID (stg_heap d k)) d (layer_objs d)"
    "wdi_fit (composer_heap d) (map snd (mComposers d)) (mPlanes d)"
    by (auto simp: wdi_display_ready_def vsync_set_def)
  show ?thesis
  proof (rule okE_mono [OF wdi.validate_ok [OF ok assms(2) r(3,2,1,5,4,6)]])
    fix x assume "case x of (res, d') \<Rightarrow> frame_validated e d res d'"
    then have v: "frame_validated e d (fst x) (snd x)" by (simp add: split_def)
    then have k: "keeps_layers d (snd x)" "at_frame e d (snd x)" by (simp_all add: frame_validated_def)
    from v disp_ok_keeps [OF ok k(1)] at_frame_present_ok [OF ok k(2,1)]
    show "case x of (res, d') \<Rightarrow> frame_validated e d res d' \<and> disp_ok d' \<and> present_ok d'" by (simp add: split_def)
  qed
qed

section \<open>The properties\<close>

text \<open>C12
  Validating a frame always returns. The layers present are those that are not skipped, from the top
  of the z-order to the bottom; each has a composition type; and the caller is told whether there are
  changes and how many.
\<close>

theorem display_validates:
  assumes reach: "disp_reach e (wdi_ops fresh) d" and env: "env_ok e" "\<not> signed_char e"
    and ready: "wdi_display_ready d"
  shows "okE (validateDisplay e (wdi_ops fresh) d) (\<lambda>(res, d').
    mset (mPresentLayers d') = mset (filter (\<lambda>a. \<not> skippedLayer (updates_list d) (layer_heap d a)) (layer_objs d))
    \<and> sorted_wrt (\<lambda>a b. fb_object.mZorder (layer_heap d b) \<le> fb_object.mZorder (layer_heap d a)) (mPresentLayers d')
    \<and> (\<forall>a \<in> set (mPresentLayers d'). fb_object.mCompositionType (layer_heap d' a) \<noteq> MESON_COMPOSITION_UNDETERMINED)
    \<and> res = (if decorated d' then HWC2_ERROR_UNSUPPORTED
             else if changed_ids e d' \<noteq> [] then HWC2_ERROR_HAS_CHANGES else HWC2_ERROR_NONE,
             Some (length (changed_ids e d'), length (mOverlayLayers d')))
    \<and> mValidateDisplay d')"
  by (rule okE_mono [OF reach_validates [OF reach env ready]])
    (auto simp: frame_validated_def at_frame_def typed_layers_def not_less)

theorem display_validates_witness:
  "okE (validateDisplay demo_disp_env demo_stg demo_disp) (\<lambda>(res, d'). mValidateDisplay d')"
  by (rule okE_mono [OF display_validates [OF demo_reach demo_env_ok demo_disp_ready]]) auto

text \<open>C13
  A display is blanked over two frames: the first frame that has nothing to show blanks the screen
  through the strategy, every further one skips the strategy, whose state stays as it was, and gives
  all layers the dummy type. The first frame that has something to show lights the screen again.
\<close>

theorem blank_in_two_frames:
  assumes reach: "disp_reach e (wdi_ops fresh) d" and env: "env_ok e" "\<not> signed_char e"
    and ready: "wdi_display_ready d"
  shows "okE (validateDisplay e (wdi_ops fresh) d) (\<lambda>(res, d').
    let blank = needBlankScreen (powerc e) (mPresentLayers d' \<noteq> []) (mHwcPowerMode d) in
    getScreenStatus (mHwcPowerMode d') = blank
    \<and> (mSkipComposition d' \<longleftrightarrow> blank \<and> getScreenStatus (mHwcPowerMode d))
    \<and> (\<not> mSkipComposition d' \<or> stg_heap d' = stg_heap d
         \<and> (\<forall>a \<in> set (mPresentLayers d'). fb_object.mCompositionType (layer_heap d' a) = MESON_COMPOSITION_DUMMY)))"
  by (rule okE_mono [OF reach_validates [OF reach env ready]]) (auto simp: frame_validated_def)

theorem blank_in_two_frames_witness:
  "okE (validateDisplay demo_disp_env demo_stg demo_disp) (\<lambda>(res, d'). getScreenStatus (mHwcPowerMode d')
     = needBlankScreen demo_power (mPresentLayers d' \<noteq> []) (mHwcPowerMode demo_disp))"
  by (rule okE_mono [OF blank_in_two_frames [OF demo_reach demo_env_ok demo_disp_ready]])
    (auto simp: demo_disp_env_def Let_def)

text \<open>C14
  After a frame was validated, the caller finds for every layer whose composition type is to change,
  and for no other, the type it is to have; once it has accepted them, there is nothing left to change.
\<close>

theorem changes_settle:
  assumes reach: "disp_reach e (wdi_ops fresh) d" and env: "env_ok e" "\<not> signed_char e"
    and ready: "wdi_display_ready d"
  shows "okE (validateDisplay e (wdi_ops fresh) d) (\<lambda>(res, d').
    getChangedCompositionTypes e d' = Inr (map (\<lambda>a. (fb_object.mId (layer_heap d' a), mesonComp2Hwc2Comp e (layer_heap d' a)))
      (filter (\<lambda>a. \<not> mIsVirtualLayer (layer_heap d' a)
        \<and> mesonComp2Hwc2Comp e (layer_heap d' a) \<noteq> mHwcCompositionType (layer_heap d' a)) (mPresentLayers d')))
    \<and> changed_ids e (acceptDisplayChanges e d') = [])"
proof (rule okE_mono [OF reach_validates [OF reach env ready]], clarify)
  fix x y d' assume v: "frame_validated e d (x, y) d'" and ok: "disp_ok d'" and p: "present_ok d'"
  have "mChangedLayers d' = changed_ids e d'" using v by (simp add: frame_validated_def)
  from changed_reported [OF ok p this] accept_settles [OF p]
  show "getChangedCompositionTypes e d' = Inr (map (\<lambda>a. (fb_object.mId (layer_heap d' a), mesonComp2Hwc2Comp e (layer_heap d' a)))
      (filter (\<lambda>a. \<not> mIsVirtualLayer (layer_heap d' a)
        \<and> mesonComp2Hwc2Comp e (layer_heap d' a) \<noteq> mHwcCompositionType (layer_heap d' a)) (mPresentLayers d')))
    \<and> changed_ids e (acceptDisplayChanges e d') = []"
    unfolding changed_types_def changes_type_def by blast
qed

theorem changes_settle_witness:
  "okE (validateDisplay demo_disp_env demo_stg demo_disp)
     (\<lambda>(res, d'). changed_ids demo_disp_env (acceptDisplayChanges demo_disp_env d') = [])"
  by (rule okE_mono [OF changes_settle [OF demo_reach demo_env_ok demo_disp_ready]]) auto

text \<open>C15
  In every state a display can reach, whatever calls it got, its layers have distinct ids of 16 bits
  and are objects of their own, every layer knows its id, and every layer accounts for its tunnel buffers.
\<close>

theorem display_layers:
  assumes reach: "disp_reach e g d" and env: "env_ok e" "\<not> signed_char e"
  shows "distinct (map fst (mLayers d)) \<and> distinct (map snd (mLayers d))
    \<and> list_all (\<lambda>(i, a). i < 65536 \<and> getLayerById i d = Some a \<and> fb_object.mId (layer_heap d a) = i
        \<and> vt_layer_ok (layer_heap d a)) (mLayers d)"
proof -
  have ok: "disp_ok d" by (rule disp_reach_ok [OF env reach])
  then have ids: "ids_ok (map fst (mLayers d)) (layer_gen d)" by (simp add: disp_ok_def)
  then have "distinct (map slot_of (map fst (mLayers d)))" by (simp add: ids_ok_def)
  then have d: "distinct (map fst (mLayers d))" unfolding distinct_map by blast
  have "i < 65536" if "(i, a) \<in> set (mLayers d)" for i a
  proof -
    have "slot_of i < 256" using ids that by (force simp: ids_ok_def)
    then show ?thesis by (simp add: slot_of_def)
  qed
  moreover have "vt_layer_ok (layer_heap d a)" if "(i, a) \<in> set (mLayers d)" for i a
    using ok that by (force simp: disp_ok_def lives_ok_def live_def layer_objs_def)
  ultimately show ?thesis using d ok
    by (auto simp: list_all_iff getLayerById_def layers_find_def disp_ok_def layer_objs_def)
qed

theorem display_layers_witness: "distinct (map fst (mLayers demo_disp))"
  using display_layers [OF demo_reach demo_env_ok] by blast

text \<open>C16
  In every state a display can reach, the loop of the video tunnel thread ends: every round takes a
  buffer from each layer in game mode that has one, and it goes on only while there is one. It ends
  without a fault where the commit of the strategy never has one.
\<close>

theorem vt_rounds_return:
  assumes reach: "disp_reach e g d" and env: "env_ok e" "\<not> signed_char e"
  shows "\<exists>r. vtRounds e g d = Some r \<and> (\<forall>d'. r = Inr d' \<longrightarrow> \<not> disp_newGameBuffer d')
    \<and> (tunnel_total g \<and> mCompositionStrategy d \<noteq> None \<longrightarrow> okE r (\<lambda>d'. disp_ok d'))"
proof -
  have ok: "disp_ok d" by (rule disp_reach_ok [OF env reach])
  then obtain r where r: "vtRounds e g d = Some r" "rounds_done g d r"
    using vtRounds_end [of d e g] by (auto simp: disp_ok_def)
  then show ?thesis using disp_ok_keeps [OF ok]
    by (auto simp: rounds_done_def yields_def okE_iff)
qed

theorem vt_rounds_return_witness:
  "vt_waiting demo_game = 2 \<and> (\<exists>r. vtRounds demo_disp_env game_stg demo_game = Some r
     \<and> okE r (\<lambda>d'. \<not> disp_newGameBuffer d'))"
proof -
  have "tunnel_total game_stg" by (simp add: tunnel_total_def mp_ops_def)
  with vt_rounds_return [OF game_reach(1) demo_env_ok] game_reach(2,3) show ?thesis by (auto simp: okE_iff)
qed

text \<open>C17
  Setting the planes of a display takes an osd plane; with one the display has a single-plane strategy,
  with more the strategy for several video planes, or that for high resolution where a video plane
  takes 8K. The oldest strategy, \<open>MultiplanesComposition\<close>, is never chosen.
\<close>

theorem strategy_chosen:
  "(okE (setDisplayResource e g c ps d) (\<lambda>d'. mDisplayCrtc d' = Some c \<and> mPlanes d' = ps
       \<and> (\<exists>k. mCompositionStrategy d' = Some k \<and> stg_heap d' k = stg_create g (snd (snd (strategyFlags e ps (0, False, 0))))))
     \<longleftrightarrow> filter (\<lambda>p. plane_type p = OSD_PLANE) ps \<noteq> [])
   \<and> strategy_create True (snd (snd (strategyFlags e ps (0, False, 0)))) = Some
       (if length (filter (\<lambda>p. plane_type p = OSD_PLANE) ps) \<le> 1 then SingleplaneComposition
        else if list_ex (\<lambda>p. plane_type p = HWC_VIDEO_PLANE \<and> plane_8k e p) ps then MultiplanesWithHRComposition
        else MultiplanesWithDiComposition)"
proof
  have "is_osd = (\<lambda>p. plane_type p = OSD_PLANE)" by (simp add: fun_eq_iff is_osd_def)
  then have f: "filter is_osd ps = filter (\<lambda>p. plane_type p = OSD_PLANE) ps" by simp
  have h: "takes_8k e ps = list_ex (\<lambda>p. plane_type p = HWC_VIDEO_PLANE \<and> plane_8k e p) ps"
    by (simp add: takes_8k_def list_ex_iff)
  show "okE (setDisplayResource e g c ps d) (\<lambda>d'. mDisplayCrtc d' = Some c \<and> mPlanes d' = ps
       \<and> (\<exists>k. mCompositionStrategy d' = Some k \<and> stg_heap d' k = stg_create g (snd (snd (strategyFlags e ps (0, False, 0))))))
     \<longleftrightarrow> filter (\<lambda>p. plane_type p = OSD_PLANE) ps \<noteq> []"
    by (simp add: setDisplayResource_def strategyFlags_start f okE_simps Let_def fold_emit)
  have "and (1 :: u32) MULTI_PLANES_WITH_HR = 0" "and MULTI_PLANES_WITH_HR MULTI_OSD_PLANES = (0 :: u32)"
    "and MULTI_PLANES_WITH_DI MULTI_OSD_PLANES = (0 :: u32)" "and MULTI_PLANES_WITH_HR MULTI_PLANES_WITH_DI = (0 :: u32)"
    "and MULTI_PLANES_WITH_DI MULTI_PLANES_WITH_DI \<noteq> (0 :: u32)" "and MULTI_PLANES_WITH_HR MULTI_PLANES_WITH_HR \<noteq> (0 :: u32)"
    by (simp_all add: MULTI_PLANES_WITH_HR_def MULTI_PLANES_WITH_DI_def MULTI_OSD_PLANES_def)
  then show "strategy_create True (snd (snd (strategyFlags e ps (0, False, 0)))) = Some
       (if length (filter (\<lambda>p. plane_type p = OSD_PLANE) ps) \<le> 1 then SingleplaneComposition
        else if list_ex (\<lambda>p. plane_type p = HWC_VIDEO_PLANE \<and> plane_8k e p) ps then MultiplanesWithHRComposition
        else MultiplanesWithDiComposition)"
    by (simp add: strategyFlags_start strategy_create_def f h)
qed

end
