(* ===== verification/Spec2Isabelle.thy ===== *)
theory Spec2Isabelle
  imports DiFrame VtTunnelProps DisplayProps
begin

text \<open>
  Verification of the Amlogic hardware composer: which plane shows which
  layer, and who owns the buffers of the video layers.

  The program. A display (src/hwc2/Hwc2Display.cpp) owns layers
  (src/hwc2/Hwc2Layer.cpp). For every frame it hands the visible layers and
  the planes of its crtc to a composition strategy
  (src/composition/simplestrategy), which decides a composer and a plane for
  each layer and then programs the planes. A layer whose content comes from
  the media stack listens to a video tunnel
  (src/common/videotunnel): the event thread takes buffers from the driver,
  each layer queues them until their time stamp is due, and the instance of
  the tunnel returns a buffer to the driver when the last layer is done.

  Theories and what they model.
    Prelude: results and faults, ordered association lists (std::multimap),
      rectangles, lemma collections.
    DrmModel: the composition types of Composition.h and Composition.cpp, the
      frame buffers, planes and crtc a strategy sees.
    Composers: src/composition/composer, one record for the three composers
      (client, dummy, DI) and one function per member.
    OsdState, Multiplanes, MultiplanesOsd, ComposeRange, MultiplanesPick,
      MultiplanesVideo, MultiplanesZorder, MultiplanesSetup,
      MultiplanesDecide, MultiplanesCommit:
      MultiplanesComposition.cpp, its state mp_state, the steps of setup,
      decideComposition and commit in the order of the code.
      MultiplanesProps holds their properties. OsdDecide proves the end of a
      decision (composer, fill, pairs) once for both strategies.
    VideoState, VideoFrame, VideoChoice, VideoPlanes, VideoProcess, VideoScan,
      MultiplanesDi, DiCommit, DiWhiteboard:
      MultiplanesWithDiComposition.cpp, its state wdi_state, the choice of the
      video inputs, the processing types, the plane pairs, the commit with and
      without a whiteboard. DiPick, DiRange and DiDecide prove the osd side of
      its decision, DiFrame one frame from setup to commit. VideoProps, DiProps
      and DiFrame hold the properties.
    VtModel: DrmFramebuffer.cpp, DrmSync.cpp, VtAllocSolidColorBuffer.cpp and
      the record hwc2_layer; VtLayer and VtSetters: the operations of
      Hwc2Layer.cpp. VtCustody states which buffers a layer holds, and
      VtLayerRun the step relation of a layer with its invariant;
      VtLayerProps holds the properties.
    VtInstance: VtInstance.cpp with VtConsumer.h; VtManager: VtInstanceMgr.cpp,
      VtHandleEventsThread.cpp, VideoTunnelDev.cpp; VtRefs: reference counts
      of the buffers of an instance; VtClient: the locale buffer_client, the
      contract between an instance and a consumer; VtTunnel interprets it on
      the layers and defines the reachable states of a tunnel with several
      layers; VtManagerProps and VtTunnelProps hold the properties.
    LayerIds: BitsMap.cpp and the layer id generator of Hwc2Display.cpp, with
      the reachable states of the generator.
    PowerMode: HwcPowerMode.cpp, when a display is blanked.
    DisplayModel: the record hwc2_display of Hwc2Display.h, its layers by id,
      Hwc2Base.cpp, and the record stg_ops with the virtual functions of
      ICompositionStrategy.h. Display: validateDisplay, the report of changes
      and requests, presentDisplay, the fences, the client target.
      DisplayEvents: setup of a display, power, vsync, hot plug, mode changes,
      and the rounds of VtDisplayThread.cpp.
    DisplayLaws, DisplayFrame, DisplayValidate, DisplayValid: what each
      operation of a display keeps, and validateDisplay under the contract of
      a strategy, the locale composition_stg. DisplayStg: the factory of the
      strategies, and the contract for both strategies by interpretation.
    DisplaySteps, DisplayReach, DisplayRun, DisplayInv, DisplayCalls: the calls
      a display gets (disp_op), the displays they reach (disp_reach) and the
      invariant disp_ok. DisplayTunnel: what a round of the tunnel thread takes
      from the queues. DisplayProps holds the properties of a display.

  State and effects. Every class is a record with the names of the source and
  every member function takes and returns it. Heap objects two parts share
  (frame buffers, planes, composers) are maps from addresses. A null or
  dangling dereference, an index out of range and a failed assertion are
  results of their own (None or a fault), so that a theorem that a call
  yields a result states that no such thing happens.

  Parameters. What the kernel or the vendor libraries answer is an argument:
  the records vt_platform (gralloc, UVM, clock, system property) and vt_driver
  (the ioctls of src/videotunnel/video_tunnel.cpp), the capabilities of planes
  and crtc in DrmModel, the processors of VideoProcessorsManager in
  Composers. The answer of a layer to interruptVtProcess during a commit is a
  parameter of the strategies too, and the buffers it then releases are not
  written back to the layer. The record disp_env holds what a display asks: the
  debug and configuration flags, the connector, the orders an unordered_map and
  std::sort leave open, and the answers of the kernel to the calls logged.

  Lemma groups. For the strategies: what init and setup establish, that
  decideComposition then never faults, which layers and planes are paired and
  with which z-order, that commit programs every plane of the display once,
  and where it does not: MultiplanesComposition asserts when it takes the DI
  composer, and the strategy for several video planes shares the planes between
  commit and the tunnel thread, which both program the plane of a tunnel whose
  playback a layer interrupts (vt_answers in DiCommit reads the answers off the
  log). The properties of that commit are about a display without whiteboard,
  which has properties of its own.
  For the tunnel: custody of buffers (a buffer is queued, shown or given back,
  once), reference counts in the instance, order of release, the error paths
  of connect and of delivery. The reachable states of a tunnel (tunnel_reach)
  are those of deliveries all layers accept; the refused one is a property of
  its own. For the display: in every state the calls can
  reach the ids and objects of the layers are distinct and each layer accounts
  for its buffers; validateDisplay returns with the layers sorted and typed,
  blanks over two frames, and reports exactly the types to change; the strategy
  it gets follows from its planes.

  Bounds and loops. Time stamps are 64-bit words and handles 32-bit words, the
  counters of the strategies 32-bit words with wrap-around. Range loops are
  structural recursion over the list. The loop of acquireBuffer runs as long
  as the driver has buffers: it is a partial_function (acquireLoop) and
  acquire_returns says exactly when it ends. The loop of the tunnel thread runs
  as long as a layer in game mode has a buffer: vtRounds, another
  partial_function, and vt_rounds_return says that it ends in every reachable
  state. No definition uses fuel.

  Not modelled. The device drivers under src/common/display, the
  post-processors, the binder services and the C wrappers of the ioctls only
  pass data to the kernel, a vendor library or another process. Logging,
  tracing and dump functions are left out everywhere. Threads appear as
  interleavings of whole operations, as the mutexes of the code make them.
  Of the display the switch of the whiteboard, the virtual layer of rounded
  corners (built with ENABLE_VIRTUAL_LAYER only), the boot configuration and the
  queries it passes on to the mode manager or the mode policy are left out. The
  mode policy, the display pipes, the strategy for high resolution
  (MultiplanesWithHRComposition) and the one for a single plane are not
  modelled; where a display is shown to validate a frame, its strategy is the
  one for several video planes.
\<close>

end
